(* ===== verification/Prelude.thy ===== *)
theory Prelude
  imports Complex_Main "HOL-Library.AList" "HOL-Library.Multiset"
begin

section \<open>Prelude: Python dictionaries, sets and worklists\<close>

text \<open>
  Shared material of the development.
  \<^item> A Python \<^verbatim>\<open>dict\<close> keeps its insertion order, and several routines of the program
    iterate over one and let that order decide a result, so a dictionary is an association
    list: \<open>dict_get d k x\<close> is \<^verbatim>\<open>d.get(k, x)\<close> (and \<^verbatim>\<open>d[k]\<close> of a
    \<^verbatim>\<open>defaultdict\<close> whose default is \<open>x\<close>), \<open>dict_set k v d\<close> is
    \<^verbatim>\<open>d[k] = v\<close>, which overwrites in place or appends.
  \<^item> A Python \<^verbatim>\<open>set\<close> has no specified iteration order. Where the program turns a set
    into a list, the order is an argument \<open>it\<close> of the model with the law
    \<open>set_iteration it\<close>: from the elements inserted, in order, it yields each exactly once.
  \<^item> The worklists of the program are lists popped from the left (\<^verbatim>\<open>deque.popleft\<close>) or
    from the right (\<^verbatim>\<open>list.pop\<close>); the locale \<open>worklist\<close> is what the loops rely on.
\<close>

named_theorems dict_simps \<open>rewrite rules for dictionaries\<close>
named_theorems py_simps \<open>unfolding of Python values\<close>

subsection \<open>Dictionaries\<close>

definition dict_get :: "('k \<times> 'v) list \<Rightarrow> 'k \<Rightarrow> 'v \<Rightarrow> 'v" where
  "dict_get d k x = (case map_of d k of None \<Rightarrow> x | Some v \<Rightarrow> v)"

abbreviation dict_set :: "'k \<Rightarrow> 'v \<Rightarrow> ('k \<times> 'v) list \<Rightarrow> ('k \<times> 'v) list" where
  "dict_set \<equiv> AList.update"

abbreviation dict_keys :: "('k \<times> 'v) list \<Rightarrow> 'k list" where
  "dict_keys d \<equiv> map fst d"

definition dict_append :: "('k \<times> 'v list) list \<Rightarrow> 'k \<Rightarrow> 'v \<Rightarrow> ('k \<times> 'v list) list" where
  "dict_append d k v = dict_set k (dict_get d k [] @ [v]) d"

definition dict_touch :: "'k \<Rightarrow> 'v \<Rightarrow> ('k \<times> 'v) list \<Rightarrow> ('k \<times> 'v) list" where
  "dict_touch k x d = (case map_of d k of None \<Rightarrow> d @ [(k, x)] | Some _ \<Rightarrow> d)"

lemma dict_get_set [simp, dict_simps]:
  "dict_get (dict_set k v d) k' x = (if k' = k then v else dict_get d k' x)"
  by (simp add: dict_get_def update_conv')

lemma dict_get_Nil [simp, dict_simps]: "dict_get [] k x = x"
  by (simp add: dict_get_def)

lemma dict_get_Cons [dict_simps]:
  "dict_get ((k, v) # d) k' x = (if k' = k then v else dict_get d k' x)"
  by (simp add: dict_get_def)

lemma dict_get_append_dict [simp, dict_simps]:
  "dict_get (dict_append d k v) k' [] = (if k' = k then dict_get d k [] @ [v] else dict_get d k' [])"
  by (simp add: dict_append_def)

lemma dict_get_touch [simp, dict_simps]: "dict_get (dict_touch k x d) k' x = dict_get d k' x"
  by (auto simp: dict_touch_def dict_get_def map_add_def split: option.splits)

lemma dict_keys_set [simp]: "fst ` set (dict_set k v d) = insert k (fst ` set d)"
  by (induction d) auto

lemma distinct_dict_set [simp, intro]:
  "distinct (dict_keys d) \<Longrightarrow> distinct (dict_keys (dict_set k v d))"
  by (rule distinct_update)

lemma dict_set_fresh: "k \<notin> fst ` set d \<Longrightarrow> dict_set k v d = d @ [(k, v)]"
  by (induction d) auto

lemma dict_keys_append [simp]: "fst ` set (dict_append d k v) = insert k (fst ` set d)"
  unfolding dict_append_def by (rule dict_keys_set)

lemma dict_keys_touch [simp]: "fst ` set (dict_touch k x d) = insert k (fst ` set d)"
  by (auto simp: dict_touch_def split: option.splits)
    (metis fst_conv image_iff map_of_SomeD)

lemma map_of_dict_append: "map_of (dict_append d k v) =
    (map_of d)(k \<mapsto> (case map_of d k of None \<Rightarrow> [] | Some l \<Rightarrow> l) @ [v])"
  by (simp add: dict_append_def update_conv' dict_get_def)

lemma map_of_touch: "map_of (dict_touch k x d) k' =
    (if k' = k \<and> map_of d k = None then Some x else map_of d k')"
  by (auto simp: dict_touch_def map_add_def split: option.splits)

lemma distinct_dict_touch [simp, intro]:
  "distinct (dict_keys d) \<Longrightarrow> distinct (dict_keys (dict_touch k x d))"
  by (auto simp: dict_touch_def map_of_eq_None_iff split: option.splits)

lemma distinct_dict_append [simp, intro]:
  "distinct (dict_keys d) \<Longrightarrow> distinct (dict_keys (dict_append d k v))"
  unfolding dict_append_def by (rule distinct_dict_set)

lemma map_of_key: "k \<in> fst ` set d \<Longrightarrow> \<exists>v. map_of d k = Some v"
  by (metis map_of_eq_None_iff option.exhaust)

lemma dict_get_eqI: "map_of d k = Some v \<Longrightarrow> dict_get d k x = v"
  by (simp add: dict_get_def)

lemma dict_get_distinct: "distinct (dict_keys d) \<Longrightarrow> (k, v) \<in> set d \<Longrightarrow> dict_get d k x = v"
  by (simp add: dict_get_eqI)

lemma dict_get_notin: "k \<notin> set (dict_keys d) \<Longrightarrow> dict_get d k x = x"
  by (simp add: dict_get_def map_of_eq_None_iff[THEN iffD2])

lemma count_list_replicate [simp]: "count_list (replicate n x) y = (if x = y then n else 0)"
  by (induction n) auto

subsection \<open>Results\<close>

text \<open>A function of the program that can raise returns \<open>Inl error\<close> or \<open>Inr result\<close>; \<open>bindR\<close> runs
  what follows a call, and an error ends the run.\<close>

fun bindR :: "'e + 'a \<Rightarrow> ('a \<Rightarrow> 'e + 'b) \<Rightarrow> 'e + 'b" where
  "bindR (Inl e) f = Inl e"
| "bindR (Inr x) f = f x"

lemma bindR_Inr_iff: "bindR r f = Inr y \<longleftrightarrow> (\<exists>x. r = Inr x \<and> f x = Inr y)"
  by (cases r) auto

lemma bindR_Inl_iff: "bindR r f = Inl e \<longleftrightarrow> r = Inl e \<or> (\<exists>x. r = Inr x \<and> f x = Inl e)"
  by (cases r) auto

lemmas bindR_iffs = bindR_Inr_iff bindR_Inl_iff

lemma bindR_split:
  "P (bindR r f) \<longleftrightarrow> (\<forall>e. r = Inl e \<longrightarrow> P (Inl e)) \<and> (\<forall>x. r = Inr x \<longrightarrow> P (f x))"
  by (cases r) auto

fun mapR :: "('a \<Rightarrow> 'e + 'b) \<Rightarrow> 'a list \<Rightarrow> 'e + 'b list" where
  "mapR f [] = Inr []"
| "mapR f (x # xs) = bindR (f x) (\<lambda>y. bindR (mapR f xs) (\<lambda>ys. Inr (y # ys)))"

lemma mapR_Inr_iff: "mapR f xs = Inr ys \<longleftrightarrow> list_all2 (\<lambda>x y. f x = Inr y) xs ys"
  by (induction xs arbitrary: ys) (auto simp: bindR_iffs list_all2_Cons1)

definition filterR :: "('a \<Rightarrow> 'e + bool) \<Rightarrow> 'a list \<Rightarrow> 'e + 'a list" where
  "filterR f xs = bindR (mapR f xs) (\<lambda>bs. Inr (map fst (filter snd (zip xs bs))))"

lemma filterR_Inr: "filterR f xs = Inr ys \<Longrightarrow> ys = filter (\<lambda>x. f x = Inr True) xs"
proof -
  have "list_all2 (\<lambda>x b. f x = Inr b) xs bs \<Longrightarrow> map fst (filter snd (zip xs bs)) = filter (\<lambda>x. f x = Inr True) xs" for bs
    by (induction rule: list_all2_induct) auto
  then show "filterR f xs = Inr ys \<Longrightarrow> ys = filter (\<lambda>x. f x = Inr True) xs"
    by (auto simp: filterR_def bindR_iffs mapR_Inr_iff)
qed

subsection \<open>Iteration over a set\<close>

definition set_add :: "'a \<Rightarrow> 'a list \<Rightarrow> 'a list" where
  "set_add x xs = (if x \<in> set xs then xs else xs @ [x])"

lemma set_set_add [simp]: "set (set_add x xs) = insert x (set xs)"
  by (auto simp: set_add_def)

lemma distinct_set_add [simp]: "distinct (set_add x xs) \<longleftrightarrow> distinct xs"
  by (auto simp: set_add_def)

definition set_iteration :: "('a list \<Rightarrow> 'a list) \<Rightarrow> bool" where
  "set_iteration it \<longleftrightarrow> (\<forall>xs. set (it xs) = set xs \<and> distinct (it xs))"

lemma set_iterationD [simp]:
  "set_iteration it \<Longrightarrow> set (it xs) = set xs"
  "set_iteration it \<Longrightarrow> distinct (it xs)"
  by (auto simp: set_iteration_def)

lemma set_iteration_Nil: "set_iteration it \<Longrightarrow> it xs = [] \<longleftrightarrow> xs = []"
  by (metis set_empty set_iterationD(1))

lemma set_iteration_length: "set_iteration it \<Longrightarrow> length (it xs) = card (set xs)"
  by (metis distinct_card set_iterationD)

lemma set_iteration_remdups: "set_iteration remdups"
  by (simp add: set_iteration_def)

subsection \<open>Worklists\<close>

datatype pop_end = PopLeft | PopRight

fun pop_node :: "pop_end \<Rightarrow> 'a list \<Rightarrow> 'a \<times> 'a list" where
  "pop_node PopLeft q = (hd q, tl q)"
| "pop_node PopRight q = (last q, butlast q)"

locale worklist =
  fixes pop :: "'a list \<Rightarrow> 'a \<times> 'a list"
  assumes mset_pop: "q \<noteq> [] \<Longrightarrow> mset q = add_mset (fst (pop q)) (mset (snd (pop q)))"
begin

lemma length_pop: "q \<noteq> [] \<Longrightarrow> length q = Suc (length (snd (pop q)))"
  by (metis mset_pop size_add_mset size_mset)

lemma set_pop: "q \<noteq> [] \<Longrightarrow> set q = insert (fst (pop q)) (set (snd (pop q)))"
  by (metis mset_pop set_mset_add_mset_insert set_mset_mset)

lemma distinct_pop:
  assumes "q \<noteq> []" and "distinct q"
  shows "distinct (snd (pop q))" and "fst (pop q) \<notin> set (snd (pop q))"
proof -
  have "mset (fst (pop q) # snd (pop q)) = mset q"
    using mset_pop[OF assms(1)] by simp
  then have "distinct (fst (pop q) # snd (pop q))"
    using assms(2) mset_eq_imp_distinct_iff by blast
  then show "distinct (snd (pop q))" and "fst (pop q) \<notin> set (snd (pop q))"
    by simp_all
qed

end

lemma mset_pop_node:
  assumes "q \<noteq> []"
  shows "mset q = add_mset (fst (pop_node p q)) (mset (snd (pop_node p q)))"
proof (cases p)
  case PopLeft
  with assms show ?thesis by (cases q) simp_all
next
  case PopRight
  with assms show ?thesis by (cases q rule: rev_cases) simp_all
qed

interpretation pops: worklist "pop_node p" for p :: pop_end
  by unfold_locales (rule mset_pop_node)

end
