(* ===== verification/Kahn.thy ===== *)
theory Kahn
  imports Prelude
begin

section \<open>Kahn's algorithm\<close>

text \<open>
  The program runs Kahn's algorithm four times: \<^verbatim>\<open>ConfigParser.detect_cycles_kahn\<close>,
  \<^verbatim>\<open>ConfigParser.parse_dag\<close> and \<^verbatim>\<open>ConfigParser.find_parallel_tasks\<close> pop a
  \<^verbatim>\<open>deque\<close> from the left, \<^verbatim>\<open>plan_validator._detect_cycle\<close> pops a list from the
  right. This theory holds the graph construction and the loop they share, proves that the loop
  terminates on every input, and proves it correct for both pop disciplines: what it emits is
  distinct, every predecessor of an emitted node is emitted before it, and it emits every node
  exactly when the graph has no cycle.
\<close>

type_synonym 'a graph = "('a \<times> 'a list) list"
type_synonym 'a degrees = "('a \<times> int) list"

subsection \<open>Building the graph and the in-degrees\<close>

fun add_deps :: "'a \<Rightarrow> 'a list \<Rightarrow> 'a graph \<times> 'a degrees \<Rightarrow> 'a graph \<times> 'a degrees" where
  "add_deps t [] gd = gd"
| "add_deps t (x # xs) gd =
     add_deps t xs (dict_append (fst gd) x t, dict_set t (dict_get (snd gd) t 0 + 1) (snd gd))"

fun build_graph :: "('a \<times> 'a list) list \<Rightarrow> 'a graph \<times> 'a degrees \<Rightarrow> 'a graph \<times> 'a degrees" where
  "build_graph [] gd = gd"
| "build_graph ((t, ds) # ts) gd =
     (let gd' = add_deps t ds gd
      in build_graph ts (fst gd', dict_set t (dict_get (snd gd') t 0) (snd gd')))"

subsection \<open>The loop\<close>

fun relax :: "'a list \<Rightarrow> 'a degrees \<Rightarrow> 'a list \<Rightarrow> 'a degrees \<times> 'a list" where
  "relax [] d q = (d, q)"
| "relax (y # ys) d q =
     (let v = dict_get d y 0 - 1
      in relax ys (dict_set y v d) (if v = 0 then q @ [y] else q))"

definition pending :: "'a degrees \<Rightarrow> nat" where
  "pending d = sum_list (map (nat \<circ> snd) d)"

lemma pending_set: "pending (dict_set k v d) + nat (dict_get d k 0) = pending d + nat v"
  by (induction d) (auto simp: pending_def dict_get_def)

lemma relax_pending:
  "length (snd (relax ys d q)) + pending (fst (relax ys d q)) \<le> length q + pending d"
proof (induction ys d q rule: relax.induct)
  case (2 y ys d q)
  let ?v = "dict_get d y 0 - 1"
  have "length (if ?v = 0 then q @ [y] else q) + pending (dict_set y ?v d) \<le> length q + pending d"
    using pending_set[of y ?v d] by (auto split: if_splits)
  with 2 show ?case by (simp add: Let_def)
qed simp

function kahn_loop :: "pop_end \<Rightarrow> 'a graph \<Rightarrow> 'a degrees \<Rightarrow> 'a list \<Rightarrow> 'a list \<Rightarrow> 'a degrees \<times> 'a list" where
  "kahn_loop p g d q acc =
     (if q = [] then (d, acc)
      else let (x, q') = pop_node p q;
               (d', q'') = relax (dict_get g x []) d q'
           in kahn_loop p g d' q'' (acc @ [x]))"
  by pat_completeness auto
termination
proof (relation "measure (\<lambda>(p, g, d, q, acc). length q + pending d)", goal_cases)
  case (2 p g d q acc pop x q' rel d' q'')
  have "length q'' + pending d' \<le> length q' + pending d"
    using relax_pending[of "dict_get g x []" d q'] 2 by (metis fst_conv snd_conv)
  moreover have "length q = Suc (length q')"
    using pops.length_pop[of q p] 2 by (metis snd_conv)
  ultimately show ?case by simp
qed simp

declare kahn_loop.simps [simp del]

lemma kahn_loop_Nil [simp]: "kahn_loop p g d [] acc = (d, acc)"
  by (simp add: kahn_loop.simps)

lemma kahn_loop_step:
  "q \<noteq> [] \<Longrightarrow> kahn_loop p g d q acc =
     (let x = fst (pop_node p q); r = relax (dict_get g x []) d (snd (pop_node p q))
      in kahn_loop p g (fst r) (snd r) (acc @ [x]))"
  by (subst kahn_loop.simps) (simp add: Let_def split: prod.split)

subsection \<open>Specification\<close>

abbreviation succs :: "'a graph \<Rightarrow> 'a \<Rightarrow> 'a list" where
  "succs g x \<equiv> dict_get g x []"

definition edges :: "'a graph \<Rightarrow> 'a set \<Rightarrow> ('a \<times> 'a) set" where
  "edges g N = {(x, y). x \<in> N \<and> y \<in> set (succs g x)}"

definition closed_graph :: "'a graph \<Rightarrow> 'a set \<Rightarrow> bool" where
  "closed_graph g N \<longleftrightarrow> (\<forall>x\<in>N. set (succs g x) \<subseteq> N)"

definition in_edges :: "'a graph \<Rightarrow> 'a set \<Rightarrow> 'a \<Rightarrow> nat" where
  "in_edges g N y = (\<Sum>x\<in>N. count_list (succs g x) y)"

definition preds_before :: "'a graph \<Rightarrow> 'a set \<Rightarrow> 'a list \<Rightarrow> bool" where
  "preds_before g N xs \<longleftrightarrow>
     (\<forall>i < length xs. \<forall>x\<in>N. xs ! i \<in> set (succs g x) \<longrightarrow> x \<in> set (take i xs))"

lemma preds_before_Nil [simp]: "preds_before g N []"
  by (simp add: preds_before_def)

lemma preds_before_snoc:
  "preds_before g N (xs @ [y]) \<longleftrightarrow>
     preds_before g N xs \<and> (\<forall>x\<in>N. y \<in> set (succs g x) \<longrightarrow> x \<in> set xs)"
  by (auto simp: preds_before_def nth_append less_Suc_eq)

lemma preds_before_edge:
  assumes "preds_before g N xs" and "(x, y) \<in> edges g N" and "i < length xs" and "xs ! i = y"
  shows "\<exists>j<i. xs ! j = x"
  using assms by (fastforce simp: preds_before_def edges_def in_set_conv_nth)

lemma preds_before_trancl:
  assumes pb: "preds_before g N xs" and tc: "(x, y) \<in> (edges g N)\<^sup>+"
  shows "\<lbrakk>i < length xs; xs ! i = y\<rbrakk> \<Longrightarrow> \<exists>j<i. xs ! j = x"
  using tc
proof (induction arbitrary: i rule: trancl.induct)
  case (r_into_trancl a b)
  then show ?case using preds_before_edge[OF pb] by blast
next
  case (trancl_into_trancl a b c)
  then obtain k where "k < i" "xs ! k = b"
    using preds_before_edge[OF pb] by blast
  moreover from this trancl_into_trancl(4) have "k < length xs" by simp
  ultimately show ?case
    using trancl_into_trancl.IH less_trans by blast
qed

lemma preds_before_acyclic:
  assumes "preds_before g N xs" and "distinct xs" and "N \<subseteq> set xs" and "closed_graph g N"
  shows "acyclic (edges g N)"
proof (rule acyclicI, rule allI, rule notI)
  fix x assume c: "(x, x) \<in> (edges g N)\<^sup>+"
  then have "x \<in> N" by (induction rule: converse_trancl_induct) (auto simp: edges_def)
  then obtain i where "i < length xs" "xs ! i = x"
    using assms(3) by (metis in_set_conv_nth subsetD)
  then show False
    using preds_before_trancl[OF assms(1) c] assms(2) nth_eq_iff_index_eq by fastforce
qed

subsection \<open>The inner loop\<close>

lemma relax_spec:
  assumes "\<forall>v. int (count_list ys v) \<le> dict_get d v 0 \<or> v \<notin> set ys"
  shows "(\<forall>v. dict_get (fst (relax ys d q)) v 0 = dict_get d v 0 - int (count_list ys v)) \<and>
    (\<exists>ns. snd (relax ys d q) = q @ ns \<and> distinct ns \<and>
       set ns = {v \<in> set ys. dict_get d v 0 = int (count_list ys v)})"
  using assms
proof (induction ys arbitrary: d q)
  case (Cons y ys)
  let ?v = "dict_get d y 0 - 1" and ?d = "dict_set y (dict_get d y 0 - 1) d"
  let ?q = "if ?v = 0 then q @ [y] else q"
  have pre: "\<forall>v. int (count_list ys v) \<le> dict_get ?d v 0 \<or> v \<notin> set ys"
  proof
    fix v
    show "int (count_list ys v) \<le> dict_get ?d v 0 \<or> v \<notin> set ys"
      using Cons.prems[rule_format, of v] by (auto split: if_splits)
  qed
  note IH = Cons.IH[OF pre, of ?q]
  obtain ns where ns: "snd (relax ys ?d ?q) = ?q @ ns" "distinct ns"
      "set ns = {v \<in> set ys. dict_get ?d v 0 = int (count_list ys v)}"
    using IH by blast
  have zero: "y \<notin> set ys" if "?v = 0"
  proof
    assume "y \<in> set ys"
    then have "count_list ys y \<noteq> 0" by (simp add: count_list_0_iff)
    moreover have "int (count_list ys y) \<le> 0"
      using pre \<open>y \<in> set ys\<close> that by (metis dict_get_set)
    ultimately show False by simp
  qed
  have deg: "\<forall>v. dict_get (fst (relax (y # ys) d q)) v 0 = dict_get d v 0 - int (count_list (y # ys) v)"
    using IH by (auto simp: Let_def)
  let ?ns = "(if ?v = 0 then [y] else []) @ ns"
  have "snd (relax (y # ys) d q) = q @ ?ns"
    using ns(1) by (simp add: Let_def)
  moreover have "distinct ?ns"
    using ns zero by auto
  moreover have "set ?ns = {v \<in> set (y # ys). dict_get d v 0 = int (count_list (y # ys) v)}"
  proof (rule set_eqI)
    fix v
    have m: "v \<in> set ns \<longleftrightarrow> v \<in> set ys \<and> (if v = y then ?v else dict_get d v 0) = int (count_list ys v)"
      using ns(3)[THEN eqset_imp_iff, of v] by simp
    show "v \<in> set ?ns \<longleftrightarrow> v \<in> {v \<in> set (y # ys). dict_get d v 0 = int (count_list (y # ys) v)}"
    proof (cases "v = y")
      case True
      show ?thesis
      proof (cases "y \<in> set ys")
        case True
        with zero have "?v \<noteq> 0" by blast
        with True \<open>v = y\<close> m show ?thesis by auto
      next
        case False
        then have "count_list ys y = 0" by simp
        with False \<open>v = y\<close> m show ?thesis by auto
      qed
    qed (use m in auto)
  qed
  ultimately show ?case using deg by blast
qed simp

subsection \<open>The loop invariant\<close>

definition kahn_inv :: "'a graph \<Rightarrow> 'a set \<Rightarrow> 'a degrees \<Rightarrow> 'a list \<Rightarrow> 'a list \<Rightarrow> bool" where
  "kahn_inv g N d q acc \<longleftrightarrow>
     distinct (acc @ q) \<and> set (acc @ q) \<subseteq> N \<and> preds_before g N acc \<and>
     (\<forall>v\<in>N. dict_get d v 0 = int (in_edges g (N - set acc) v)) \<and>
     (\<forall>v\<in>N. v \<in> set (acc @ q) \<longleftrightarrow> dict_get d v 0 = 0)"

lemma in_edges_remove:
  assumes "finite N" and "x \<in> N"
  shows "in_edges g N v = count_list (succs g x) v + in_edges g (N - {x}) v"
  unfolding in_edges_def by (rule sum.remove[OF assms])

lemma in_edges_0_iff: "finite N \<Longrightarrow> in_edges g N v = 0 \<longleftrightarrow> (\<forall>x\<in>N. v \<notin> set (succs g x))"
  by (auto simp: in_edges_def count_list_0_iff)

lemma kahn_inv_step:
  assumes inv: "kahn_inv g N d q acc" and q: "q \<noteq> []" and fin: "finite N"
    and cl: "closed_graph g N"
    and x: "x = fst (pop_node p q)" and r: "r = relax (succs g x) d (snd (pop_node p q))"
  shows "kahn_inv g N (fst r) (snd r) (acc @ [x])"
proof -
  let ?q = "snd (pop_node p q)"
  note sq = pops.set_pop[OF q, of p, folded x]
  have dq: "distinct q" and da: "distinct acc" and disj: "set acc \<inter> set q = {}"
    and sub: "set (acc @ q) \<subseteq> N" and pb: "preds_before g N acc"
    and deg: "\<And>v. v \<in> N \<Longrightarrow> dict_get d v 0 = int (in_edges g (N - set acc) v)"
    and zero: "\<And>v. v \<in> N \<Longrightarrow> v \<in> set (acc @ q) \<longleftrightarrow> dict_get d v 0 = 0"
    using inv by (auto simp: kahn_inv_def)
  note dq' = pops.distinct_pop[OF q dq, of p, folded x]
  have xN: "x \<in> N" and xacc: "x \<notin> set acc" and xq: "x \<in> set q"
    using sq sub disj by auto
  have "N - set (acc @ [x]) = N - set acc - {x}" by auto
  then have rem: "in_edges g (N - set acc) v = count_list (succs g x) v + in_edges g (N - set (acc @ [x])) v" for v
    using in_edges_remove[of "N - set acc" x g v] fin xN xacc by simp
  have le: "\<forall>v. int (count_list (succs g x) v) \<le> dict_get d v 0 \<or> v \<notin> set (succs g x)"
  proof
    fix v
    show "int (count_list (succs g x) v) \<le> dict_get d v 0 \<or> v \<notin> set (succs g x)"
    proof (cases "v \<in> set (succs g x)")
      case True
      then have "v \<in> N" using cl xN by (auto simp: closed_graph_def)
      then show ?thesis using deg[of v] rem[of v] by simp
    qed simp
  qed
  from relax_spec[OF le, of ?q] obtain ns where
    d': "\<And>v. dict_get (fst r) v 0 = dict_get d v 0 - int (count_list (succs g x) v)"
    and ns: "snd r = ?q @ ns" "distinct ns"
      "set ns = {v \<in> set (succs g x). dict_get d v 0 = int (count_list (succs g x) v)}"
    unfolding r by blast
  have x0: "in_edges g (N - set acc) x = 0"
    using zero[OF xN] deg[OF xN] xq by simp
  have nsN: "set ns \<subseteq> N" using ns(3) cl xN by (auto simp: closed_graph_def)
  have old: "v \<notin> set ns" if "v \<in> set (acc @ q)" for v
  proof
    assume "v \<in> set ns"
    then have "v \<in> set (succs g x)" "dict_get d v 0 = int (count_list (succs g x) v)"
      using ns(3) by auto
    moreover have "dict_get d v 0 = 0" using zero that sub by blast
    ultimately show False by (simp add: count_list_0_iff)
  qed
  have "distinct ((acc @ [x]) @ snd r)"
    using da dq' ns(2) disj xacc sq old[of x] old xq by (auto simp: ns(1))
  moreover have "set ((acc @ [x]) @ snd r) \<subseteq> N"
    using sub sq nsN by (auto simp: ns(1))
  moreover have "preds_before g N (acc @ [x])"
    using pb x0 fin by (auto simp: preds_before_snoc in_edges_0_iff)
  moreover have new: "dict_get (fst r) v 0 = int (in_edges g (N - set (acc @ [x])) v)" if "v \<in> N" for v
    using d'[of v] deg[OF that] rem[of v] by simp
  moreover have "v \<in> set ((acc @ [x]) @ snd r) \<longleftrightarrow> dict_get (fst r) v 0 = 0" if v: "v \<in> N" for v
  proof (cases "v \<in> set (acc @ q)")
    case True
    then have "dict_get d v 0 = 0" using zero v by blast
    then have "dict_get (fst r) v 0 = 0" using new[OF v] d'[of v] by simp
    then show ?thesis using True sq by (auto simp: ns(1))
  next
    case False
    then have "dict_get d v 0 \<noteq> 0" using zero v by blast
    moreover have "v \<in> set ns \<longleftrightarrow> v \<in> set (succs g x) \<and> dict_get d v 0 = int (count_list (succs g x) v)"
      by (simp add: ns(3))
    moreover have "count_list (succs g x) v = 0" if "v \<notin> set (succs g x)"
      using that by simp
    ultimately have "v \<in> set ns \<longleftrightarrow> dict_get (fst r) v 0 = 0"
      using d'[of v] by auto
    then show ?thesis using False sq by (auto simp: ns(1))
  qed
  ultimately show ?thesis unfolding kahn_inv_def by blast
qed

lemma kahn_loop_inv:
  "\<lbrakk>kahn_inv g N d q acc; finite N; closed_graph g N; kahn_loop p g d q acc = (d', out)\<rbrakk>
   \<Longrightarrow> kahn_inv g N d' [] out"
proof (induction p g d q acc rule: kahn_loop.induct)
  case (1 p g d q acc)
  show ?case
  proof (cases "q = []")
    case True
    with 1 show ?thesis by simp
  next
    case False
    define x where "x = fst (pop_node p q)"
    define r where "r = relax (succs g x) d (snd (pop_node p q))"
    have inv: "kahn_inv g N (fst r) (snd r) (acc @ [x])"
      by (rule kahn_inv_step[OF "1.prems"(1) False "1.prems"(2,3) x_def r_def])
    have run: "kahn_loop p g (fst r) (snd r) (acc @ [x]) = (d', out)"
      using "1.prems"(4) kahn_loop_step[OF False, of p g d acc] by (simp add: Let_def x_def r_def)
    show ?thesis
      by (rule "1.IH"[of "pop_node p q" x "snd (pop_node p q)" r "fst r" "snd r"])
        (use False inv run "1.prems" in \<open>simp_all add: x_def r_def\<close>)
  qed
qed

subsection \<open>Correctness\<close>

text \<open>The set emitted is everything exactly when the graph is acyclic.\<close>

lemma kahn_inv_acyclic:
  assumes inv: "kahn_inv g N d [] out" and fin: "finite N" and ac: "acyclic (edges g N)"
  shows "set out = N"
proof (rule ccontr)
  assume ne: "set out \<noteq> N"
  let ?R = "N - set out"
  have sub: "set out \<subseteq> N" using inv by (simp add: kahn_inv_def)
  with ne have ne': "?R \<noteq> {}" by blast
  have pred: "\<exists>x\<in>?R. (x, v) \<in> edges g N" if "v \<in> ?R" for v
  proof -
    from that inv have "in_edges g ?R v \<noteq> 0" by (auto simp: kahn_inv_def)
    then obtain x where "x \<in> ?R" "v \<in> set (succs g x)"
      using fin by (auto simp: in_edges_0_iff)
    then show ?thesis by (auto simp: edges_def)
  qed
  have "finite (edges g N)"
    by (rule finite_subset[of _ "Sigma N (\<lambda>x. set (succs g x))"]) (auto simp: edges_def fin)
  then have "wf (edges g N)" using ac finite_acyclic_wf by blast
  then obtain z where "z \<in> ?R" "\<And>y. (y, z) \<in> edges g N \<Longrightarrow> y \<notin> ?R"
    using ne' by (meson wfE_min')
  with pred show False by blast
qed

theorem kahn_loop_correct:
  assumes fin: "finite N" and cl: "closed_graph g N"
    and deg: "\<And>v. v \<in> N \<Longrightarrow> dict_get d v 0 = int (in_edges g N v)"
    and q: "distinct q" "set q = {v \<in> N. dict_get d v 0 = 0}"
    and run: "kahn_loop p g d q [] = (d', out)"
  shows "distinct out" and "set out \<subseteq> N" and "preds_before g N out"
    and "set out = N \<longleftrightarrow> acyclic (edges g N)"
proof -
  have "kahn_inv g N d q []"
    using q deg by (auto simp: kahn_inv_def)
  then have inv: "kahn_inv g N d' [] out"
    using kahn_loop_inv[OF _ fin cl run] by blast
  then show "distinct out" "set out \<subseteq> N" "preds_before g N out"
    by (auto simp: kahn_inv_def)
  then show "set out = N \<longleftrightarrow> acyclic (edges g N)"
    using kahn_inv_acyclic[OF inv fin] preds_before_acyclic[OF _ _ _ cl] by blast
qed

subsection \<open>The graph the program builds\<close>

definition dep_edges :: "('a \<times> 'a list) list \<Rightarrow> ('a \<times> 'a) set" where
  "dep_edges ts = {(x, t). \<exists>ds. (t, ds) \<in> set ts \<and> x \<in> set ds}"

definition deps_known :: "('a \<times> 'a list) list \<Rightarrow> bool" where
  "deps_known ts \<longleftrightarrow> (\<forall>(t, ds) \<in> set ts. set ds \<subseteq> fst ` set ts)"

lemma add_deps_succs:
  "succs (fst (add_deps t ds gd)) x = succs (fst gd) x @ replicate (count_list ds x) t"
  by (induction t ds gd rule: add_deps.induct) (auto simp: replicate_app_Cons_same)

lemma add_deps_degree:
  "dict_get (snd (add_deps t ds gd)) v 0 = dict_get (snd gd) v 0 + (if v = t then int (length ds) else 0)"
  by (induction t ds gd rule: add_deps.induct) auto

lemma add_deps_distinct:
  "distinct (dict_keys (snd gd)) \<Longrightarrow> distinct (dict_keys (snd (add_deps t ds gd)))"
  by (induction t ds gd rule: add_deps.induct) auto

lemma add_deps_keys:
  "insert t (fst ` set (snd (add_deps t ds gd))) = insert t (fst ` set (snd gd))"
  by (induction t ds gd rule: add_deps.induct) auto

lemmas add_deps_spec = add_deps_succs add_deps_degree add_deps_distinct add_deps_keys

lemma build_graph_count:
  "count_list (succs (fst (build_graph ts gd)) x) v =
     count_list (succs (fst gd) x) v + (\<Sum>(t, ds)\<leftarrow>ts. if t = v then count_list ds x else 0)"
  by (induction ts gd rule: build_graph.induct) (simp_all add: Let_def add_deps_succs)

lemma build_graph_degree:
  "dict_get (snd (build_graph ts gd)) v 0 =
     dict_get (snd gd) v 0 + int (\<Sum>(t, ds)\<leftarrow>ts. if t = v then length ds else 0)"
  by (induction ts gd rule: build_graph.induct) (simp_all add: Let_def add_deps_degree)

lemma build_graph_distinct:
  "distinct (dict_keys (snd gd)) \<Longrightarrow> distinct (dict_keys (snd (build_graph ts gd)))"
  by (induction ts gd rule: build_graph.induct) (simp_all add: Let_def add_deps_distinct distinct_update)

lemma build_graph_keys:
  "fst ` set (snd (build_graph ts gd)) = fst ` set (snd gd) \<union> fst ` set ts"
proof (induction ts gd rule: build_graph.induct)
  case (2 t ds ts gd)
  then show ?case using add_deps_keys[of t ds gd] by (simp add: Let_def)
qed simp

text \<open>Counting edges by their source or by the dependency lists gives the same degrees.\<close>

lemma sum_count_list: "finite N \<Longrightarrow> set ds \<subseteq> N \<Longrightarrow> (\<Sum>x\<in>N. count_list ds x) = length ds"
proof (induction ds)
  case (Cons d ds)
  then have "(\<Sum>x\<in>N. count_list (d # ds) x) = (\<Sum>x\<in>N. count_list ds x + (if d = x then 1 else 0))"
    by (intro sum.cong) auto
  with Cons show ?case by (simp add: sum.distrib)
qed simp

lemma in_edges_sum:
  assumes "finite N" and "\<forall>(t, ds) \<in> set ts. set ds \<subseteq> N"
  shows "(\<Sum>x\<in>N. \<Sum>(t, ds)\<leftarrow>ts. if t = v then count_list ds x else 0) =
         (\<Sum>(t, ds)\<leftarrow>ts. if t = v then length ds else 0)"
  using assms(2)
proof (induction ts)
  case (Cons a ts)
  obtain t ds where a: "a = (t, ds)" by fastforce
  have "(\<Sum>x\<in>N. if t = v then count_list ds x else 0) = (if t = v then length ds else 0)"
    using sum_count_list[OF assms(1), of ds] Cons.prems a by simp
  with Cons a show ?case by (simp add: sum.distrib)
qed simp

lemma succs_build_iff:
  "v \<in> set (succs (fst (build_graph ts ([], []))) x) \<longleftrightarrow> (x, v) \<in> dep_edges ts"
proof -
  have "v \<in> set (succs (fst (build_graph ts ([], []))) x) \<longleftrightarrow>
      (\<Sum>(t, ds)\<leftarrow>ts. if t = v then count_list ds x else 0) \<noteq> 0"
    using build_graph_count[of ts "([], [])" x v] count_list_0_iff by (metis add_0 count_list.simps(1) dict_get_Nil fst_conv)
  also have "\<dots> \<longleftrightarrow> (\<exists>(t, ds) \<in> set ts. t = v \<and> x \<in> set ds)"
  proof -
    have "(case p of (t, ds) \<Rightarrow> if t = v then count_list ds x else 0) = 0 \<longleftrightarrow>
        \<not> (case p of (t, ds) \<Rightarrow> t = v \<and> x \<in> set ds)" for p
      by (cases p) (simp add: count_list_0_iff)
    then show ?thesis by (simp add: sum_list_eq_0_iff)
  qed
  finally show ?thesis by (auto simp: dep_edges_def)
qed

lemma build_graph_correct:
  assumes known: "deps_known ts" and gd: "build_graph ts ([], []) = (g, d)" and N: "N = fst ` set ts"
  shows "closed_graph g N" and "\<And>v. dict_get d v 0 = int (in_edges g N v)"
    and "distinct (dict_keys d)" and "set (dict_keys d) = N" and "edges g N = dep_edges ts"
proof -
  have g: "fst (build_graph ts ([], [])) = g" and d: "snd (build_graph ts ([], [])) = d"
    using gd by simp_all
  show "closed_graph g N"
    using succs_build_iff[of _ ts, unfolded g] by (force simp: closed_graph_def dep_edges_def N)
  show "dict_get d v 0 = int (in_edges g N v)" for v
    using build_graph_degree[of ts "([], [])" v] build_graph_count[of ts "([], [])" _ v]
      in_edges_sum[of N ts v] known
    by (simp add: g d in_edges_def N deps_known_def)
  show "distinct (dict_keys d)"
    using build_graph_distinct[of "([], [])" ts] by (simp add: d)
  show "set (dict_keys d) = N"
    using build_graph_keys[of ts "([], [])"] by (simp add: d N)
  show "edges g N = dep_edges ts"
    using succs_build_iff[of _ ts, unfolded g] known
    by (fastforce simp: edges_def N deps_known_def dep_edges_def)
qed

end
