(* ===== verification/Json.thy ===== *)
theory Json
  imports Prelude
begin

section \<open>Dynamic values\<close>

text \<open>
  Documents, messages and graph specifications of the program are JSON values, read with
  \<^verbatim>\<open>dict.get\<close>, truth tests and \<^verbatim>\<open>or\<close>. A float is an exact real number, so rounding is not
  modelled; an object keeps the insertion order of its keys. \<open>py_sort\<close> is \<^verbatim>\<open>list.sort\<close> with a key:
  it is stable, also with \<^verbatim>\<open>reverse=True\<close>, where equal elements keep their order.
\<close>

datatype json = JNull | JBool bool | JInt int | JReal real | JStr string
  | JList "json list" | JDict "(string \<times> json) list"

type_synonym doc = "(string \<times> json) list"

fun truthy :: "json \<Rightarrow> bool" where
  "truthy JNull = False"
| "truthy (JBool b) = b"
| "truthy (JInt i) = (i \<noteq> 0)"
| "truthy (JReal r) = (r \<noteq> 0)"
| "truthy (JStr s) = (s \<noteq> [])"
| "truthy (JList l) = (l \<noteq> [])"
| "truthy (JDict d) = (d \<noteq> [])"

definition jget :: "doc \<Rightarrow> string \<Rightarrow> json" where
  "jget d k = dict_get d k JNull"

definition jor :: "json \<Rightarrow> json \<Rightarrow> json" where
  "jor a b = (if truthy a then a else b)"

fun jstr :: "json \<Rightarrow> string" where
  "jstr (JStr s) = s"
| "jstr _ = []"

fun jint :: "json \<Rightarrow> int" where
  "jint (JInt i) = i"
| "jint _ = 0"

fun jlist :: "json \<Rightarrow> json list" where
  "jlist (JList l) = l"
| "jlist _ = []"

fun jdict :: "json \<Rightarrow> doc" where
  "jdict (JDict d) = d"
| "jdict _ = []"

lemma jget_set [simp]: "jget (dict_set k v d) k' = (if k' = k then v else jget d k')"
  by (simp add: jget_def)

lemma jget_Nil [simp]: "jget [] k = JNull"
  by (simp add: jget_def)

lemma jget_Cons [simp]: "jget ((k, v) # d) k' = (if k' = k then v else jget d k')"
  by (simp add: jget_def dict_get_Cons)

lemma jor_truthy [simp]: "truthy a \<Longrightarrow> jor a b = a"
  by (simp add: jor_def)

lemma truthy_jor: "truthy (jor a b) \<longleftrightarrow> truthy a \<or> truthy b"
  by (simp add: jor_def)

definition given :: "string option \<Rightarrow> bool" where
  "given x = (x \<noteq> None \<and> x \<noteq> Some [])"

lemma given_iff: "given x \<longleftrightarrow> (\<exists>s. x = Some s \<and> s \<noteq> [])"
  by (cases x) (auto simp: given_def)

definition py_sort :: "('a \<Rightarrow> 'b::linorder) \<Rightarrow> bool \<Rightarrow> 'a list \<Rightarrow> 'a list" where
  "py_sort key reverse xs = (if reverse then rev (sort_key key (rev xs)) else sort_key key xs)"

lemma set_py_sort [simp]: "set (py_sort key r xs) = set xs"
  by (simp add: py_sort_def)

lemma mset_py_sort [simp]: "mset (py_sort key r xs) = mset xs"
  by (simp add: py_sort_def)

lemma length_py_sort [simp]: "length (py_sort key r xs) = length xs"
  by (simp add: py_sort_def)

lemma py_sort_sorted:
  "sorted_wrt (\<lambda>x y. if r then key y \<le> key x else key x \<le> key y) (py_sort key r xs)"
  using sorted_sort_key[of key] by (simp add: py_sort_def sorted_wrt_rev sorted_map)

text \<open>Decimal representation of an integer, as an f-string prints it.\<close>

fun str_nat :: "nat \<Rightarrow> string" where
  "str_nat n = (if n < 10 then [char_of (48 + n)] else str_nat (n div 10) @ [char_of (48 + n mod 10)])"

declare str_nat.simps [simp del]

definition str_int :: "int \<Rightarrow> string" where
  "str_int i = (if i < 0 then CHR ''-'' # str_nat (nat (- i)) else str_nat (nat i))"

subsection \<open>Text and types\<close>

text \<open>The text whose case is changed is taken to be ASCII.\<close>

definition upper_char :: "char \<Rightarrow> char" where
  "upper_char c = (let n = of_char c :: nat in if 97 \<le> n \<and> n \<le> 122 then char_of (n - 32) else c)"

definition lower_char :: "char \<Rightarrow> char" where
  "lower_char c = (let n = of_char c :: nat in if 65 \<le> n \<and> n \<le> 90 then char_of (n + 32) else c)"

fun capitalize :: "string \<Rightarrow> string" where
  "capitalize [] = []"
| "capitalize (c # s) = upper_char c # map lower_char s"

fun jreal :: "json \<Rightarrow> real" where
  "jreal (JInt i) = of_int i"
| "jreal (JReal r) = r"
| "jreal _ = 0"

text \<open>\<open>strip\<close> removes the white space of \<^verbatim>\<open>str.strip\<close> (in the Latin-1 range) at both ends.\<close>

definition is_space :: "char \<Rightarrow> bool" where
  "is_space c = (let n = of_char c :: nat in 9 \<le> n \<and> n \<le> 13 \<or> 28 \<le> n \<and> n \<le> 32 \<or> n = 133 \<or> n = 160)"

definition strip :: "string \<Rightarrow> string" where
  "strip s = rev (dropWhile is_space (rev (dropWhile is_space s)))"

definition lower_str :: "string \<Rightarrow> string" where
  "lower_str s = map lower_char s"

definition upper_str :: "string \<Rightarrow> string" where
  "upper_str s = map upper_char s"

fun is_list :: "json \<Rightarrow> bool" where
  "is_list (JList _) = True"
| "is_list _ = False"

fun is_dict :: "json \<Rightarrow> bool" where
  "is_dict (JDict _) = True"
| "is_dict _ = False"

fun is_str :: "json \<Rightarrow> bool" where
  "is_str (JStr _) = True"
| "is_str _ = False"

text \<open>A list or a dictionary is not hashable; \<open>hkey\<close> is the value of a hashable up to Python's equality,
  where \<^verbatim>\<open>True == 1 == 1.0\<close>.\<close>

fun hashable :: "json \<Rightarrow> bool" where
  "hashable (JList _) = False"
| "hashable (JDict _) = False"
| "hashable _ = True"

fun hkey :: "json \<Rightarrow> json" where
  "hkey (JBool b) = JInt (if b then 1 else 0)"
| "hkey (JReal r) = (if of_int \<lfloor>r\<rfloor> = r then JInt \<lfloor>r\<rfloor> else JReal r)"
| "hkey j = j"

text \<open>\<^verbatim>\<open>str(v)\<close>: the text of floats and containers is an argument \<open>repr\<close>.\<close>

fun py_str :: "(json \<Rightarrow> string) \<Rightarrow> json \<Rightarrow> string" where
  "py_str repr (JStr s) = s"
| "py_str repr (JInt i) = str_int i"
| "py_str repr (JBool b) = (if b then ''True'' else ''False'')"
| "py_str repr JNull = ''None''"
| "py_str repr j = repr j"

text \<open>A shape the code does not expect raises \<^verbatim>\<open>AttributeError\<close> or \<^verbatim>\<open>TypeError\<close>; the model does
  not tell them apart. \<open>docs_of\<close> is \<^verbatim>\<open>list(v or [])\<close> whose elements are then read with
  \<^verbatim>\<open>get\<close>.\<close>

datatype shape_error = BadShape

definition docs_of :: "json \<Rightarrow> shape_error + doc list" where
  "docs_of j = (if \<not> truthy j then Inr []
     else case j of JList xs \<Rightarrow> if list_all is_dict xs then Inr (map jdict xs) else Inl BadShape
       | _ \<Rightarrow> Inl BadShape)"

definition str_json :: "string list \<Rightarrow> json" where
  "str_json xs = JList (map JStr xs)"

text \<open>\<^verbatim>\<open>max(xs, key=...)\<close> of a list with head \<open>m\<close>: the first element with the largest key.\<close>

fun py_max :: "('a \<Rightarrow> 'b::linorder) \<Rightarrow> 'a \<Rightarrow> 'a list \<Rightarrow> 'a" where
  "py_max key m [] = m"
| "py_max key m (x # xs) = py_max key (if key m < key x then x else m) xs"

text \<open>\<^verbatim>\<open>sub in s\<close> for strings.\<close>

fun substr_of :: "string \<Rightarrow> string \<Rightarrow> bool" where
  "substr_of w [] = (w = [])"
| "substr_of w (c # s) = (take (length w) (c # s) = w \<or> substr_of w s)"

subsection \<open>Fields of validated models\<close>

text \<open>The models of the program are pydantic classes. \<open>field\<close> reads a field in \<^verbatim>\<open>model_validate\<close>: a missing
  field takes its default or is refused, and a value of another type is refused. The coercions of pydantic
  between types are not modelled: what is validated are dumps of the models.\<close>

fun as_str :: "json \<Rightarrow> string option" where
  "as_str (JStr s) = Some s"
| "as_str _ = None"

fun as_int :: "json \<Rightarrow> int option" where
  "as_int (JInt i) = Some i"
| "as_int _ = None"

fun as_bool :: "json \<Rightarrow> bool option" where
  "as_bool (JBool b) = Some b"
| "as_bool _ = None"

fun as_dict :: "json \<Rightarrow> doc option" where
  "as_dict (JDict d) = Some d"
| "as_dict _ = None"

definition as_opt :: "(json \<Rightarrow> 'a option) \<Rightarrow> json \<Rightarrow> 'a option option" where
  "as_opt r j = (if j = JNull then Some None else map_option Some (r j))"

definition field :: "(json \<Rightarrow> 'a option) \<Rightarrow> 'a option \<Rightarrow> doc \<Rightarrow> string \<Rightarrow> 'a option" where
  "field r dflt d f = (case map_of d f of None \<Rightarrow> dflt | Some j \<Rightarrow> r j)"

definition jopt :: "('a \<Rightarrow> json) \<Rightarrow> 'a option \<Rightarrow> json" where
  "jopt f x = (case x of None \<Rightarrow> JNull | Some a \<Rightarrow> f a)"

fun as_real :: "json \<Rightarrow> real option" where
  "as_real (JInt i) = Some (of_int i)"
| "as_real (JReal r) = Some r"
| "as_real _ = None"

fun as_strs :: "json \<Rightarrow> string list option" where
  "as_strs (JList xs) = (if list_all is_str xs then Some (map jstr xs) else None)"
| "as_strs _ = None"

definition as_check :: "('a \<Rightarrow> bool) \<Rightarrow> (json \<Rightarrow> 'a option) \<Rightarrow> json \<Rightarrow> 'a option" where
  "as_check ok r j = (case r j of None \<Rightarrow> None | Some x \<Rightarrow> if ok x then Some x else None)"

end
