(* ===== verification/Kv_Store.thy ===== *)
theory Kv_Store
  imports Json
begin

section \<open>The document collection\<close>

text \<open>
  The stores of the program keep JSON documents in Couchbase collections through the protocol
  \<^verbatim>\<open>KVCollection\<close> and N1QL queries of one shape: the documents whose key is \<^verbatim>\<open>LIKE\<close> a
  pattern, ordered by a field and cut to a page. The server is a parameter of the model, the record
  \<open>kv_ops\<close>; the locale \<open>kv_collection\<close> states the documented behaviour the stores rely on.
  In a \<^verbatim>\<open>LIKE\<close> pattern \<^verbatim>\<open>%\<close> matches any string and \<^verbatim>\<open>_\<close> any one character.
  \<open>mem_kv\<close> is a collection kept in an association list; the interpretation shows that the laws can hold.
\<close>

record 'c kv_ops =
  kv_get :: "'c \<Rightarrow> string \<Rightarrow> doc option"
  kv_upsert :: "string \<Rightarrow> doc \<Rightarrow> int option \<Rightarrow> 'c \<Rightarrow> 'c"
  kv_rows :: "'c \<Rightarrow> string \<Rightarrow> (string \<times> bool) option \<Rightarrow> (nat \<times> nat) option \<Rightarrow> (string \<times> doc) list"
  kv_count :: "'c \<Rightarrow> string \<Rightarrow> nat"
  kv_remove :: "string \<Rightarrow> 'c \<Rightarrow> 'c option"

fun like :: "string \<Rightarrow> string \<Rightarrow> bool" where
  "like [] s = (s = [])"
| "like (p # ps) [] = (p = CHR ''%'' \<and> like ps [])"
| "like (p # ps) (x # s) =
     (if p = CHR ''%'' then like ps (x # s) \<or> like (p # ps) s
      else (p = CHR ''_'' \<or> p = x) \<and> like ps s)"

locale kv_collection =
  fixes kv :: "'c kv_ops"
  assumes get_upsert: "kv_get kv (kv_upsert kv k d ex c) k' = (if k' = k then Some d else kv_get kv c k')"
    and rows_set: "set (kv_rows kv c pat ord None) = {(k, d). kv_get kv c k = Some d \<and> like pat k}"
    and rows_distinct: "distinct (map fst (kv_rows kv c pat ord None))"
    and rows_page: "kv_rows kv c pat ord (Some (l, off)) = take l (drop off (kv_rows kv c pat ord None))"
    and count_rows: "kv_count kv c pat = length (kv_rows kv c pat ord None)"
    and remove_missing: "kv_remove kv k c = None \<longleftrightarrow> kv_get kv c k = None"
    and get_remove: "kv_remove kv k c = Some c' \<Longrightarrow> kv_get kv c' k' = (if k' = k then None else kv_get kv c k')"
begin

lemma get_upsert_same: "kv_get kv (kv_upsert kv k d ex c) k = Some d"
  by (simp add: get_upsert)

lemma rows_sub: "(k, d) \<in> set (kv_rows kv c pat ord pag) \<Longrightarrow> kv_get kv c k = Some d \<and> like pat k"
proof (cases pag)
  case None
  then show "(k, d) \<in> set (kv_rows kv c pat ord pag) \<Longrightarrow> ?thesis" by (simp add: rows_set)
next
  case (Some p)
  assume "(k, d) \<in> set (kv_rows kv c pat ord pag)"
  then have "(k, d) \<in> set (kv_rows kv c pat ord None)"
    using Some rows_page[of c pat ord "fst p" "snd p"] by (auto dest: in_set_takeD in_set_dropD)
  then show ?thesis by (simp add: rows_set)
qed

lemma count_card: "kv_count kv c pat = card {k. like pat k \<and> kv_get kv c k \<noteq> None}"
proof -
  have "fst ` set (kv_rows kv c pat None None) = {k. like pat k \<and> kv_get kv c k \<noteq> None}"
    by (force simp: rows_set)
  then show ?thesis
    using distinct_card[OF rows_distinct, of c pat None] count_rows[of c pat None] by simp
qed

end

subsection \<open>A collection in memory\<close>

definition mem_rows :: "(string \<times> doc) list \<Rightarrow> string \<Rightarrow> (string \<times> doc) list" where
  "mem_rows c pat = filter (\<lambda>(k, d). like pat k) (AList.clearjunk c)"

definition mem_kv :: "(string \<times> doc) list kv_ops" where
  "mem_kv = \<lparr>kv_get = map_of, kv_upsert = (\<lambda>k d ex c. dict_set k d c),
     kv_rows = (\<lambda>c pat ord pag. case pag of None \<Rightarrow> mem_rows c pat
       | Some (l, off) \<Rightarrow> take l (drop off (mem_rows c pat))),
     kv_count = (\<lambda>c pat. length (mem_rows c pat)),
     kv_remove = (\<lambda>k c. if map_of c k = None then None else Some (AList.delete k c))\<rparr>"

lemma mem_rows_spec:
  "set (mem_rows c pat) = {(k, d). map_of c k = Some d \<and> like pat k}" "distinct (map fst (mem_rows c pat))"
proof -
  have d: "distinct (map fst (AList.clearjunk c))" by (rule distinct_clearjunk)
  then show "distinct (map fst (mem_rows c pat))"
    by (auto simp: mem_rows_def distinct_map intro: inj_on_subset)
  have "(k, v) \<in> set (AList.clearjunk c) \<longleftrightarrow> map_of c k = Some v" for k v
    using d by (metis map_of_SomeD map_of_clearjunk map_of_is_SomeI)
  then show "set (mem_rows c pat) = {(k, d). map_of c k = Some d \<and> like pat k}"
    by (auto simp: mem_rows_def)
qed

interpretation mem: kv_collection mem_kv
  by unfold_locales (auto simp: mem_kv_def update_conv' delete_conv' mem_rows_spec split: if_splits)

subsection \<open>LIKE patterns\<close>

definition plain :: "string \<Rightarrow> bool" where
  "plain s \<longleftrightarrow> CHR ''%'' \<notin> set s \<and> CHR ''_'' \<notin> set s"

lemma like_percent: "like [CHR ''%''] s"
  by (induction s) simp_all

lemma like_append: "CHR ''%'' \<notin> set p \<Longrightarrow>
  like (p @ q) s \<longleftrightarrow> length p \<le> length s \<and> like p (take (length p) s) \<and> like q (drop (length p) s)"
proof (induction p arbitrary: s)
  case (Cons x p)
  then show ?case by (cases s) auto
qed simp

lemma like_plain: "plain p \<Longrightarrow> like p s \<longleftrightarrow> p = s"
proof (induction p arbitrary: s)
  case (Cons x p)
  then show ?case by (cases s) (auto simp: plain_def)
qed auto

lemma like_self: "CHR ''%'' \<notin> set p \<Longrightarrow> like p p"
  by (induction p) auto

lemma like_prefix_self: "CHR ''%'' \<notin> set p \<Longrightarrow> like (p @ [CHR ''%'']) (p @ s)"
  by (simp add: like_append like_self like_percent)

lemma like_length: "CHR ''%'' \<notin> set p \<Longrightarrow> like p s \<Longrightarrow> length s = length p"
proof (induction p arbitrary: s)
  case (Cons x p)
  then show ?case by (cases s) auto
qed simp

text \<open>A key \<open>kind::user::rest\<close> matches the pattern of another user of the same kind only when the
  user's name has a wildcard or a colon.\<close>

lemma like_user_prefix:
  assumes "like ((kind @ ''::'' @ u @ ''::'') @ [CHR ''%'']) (kind @ ''::'' @ v @ ''::'' @ rest)"
    and "CHR ''%'' \<notin> set kind" and "plain u" and "CHR '':'' \<notin> set u" and "CHR '':'' \<notin> set v"
  shows "u = v"
proof -
  have nopc: "CHR ''%'' \<notin> set (kind @ ''::'')" using assms(2) by simp
  have "like (((kind @ ''::'') @ (u @ ''::'')) @ [CHR ''%'']) ((kind @ ''::'') @ (v @ ''::'' @ rest))"
    using assms(1) by simp
  then have "like ((u @ ''::'') @ [CHR ''%'']) (v @ ''::'' @ rest)"
    using like_append[OF nopc, of "(u @ ''::'') @ [CHR ''%'']"] by simp
  moreover have "CHR ''%'' \<notin> set (u @ ''::'')" and p: "plain (u @ ''::'')" using assms(3) by (auto simp: plain_def)
  ultimately have eq: "u @ ''::'' = take (length u + 2) (v @ ''::'' @ rest)"
    and len: "length u + 2 \<le> length (v @ ''::'' @ rest)"
    using like_append[of "u @ ''::''" "[CHR ''%'']"] like_plain[OF p] by auto
  then have split: "(u @ ''::'') @ drop (length u + 2) (v @ ''::'' @ rest) = v @ ''::'' @ rest"
    by (metis append_take_drop_id)
  have "takeWhile (\<lambda>c. c \<noteq> CHR '':'') (w @ CHR '':'' # r) = w" if "CHR '':'' \<notin> set w" for w r
    using that by (induction w) auto
  from this[OF assms(4)] this[OF assms(5)] split show ?thesis
    by (metis append_Cons append_assoc)
qed

end
