(* ===== verification/Graph_Marker_Store.thy ===== *)
theory Graph_Marker_Store
  imports Kv_Store
begin

section \<open>The marker store\<close>

text \<open>
  \<^verbatim>\<open>GraphMarkerStore\<close> (\<^verbatim>\<open>orchestrator_core/stores/graph_marker_store.py\<close>): the shared
  collection of task specifications, stigmergic markers, bids, calls for proposals, awards, plans,
  approvals, reports and learning state. An entity is its \<^verbatim>\<open>model_dump\<close>, a JSON object, from
  which the identifiers of the key are read. Every operation takes the server \<open>kv\<close>, the
  environment \<open>e\<close> (the clock, its ISO form, a fresh UUID and the parser of ISO timestamps of the
  standard library) and the collection \<open>c\<close>. The clock is read once per operation.
\<close>

record store_env =
  e_now :: real
  e_iso :: "real \<Rightarrow> string"
  e_uuid :: string
  e_timestamp :: "json \<Rightarrow> real"

record listing =
  l_limit :: "nat option"
  l_offset :: nat
  l_sort_by :: "string option"
  l_desc :: bool

definition now_iso :: "store_env \<Rightarrow> string" where
  "now_iso e = e_iso e (e_now e)"

definition expiry :: "int option \<Rightarrow> int option" where
  "expiry ttl = (case ttl of None \<Rightarrow> None | Some t \<Rightarrow> if t \<le> 0 then None else Some t)"

definition key2 :: "string \<Rightarrow> string \<Rightarrow> string \<Rightarrow> string" where
  "key2 kind u a = kind @ ''::'' @ u @ ''::'' @ a"

definition key3 :: "string \<Rightarrow> string \<Rightarrow> string \<Rightarrow> string \<Rightarrow> string" where
  "key3 kind u a b = key2 kind u a @ ''::'' @ b"

definition with_meta :: "store_env \<Rightarrow> string \<Rightarrow> doc \<Rightarrow> doc" where
  "with_meta e ty p = dict_set ''_meta'' (JDict [(''type'', JStr ty), (''updated_at'', JStr (now_iso e))]) p"

definition touch_meta :: "store_env \<Rightarrow> doc \<Rightarrow> doc" where
  "touch_meta e d = dict_set ''_meta''
     (JDict (dict_set ''updated_at'' (JStr (now_iso e)) (case map_of d ''_meta'' of None \<Rightarrow> [] | Some m \<Rightarrow> jdict m))) d"

definition sfield :: "doc \<Rightarrow> string \<Rightarrow> string" where
  "sfield d f = jstr (jget d f)"

definition save_doc :: "'c kv_ops \<Rightarrow> store_env \<Rightarrow> string \<Rightarrow> string \<Rightarrow> doc \<Rightarrow> 'c \<Rightarrow> string \<times> 'c" where
  "save_doc kv e ty key p c = (key, kv_upsert kv key (with_meta e ty p) None c)"

definition save_expiring :: "'c kv_ops \<Rightarrow> store_env \<Rightarrow> string \<Rightarrow> string \<Rightarrow> doc \<Rightarrow> int option \<Rightarrow> 'c \<Rightarrow> string \<times> 'c" where
  "save_expiring kv e ty key p ttl c =
     (case expiry ttl of
        None \<Rightarrow> (key, kv_upsert kv key (with_meta e ty p) None c)
      | Some t \<Rightarrow> (key, kv_upsert kv key
          (dict_set ''expires_at'' (JStr (e_iso e (e_now e + of_int t))) (with_meta e ty p)) (Some t) c))"

subsection \<open>Listing by key prefix\<close>

definition allowed_sort_fields :: "string list" where
  "allowed_sort_fields = [''created_at'', ''updated_at'', ''bid_score'', ''revision'', ''status'',
     ''task_id'', ''plan_id'', ''agent_id'', ''decided_at'', ''checked_at'', ''awarded_at'', ''_meta.updated_at'']"

definition list_by_prefix :: "'c kv_ops \<Rightarrow> string \<Rightarrow> nat option \<Rightarrow> nat \<Rightarrow> string option \<Rightarrow> bool \<Rightarrow> 'c \<Rightarrow> doc list \<times> nat" where
  "list_by_prefix kv prefix limit offset sort_by desc c =
     (let pat = prefix @ ''%'';
          ord = (case sort_by of None \<Rightarrow> None
            | Some f \<Rightarrow> if f \<in> set allowed_sort_fields then Some (f, desc)
                else if f = ''created_at'' then Some (''_meta.updated_at'', desc) else None);
          pag = map_option (\<lambda>l. (l, offset)) limit
      in (map (\<lambda>(k, d). (''id'', JStr k) # d) (kv_rows kv c pat ord pag), kv_count kv c pat))"

definition list_page :: "'c kv_ops \<Rightarrow> string \<Rightarrow> listing \<Rightarrow> string \<Rightarrow> 'c \<Rightarrow> doc list \<times> nat" where
  "list_page kv prefix lp default_sort c =
     list_by_prefix kv prefix (l_limit lp) (l_offset lp)
       (if given (l_sort_by lp) then l_sort_by lp else Some default_sort) (l_desc lp) c"

definition keep :: "string option \<Rightarrow> string \<Rightarrow> doc list \<Rightarrow> doc list" where
  "keep x f items = (if given x then filter (\<lambda>i. jget i f = JStr (the x)) items else items)"

definition prefix2 :: "string \<Rightarrow> string \<Rightarrow> string" where
  "prefix2 kind u = kind @ ''::'' @ u @ ''::''"

definition narrow :: "string option \<Rightarrow> string \<Rightarrow> string" where
  "narrow x prefix = (if given x then prefix @ the x @ ''::'' else prefix)"

definition by_time :: "store_env \<Rightarrow> bool \<Rightarrow> doc list \<Rightarrow> doc list" where
  "by_time e desc items = py_sort (\<lambda>i. e_timestamp e (jor (jget i ''created_at'')
     (jget (jdict (jget i ''_meta'')) ''updated_at''))) desc items"

subsection \<open>Raw documents, task specifications\<close>

definition upsert_raw :: "'c kv_ops \<Rightarrow> store_env \<Rightarrow> string \<Rightarrow> doc \<Rightarrow> 'c \<Rightarrow> string \<times> 'c" where
  "upsert_raw kv e key d c = (key, kv_upsert kv key (touch_meta e d) None c)"

definition get_raw :: "'c kv_ops \<Rightarrow> string \<Rightarrow> 'c \<Rightarrow> doc option" where
  "get_raw kv key c = kv_get kv c key"

definition upsert_task_spec :: "'c kv_ops \<Rightarrow> store_env \<Rightarrow> string \<Rightarrow> doc \<Rightarrow> 'c \<Rightarrow> string \<times> 'c" where
  "upsert_task_spec kv e u spec c =
     save_doc kv e ''task_spec'' (key2 ''task_spec'' u (sfield spec ''task_id'')) (dict_set ''username'' (JStr u) spec) c"

definition get_task_spec :: "'c kv_ops \<Rightarrow> string \<Rightarrow> string \<Rightarrow> 'c \<Rightarrow> doc option" where
  "get_task_spec kv u task_id c = kv_get kv c (key2 ''task_spec'' u task_id)"

definition list_task_specs :: "'c kv_ops \<Rightarrow> string \<Rightarrow> listing \<Rightarrow> 'c \<Rightarrow> doc list \<times> nat" where
  "list_task_specs kv u lp c = list_page kv (key2 ''task_spec'' u '''') lp ''created_at'' c"

subsection \<open>Markers\<close>

definition add_affordance_marker :: "'c kv_ops \<Rightarrow> store_env \<Rightarrow> string \<Rightarrow> doc \<Rightarrow> int option \<Rightarrow> 'c \<Rightarrow> string \<times> 'c" where
  "add_affordance_marker kv e u marker ttl c =
     save_expiring kv e ''affordance_marker''
       (key3 ''marker::affordance'' u (sfield marker ''task_id'') (sfield marker ''marker_id''))
       marker (if ttl \<noteq> None then ttl else Some (jint (jget marker ''ttl_seconds''))) c"

definition list_affordance_markers :: "'c kv_ops \<Rightarrow> string \<Rightarrow> string option \<Rightarrow> string option \<Rightarrow> string option
    \<Rightarrow> string option \<Rightarrow> listing \<Rightarrow> 'c \<Rightarrow> doc list \<times> nat" where
  "list_affordance_markers kv u task_id agent_id pipeline_id pipeline_run_id lp c =
     (let (items, total) = list_page kv (narrow task_id (prefix2 ''marker::affordance'' u)) lp ''created_at'' c;
          items = keep pipeline_run_id ''pipeline_run_id'' (keep pipeline_id ''pipeline_id'' (keep agent_id ''agent_id'' items))
      in (items, if given agent_id \<or> given pipeline_id \<or> given pipeline_run_id then length items else total))"

definition no_listing :: listing where
  "no_listing = \<lparr>l_limit = None, l_offset = 0, l_sort_by = None, l_desc = True\<rparr>"

definition list_failure_markers :: "'c kv_ops \<Rightarrow> store_env \<Rightarrow> string \<Rightarrow> string \<Rightarrow> string option \<Rightarrow> 'c \<Rightarrow> doc list" where
  "list_failure_markers kv e u agent_id task_type c =
     (let items = fst (list_affordance_markers kv u None (Some agent_id) None None no_listing c);
          failed = filter (\<lambda>i. case jget i ''failure_context'' of
              JDict fc \<Rightarrow> fc \<noteq> [] \<and> \<not> (given task_type \<and> jget fc ''task_type'' \<noteq> JStr (the task_type))
            | _ \<Rightarrow> False) items
      in py_sort (\<lambda>m. e_timestamp e (jget m ''created_at'')) True failed)"

definition add_reservation_marker :: "'c kv_ops \<Rightarrow> store_env \<Rightarrow> string \<Rightarrow> doc \<Rightarrow> int option \<Rightarrow> 'c \<Rightarrow> string \<times> 'c" where
  "add_reservation_marker kv e u marker ttl c =
     save_expiring kv e ''reservation_marker''
       (key3 ''marker::reservation'' u (sfield marker ''task_id'') (sfield marker ''marker_id''))
       marker (if ttl \<noteq> None then ttl else Some (jint (jget marker ''ttl_seconds''))) c"

definition list_reservation_markers :: "'c kv_ops \<Rightarrow> string \<Rightarrow> string option \<Rightarrow> string option \<Rightarrow> listing \<Rightarrow> 'c \<Rightarrow> doc list \<times> nat" where
  "list_reservation_markers kv u task_id agent_id lp c =
     (let (items, total) = list_page kv (narrow task_id (prefix2 ''marker::reservation'' u)) lp ''created_at'' c;
          items = keep agent_id ''agent_id'' items
      in (items, if given agent_id then length items else total))"

subsection \<open>Bids\<close>

definition add_bid :: "'c kv_ops \<Rightarrow> store_env \<Rightarrow> string \<Rightarrow> doc \<Rightarrow> 'c \<Rightarrow> string \<times> 'c" where
  "add_bid kv e u bid c =
     (let bid_id = e_uuid e;
          key = key3 ''bid'' u (sfield bid ''task_id'') (sfield bid ''bidder_id'') @ ''::'' @ bid_id
      in (bid_id, snd (save_expiring kv e ''blueprint_bid'' key (dict_set ''bid_id'' (JStr bid_id) bid)
            (Some (jint (jget bid ''ttl_seconds''))) c)))"

definition list_bids :: "'c kv_ops \<Rightarrow> string \<Rightarrow> string option \<Rightarrow> string option \<Rightarrow> string option \<Rightarrow> string option
    \<Rightarrow> listing \<Rightarrow> 'c \<Rightarrow> doc list \<times> nat" where
  "list_bids kv u task_id bidder_id pipeline_id pipeline_run_id lp c =
     (let (items, total) = list_page kv (narrow bidder_id (narrow task_id (prefix2 ''bid'' u))) lp ''bid_score'' c;
          items = (if \<not> given bidder_id then keep task_id ''task_id'' items else items);
          items = (if \<not> given task_id then keep bidder_id ''bidder_id'' items else items);
          items = keep pipeline_run_id ''pipeline_run_id'' (keep pipeline_id ''pipeline_id'' items)
      in (items, if given task_id \<or> given bidder_id \<or> given pipeline_id \<or> given pipeline_run_id
                 then length items else total))"

subsection \<open>Plan drafts, revisions, suggestions\<close>

definition save_plan_draft :: "'c kv_ops \<Rightarrow> store_env \<Rightarrow> string \<Rightarrow> doc \<Rightarrow> 'c \<Rightarrow> string \<times> 'c" where
  "save_plan_draft kv e u draft c =
     save_doc kv e ''plan_draft'' (key2 ''plan_draft'' u (sfield draft ''plan_id'')) (dict_set ''username'' (JStr u) draft) c"

definition plan_revision_key :: "string \<Rightarrow> string \<Rightarrow> int \<Rightarrow> string" where
  "plan_revision_key u plan_id revision = key3 ''plan_revision'' u plan_id (str_int revision)"

definition save_plan_revision :: "'c kv_ops \<Rightarrow> store_env \<Rightarrow> string \<Rightarrow> doc \<Rightarrow> 'c \<Rightarrow> string \<times> 'c" where
  "save_plan_revision kv e u revision c =
     save_doc kv e ''plan_revision''
       (plan_revision_key u (sfield revision ''plan_id'') (jint (jget revision ''revision'')))
       (dict_set ''username'' (JStr u) revision) c"

definition get_plan_revision :: "'c kv_ops \<Rightarrow> string \<Rightarrow> string \<Rightarrow> int \<Rightarrow> 'c \<Rightarrow> doc option" where
  "get_plan_revision kv u plan_id revision c = kv_get kv c (plan_revision_key u plan_id revision)"

definition list_plan_revisions :: "'c kv_ops \<Rightarrow> string \<Rightarrow> string option \<Rightarrow> listing \<Rightarrow> 'c \<Rightarrow> doc list \<times> nat" where
  "list_plan_revisions kv u plan_id lp c =
     (let (items, total) = list_page kv (narrow plan_id (prefix2 ''plan_revision'' u)) lp ''revision'' c
      in (if \<not> given (l_sort_by lp) then py_sort (\<lambda>i. jint (jget i ''revision'')) (l_desc lp) items else items, total))"

definition save_plan_suggestion :: "'c kv_ops \<Rightarrow> store_env \<Rightarrow> string \<Rightarrow> doc \<Rightarrow> 'c \<Rightarrow> string \<times> 'c" where
  "save_plan_suggestion kv e u suggestion c =
     save_doc kv e ''plan_suggestion'' (key2 ''plan_suggestion'' u (sfield suggestion ''suggestion_id''))
       (dict_set ''username'' (JStr u) suggestion) c"

definition get_plan_suggestion :: "'c kv_ops \<Rightarrow> string \<Rightarrow> string \<Rightarrow> 'c \<Rightarrow> doc option" where
  "get_plan_suggestion kv u suggestion_id c = kv_get kv c (key2 ''plan_suggestion'' u suggestion_id)"

definition list_plan_suggestions :: "'c kv_ops \<Rightarrow> store_env \<Rightarrow> string \<Rightarrow> string option \<Rightarrow> string option
    \<Rightarrow> string option \<Rightarrow> listing \<Rightarrow> 'c \<Rightarrow> doc list \<times> nat" where
  "list_plan_suggestions kv e u plan_id pipeline_run_id status lp c =
     (let (items, total) = list_page kv (prefix2 ''plan_suggestion'' u) lp ''created_at'' c;
          items = keep status ''status'' (keep pipeline_run_id ''pipeline_run_id'' (keep plan_id ''plan_id'' items));
          total = (if given plan_id \<or> given pipeline_run_id \<or> given status then length items else total)
      in (if \<not> given (l_sort_by lp) then by_time e (l_desc lp) items else items, total))"

definition get_plan_draft :: "'c kv_ops \<Rightarrow> string \<Rightarrow> string \<Rightarrow> 'c \<Rightarrow> doc option" where
  "get_plan_draft kv u plan_id c = kv_get kv c (key2 ''plan_draft'' u plan_id)"

definition list_plan_drafts :: "'c kv_ops \<Rightarrow> store_env \<Rightarrow> string \<Rightarrow> string option \<Rightarrow> string option \<Rightarrow> listing \<Rightarrow> 'c \<Rightarrow> doc list \<times> nat" where
  "list_plan_drafts kv e u pipeline_id pipeline_run_id lp c =
     (let (items, total) = list_page kv (key2 ''plan_draft'' u '''') lp ''created_at'' c;
          items = keep pipeline_run_id ''pipeline_run_id'' (keep pipeline_id ''pipeline_id'' items);
          total = (if given pipeline_id \<or> given pipeline_run_id then length items else total)
      in (if \<not> given (l_sort_by lp) then by_time e (l_desc lp) items else items, total))"

subsection \<open>Calls for proposals, awards\<close>

definition add_cfp :: "'c kv_ops \<Rightarrow> store_env \<Rightarrow> string \<Rightarrow> doc \<Rightarrow> 'c \<Rightarrow> string \<times> 'c" where
  "add_cfp kv e u cfp c = save_doc kv e ''cfp'' (key3 ''cfp'' u (sfield cfp ''task_id'') (sfield cfp ''cfp_id'')) cfp c"

definition list_cfps :: "'c kv_ops \<Rightarrow> string \<Rightarrow> string option \<Rightarrow> string option \<Rightarrow> listing \<Rightarrow> 'c \<Rightarrow> doc list \<times> nat" where
  "list_cfps kv u task_id status lp c =
     (let (items, total) = list_page kv (narrow task_id (prefix2 ''cfp'' u)) lp ''created_at'' c;
          items = keep status ''status'' items
      in (items, if given status then length items else total))"

definition add_contract_award :: "'c kv_ops \<Rightarrow> store_env \<Rightarrow> string \<Rightarrow> doc \<Rightarrow> 'c \<Rightarrow> string \<times> 'c" where
  "add_contract_award kv e u award c =
     save_doc kv e ''contract_award'' (key3 ''award'' u (sfield award ''task_id'') (sfield award ''award_id'')) award c"

definition list_contract_awards :: "'c kv_ops \<Rightarrow> string \<Rightarrow> string option \<Rightarrow> string option \<Rightarrow> string option
    \<Rightarrow> listing \<Rightarrow> 'c \<Rightarrow> doc list \<times> nat" where
  "list_contract_awards kv u task_id pipeline_id pipeline_run_id lp c =
     (let (items, total) = list_page kv (narrow task_id (prefix2 ''award'' u)) lp ''awarded_at'' c;
          items = keep pipeline_run_id ''pipeline_run_id'' (keep pipeline_id ''pipeline_id'' items)
      in (items, if given pipeline_id \<or> given pipeline_run_id then length items else total))"

subsection \<open>Evaluation sequences\<close>

definition eval_seq_key :: "string \<Rightarrow> string \<Rightarrow> string \<Rightarrow> string" where
  "eval_seq_key u task_id plan_id = key3 ''eval_seq'' u task_id plan_id"

definition save_evaluation_sequence :: "'c kv_ops \<Rightarrow> store_env \<Rightarrow> string \<Rightarrow> doc \<Rightarrow> 'c \<Rightarrow> string \<times> 'c" where
  "save_evaluation_sequence kv e u s c =
     save_doc kv e ''evaluation_sequence'' (eval_seq_key u (sfield s ''task_id'') (sfield s ''plan_id'')) s c"

definition get_evaluation_sequence :: "'c kv_ops \<Rightarrow> string \<Rightarrow> string \<Rightarrow> string \<Rightarrow> 'c \<Rightarrow> doc option" where
  "get_evaluation_sequence kv u task_id plan_id c = get_raw kv (eval_seq_key u task_id plan_id) c"

text \<open>Python indexing counts negative indices from the end and raises outside the list.\<close>

definition py_nth :: "'a list \<Rightarrow> int \<Rightarrow> 'a option" where
  "py_nth xs i = (if 0 \<le> i \<and> i < int (length xs) then Some (xs ! nat i)
     else if i < 0 \<and> 0 \<le> i + int (length xs) then Some (xs ! nat (i + int (length xs))) else None)"

text \<open>The result is \<open>Inl ()\<close> for an \<^verbatim>\<open>IndexError\<close>, \<open>Inr None\<close> when the sequence is missing or
  exhausted.\<close>

definition advance_evaluation_sequence :: "'c kv_ops \<Rightarrow> store_env \<Rightarrow> string \<Rightarrow> string \<Rightarrow> string \<Rightarrow> 'c
    \<Rightarrow> (unit + doc option) \<times> 'c" where
  "advance_evaluation_sequence kv e u task_id plan_id c =
     (let key = eval_seq_key u task_id plan_id
      in case get_raw kv key c of
           None \<Rightarrow> (Inr None, c)
         | Some d \<Rightarrow>
             (let candidates = jlist (jor (jget d ''candidates'') (JList []));
                  next_index = jint (jget d ''current_index'') + 1
              in if int (length candidates) \<le> next_index then (Inr None, c)
                 else let c' = kv_upsert kv key (touch_meta e (dict_set ''current_index'' (JInt next_index) d)) None c
                      in case py_nth candidates next_index of
                           None \<Rightarrow> (Inl (), c')
                         | Some cand \<Rightarrow> (Inr (Some (dict_set ''sequence_index'' (JInt next_index) (jdict cand))), c')))"

subsection \<open>Approvals, ethics checks and policies\<close>

definition save_with_latest :: "'c kv_ops \<Rightarrow> store_env \<Rightarrow> string \<Rightarrow> string \<Rightarrow> doc \<Rightarrow> string \<Rightarrow> string \<Rightarrow> 'c \<Rightarrow> string \<times> 'c" where
  "save_with_latest kv e ty key p latest_ty latest_key c =
     (key, kv_upsert kv latest_key (with_meta e latest_ty (with_meta e ty p)) None
             (kv_upsert kv key (with_meta e ty p) None c))"

definition list_or_latest :: "'c kv_ops \<Rightarrow> string option \<Rightarrow> string \<Rightarrow> doc list \<times> nat \<Rightarrow> 'c \<Rightarrow> doc list \<times> nat" where
  "list_or_latest kv plan_id latest_key r c =
     (if fst r \<noteq> [] \<or> \<not> given plan_id then r
      else case kv_get kv c latest_key of None \<Rightarrow> ([], 0) | Some d \<Rightarrow> ([d], 1))"

definition save_human_approval :: "'c kv_ops \<Rightarrow> store_env \<Rightarrow> string \<Rightarrow> doc \<Rightarrow> 'c \<Rightarrow> string \<times> 'c" where
  "save_human_approval kv e u approval c =
     save_with_latest kv e ''human_approval''
       (key3 ''human_approval'' u (sfield approval ''plan_id'') (e_uuid e)) approval
       ''human_approval_latest'' (key2 ''human_approval_latest'' u (sfield approval ''plan_id'')) c"

definition list_human_approvals :: "'c kv_ops \<Rightarrow> string \<Rightarrow> string option \<Rightarrow> listing \<Rightarrow> 'c \<Rightarrow> doc list \<times> nat" where
  "list_human_approvals kv u plan_id lp c =
     list_or_latest kv plan_id (key2 ''human_approval_latest'' u (the plan_id))
       (list_page kv (narrow plan_id (prefix2 ''human_approval'' u)) lp ''decided_at'' c) c"

definition save_ethics_check :: "'c kv_ops \<Rightarrow> store_env \<Rightarrow> string \<Rightarrow> doc \<Rightarrow> 'c \<Rightarrow> string \<times> 'c" where
  "save_ethics_check kv e u check c =
     save_with_latest kv e ''ethics_check''
       (key3 ''ethics_check'' u (sfield check ''plan_id'') (e_uuid e)) check
       ''ethics_check_latest'' (key2 ''ethics_check_latest'' u (sfield check ''plan_id'')) c"

definition list_ethics_checks :: "'c kv_ops \<Rightarrow> string \<Rightarrow> string option \<Rightarrow> listing \<Rightarrow> 'c \<Rightarrow> doc list \<times> nat" where
  "list_ethics_checks kv u plan_id lp c =
     list_or_latest kv plan_id (key2 ''ethics_check_latest'' u (the plan_id))
       (list_page kv (narrow plan_id (prefix2 ''ethics_check'' u)) lp ''checked_at'' c) c"

definition save_ethics_policy :: "'c kv_ops \<Rightarrow> store_env \<Rightarrow> string \<Rightarrow> doc \<Rightarrow> 'c \<Rightarrow> string \<times> 'c" where
  "save_ethics_policy kv e u policy c =
     save_with_latest kv e ''ethics_policy'' (key2 ''ethics_policy'' u (sfield policy ''policy_id'')) policy
       ''ethics_policy_active'' (''ethics_policy_active::'' @ u) c"

definition get_ethics_policy :: "'c kv_ops \<Rightarrow> string \<Rightarrow> string \<Rightarrow> 'c \<Rightarrow> doc option" where
  "get_ethics_policy kv u policy_id c = kv_get kv c (key2 ''ethics_policy'' u policy_id)"

definition get_active_ethics_policy :: "'c kv_ops \<Rightarrow> string \<Rightarrow> 'c \<Rightarrow> doc option" where
  "get_active_ethics_policy kv u c = kv_get kv c (''ethics_policy_active::'' @ u)"

definition list_ethics_policies :: "'c kv_ops \<Rightarrow> string \<Rightarrow> listing \<Rightarrow> 'c \<Rightarrow> doc list \<times> nat" where
  "list_ethics_policies kv u lp c = list_page kv (prefix2 ''ethics_policy'' u) lp ''created_at'' c"

subsection \<open>Cycles, strategies, reports, notices, audit\<close>

definition save_cnp_cycle :: "'c kv_ops \<Rightarrow> store_env \<Rightarrow> string \<Rightarrow> doc \<Rightarrow> 'c \<Rightarrow> string \<times> 'c" where
  "save_cnp_cycle kv e u cycle c = save_doc kv e ''cnp_cycle'' (key2 ''cnp_cycle'' u (sfield cycle ''cycle_id'')) cycle c"

definition get_cnp_cycle :: "'c kv_ops \<Rightarrow> string \<Rightarrow> string \<Rightarrow> 'c \<Rightarrow> doc option" where
  "get_cnp_cycle kv u cycle_id c = kv_get kv c (key2 ''cnp_cycle'' u cycle_id)"

definition list_cnp_cycles :: "'c kv_ops \<Rightarrow> string \<Rightarrow> string option \<Rightarrow> string option \<Rightarrow> listing \<Rightarrow> 'c \<Rightarrow> doc list \<times> nat" where
  "list_cnp_cycles kv u pipeline_id status lp c =
     (let (items, total) = list_page kv (prefix2 ''cnp_cycle'' u) lp ''created_at'' c;
          items = keep status ''status'' (keep pipeline_id ''pipeline_id'' items)
      in (items, if given pipeline_id \<or> given status then length items else total))"

definition save_strategy_plan :: "'c kv_ops \<Rightarrow> store_env \<Rightarrow> string \<Rightarrow> doc \<Rightarrow> 'c \<Rightarrow> string \<times> 'c" where
  "save_strategy_plan kv e u strategy c =
     save_doc kv e ''strategy_plan'' (key3 ''strategy'' u (sfield strategy ''plan_id'') (sfield strategy ''strategy_id'')) strategy c"

definition list_strategy_plans :: "'c kv_ops \<Rightarrow> string \<Rightarrow> string option \<Rightarrow> listing \<Rightarrow> 'c \<Rightarrow> doc list \<times> nat" where
  "list_strategy_plans kv u plan_id lp c = list_page kv (narrow plan_id (prefix2 ''strategy'' u)) lp ''created_at'' c"

definition save_execution_report :: "'c kv_ops \<Rightarrow> store_env \<Rightarrow> string \<Rightarrow> doc \<Rightarrow> 'c \<Rightarrow> string \<times> 'c" where
  "save_execution_report kv e u report c =
     save_doc kv e ''execution_report'' (key3 ''execution'' u (sfield report ''plan_id'') (sfield report ''report_id'')) report c"

definition list_execution_reports :: "'c kv_ops \<Rightarrow> string \<Rightarrow> string option \<Rightarrow> listing \<Rightarrow> 'c \<Rightarrow> doc list \<times> nat" where
  "list_execution_reports kv u plan_id lp c = list_page kv (narrow plan_id (prefix2 ''execution'' u)) lp ''created_at'' c"

definition save_escalation_notice :: "'c kv_ops \<Rightarrow> store_env \<Rightarrow> string \<Rightarrow> doc \<Rightarrow> 'c \<Rightarrow> string \<times> 'c" where
  "save_escalation_notice kv e u notice c =
     save_doc kv e ''escalation_notice'' (key3 ''escalation'' u (sfield notice ''pipeline_run_id'') (e_uuid e)) notice c"

definition list_escalation_notices :: "'c kv_ops \<Rightarrow> string \<Rightarrow> string option \<Rightarrow> listing \<Rightarrow> 'c \<Rightarrow> doc list \<times> nat" where
  "list_escalation_notices kv u run_id lp c = list_page kv (narrow run_id (prefix2 ''escalation'' u)) lp ''created_at'' c"

definition add_audit_log :: "'c kv_ops \<Rightarrow> store_env \<Rightarrow> string \<Rightarrow> doc \<Rightarrow> 'c \<Rightarrow> string \<times> 'c" where
  "add_audit_log kv e u entry c =
     save_doc kv e ''audit_log'' (key3 ''audit'' u (sfield entry ''pipeline_run_id'') (e_uuid e)) entry c"

definition list_audit_logs :: "'c kv_ops \<Rightarrow> string \<Rightarrow> string option \<Rightarrow> listing \<Rightarrow> 'c \<Rightarrow> doc list \<times> nat" where
  "list_audit_logs kv u run_id lp c = list_page kv (narrow run_id (prefix2 ''audit'' u)) lp ''created_at'' c"

subsection \<open>Learning state, topologies, coalitions\<close>

definition save_decision_record :: "'c kv_ops \<Rightarrow> store_env \<Rightarrow> string \<Rightarrow> doc \<Rightarrow> 'c \<Rightarrow> string \<times> 'c" where
  "save_decision_record kv e u r c =
     save_doc kv e ''decision_record'' (key3 ''decision'' u (sfield r ''task_id'') (sfield r ''decision_id'')) r c"

definition get_decision_record :: "'c kv_ops \<Rightarrow> string \<Rightarrow> string \<Rightarrow> string \<Rightarrow> 'c \<Rightarrow> doc option" where
  "get_decision_record kv u task_id decision_id c = get_raw kv (key3 ''decision'' u task_id decision_id) c"

definition list_decision_records :: "'c kv_ops \<Rightarrow> string \<Rightarrow> string option \<Rightarrow> string option \<Rightarrow> listing \<Rightarrow> 'c \<Rightarrow> doc list \<times> nat" where
  "list_decision_records kv u task_id task_type lp c =
     (let (items, total) = list_page kv (narrow task_id (prefix2 ''decision'' u)) lp ''created_at'' c;
          items = keep task_type ''task_type'' items
      in (items, if given task_type then length items else total))"

definition update_decision_outcome :: "'c kv_ops \<Rightarrow> store_env \<Rightarrow> string \<Rightarrow> string \<Rightarrow> string \<Rightarrow> doc \<Rightarrow> real \<Rightarrow> 'c \<Rightarrow> bool \<times> 'c" where
  "update_decision_outcome kv e u task_id decision_id outcome reward c =
     (let key = key3 ''decision'' u task_id decision_id
      in case get_raw kv key c of
           None \<Rightarrow> (False, c)
         | Some d \<Rightarrow> (True, snd (upsert_raw kv e key
             (touch_meta e (dict_set ''outcome_recorded_at'' (JStr (now_iso e))
               (dict_set ''reward'' (JReal reward) (dict_set ''outcome'' (JDict outcome) d)))) c)))"

definition save_bandit_model :: "'c kv_ops \<Rightarrow> store_env \<Rightarrow> string \<Rightarrow> doc \<Rightarrow> 'c \<Rightarrow> string \<times> 'c" where
  "save_bandit_model kv e u st c = save_doc kv e ''bandit_model'' (key2 ''bandit_model'' u (sfield st ''task_type'')) st c"

definition get_bandit_model :: "'c kv_ops \<Rightarrow> string \<Rightarrow> string \<Rightarrow> 'c \<Rightarrow> doc option" where
  "get_bandit_model kv u task_type c = get_raw kv (key2 ''bandit_model'' u task_type) c"

definition list_bandit_models :: "'c kv_ops \<Rightarrow> string \<Rightarrow> 'c \<Rightarrow> doc list \<times> nat" where
  "list_bandit_models kv u c = list_by_prefix kv (prefix2 ''bandit_model'' u) None 0 None True c"

definition save_topology_outcome :: "'c kv_ops \<Rightarrow> store_env \<Rightarrow> string \<Rightarrow> doc \<Rightarrow> 'c \<Rightarrow> string \<times> 'c" where
  "save_topology_outcome kv e u outcome c =
     save_doc kv e ''topology_outcome''
       (key3 ''topology_outcome'' u (sfield outcome ''pipeline_run_id'') (sfield outcome ''outcome_id'')) outcome c"

definition list_topology_outcomes :: "'c kv_ops \<Rightarrow> string \<Rightarrow> string option \<Rightarrow> string option \<Rightarrow> nat option \<Rightarrow> nat \<Rightarrow> 'c \<Rightarrow> doc list \<times> nat" where
  "list_topology_outcomes kv u topology_signature skeleton_id limit offset c =
     (let (items, total) = list_by_prefix kv (prefix2 ''topology_outcome'' u) limit offset (Some ''created_at'') True c;
          items = keep skeleton_id ''skeleton_id'' (keep topology_signature ''topology_signature'' items)
      in (items, if given topology_signature \<or> given skeleton_id then length items else total))"

definition save_topology_performance :: "'c kv_ops \<Rightarrow> store_env \<Rightarrow> string \<Rightarrow> doc \<Rightarrow> 'c \<Rightarrow> string \<times> 'c" where
  "save_topology_performance kv e u perf c =
     save_doc kv e ''topology_performance'' (key2 ''topology_perf'' u (sfield perf ''topology_signature'')) perf c"

definition get_topology_performance :: "'c kv_ops \<Rightarrow> string \<Rightarrow> string \<Rightarrow> 'c \<Rightarrow> doc option" where
  "get_topology_performance kv u sig c = get_raw kv (key2 ''topology_perf'' u sig) c"

definition save_coalition_contract :: "'c kv_ops \<Rightarrow> store_env \<Rightarrow> string \<Rightarrow> doc \<Rightarrow> 'c \<Rightarrow> string \<times> 'c" where
  "save_coalition_contract kv e u contract c =
     save_doc kv e ''coalition_contract''
       (key3 ''coalition_contract'' u (sfield contract ''task_id'') (sfield contract ''coalition_id'')) contract c"

definition get_coalition_contract :: "'c kv_ops \<Rightarrow> string \<Rightarrow> string \<Rightarrow> string \<Rightarrow> 'c \<Rightarrow> doc option" where
  "get_coalition_contract kv u task_id coalition_id c = get_raw kv (key3 ''coalition_contract'' u task_id coalition_id) c"

definition save_coalition_outcome :: "'c kv_ops \<Rightarrow> store_env \<Rightarrow> string \<Rightarrow> doc \<Rightarrow> 'c \<Rightarrow> string \<times> 'c" where
  "save_coalition_outcome kv e u outcome c =
     save_doc kv e ''coalition_outcome''
       (key3 ''coalition_outcome'' u (sfield outcome ''coalition_id'') (sfield outcome ''outcome_id'')) outcome c"

definition list_coalition_outcomes :: "'c kv_ops \<Rightarrow> string \<Rightarrow> string option \<Rightarrow> string option \<Rightarrow> nat option \<Rightarrow> nat \<Rightarrow> 'c \<Rightarrow> doc list \<times> nat" where
  "list_coalition_outcomes kv u coalition_signature task_signature limit offset c =
     (let (items, total) = list_by_prefix kv (prefix2 ''coalition_outcome'' u) limit offset (Some ''created_at'') True c;
          items = keep task_signature ''task_signature'' (keep coalition_signature ''coalition_signature'' items)
      in (items, if given coalition_signature \<or> given task_signature then length items else total))"

definition coalition_signal_key :: "string \<Rightarrow> string \<Rightarrow> string \<Rightarrow> string \<Rightarrow> string" where
  "coalition_signal_key u signal_type coalition_sig task_sig =
     key3 ''coalition_signal'' u signal_type coalition_sig @ ''::'' @ task_sig"

definition save_coalition_signal :: "'c kv_ops \<Rightarrow> store_env \<Rightarrow> string \<Rightarrow> doc \<Rightarrow> 'c \<Rightarrow> string \<times> 'c" where
  "save_coalition_signal kv e u s c =
     save_doc kv e ''coalition_signal''
       (coalition_signal_key u (sfield s ''signal_type'') (sfield s ''coalition_signature'') (sfield s ''task_signature'')) s c"

definition get_coalition_signal :: "'c kv_ops \<Rightarrow> string \<Rightarrow> string \<Rightarrow> string \<Rightarrow> string \<Rightarrow> 'c \<Rightarrow> doc option" where
  "get_coalition_signal kv u signal_type coalition_sig task_sig c =
     get_raw kv (coalition_signal_key u signal_type coalition_sig task_sig) c"

definition list_coalition_signals :: "'c kv_ops \<Rightarrow> string \<Rightarrow> string option \<Rightarrow> 'c \<Rightarrow> doc list \<times> nat" where
  "list_coalition_signals kv u signal_type c =
     list_by_prefix kv (narrow signal_type (prefix2 ''coalition_signal'' u)) None 0 None True c"

definition entity_prefixes :: "string \<Rightarrow> (string \<times> string) list" where
  "entity_prefixes u = map (\<lambda>(n, k). (n, prefix2 k u))
     [(''task_specs'', ''task_spec''), (''bids'', ''bid''), (''plan_drafts'', ''plan_draft''),
      (''plan_revisions'', ''plan_revision''), (''plan_suggestions'', ''plan_suggestion''), (''cfps'', ''cfp''),
      (''awards'', ''award''), (''human_approvals'', ''human_approval''), (''ethics_checks'', ''ethics_check''),
      (''strategy_plans'', ''strategy''), (''execution_reports'', ''execution''), (''audit_logs'', ''audit''),
      (''escalations'', ''escalation''), (''affordance_markers'', ''marker::affordance''),
      (''reservation_markers'', ''marker::reservation''), (''ethics_policies'', ''ethics_policy''),
      (''cnp_cycles'', ''cnp_cycle'')]"

definition get_entity_counts :: "'c kv_ops \<Rightarrow> string \<Rightarrow> 'c \<Rightarrow> (string \<times> nat) list" where
  "get_entity_counts kv u c = map (\<lambda>(n, p). (n, kv_count kv c (p @ ''%''))) (entity_prefixes u)"

end
