(* ===== verification/Store_Properties.thy ===== *)
theory Store_Properties
  imports Graph_Marker_Store
begin

section \<open>What the marker store promises\<close>

text \<open>
  Lemmas over any collection that satisfies the laws of \<open>kv_collection\<close>: reading back what was saved,
  the separation of users in listings, and the evaluation sequences that drive re-forwarding after a
  failure. The witnesses run on the collection in memory.
\<close>

lemmas store_defs = upsert_task_spec_def get_task_spec_def save_plan_draft_def get_plan_draft_def
  save_plan_revision_def get_plan_revision_def save_plan_suggestion_def get_plan_suggestion_def
  save_cnp_cycle_def get_cnp_cycle_def save_decision_record_def get_decision_record_def
  save_bandit_model_def get_bandit_model_def save_coalition_contract_def get_coalition_contract_def
  save_coalition_signal_def get_coalition_signal_def save_evaluation_sequence_def
  get_evaluation_sequence_def save_topology_performance_def get_topology_performance_def get_raw_def

context kv_collection
begin

lemma save_doc_get: "kv_get kv (snd (save_doc kv e ty key p c)) k = (if k = key then Some (with_meta e ty p) else kv_get kv c k)"
  by (simp add: save_doc_def get_upsert)

lemma save_with_latest_get:
  "kv_get kv (snd (save_with_latest kv e ty key p lty lkey c)) lkey = Some (with_meta e lty (with_meta e ty p))"
  "key \<noteq> lkey \<Longrightarrow> kv_get kv (snd (save_with_latest kv e ty key p lty lkey c)) key = Some (with_meta e ty p)"
  by (simp_all add: save_with_latest_def get_upsert)

lemma list_by_prefix_item:
  assumes "i \<in> set (fst (list_by_prefix kv prefix limit offset sort_by desc c))"
  obtains k d where "i = (''id'', JStr k) # d" and "kv_get kv c k = Some d" and "like (prefix @ ''%'') k"
  using assms rows_sub by (fastforce simp: list_by_prefix_def Let_def)

lemma list_by_prefix_all:
  "set (fst (list_by_prefix kv prefix None offset sort_by desc c)) =
     {(''id'', JStr k) # d |k d. kv_get kv c k = Some d \<and> like (prefix @ ''%'') k}"
  by (force simp: list_by_prefix_def Let_def rows_set)

lemma length_list_by_prefix:
  "length (fst (list_by_prefix kv prefix None offset sort_by desc c)) = snd (list_by_prefix kv prefix None offset sort_by desc c)"
  by (simp add: list_by_prefix_def Let_def flip: count_rows)

lemma list_same_matches:
  assumes "\<forall>k. like (prefix @ ''%'') k \<longrightarrow> kv_get kv c k = kv_get kv c' k"
  shows "set (fst (list_by_prefix kv prefix None off s d c)) = set (fst (list_by_prefix kv prefix None off s d c'))"
    and "snd (list_by_prefix kv prefix l off s d c) = snd (list_by_prefix kv prefix l off s d c')"
proof -
  show "set (fst (list_by_prefix kv prefix None off s d c)) = set (fst (list_by_prefix kv prefix None off s d c'))"
    using assms by (auto simp: list_by_prefix_all)
  have "{k. like (prefix @ ''%'') k \<and> kv_get kv c k \<noteq> None} = {k. like (prefix @ ''%'') k \<and> kv_get kv c' k \<noteq> None}"
    using assms by auto
  then show "snd (list_by_prefix kv prefix l off s d c) = snd (list_by_prefix kv prefix l off s d c')"
    by (simp add: list_by_prefix_def Let_def count_card)
qed

lemma list_page_all:
  "l_limit lp = None \<Longrightarrow> set (fst (list_page kv prefix lp ds c)) =
     {(''id'', JStr k) # d |k d. kv_get kv c k = Some d \<and> like (prefix @ ''%'') k}"
  by (simp only: list_page_def list_by_prefix_all)

end

lemma set_keep: "set (keep x f items) = {i \<in> set items. given x \<longrightarrow> jget i f = JStr (the x)}"
  by (auto simp: keep_def)

text \<open>What is saved is read back: after saving a task specification, a plan draft, revision or
  suggestion, a negotiation cycle, a decision record, a bandit model, a coalition contract or an
  evaluation sequence, the getter of its kind returns it with the user name and the metadata the
  store adds.\<close>

theorem store_roundtrip:
  assumes "kv_collection kv"
  shows "get_task_spec kv u (sfield p ''task_id'') (snd (upsert_task_spec kv e u p c)) =
      Some (with_meta e ''task_spec'' (dict_set ''username'' (JStr u) p)) \<and>
      get_plan_draft kv u (sfield p ''plan_id'') (snd (save_plan_draft kv e u p c)) =
      Some (with_meta e ''plan_draft'' (dict_set ''username'' (JStr u) p)) \<and>
      get_plan_revision kv u (sfield p ''plan_id'') (jint (jget p ''revision'')) (snd (save_plan_revision kv e u p c)) =
      Some (with_meta e ''plan_revision'' (dict_set ''username'' (JStr u) p)) \<and>
      get_plan_suggestion kv u (sfield p ''suggestion_id'') (snd (save_plan_suggestion kv e u p c)) =
      Some (with_meta e ''plan_suggestion'' (dict_set ''username'' (JStr u) p)) \<and>
      get_cnp_cycle kv u (sfield p ''cycle_id'') (snd (save_cnp_cycle kv e u p c)) = Some (with_meta e ''cnp_cycle'' p) \<and>
      get_decision_record kv u (sfield p ''task_id'') (sfield p ''decision_id'') (snd (save_decision_record kv e u p c)) =
      Some (with_meta e ''decision_record'' p) \<and>
      get_bandit_model kv u (sfield p ''task_type'') (snd (save_bandit_model kv e u p c)) = Some (with_meta e ''bandit_model'' p) \<and>
      get_coalition_contract kv u (sfield p ''task_id'') (sfield p ''coalition_id'') (snd (save_coalition_contract kv e u p c)) =
      Some (with_meta e ''coalition_contract'' p) \<and>
      get_evaluation_sequence kv u (sfield p ''task_id'') (sfield p ''plan_id'') (snd (save_evaluation_sequence kv e u p c)) =
      Some (with_meta e ''evaluation_sequence'' p)"
  by (simp add: store_defs kv_collection.save_doc_get[OF assms])

definition demo_env :: store_env where
  "demo_env = \<lparr>e_now = 0, e_iso = (\<lambda>t. ''t''), e_uuid = ''id-1'', e_timestamp = (\<lambda>j. 0)\<rparr>"

theorem store_roundtrip_witness:
  "get_task_spec mem_kv ''ann'' ''t1'' (snd (upsert_task_spec mem_kv demo_env ''ann'' [(''task_id'', JStr ''t1'')] [])) =
     Some (with_meta demo_env ''task_spec'' [(''task_id'', JStr ''t1''), (''username'', JStr ''ann'')])"
  using store_roundtrip[OF mem.kv_collection_axioms, of "''ann''" "[(''task_id'', JStr ''t1'')]" demo_env "[]"]
  by (simp add: sfield_def)

lemma other_user_not_like:
  assumes "plain u" and "CHR '':'' \<notin> set u" and "CHR '':'' \<notin> set v" and "u \<noteq> v" and "CHR ''%'' \<notin> set kind"
  shows "\<not> like (prefix2 kind u @ ''%'') (key2 kind v rest)"
  using like_user_prefix[of kind u v rest] assms by (auto simp: prefix2_def key2_def)

lemma key2_Nil: "key2 kind u '''' = prefix2 kind u"
  by (simp add: key2_def prefix2_def)

text \<open>Users are separated: when the two user names have no colon and the reader's has no
  \<^verbatim>\<open>LIKE\<close> wildcard, a task specification another user stores does not change what the
  reader's listing holds nor its total, and no listing of the reader ever holds a document that was
  stored under the other user's key of the same kind.\<close>

theorem listing_separates_users:
  assumes "kv_collection kv" and "plain u" and "CHR '':'' \<notin> set u" and "CHR '':'' \<notin> set v" and "u \<noteq> v"
  shows "(CHR ''%'' \<notin> set kind \<longrightarrow> (\<forall>i \<in> set (fst (list_by_prefix kv (prefix2 kind u) l off s d c)).
      jget i ''id'' \<noteq> JStr (key2 kind v rest))) \<and>
    (l_limit lp = None \<longrightarrow>
      set (fst (list_task_specs kv u lp (snd (upsert_task_spec kv e v spec c)))) = set (fst (list_task_specs kv u lp c))) \<and>
    snd (list_task_specs kv u lp (snd (upsert_task_spec kv e v spec c))) = snd (list_task_specs kv u lp c)"
proof (intro conjI impI ballI)
  note other = other_user_not_like[OF assms(2-5)]
  fix i assume "CHR ''%'' \<notin> set kind" "i \<in> set (fst (list_by_prefix kv (prefix2 kind u) l off s d c))"
  then show "jget i ''id'' \<noteq> JStr (key2 kind v rest)"
    using other[of kind rest] by (auto elim: kv_collection.list_by_prefix_item[OF assms(1)])
next
  let ?c = "snd (upsert_task_spec kv e v spec c)"
  have *: "\<forall>k. like (prefix2 ''task_spec'' u @ ''%'') k \<longrightarrow> kv_get kv ?c k = kv_get kv c k"
    using other_user_not_like[OF assms(2-5), of "''task_spec''"]
    by (auto simp: upsert_task_spec_def kv_collection.save_doc_get[OF assms(1)])
  show "set (fst (list_task_specs kv u lp ?c)) = set (fst (list_task_specs kv u lp c))" if "l_limit lp = None"
    using kv_collection.list_same_matches(1)[OF assms(1) *] that by (simp add: list_task_specs_def list_page_def key2_Nil)
  show "snd (list_task_specs kv u lp ?c) = snd (list_task_specs kv u lp c)"
    using kv_collection.list_same_matches(2)[OF assms(1) *] by (simp add: list_task_specs_def list_page_def key2_Nil)
qed

theorem listing_separates_users_witness:
  "set (fst (list_task_specs mem_kv ''ann'' no_listing
     (snd (upsert_task_spec mem_kv demo_env ''bob'' [(''task_id'', JStr ''t1'')] [])))) =
   set (fst (list_task_specs mem_kv ''ann'' no_listing []))"
  using listing_separates_users[OF mem.kv_collection_axioms, of "''ann''" "''bob''" "[]" None 0 None True "[]" "[]"
      no_listing demo_env "[(''task_id'', JStr ''t1'')]"]
  by (simp add: plain_def no_listing_def)

text \<open>Without that restriction users are not separated: an underscore in a user name is a wildcard of the
  \<^verbatim>\<open>LIKE\<close> pattern, so the listing of user \<^verbatim>\<open>a_b\<close> shows the task specification of
  user \<^verbatim>\<open>axb\<close>.\<close>

theorem wildcard_user_leak:
  "kv_collection mem_kv \<and>
   (\<exists>i. i \<in> set (fst (list_task_specs mem_kv ''a_b'' no_listing
      (snd (upsert_task_spec mem_kv demo_env ''axb'' [(''task_id'', JStr ''t1'')] [])))) \<and>
      jget i ''username'' = JStr ''axb'')"
proof -
  have "fst (list_task_specs mem_kv ''a_b'' no_listing
      (snd (upsert_task_spec mem_kv demo_env ''axb'' [(''task_id'', JStr ''t1'')] []))) =
    [[(''id'', JStr ''task_spec::axb::t1''), (''task_id'', JStr ''t1''), (''username'', JStr ''axb''),
       (''_meta'', JDict [(''type'', JStr ''task_spec''), (''updated_at'', JStr ''t'')])]]"
    by code_simp
  then show ?thesis using mem.kv_collection_axioms by simp
qed

definition two_markers :: "(string \<times> doc) list" where
  "two_markers = snd (add_affordance_marker mem_kv demo_env ''ann''
       [(''marker_id'', JStr ''m2''), (''task_id'', JStr ''t''), (''agent_id'', JStr ''a2'')] None
     (snd (add_affordance_marker mem_kv demo_env ''ann''
       [(''marker_id'', JStr ''m1''), (''task_id'', JStr ''t''), (''agent_id'', JStr ''a1'')] None [])))"

text \<open>A filtered page is not a page of the filtered list: the filters on agent, pipeline or run are applied
  after the server has cut the page, so a marker of the agent asked for can be missing from the first
  page while the reported total is zero.\<close>

theorem filtered_page_misses:
  "kv_collection mem_kv \<and>
   list_affordance_markers mem_kv ''ann'' None (Some ''a2'') None None
     \<lparr>l_limit = Some 1, l_offset = 0, l_sort_by = None, l_desc = True\<rparr> two_markers = ([], 0) \<and>
   length (fst (list_affordance_markers mem_kv ''ann'' None (Some ''a2'') None None no_listing two_markers)) = 1"
proof -
  have "fst (list_affordance_markers mem_kv ''ann'' None (Some ''a2'') None None
     \<lparr>l_limit = Some 1, l_offset = 0, l_sort_by = None, l_desc = True\<rparr> two_markers) = []" by code_simp
  then have "list_affordance_markers mem_kv ''ann'' None (Some ''a2'') None None
     \<lparr>l_limit = Some 1, l_offset = 0, l_sort_by = None, l_desc = True\<rparr> two_markers = ([], 0)"
    by (auto simp: list_affordance_markers_def Let_def given_def split: prod.splits)
  moreover have "length (fst (list_affordance_markers mem_kv ''ann'' None (Some ''a2'') None None no_listing two_markers)) = 1"
    by code_simp
  ultimately show ?thesis using mem.kv_collection_axioms by blast
qed

subsection \<open>Evaluation sequences\<close>

context kv_collection
begin

lemma advance_step:
  assumes "kv_get kv c (eval_seq_key u t p) = Some d" and "jget d ''candidates'' = JList cs"
    and "jget d ''current_index'' = JInt (int i)"
  shows "Suc i < length cs \<Longrightarrow> \<exists>c' d'. advance_evaluation_sequence kv e u t p c =
      (Inr (Some (dict_set ''sequence_index'' (JInt (int (Suc i))) (jdict (cs ! Suc i)))), c') \<and>
      kv_get kv c' (eval_seq_key u t p) = Some d' \<and> jget d' ''candidates'' = JList cs \<and>
      jget d' ''current_index'' = JInt (int (Suc i))"
    and "length cs \<le> Suc i \<Longrightarrow> advance_evaluation_sequence kv e u t p c = (Inr None, c)"
proof -
  have cands: "jlist (jor (JList cs) (JList [])) = cs" by (simp add: jor_def)
  note simps = advance_evaluation_sequence_def Let_def get_raw_def assms cands
  show "length cs \<le> Suc i \<Longrightarrow> advance_evaluation_sequence kv e u t p c = (Inr None, c)"
    by (simp add: simps)
  assume i: "Suc i < length cs"
  have n: "py_nth cs (int (Suc i)) = Some (cs ! Suc i)" using i by (simp add: py_nth_def nat_add_distrib)
  then have n': "py_nth cs (1 + int i) = Some (cs ! Suc i)" by simp
  let ?d = "touch_meta e (dict_set ''current_index'' (JInt (int i + 1)) d)"
  have "jget ?d ''candidates'' = JList cs" "jget ?d ''current_index'' = JInt (int (Suc i))"
    by (simp_all add: touch_meta_def assms(2) add.commute)
  then show "\<exists>c' d'. advance_evaluation_sequence kv e u t p c =
      (Inr (Some (dict_set ''sequence_index'' (JInt (int (Suc i))) (jdict (cs ! Suc i)))), c') \<and>
      kv_get kv c' (eval_seq_key u t p) = Some d' \<and> jget d' ''candidates'' = JList cs \<and>
      jget d' ''current_index'' = JInt (int (Suc i))"
    using i by (simp add: simps n' get_upsert add.commute)
qed

end

fun advances :: "'c kv_ops \<Rightarrow> store_env \<Rightarrow> string \<Rightarrow> string \<Rightarrow> string \<Rightarrow> nat \<Rightarrow> 'c \<Rightarrow> (unit + doc option) list" where
  "advances kv e u t p 0 c = []"
| "advances kv e u t p (Suc n) c =
     (let r = advance_evaluation_sequence kv e u t p c in fst r # advances kv e u t p n (snd r))"

lemma advances_from:
  assumes "kv_collection kv"
  shows "\<lbrakk>kv_get kv c (eval_seq_key u t p) = Some d; jget d ''candidates'' = JList cs; jget d ''current_index'' = JInt (int i)\<rbrakk>
    \<Longrightarrow> advances kv e u t p n c = map (\<lambda>k. Inr (if k < length cs
      then Some (dict_set ''sequence_index'' (JInt (int k)) (jdict (cs ! k))) else None)) [Suc i..<Suc i + n]"
proof (induction n arbitrary: i c d)
  case (Suc n)
  note step = kv_collection.advance_step[OF assms Suc.prems]
  show ?case
  proof (cases "Suc i < length cs")
    case True
    then obtain c' d' where a: "advance_evaluation_sequence kv e u t p c =
        (Inr (Some (dict_set ''sequence_index'' (JInt (int (Suc i))) (jdict (cs ! Suc i)))), c')"
      and d': "kv_get kv c' (eval_seq_key u t p) = Some d'" "jget d' ''candidates'' = JList cs"
        "jget d' ''current_index'' = JInt (int (Suc i))"
      using step(1)[of e] by blast
    show ?thesis using Suc.IH[OF d'] True by (simp add: a Let_def upt_rec[of "Suc i"] del: upt_Suc)
  next
    case False
    then have a: "advance_evaluation_sequence kv e u t p c = (Inr None, c)" using step(2)[of e] by simp
    have "map f [Suc i..<Suc i + Suc n] = f (Suc i) # map f [Suc (Suc i)..<Suc (Suc i) + n]" for f :: "nat \<Rightarrow> unit + doc option"
      by (simp add: upt_rec[of "Suc i"] del: upt_Suc)
    moreover have rep: "map (\<lambda>k. Inr (if k < length cs then F k else None)) [m..<m + n] = replicate n (Inr None :: unit + doc option)"
      if "length cs \<le> m" for F :: "nat \<Rightarrow> doc option" and m
      using that by (intro nth_equalityI) (simp_all del: upt_Suc)
    ultimately show ?thesis using Suc.IH[OF Suc.prems] rep[of "Suc i"] rep[of "Suc (Suc i)"] False
      by (simp add: a Let_def del: upt_Suc)
  qed
qed simp

text \<open>C30. Re-forwarding tries every candidate once, in order, and then stops: after an evaluation sequence with
  candidates \<open>cs\<close> has been saved at index \<open>0\<close>, the calls of \<^verbatim>\<open>advance_evaluation_sequence\<close>
  return the candidates \<open>1, 2, \<dots>\<close> with their positions, then \<^verbatim>\<open>None\<close> for ever, and never
  raise.\<close>

theorem reforward_tries_each_once:
  assumes "kv_collection kv" and "jget s ''candidates'' = JList cs" and "jget s ''current_index'' = JInt 0"
  shows "advances kv e u (sfield s ''task_id'') (sfield s ''plan_id'') n (snd (save_evaluation_sequence kv e' u s c)) =
    map (\<lambda>k. Inr (if k < length cs then Some (dict_set ''sequence_index'' (JInt (int k)) (jdict (cs ! k))) else None)) [1..<Suc n]"
proof -
  let ?c = "snd (save_evaluation_sequence kv e' u s c)" and ?k = "eval_seq_key u (sfield s ''task_id'') (sfield s ''plan_id'')"
  let ?d = "with_meta e' ''evaluation_sequence'' s"
  have "kv_get kv ?c ?k = Some ?d"
    by (simp add: save_evaluation_sequence_def kv_collection.save_doc_get[OF assms(1)])
  moreover have "jget ?d ''candidates'' = JList cs" "jget ?d ''current_index'' = JInt (int 0)"
    using assms(2,3) by (simp_all add: with_meta_def)
  ultimately show ?thesis using advances_from[OF assms(1), of ?c u _ _ ?d cs 0 e n] by simp
qed

theorem reforward_tries_each_once_witness:
  "advances mem_kv demo_env ''ann'' ''t'' ''p'' 2 (snd (save_evaluation_sequence mem_kv demo_env ''ann''
     [(''task_id'', JStr ''t''), (''plan_id'', JStr ''p''), (''current_index'', JInt 0),
      (''candidates'', JList [JDict [(''bidder_id'', JStr ''a'')], JDict [(''bidder_id'', JStr ''b'')]])] [])) =
   [Inr (Some [(''bidder_id'', JStr ''b''), (''sequence_index'', JInt 1)]), Inr None]"
  using reforward_tries_each_once[OF mem.kv_collection_axioms,
      of "[(''task_id'', JStr ''t''), (''plan_id'', JStr ''p''), (''current_index'', JInt 0),
      (''candidates'', JList [JDict [(''bidder_id'', JStr ''a'')], JDict [(''bidder_id'', JStr ''b'')]])]"
      "[JDict [(''bidder_id'', JStr ''a'')], JDict [(''bidder_id'', JStr ''b'')]]" demo_env "''ann''" 2 demo_env "[]"]
  by (simp add: sfield_def upt_rec)

end
