(* ===== verification/Plan_Validator.thy ===== *)
theory Plan_Validator
  imports Kahn Store_Properties "HOL-Library.List_Lexorder" "HOL-Library.Char_ord" "HOL-Library.Monad_Syntax"
begin

section \<open>The plan validator\<close>

text \<open>
  \<^verbatim>\<open>agent_runtime/services/plan_validator.py\<close> and \<^verbatim>\<open>plan_utils.py\<close>: the structural checks of
  a plan draft, the gate of the SHACL engine and of the optional language model review, and the update
  of the stored draft. A violation is a constructor with the data of its report entry; the English
  message is left out. Task identifiers are compared up to Python's equality (\<open>hkey\<close>).
\<close>

datatype violation =
    MissingTaskId nat | DuplicateTaskId json | MissingAssignment json
  | InvalidOntology | InvalidOntologyValues string | NoTasksInGraph
  | EdgeMissingTask json json | CycleDetected
  | InvalidRequiredCapabilities json | MissingRequiredCapabilities json | InvalidCapability json
  | UnknownCapability json "json list" | InvalidTags json | UnknownTag json "json list"
  | MissingTaskType json | UnknownTaskType json json

record ontology =
  o_capabilities :: "string list"
  o_tags :: "string list"
  o_task_types :: "string list"

subsection \<open>Task identifiers\<close>

fun extract_task_ids :: "nat \<Rightarrow> json list \<Rightarrow> violation list \<Rightarrow> doc list \<Rightarrow> shape_error + json list \<times> violation list" where
  "extract_task_ids idx ids vs [] = Inr (ids, vs)"
| "extract_task_ids idx ids vs (t # ts) =
     (let i = jget t ''task_id''
      in if \<not> truthy i then extract_task_ids (Suc idx) ids (vs @ [MissingTaskId idx]) ts
         else if \<not> hashable i then Inl BadShape
         else if hkey i \<in> set ids then extract_task_ids (Suc idx) ids (vs @ [DuplicateTaskId i]) ts
         else extract_task_ids (Suc idx) (ids @ [hkey i])
           (if jget t ''assigned_agent'' \<in> {JNull, JStr []} then vs @ [MissingAssignment i] else vs) ts)"

subsection \<open>Cycle detection\<close>

definition edge_from :: "doc \<Rightarrow> json" where
  "edge_from e = jget e ''from''"

definition edge_to :: "doc \<Rightarrow> json" where
  "edge_to e = jget e ''to''"

fun link_edges :: "json list \<Rightarrow> doc list \<Rightarrow> json graph \<times> json degrees \<Rightarrow> shape_error + json graph \<times> json degrees" where
  "link_edges ids [] gd = Inr gd"
| "link_edges ids (e # es) gd =
     (let src = edge_from e; dst = edge_to e
      in if \<not> hashable src then Inl BadShape
         else if hkey src \<notin> set ids then link_edges ids es gd
         else if \<not> hashable dst then Inl BadShape
         else if hkey dst \<notin> set ids then link_edges ids es gd
         else link_edges ids es (dict_append (fst gd) (hkey src) (hkey dst),
                dict_set (hkey dst) (dict_get (snd gd) (hkey dst) 0 + 1) (snd gd)))"

definition detect_cycle :: "json list \<Rightarrow> doc list \<Rightarrow> shape_error + bool" where
  "detect_cycle ids es =
     bindR (link_edges ids es (map (\<lambda>t. (t, [])) ids, map (\<lambda>t. (t, 0)) ids)) (\<lambda>(g, d).
       let q = map fst (filter (\<lambda>p. snd p = 0) d);
           (_, processed) = kahn_loop PopRight g d q []
       in Inr (length processed \<noteq> length ids))"

subsection \<open>Ontology\<close>

definition ontology_values :: "doc \<Rightarrow> string \<Rightarrow> string list \<times> violation list" where
  "ontology_values raw key =
     (case jget raw key of
        JNull \<Rightarrow> ([], [])
      | JList vs \<Rightarrow> (fold set_add (map strip (filter (\<lambda>s. strip s \<noteq> []) (map jstr (filter is_str vs)))) [], [])
      | _ \<Rightarrow> ([], [InvalidOntologyValues key]))"

definition parse_ontology :: "doc \<Rightarrow> ontology \<times> violation list" where
  "parse_ontology spec =
     (case jget spec ''ontology'' of
        JNull \<Rightarrow> (\<lparr>o_capabilities = [], o_tags = [], o_task_types = []\<rparr>, [])
      | JDict raw \<Rightarrow>
          (let (cs, v1) = ontology_values raw ''capabilities'';
               (ts, v2) = ontology_values raw ''tags'';
               (ys, v3) = ontology_values raw ''task_types''
           in (\<lparr>o_capabilities = cs, o_tags = ts, o_task_types = ys\<rparr>, v1 @ v2 @ v3))
      | _ \<Rightarrow> (\<lparr>o_capabilities = [], o_tags = [], o_task_types = []\<rparr>, [InvalidOntology]))"

subsection \<open>The checks of one task\<close>

text \<open>\<open>outside known vs\<close> is the list comprehension \<^verbatim>\<open>[v for v in vs if v not in known]\<close> over a set of
  strings; an unhashable \<^verbatim>\<open>v\<close> raises.\<close>

definition outside :: "string list \<Rightarrow> json list \<Rightarrow> shape_error + json list" where
  "outside known vs =
     (if list_all hashable vs then Inr (filter (\<lambda>v. \<not> (is_str v \<and> jstr v \<in> set known)) vs) else Inl BadShape)"

definition check_capabilities :: "ontology \<Rightarrow> doc \<Rightarrow> shape_error + violation list" where
  "check_capabilities ont t =
     (let i = jget t ''task_id''
      in case jget t ''required_capabilities'' of
           JList caps \<Rightarrow>
             if caps = [] then Inr [MissingRequiredCapabilities i]
             else let v = (if list_ex (\<lambda>c. \<not> is_str c \<or> strip (jstr c) = []) caps then [InvalidCapability i] else [])
                  in if o_capabilities ont = [] then Inr v
                     else bindR (outside (o_capabilities ont) caps) (\<lambda>u.
                       Inr (if u \<noteq> [] then v @ [UnknownCapability i u] else v))
         | _ \<Rightarrow> Inr [InvalidRequiredCapabilities i])"

definition check_tags :: "ontology \<Rightarrow> doc \<Rightarrow> shape_error + violation list" where
  "check_tags ont t =
     (let i = jget t ''task_id''
      in case jget t ''tags'' of
           JNull \<Rightarrow> Inr []
         | JList tags \<Rightarrow>
             if o_tags ont = [] then Inr []
             else bindR (outside (o_tags ont) tags) (\<lambda>u. Inr (if u \<noteq> [] then [UnknownTag i u] else []))
         | _ \<Rightarrow> Inr [InvalidTags i])"

definition check_task_type :: "ontology \<Rightarrow> doc \<Rightarrow> shape_error + violation list" where
  "check_task_type ont t =
     (let i = jget t ''task_id''; ty = jget t ''task_type''
      in if o_task_types ont = [] then Inr []
         else if \<not> truthy ty then Inr [MissingTaskType i]
         else bindR (outside (o_task_types ont) [ty]) (\<lambda>u. Inr (if u \<noteq> [] then [UnknownTaskType i ty] else [])))"

definition check_task :: "ontology \<Rightarrow> doc \<Rightarrow> shape_error + violation list" where
  "check_task ont t =
     bindR (check_capabilities ont t) (\<lambda>a. bindR (check_tags ont t) (\<lambda>b.
     bindR (check_task_type ont t) (\<lambda>c. Inr (a @ b @ c))))"

fun check_tasks :: "ontology \<Rightarrow> doc list \<Rightarrow> shape_error + violation list" where
  "check_tasks ont [] = Inr []"
| "check_tasks ont (t # ts) = bindR (check_task ont t) (\<lambda>a. bindR (check_tasks ont ts) (\<lambda>b. Inr (a @ b)))"

subsection \<open>The report\<close>

record report =
  rp_conforms :: bool
  rp_task_count :: nat
  rp_edge_count :: nat
  rp_ontology :: ontology
  rp_violations :: "violation list"

definition edge_violations :: "json list \<Rightarrow> doc list \<Rightarrow> violation list" where
  "edge_violations ids es =
     map (\<lambda>e. EdgeMissingTask (edge_from e) (edge_to e))
       (filter (\<lambda>e. hkey (edge_from e) \<notin> set ids \<or> hkey (edge_to e) \<notin> set ids) es)"

definition validate_graph_spec :: "doc \<Rightarrow> shape_error + report" where
  "validate_graph_spec spec =
     bindR (docs_of (jget spec ''tasks'')) (\<lambda>tasks.
     bindR (docs_of (jget spec ''edges'')) (\<lambda>es.
     let (ont, v_ont) = parse_ontology spec;
         v_none = (if tasks = [] then [NoTasksInGraph] else [])
     in bindR (extract_task_ids 0 [] [] tasks) (\<lambda>(ids, v_ids).
        let v_edges = edge_violations ids es
        in bindR (if ids \<noteq> [] \<and> es \<noteq> [] then detect_cycle ids es else Inr False) (\<lambda>cyclic.
           bindR (check_tasks ont tasks) (\<lambda>v_tasks.
             let vs = v_ont @ v_none @ v_ids @ v_edges @ (if cyclic then [CycleDetected] else []) @ v_tasks
             in Inr \<lparr>rp_conforms = (vs = []), rp_task_count = length ids, rp_edge_count = length es,
                  rp_ontology = \<lparr>o_capabilities = sort (o_capabilities ont), o_tags = sort (o_tags ont),
                    o_task_types = sort (o_task_types ont)\<rparr>,
                  rp_violations = vs\<rparr>)))))"
subsection \<open>Plan drafts\<close>

text \<open>\<^verbatim>\<open>PlanDraft\<close> of \<^verbatim>\<open>pydantic_models/multi_agent_pipeline.py\<close>. \<open>draft_doc\<close> is
  \<^verbatim>\<open>model_dump(mode="json")\<close>; \<open>draft_of_doc\<close> is \<^verbatim>\<open>model_validate\<close>: a missing required field or a
  value of another type is refused (the coercions of pydantic between types are not modelled: the
  stored documents are dumps of the model), other keys are ignored.\<close>

record plan_draft =
  pd_plan_id :: string
  pd_username :: string
  pd_pipeline_id :: string
  pd_run_id :: "string option"
  pd_revision :: int
  pd_graph_spec :: doc
  pd_is_valid :: bool
  pd_shacl_report :: "doc option"
  pd_cached :: bool
  pd_created_at :: string

definition draft_doc :: "plan_draft \<Rightarrow> doc" where
  "draft_doc p =
     [(''plan_id'', JStr (pd_plan_id p)), (''username'', JStr (pd_username p)), (''pipeline_id'', JStr (pd_pipeline_id p)),
      (''pipeline_run_id'', jopt JStr (pd_run_id p)), (''revision'', JInt (pd_revision p)),
      (''graph_spec'', JDict (pd_graph_spec p)), (''is_valid'', JBool (pd_is_valid p)),
      (''shacl_report'', jopt JDict (pd_shacl_report p)), (''cached'', JBool (pd_cached p)),
      (''created_at'', JStr (pd_created_at p))]"

definition draft_of_doc :: "string \<Rightarrow> doc \<Rightarrow> plan_draft option" where
  "draft_of_doc now d = do {
     plan \<leftarrow> field as_str None d ''plan_id'';
     user \<leftarrow> field as_str None d ''username'';
     pid \<leftarrow> field as_str None d ''pipeline_id'';
     rid \<leftarrow> field (as_opt as_str) (Some None) d ''pipeline_run_id'';
     rev \<leftarrow> field as_int (Some 1) d ''revision'';
     gs \<leftarrow> field as_dict (Some []) d ''graph_spec'';
     ok \<leftarrow> field as_bool (Some False) d ''is_valid'';
     rep \<leftarrow> field (as_opt as_dict) (Some None) d ''shacl_report'';
     ca \<leftarrow> field as_bool (Some False) d ''cached'';
     crea \<leftarrow> field as_str (Some now) d ''created_at'';
     Some \<lparr>pd_plan_id = plan, pd_username = user, pd_pipeline_id = pid, pd_run_id = rid, pd_revision = rev,
       pd_graph_spec = gs, pd_is_valid = ok, pd_shacl_report = rep, pd_cached = ca, pd_created_at = crea\<rparr> }"

datatype plan_error = PlanNotFound | PlanInvalid | PlanShape | UsernameRequired

definition draft_sort_key :: "store_env \<Rightarrow> doc \<Rightarrow> real" where
  "draft_sort_key e d =
     (let meta = jdict (jget d ''_meta''); upd = jor (jget d ''updated_at'') (jget meta ''updated_at'')
      in if truthy upd then e_timestamp e upd else e_timestamp e (jget d ''created_at''))"

definition latest_draft :: "store_env \<Rightarrow> doc list \<Rightarrow> doc option" where
  "latest_draft e ds = (case ds of [] \<Rightarrow> None | x # xs \<Rightarrow> Some (py_max (draft_sort_key e) x xs))"

definition load_plan_draft :: "'c kv_ops \<Rightarrow> store_env \<Rightarrow> string \<Rightarrow> string option \<Rightarrow> string option \<Rightarrow> string option \<Rightarrow> 'c
    \<Rightarrow> plan_error + plan_draft" where
  "load_plan_draft kv e u pid rid plan c =
     (let found = (if given plan then get_plan_draft kv u (the plan) c
        else let drafts = fst (list_plan_drafts kv e u pid None no_listing c);
                 of_run = filter (\<lambda>d. jget d ''pipeline_run_id'' = JStr (the rid)) drafts
             in latest_draft e (if given rid \<and> of_run \<noteq> [] then of_run else drafts))
      in case found of
           None \<Rightarrow> Inl PlanNotFound
         | Some d \<Rightarrow> (case draft_of_doc (now_iso e) d of None \<Rightarrow> Inl PlanInvalid | Some p \<Rightarrow> Inr p))"

subsection \<open>The language model review\<close>

definition find_char :: "char \<Rightarrow> string \<Rightarrow> nat option" where
  "find_char c s = (if c \<in> set s then Some (length (takeWhile (\<lambda>x. x \<noteq> c) s)) else None)"

definition rfind_char :: "char \<Rightarrow> string \<Rightarrow> nat option" where
  "rfind_char c s = map_option (\<lambda>i. length s - 1 - i) (find_char c (rev s))"

definition extract_json :: "string option \<Rightarrow> string option" where
  "extract_json text =
     (case text of
        None \<Rightarrow> None
      | Some t \<Rightarrow>
          (if t = [] then None
           else let s = strip t
                in if s \<noteq> [] \<and> hd s = CHR ''{'' \<and> last s = CHR ''}'' then Some s
                   else case (find_char (CHR ''{'') s, rfind_char (CHR ''}'') s) of
                          (Some a, Some b) \<Rightarrow> if b \<le> a then None else Some (drop a (take (Suc b) s))
                        | _ \<Rightarrow> None))"

definition str_items :: "(json \<Rightarrow> string) \<Rightarrow> json \<Rightarrow> json" where
  "str_items repr j = JList (map (\<lambda>x. JStr (py_str repr x)) (jlist j))"

definition parse_llm_review :: "(string \<Rightarrow> json option) \<Rightarrow> (json \<Rightarrow> string) \<Rightarrow> string option \<Rightarrow> doc option" where
  "parse_llm_review loads repr text =
     (if text = None \<or> text = Some [] \<or> text = Some ''Error'' then None
      else case Option.bind (extract_json text) loads of
             Some (JDict data) \<Rightarrow>
               (case jget data ''approved'' of
                  JBool b \<Rightarrow> Some
                    [(''approved'', JBool b),
                     (''assessment'', if is_str (jget data ''assessment'') then jget data ''assessment'' else JNull),
                     (''risks'', str_items repr (jget data ''risks'')),
                     (''suggested_fixes'', str_items repr (jget data ''suggested_fixes'')),
                     (''confidence'', case jget data ''confidence'' of
                        JBool x \<Rightarrow> JBool x | JInt x \<Rightarrow> JInt x | JReal x \<Rightarrow> JReal x | _ \<Rightarrow> JNull)]
                | _ \<Rightarrow> None)
           | _ \<Rightarrow> None)"
subsection \<open>The report as a document\<close>

fun violation_doc :: "violation \<Rightarrow> doc" where
  "violation_doc (MissingTaskId n) = [(''code'', JStr ''missing_task_id''), (''index'', JInt (int n))]"
| "violation_doc (DuplicateTaskId t) = [(''code'', JStr ''duplicate_task_id''), (''task_id'', t)]"
| "violation_doc (MissingAssignment t) = [(''code'', JStr ''missing_assignment''), (''task_id'', t)]"
| "violation_doc InvalidOntology = [(''code'', JStr ''invalid_ontology'')]"
| "violation_doc (InvalidOntologyValues k) = [(''code'', JStr ''invalid_ontology_values'')]"
| "violation_doc NoTasksInGraph = [(''code'', JStr ''no_tasks'')]"
| "violation_doc (EdgeMissingTask a b) = [(''code'', JStr ''edge_missing_task''), (''from'', a), (''to'', b)]"
| "violation_doc CycleDetected = [(''code'', JStr ''cycle_detected'')]"
| "violation_doc (InvalidRequiredCapabilities t) = [(''code'', JStr ''invalid_required_capabilities''), (''task_id'', t)]"
| "violation_doc (MissingRequiredCapabilities t) = [(''code'', JStr ''missing_required_capabilities''), (''task_id'', t)]"
| "violation_doc (InvalidCapability t) = [(''code'', JStr ''invalid_capability''), (''task_id'', t)]"
| "violation_doc (UnknownCapability t u) = [(''code'', JStr ''unknown_capability''), (''task_id'', t), (''unknown'', JList u)]"
| "violation_doc (InvalidTags t) = [(''code'', JStr ''invalid_tags''), (''task_id'', t)]"
| "violation_doc (UnknownTag t u) = [(''code'', JStr ''unknown_tag''), (''task_id'', t), (''unknown'', JList u)]"
| "violation_doc (MissingTaskType t) = [(''code'', JStr ''missing_task_type''), (''task_id'', t)]"
| "violation_doc (UnknownTaskType t y) = [(''code'', JStr ''unknown_task_type''), (''task_id'', t), (''task_type'', y)]"

definition str_list :: "string list \<Rightarrow> json" where
  "str_list xs = JList (map JStr xs)"

definition ontology_doc :: "ontology \<Rightarrow> doc" where
  "ontology_doc ont = filter (\<lambda>(k, v). truthy v)
     [(''capabilities'', str_list (o_capabilities ont)), (''tags'', str_list (o_tags ont)),
      (''task_types'', str_list (o_task_types ont))]"

text \<open>The environment of the validator: the store's clock, the loaded rule set (path, version, hash), the
  SHACL switch and engine, and the language model: the provider of the environment variable and the
  connector, absent when its construction fails, which answers a request with a text or nothing.\<close>

record validator_env =
  ve_store :: store_env
  ve_ruleset :: "(string \<times> json \<times> string) option"
  ve_shacl_on :: bool
  ve_shacl :: "doc \<Rightarrow> string \<Rightarrow> string option \<Rightarrow> string \<Rightarrow> doc option"
  ve_provider :: "string option"
  ve_connector :: "(string \<Rightarrow> doc \<Rightarrow> violation list \<Rightarrow> doc \<Rightarrow> string option) option"
  ve_loads :: "string \<Rightarrow> json option"
  ve_repr :: "json \<Rightarrow> string"

definition stats_doc :: "report \<Rightarrow> doc" where
  "stats_doc r = [(''task_count'', JInt (int (rp_task_count r))), (''edge_count'', JInt (int (rp_edge_count r)))]"

definition report_doc :: "validator_env \<Rightarrow> report \<Rightarrow> doc" where
  "report_doc ve r =
     [(''conforms'', JBool (rp_conforms r)), (''checked_at'', JStr (now_iso (ve_store ve))),
      (''stats'', JDict (stats_doc r)), (''ontology'', JDict (ontology_doc (rp_ontology r))),
      (''violations'', JList (map (\<lambda>v. JDict (violation_doc v)) (rp_violations r)))] @
     (case ve_ruleset ve of None \<Rightarrow> []
      | Some (path, version, hash) \<Rightarrow>
          [(''ruleset'', JDict [(''path'', JStr path), (''version'', version), (''hash'', JStr hash)])])"

subsection \<open>validate\_plan\_draft\<close>

definition shacl_gate :: "validator_env \<Rightarrow> doc \<Rightarrow> string \<Rightarrow> string option \<Rightarrow> string \<Rightarrow> doc \<times> bool" where
  "shacl_gate ve gs plan pid u =
     (if \<not> ve_shacl_on ve then ([(''conforms'', JNull), (''error'', JStr ''shacl_disabled'')], True)
      else case ve_shacl ve gs plan pid u of
             None \<Rightarrow> ([(''conforms'', JNull), (''error'', JStr ''shacl_engine_unavailable'')], True)
           | Some r \<Rightarrow> (r, truthy (jget r ''conforms'')))"

definition llm_review :: "validator_env \<Rightarrow> doc \<Rightarrow> violation list \<Rightarrow> doc \<Rightarrow> string \<Rightarrow> doc option" where
  "llm_review ve gs vs stats req =
     (case (ve_provider ve, ve_connector ve) of
        (Some prov, Some conn) \<Rightarrow>
          map_option (\<lambda>r. r @ [(''provider'', JStr prov)]) (parse_llm_review (ve_loads ve) (ve_repr ve) (conn req gs vs stats))
      | _ \<Rightarrow> None)"

definition no_review :: doc where
  "no_review = [(''approved'', JBool False), (''assessment'', JNull), (''risks'', JList []),
     (''suggested_fixes'', JList []), (''confidence'', JNull), (''error'', JStr ''llm_unavailable'')]"

definition validate_plan_draft :: "'c kv_ops \<Rightarrow> validator_env \<Rightarrow> string \<Rightarrow> string option \<Rightarrow> string option \<Rightarrow> string option \<Rightarrow> 'c
    \<Rightarrow> (plan_error + plan_draft) \<times> 'c" where
  "validate_plan_draft kv ve u pid rid plan c =
     (case load_plan_draft kv (ve_store ve) u pid rid plan c of
        Inl e \<Rightarrow> (Inl e, c)
      | Inr draft \<Rightarrow>
          (case validate_graph_spec (pd_graph_spec draft) of
             Inl _ \<Rightarrow> (Inl PlanShape, c)
           | Inr r \<Rightarrow>
               (let (shacl, shacl_conforms) = shacl_gate ve (pd_graph_spec draft) (pd_plan_id draft) pid u;
                    llm_required = (ve_provider ve \<noteq> None);
                    review = llm_review ve (pd_graph_spec draft) (rp_violations r) (stats_doc r)
                      (pd_plan_id draft @ '':plan_validation'');
                    llm_approved = (case review of None \<Rightarrow> False | Some d \<Rightarrow> truthy (jget d ''approved''));
                    llm_gate = (if llm_required then llm_approved else True);
                    final = (rp_conforms r \<and> shacl_conforms \<and> llm_gate);
                    report = report_doc ve r @
                      [(''shacl_engine'', JDict shacl),
                       (''llm_review'', JDict (case review of None \<Rightarrow> no_review | Some d \<Rightarrow> d)),
                       (''llm_required'', JBool llm_required), (''final_conforms'', JBool final)];
                    updated = draft\<lparr>pd_is_valid := final, pd_shacl_report := Some report\<rparr>
                in (Inr updated, snd (save_plan_draft kv (ve_store ve) u (draft_doc updated) c)))))"

text \<open>The entry point of the agent runtime, for a message that is a dictionary.\<close>

definition run_plan_validator :: "'c kv_ops \<Rightarrow> validator_env \<Rightarrow> doc \<Rightarrow> 'c \<Rightarrow> (plan_error + doc) \<times> 'c" where
  "run_plan_validator kv ve msg c =
     (if \<not> truthy (jget msg ''username'') then (Inl UsernameRequired, c)
      else case validate_plan_draft kv ve (sfield msg ''username'') (as_str (jget msg ''pipeline_id''))
             (as_str (jget msg ''pipeline_run_id'')) (as_str (jget msg ''plan_id'')) c of
             (Inl e, c') \<Rightarrow> (Inl e, c')
           | (Inr d, c') \<Rightarrow>
               (Inr [(''plan_id'', JStr (pd_plan_id d)), (''pipeline_id'', JStr (pd_pipeline_id d)),
                  (''is_valid'', JBool (pd_is_valid d)),
                  (''violations'', dict_get (case pd_shacl_report d of None \<Rightarrow> [] | Some r \<Rightarrow> r) ''violations'' (JList []))], c'))"

end
