(* ===== verification/Agent_Registry.thy ===== *)
theory Agent_Registry
  imports Graph_Marker_Store
begin

section \<open>The agent registry\<close>

text \<open>
  \<^verbatim>\<open>AgentRegistryStore\<close> (\<^verbatim>\<open>orchestrator_core/stores/agent_registry_store.py\<close>) keeps one
  document per live agent; \<^verbatim>\<open>agent_registry_policy.py\<close> adds to a document read from it a
  \<^verbatim>\<open>policy\<close> object with the freshness, decay and coverage of the agent. The environment is the
  record \<open>registry_env\<close>: the variables of the process, the parsers of floats and ISO timestamps, the ISO
  form pydantic prints (\<open>g_dump\<close>) and the text of floats and containers. The user names are those without a
  quote, which the query of \<^verbatim>\<open>_fetch_all\<close> puts in its text as they are.
\<close>

record registry_env = store_env +
  g_getenv :: "string \<Rightarrow> string option"
  g_float :: "string \<Rightarrow> real option"
  g_parse :: "string \<Rightarrow> real option"
  g_dump :: "real \<Rightarrow> string"
  g_repr :: "json \<Rightarrow> string"

datatype registry_error = AgentNotFound | AgentDocMissing | RegistryShape

record registry_config =
  rc_enable :: bool
  rc_filter_stale :: bool
  rc_include_coverage :: bool
  rc_warn :: int
  rc_stale :: int
  rc_offline :: int
  rc_half_life :: int
  rc_min_factor :: real
  rc_min_per_cap :: int
  rc_target_per_cap :: int
  rc_min_per_tag :: int
  rc_target_per_tag :: int
  rc_status_allow :: "string list"

subsection \<open>Configuration\<close>

text \<open>\<^verbatim>\<open>int(s)\<close>: white space, a sign, and digits with single underscores between them.\<close>

definition is_digit :: "char \<Rightarrow> bool" where
  "is_digit c = (let n = of_char c :: nat in 48 \<le> n \<and> n \<le> 57)"

fun read_digits :: "bool \<Rightarrow> int \<Rightarrow> string \<Rightarrow> int option" where
  "read_digits after acc [] = (if after then Some acc else None)"
| "read_digits after acc (c # s) =
     (if is_digit c then read_digits True (10 * acc + (of_char c - 48)) s
      else if c = CHR ''_'' \<and> after then read_digits False acc s else None)"

definition read_int :: "string \<Rightarrow> int option" where
  "read_int s = (case strip s of
       [] \<Rightarrow> None
     | c # t \<Rightarrow> if c = CHR ''-'' then map_option uminus (read_digits False 0 t)
         else read_digits False 0 (if c = CHR ''+'' then t else c # t))"

fun split_at :: "char \<Rightarrow> string \<Rightarrow> string list" where
  "split_at sep [] = [[]]"
| "split_at sep (c # s) = (case split_at sep s of
       [] \<Rightarrow> []
     | w # ws \<Rightarrow> if c = sep then [] # w # ws else (c # w) # ws)"

definition env_bool :: "registry_env \<Rightarrow> string \<Rightarrow> bool \<Rightarrow> bool" where
  "env_bool g name dflt = (case g_getenv g name of None \<Rightarrow> dflt
     | Some raw \<Rightarrow> lower_str (strip raw) \<in> {''1'', ''true'', ''yes'', ''y''})"

definition env_int :: "registry_env \<Rightarrow> string \<Rightarrow> int \<Rightarrow> int" where
  "env_int g name dflt = (case g_getenv g name of None \<Rightarrow> dflt
     | Some raw \<Rightarrow> (case read_int raw of None \<Rightarrow> dflt | Some i \<Rightarrow> i))"

definition env_float :: "registry_env \<Rightarrow> string \<Rightarrow> real \<Rightarrow> real" where
  "env_float g name dflt = (case g_getenv g name of None \<Rightarrow> dflt
     | Some raw \<Rightarrow> (case g_float g raw of None \<Rightarrow> dflt | Some r \<Rightarrow> r))"

definition env_csv :: "registry_env \<Rightarrow> string \<Rightarrow> string \<Rightarrow> string list" where
  "env_csv g name dflt =
     (let raw = (case g_getenv g name of None \<Rightarrow> dflt | Some r \<Rightarrow> r)
      in if raw = [] then []
         else map (\<lambda>item. lower_str (strip item)) (filter (\<lambda>item. strip item \<noteq> []) (split_at (CHR '','') raw)))"

definition load_registry_policy_config :: "registry_env \<Rightarrow> registry_config" where
  "load_registry_policy_config g =
     (let warn = max 0 (env_int g ''AGENT_REGISTRY_FRESHNESS_WARN_SECONDS'' 60);
          stale = max warn (env_int g ''AGENT_REGISTRY_FRESHNESS_STALE_SECONDS'' 300);
          offline = max stale (env_int g ''AGENT_REGISTRY_FRESHNESS_OFFLINE_SECONDS'' 900)
      in \<lparr>rc_enable = env_bool g ''AGENT_REGISTRY_POLICY_ENABLE'' True,
          rc_filter_stale = env_bool g ''AGENT_REGISTRY_POLICY_FILTER_STALE'' True,
          rc_include_coverage = env_bool g ''AGENT_REGISTRY_POLICY_INCLUDE_COVERAGE'' True,
          rc_warn = warn, rc_stale = stale, rc_offline = offline,
          rc_half_life = max 0 (env_int g ''AGENT_REGISTRY_DECAY_HALF_LIFE_SECONDS'' 900),
          rc_min_factor = max 0 (min 1 (env_float g ''AGENT_REGISTRY_DECAY_MIN_FACTOR'' (1 / 5))),
          rc_min_per_cap = max 0 (env_int g ''AGENT_REGISTRY_COVERAGE_MIN_PER_CAP'' 1),
          rc_target_per_cap = max 1 (env_int g ''AGENT_REGISTRY_COVERAGE_TARGET_PER_CAP'' 3),
          rc_min_per_tag = max 0 (env_int g ''AGENT_REGISTRY_COVERAGE_MIN_PER_TAG'' 1),
          rc_target_per_tag = max 1 (env_int g ''AGENT_REGISTRY_COVERAGE_TARGET_PER_TAG'' 3),
          rc_status_allow = env_csv g ''AGENT_REGISTRY_COVERAGE_STATUS_ALLOW'' ''online,idle,busy''\<rparr>)"

subsection \<open>Freshness, decay and coverage\<close>

definition parse_dt :: "registry_env \<Rightarrow> json \<Rightarrow> real option" where
  "parse_dt g v = (if v = JNull then None else g_parse g (py_str (g_repr g) v))"

definition coerce_status :: "registry_env \<Rightarrow> json \<Rightarrow> string" where
  "coerce_status g v = (if v = JNull then [] else lower_str (strip (py_str (g_repr g) v)))"

definition text_items :: "registry_env \<Rightarrow> json \<Rightarrow> string list" where
  "text_items g v = (case v of JNull \<Rightarrow> []
     | JList xs \<Rightarrow> filter (\<lambda>s. s \<noteq> []) (map (\<lambda>x. strip (py_str (g_repr g) x)) xs)
     | _ \<Rightarrow> filter (\<lambda>s. s \<noteq> []) [strip (py_str (g_repr g) v)])"

definition freshness_state :: "real \<Rightarrow> registry_config \<Rightarrow> string \<times> bool \<times> bool" where
  "freshness_state age rc =
     (if rc_offline rc \<noteq> 0 \<and> of_int (rc_offline rc) \<le> age then (''offline'', True, True)
      else if rc_stale rc \<noteq> 0 \<and> of_int (rc_stale rc) \<le> age then (''stale'', True, False)
      else if rc_warn rc \<noteq> 0 \<and> of_int (rc_warn rc) \<le> age then (''warn'', False, False)
      else (''fresh'', False, False))"

definition freshness_score :: "real \<Rightarrow> registry_config \<Rightarrow> real" where
  "freshness_score age rc = (if rc_stale rc \<le> 0 then 1
     else max 0 (min 1 (1 - age / of_int (rc_stale rc))))"

definition decay_factor :: "real \<Rightarrow> registry_config \<Rightarrow> real" where
  "decay_factor age rc = (if rc_half_life rc \<le> 0 then 1
     else max (rc_min_factor rc) (min 1 ((1 / 2) powr (age / of_int (rc_half_life rc)))))"

definition coverage_score :: "int list \<Rightarrow> int \<Rightarrow> real" where
  "coverage_score counts target = (if counts = [] then 0 else if target \<le> 0 then 1
     else max 0 (min 1 (Min (set (map (\<lambda>v. of_int v / of_int target) counts)))))"

definition evaluate_entry :: "registry_env \<Rightarrow> registry_config \<Rightarrow> doc \<Rightarrow> registry_error + doc" where
  "evaluate_entry g rc d =
     (let hb = (case parse_dt g (jget d ''last_heartbeat'') of None \<Rightarrow> parse_dt g (jget d ''registered_at'') | Some t \<Rightarrow> Some t);
          expires = parse_dt g (jget d ''expires_at'');
          age = (case hb of None \<Rightarrow> 0 | Some t \<Rightarrow> max 0 (e_now g - t));
          (state, stale, offline) = (case expires of
              None \<Rightarrow> freshness_state age rc
            | Some t \<Rightarrow> if t \<le> e_now g then (''expired'', True, True) else freshness_state age rc);
          status = (if offline then ''offline'' else coerce_status g (jget d ''status''));
          policy = jor (jget d ''policy'') (JDict [])
      in if \<not> is_dict policy then Inl RegistryShape
         else Inr (dict_set ''policy'' (JDict
            (dict_set ''decay'' (JDict [(''age_seconds'', JReal age), (''factor'', JReal (decay_factor age rc))])
            (dict_set ''freshness'' (JDict [(''age_seconds'', JReal age), (''score'', JReal (freshness_score age rc)), (''state'', JStr state)])
            (dict_set ''stale'' (JBool stale)
            (dict_set ''effective_status'' (JStr status)
            (dict_set ''evaluated_at'' (JStr (e_iso g (e_now g))) (jdict policy))))))) d))"

definition evaluate_entries :: "registry_env \<Rightarrow> registry_config \<Rightarrow> doc list \<Rightarrow> registry_error + doc list" where
  "evaluate_entries g rc ds = mapR (evaluate_entry g rc) ds"

text \<open>The counts are read by key only, so the order in which a set of capabilities is walked does not matter.\<close>

definition count_items :: "string list \<Rightarrow> (string \<times> int) list \<Rightarrow> (string \<times> int) list" where
  "count_items xs m = fold (\<lambda>x m. dict_set x (dict_get m x 0 + 1) m) (remdups xs) m"

fun coverage_counts :: "registry_env \<Rightarrow> registry_config \<Rightarrow> (string \<times> int) list \<Rightarrow> (string \<times> int) list \<Rightarrow> doc list
    \<Rightarrow> registry_error + (string \<times> int) list \<times> (string \<times> int) list" where
  "coverage_counts g rc caps tags [] = Inr (caps, tags)"
| "coverage_counts g rc caps tags (d # ds) =
     (let policy = jor (jget d ''policy'') (JDict []);
          status = coerce_status g (jor (jget (jdict policy) ''effective_status'') (jget d ''status''))
      in if \<not> is_dict policy then Inl RegistryShape
         else if rc_status_allow rc \<noteq> [] \<and> status \<notin> set (rc_status_allow rc) then coverage_counts g rc caps tags ds
         else if truthy (jget (jdict policy) ''stale'') then coverage_counts g rc caps tags ds
         else coverage_counts g rc (count_items (text_items g (jget d ''capabilities'')) caps)
           (count_items (text_items g (jget d ''tags'')) tags) ds)"

definition int_map :: "(string \<times> int) list \<Rightarrow> json" where
  "int_map m = JDict (map (\<lambda>(k, v). (k, JInt v)) m)"

definition add_coverage :: "registry_env \<Rightarrow> registry_config \<Rightarrow> (string \<times> int) list \<Rightarrow> (string \<times> int) list \<Rightarrow> doc \<Rightarrow> doc" where
  "add_coverage g rc cap_counts tag_counts d =
     (let caps = text_items g (jget d ''capabilities'');
          tags = text_items g (jget d ''tags'');
          cap_map = fold (\<lambda>x. dict_set x (dict_get cap_counts x 0)) caps [];
          tag_map = fold (\<lambda>x. dict_set x (dict_get tag_counts x 0)) tags [];
          cap_score = coverage_score (map snd cap_map) (rc_target_per_cap rc);
          tag_score = coverage_score (map snd tag_map) (rc_target_per_tag rc);
          score = (if caps \<noteq> [] \<and> tags \<noteq> [] then min cap_score tag_score
            else if caps \<noteq> [] then cap_score else if tags \<noteq> [] then tag_score else 0)
      in dict_set ''policy'' (JDict (dict_set ''coverage'' (JDict
           [(''capability_counts'', int_map cap_map), (''tag_counts'', int_map tag_map),
            (''under_covered_capabilities'', str_json (map fst (filter (\<lambda>(k, v). v < rc_min_per_cap rc) cap_map))),
            (''under_covered_tags'', str_json (map fst (filter (\<lambda>(k, v). v < rc_min_per_tag rc) tag_map))),
            (''capability_score'', JReal cap_score), (''tag_score'', JReal tag_score), (''score'', JReal score),
            (''min_per_capability'', JInt (rc_min_per_cap rc)), (''target_per_capability'', JInt (rc_target_per_cap rc)),
            (''min_per_tag'', JInt (rc_min_per_tag rc)), (''target_per_tag'', JInt (rc_target_per_tag rc))])
           (jdict (jget d ''policy'')))) d)"

definition apply_registry_policies :: "registry_env \<Rightarrow> registry_config \<Rightarrow> bool \<Rightarrow> doc list option \<Rightarrow> doc list
    \<Rightarrow> registry_error + doc list" where
  "apply_registry_policies g rc include_coverage context entries =
     (if \<not> rc_enable rc then Inr entries
      else bindR (evaluate_entries g rc entries) (\<lambda>evaluated.
        if \<not> include_coverage then Inr evaluated
        else bindR (case context of None \<Rightarrow> Inr evaluated | Some cx \<Rightarrow> evaluate_entries g rc cx) (\<lambda>cx.
          bindR (coverage_counts g rc [] [] cx) (\<lambda>(caps, tags).
            Inr (map (add_coverage g rc caps tags) evaluated)))))"
subsection \<open>The store\<close>

definition registry_key :: "string \<Rightarrow> string \<Rightarrow> string" where
  "registry_key u a = ''agent_registry::'' @ u @ ''::'' @ a"

definition effective_ttl :: "int \<Rightarrow> int option \<Rightarrow> int" where
  "effective_ttl default_ttl ttl = (case ttl of None \<Rightarrow> default_ttl | Some t \<Rightarrow> t)"

definition registry_expiry :: "int \<Rightarrow> int option \<Rightarrow> int option" where
  "registry_expiry default_ttl ttl =
     (if 0 < effective_ttl default_ttl ttl then Some (effective_ttl default_ttl ttl) else None)"

definition fetch_all :: "'c kv_ops \<Rightarrow> string \<Rightarrow> 'c \<Rightarrow> doc list" where
  "fetch_all kv u c =
     (let prefix = registry_key u []
      in map (\<lambda>(k, d). let doc = AList.delete ''id'' d
            in if k \<noteq> [] \<and> map_of doc ''agent_id'' = None
               then dict_set ''agent_id'' (JStr (drop (length prefix) k)) doc else doc)
          (kv_rows kv c (prefix @ ''%'') None None))"

definition get_raw_agent :: "'c kv_ops \<Rightarrow> string \<Rightarrow> string \<Rightarrow> 'c \<Rightarrow> doc option" where
  "get_raw_agent kv u a c = kv_get kv c (registry_key u a)"

definition apply_policies :: "registry_env \<Rightarrow> bool \<Rightarrow> doc list option \<Rightarrow> doc list \<Rightarrow> registry_error + doc list" where
  "apply_policies g include_coverage context ds =
     (let rc = load_registry_policy_config g
      in if \<not> rc_enable rc then Inr ds else apply_registry_policies g rc include_coverage context ds)"

definition policy_of :: "doc \<Rightarrow> doc" where
  "policy_of d = (if is_dict (jget d ''policy'') then jdict (jget d ''policy'') else [])"

definition doc_status :: "registry_env \<Rightarrow> doc \<Rightarrow> string" where
  "doc_status g d = lower_str (strip (py_str (g_repr g)
     (jor (jor (jget (policy_of d) ''effective_status'') (jget d ''status'')) (JStr []))))"

definition is_stale :: "doc \<Rightarrow> bool" where
  "is_stale d = (jget (policy_of d) ''stale'' = JBool True)"

definition upsert_agent :: "registry_env \<Rightarrow> 'c kv_ops \<Rightarrow> int \<Rightarrow> string \<Rightarrow> doc \<Rightarrow> int option \<Rightarrow> 'c \<Rightarrow> string \<times> 'c" where
  "upsert_agent g kv default_ttl u entry ttl c =
     (let payload = dict_set ''registered_at'' (jor (jget entry ''registered_at'') (JStr (g_dump g (e_now g))))
            (dict_set ''last_heartbeat'' (JStr (g_dump g (e_now g)))
            (dict_set ''owner'' (jor (jget entry ''owner'') (JStr u)) entry));
          expiry = registry_expiry default_ttl ttl;
          key = registry_key u (jstr (jget entry ''agent_id''))
      in case expiry of
           None \<Rightarrow> (key, kv_upsert kv key payload None c)
         | Some t \<Rightarrow> (key, kv_upsert kv key
             (dict_set ''expires_at'' (JStr (g_dump g (e_now g + of_int t))) payload) (Some t) c))"

text \<open>An exception of the enrichment is caught and the raw document returned.\<close>

definition get_agent :: "registry_env \<Rightarrow> 'c kv_ops \<Rightarrow> string \<Rightarrow> string \<Rightarrow> 'c \<Rightarrow> doc option" where
  "get_agent g kv u a c =
     (case get_raw_agent kv u a c of
        None \<Rightarrow> None
      | Some d \<Rightarrow>
          let rc = load_registry_policy_config g
          in if d = [] \<or> \<not> rc_enable rc then Some d
             else case apply_policies g (rc_include_coverage rc)
                 (if rc_include_coverage rc then Some (fetch_all kv u c) else None) [d] of
               Inl _ \<Rightarrow> Some d
             | Inr ds \<Rightarrow> Some (if ds = [] then d else hd ds))"

definition delete_agent :: "'c kv_ops \<Rightarrow> string \<Rightarrow> string \<Rightarrow> 'c \<Rightarrow> registry_error + 'c" where
  "delete_agent kv u a c = (case kv_remove kv (registry_key u a) c of None \<Rightarrow> Inl AgentDocMissing | Some c' \<Rightarrow> Inr c')"

definition merge_metadata :: "doc \<Rightarrow> doc \<Rightarrow> registry_error + doc" where
  "merge_metadata metadata d =
     (if metadata = [] then Inr d
      else let current = jor (jget d ''metadata'') (JDict [])
        in if is_dict current then Inr (dict_set ''metadata'' (JDict (fold (\<lambda>(k, v). dict_set k v) metadata (jdict current))) d)
           else Inl RegistryShape)"

definition heartbeat :: "registry_env \<Rightarrow> 'c kv_ops \<Rightarrow> int \<Rightarrow> string \<Rightarrow> string \<Rightarrow> string option \<Rightarrow> int option \<Rightarrow> doc \<Rightarrow> 'c
    \<Rightarrow> registry_error + doc \<times> 'c" where
  "heartbeat g kv default_ttl u a status ttl metadata c =
     (case get_raw_agent kv u a c of
        None \<Rightarrow> Inl AgentNotFound
      | Some raw \<Rightarrow>
          if raw = [] then Inl AgentNotFound
          else let d1 = dict_set ''last_heartbeat'' (JStr (e_iso g (e_now g))) raw;
                   d2 = (case status of None \<Rightarrow> d1 | Some s \<Rightarrow> dict_set ''status'' (JStr s) d1)
            in bindR (merge_metadata metadata d2) (\<lambda>d3.
              let expiry = registry_expiry default_ttl ttl;
                  d4 = (case expiry of
                      Some t \<Rightarrow> dict_set ''expires_at'' (JStr (e_iso g (e_now g + of_int t))) d3
                    | None \<Rightarrow> if ttl \<noteq> None then AList.delete ''expires_at'' d3 else d3)
              in Inr (d4, kv_upsert kv (registry_key u a) d4 expiry c)))"

subsection \<open>Listing\<close>

definition has_capability :: "string \<Rightarrow> doc \<Rightarrow> registry_error + bool" where
  "has_capability cap d =
     (case jor (jget d ''capabilities'') (JList []) of
        JList xs \<Rightarrow> Inr (JStr cap \<in> set xs)
      | JDict m \<Rightarrow> Inr (cap \<in> fst ` set m)
      | JStr s \<Rightarrow> Inr (substr_of cap s)
      | _ \<Rightarrow> Inl RegistryShape)"

definition has_tags :: "string list \<Rightarrow> doc \<Rightarrow> registry_error + bool" where
  "has_tags tags d =
     (case jor (jget d ''tags'') (JList []) of
        JList xs \<Rightarrow> if list_all hashable xs then Inr (list_all (\<lambda>t. JStr t \<in> set xs) tags) else Inl RegistryShape
      | JDict m \<Rightarrow> Inr (list_all (\<lambda>t. t \<in> fst ` set m) tags)
      | JStr s \<Rightarrow> Inr (list_all (\<lambda>t. t \<in> (\<lambda>c. [c]) ` set s) tags)
      | _ \<Rightarrow> Inl RegistryShape)"

definition agent_matches :: "registry_env \<Rightarrow> registry_config \<Rightarrow> string option \<Rightarrow> string option \<Rightarrow> string option \<Rightarrow> string list
    \<Rightarrow> doc \<Rightarrow> registry_error + bool" where
  "agent_matches g rc service capability status tags d =
     (if rc_enable rc \<and> rc_filter_stale rc \<and> is_stale d then Inr False
      else if given service \<and> jget d ''service_name'' \<noteq> JStr (the service) then Inr False
      else bindR (if given capability then has_capability (the capability) d else Inr True) (\<lambda>ok.
        if \<not> ok then Inr False
        else if given status \<and> strip (the status) \<noteq> [] \<and> doc_status g d \<noteq> lower_str (strip (the status)) then Inr False
        else if tags = [] then Inr True else has_tags tags d))"

definition list_agents :: "registry_env \<Rightarrow> 'c kv_ops \<Rightarrow> string \<Rightarrow> string option \<Rightarrow> string option \<Rightarrow> string option \<Rightarrow> string list
    \<Rightarrow> 'c \<Rightarrow> registry_error + doc list" where
  "list_agents g kv u service capability status tags c =
     (let docs = fetch_all kv u c; rc = load_registry_policy_config g
      in bindR (if rc_enable rc then apply_policies g True (Some docs) docs else Inr docs)
        (filterR (agent_matches g rc service capability status tags)))"

end
