(* ===== verification/Cnp_Scoring.thy ===== *)
theory Cnp_Scoring
  imports Json
begin

section \<open>Agents, tasks and scores of the contract net\<close>

text \<open>
  \<^verbatim>\<open>agent_runtime/services/cnp_utils.py\<close>, \<^verbatim>\<open>agent_utils.py\<close> and
  \<^verbatim>\<open>semantic/capability_taxonomy.py\<close>: the parameters of a task, the state of an agent, the scores by
  which agents are ranked and bids compared, and the update of an agent after an outcome. The tunable
  constants of the environment are the record \<open>cnp_env\<close>, with the number parsers of the standard
  library. Floats are exact reals. \<^verbatim>\<open>float(v)\<close> and \<^verbatim>\<open>int(v)\<close> yield \<open>None\<close> where they raise.
\<close>

datatype risk_level = RiskLow | RiskMedium | RiskHigh

datatype coordination_mode = SoloOnly | SoloPreferred | CoalitionAllowed | CoalitionRequired

record task_spec =
  sp_task_id :: string
  sp_username :: string
  sp_description :: string
  sp_required_capabilities :: "string list"
  sp_tags :: "string list"
  sp_risk_level :: risk_level
  sp_requires_human_approval :: bool
  sp_coordination_mode :: coordination_mode
  sp_metadata :: doc

record cnp_env =
  ce_float :: "string \<Rightarrow> real option"
  ce_int :: "string \<Rightarrow> int option"
  ce_repr :: "json \<Rightarrow> string"
  ce_hierarchy :: "(string \<times> string) list"
  ce_policy_weight :: real
  ce_lmax_default :: int
  ce_threshold_default :: real
  ce_lambda1 :: real
  ce_lambda2 :: real
  ce_lambda3 :: real
  ce_lambda4 :: real
  ce_lambda5 :: real
  ce_lambda6 :: real
  ce_lambda7 :: real
  ce_lambda_bandit :: real
  ce_failure_max_penalty :: real
  ce_failure_decay :: real

subsection \<open>Numbers\<close>

definition py_trunc :: "real \<Rightarrow> int" where
  "py_trunc r = (if 0 \<le> r then \<lfloor>r\<rfloor> else \<lceil>r\<rceil>)"

fun py_float :: "cnp_env \<Rightarrow> json \<Rightarrow> real option" where
  "py_float ce (JInt i) = Some (of_int i)"
| "py_float ce (JReal r) = Some r"
| "py_float ce (JBool b) = Some (if b then 1 else 0)"
| "py_float ce (JStr s) = ce_float ce s"
| "py_float ce _ = None"

fun py_int :: "cnp_env \<Rightarrow> json \<Rightarrow> int option" where
  "py_int ce (JInt i) = Some i"
| "py_int ce (JReal r) = Some (py_trunc r)"
| "py_int ce (JBool b) = Some (if b then 1 else 0)"
| "py_int ce (JStr s) = ce_int ce s"
| "py_int ce _ = None"

definition coerce_float :: "cnp_env \<Rightarrow> json \<Rightarrow> real \<Rightarrow> real" where
  "coerce_float ce j d = (case py_float ce j of None \<Rightarrow> d | Some r \<Rightarrow> r)"

definition coerce_int :: "cnp_env \<Rightarrow> json \<Rightarrow> int \<Rightarrow> int" where
  "coerce_int ce j d = (case py_int ce j of None \<Rightarrow> d | Some i \<Rightarrow> i)"

definition clamp :: "'a::linorder \<Rightarrow> 'a \<Rightarrow> 'a \<Rightarrow> 'a" where
  "clamp v lo hi = max lo (min hi v)"

subsection \<open>Capabilities\<close>

fun ancestors :: "nat \<Rightarrow> (string \<times> string) list \<Rightarrow> string list \<Rightarrow> string \<Rightarrow> string list" where
  "ancestors 0 h visited current = []"
| "ancestors (Suc n) h visited current =
     (case map_of h current of
        None \<Rightarrow> []
      | Some parent \<Rightarrow>
          if parent = [] \<or> parent \<in> set visited then []
          else parent # ancestors n h (parent # visited) parent)"

definition expand_capabilities :: "(string \<times> string) list \<Rightarrow> string list \<Rightarrow> string list" where
  "expand_capabilities h caps = concat (map (\<lambda>cap. let key = strip (lower_str cap) in key # ancestors 10 h [key] key) caps)"

text \<open>\<^verbatim>\<open>get_children\<close>: the descendants, with a worklist popped at its end. The loop ends because a node is
  expanded once.\<close>

definition children_of :: "(string \<times> string) list \<Rightarrow> string \<Rightarrow> string list" where
  "children_of h parent = map fst (filter (\<lambda>p. snd p = parent) h)"

function children_loop :: "(string \<times> string) list \<Rightarrow> string list \<Rightarrow> string list \<Rightarrow> string list \<Rightarrow> string list" where
  "children_loop h [] visited result = result"
| "children_loop h (q # qs) visited result =
     (let current = last (q # qs); rest = butlast (q # qs)
      in if current \<in> set visited then children_loop h rest visited result
         else children_loop h (rest @ children_of h current) (current # visited) (result @ [current]))"
  by pat_completeness auto

termination
proof (relation "measures [\<lambda>(h, q, v, r). card ((set q \<union> fst ` set h) - set v), \<lambda>(h, q, v, r). length q]", goal_cases)
  case (2 h q qs visited result current rest)
  have "set rest \<subseteq> set (q # qs)" using 2 by (metis in_set_butlastD subsetI)
  then have "card ((set rest \<union> fst ` set h) - set visited) \<le> card ((set (q # qs) \<union> fst ` set h) - set visited)"
    by (intro card_mono) auto
  then show ?case using 2 by auto
next
  case (3 h q qs visited result current rest)
  have "set rest \<subseteq> set (q # qs)" using 3 by (metis in_set_butlastD subsetI)
  moreover have "set (children_of h current) \<subseteq> fst ` set h" by (auto simp: children_of_def)
  moreover have "current \<in> set (q # qs)" using 3(1) last_in_set by blast
  ultimately have "card ((set (rest @ children_of h current) \<union> fst ` set h) - set (current # visited)) <
      card ((set (q # qs) \<union> fst ` set h) - set visited)"
    using 3(3) by (intro psubset_card_mono) auto
  then show ?case by auto
qed auto

definition get_children :: "(string \<times> string) list \<Rightarrow> string \<Rightarrow> string list" where
  "get_children h capability =
     (let target = strip (lower_str capability) in children_loop h (children_of h target) [target] [])"
subsection \<open>Agents\<close>

definition as_list :: "(json \<Rightarrow> string) \<Rightarrow> json \<Rightarrow> string list" where
  "as_list repr j =
     (case j of
        JNull \<Rightarrow> []
      | JList vs \<Rightarrow> filter (\<lambda>s. s \<noteq> []) (map (\<lambda>v. strip (py_str repr v)) vs)
      | _ \<Rightarrow> filter (\<lambda>s. s \<noteq> []) [strip (py_str repr j)])"

definition normalize_agent :: "(json \<Rightarrow> string) \<Rightarrow> doc \<Rightarrow> doc" where
  "normalize_agent repr d =
     (let policy = (if is_dict (jget d ''policy'') then jget d ''policy''
            else if is_dict (jget d ''metadata'') \<and> is_dict (jget (jdict (jget d ''metadata'')) ''policy'')
            then jget (jdict (jget d ''metadata'')) ''policy'' else JDict [])
      in [(''agent_id'', jor (jor (jget d ''agent_id'') (jget d ''id'')) (jget d ''name'')),
          (''service_name'', jget d ''service_name''),
          (''capabilities'', str_json (as_list repr (jget d ''capabilities''))),
          (''tags'', str_json (as_list repr (jget d ''tags''))),
          (''status'', jget d ''status''),
          (''metadata'', jor (jget d ''metadata'') (JDict [])),
          (''policy'', jor policy (JDict []))])"

definition status_weight :: "json \<Rightarrow> real" where
  "status_weight status =
     (let s = lower_str (jstr status)
      in if s = ''idle'' then 1
         else if s = ''online'' then 3 / 4
         else if s = ''busy'' then 2 / 5
         else if s = ''unhealthy'' \<or> s = ''offline'' then 0
         else 1 / 2)"

text \<open>\<open>number j\<close> is the value where \<^verbatim>\<open>isinstance(j, (int, float))\<close>, which holds of a boolean too.\<close>

fun number :: "json \<Rightarrow> real option" where
  "number (JInt i) = Some (of_int i)"
| "number (JReal r) = Some r"
| "number (JBool b) = Some (if b then 1 else 0)"
| "number _ = None"

definition unit_factor :: "json \<Rightarrow> real" where
  "unit_factor j = (case number j of None \<Rightarrow> 1 | Some r \<Rightarrow> max 0 (min 1 r))"

definition policy_factor :: "cnp_env \<Rightarrow> doc \<Rightarrow> real" where
  "policy_factor ce agent =
     (let policy = jdict (jget agent ''policy'');
          factor = unit_factor (jget (jdict (jget policy ''freshness'')) ''score'') *
                   unit_factor (jget (jdict (jget policy ''decay'')) ''factor'');
          weight = max 0 (min 1 (ce_policy_weight ce))
      in (1 - weight) + weight * factor)"

definition overlap_ratio :: "string list \<Rightarrow> string list \<Rightarrow> real \<Rightarrow> real" where
  "overlap_ratio wanted have dflt =
     (let w = remdups wanted
      in if w = [] then dflt else real (length (filter (\<lambda>x. x \<in> set have) w)) / real (length w))"

definition score_agent_for_task :: "cnp_env \<Rightarrow> doc \<Rightarrow> task_spec \<Rightarrow> real" where
  "score_agent_for_task ce agent spec =
     (let caps = expand_capabilities (ce_hierarchy ce) (as_list (ce_repr ce) (jget agent ''capabilities''));
          tags = as_list (ce_repr ce) (jget agent ''tags'');
          required_ratio = overlap_ratio (sp_required_capabilities spec) caps (1 / 2);
          tag_ratio = overlap_ratio (sp_tags spec) tags 0;
          status = jor (jget (jdict (jget agent ''policy'')) ''effective_status'') (jget agent ''status'');
          score = (3 / 5) * required_ratio + (1 / 5) * tag_ratio + (1 / 5) * status_weight status;
          preferred = as_list (ce_repr ce) (jget (sp_metadata spec) ''preferred_agents'');
          score = (if is_str (jget agent ''agent_id'') \<and> jstr (jget agent ''agent_id'') \<in> set preferred
                   then score + 1 / 10 else score)
      in max 0 (min 1 (score * policy_factor ce agent)))"

definition rank_agents_for_task :: "cnp_env \<Rightarrow> doc list \<Rightarrow> task_spec \<Rightarrow> nat option \<Rightarrow> (doc \<times> real) list" where
  "rank_agents_for_task ce agents spec limit =
     (let known = filter (\<lambda>a. truthy (jget a ''agent_id'')) (map (normalize_agent (ce_repr ce)) agents);
          ranked = py_sort snd True (map (\<lambda>a. (a, score_agent_for_task ce a spec)) known)
      in case limit of None \<Rightarrow> ranked | Some n \<Rightarrow> if n = 0 then ranked else take n ranked)"

subsection \<open>Parameters of a task\<close>

record task_parameters =
  tp_priority :: int
  tp_stimulus :: real
  tp_reward :: real
  tp_min_score :: "real option"
  tp_task_type :: string

fun priority_from_risk :: "risk_level \<Rightarrow> int" where
  "priority_from_risk RiskHigh = 5"
| "priority_from_risk RiskMedium = 3"
| "priority_from_risk RiskLow = 1"

definition task_params :: "cnp_env \<Rightarrow> task_spec \<Rightarrow> task_parameters" where
  "task_params ce spec =
     (let m = sp_metadata spec;
          priority = clamp (coerce_int ce (jor (jget m ''priority'') (jget m ''pri'')) (priority_from_risk (sp_risk_level spec))) 1 5;
          stimulus = clamp (coerce_float ce (jor (jget m ''stimulus'') (jget m ''sti'')) (1 / 5 + (of_int (priority - 1) / 4) * (3 / 5))) 0 1;
          reward = clamp (coerce_float ce (jor (jget m ''reward'') (jget m ''rew'')) (1 / 10 + of_int priority)) (1 / 10) 6;
          raw = jor (jget m ''min_score'') (jget m ''min_bid_score'');
          min_score = (if raw = JNull then None else Some (clamp (coerce_float ce raw 0) 0 1));
          task_type = jor (jget m ''task_type'') (JStr (case sp_required_capabilities spec of [] \<Rightarrow> ''general'' | c # _ \<Rightarrow> c))
      in \<lparr>tp_priority = priority, tp_stimulus = stimulus, tp_reward = reward, tp_min_score = min_score,
          tp_task_type = py_str (ce_repr ce) task_type\<rparr>)"

subsection \<open>The state of an agent\<close>

record cnp_state =
  cs_tasks_received :: int
  cs_tasks_acquired :: int
  cs_tasks_completed :: int
  cs_load :: int
  cs_max_load :: int
  cs_thresholds :: doc
  cs_metadata :: doc

definition agent_cnp_state :: "cnp_env \<Rightarrow> doc \<Rightarrow> cnp_state" where
  "agent_cnp_state ce agent =
     (let metadata = jdict (jget agent ''metadata''); cnp = jdict (jget metadata ''cnp'')
      in \<lparr>cs_tasks_received = coerce_int ce (jget cnp ''tasks_received'') 0,
          cs_tasks_acquired = coerce_int ce (jget cnp ''tasks_acquired'') 0,
          cs_tasks_completed = coerce_int ce (jget cnp ''tasks_completed'') 0,
          cs_load = coerce_int ce (jget cnp ''load'') 0,
          cs_max_load = coerce_int ce (jget cnp ''max_load'') (ce_lmax_default ce),
          cs_thresholds = jdict (jget cnp ''thresholds''),
          cs_metadata = metadata\<rparr>)"

definition trust_score :: "cnp_env \<Rightarrow> cnp_state \<Rightarrow> real" where
  "trust_score ce st =
     (let c = cs_tasks_received st; a = cs_tasks_acquired st; t = cs_tasks_completed st
      in if c \<le> 0 then 0
         else let total = max (ce_lambda1 ce + ce_lambda2 ce) (1 / 1000000);
                  y1 = of_int a / of_int c;
                  y2 = (if a = 0 then 0 else of_int t / of_int a)
              in clamp ((ce_lambda1 ce / total) * y1 + (ce_lambda2 ce / total) * y2) 0 1)"

definition response_threshold :: "cnp_env \<Rightarrow> string \<Rightarrow> cnp_state \<Rightarrow> real option \<Rightarrow> real" where
  "response_threshold ce task_type st dflt =
     (case map_of (cs_thresholds st) task_type of
        Some j \<Rightarrow> clamp (coerce_float ce j 0) 0 1
      | None \<Rightarrow> clamp (case dflt of None \<Rightarrow> ce_threshold_default ce | Some d \<Rightarrow> d) 0 1)"

definition alpha_beta :: "int \<Rightarrow> real \<Rightarrow> real \<times> real" where
  "alpha_beta priority reward =
     (clamp (of_int priority / 100 + reward / 10) (1 / 1000) (1 / 10),
      clamp (sin (2 * pi * of_int priority * reward) / 100 + exp (- ((3 * reward) ^ 2)) / 10) (1 / 1000) (1 / 10))"

definition update_threshold :: "real \<Rightarrow> real \<Rightarrow> real \<Rightarrow> real \<Rightarrow> bool \<Rightarrow> real" where
  "update_threshold stimulus trust alpha beta success =
     clamp (if success then stimulus + trust + alpha else stimulus - beta) 0 1"

subsection \<open>Bids\<close>

definition estimate_cost :: "real \<Rightarrow> real \<Rightarrow> int \<Rightarrow> int \<Rightarrow> real" where
  "estimate_cost reward capability load max_load =
     (reward / max capability (1 / 10)) * (1 + of_int load / of_int (max max_load 1))"

definition capability_value :: "cnp_env \<Rightarrow> doc \<Rightarrow> task_spec \<Rightarrow> real" where
  "capability_value ce agent spec =
     (let raw = jget (jdict (jget agent ''metadata'')) ''capability_value''
      in if raw \<noteq> JNull then clamp (coerce_float ce raw 1) (1 / 10) 6
         else clamp (score_agent_for_task ce agent spec * 6) (1 / 10) 6)"

fun failure_counts :: "cnp_env \<Rightarrow> doc list \<Rightarrow> shape_error + int list" where
  "failure_counts ce [] = Inr []"
| "failure_counts ce (m # ms) =
     (if \<not> is_dict (jget m ''failure_context'') \<or> \<not> truthy (jget m ''failure_context'') then failure_counts ce ms
      else case py_int ce (dict_get (jdict (jget m ''failure_context'')) ''count'' (JInt 1)) of
             None \<Rightarrow> Inl BadShape
           | Some n \<Rightarrow> bindR (failure_counts ce ms) (\<lambda>ns. Inr (n # ns)))"

definition failure_surface_penalty :: "cnp_env \<Rightarrow> doc list \<Rightarrow> shape_error + real" where
  "failure_surface_penalty ce markers =
     bindR (failure_counts ce markers) (\<lambda>ns.
       if ns = [] then Inr 0
       else let max_count = fold max ns 0;
                raw = ce_failure_max_penalty ce * (1 - exp (- ce_failure_decay ce * of_int max_count));
                raw = (if 1 < length ns
                       then min (raw + min (1 / 10 * real (length ns - 1)) (1 / 5)) (ce_failure_max_penalty ce) else raw)
            in Inr (clamp raw 0 1))"

record bid_history =
  bh_success_rate :: "real option"
  bh_avg_duration :: "real option"
  bh_baseline :: "real option"
  bh_failure_penalty :: "real option"
  bh_context_bias :: "real option"

definition norm_between :: "real \<Rightarrow> real \<Rightarrow> real \<Rightarrow> real" where
  "norm_between v lo hi = (if lo < hi then (v - lo) / (hi - lo) else 0)"

definition score_bid :: "cnp_env \<Rightarrow> real \<Rightarrow> real \<Rightarrow> int \<Rightarrow> real \<Rightarrow> real \<Rightarrow> int \<Rightarrow> int \<Rightarrow> bid_history \<Rightarrow> real" where
  "score_bid ce trust cost load tmin tmax lmin lmax h =
     (let raw = ce_lambda3 ce * trust - ce_lambda4 ce * norm_between cost tmin tmax -
              (1 - ce_lambda4 ce) * norm_between (of_int load) (of_int lmin) (of_int lmax);
          raw = raw + (case bh_success_rate h of None \<Rightarrow> 0 | Some r \<Rightarrow> ce_lambda5 ce * r);
          raw = raw + (case (bh_avg_duration h, bh_baseline h) of
                  (Some d, Some b) \<Rightarrow> if 0 < b then ce_lambda6 ce * max (1 - min (d / b) 1) 0 else 0
                | _ \<Rightarrow> 0);
          raw = raw - (case bh_failure_penalty h of None \<Rightarrow> 0 | Some f \<Rightarrow> if 0 < f then ce_lambda7 ce * f else 0);
          raw = raw + (case bh_context_bias h of None \<Rightarrow> 0 | Some b \<Rightarrow> ce_lambda_bandit ce * b)
      in clamp (1 / 2 + raw / 2) 0 1)"

subsection \<open>Outcomes\<close>

definition update_cnp_metadata :: "cnp_env \<Rightarrow> doc \<Rightarrow> string \<Rightarrow> real \<Rightarrow> int \<Rightarrow> real \<Rightarrow> bool \<Rightarrow> doc" where
  "update_cnp_metadata ce agent task_type stimulus priority reward success =
     (let st = agent_cnp_state ce agent;
          (alpha, beta) = alpha_beta priority reward;
          threshold = update_threshold stimulus (trust_score ce st) alpha beta success
      in dict_set ''cnp'' (JDict
           [(''tasks_received'', JInt (cs_tasks_received st)),
            (''tasks_acquired'', JInt (cs_tasks_acquired st + 1)),
            (''tasks_completed'', JInt (cs_tasks_completed st + (if success then 1 else 0))),
            (''load'', JInt (max (cs_load st - 1) 0)),
            (''max_load'', JInt (cs_max_load st)),
            (''thresholds'', JDict (dict_set task_type (JReal threshold) (cs_thresholds st))),
            (''last_update'', JDict [(''task_type'', JStr task_type), (''success'', JBool success),
               (''stimulus'', JReal stimulus), (''priority'', JInt priority), (''reward'', JReal reward)])]) (cs_metadata st))"

end
