(* ===== verification/Market_Models.thy ===== *)
theory Market_Models
  imports Cnp_Scoring "HOL-Library.Monad_Syntax"
begin

section \<open>Task specifications, markers, bids and reports\<close>

text \<open>
  The models of \<^verbatim>\<open>pydantic_models/multi_agent_pipeline.py\<close> the contract net exchanges through the marker
  store: for each a record, its dump and its validation from a stored document. \<open>now\<close> and \<open>uuid\<close> are the
  values of the default factories.
\<close>

fun as_risk :: "json \<Rightarrow> risk_level option" where
  "as_risk (JStr s) = (if s = ''low'' then Some RiskLow else if s = ''medium'' then Some RiskMedium
     else if s = ''high'' then Some RiskHigh else None)"
| "as_risk _ = None"

fun as_mode :: "json \<Rightarrow> coordination_mode option" where
  "as_mode (JStr s) = (if s = ''solo_only'' then Some SoloOnly else if s = ''solo_preferred'' then Some SoloPreferred
     else if s = ''coalition_allowed'' then Some CoalitionAllowed
     else if s = ''coalition_required'' then Some CoalitionRequired else None)"
| "as_mode _ = None"

definition task_spec_of_doc :: "doc \<Rightarrow> task_spec option" where
  "task_spec_of_doc d = do {
     t \<leftarrow> field as_str None d ''task_id'';
     u \<leftarrow> field as_str None d ''username'';
     desc \<leftarrow> field as_str None d ''description'';
     caps \<leftarrow> field as_strs (Some []) d ''required_capabilities'';
     tags \<leftarrow> field as_strs (Some []) d ''tags'';
     risk \<leftarrow> field as_risk (Some RiskMedium) d ''risk_level'';
     appr \<leftarrow> field as_bool (Some False) d ''requires_human_approval'';
     mode \<leftarrow> field as_mode (Some SoloPreferred) d ''coordination_mode'';
     meta \<leftarrow> field as_dict (Some []) d ''metadata'';
     _ \<leftarrow> field as_str (Some []) d ''created_at'';
     Some \<lparr>sp_task_id = t, sp_username = u, sp_description = desc, sp_required_capabilities = caps, sp_tags = tags,
       sp_risk_level = risk, sp_requires_human_approval = appr, sp_coordination_mode = mode, sp_metadata = meta\<rparr> }"

subsection \<open>Affordance markers\<close>

record failure_context =
  fc_task_type :: string
  fc_error_category :: "string option"
  fc_count :: int
  fc_last_error :: "string option"

record affordance =
  mk_id :: string
  mk_task_id :: string
  mk_agent_id :: string
  mk_capability :: "string option"
  mk_intensity :: real
  mk_rationale :: "string option"
  mk_pipeline_id :: "string option"
  mk_run_id :: "string option"
  mk_failure :: "failure_context option"
  mk_ttl :: int
  mk_created_at :: string

definition failure_doc :: "failure_context \<Rightarrow> doc" where
  "failure_doc f = [(''task_type'', JStr (fc_task_type f)), (''error_category'', jopt JStr (fc_error_category f)),
     (''count'', JInt (fc_count f)), (''last_error'', jopt JStr (fc_last_error f))]"

fun as_failure :: "json \<Rightarrow> failure_context option" where
  "as_failure (JDict d) = do {
     t \<leftarrow> field as_str None d ''task_type'';
     cat \<leftarrow> field (as_opt as_str) (Some None) d ''error_category'';
     n \<leftarrow> field (as_check (\<lambda>n. 1 \<le> n) as_int) (Some 1) d ''count'';
     err \<leftarrow> field (as_opt as_str) (Some None) d ''last_error'';
     Some \<lparr>fc_task_type = t, fc_error_category = cat, fc_count = n, fc_last_error = err\<rparr> }"
| "as_failure _ = None"

definition marker_doc :: "affordance \<Rightarrow> doc" where
  "marker_doc m =
     [(''marker_id'', JStr (mk_id m)), (''task_id'', JStr (mk_task_id m)), (''agent_id'', JStr (mk_agent_id m)),
      (''capability'', jopt JStr (mk_capability m)), (''intensity'', JReal (mk_intensity m)),
      (''rationale'', jopt JStr (mk_rationale m)), (''pipeline_id'', jopt JStr (mk_pipeline_id m)),
      (''pipeline_run_id'', jopt JStr (mk_run_id m)), (''failure_context'', jopt (\<lambda>f. JDict (failure_doc f)) (mk_failure m)),
      (''ttl_seconds'', JInt (mk_ttl m)), (''created_at'', JStr (mk_created_at m))]"

definition marker_of_doc :: "string \<Rightarrow> string \<Rightarrow> doc \<Rightarrow> affordance option" where
  "marker_of_doc now uuid d = do {
     i \<leftarrow> field as_str (Some uuid) d ''marker_id'';
     t \<leftarrow> field as_str None d ''task_id'';
     a \<leftarrow> field as_str None d ''agent_id'';
     cap \<leftarrow> field (as_opt as_str) (Some None) d ''capability'';
     x \<leftarrow> field (as_check (\<lambda>x. 0 \<le> x) as_real) (Some 1) d ''intensity'';
     why \<leftarrow> field (as_opt as_str) (Some None) d ''rationale'';
     pid \<leftarrow> field (as_opt as_str) (Some None) d ''pipeline_id'';
     rid \<leftarrow> field (as_opt as_str) (Some None) d ''pipeline_run_id'';
     fc \<leftarrow> field (as_opt as_failure) (Some None) d ''failure_context'';
     ttl \<leftarrow> field (as_check (\<lambda>n. 0 \<le> n) as_int) (Some 300) d ''ttl_seconds'';
     crea \<leftarrow> field as_str (Some now) d ''created_at'';
     Some \<lparr>mk_id = i, mk_task_id = t, mk_agent_id = a, mk_capability = cap, mk_intensity = x, mk_rationale = why,
       mk_pipeline_id = pid, mk_run_id = rid, mk_failure = fc, mk_ttl = ttl, mk_created_at = crea\<rparr> }"

subsection \<open>Execution reports\<close>

record outcome =
  oc_task_id :: string
  oc_agent_id :: "string option"
  oc_success :: bool
  oc_duration :: "real option"
  oc_error :: "string option"
  oc_metadata :: doc

fun as_outcome :: "json \<Rightarrow> outcome option" where
  "as_outcome (JDict d) = do {
     t \<leftarrow> field as_str None d ''task_id'';
     a \<leftarrow> field (as_opt as_str) (Some None) d ''agent_id'';
     ok \<leftarrow> field as_bool (Some True) d ''success'';
     dur \<leftarrow> field (as_opt as_real) (Some None) d ''duration_seconds'';
     err \<leftarrow> field (as_opt as_str) (Some None) d ''error'';
     meta \<leftarrow> field as_dict (Some []) d ''metadata'';
     Some \<lparr>oc_task_id = t, oc_agent_id = a, oc_success = ok, oc_duration = dur, oc_error = err, oc_metadata = meta\<rparr> }"
| "as_outcome _ = None"

fun as_outcomes :: "json \<Rightarrow> outcome list option" where
  "as_outcomes (JList xs) = those (map as_outcome xs)"
| "as_outcomes _ = None"

definition report_outcomes :: "doc \<Rightarrow> outcome list option" where
  "report_outcomes d = do {
     _ \<leftarrow> field as_str (Some []) d ''report_id'';
     _ \<leftarrow> field as_str None d ''plan_id'';
     _ \<leftarrow> field (as_opt as_str) (Some None) d ''pipeline_run_id'';
     os \<leftarrow> field as_outcomes (Some []) d ''outcomes'';
     _ \<leftarrow> field as_real (Some 1) d ''success_rate'';
     _ \<leftarrow> field as_str (Some []) d ''created_at'';
     Some os }"

end
