(* ===== verification/Ethics_Gate.thy ===== *)
theory Ethics_Gate
  imports Plan_Validator Agent_Registry Market_Models
begin

section \<open>The ethics gate\<close>

text \<open>
  \<^verbatim>\<open>services/ethics_checker.py\<close> with \<^verbatim>\<open>ethics_policy_config.py\<close>: a plan is reviewed by keyword rules or by a language
  model, the result is stored, and a rejected plan may be queued for another review, which
  \<^verbatim>\<open>consumers/ethics_re_evaluation.py\<close> runs. The language model is the parameter \<open>ee_ask\<close> of \<open>ethics_env\<close>: its answer to the prompt
  made of the draft, the specifications, the approvals and the policy, or \<open>None\<close> when asking raises. \<open>ee_connects\<close>
  says whether the connector can be made. \<open>ee_loads\<close> is \<^verbatim>\<open>json.loads\<close>.
\<close>

datatype severity = SevBlock | SevWarn | SevInfo

record ethics_config =
  ec_company_rules :: bool
  ec_destructive :: "string list"
  ec_pii :: "string list"
  ec_bias :: "string list"
  ec_hallucination :: "string list"
  ec_human_on_block :: bool
  ec_max :: int
  ec_queue :: string
  ec_block_without_policy :: bool

record ethics_rule =
  er_id :: string
  er_name :: string
  er_severity :: severity
  er_category :: string
  er_keywords :: "string list"
  er_enabled :: bool

record ethics_policy =
  ep_id :: string
  ep_name :: string
  ep_rules :: "ethics_rule list"
  ep_max :: int

record ethics_violation =
  vi_rule :: string
  vi_name :: string
  vi_severity :: severity
  vi_category :: string
  vi_task :: "string option"
  vi_detail :: string

datatype ethics_error = EthicsNoStore | EthicsUsername | EthicsPlan plan_error | EthicsShape | EthicsProvider | EthicsLlm

record ethics_env =
  ee_reg :: registry_env
  ee_uuid :: string
  ee_repr :: "json \<Rightarrow> string"
  ee_loads :: "string \<Rightarrow> json option"
  ee_connects :: bool
  ee_ask :: "plan_draft \<Rightarrow> task_spec list \<Rightarrow> doc list \<Rightarrow> ethics_policy option \<Rightarrow> string option option"
  ee_rabbit :: bool

subsection \<open>Configuration\<close>

definition ethics_bool :: "registry_env \<Rightarrow> string \<Rightarrow> bool \<Rightarrow> bool" where
  "ethics_bool g name dflt = (case g_getenv g name of None \<Rightarrow> dflt | Some raw \<Rightarrow> lower_str (strip raw) \<in> {''1'', ''true'', ''yes'', ''y''})"

definition ethics_csv :: "registry_env \<Rightarrow> string \<Rightarrow> string \<Rightarrow> string list" where
  "ethics_csv g name dflt =
     (let raw = (case g_getenv g name of None \<Rightarrow> dflt | Some s \<Rightarrow> s)
      in if raw = [] then [] else map (\<lambda>i. lower_str (strip i)) (filter (\<lambda>i. strip i \<noteq> []) (split_at (CHR '','') raw)))"

definition load_ethics_policy_config :: "registry_env \<Rightarrow> ethics_config" where
  "load_ethics_policy_config g =
     \<lparr>ec_company_rules = ethics_bool g ''ETHICS_ENABLE_COMPANY_RULES'' False,
      ec_destructive = ethics_csv g ''ETHICS_DESTRUCTIVE_KEYWORDS'' ''delete,remove,drop,truncate,destroy,wipe'',
      ec_pii = ethics_csv g ''ETHICS_PII_KEYWORDS'' ''ssn,social security,credit card,password,secret'',
      ec_bias = ethics_csv g ''ETHICS_BIAS_KEYWORDS'' ''discriminate,exclude,blacklist,whitelist'',
      ec_hallucination = ethics_csv g ''ETHICS_HALLUCINATION_KEYWORDS'' ''assume,fabricate,invent,guess'',
      ec_human_on_block = ethics_bool g ''ETHICS_REQUIRE_HUMAN_ON_BLOCK'' False,
      ec_max = max 0 (min 10 (env_int g ''ETHICS_MAX_RE_EVALUATIONS'' 2)),
      ec_queue = (case g_getenv g ''ETHICS_RE_EVALUATION_QUEUE'' of None \<Rightarrow> ''commands.ethics_re_evaluate'' | Some q \<Rightarrow> q),
      ec_block_without_policy = ethics_bool g ''ETHICS_BLOCK_ON_NO_POLICY'' False\<rparr>"

definition provider_from_env :: "registry_env \<Rightarrow> bool" where
  "provider_from_env g = (lower_str (strip (case g_getenv g ''LLM_ETHICS_PROVIDER'' of None \<Rightarrow> [] | Some s \<Rightarrow> s)) \<in> {''openai'', ''gpt'', ''llama'', ''ollama''})"

definition is_stub_mode :: "registry_env \<Rightarrow> bool" where
  "is_stub_mode g = (lower_str (strip (case g_getenv g ''LLM_STUB_MODE'' of None \<Rightarrow> [] | Some s \<Rightarrow> s)) \<in> {''1'', ''true'', ''yes'', ''on''})"

subsection \<open>Policies\<close>

definition severity_of :: "string \<Rightarrow> severity option" where
  "severity_of s = (if s = ''block'' then Some SevBlock else if s = ''warn'' then Some SevWarn else if s = ''info'' then Some SevInfo else None)"

fun as_severity :: "json \<Rightarrow> severity option" where
  "as_severity (JStr s) = severity_of s"
| "as_severity _ = None"

definition rule_of_doc :: "doc \<Rightarrow> ethics_rule option" where
  "rule_of_doc d = do {
     i \<leftarrow> field as_str None d ''rule_id'';
     n \<leftarrow> field as_str None d ''name'';
     _ \<leftarrow> field (as_opt as_str) (Some None) d ''description'';
     s \<leftarrow> field as_severity (Some SevBlock) d ''severity'';
     cat \<leftarrow> field as_str (Some ''general'') d ''category'';
     ks \<leftarrow> field as_strs (Some []) d ''keywords'';
     _ \<leftarrow> field (as_opt as_str) (Some None) d ''llm_instruction'';
     en \<leftarrow> field as_bool (Some True) d ''enabled'';
     Some \<lparr>er_id = i, er_name = n, er_severity = s, er_category = cat, er_keywords = ks, er_enabled = en\<rparr> }"

fun as_rules :: "json \<Rightarrow> ethics_rule list option" where
  "as_rules (JList xs) = those (map (\<lambda>j. case j of JDict d \<Rightarrow> rule_of_doc d | _ \<Rightarrow> None) xs)"
| "as_rules _ = None"

definition policy_of_doc :: "doc \<Rightarrow> ethics_policy option" where
  "policy_of_doc d = do {
     i \<leftarrow> field as_str None d ''policy_id'';
     _ \<leftarrow> field as_str None d ''username'';
     n \<leftarrow> field as_str (Some ''default'') d ''name'';
     rs \<leftarrow> field as_rules (Some []) d ''rules'';
     m \<leftarrow> field (as_check (\<lambda>k. 0 \<le> k \<and> k \<le> 10) as_int) (Some 2) d ''max_re_evaluations'';
     Some \<lparr>ep_id = i, ep_name = n, ep_rules = rs, ep_max = m\<rparr> }"

definition load_effective_policy :: "'c kv_ops \<Rightarrow> string \<Rightarrow> ethics_config \<Rightarrow> 'c \<Rightarrow> ethics_policy option" where
  "load_effective_policy kv u cfg c =
     (if \<not> ec_company_rules cfg then None
      else case get_active_ethics_policy kv u c of None \<Rightarrow> None | Some d \<Rightarrow> policy_of_doc d)"

definition default_rule :: "string \<Rightarrow> string \<Rightarrow> string \<Rightarrow> severity \<Rightarrow> string list \<Rightarrow> ethics_rule" where
  "default_rule i n cat s ks = \<lparr>er_id = i, er_name = n, er_severity = s, er_category = cat, er_keywords = ks, er_enabled = True\<rparr>"

definition build_keyword_rules :: "ethics_policy option \<Rightarrow> ethics_config \<Rightarrow> ethics_rule list" where
  "build_keyword_rules policy cfg =
     (case policy of
        Some p \<Rightarrow> if ep_rules p \<noteq> [] then filter (\<lambda>r. er_enabled r \<and> er_keywords r \<noteq> []) (ep_rules p) else
          [default_rule ''default_destructive'' ''Destructive Operations'' ''destructive'' SevBlock (ec_destructive cfg),
           default_rule ''default_pii'' ''PII Exposure'' ''pii'' SevBlock (ec_pii cfg),
           default_rule ''default_bias'' ''Unfair Bias'' ''bias'' SevWarn (ec_bias cfg),
           default_rule ''default_hallucination'' ''Hallucination Risk'' ''hallucination'' SevWarn (ec_hallucination cfg)]
      | None \<Rightarrow>
          [default_rule ''default_destructive'' ''Destructive Operations'' ''destructive'' SevBlock (ec_destructive cfg),
           default_rule ''default_pii'' ''PII Exposure'' ''pii'' SevBlock (ec_pii cfg),
           default_rule ''default_bias'' ''Unfair Bias'' ''bias'' SevWarn (ec_bias cfg),
           default_rule ''default_hallucination'' ''Hallucination Risk'' ''hallucination'' SevWarn (ec_hallucination cfg)])"

subsection \<open>The review by rules\<close>

definition risky :: "task_spec \<Rightarrow> bool" where
  "risky s \<longleftrightarrow> sp_risk_level s = RiskHigh \<and> \<not> sp_requires_human_approval s"

definition risk_violation :: "task_spec \<Rightarrow> ethics_violation" where
  "risk_violation s = \<lparr>vi_rule = ''builtin_high_risk'', vi_name = ''High Risk Without Approval'', vi_severity = SevBlock, vi_category = ''safety'',
     vi_task = Some (sp_task_id s), vi_detail = ''High-risk task '' @ [CHR 0x27] @ sp_task_id s @ [CHR 0x27] @ '' lacks human approval requirement''\<rparr>"

text \<open>The first keyword of a rule that the description holds.\<close>

definition keyword_hit :: "string \<Rightarrow> ethics_rule \<Rightarrow> string option" where
  "keyword_hit desc r = find (\<lambda>k. substr_of (lower_str k) desc) (er_keywords r)"

definition rule_violation :: "string \<Rightarrow> string option \<Rightarrow> ethics_rule \<Rightarrow> string \<Rightarrow> ethics_violation" where
  "rule_violation shown t r k = \<lparr>vi_rule = er_id r, vi_name = er_name r, vi_severity = er_severity r, vi_category = er_category r, vi_task = t,
     vi_detail = ''Task '' @ [CHR 0x27] @ shown @ [CHR 0x27] @ '': '' @ er_name r @ '' ('' @ k @ '')''\<rparr>"

text \<open>A task that is no dictionary raises; so does one with a hit whose identifier is neither a string nor absent.\<close>

definition task_violations :: "(json \<Rightarrow> string) \<Rightarrow> ethics_rule list \<Rightarrow> json \<Rightarrow> ethics_error + ethics_violation list" where
  "task_violations repr rules task =
     (case task of
        JDict d \<Rightarrow>
          (let desc = lower_str (py_str repr (dict_get d ''description'' (JStr []))); t = dict_get d ''task_id'' (JStr ''unknown'');
               hits = List.map_filter (\<lambda>r. map_option (Pair r) (keyword_hit desc r)) rules
           in case as_opt as_str t of
                Some i \<Rightarrow> Inr (map (\<lambda>(r, k). rule_violation (py_str repr t) i r k) hits)
              | None \<Rightarrow> if hits = [] then Inr [] else Inl EthicsShape)
      | _ \<Rightarrow> Inl EthicsShape)"

record review =
  rw_approved :: bool
  rw_issues :: "string list"
  rw_notes :: "string option"
  rw_violations :: "ethics_violation list"

definition stub_ethics_check :: "(json \<Rightarrow> string) \<Rightarrow> json list \<Rightarrow> task_spec list \<Rightarrow> ethics_policy option \<Rightarrow> ethics_config \<Rightarrow> ethics_error + review" where
  "stub_ethics_check repr tasks specs policy cfg =
     bindR (mapR (task_violations repr (build_keyword_rules policy cfg)) tasks) (\<lambda>vss.
       let vs = map risk_violation (filter risky specs) @ concat vss; ok = \<not> (\<exists>v \<in> set vs. vi_severity v = SevBlock)
       in Inr \<lparr>rw_approved = ok, rw_issues = map vi_detail vs,
         rw_notes = (if ok then Some ''Rule-based ethics check (LLM unavailable)'' else None), rw_violations = vs\<rparr>)"

subsection \<open>The review by a language model\<close>

definition llm_violation :: "(json \<Rightarrow> string) \<Rightarrow> doc \<Rightarrow> ethics_violation option" where
  "llm_violation repr v =
     (let text = (\<lambda>k dflt. py_str repr (dict_get v k (JStr dflt)))
      in case (severity_of (lower_str (text ''severity'' ''block'')), as_opt as_str (jget v ''task_id'')) of
           (Some s, Some t) \<Rightarrow> Some \<lparr>vi_rule = text ''rule_id'' ''llm_detected'', vi_name = text ''rule_name'' ''LLM Detected Issue'', vi_severity = s,
             vi_category = text ''category'' ''general'', vi_task = t, vi_detail = text ''detail'' []\<rparr>
         | _ \<Rightarrow> None)"

definition parse_ethics_response :: "ethics_env \<Rightarrow> string option \<Rightarrow> review option" where
  "parse_ethics_response ee text =
     (if text = None \<or> text = Some [] \<or> text = Some ''Error'' then None
      else case Option.bind (extract_json text) (ee_loads ee) of
             Some (JDict d) \<Rightarrow>
               (case jget d ''approved'' of
                  JBool b \<Rightarrow> Some
                    \<lparr>rw_approved = b,
                     rw_issues = (case jget d ''issues'' of JList xs \<Rightarrow> filter (\<lambda>s. strip s \<noteq> []) (map (py_str (ee_repr ee)) xs) | _ \<Rightarrow> []),
                     rw_notes = as_str (jget d ''notes''),
                     rw_violations = (case jget d ''violations'' of
                       JList xs \<Rightarrow> List.map_filter (\<lambda>j. case j of JDict v \<Rightarrow> llm_violation (ee_repr ee) v | _ \<Rightarrow> None) xs | _ \<Rightarrow> [])\<rparr>
                | _ \<Rightarrow> None)
           | _ \<Rightarrow> None)"

subsection \<open>The decision\<close>

datatype ethics_action = Pass | ReEvaluate | Veto

definition hard_block :: "ethics_violation \<Rightarrow> bool" where
  "hard_block v \<longleftrightarrow> vi_severity v = SevBlock \<and> lower_str (vi_category v) \<in> {''safety'', ''destructive''}"

definition max_re_evaluations :: "ethics_policy option \<Rightarrow> ethics_config \<Rightarrow> int" where
  "max_re_evaluations policy cfg = (case policy of Some p \<Rightarrow> ep_max p | None \<Rightarrow> ec_max cfg)"

definition determine_action :: "review \<Rightarrow> ethics_policy option \<Rightarrow> ethics_config \<Rightarrow> int \<Rightarrow> ethics_action" where
  "determine_action r policy cfg n =
     (if rw_approved r then Pass
      else if \<not> (\<exists>v \<in> set (rw_violations r). hard_block v) then Pass
      else if n < max_re_evaluations policy cfg then ReEvaluate else Veto)"

subsection \<open>The handler\<close>

record ethics_call =
  ea_username :: string
  ea_pipeline :: "string option"
  ea_run :: "string option"
  ea_plan :: "string option"
  ea_count :: int

record ethics_result =
  et_plan :: string
  et_review :: review
  et_policy :: "string option"
  et_action :: ethics_action

text \<open>Specifications of the pipeline, or all of the user when there are none; those that do not validate are left out.\<close>

definition of_pipeline :: "ethics_call \<Rightarrow> doc \<Rightarrow> bool" where
  "of_pipeline m d =
     (case jget d ''metadata'' of
        JDict meta \<Rightarrow> jget meta ''pipeline_id'' = JStr (the (ea_pipeline m)) \<and>
          \<not> (given (ea_run m) \<and> jget meta ''pipeline_run_id'' \<notin> {JNull, JStr [], JStr (the (ea_run m))})
      | _ \<Rightarrow> False)"

definition task_specs_for_pipeline :: "'c kv_ops \<Rightarrow> ethics_call \<Rightarrow> 'c \<Rightarrow> task_spec list" where
  "task_specs_for_pipeline kv m c =
     (let raw = fst (list_task_specs kv (ea_username m) no_listing c); mine = filter (of_pipeline m) raw
      in List.map_filter task_spec_of_doc (if given (ea_pipeline m) \<and> mine \<noteq> [] then mine else raw))"

definition review_plan :: "'c kv_ops \<Rightarrow> ethics_env \<Rightarrow> ethics_call \<Rightarrow> ethics_policy option \<Rightarrow> ethics_config \<Rightarrow> plan_draft \<Rightarrow> 'c \<Rightarrow> ethics_error + review" where
  "review_plan kv ee m policy cfg draft c =
     (let g = ee_reg ee; tasks = jlist (jor (jget (pd_graph_spec draft) ''tasks'') (JList [])); specs = task_specs_for_pipeline kv m c;
          stub = stub_ethics_check (ee_repr ee) tasks specs policy cfg
      in if \<not> provider_from_env g then (if is_stub_mode g then stub else Inl EthicsProvider)
         else if \<not> ee_connects ee then (if is_stub_mode g then stub else Inl EthicsLlm)
         else case ee_ask ee draft specs (fst (list_human_approvals kv (ea_username m) (Some (pd_plan_id draft)) no_listing c)) policy of
             None \<Rightarrow> Inl EthicsLlm
           | Some text \<Rightarrow> (case parse_ethics_response ee text of
                 Some r \<Rightarrow> Inr r | None \<Rightarrow> if is_stub_mode g then stub else Inl EthicsLlm))"

definition severity_text :: "severity \<Rightarrow> string" where
  "severity_text s = (case s of SevBlock \<Rightarrow> ''block'' | SevWarn \<Rightarrow> ''warn'' | SevInfo \<Rightarrow> ''info'')"

definition violation_json :: "ethics_violation \<Rightarrow> json" where
  "violation_json v = JDict [(''rule_id'', JStr (vi_rule v)), (''rule_name'', JStr (vi_name v)), (''severity'', JStr (severity_text (vi_severity v))),
     (''category'', JStr (vi_category v)), (''task_id'', jopt JStr (vi_task v)), (''detail'', JStr (vi_detail v))]"

definition action_text :: "ethics_action \<Rightarrow> string" where
  "action_text a = (case a of Pass \<Rightarrow> ''pass'' | ReEvaluate \<Rightarrow> ''re_evaluate'' | Veto \<Rightarrow> ''veto'')"

definition check_doc :: "string \<Rightarrow> int \<Rightarrow> ethics_result \<Rightarrow> doc" where
  "check_doc now n r =
     [(''plan_id'', JStr (et_plan r)), (''reviewer'', JStr ''ethics_check_agent''), (''approved'', JBool (rw_approved (et_review r))),
      (''issues'', str_json (rw_issues (et_review r))), (''notes'', jopt JStr (rw_notes (et_review r))), (''checked_at'', JStr now),
      (''policy_id'', jopt JStr (et_policy r)), (''violations'', JList (map violation_json (rw_violations (et_review r)))),
      (''re_evaluation_count'', JInt n), (''action'', JStr (action_text (et_action r)))]"

record re_evaluate_command =
  re_username :: string
  re_pipeline :: string
  re_plan :: string
  re_run :: "string option"
  re_count :: int
  re_issues :: "string list"

definition ethics_env_store :: "ethics_env \<Rightarrow> store_env" where
  "ethics_env_store ee = (store_env.truncate (ee_reg ee))\<lparr>e_uuid := ee_uuid ee\<rparr>"

text \<open>The result, the store, and the command that is published when the plan is to be reviewed again.\<close>

definition run_ethics :: "'c kv_ops \<Rightarrow> ethics_env \<Rightarrow> ethics_call \<Rightarrow> 'c option
    \<Rightarrow> (ethics_error + ethics_result \<times> re_evaluate_command option) \<times> 'c option" where
  "run_ethics kv ee m store =
     (case store of
        None \<Rightarrow> (Inl EthicsNoStore, None)
      | Some c \<Rightarrow>
          if ea_username m = [] then (Inl EthicsUsername, Some c)
          else let g = ee_reg ee; cfg = load_ethics_policy_config g; policy = load_effective_policy kv (ea_username m) cfg c
               in case load_plan_draft kv (ethics_env_store ee) (ea_username m) (ea_pipeline m) (ea_run m) (ea_plan m) c of
                    Inl e \<Rightarrow> (Inl (EthicsPlan e), Some c)
                  | Inr draft \<Rightarrow>
                      (case review_plan kv ee m policy cfg draft c of
                         Inl e \<Rightarrow> (Inl e, Some c)
                       | Inr r \<Rightarrow>
                           (let action = determine_action r policy cfg (ea_count m);
                                res = \<lparr>et_plan = pd_plan_id draft, et_review = r, et_policy = map_option ep_id policy, et_action = action\<rparr>;
                                c' = snd (save_ethics_check kv (ethics_env_store ee) (ea_username m)
                                  (check_doc (g_dump g (e_now g)) (ea_count m) res) c);
                                cmd = \<lparr>re_username = ea_username m, re_pipeline = (case ea_pipeline m of None \<Rightarrow> [] | Some p \<Rightarrow> p),
                                  re_plan = pd_plan_id draft, re_run = ea_run m, re_count = ea_count m + 1, re_issues = rw_issues r\<rparr>
                            in (Inr (res, if action = ReEvaluate \<and> ee_rabbit ee \<and> 0 \<le> ea_count m then Some cmd else None), Some c'))))"

subsection \<open>Reviewing again\<close>

definition re_evaluation_call :: "re_evaluate_command \<Rightarrow> ethics_call" where
  "re_evaluation_call cmd = \<lparr>ea_username = re_username cmd, ea_pipeline = Some (re_pipeline cmd), ea_run = re_run cmd,
     ea_plan = Some (re_plan cmd), ea_count = re_count cmd\<rparr>"

text \<open>The approval that the event announces, \<open>None\<close> when the review raised.\<close>

definition handle_re_evaluate :: "'c kv_ops \<Rightarrow> ethics_env \<Rightarrow> re_evaluate_command \<Rightarrow> 'c option
    \<Rightarrow> (bool \<times> re_evaluate_command option) option \<times> 'c option" where
  "handle_re_evaluate kv ee cmd store =
     (case run_ethics kv ee (re_evaluation_call cmd) store of
        (Inl _, s) \<Rightarrow> (None, s) | (Inr (r, next_cmd), s) \<Rightarrow> (Some (rw_approved (et_review r), next_cmd), s))"

text \<open>The consumer of the queue: each command is handled, in the environment of its time, and may leave another.
  The result lists the approvals announced; it is defined when the queue becomes empty.\<close>

partial_function (option) drain_re_evaluations :: "'c kv_ops \<Rightarrow> (nat \<Rightarrow> ethics_env) \<Rightarrow> nat \<Rightarrow> re_evaluate_command option \<Rightarrow> 'c option
    \<Rightarrow> (bool list \<times> 'c option) option" where
  "drain_re_evaluations kv ees n cmd store =
     (case cmd of
        None \<Rightarrow> Some ([], store)
      | Some k \<Rightarrow>
          (case handle_re_evaluate kv (ees n) k store of
             (None, s) \<Rightarrow> Some ([], s)
           | (Some (b, next_cmd), s) \<Rightarrow> do { (bs, s') \<leftarrow> drain_re_evaluations kv ees (Suc n) next_cmd s; Some (b # bs, s') }))"

end
