(* ===== verification/Gate_Properties.thy ===== *)
theory Gate_Properties
  imports Ethics_Gate
begin

text \<open>
  What the ethics gate promises: the rules approve exactly the plans without a blocking violation, and reviewing again comes to
  an end because no policy allows more than ten reviews.
\<close>

subsection \<open>Reviewing again ends\<close>

lemma policy_max_bound: "policy_of_doc d = Some p \<Longrightarrow> ep_max p \<le> 10"
  by (auto simp: policy_of_doc_def bind_eq_Some_conv field_def as_check_def split: option.splits if_splits)

lemma max_re_evaluations_bound: "max_re_evaluations (load_effective_policy kv u (load_ethics_policy_config g) c) (load_ethics_policy_config g) \<le> 10"
  by (auto simp: max_re_evaluations_def load_effective_policy_def load_ethics_policy_config_def policy_max_bound split: option.splits)

lemma re_evaluate_below: "determine_action r policy cfg n = ReEvaluate \<Longrightarrow> n < max_re_evaluations policy cfg"
  by (simp add: determine_action_def split: if_splits)

lemma run_ethics_next:
  assumes "run_ethics kv ee m store = (Inr (r, Some cmd), s)"
  shows "re_count cmd = ea_count m + 1" and "0 \<le> ea_count m" and "ea_count m < 10"
proof -
  obtain c draft rv where "store = Some c" and a: "determine_action rv (load_effective_policy kv (ea_username m) (load_ethics_policy_config (ee_reg ee)) c)
      (load_ethics_policy_config (ee_reg ee)) (ea_count m) = ReEvaluate \<and> ee_rabbit ee \<and> 0 \<le> ea_count m"
    and "re_count cmd = ea_count m + 1"
    using assms by (auto simp: run_ethics_def Let_def split: option.splits if_splits sum.splits)
  then show "re_count cmd = ea_count m + 1" and "0 \<le> ea_count m" by simp_all
  from a show "ea_count m < 10"
    using re_evaluate_below[OF conjunct1[OF a]] max_re_evaluations_bound[of kv "ea_username m" "ee_reg ee" c] by simp
qed

lemma handle_re_evaluate_next:
  assumes "handle_re_evaluate kv ee cmd store = (Some (b, Some k), s)"
  shows "re_count k = re_count cmd + 1 \<and> 0 \<le> re_count cmd \<and> re_count cmd < 10"
proof -
  obtain r where "run_ethics kv ee (re_evaluation_call cmd) store = (Inr (r, Some k), s)"
    using assms by (auto simp: handle_re_evaluate_def split: prod.splits sum.splits)
  from run_ethics_next[OF this] show ?thesis by (simp add: re_evaluation_call_def)
qed

lemma drain_empty: "drain_re_evaluations kv ees n None store = Some ([], store)"
  by (simp add: drain_re_evaluations.simps)

lemma drain_ends:
  assumes "11 - re_count cmd \<le> int j"
  shows "\<exists>bs s. drain_re_evaluations kv ees n (Some cmd) store = Some (bs, s) \<and> length bs \<le> max 1 j"
  using assms
proof (induction j arbitrary: n cmd store rule: less_induct)
  case (less j)
  obtain o' s where h: "handle_re_evaluate kv (ees n) cmd store = (o', s)" by (rule prod.exhaust)
  show ?case
  proof (cases o')
    case None
    with h show ?thesis by (simp add: drain_re_evaluations.simps[of kv ees n "Some cmd"])
  next
    case (Some p)
    obtain b k where p: "p = (b, k)" by (rule prod.exhaust)
    show ?thesis
    proof (cases k)
      case None
      with h Some p show ?thesis by (simp add: drain_re_evaluations.simps[of kv ees n "Some cmd"] drain_empty)
    next
      case (Some k')
      have step: "re_count k' = re_count cmd + 1" "re_count cmd < 10"
        using handle_re_evaluate_next[of kv "ees n" cmd store b k' s] h \<open>o' = Some p\<close> p Some by simp_all
      then have "j - 1 < j" and "11 - re_count k' \<le> int (j - 1)" and "1 < j" using less.prems by simp_all
      then obtain bs t where "drain_re_evaluations kv ees (Suc n) (Some k') s = Some (bs, t)" and "length bs \<le> max 1 (j - 1)"
        using less.IH by blast
      then show ?thesis
        using h \<open>o' = Some p\<close> p Some \<open>1 < j\<close> by (simp add: drain_re_evaluations.simps[of kv ees n "Some cmd"])
    qed
  qed
qed

text \<open>C11. Reviewing a plan again ends: whatever the language model answers, whatever policies are stored and whatever
  environment each review sees, the queue of re-evaluations started by one command becomes empty after at most
  eleven reviews, or after one when the command already counts more.\<close>

theorem re_evaluations_end:
  "\<exists>bs s. drain_re_evaluations kv ees n (Some cmd) store = Some (bs, s) \<and> length bs \<le> max 1 (nat (11 - re_count cmd))"
  by (rule drain_ends) simp

subsection \<open>What the rules approve\<close>

definition blocking_hit :: "(json \<Rightarrow> string) \<Rightarrow> doc \<Rightarrow> ethics_rule \<Rightarrow> bool" where
  "blocking_hit repr d r \<longleftrightarrow> er_severity r = SevBlock \<and>
     (\<exists>k \<in> set (er_keywords r). substr_of (lower_str k) (lower_str (py_str repr (dict_get d ''description'' (JStr [])))))"

lemma keyword_hit_iff: "keyword_hit desc r \<noteq> None \<longleftrightarrow> (\<exists>k \<in> set (er_keywords r). substr_of (lower_str k) desc)"
  by (auto simp: keyword_hit_def find_None_iff)

lemma task_violations_block:
  assumes "task_violations repr rules j = Inr vs"
  shows "(\<exists>v \<in> set vs. vi_severity v = SevBlock \<and> P (vi_category v)) \<longleftrightarrow>
    (\<exists>d. j = JDict d \<and> (\<exists>r \<in> set rules. blocking_hit repr d r \<and> P (er_category r)))"
proof -
  from assms obtain d where d: "j = JDict d" by (cases j) (simp_all add: task_violations_def)
  let ?desc = "lower_str (py_str repr (dict_get d ''description'' (JStr [])))"
  let ?hits = "List.map_filter (\<lambda>r. map_option (Pair r) (keyword_hit ?desc r)) rules"
  have "\<exists>shown i. vs = map (\<lambda>(r, k). rule_violation shown i r k) ?hits"
    using assms by (auto simp: d task_violations_def Let_def split: option.splits if_splits)
  then obtain shown i where vs: "vs = map (\<lambda>(r, k). rule_violation shown i r k) ?hits" by blast
  have hits: "(r, k) \<in> set ?hits \<longleftrightarrow> r \<in> set rules \<and> keyword_hit ?desc r = Some k" for r k
    by (force simp: List.map_filter_def)
  have conv: "(\<exists>v \<in> set (map (\<lambda>(r, k). rule_violation shown i r k) hs). vi_severity v = SevBlock \<and> P (vi_category v)) \<longleftrightarrow>
      (\<exists>r k. (r, k) \<in> set hs \<and> er_severity r = SevBlock \<and> P (er_category r))" for hs
    by (induction hs) (auto simp: rule_violation_def)
  have "(\<exists>v \<in> set vs. vi_severity v = SevBlock \<and> P (vi_category v)) \<longleftrightarrow>
      (\<exists>r k. (r, k) \<in> set ?hits \<and> er_severity r = SevBlock \<and> P (er_category r))"
    unfolding vs by (rule conv)
  also have "\<dots> \<longleftrightarrow> (\<exists>r \<in> set rules. blocking_hit repr d r \<and> P (er_category r))"
    unfolding blocking_hit_def hits keyword_hit_iff[of ?desc, symmetric] by auto
  finally show ?thesis by (simp add: d)
qed

lemma concat_violations_block:
  assumes "mapR (task_violations repr rules) tasks = Inr vss"
  shows "(\<exists>vs \<in> set vss. \<exists>v \<in> set vs. vi_severity v = SevBlock \<and> P (vi_category v)) \<longleftrightarrow>
    (\<exists>d. JDict d \<in> set tasks \<and> (\<exists>r \<in> set rules. blocking_hit repr d r \<and> P (er_category r)))"
proof -
  from assms have "list_all2 (\<lambda>j vs. task_violations repr rules j = Inr vs) tasks vss" by (simp add: mapR_Inr_iff)
  then have "(\<exists>vs \<in> set vss. \<exists>v \<in> set vs. vi_severity v = SevBlock \<and> P (vi_category v)) \<longleftrightarrow>
      (\<exists>j \<in> set tasks. \<exists>d. j = JDict d \<and> (\<exists>r \<in> set rules. blocking_hit repr d r \<and> P (er_category r)))"
  proof (induction rule: list_all2_induct)
    case (Cons j js vs vss)
    show ?case by (simp only: list.set bex_simps Cons(3) task_violations_block[OF Cons(1)])
  qed simp
  then show ?thesis by auto
qed

lemma risk_violation_simps [simp]:
  "vi_severity (risk_violation s) = SevBlock" "vi_category (risk_violation s) = ''safety''"
  by (simp_all add: risk_violation_def)

text \<open>C15. The rules approve a plan exactly when no high-risk specification lacks human approval and no description of a task holds a keyword
  of a blocking rule; and the plan is held back (vetoed or sent to another review) exactly when a high-risk specification lacks approval or
  the keyword belongs to a rule of the category safety or destructive. The other blocking rules, such as those on personal data, reject a
  plan whose action is nevertheless \<^verbatim>\<open>pass\<close>.\<close>

theorem rules_approve_iff:
  assumes "stub_ethics_check repr tasks specs policy cfg = Inr r"
  shows "(rw_approved r \<longleftrightarrow> \<not> (\<exists>s \<in> set specs. risky s) \<and>
      \<not> (\<exists>d. JDict d \<in> set tasks \<and> (\<exists>rule \<in> set (build_keyword_rules policy cfg). blocking_hit repr d rule))) \<and>
    (determine_action r policy cfg n \<noteq> Pass \<longleftrightarrow> (\<exists>s \<in> set specs. risky s) \<or>
      (\<exists>d. JDict d \<in> set tasks \<and> (\<exists>rule \<in> set (build_keyword_rules policy cfg). blocking_hit repr d rule \<and>
        lower_str (er_category rule) \<in> {''safety'', ''destructive''})))"
proof -
  obtain vss where m: "mapR (task_violations repr (build_keyword_rules policy cfg)) tasks = Inr vss"
    and vs: "rw_violations r = map risk_violation (filter risky specs) @ concat vss"
    and ok: "rw_approved r \<longleftrightarrow> \<not> (\<exists>v \<in> set (rw_violations r). vi_severity v = SevBlock)"
    using assms by (auto simp: stub_ethics_check_def Let_def bindR_iffs)
  have safety: "lower_str ''safety'' = ''safety''" by code_simp
  have block: "(\<exists>v \<in> set (rw_violations r). vi_severity v = SevBlock \<and> P (vi_category v)) \<longleftrightarrow> ((\<exists>s \<in> set specs. risky s) \<and> P ''safety'') \<or>
      (\<exists>d. JDict d \<in> set tasks \<and> (\<exists>rule \<in> set (build_keyword_rules policy cfg). blocking_hit repr d rule \<and> P (er_category rule)))" for P
    unfolding concat_violations_block[OF m, symmetric] by (simp add: vs bex_Un) blast
  have "rw_approved r \<longleftrightarrow> \<not> (\<exists>s \<in> set specs. risky s) \<and>
      \<not> (\<exists>d. JDict d \<in> set tasks \<and> (\<exists>rule \<in> set (build_keyword_rules policy cfg). blocking_hit repr d rule))"
    using block[of "\<lambda>_. True"] unfolding ok by simp
  moreover have "determine_action r policy cfg n \<noteq> Pass \<longleftrightarrow> (\<exists>v \<in> set (rw_violations r). vi_severity v = SevBlock \<and>
      lower_str (vi_category v) \<in> {''safety'', ''destructive''})"
    unfolding determine_action_def ok hard_block_def by auto
  moreover note block[of "\<lambda>cat. lower_str cat \<in> {''safety'', ''destructive''}"]
  ultimately show ?thesis by (simp add: safety)
qed

definition pii_config :: ethics_config where
  "pii_config = \<lparr>ec_company_rules = False, ec_destructive = [''delete''], ec_pii = [''ssn''], ec_bias = [], ec_hallucination = [],
     ec_human_on_block = False, ec_max = 2, ec_queue = ''q'', ec_block_without_policy = False\<rparr>"

definition pii_task :: doc where
  "pii_task = [(''task_id'', JStr ''t1''), (''description'', JStr ''collect the ssn'')]"

theorem rules_approve_iff_witness:
  "\<exists>r. stub_ethics_check jstr [JDict pii_task] [] None pii_config = Inr r \<and> \<not> rw_approved r \<and> determine_action r None pii_config 0 = Pass"
proof -
  have "(case stub_ethics_check jstr [JDict pii_task] [] None pii_config of Inl e \<Rightarrow> False | Inr r \<Rightarrow> True)" by code_simp
  then obtain r where r: "stub_ethics_check jstr [JDict pii_task] [] None pii_config = Inr r" by (auto split: sum.splits)
  have "list_ex (blocking_hit jstr pii_task) (build_keyword_rules None pii_config)"
    and "\<not> list_ex (\<lambda>rule. blocking_hit jstr pii_task rule \<and> lower_str (er_category rule) \<in> {''safety'', ''destructive''}) (build_keyword_rules None pii_config)"
    by code_simp+
  then show ?thesis
    using rules_approve_iff[OF r, of 0] r by (auto simp: list_ex_iff)
qed

end
