(* ===== verification/Pheromone.thy ===== *)
theory Pheromone
  imports Market_Models Agent_Registry "HOL-Library.List_Lexorder" "HOL-Library.Char_ord"
begin

section \<open>The pheromone engine\<close>

text \<open>
  \<^verbatim>\<open>agent_runtime/services/pheromone_engine.py\<close>: after a run the intensities of the affordance markers are
  raised or lowered by the outcomes of the tasks, the agents of the registry are updated, and without
  feedback all intensities decay. The state is the marker collection \<open>c\<close> and the collection of the registry
  \<open>rg\<close>, if there is one. \<open>ids i\<close> is the identifier the \<open>i\<close>-th marker created in a call gets, and \<open>load\<close> the
  document store, whose failure is \<open>None\<close>. A message is its dictionary.
  An exception ends the handler with \<open>Inl\<close>; the writes made before it are not described.
\<close>

datatype phero_error = PheroNoStore | PheroUsername | PheroShape | PheroInvalid

subsection \<open>Reading the feedback\<close>

definition coerce_success :: "(json \<Rightarrow> string) \<Rightarrow> json \<Rightarrow> bool option" where
  "coerce_success repr v = (case v of
       JBool b \<Rightarrow> Some b
     | JNull \<Rightarrow> None
     | _ \<Rightarrow> let s = lower_str (strip (py_str repr v))
           in if s \<in> {''success'', ''succeeded'', ''completed'', ''ok'', ''true'', ''passed''} then Some True
              else if s \<in> {''failed'', ''error'', ''false'', ''no'', ''rejected''} then Some False else None)"

definition payload_from_message :: "doc \<Rightarrow> phero_error + doc" where
  "payload_from_message msg = (let d = jget msg ''data''
     in if \<not> truthy d then Inr msg else case d of JDict p \<Rightarrow> Inr p | _ \<Rightarrow> Inl PheroShape)"

text \<open>\<open>sub d k\<close> is the entry of \<open>d\<close> at \<open>k\<close> if it is a dictionary; an empty one counts as absent.\<close>

definition sub :: "doc \<Rightarrow> string \<Rightarrow> doc" where
  "sub d k = jdict (jget d k)"

definition nonempty :: "doc \<Rightarrow> doc list" where
  "nonempty d = (if d = [] then [] else [d])"

definition candidate_payloads :: "doc \<Rightarrow> doc list" where
  "candidate_payloads p =
     (let direct = sub p ''payload''; nested = sub direct ''payload''
      in nonempty p @ nonempty direct @ nonempty nested @ nonempty (sub nested ''result'') @ nonempty (sub direct ''result'') @
         concat (map (\<lambda>(_, v). let e = jdict v; ep = sub e ''payload''
            in nonempty e @ nonempty ep @ nonempty (sub ep ''result'')) (sub p ''upstreams'')) @
         concat (map (\<lambda>(_, v). nonempty (jdict v)) (sub p ''aggregated'')))"

definition collect_output_refs :: "doc \<Rightarrow> string list" where
  "collect_output_refs p = filter (\<lambda>r. r \<noteq> []) (map (\<lambda>cand. jstr (jget cand ''output_ref'')) (candidate_payloads p))"

fun feedback_at :: "doc \<Rightarrow> string list \<Rightarrow> doc list" where
  "feedback_at cand [] = (if map_of cand ''task_id'' \<noteq> None then [cand] else [])"
| "feedback_at cand (k # ks) =
     (case jget cand k of
        JList xs \<Rightarrow> let items = map jdict (filter is_dict xs) in if items \<noteq> [] then items else feedback_at cand ks
      | JDict d \<Rightarrow> [d]
      | _ \<Rightarrow> feedback_at cand ks)"

fun first_feedback :: "doc list \<Rightarrow> doc list" where
  "first_feedback [] = []"
| "first_feedback (cand # cs) =
     (let items = feedback_at cand [''feedback'', ''task_outcomes'', ''results'', ''events'']
      in if items \<noteq> [] then items else first_feedback cs)"

definition extract_feedback :: "doc \<Rightarrow> doc list" where
  "extract_feedback p = first_feedback (candidate_payloads p)"

fun feedback_from_refs :: "(string \<Rightarrow> json option) \<Rightarrow> string list \<Rightarrow> phero_error + doc list" where
  "feedback_from_refs load [] = Inr []"
| "feedback_from_refs load (r # rs) =
     (case load r of
        None \<Rightarrow> feedback_from_refs load rs
      | Some raw \<Rightarrow>
          if \<not> truthy raw then feedback_from_refs load rs
          else if \<not> is_dict raw then Inl PheroShape
          else let fb = extract_feedback (jdict raw) in if fb \<noteq> [] then Inr fb else feedback_from_refs load rs)"

definition task_spec_lookup :: "'c kv_ops \<Rightarrow> string \<Rightarrow> 'c \<Rightarrow> (string \<times> task_spec) list" where
  "task_spec_lookup kv u c = fold (\<lambda>d m. case task_spec_of_doc d of None \<Rightarrow> m | Some s \<Rightarrow> dict_set (sp_task_id s) s m)
     (fst (list_task_specs kv u no_listing c)) []"

definition latest_execution_report :: "(json \<Rightarrow> string) \<Rightarrow> doc list \<Rightarrow> doc option" where
  "latest_execution_report repr reports = (case reports of [] \<Rightarrow> None
     | r # rs \<Rightarrow> Some (py_max (\<lambda>i. py_str repr (jor (jget i ''created_at'') (JStr []))) r rs))"

definition outcome_entry :: "outcome \<Rightarrow> doc" where
  "outcome_entry oc = fold (\<lambda>(k, v). dict_set k v) (oc_metadata oc)
     [(''task_id'', JStr (oc_task_id oc)), (''agent_id'', jopt JStr (oc_agent_id oc)), (''success'', JBool (oc_success oc)),
      (''duration_seconds'', jopt JReal (oc_duration oc)), (''error'', jopt JStr (oc_error oc))]"

definition feedback_from_execution_report :: "doc \<Rightarrow> doc list" where
  "feedback_from_execution_report d = (case report_outcomes d of None \<Rightarrow> [] | Some os \<Rightarrow> map outcome_entry os)"

subsection \<open>Failures\<close>

definition error_category_keywords :: "(string \<times> string list) list" where
  "error_category_keywords =
     [(''timeout'', [''timeout'', ''timed out'', ''deadline exceeded'', ''deadline_exceeded'']),
      (''validation'', [''validation'', ''invalid'', ''schema'', ''pydantic'', ''value error'', ''valueerror'']),
      (''runtime'', [''runtime'', ''assertion'', ''index error'', ''key error'', ''attribute error'']),
      (''connection'', [''connection'', ''refused'', ''unreachable'', ''dns'', ''socket'']),
      (''resource'', [''oom'', ''out of memory'', ''disk full'', ''quota'', ''resource exhausted'']),
      (''permission'', [''permission'', ''forbidden'', ''unauthorized'', ''403'', ''401''])]"

definition classify_error :: "string \<Rightarrow> string" where
  "classify_error err =
     (if err = [] then ''unknown''
      else case find (\<lambda>(cat, kws). list_ex (\<lambda>kw. substr_of kw (lower_str err)) kws) error_category_keywords of
        None \<Rightarrow> ''unknown''
      | Some (cat, _) \<Rightarrow> cat)"

text \<open>The value that tells success: the first of the three fields that is not \<^verbatim>\<open>None\<close>. Two places of the code
  use \<open>or\<close> instead, which skips an explicit \<^verbatim>\<open>False\<close>.\<close>

definition raw_success :: "doc \<Rightarrow> json" where
  "raw_success entry =
     (if jget entry ''success'' \<noteq> JNull then jget entry ''success''
      else if jget entry ''status'' \<noteq> JNull then jget entry ''status'' else jget entry ''outcome'')"

definition or_success :: "doc \<Rightarrow> json" where
  "or_success entry = jor (jor (jget entry ''success'') (jget entry ''status'')) (jget entry ''outcome'')"

definition build_failure_context :: "(json \<Rightarrow> string) \<Rightarrow> doc \<Rightarrow> json \<Rightarrow> affordance option \<Rightarrow> failure_context option" where
  "build_failure_context repr entry task_type existing =
     (if coerce_success repr (raw_success entry) \<noteq> Some False then None
      else let error_raw = jor (jor (jor (jget entry ''error'') (jget entry ''error_message'')) (jget entry ''reason'')) (JStr []);
               category = classify_error (if truthy error_raw then py_str repr error_raw else []);
               resolved = jor (jor (jor task_type (jget entry ''task_type'')) (jget entry ''capability'')) (JStr ''general'');
               prev = (case existing of None \<Rightarrow> None | Some m \<Rightarrow> mk_failure m);
               prev_count = (case prev of None \<Rightarrow> 0
                 | Some f \<Rightarrow> if JStr (fc_task_type f) = resolved \<and> fc_error_category f = Some category then fc_count f else 0)
        in Some \<lparr>fc_task_type = py_str repr resolved, fc_error_category = Some category, fc_count = prev_count + 1,
             fc_last_error = (if truthy error_raw then Some (take 200 (py_str repr error_raw)) else None)\<rparr>)"
subsection \<open>Applying the feedback\<close>

definition select_marker :: "cnp_env \<Rightarrow> string \<Rightarrow> string \<Rightarrow> doc list \<Rightarrow> affordance option" where
  "select_marker ce now uuid markers =
     (if markers = [] then None
      else let key = (\<lambda>d. py_float ce (dict_get d ''intensity'' (JReal 0)));
               sorted = (if list_all (\<lambda>d. key d \<noteq> None) markers then py_sort (\<lambda>d. the (key d)) True markers else markers)
        in marker_of_doc now uuid (hd sorted))"

record phero_config =
  ph_ttl :: int
  ph_min :: real
  ph_max :: real
  ph_decay :: real
  ph_limit :: int
  ph_bonus :: real
  ph_penalty :: real

definition load_phero_config :: "registry_env \<Rightarrow> phero_config" where
  "load_phero_config g = \<lparr>ph_ttl = env_int g ''PHEROMONE_TTL_SECONDS'' 300,
     ph_min = env_float g ''PHEROMONE_INTENSITY_MIN'' 0, ph_max = env_float g ''PHEROMONE_INTENSITY_MAX'' 1,
     ph_decay = env_float g ''PHEROMONE_DECAY_FACTOR'' (9 / 10), ph_limit = env_int g ''PHEROMONE_DECAY_LIMIT'' 250,
     ph_bonus = env_float g ''PHEROMONE_SUCCESS_BONUS'' (1 / 10),
     ph_penalty = env_float g ''PHEROMONE_FAILURE_PENALTY'' (1 / 5)\<rparr>"

definition feedback_intensity :: "cnp_env \<Rightarrow> phero_config \<Rightarrow> doc \<Rightarrow> affordance option \<Rightarrow> real" where
  "feedback_intensity ce ph entry marker =
     (let base = (case py_float ce (jget entry ''intensity'') of
              Some x \<Rightarrow> x | None \<Rightarrow> (case marker of Some m \<Rightarrow> mk_intensity m | None \<Rightarrow> 1 / 2));
          delta = (case py_float ce (jget entry ''intensity_delta'') of None \<Rightarrow> 0 | Some x \<Rightarrow> x);
          delta = (case coerce_success (ce_repr ce) (raw_success entry) of
              Some True \<Rightarrow> delta + ph_bonus ph | Some False \<Rightarrow> delta - ph_penalty ph | None \<Rightarrow> delta)
      in min (max (base + delta) (ph_min ph)) (ph_max ph))"

definition resolved_task_type :: "(string \<times> task_spec) list \<Rightarrow> string \<Rightarrow> doc \<Rightarrow> json" where
  "resolved_task_type specs task_id entry =
     (let t = jor (jget entry ''task_type'') (jget entry ''capability'')
      in if t \<noteq> JNull then t
         else case map_of specs task_id of
             Some s \<Rightarrow> (case sp_required_capabilities s of [] \<Rightarrow> JNull | cap # _ \<Rightarrow> JStr cap)
           | None \<Rightarrow> JNull)"

text \<open>A new marker is validated, so a capability that is not a string or a negative intensity raises; a copied
  one is not.\<close>

definition feedback_marker :: "cnp_env \<Rightarrow> phero_config \<Rightarrow> string \<Rightarrow> string \<Rightarrow> (string \<times> task_spec) list \<Rightarrow> string \<Rightarrow> string
    \<Rightarrow> doc \<Rightarrow> affordance option \<Rightarrow> phero_error + affordance" where
  "feedback_marker ce ph now uuid specs task_id agent_id entry marker =
     (let repr = ce_repr ce;
          intensity = feedback_intensity ce ph entry marker;
          task_type = resolved_task_type specs task_id entry;
          fc = build_failure_context repr entry task_type marker
      in case marker of
           None \<Rightarrow>
             let cap = (if jget entry ''capability'' \<noteq> JNull then jget entry ''capability'' else task_type)
             in (case as_opt as_str cap of
                   None \<Rightarrow> Inl PheroInvalid
                 | Some cap \<Rightarrow> if intensity < 0 then Inl PheroInvalid
                     else Inr \<lparr>mk_id = uuid, mk_task_id = task_id, mk_agent_id = agent_id, mk_capability = cap,
                       mk_intensity = intensity, mk_rationale = Some ''pheromone_feedback'', mk_pipeline_id = None,
                       mk_run_id = None, mk_failure = fc, mk_ttl = 300, mk_created_at = now\<rparr>)
         | Some m \<Rightarrow> Inr (m\<lparr>mk_intensity := intensity, mk_rationale := Some ''pheromone_feedback'',
             mk_failure := (if fc \<noteq> None then fc
               else if coerce_success repr (or_success entry) = Some True then None else mk_failure m)\<rparr>))"

fun apply_feedback :: "'c kv_ops \<Rightarrow> registry_env \<Rightarrow> cnp_env \<Rightarrow> phero_config \<Rightarrow> (nat \<Rightarrow> string) \<Rightarrow> string
    \<Rightarrow> (string \<times> task_spec) list \<Rightarrow> nat \<times> string list \<Rightarrow> doc list \<Rightarrow> 'c \<Rightarrow> phero_error + (nat \<times> nat) \<times> 'c" where
  "apply_feedback kv g ce ph ids u specs (n, tasks) [] c = Inr ((n, length tasks), c)"
| "apply_feedback kv g ce ph ids u specs (n, tasks) (entry # es) c =
     (let repr = ce_repr ce; t = jget entry ''task_id''; a = jor (jget entry ''agent_id'') (jget entry ''assigned_agent'')
      in if \<not> truthy t \<or> \<not> truthy a then apply_feedback kv g ce ph ids u specs (n, tasks) es c
         else let task_id = py_str repr t; agent_id = py_str repr a;
                  now = g_dump g (e_now g);
                  existing = fst (list_affordance_markers kv u (Some task_id) (Some agent_id) None None no_listing c);
                  marker = select_marker ce now (ids n) existing
           in bindR (feedback_marker ce ph now (ids n) specs task_id agent_id entry marker) (\<lambda>m.
                apply_feedback kv g ce ph ids u specs (Suc n, set_add task_id tasks) es
                  (snd (add_affordance_marker kv (store_env.truncate g) u (marker_doc m) (Some (ph_ttl ph)) c))))"

subsection \<open>Agents\<close>

definition registry_outcome :: "'c kv_ops \<Rightarrow> registry_env \<Rightarrow> cnp_env \<Rightarrow> int \<Rightarrow> string \<Rightarrow> (string \<times> task_spec) list \<Rightarrow> doc
    \<Rightarrow> nat \<times> 'c \<Rightarrow> nat \<times> 'c" where
  "registry_outcome kv g ce default_ttl u specs entry = (\<lambda>(n, rg).
     let repr = ce_repr ce; a = jor (jget entry ''agent_id'') (jget entry ''assigned_agent''); t = jget entry ''task_id''
     in if \<not> truthy a \<or> \<not> truthy t then (n, rg)
        else case (map_of specs (py_str repr t), coerce_success repr (or_success entry)) of
            (Some spec, Some success) \<Rightarrow>
              (case get_agent g kv u (py_str repr a) rg of
                 None \<Rightarrow> (n, rg)
               | Some d \<Rightarrow>
                   if d = [] then (n, rg)
                   else let p = task_params ce spec;
                            metadata = update_cnp_metadata ce d (tp_task_type p) (tp_stimulus p) (tp_priority p) (tp_reward p) success
                     in case heartbeat g kv default_ttl u (py_str repr a) None None metadata rg of
                          Inl _ \<Rightarrow> (n, rg)
                        | Inr (_, rg') \<Rightarrow> (Suc n, rg'))
          | _ \<Rightarrow> (n, rg))"

definition update_agent_registry :: "'c kv_ops \<Rightarrow> registry_env \<Rightarrow> cnp_env \<Rightarrow> int \<Rightarrow> string \<Rightarrow> (string \<times> task_spec) list \<Rightarrow> doc list
    \<Rightarrow> 'c option \<Rightarrow> nat \<times> 'c option" where
  "update_agent_registry kv g ce default_ttl u specs feedback registry =
     (case registry of
        None \<Rightarrow> (0, None)
      | Some rg \<Rightarrow> (case fold (registry_outcome kv g ce default_ttl u specs) feedback (0, rg) of (n, rg') \<Rightarrow> (n, Some rg')))"

subsection \<open>Decay\<close>

definition py_take :: "int \<Rightarrow> 'a list \<Rightarrow> 'a list" where
  "py_take n xs = (if 0 \<le> n then take (nat n) xs else take (length xs - nat (- n)) xs)"

definition decay_marker :: "'c kv_ops \<Rightarrow> registry_env \<Rightarrow> phero_config \<Rightarrow> string \<Rightarrow> doc \<Rightarrow> nat \<times> 'c \<Rightarrow> nat \<times> 'c" where
  "decay_marker kv g ph u d = (\<lambda>(n, c).
     case marker_of_doc (g_dump g (e_now g)) (e_uuid g) d of
       None \<Rightarrow> (n, c)
     | Some m \<Rightarrow>
         let x = max (ph_min ph) (mk_intensity m * ph_decay ph)
         in if \<bar>x - mk_intensity m\<bar> < 1 / 1000000 then (n, c)
            else (Suc n, snd (add_affordance_marker kv (store_env.truncate g) u (marker_doc (m\<lparr>mk_intensity := x\<rparr>))
              (Some (if truthy (jget d ''ttl_seconds'') then jint (jget d ''ttl_seconds'') else mk_ttl m)) c)))"

definition decay_markers :: "'c kv_ops \<Rightarrow> registry_env \<Rightarrow> phero_config \<Rightarrow> string \<Rightarrow> 'c \<Rightarrow> (nat \<times> nat) \<times> 'c" where
  "decay_markers kv g ph u c =
     (let markers = fst (list_affordance_markers kv u None None None None no_listing c);
          (n, c') = fold (decay_marker kv g ph u) (py_take (ph_limit ph) markers) (0, c)
      in ((n, length markers), c'))"

subsection \<open>The handler\<close>

datatype phero_result =
    PheroDisabled
  | PheroFeedback nat nat nat
  | PheroDecay nat nat

definition phero_disabled :: "registry_env \<Rightarrow> bool" where
  "phero_disabled g = (lower_str (strip (case g_getenv g ''PHEROMONE_ENABLE'' of None \<Rightarrow> ''1'' | Some s \<Rightarrow> s))
     \<in> {'''', ''0'', ''false'', ''no'', ''off''})"

definition gather_feedback :: "'c kv_ops \<Rightarrow> (json \<Rightarrow> string) \<Rightarrow> (string \<Rightarrow> json option) option \<Rightarrow> string \<Rightarrow> doc \<Rightarrow> 'c
    \<Rightarrow> phero_error + doc list" where
  "gather_feedback kv repr load u payload c =
     (let fb = extract_feedback payload
      in bindR (case load of
            Some ld \<Rightarrow> if fb = [] then feedback_from_refs ld (collect_output_refs payload) else Inr fb
          | None \<Rightarrow> Inr fb) (\<lambda>fb.
        if fb \<noteq> [] \<or> \<not> truthy (jget payload ''plan_id'') then Inr fb
        else case latest_execution_report repr
            (fst (list_execution_reports kv u (Some (py_str repr (jget payload ''plan_id''))) no_listing c)) of
              None \<Rightarrow> Inr []
            | Some r \<Rightarrow> if r = [] then Inr [] else Inr (feedback_from_execution_report r)))"

definition run_pheromone :: "'c kv_ops \<Rightarrow> registry_env \<Rightarrow> cnp_env \<Rightarrow> (nat \<Rightarrow> string) \<Rightarrow> (string \<Rightarrow> json option) option \<Rightarrow> int
    \<Rightarrow> doc \<Rightarrow> 'c option \<Rightarrow> 'c option \<Rightarrow> phero_error + phero_result \<times> 'c option \<times> 'c option" where
  "run_pheromone kv g ce ids load default_ttl msg store registry =
     (if phero_disabled g then Inr (PheroDisabled, store, registry)
      else case store of
        None \<Rightarrow> Inl PheroNoStore
      | Some c \<Rightarrow>
          if \<not> truthy (jget msg ''username'') then Inl PheroUsername
          else let u = py_str (ce_repr ce) (jget msg ''username''); ph = load_phero_config g
            in bindR (payload_from_message msg) (\<lambda>payload.
               bindR (gather_feedback kv (ce_repr ce) load u payload c) (\<lambda>fb.
                 if fb \<noteq> [] then
                   let specs = task_spec_lookup kv u c
                   in bindR (apply_feedback kv g ce ph ids u specs (0, []) fb c) (\<lambda>((n, tasks), c').
                     let (k, rg) = update_agent_registry kv g ce default_ttl u specs fb registry
                     in Inr (PheroFeedback n tasks k, Some c', rg))
                 else let ((n, total), c') = decay_markers kv g ph u c
                   in Inr (PheroDecay n total, Some c', registry))))"

end
