(* ===== verification/Plan_Execution.thy ===== *)
theory Plan_Execution
  imports Ethics_Gate Pheromone
begin

section \<open>Execution of a plan\<close>

text \<open>
  \<^verbatim>\<open>services/system_executor.py\<close>: the tasks of a plan are launched or simulated behind the gates of the ethics check and the human
  approval, and a report is stored. The message is a dictionary. The broker is \<open>xe_publish\<close>, the error of the message with a number,
  and \<open>xe_channel\<close>, whether a channel can be had; the service store is \<open>xe_services\<close> with \<^verbatim>\<open>list_all\<close> (\<open>None\<close> when it raises) and
  \<^verbatim>\<open>get\<close>; \<open>xe_dumps\<close> is \<^verbatim>\<open>json.dumps\<close>. The result lists what was published.
\<close>

datatype exec_error = ExecNoStore | ExecUsername | ExecPlan plan_error | ExecShape | ExecBroker

record service_ops =
  so_list :: "string \<Rightarrow> doc list option"
  so_get :: "string \<Rightarrow> string \<Rightarrow> doc option"

record 'c exec_env =
  xe_reg :: registry_env
  xe_dumps :: "json \<Rightarrow> string"
  xe_rabbit :: bool
  xe_channel :: bool
  xe_publish :: "nat \<Rightarrow> string option"
  xe_services :: "service_ops option"
  xe_agents :: "'c option"

subsection \<open>The message and the gates\<close>

definition executor_payload :: "doc \<Rightarrow> exec_error + doc" where
  "executor_payload m = (if truthy (jget m ''data'') then (case jget m ''data'' of JDict d \<Rightarrow> Inr d | _ \<Rightarrow> Inl ExecShape) else Inr m)"

definition latest_by_timestamp :: "(json \<Rightarrow> string) \<Rightarrow> doc list \<Rightarrow> string \<Rightarrow> doc option" where
  "latest_by_timestamp repr items f = (case items of [] \<Rightarrow> None
     | i # is \<Rightarrow> Some (py_max (\<lambda>d. py_str repr (jor (jget d f) (JStr []))) i is))"

fun truthy_flag :: "(json \<Rightarrow> string) \<Rightarrow> json \<Rightarrow> bool" where
  "truthy_flag repr (JBool b) = b"
| "truthy_flag repr JNull = False"
| "truthy_flag repr v = (lower_str (strip (py_str repr v)) \<in> {''1'', ''true'', ''yes'', ''y''})"

datatype exec_mode = Simulate | LaunchTasks

definition resolve_mode :: "'c exec_env \<Rightarrow> exec_mode" where
  "resolve_mode xe =
     (let raw = lower_str (strip (case g_getenv (xe_reg xe) ''SYSTEM_EXECUTION_MODE'' of None \<Rightarrow> ''auto'' | Some s \<Rightarrow> s))
      in if raw \<in> {''simulate'', ''stub''} then Simulate
         else if raw \<in> {''launch'', ''real''} then LaunchTasks
         else if \<not> xe_rabbit xe \<or> xe_services xe = None then Simulate else LaunchTasks)"

text \<open>The reason a plan is blocked for: the latest check or approval is read only when there is one.\<close>

definition rejects :: "doc option \<Rightarrow> bool" where
  "rejects latest = (case latest of None \<Rightarrow> False | Some d \<Rightarrow> d \<noteq> [] \<and> \<not> truthy (jget d ''approved''))"

definition block_reason :: "'c kv_ops \<Rightarrow> registry_env \<Rightarrow> string \<Rightarrow> string \<Rightarrow> 'c \<Rightarrow> string option" where
  "block_reason kv g u plan c =
     (let require_ethics = (g_getenv g ''EXECUTION_REQUIRE_ETHICS'' \<noteq> Some ''0''); require_human = (g_getenv g ''EXECUTION_REQUIRE_HUMAN'' = Some ''1'')
      in if require_ethics \<and> rejects (latest_by_timestamp (g_repr g) (fst (list_ethics_checks kv u (Some plan) no_listing c)) ''checked_at'')
         then Some ''ethics_rejected''
         else if require_human \<and> rejects (latest_by_timestamp (g_repr g) (fst (list_human_approvals kv u (Some plan) no_listing c)) ''decided_at'')
         then Some ''human_rejected'' else None)"

subsection \<open>Failures asked for\<close>

fun set_of_json :: "json \<Rightarrow> exec_error + json list" where
  "set_of_json (JList xs) = (if list_all hashable xs then Inr (map hkey xs) else Inl ExecShape)"
| "set_of_json (JStr s) = Inr (map (\<lambda>c. JStr [c]) s)"
| "set_of_json (JDict d) = Inr (map (\<lambda>p. JStr (fst p)) d)"
| "set_of_json _ = Inl ExecShape"

definition metadata_of :: "doc \<Rightarrow> doc" where
  "metadata_of task = (case jget task ''metadata'' of JDict d \<Rightarrow> d | _ \<Rightarrow> [])"

definition override_of :: "doc \<Rightarrow> json \<Rightarrow> exec_error + doc" where
  "override_of overrides tid =
     (if \<not> hashable tid then Inl ExecShape
      else case (case tid of JStr t \<Rightarrow> dict_get overrides t (JDict []) | _ \<Rightarrow> JDict []) of JDict d \<Rightarrow> Inr d | _ \<Rightarrow> Inl ExecShape)"

definition force_fail :: "(json \<Rightarrow> string) \<Rightarrow> json list \<Rightarrow> doc \<Rightarrow> doc \<Rightarrow> bool" where
  "force_fail repr fails ov task \<longleftrightarrow> jget ov ''success'' = JBool False \<or> truthy_flag repr (jget ov ''force_fail'') \<or>
     truthy_flag repr (jget task ''simulate_failure'') \<or> truthy_flag repr (jget (metadata_of task) ''force_fail'') \<or> hkey (jget task ''task_id'') \<in> set fails"

fun to_float :: "registry_env \<Rightarrow> json \<Rightarrow> real option" where
  "to_float g (JInt i) = Some (of_int i)"
| "to_float g (JReal r) = Some r"
| "to_float g (JBool b) = Some (if b then 1 else 0)"
| "to_float g (JStr s) = g_float g s"
| "to_float g _ = None"

text \<open>\<^verbatim>\<open>(task.get("required_capabilities") or [None])[0]\<close>.\<close>

definition first_capability :: "doc \<Rightarrow> exec_error + json" where
  "first_capability task =
     (let caps = jget task ''required_capabilities''
      in if \<not> truthy caps then Inr JNull else case caps of JList (x # _) \<Rightarrow> Inr x | JStr (c # _) \<Rightarrow> Inr (JStr [c]) | _ \<Rightarrow> Inl ExecShape)"

definition exec_outcome :: "registry_env \<Rightarrow> string \<Rightarrow> doc \<Rightarrow> bool \<Rightarrow> doc \<Rightarrow> real \<Rightarrow> string option \<Rightarrow> doc \<Rightarrow> doc \<Rightarrow> exec_error + outcome" where
  "exec_outcome g tid task ok ov dflt err before after =
     bindR (first_capability task) (\<lambda>cap.
       case (as_opt as_str (jget task ''assigned_agent''), to_float g (dict_get ov ''duration_seconds'' (JReal dflt))) of
         (Some a, Some s) \<Rightarrow> Inr \<lparr>oc_task_id = tid, oc_agent_id = a, oc_success = ok, oc_duration = Some s, oc_error = err,
             oc_metadata = before @ [(''capability'', cap)] @ after\<rparr>
       | _ \<Rightarrow> Inl ExecShape)"

subsection \<open>Launching\<close>

definition task_service_name :: "'c kv_ops \<Rightarrow> 'c exec_env \<Rightarrow> string \<Rightarrow> doc \<Rightarrow> string option" where
  "task_service_name kv xe u task =
     (let repr = g_repr (xe_reg xe); named = jor (jget task ''service_name'') (jget (metadata_of task) ''service_name''); agent = jget task ''assigned_agent''
      in if truthy named then Some (py_str repr named)
         else if truthy agent \<and> xe_agents xe \<noteq> None then
           (case get_agent (xe_reg xe) kv u (py_str repr agent) (the (xe_agents xe)) of
              Some entry \<Rightarrow> if truthy (jget entry ''service_name'') then Some (py_str repr (jget entry ''service_name'')) else None
            | None \<Rightarrow> None)
         else None)"

definition split_last_colon :: "string \<Rightarrow> string \<times> string" where
  "split_last_colon s = (case rfind_char (CHR '':'') s of None \<Rightarrow> (s, []) | Some i \<Rightarrow> (take i s, drop (Suc i) s))"

definition resolve_runtime_and_artifact :: "(json \<Rightarrow> string) \<Rightarrow> doc \<Rightarrow> doc option \<Rightarrow> json \<times> doc option \<times> string option" where
  "resolve_runtime_and_artifact repr task service =
     (let meta = metadata_of task; svc = (case service of None \<Rightarrow> [] | Some d \<Rightarrow> d);
          runtime = jor (jor (jget task ''runtime'') (jget meta ''runtime'')) (jget svc ''runtime'');
          art0 = jor (jor (jget task ''artifact'') (jget meta ''artifact'')) (jget svc ''artifact'');
          tag = jor (jget svc ''image_tag'') (jget meta ''image_tag'');
          art = (if art0 = JNull \<and> runtime = JStr ''container'' \<and> truthy tag then JStr (py_str repr tag) else art0)
      in case art of
           JStr s \<Rightarrow>
             if runtime = JStr ''container'' then
               (if CHR '':'' \<in> set s then (let (repo, tag) = split_last_colon s in (runtime, Some [(''repo'', JStr repo), (''tag'', JStr tag)], None))
                else (runtime, None, Some ''container_artifact_missing_tag''))
             else (runtime, Some [(''kind'', JStr ''entry''), (''entry'', JStr s)], None)
         | JDict d \<Rightarrow> (runtime, Some d, None)
         | _ \<Rightarrow> (runtime, None, Some ''artifact_unavailable''))"

definition service_lookup_map :: "(json \<Rightarrow> string) \<Rightarrow> service_ops option \<Rightarrow> string \<Rightarrow> (string \<times> string) list" where
  "service_lookup_map repr services u =
     (case services of
        None \<Rightarrow> []
      | Some so \<Rightarrow> (case so_list so u of None \<Rightarrow> []
          | Some items \<Rightarrow> fold (\<lambda>i m. if truthy (jget i ''service_name'') \<and> truthy (jget i ''service_id'')
              then dict_set (py_str repr (jget i ''service_name'')) (py_str repr (jget i ''service_id'')) m else m) items []))"

text \<open>What the first loop does with a task.\<close>

datatype task_plan = SkipTask | FailTask outcome | StartTask string doc

definition task_environ :: "'c exec_env \<Rightarrow> json \<Rightarrow> json \<Rightarrow> string \<Rightarrow> string \<Rightarrow> doc \<Rightarrow> exec_error + doc" where
  "task_environ xe pid rid plan tid task =
     (let base = [(''PIPELINE_ID'', jor pid (JStr [])), (''PIPELINE_RUN_ID'', jor rid (JStr [])), (''PLAN_ID'', JStr plan), (''TASK_ID'', JStr tid)];
          own = jget task ''payload''; meta = jor (jget task ''metadata'') (JDict [])
      in if \<not> truthy own \<and> \<not> is_dict meta then Inl ExecShape
         else let p = jor own (jget (jdict meta) ''payload'')
              in Inr (if p = JNull then base else base @ [(''TASK_PAYLOAD'', JStr (xe_dumps xe p))]))"

definition plan_task :: "'c kv_ops \<Rightarrow> 'c exec_env \<Rightarrow> string \<Rightarrow> json \<Rightarrow> json \<Rightarrow> string \<Rightarrow> json list \<Rightarrow> doc \<Rightarrow> (string \<times> string) list \<Rightarrow> json
    \<Rightarrow> exec_error + task_plan" where
  "plan_task kv xe u pid rid plan fails overrides smap j =
     (case j of
        JDict task \<Rightarrow>
          (let g = xe_reg xe; repr = g_repr g; tid = py_str repr (jget task ''task_id'')
           in if \<not> truthy (jget task ''task_id'') then Inr SkipTask
              else bindR (override_of overrides (jget task ''task_id'')) (\<lambda>ov.
                case task_service_name kv xe u task of
                  None \<Rightarrow> bindR (exec_outcome g tid task False ov (1 / 10) (Some ''service_name_unresolved'') [] []) (\<lambda>oc. Inr (FailTask oc))
                | Some name \<Rightarrow>
                    (let service = Option.bind (xe_services xe) (\<lambda>so. Option.bind (map_of smap name) (so_get so u));
                         (runtime, artifact, err) = resolve_runtime_and_artifact repr task service;
                         failed = (\<lambda>why. bindR (exec_outcome g tid task False ov (1 / 10) (Some why)
                           [(''service_name'', JStr name), (''runtime'', runtime)] []) (\<lambda>oc. Inr (FailTask oc)))
                     in case artifact of
                          None \<Rightarrow> failed (case err of Some e \<Rightarrow> e | None \<Rightarrow> ''artifact_unresolved'')
                        | Some a \<Rightarrow> bindR (task_environ xe pid rid plan tid task) (\<lambda>env.
                            if force_fail repr fails ov task then failed ''forced_failure''
                            else Inr (StartTask tid [(''runtime'', jor runtime (JStr ''python_plugin'')), (''service_name'', JStr name),
                              (''artifact'', JDict a), (''task_environ'', JDict env)])))))
      | _ \<Rightarrow> Inl ExecShape)"

definition publish_start_tasks :: "'c exec_env \<Rightarrow> doc list \<Rightarrow> exec_error + (doc \<times> string option) list" where
  "publish_start_tasks xe payloads =
     (if \<not> xe_rabbit xe then Inr (map (\<lambda>p. (p, Some ''rabbit_not_configured'')) payloads)
      else if \<not> xe_channel xe then Inl ExecBroker
      else Inr (map (\<lambda>(i, p). (p, map_option ((@) ''start_task_publish_failed:'') (xe_publish xe i))) (enumerate 0 payloads)))"

text \<open>The second loop: every task without an outcome is one that was started, or whose start failed.\<close>

fun report_started :: "registry_env \<Rightarrow> doc \<Rightarrow> (string \<times> doc) list \<Rightarrow> (string \<times> string) list \<Rightarrow> doc list \<Rightarrow> outcome list \<Rightarrow> exec_error + outcome list" where
  "report_started g overrides payloads errors [] os = Inr os"
| "report_started g overrides payloads errors (task # tasks) os =
     (let tid = py_str (g_repr g) (jget task ''task_id'')
      in if \<exists>oc \<in> set os. oc_task_id oc = tid then report_started g overrides payloads errors tasks os
         else let p = (case map_of payloads tid of None \<Rightarrow> [] | Some d \<Rightarrow> d); err = map_of errors tid
              in bindR (override_of overrides (JStr tid)) (\<lambda>ov.
                   bindR (exec_outcome g tid task (err = None) ov (2 / 10) err [(''service_name'', jget p ''service_name''), (''runtime'', jget p ''runtime'')]
                     [(''launch_status'', JStr (if err = None then ''started'' else ''failed''))]) (\<lambda>oc.
                   report_started g overrides payloads errors tasks (os @ [oc]))))"

definition failures :: "task_plan list \<Rightarrow> outcome list" where
  "failures ps = List.map_filter (\<lambda>p. case p of FailTask oc \<Rightarrow> Some oc | _ \<Rightarrow> None) ps"

definition starts :: "task_plan list \<Rightarrow> (string \<times> doc) list" where
  "starts ps = List.map_filter (\<lambda>p. case p of StartTask t d \<Rightarrow> Some (t, d) | _ \<Rightarrow> None) ps"

text \<open>The outcomes and the messages published.\<close>

definition launch_tasks :: "'c kv_ops \<Rightarrow> 'c exec_env \<Rightarrow> string \<Rightarrow> json \<Rightarrow> json \<Rightarrow> string \<Rightarrow> json list \<Rightarrow> doc \<Rightarrow> json list
    \<Rightarrow> exec_error + outcome list \<times> doc list" where
  "launch_tasks kv xe u pid rid plan fails overrides tasks =
     bindR (mapR (plan_task kv xe u pid rid plan fails overrides (service_lookup_map (g_repr (xe_reg xe)) (xe_services xe) u)) tasks) (\<lambda>ps.
     bindR (publish_start_tasks xe (map snd (starts ps))) (\<lambda>published.
       let errors = fold (\<lambda>(t, _, err) m. case err of None \<Rightarrow> m | Some e \<Rightarrow> dict_set t e m) (zip (map fst (starts ps)) published) [];
           payloads = fold (\<lambda>(t, d). dict_set t d) (starts ps) []
       in bindR (report_started (xe_reg xe) overrides payloads errors (map jdict tasks) (failures ps)) (\<lambda>os.
         Inr (os, map fst (filter (\<lambda>x. snd x = None) published)))))"

subsection \<open>Simulating\<close>

definition simulate_task :: "registry_env \<Rightarrow> json list \<Rightarrow> doc \<Rightarrow> json \<Rightarrow> exec_error + outcome option" where
  "simulate_task g fails overrides j =
     (case j of
        JDict task \<Rightarrow>
          if \<not> truthy (jget task ''task_id'') then Inr None
          else bindR (override_of overrides (jget task ''task_id'')) (\<lambda>ov.
            let ok = (\<not> force_fail (g_repr g) fails ov task)
            in bindR (exec_outcome g (py_str (g_repr g) (jget task ''task_id'')) task ok ov 1 (if ok then None else Some ''simulated_failure'') [] [])
              (\<lambda>oc. Inr (Some oc)))
      | _ \<Rightarrow> Inl ExecShape)"

definition simulate_tasks :: "registry_env \<Rightarrow> json list \<Rightarrow> doc \<Rightarrow> json list \<Rightarrow> exec_error + outcome list" where
  "simulate_tasks g fails overrides tasks = bindR (mapR (simulate_task g fails overrides) tasks) (\<lambda>os. Inr (List.map_filter id os))"

subsection \<open>The entry point\<close>

definition outcome_json :: "outcome \<Rightarrow> json" where
  "outcome_json oc = JDict [(''task_id'', JStr (oc_task_id oc)), (''agent_id'', jopt JStr (oc_agent_id oc)), (''success'', JBool (oc_success oc)),
     (''duration_seconds'', jopt JReal (oc_duration oc)), (''error'', jopt JStr (oc_error oc)), (''metadata'', JDict (oc_metadata oc))]"

definition success_rate :: "outcome list \<Rightarrow> real" where
  "success_rate os = (if os = [] then 0 else of_nat (length (filter oc_success os)) / of_nat (length os))"

definition execution_report :: "registry_env \<Rightarrow> string \<Rightarrow> json \<Rightarrow> outcome list \<Rightarrow> exec_error + doc" where
  "execution_report g plan rid os =
     (case as_opt as_str rid of
        None \<Rightarrow> Inl ExecShape
      | Some r \<Rightarrow> Inr [(''report_id'', JStr (e_uuid g)), (''plan_id'', JStr plan), (''pipeline_run_id'', jopt JStr r),
          (''outcomes'', JList (map outcome_json os)), (''success_rate'', JReal (success_rate os)), (''created_at'', JStr (g_dump g (e_now g)))])"

record execution =
  xr_plan :: string
  xr_report :: string
  xr_blocked :: "string option"
  xr_outcomes :: "outcome list"
  xr_rate :: real
  xr_mode :: "exec_mode option"

definition finish_execution :: "'c kv_ops \<Rightarrow> registry_env \<Rightarrow> string \<Rightarrow> string \<Rightarrow> json \<Rightarrow> string option \<Rightarrow> exec_mode option \<Rightarrow> outcome list \<Rightarrow> doc list \<Rightarrow> 'c
    \<Rightarrow> (exec_error + execution \<times> doc list) \<times> 'c" where
  "finish_execution kv g u plan rid blocked mode os msgs c =
     (case execution_report g plan rid os of
        Inl e \<Rightarrow> (Inl e, c)
      | Inr report \<Rightarrow> (Inr (\<lparr>xr_plan = plan, xr_report = e_uuid g, xr_blocked = blocked, xr_outcomes = os, xr_rate = success_rate os, xr_mode = mode\<rparr>, msgs),
          snd (save_execution_report kv (store_env.truncate g) u report c)))"

definition execution_overrides :: "doc \<Rightarrow> doc" where
  "execution_overrides payload = (case jget payload ''execution_overrides'' of JDict d \<Rightarrow> d | _ \<Rightarrow> [])"

definition failed_ids :: "doc \<Rightarrow> exec_error + json list" where
  "failed_ids payload = set_of_json (jor (jor (jget payload ''fail_task_ids'') (jget payload ''failed_tasks'')) (JList []))"

definition execute_tasks :: "'c kv_ops \<Rightarrow> 'c exec_env \<Rightarrow> string \<Rightarrow> json \<Rightarrow> json \<Rightarrow> string \<Rightarrow> json list \<Rightarrow> doc \<Rightarrow> json list
    \<Rightarrow> exec_error + outcome list \<times> doc list" where
  "execute_tasks kv xe u pid rid plan fails overrides tasks =
     (case resolve_mode xe of
        LaunchTasks \<Rightarrow> launch_tasks kv xe u pid rid plan fails overrides tasks
      | Simulate \<Rightarrow> bindR (simulate_tasks (xe_reg xe) fails overrides tasks) (\<lambda>os. Inr (os, [])))"

definition run_executor :: "'c kv_ops \<Rightarrow> 'c exec_env \<Rightarrow> doc \<Rightarrow> 'c option \<Rightarrow> (exec_error + execution \<times> doc list) \<times> 'c option" where
  "run_executor kv xe m store =
     (case store of
        None \<Rightarrow> (Inl ExecNoStore, None)
      | Some c \<Rightarrow>
          let g = xe_reg xe; u = sfield m ''username''; pid = jget m ''pipeline_id''; rid = jget m ''pipeline_run_id''
          in if \<not> truthy (jget m ''username'') then (Inl ExecUsername, Some c)
             else case load_plan_draft kv (store_env.truncate g) u (as_str pid) None (as_str (jget m ''plan_id'')) c of
                 Inl e \<Rightarrow> (Inl (ExecPlan e), Some c)
               | Inr draft \<Rightarrow>
                   (let plan = pd_plan_id draft; tasks = jlist (jor (jget (pd_graph_spec draft) ''tasks'') (JList []))
                    in case bindR (executor_payload m) (\<lambda>p. bindR (failed_ids p) (\<lambda>fails. Inr (p, fails))) of
                         Inl e \<Rightarrow> (Inl e, Some c)
                       | Inr (p, fails) \<Rightarrow>
                           (case block_reason kv g u plan c of
                              Some why \<Rightarrow> apsnd Some (finish_execution kv g u plan rid (Some why) None [] [] c)
                            | None \<Rightarrow>
                                (case execute_tasks kv xe u pid rid plan fails (execution_overrides p) tasks of
                                   Inl e \<Rightarrow> (Inl e, Some c)
                                 | Inr (os, msgs) \<Rightarrow> apsnd Some (finish_execution kv g u plan rid None (Some (resolve_mode xe)) os msgs c)))))"

end
