(* ===== verification/Pheromone_Properties.thy ===== *)
theory Pheromone_Properties
  imports Pheromone
begin

section \<open>Correctness of the pheromone engine\<close>

text \<open>
  Every marker the engine writes can be validated again and keeps its intensity between the configured
  bounds; the outcome of a failed task reaches the marker but not the registry.
\<close>

subsection \<open>Valid markers\<close>

definition marker_ok :: "affordance \<Rightarrow> bool" where
  "marker_ok m \<longleftrightarrow> 0 \<le> mk_intensity m \<and> 0 \<le> mk_ttl m \<and> (case mk_failure m of None \<Rightarrow> True | Some f \<Rightarrow> 1 \<le> fc_count f)"

lemma field_Some: "field r dflt d f = Some x \<longleftrightarrow>
    (map_of d f = None \<and> dflt = Some x) \<or> (\<exists>j. map_of d f = Some j \<and> r j = Some x)"
  by (auto simp: field_def split: option.splits)

lemma as_check_Some: "as_check ok r j = Some x \<longleftrightarrow> r j = Some x \<and> ok x"
  by (auto simp: as_check_def split: option.splits)

lemma as_opt_Some: "as_opt r j = Some x \<longleftrightarrow> (if j = JNull then x = None else \<exists>y. r j = Some y \<and> x = Some y)"
  by (auto simp: as_opt_def split: if_splits)

lemma as_failure_count: "as_failure j = Some f \<Longrightarrow> 1 \<le> fc_count f"
  by (cases j) (auto simp: field_Some as_check_Some bind_eq_Some_conv)

lemma marker_of_doc_iff:
  "marker_of_doc now uuid d = Some m \<longleftrightarrow>
     field as_str (Some uuid) d ''marker_id'' = Some (mk_id m) \<and> field as_str None d ''task_id'' = Some (mk_task_id m) \<and>
     field as_str None d ''agent_id'' = Some (mk_agent_id m) \<and>
     field (as_opt as_str) (Some None) d ''capability'' = Some (mk_capability m) \<and>
     field (as_check (\<lambda>x. 0 \<le> x) as_real) (Some 1) d ''intensity'' = Some (mk_intensity m) \<and>
     field (as_opt as_str) (Some None) d ''rationale'' = Some (mk_rationale m) \<and>
     field (as_opt as_str) (Some None) d ''pipeline_id'' = Some (mk_pipeline_id m) \<and>
     field (as_opt as_str) (Some None) d ''pipeline_run_id'' = Some (mk_run_id m) \<and>
     field (as_opt as_failure) (Some None) d ''failure_context'' = Some (mk_failure m) \<and>
     field (as_check (\<lambda>n. 0 \<le> n) as_int) (Some 300) d ''ttl_seconds'' = Some (mk_ttl m) \<and>
     field as_str (Some now) d ''created_at'' = Some (mk_created_at m)"
  unfolding marker_of_doc_def bind_eq_Some_conv by (cases m) auto

lemma field_check: "field (as_check ok r) (Some x) d f = Some y \<Longrightarrow> ok x \<Longrightarrow> ok y"
  by (auto simp: field_Some as_check_Some)

lemma field_failure: "field (as_opt as_failure) (Some None) d f = Some x \<Longrightarrow>
    case x of None \<Rightarrow> True | Some fc \<Rightarrow> 1 \<le> fc_count fc"
  by (auto simp: field_Some as_opt_Some as_failure_count split: if_splits)

lemma marker_of_doc_ok: "marker_of_doc now uuid d = Some m \<Longrightarrow> marker_ok m"
  unfolding marker_of_doc_iff marker_ok_def
  using field_check[of "\<lambda>x. 0 \<le> x" as_real 1 d "''intensity''"] field_check[of "\<lambda>n. 0 \<le> n" as_int 300 d "''ttl_seconds''"]
    field_failure[of d "''failure_context''" "mk_failure m"] by simp

lemma as_failure_doc: "1 \<le> fc_count f \<Longrightarrow> as_failure (JDict (failure_doc f)) = Some f"
  by (cases f) (simp add: failure_doc_def field_def as_check_def as_opt_def jopt_def split: option.split)


lemma marker_roundtrip: "marker_ok m \<Longrightarrow> marker_of_doc now uuid (marker_doc m) = Some m"
  unfolding marker_of_doc_iff marker_ok_def
  by (simp add: marker_doc_def field_def as_check_def as_opt_def jopt_def as_failure_doc del: as_failure.simps split: option.splits)

text \<open>Fields other than those of the model are ignored.\<close>

definition marker_fields :: "string list" where
  "marker_fields = [''marker_id'', ''task_id'', ''agent_id'', ''capability'', ''intensity'', ''rationale'', ''pipeline_id'',
     ''pipeline_run_id'', ''failure_context'', ''ttl_seconds'', ''created_at'']"

lemma marker_of_doc_cong:
  assumes "\<And>f. f \<in> set marker_fields \<Longrightarrow> map_of d f = map_of d' f"
  shows "marker_of_doc now uuid d = marker_of_doc now uuid d'"
  using assms by (simp add: marker_of_doc_def marker_fields_def field_def)

lemma marker_of_doc_intensity:
  assumes "marker_of_doc now uuid d = Some m"
  shows "\<exists>m'. marker_of_doc now' uuid' d = Some m' \<and> mk_intensity m' = mk_intensity m"
proof -
  have "field as_str (Some y) d f \<noteq> None" if "field as_str (Some x) d f \<noteq> None" for x y f
    using that by (auto simp: field_def split: option.splits)
  then obtain i t where "field as_str (Some uuid') d ''marker_id'' = Some i" "field as_str (Some now') d ''created_at'' = Some t"
    using assms unfolding marker_of_doc_iff by (metis not_Some_eq)
  then have "marker_of_doc now' uuid' d = Some (m\<lparr>mk_id := i, mk_created_at := t\<rparr>)"
    using assms unfolding marker_of_doc_iff by simp
  then show ?thesis by force
qed
subsection \<open>Intensities stay in range\<close>

definition marker_fine :: "phero_config \<Rightarrow> doc \<Rightarrow> bool" where
  "marker_fine ph d = (case marker_of_doc [] [] d of None \<Rightarrow> False
     | Some m \<Rightarrow> ph_min ph \<le> mk_intensity m \<and> mk_intensity m \<le> ph_max ph)"

definition marker_prefix :: string where
  "marker_prefix = ''marker::affordance::''"

definition is_marker_key :: "string \<Rightarrow> bool" where
  "is_marker_key k = (take (length marker_prefix) k = marker_prefix)"

lemma marker_prefix_plain: "plain marker_prefix" "CHR ''%'' \<notin> set marker_prefix"
  by (simp_all add: marker_prefix_def plain_def)

lemma marker_key: "is_marker_key (key3 ''marker::affordance'' u t i)"
  by (simp add: is_marker_key_def marker_prefix_def key3_def key2_def)

lemma prefix2_marker: "prefix2 ''marker::affordance'' u = marker_prefix @ u @ ''::''"
  by (simp add: prefix2_def marker_prefix_def)

definition markers_fine :: "'c kv_ops \<Rightarrow> phero_config \<Rightarrow> 'c \<Rightarrow> bool" where
  "markers_fine kv ph c \<longleftrightarrow> (\<forall>k d. kv_get kv c k = Some d \<longrightarrow> is_marker_key k \<longrightarrow> marker_fine ph d)"

lemma listed_marker:
  assumes "kv_collection kv" and "d \<in> set (fst (list_affordance_markers kv u None None None None no_listing c))"
  obtains k d' where "kv_get kv c k = Some d'" and "is_marker_key k" and "d = (''id'', JStr k) # d'"
proof -
  obtain ord k d' where r: "(k, d') \<in> set (kv_rows kv c (prefix2 ''marker::affordance'' u @ ''%'') ord None)"
    and d: "d = (''id'', JStr k) # d'"
    using assms(2) by (auto simp: list_affordance_markers_def list_page_def list_by_prefix_def no_listing_def keep_def
        given_def narrow_def Let_def)
  have "like (marker_prefix @ (u @ ''::%'')) k" and g: "kv_get kv c k = Some d'"
    using kv_collection.rows_sub[OF assms(1) r] by (simp_all add: prefix2_marker)
  then have "like marker_prefix (take (length marker_prefix) k)"
    using like_append[OF marker_prefix_plain(2)] by blast
  then have "is_marker_key k"
    using like_plain[OF marker_prefix_plain(1)] by (simp add: is_marker_key_def)
  with g d that show thesis by blast
qed

lemma add_marker_get:
  assumes "kv_collection kv"
  shows "\<exists>k d. is_marker_key k \<and> (\<forall>f\<in>set marker_fields. map_of d f = map_of (marker_doc m) f) \<and>
    (\<forall>k'. kv_get kv (snd (add_affordance_marker kv e u (marker_doc m) ttl c)) k' =
      (if k' = k then Some d else kv_get kv c k'))"
proof -
  let ?k = "key3 ''marker::affordance'' u (sfield (marker_doc m) ''task_id'') (sfield (marker_doc m) ''marker_id'')"
  have "is_marker_key ?k" by (rule marker_key)
  moreover have "map_of (with_meta e ''affordance_marker'' (marker_doc m)) f = map_of (marker_doc m) f"
    if "f \<in> set marker_fields" for f
    using that by (auto simp: with_meta_def update_conv' marker_fields_def)
  moreover have "map_of (dict_set ''expires_at'' x (with_meta e ''affordance_marker'' (marker_doc m))) f = map_of (marker_doc m) f"
    if "f \<in> set marker_fields" for f x
    using that by (auto simp: with_meta_def update_conv' marker_fields_def)
  ultimately show ?thesis
    by (auto simp: add_affordance_marker_def save_expiring_def kv_collection.get_upsert[OF assms] split: option.split
        intro!: exI[of _ ?k])
qed

lemma add_marker_fine:
  assumes "kv_collection kv" and "markers_fine kv ph c" and "marker_ok m"
    and "ph_min ph \<le> mk_intensity m" and "mk_intensity m \<le> ph_max ph"
  shows "markers_fine kv ph (snd (add_affordance_marker kv e u (marker_doc m) ttl c))"
proof -
  obtain k d where d: "\<forall>f\<in>set marker_fields. map_of d f = map_of (marker_doc m) f"
    and get: "\<forall>k'. kv_get kv (snd (add_affordance_marker kv e u (marker_doc m) ttl c)) k' = (if k' = k then Some d else kv_get kv c k')"
    using add_marker_get[OF assms(1), of m e u ttl c] by auto
  have "marker_of_doc [] [] d = marker_of_doc [] [] (marker_doc m)" by (rule marker_of_doc_cong) (use d in blast)
  then have "marker_fine ph d" using assms(4,5) by (simp add: marker_fine_def marker_roundtrip[OF assms(3)])
  then show ?thesis using assms(2) get by (auto simp: markers_fine_def)
qed

lemma feedback_marker_fine:
  assumes "feedback_marker ce ph now uuid specs t a entry marker = Inr m" and "ph_min ph \<le> ph_max ph" and "0 \<le> ph_min ph"
    and "\<And>m0. marker = Some m0 \<Longrightarrow> marker_ok m0"
  shows "marker_ok m" and "ph_min ph \<le> mk_intensity m" and "mk_intensity m \<le> ph_max ph"
proof -
  have i: "mk_intensity m = feedback_intensity ce ph entry marker"
    using assms(1) by (auto simp: feedback_marker_def Let_def split: option.splits if_splits)
  then show lo: "ph_min ph \<le> mk_intensity m" and "mk_intensity m \<le> ph_max ph"
    using assms(2) by (auto simp: feedback_intensity_def Let_def)
  have fc: "build_failure_context (ce_repr ce) entry tt marker = Some f \<Longrightarrow> 1 \<le> fc_count f" for tt f
    using assms(4) by (auto simp: build_failure_context_def Let_def marker_ok_def split: option.splits if_splits)
  let ?fc = "build_failure_context (ce_repr ce) entry (resolved_task_type specs t entry) marker"
  have "mk_failure m = ?fc \<or> mk_failure m = None \<or> (\<exists>m0. marker = Some m0 \<and> mk_failure m = mk_failure m0)"
    and "mk_ttl m = 300 \<or> (\<exists>m0. marker = Some m0 \<and> mk_ttl m = mk_ttl m0)"
    using assms(1) by (auto simp: feedback_marker_def Let_def split: option.splits if_splits)
  then show "marker_ok m"
    using assms(3,4) lo fc by (auto simp: marker_ok_def split: option.splits)
qed

lemma select_marker_ok: "select_marker ce now uuid ds = Some m \<Longrightarrow> marker_ok m"
  by (auto simp: select_marker_def Let_def intro: marker_of_doc_ok split: if_splits)

lemma apply_feedback_fine:
  assumes "kv_collection kv" and "ph_min ph \<le> ph_max ph" and "0 \<le> ph_min ph"
  shows "apply_feedback kv g ce ph ids u specs (n, tasks) es c = Inr (r, c') \<Longrightarrow> markers_fine kv ph c \<Longrightarrow> markers_fine kv ph c'"
proof (induction es arbitrary: n tasks c)
  case (Cons entry es)
  show ?case
  proof (cases "truthy (jget entry ''task_id'') \<and> truthy (jor (jget entry ''agent_id'') (jget entry ''assigned_agent''))")
    case True
    then obtain now t a marker m where "marker = select_marker ce now (ids n) (fst (list_affordance_markers kv u (Some t) (Some a) None None no_listing c))"
      and m: "feedback_marker ce ph now (ids n) specs t a entry marker = Inr m"
      and rest: "apply_feedback kv g ce ph ids u specs (Suc n, set_add t tasks) es
        (snd (add_affordance_marker kv (store_env.truncate g) u (marker_doc m) (Some (ph_ttl ph)) c)) = Inr (r, c')"
      using Cons.prems(1) by (auto simp: Let_def bindR_iffs)
    then have "marker_ok m" "ph_min ph \<le> mk_intensity m" "mk_intensity m \<le> ph_max ph"
      using feedback_marker_fine[OF m assms(2,3)] select_marker_ok by blast+
    then show ?thesis
      using Cons.IH[OF rest] add_marker_fine[OF assms(1) Cons.prems(2)] by blast
  next
    case False
    then show ?thesis using Cons by (auto simp: Let_def)
  qed
qed simp

lemma decay_marker_fine:
  assumes "kv_collection kv" and "ph_min ph \<le> ph_max ph" and "0 \<le> ph_min ph" and "ph_decay ph \<le> 1"
    and "marker_fine ph d" and "markers_fine kv ph (snd st)"
  shows "markers_fine kv ph (snd (decay_marker kv g ph u d st))"
proof (cases "marker_of_doc (g_dump g (e_now g)) (e_uuid g) d")
  case (Some m)
  obtain m0 where m0: "marker_of_doc [] [] d = Some m0" "mk_intensity m0 = mk_intensity m"
    using marker_of_doc_intensity[OF Some] by blast
  have ok: "marker_ok m" by (rule marker_of_doc_ok[OF Some])
  have "mk_intensity m \<le> ph_max ph" using assms(5) m0 by (simp add: marker_fine_def)
  moreover have "mk_intensity m * ph_decay ph \<le> mk_intensity m"
    using ok assms(4) by (simp add: marker_ok_def mult_left_le)
  ultimately have "max (ph_min ph) (mk_intensity m * ph_decay ph) \<le> ph_max ph" using assms(2) by simp
  moreover have "marker_ok (m\<lparr>mk_intensity := max (ph_min ph) (mk_intensity m * ph_decay ph)\<rparr>)"
    using ok assms(3) by (simp add: marker_ok_def)
  ultimately show ?thesis
    using add_marker_fine[OF assms(1,6)] assms(6) Some by (auto simp: decay_marker_def Let_def split: prod.split)
qed (use assms(6) in \<open>auto simp: decay_marker_def split: prod.split\<close>)

lemma decay_markers_fine:
  assumes "kv_collection kv" and "ph_min ph \<le> ph_max ph" and "0 \<le> ph_min ph" and "ph_decay ph \<le> 1" and "markers_fine kv ph c"
  shows "markers_fine kv ph (snd (decay_markers kv g ph u c))"
proof -
  define ds where "ds = py_take (ph_limit ph) (fst (list_affordance_markers kv u None None None None no_listing c))"
  have "marker_fine ph d" if d: "d \<in> set ds" for d
  proof -
    have "d \<in> set (fst (list_affordance_markers kv u None None None None no_listing c))"
      using d by (auto simp: ds_def py_take_def dest: in_set_takeD split: if_splits)
    then obtain k d' where "kv_get kv c k = Some d'" "is_marker_key k" and d: "d = (''id'', JStr k) # d'"
      by (rule listed_marker[OF assms(1)])
    then have "marker_fine ph d'" using assms(5) by (auto simp: markers_fine_def)
    moreover have "marker_of_doc [] [] d = marker_of_doc [] [] d'"
      by (rule marker_of_doc_cong) (auto simp: d marker_fields_def)
    ultimately show ?thesis by (simp add: marker_fine_def)
  qed
  then have "markers_fine kv ph (snd st) \<Longrightarrow> markers_fine kv ph (snd (fold (decay_marker kv g ph u) ds st))" for st
    by (induction ds arbitrary: st) (simp_all add: decay_marker_fine[OF assms(1-4)])
  from this[of "(0, c)"] show ?thesis
    using assms(5) by (simp add: decay_markers_def Let_def ds_def case_prod_beta)
qed

text \<open>Markers stay valid under one call: with bounds \<open>0 \<le> min \<le> max\<close> and a decay factor of at most one, a collection whose
  affordance markers can all be validated and have an intensity between the bounds keeps this property
  under every call of the engine, with feedback or decay.\<close>

lemma markers_stay_valid:
  assumes kv: "kv_collection kv" and ph: "ph = load_phero_config g" and "ph_min ph \<le> ph_max ph" and "0 \<le> ph_min ph" and "ph_decay ph \<le> 1"
    and fine: "markers_fine kv ph c"
    and run: "run_pheromone kv g ce ids load default_ttl msg (Some c) registry = Inr (r, Some c', registry')"
  shows "markers_fine kv ph c'"
proof -
  have "c' = c \<or> (\<exists>u specs fb x. apply_feedback kv g ce ph ids u specs (0, []) fb c = Inr x \<and> c' = snd x) \<or>
      (\<exists>u. c' = snd (decay_markers kv g ph u c))"
    using run ph by (simp add: run_pheromone_def Let_def bindR_iffs case_prod_beta split: if_splits) blast+
  then show ?thesis
    using apply_feedback_fine[OF kv assms(3,4) _ fine] decay_markers_fine[OF kv assms(3-5) fine] fine
    by (metis prod.collapse)
qed
definition phero_env :: registry_env where
  "phero_env = \<lparr>e_now = 0, e_iso = (\<lambda>t. ''t''), e_uuid = ''id-1'', e_timestamp = (\<lambda>j. 0),
     g_getenv = (\<lambda>v. None), g_float = (\<lambda>s. None), g_parse = (\<lambda>s. None), g_dump = (\<lambda>t. ''t''), g_repr = (\<lambda>j. [])\<rparr>"

definition phero_cnp :: cnp_env where
  "phero_cnp = \<lparr>ce_float = (\<lambda>s. None), ce_int = (\<lambda>s. None), ce_repr = (\<lambda>j. []), ce_hierarchy = [], ce_policy_weight = 1,
     ce_lmax_default = 5, ce_threshold_default = 1 / 2, ce_lambda1 = 1, ce_lambda2 = 1, ce_lambda3 = 1, ce_lambda4 = 1 / 2,
     ce_lambda5 = 0, ce_lambda6 = 0, ce_lambda7 = 0, ce_lambda_bandit = 0, ce_failure_max_penalty = 1, ce_failure_decay = 1\<rparr>"

definition one_marker :: "(string \<times> doc) list" where
  "one_marker = [(''marker::affordance::ann::t1::m1'', marker_doc
     \<lparr>mk_id = ''m1'', mk_task_id = ''t1'', mk_agent_id = ''a1'', mk_capability = None, mk_intensity = 1, mk_rationale = None,
       mk_pipeline_id = None, mk_run_id = None, mk_failure = None, mk_ttl = 0, mk_created_at = ''t''\<rparr>)]"

lemma phero_env_config: "load_phero_config phero_env = \<lparr>ph_ttl = 300, ph_min = 0, ph_max = 1, ph_decay = 9 / 10, ph_limit = 250,
    ph_bonus = 1 / 10, ph_penalty = 1 / 5\<rparr>"
  by (simp add: load_phero_config_def phero_env_def env_int_def env_float_def)

lemma decay_example:
  "\<exists>r c'. run_pheromone mem_kv phero_env phero_cnp (\<lambda>n. ''m'') None 300 [(''username'', JStr ''ann'')] (Some one_marker) None =
     Inr (r, Some c', None)"
  by (simp add: run_pheromone_def phero_disabled_def phero_env_def phero_cnp_def payload_from_message_def gather_feedback_def
      Let_def case_prod_beta strip_def lower_str_def is_space_def lower_char_def extract_feedback_def candidate_payloads_def
      nonempty_def sub_def)

lemma one_marker_fine: "markers_fine mem_kv (load_phero_config phero_env) one_marker"
  by (simp add: markers_fine_def mem_kv_def one_marker_def marker_fine_def marker_roundtrip marker_ok_def phero_env_config)

subsection \<open>Failures and the registry\<close>

lemma fold_id: "(\<And>x. x \<in> set xs \<Longrightarrow> f x s = s) \<Longrightarrow> fold f xs s = s"
  by (induction xs) auto

lemma jget_fold_set:
  "k \<notin> fst ` set kvs \<Longrightarrow> jget (fold (\<lambda>(k, v). dict_set k v) kvs d) k = jget d k"
  by (induction kvs arbitrary: d) auto

text \<open>Failures are not counted: when all outcomes of an execution report are failures and their metadata has
  no field \<^verbatim>\<open>success\<close>, \<^verbatim>\<open>status\<close> or \<^verbatim>\<open>outcome\<close>, the feedback of the report lowers the intensity of
  the markers by the penalty (within the bounds) but updates no agent of the registry, because
  \<^verbatim>\<open>False or None or None\<close> is read as no result.\<close>

theorem failures_not_counted:
  assumes "report_outcomes d = Some os"
    and "\<And>oc. oc \<in> set os \<Longrightarrow> \<not> oc_success oc \<and> {''success'', ''status'', ''outcome'', ''intensity'', ''intensity_delta''} \<inter> fst ` set (oc_metadata oc) = {}"
  shows "update_agent_registry kv g ce default_ttl u specs (feedback_from_execution_report d) registry = (0, registry) \<and>
    map (\<lambda>entry. feedback_intensity ce ph entry (Some m)) (feedback_from_execution_report d) =
      replicate (length os) (min (max (mk_intensity m - ph_penalty ph) (ph_min ph)) (ph_max ph))"
proof -
  have fields: "jget (outcome_entry oc) ''success'' = JBool False \<and> jget (outcome_entry oc) ''status'' = JNull \<and>
      jget (outcome_entry oc) ''outcome'' = JNull \<and> jget (outcome_entry oc) ''intensity'' = JNull \<and>
      jget (outcome_entry oc) ''intensity_delta'' = JNull" if "oc \<in> set os" for oc
    using assms(2)[OF that] by (simp add: outcome_entry_def jget_fold_set)
  have "registry_outcome kv g ce default_ttl u specs entry s = s" if e: "entry \<in> set (map outcome_entry os)" for entry s
  proof -
    have "coerce_success (ce_repr ce) (or_success entry) = None"
      using e fields by (auto simp: or_success_def jor_def coerce_success_def)
    then show ?thesis by (auto simp: registry_outcome_def Let_def split: prod.split option.split)
  qed
  then have "fold (registry_outcome kv g ce default_ttl u specs) (map outcome_entry os) s = s" for s
    by (intro fold_id)
  moreover have "feedback_intensity ce ph (outcome_entry oc) (Some m) =
      min (max (mk_intensity m - ph_penalty ph) (ph_min ph)) (ph_max ph)" if "oc \<in> set os" for oc
    using fields[OF that] by (simp add: feedback_intensity_def raw_success_def coerce_success_def)
  ultimately show ?thesis
    using assms(1) by (simp add: update_agent_registry_def feedback_from_execution_report_def map_replicate_const[symmetric]
        split: option.split)
qed

definition t1_spec :: task_spec where
  "t1_spec = \<lparr>sp_task_id = ''t1'', sp_username = ''ann'', sp_description = ''d'', sp_required_capabilities = [], sp_tags = [],
     sp_risk_level = RiskLow, sp_requires_human_approval = False, sp_coordination_mode = SoloOnly, sp_metadata = []\<rparr>"

definition a1_registry :: "(string \<times> doc) list" where
  "a1_registry = [(registry_key ''ann'' ''a1'', [(''agent_id'', JStr ''a1'')])]"

theorem failures_not_counted_witness:
  "update_agent_registry mem_kv phero_env phero_cnp 300 ''ann'' [(''t1'', t1_spec)] (feedback_from_execution_report
     [(''plan_id'', JStr ''p''), (''outcomes'', JList [JDict [(''task_id'', JStr ''t1''), (''agent_id'', JStr ''a1''), (''success'', JBool False)]])])
     (Some a1_registry) = (0, Some a1_registry)"
proof -
  have "report_outcomes [(''plan_id'', JStr ''p''), (''outcomes'',
      JList [JDict [(''task_id'', JStr ''t1''), (''agent_id'', JStr ''a1''), (''success'', JBool False)]])] =
      Some [\<lparr>oc_task_id = ''t1'', oc_agent_id = Some ''a1'', oc_success = False, oc_duration = None, oc_error = None, oc_metadata = []\<rparr>]"
    by (simp add: report_outcomes_def field_def as_opt_def)
  from failures_not_counted[OF this, of mem_kv phero_env phero_cnp 300 "''ann''" "[(''t1'', t1_spec)]" "Some a1_registry"]
  show ?thesis by simp
qed

end
