(* ===== verification/Plan_Validity.thy ===== *)
theory Plan_Validity
  imports Plan_Validator
begin

section \<open>What the plan validator promises\<close>

text \<open>
  The cycle test of the validator is exact, the report conforms exactly for the plans that satisfy the
  declarative predicate \<open>well_formed_plan\<close>, and the stored verdict is the conjunction of the
  three gates.
\<close>

subsection \<open>Cycle detection\<close>

definition inner_edges :: "json list \<Rightarrow> doc list \<Rightarrow> (json \<times> json) list" where
  "inner_edges ids es = filter (\<lambda>(s, d). s \<in> set ids \<and> d \<in> set ids) (map (\<lambda>e. (hkey (edge_from e), hkey (edge_to e))) es)"

definition edges_hashable :: "json list \<Rightarrow> doc list \<Rightarrow> bool" where
  "edges_hashable ids es = list_all (\<lambda>e. hashable (edge_from e) \<and>
     (hkey (edge_from e) \<in> set ids \<longrightarrow> hashable (edge_to e))) es"

lemma link_edges_ok: "(\<exists>gd'. link_edges ids es gd = Inr gd') \<longleftrightarrow> edges_hashable ids es"
  by (induction ids es gd rule: link_edges.induct) (auto simp: edges_hashable_def Let_def)

lemma link_edges_spec:
  assumes "link_edges ids es (g, d) = Inr (g', d')"
  shows "succs g' x = succs g x @ map snd (filter (\<lambda>p. fst p = x) (inner_edges ids es)) \<and>
    dict_get d' v 0 = dict_get d v 0 + int (length (filter (\<lambda>p. snd p = v) (inner_edges ids es)))"
  using assms
proof (induction es arbitrary: g d)
  case (Cons e es)
  then show ?case
    by (auto simp: inner_edges_def Let_def dest!: Cons.IH split: if_splits)
qed (simp add: inner_edges_def)

lemma link_edges_keys:
  assumes "link_edges ids es (g, d) = Inr (g', d')" and "distinct (dict_keys d)" and "set ids \<subseteq> set (dict_keys d)"
  shows "distinct (dict_keys d') \<and> set (dict_keys d') = set (dict_keys d)"
  using assms
proof (induction es arbitrary: g d)
  case (Cons e es)
  show ?case
  proof (cases "hkey (edge_from e) \<in> set ids \<and> hkey (edge_to e) \<in> set ids")
    case True
    let ?d = "dict_set (hkey (edge_to e)) (dict_get d (hkey (edge_to e)) 0 + 1) d"
    have "link_edges ids es (dict_append g (hkey (edge_from e)) (hkey (edge_to e)), ?d) = Inr (g', d')"
      using Cons.prems(1) True by (auto simp: Let_def split: if_splits)
    moreover have "set (dict_keys ?d) = set (dict_keys d)" using True Cons.prems(3) by auto
    ultimately show ?thesis using Cons.IH Cons.prems(2,3) by (metis distinct_dict_set)
  next
    case False
    then have "link_edges ids es (g, d) = Inr (g', d')"
      using Cons.prems(1) by (auto simp: Let_def split: if_splits)
    then show ?thesis using Cons.IH Cons.prems(2,3) by blast
  qed
qed simp

lemma count_map_filter:
  assumes "finite N" and "fst ` set ps \<subseteq> N"
  shows "(\<Sum>x\<in>N. count_list (map snd (filter (\<lambda>p. fst p = x) ps)) v) = length (filter (\<lambda>p. snd p = v) ps)"
  using assms(2)
proof (induction ps)
  case (Cons p ps)
  have "(\<Sum>x\<in>N. count_list (map snd (filter (\<lambda>p. fst p = x) (p # ps))) v) =
      (\<Sum>x\<in>N. (if x = fst p then if snd p = v then 1 else 0 else 0) + count_list (map snd (filter (\<lambda>p. fst p = x) ps)) v)"
    by (rule sum.cong) auto
  also have "\<dots> = (if snd p = v then 1 else 0) + length (filter (\<lambda>p. snd p = v) ps)"
    using Cons assms(1) by (simp add: sum.distrib)
  finally show ?case by simp
qed simp

lemma detect_cycle_correct:
  assumes dist: "distinct ids" and ok: "edges_hashable ids es"
  shows "detect_cycle ids es = Inr (\<not> acyclic (set (inner_edges ids es)))"
proof -
  let ?g0 = "map (\<lambda>t. (t, [])) ids :: json graph" and ?d0 = "map (\<lambda>t. (t, 0)) ids :: json degrees" and ?N = "set ids"
  let ?I = "inner_edges ids es"
  obtain g d where l: "link_edges ids es (?g0, ?d0) = Inr (g, d)"
    using ok link_edges_ok by (metis surj_pair)
  have g0: "dict_get ?g0 x [] = []" for x by (induction ids) (auto simp: dict_get_def)
  have d0: "dict_get ?d0 x 0 = 0" for x by (induction ids) (auto simp: dict_get_def)
  have sg: "succs g x = map snd (filter (\<lambda>p. fst p = x) ?I)"
    and sd: "dict_get d v 0 = int (length (filter (\<lambda>p. snd p = v) ?I))" for x v
    using link_edges_spec[OF l, of x v] g0 d0 by simp_all
  have I: "fst ` set ?I \<subseteq> ?N" "snd ` set ?I \<subseteq> ?N" by (auto simp: inner_edges_def)
  have keys: "distinct (dict_keys d)" "set (dict_keys d) = ?N"
    using link_edges_keys[OF l] dist by (auto simp: comp_def image_image)
  have cl: "closed_graph g ?N" using I by (auto simp: closed_graph_def sg)
  have ed: "edges g ?N = set ?I" using I by (force simp: edges_def sg)
  define q where "q = map fst (filter (\<lambda>p. snd p = 0) d)"
  have q: "distinct q" "set q = {v \<in> ?N. dict_get d v 0 = 0}"
    using keys dict_get_distinct[OF keys(1)]
    by (auto simp: q_def distinct_map inj_on_filter_key_eq intro: inj_on_subset) force+
  obtain d' out where run: "kahn_loop PopRight g d q [] = (d', out)" by fastforce
  have deg: "dict_get d v 0 = int (in_edges g ?N v)" for v
    using count_map_filter[OF _ I(1)] by (simp add: in_edges_def sg sd)
  note k = kahn_loop_correct[OF finite_set cl deg q run]
  have "length out = length ids \<longleftrightarrow> set out = ?N"
    using k(1,2) dist by (metis List.finite_set card_subset_eq distinct_card)
  then show ?thesis using l run k(4) ed by (auto simp: detect_cycle_def q_def Let_def)
qed
subsection \<open>Task identifiers\<close>

abbreviation tid :: "doc \<Rightarrow> json" where
  "tid t \<equiv> hkey (jget t ''task_id'')"

definition identified :: "doc \<Rightarrow> bool" where
  "identified t \<longleftrightarrow> truthy (jget t ''task_id'') \<and> hashable (jget t ''task_id'') \<and>
     jget t ''assigned_agent'' \<noteq> JNull \<and> jget t ''assigned_agent'' \<noteq> JStr []"

lemma extract_grows: "extract_task_ids idx ids vs ts = Inr (ids', vs') \<Longrightarrow> vs \<noteq> [] \<Longrightarrow> vs' \<noteq> []"
  by (induction idx ids vs ts rule: extract_task_ids.induct) (auto simp: Let_def split: if_splits)

lemma extract_distinct: "extract_task_ids idx ids vs ts = Inr (ids', vs') \<Longrightarrow> distinct ids \<Longrightarrow> distinct ids'"
  by (induction idx ids vs ts rule: extract_task_ids.induct) (auto simp: Let_def split: if_splits)

lemma extract_clean:
  "extract_task_ids idx ids vs ts = Inr (ids', []) \<longleftrightarrow>
     vs = [] \<and> ids' = ids @ map tid ts \<and> list_all identified ts \<and> distinct (map tid ts) \<and> set ids \<inter> tid ` set ts = {}"
proof (induction ts arbitrary: idx ids vs)
  case (Cons t ts)
  show ?case
  proof (cases "vs = [] \<and> identified t \<and> tid t \<notin> set ids")
    case True
    then have "extract_task_ids idx ids vs (t # ts) = extract_task_ids (Suc idx) (ids @ [tid t]) [] ts"
      by (simp add: Let_def identified_def)
    then show ?thesis using True Cons.IH[of "Suc idx" "ids @ [tid t]" "[]"] by auto
  next
    case False
    have "extract_task_ids idx ids vs (t # ts) \<noteq> Inr (ids', [])"
    proof
      assume "extract_task_ids idx ids vs (t # ts) = Inr (ids', [])"
      then show False using False extract_grows
        by (fastforce simp: Let_def identified_def split: if_splits)
    qed
    then show ?thesis using False by auto
  qed
qed auto

subsection \<open>Ontology\<close>

definition ontology_ok :: "doc \<Rightarrow> bool" where
  "ontology_ok spec \<longleftrightarrow> (case jget spec ''ontology'' of
       JNull \<Rightarrow> True
     | JDict raw \<Rightarrow> \<forall>k\<in>{''capabilities'', ''tags'', ''task_types''}. jget raw k = JNull \<or> is_list (jget raw k)
     | _ \<Rightarrow> False)"

definition vocabulary :: "doc \<Rightarrow> string \<Rightarrow> string set" where
  "vocabulary spec k = {strip s |s. JStr s \<in> set (jlist (jget (jdict (jget spec ''ontology'')) k)) \<and> strip s \<noteq> []}"

lemma set_fold_set_add: "set (fold set_add xs ys) = set xs \<union> set ys"
  by (induction xs arbitrary: ys) auto

lemma ontology_values_spec:
  "set (fst (ontology_values raw k)) = {strip s |s. JStr s \<in> set (jlist (jget raw k)) \<and> strip s \<noteq> []}"
  "snd (ontology_values raw k) = [] \<longleftrightarrow> jget raw k = JNull \<or> is_list (jget raw k)"
proof -
  have str: "j \<in> set vs \<and> is_str j \<longleftrightarrow> (\<exists>s. j = JStr s \<and> JStr s \<in> set vs)" for j vs by (cases j) auto
  show "set (fst (ontology_values raw k)) = {strip s |s. JStr s \<in> set (jlist (jget raw k)) \<and> strip s \<noteq> []}"
    by (cases "jget raw k") (auto simp: ontology_values_def set_fold_set_add str image_iff, metis jstr.simps(1))
  show "snd (ontology_values raw k) = [] \<longleftrightarrow> jget raw k = JNull \<or> is_list (jget raw k)"
    by (cases "jget raw k") (auto simp: ontology_values_def)
qed

lemma parse_ontology_vocabulary:
  "set (o_capabilities (fst (parse_ontology spec))) = vocabulary spec ''capabilities''"
  "set (o_tags (fst (parse_ontology spec))) = vocabulary spec ''tags''"
  "set (o_task_types (fst (parse_ontology spec))) = vocabulary spec ''task_types''"
  by (cases "jget spec ''ontology''";
      simp add: parse_ontology_def vocabulary_def case_prod_beta Let_def ontology_values_spec)+

lemma parse_ontology_clean: "snd (parse_ontology spec) = [] \<longleftrightarrow> ontology_ok spec"
  by (cases "jget spec ''ontology''")
    (auto simp: parse_ontology_def ontology_ok_def case_prod_beta Let_def ontology_values_spec)

subsection \<open>The checks of one task\<close>

definition words_in :: "string set \<Rightarrow> json list \<Rightarrow> bool" where
  "words_in V vs \<longleftrightarrow> V = {} \<or> (\<forall>v\<in>set vs. \<exists>s\<in>V. v = JStr s)"

definition capabilities_ok :: "string set \<Rightarrow> doc \<Rightarrow> bool" where
  "capabilities_ok V t \<longleftrightarrow> (\<exists>caps. jget t ''required_capabilities'' = JList caps \<and> caps \<noteq> [] \<and>
     (\<forall>c\<in>set caps. \<exists>s. c = JStr s \<and> strip s \<noteq> []) \<and> words_in V caps)"

definition tags_ok :: "string set \<Rightarrow> doc \<Rightarrow> bool" where
  "tags_ok V t \<longleftrightarrow> jget t ''tags'' = JNull \<or> (\<exists>tags. jget t ''tags'' = JList tags \<and> words_in V tags)"

definition task_type_ok :: "string set \<Rightarrow> doc \<Rightarrow> bool" where
  "task_type_ok V t \<longleftrightarrow> V = {} \<or> (\<exists>s\<in>V. s \<noteq> [] \<and> jget t ''task_type'' = JStr s)"

lemma outside_clean:
  "outside known vs = Inr [] \<longleftrightarrow> (\<forall>v\<in>set vs. \<exists>s\<in>set known. v = JStr s)"
proof -
  have "hashable v \<and> is_str v \<and> jstr v \<in> set known \<longleftrightarrow> (\<exists>s\<in>set known. v = JStr s)" for v by (cases v) auto
  then show ?thesis unfolding outside_def list_all_iff filter_empty_conv by (simp add: filter_empty_conv) metis
qed

lemma words_in_outside: "known \<noteq> [] \<Longrightarrow> words_in (set known) vs \<longleftrightarrow> outside known vs = Inr []"
  by (simp add: words_in_def outside_clean)

lemma check_capabilities_clean:
  "check_capabilities ont t = Inr [] \<longleftrightarrow> capabilities_ok (set (o_capabilities ont)) t"
proof (cases "jget t ''required_capabilities''")
  case (JList caps)
  have str: "is_str c \<and> strip (jstr c) \<noteq> [] \<longleftrightarrow> (\<exists>s. c = JStr s \<and> strip s \<noteq> [])" for c by (cases c) auto
  have ex: "\<not> list_ex (\<lambda>c. \<not> is_str c \<or> strip (jstr c) = []) caps \<longleftrightarrow> (\<forall>c\<in>set caps. \<exists>s. c = JStr s \<and> strip s \<noteq> [])"
    using str by (auto simp: list_ex_iff)
  show ?thesis
  proof (cases "o_capabilities ont = []")
    case True
    with JList ex show ?thesis by (auto simp: check_capabilities_def capabilities_ok_def Let_def words_in_def)
  next
    case False
    with JList ex words_in_outside[OF False, of caps] show ?thesis
      by (auto simp: check_capabilities_def capabilities_ok_def Let_def bindR_iffs)
  qed
qed (auto simp: check_capabilities_def capabilities_ok_def Let_def)

lemma check_tags_clean: "check_tags ont t = Inr [] \<longleftrightarrow> tags_ok (set (o_tags ont)) t"
proof (cases "jget t ''tags''")
  case (JList tags)
  then show ?thesis
    by (cases "o_tags ont = []") (auto simp: check_tags_def tags_ok_def Let_def bindR_iffs words_in_outside,
        simp_all add: words_in_def)
qed (auto simp: check_tags_def tags_ok_def Let_def)

lemma check_task_type_clean: "check_task_type ont t = Inr [] \<longleftrightarrow> task_type_ok (set (o_task_types ont)) t"
proof (cases "o_task_types ont = []")
  case False
  then show ?thesis
    using outside_clean[of "o_task_types ont" "[jget t ''task_type'']"]
    by (auto simp: check_task_type_def task_type_ok_def Let_def bindR_iffs)
qed (simp add: check_task_type_def task_type_ok_def Let_def)

definition task_ok :: "doc \<Rightarrow> doc \<Rightarrow> bool" where
  "task_ok spec t \<longleftrightarrow> capabilities_ok (vocabulary spec ''capabilities'') t \<and> tags_ok (vocabulary spec ''tags'') t \<and>
     task_type_ok (vocabulary spec ''task_types'') t"

lemma check_tasks_clean:
  "check_tasks (fst (parse_ontology spec)) ts = Inr [] \<longleftrightarrow> list_all (task_ok spec) ts"
  by (induction ts)
    (auto simp: check_task_def bindR_iffs task_ok_def check_capabilities_clean check_tags_clean
      check_task_type_clean parse_ontology_vocabulary)

subsection \<open>Conformance\<close>

definition well_formed_plan :: "doc \<Rightarrow> bool" where
  "well_formed_plan spec \<longleftrightarrow> (\<exists>tasks es.
     docs_of (jget spec ''tasks'') = Inr tasks \<and> docs_of (jget spec ''edges'') = Inr es \<and>
     ontology_ok spec \<and> tasks \<noteq> [] \<and> list_all identified tasks \<and> distinct (map tid tasks) \<and>
     (\<forall>e\<in>set es. hkey (edge_from e) \<in> tid ` set tasks \<and> hkey (edge_to e) \<in> tid ` set tasks) \<and>
     acyclic {(hkey (edge_from e), hkey (edge_to e)) |e. e \<in> set es} \<and> list_all (task_ok spec) tasks)"
lemma hashable_hkey: "hashable (hkey j) \<longleftrightarrow> hashable j"
  by (cases j) auto

lemma edges_hashable_inside:
  assumes "list_all identified tasks" and "\<forall>e\<in>set es. hkey (edge_from e) \<in> tid ` set tasks \<and> hkey (edge_to e) \<in> tid ` set tasks"
  shows "edges_hashable (map tid tasks) es"
proof -
  have "hashable j" if "hkey j \<in> tid ` set tasks" for j
    using that assms(1) hashable_hkey by (auto simp: list_all_iff identified_def) (metis hashable_hkey)
  with assms(2) show ?thesis by (auto simp: edges_hashable_def list_all_iff)
qed

lemma inner_all:
  assumes "\<forall>e\<in>set es. hkey (edge_from e) \<in> set ids \<and> hkey (edge_to e) \<in> set ids"
  shows "set (inner_edges ids es) = {(hkey (edge_from e), hkey (edge_to e)) |e. e \<in> set es}"
  using assms by (auto simp: inner_edges_def)

lemma edge_violations_clean:
  "edge_violations ids es = [] \<longleftrightarrow> (\<forall>e\<in>set es. hkey (edge_from e) \<in> set ids \<and> hkey (edge_to e) \<in> set ids)"
  by (auto simp: edge_violations_def filter_empty_conv)

lemma cycle_check_clean:
  assumes "list_all identified tasks" and "distinct (map tid tasks)"
    and "\<forall>e\<in>set es. hkey (edge_from e) \<in> tid ` set tasks \<and> hkey (edge_to e) \<in> tid ` set tasks"
  shows "(if map tid tasks \<noteq> [] \<and> es \<noteq> [] then detect_cycle (map tid tasks) es else Inr False) =
    Inr (\<not> acyclic {(hkey (edge_from e), hkey (edge_to e)) |e. e \<in> set es})"
proof (cases "es = []")
  case False
  then have "tasks \<noteq> []" using assms(3) by (cases es) auto
  moreover have "detect_cycle (map tid tasks) es = Inr (\<not> acyclic (set (inner_edges (map tid tasks) es)))"
    by (rule detect_cycle_correct[OF assms(2) edges_hashable_inside[OF assms(1,3)]])
  moreover have "set (inner_edges (map tid tasks) es) = {(hkey (edge_from e), hkey (edge_to e)) |e. e \<in> set es}"
    using assms(3) by (intro inner_all) auto
  ultimately show ?thesis using False by simp
qed (simp add: acyclic_def)

lemma validate_conforming:
  "(\<exists>r. validate_graph_spec spec = Inr r \<and> rp_conforms r) \<longleftrightarrow>
   (\<exists>tasks es ids. docs_of (jget spec ''tasks'') = Inr tasks \<and> docs_of (jget spec ''edges'') = Inr es \<and>
      snd (parse_ontology spec) = [] \<and> tasks \<noteq> [] \<and> extract_task_ids 0 [] [] tasks = Inr (ids, []) \<and>
      edge_violations ids es = [] \<and>
      (if ids \<noteq> [] \<and> es \<noteq> [] then detect_cycle ids es else Inr False) = Inr False \<and>
      check_tasks (fst (parse_ontology spec)) tasks = Inr [])" (is "?L \<longleftrightarrow> ?R")
proof
  assume ?L
  then show ?R
    by (fastforce simp: validate_graph_spec_def bindR_iffs Let_def case_prod_beta split: if_splits)
next
  assume ?R
  then show ?L by (fastforce simp: validate_graph_spec_def Let_def case_prod_beta split: if_splits)
qed

text \<open>C34. The structural report of the plan validator is exact: it conforms if and only if the plan has
  tasks with distinct identifiers and an assigned agent each, edges between known tasks that form no
  cycle, nonblank capabilities, and capabilities, tags and task types inside the vocabulary of the
  ontology where that is not empty. In particular the check does not raise on such a plan.\<close>

theorem report_conforms_iff:
  "(\<exists>r. validate_graph_spec spec = Inr r \<and> rp_conforms r) \<longleftrightarrow> well_formed_plan spec"
proof -
  have "extract_task_ids 0 [] [] tasks = Inr (ids, []) \<and> edge_violations ids es = [] \<and>
      (if ids \<noteq> [] \<and> es \<noteq> [] then detect_cycle ids es else Inr False) = Inr False \<longleftrightarrow>
    ids = map tid tasks \<and> list_all identified tasks \<and> distinct (map tid tasks) \<and>
     (\<forall>e\<in>set es. hkey (edge_from e) \<in> tid ` set tasks \<and> hkey (edge_to e) \<in> tid ` set tasks) \<and>
     acyclic {(hkey (edge_from e), hkey (edge_to e)) |e. e \<in> set es}" for tasks es ids
    using cycle_check_clean[of tasks es] by (auto simp: extract_clean edge_violations_clean)
  then show ?thesis
    unfolding validate_conforming well_formed_plan_def parse_ontology_clean check_tasks_clean by blast
qed
subsection \<open>Cycles of any graph\<close>

lemma extract_ids_set:
  "extract_task_ids idx ids vs ts = Inr (ids', vs') \<Longrightarrow> set ids' = set ids \<union> tid ` {t \<in> set ts. truthy (jget t ''task_id'')}"
  by (induction idx ids vs ts rule: extract_task_ids.induct) (auto simp: Let_def split: if_splits)

lemma extract_no_cycle:
  "extract_task_ids idx ids vs ts = Inr (ids', vs') \<Longrightarrow> CycleDetected \<notin> set vs \<Longrightarrow> CycleDetected \<notin> set vs'"
  by (induction idx ids vs ts rule: extract_task_ids.induct) (auto simp: Let_def split: if_splits)

lemma parse_ontology_no_cycle: "CycleDetected \<notin> set (snd (parse_ontology spec))"
proof -
  have "CycleDetected \<notin> set (snd (ontology_values raw k))" for raw k
    by (cases "jget raw k") (simp_all add: ontology_values_def)
  then show ?thesis by (cases "jget spec ''ontology''") (auto simp: parse_ontology_def case_prod_beta Let_def)
qed

lemma check_capabilities_no_cycle: "check_capabilities ont t = Inr vs \<Longrightarrow> CycleDetected \<notin> set vs"
  by (cases "jget t ''required_capabilities''") (auto simp: check_capabilities_def bindR_iffs Let_def split: if_splits)

lemma check_tags_no_cycle: "check_tags ont t = Inr vs \<Longrightarrow> CycleDetected \<notin> set vs"
  by (cases "jget t ''tags''") (auto simp: check_tags_def bindR_iffs Let_def split: if_splits)

lemma check_task_type_no_cycle: "check_task_type ont t = Inr vs \<Longrightarrow> CycleDetected \<notin> set vs"
  by (auto simp: check_task_type_def bindR_iffs Let_def split: if_splits)

lemma check_task_no_cycle: "check_task ont t = Inr vs \<Longrightarrow> CycleDetected \<notin> set vs"
  using check_capabilities_no_cycle check_tags_no_cycle check_task_type_no_cycle
  by (fastforce simp: check_task_def bindR_iffs)

lemma check_tasks_no_cycle: "check_tasks ont ts = Inr vs \<Longrightarrow> CycleDetected \<notin> set vs"
  by (induction ts arbitrary: vs) (auto simp: bindR_iffs dest: check_task_no_cycle)

lemma detect_cycle_Inr:
  assumes "detect_cycle ids es = Inr b" and "distinct ids"
  shows "b \<longleftrightarrow> \<not> acyclic (set (inner_edges ids es))"
proof -
  have "edges_hashable ids es"
    using assms(1) unfolding detect_cycle_def bindR_iffs by (metis link_edges_ok)
  from detect_cycle_correct[OF assms(2) this] assms(1) show ?thesis by simp
qed

text \<open>On any graph specification the validator accepts to read, well formed or not, it reports a cycle
  exactly when the edges between the tasks that have an identifier form one.\<close>

theorem cycle_reported_iff:
  assumes "validate_graph_spec spec = Inr r" and "docs_of (jget spec ''tasks'') = Inr tasks"
    and "docs_of (jget spec ''edges'') = Inr es"
  shows "CycleDetected \<in> set (rp_violations r) \<longleftrightarrow>
    \<not> acyclic ({(hkey (edge_from e), hkey (edge_to e)) |e. e \<in> set es} \<inter>
      {(a, b). a \<in> tid ` {t \<in> set tasks. truthy (jget t ''task_id'')} \<and> b \<in> tid ` {t \<in> set tasks. truthy (jget t ''task_id'')}})"
proof -
  note v = assms(1)[unfolded validate_graph_spec_def, simplified assms(2,3) bindR.simps Let_def case_prod_beta]
  obtain ids vi where x: "extract_task_ids 0 [] [] tasks = Inr (ids, vi)"
    using v by (cases "extract_task_ids 0 [] [] tasks") auto
  obtain c where c: "(if ids \<noteq> [] \<and> es \<noteq> [] then detect_cycle ids es else Inr False) = Inr c"
    using v by (cases "if ids \<noteq> [] \<and> es \<noteq> [] then detect_cycle ids es else Inr False") (auto simp: x)
  obtain vt where t: "check_tasks (fst (parse_ontology spec)) tasks = Inr vt"
    using v by (cases "check_tasks (fst (parse_ontology spec)) tasks") (auto simp: x c)
  have r: "rp_violations r = snd (parse_ontology spec) @ (if tasks = [] then [NoTasksInGraph] else []) @ vi @
      edge_violations ids es @ (if c then [CycleDetected] else []) @ vt"
    using v[symmetric] by (simp add: x c t)
  have "CycleDetected \<notin> set (edge_violations ids es)" by (auto simp: edge_violations_def)
  then have "CycleDetected \<in> set (rp_violations r) \<longleftrightarrow> c"
    using r parse_ontology_no_cycle extract_no_cycle[OF x] check_tasks_no_cycle[OF t] by auto
  also have "\<dots> \<longleftrightarrow> \<not> acyclic (set (inner_edges ids es))"
  proof (cases "ids \<noteq> [] \<and> es \<noteq> []")
    case True
    then show ?thesis using c detect_cycle_Inr extract_distinct[OF x] by simp
  next
    case False
    then have "inner_edges ids es = []" by (auto simp: inner_edges_def)
    with False c show ?thesis by (auto simp: acyclic_def split: if_splits)
  qed
  also have "set (inner_edges ids es) = {(hkey (edge_from e), hkey (edge_to e)) |e. e \<in> set es} \<inter>
      {(a, b). a \<in> tid ` {t \<in> set tasks. truthy (jget t ''task_id'')} \<and> b \<in> tid ` {t \<in> set tasks. truthy (jget t ''task_id'')}}"
    using extract_ids_set[OF x] by (auto simp: inner_edges_def)
  finally show ?thesis .
qed

subsection \<open>The stored verdict\<close>

lemma draft_roundtrip: "draft_of_doc now (with_meta e ty (draft_doc p)) = Some p"
  by (simp add: draft_of_doc_def draft_doc_def with_meta_def field_def as_opt_def jopt_def split: option.splits)

definition shacl_passes :: "validator_env \<Rightarrow> plan_draft \<Rightarrow> string option \<Rightarrow> string \<Rightarrow> bool" where
  "shacl_passes ve p pid u \<longleftrightarrow> \<not> ve_shacl_on ve \<or>
     (case ve_shacl ve (pd_graph_spec p) (pd_plan_id p) pid u of None \<Rightarrow> True | Some r \<Rightarrow> truthy (jget r ''conforms''))"

definition llm_passes :: "validator_env \<Rightarrow> plan_draft \<Rightarrow> report \<Rightarrow> bool" where
  "llm_passes ve p r \<longleftrightarrow> ve_provider ve = None \<or>
     (\<exists>d. llm_review ve (pd_graph_spec p) (rp_violations r) (stats_doc r) (pd_plan_id p @ '':plan_validation'') = Some d \<and>
        jget d ''approved'' = JBool True)"

lemma llm_review_approved:
  "llm_review ve gs vs st q = Some d \<Longrightarrow> \<exists>b. jget d ''approved'' = JBool b"
  by (auto simp: llm_review_def parse_llm_review_def split: option.splits json.splits if_splits)

text \<open>The verdict the validator stores is the conjunction of its gates: after a successful run the draft
  returned is the one that is read back under its key (with the caller's user name), it is the loaded draft up to the verdict and the
  report, and it is marked valid exactly when the graph is well formed, the SHACL engine (where it is
  on and available) conforms and the review (where a provider is configured) approves.\<close>

theorem stored_verdict:
  assumes "kv_collection kv" and "validate_plan_draft kv ve u pid rid plan c = (Inr p, c')"
  shows "(\<exists>d. get_plan_draft kv u (pd_plan_id p) c' = Some d \<and> draft_of_doc (now_iso (ve_store ve)) d = Some (p\<lparr>pd_username := u\<rparr>)) \<and>
    (\<exists>p0 r. load_plan_draft kv (ve_store ve) u pid rid plan c = Inr p0 \<and> validate_graph_spec (pd_graph_spec p0) = Inr r \<and>
       p = p0\<lparr>pd_is_valid := pd_is_valid p, pd_shacl_report := pd_shacl_report p\<rparr> \<and>
       (pd_is_valid p \<longleftrightarrow> well_formed_plan (pd_graph_spec p0) \<and> shacl_passes ve p0 pid u \<and> llm_passes ve p0 r))"
proof -
  obtain p0 where l: "load_plan_draft kv (ve_store ve) u pid rid plan c = Inr p0"
    using assms(2) by (cases "load_plan_draft kv (ve_store ve) u pid rid plan c") (auto simp: validate_plan_draft_def)
  obtain r where v: "validate_graph_spec (pd_graph_spec p0) = Inr r"
    using assms(2) l by (cases "validate_graph_spec (pd_graph_spec p0)") (auto simp: validate_plan_draft_def)
  have wf: "rp_conforms r \<longleftrightarrow> well_formed_plan (pd_graph_spec p0)"
    using v report_conforms_iff[of "pd_graph_spec p0"] by auto
  have sh: "snd (shacl_gate ve (pd_graph_spec p0) (pd_plan_id p0) pid u) \<longleftrightarrow> shacl_passes ve p0 pid u"
    by (auto simp: shacl_gate_def shacl_passes_def split: option.splits)
  have ll: "(if ve_provider ve \<noteq> None
      then case llm_review ve (pd_graph_spec p0) (rp_violations r) (stats_doc r) (pd_plan_id p0 @ '':plan_validation'') of
        None \<Rightarrow> False | Some d \<Rightarrow> truthy (jget d ''approved'') else True) \<longleftrightarrow> llm_passes ve p0 r"
    by (auto simp: llm_passes_def split: option.splits dest!: llm_review_approved)
  obtain rep where p: "p = p0\<lparr>pd_is_valid := rp_conforms r \<and> shacl_passes ve p0 pid u \<and> llm_passes ve p0 r, pd_shacl_report := Some rep\<rparr>"
    and c': "c' = snd (save_plan_draft kv (ve_store ve) u (draft_doc p) c)"
    using assms(2) unfolding validate_plan_draft_def l v sum.case Let_def case_prod_beta sh ll by fastforce
  have "get_plan_draft kv u (pd_plan_id p) c' = Some (with_meta (ve_store ve) ''plan_draft'' (draft_doc (p\<lparr>pd_username := u\<rparr>)))"
    using kv_collection.get_upsert_same[OF assms(1)]
    by (simp add: c' save_plan_draft_def get_plan_draft_def save_doc_def sfield_def) (simp add: draft_doc_def)
  then show ?thesis using l v p wf draft_roundtrip by simp
qed
subsection \<open>Witnesses\<close>

definition demo_plan_task :: "string \<Rightarrow> doc" where
  "demo_plan_task t = [(''task_id'', JStr t), (''assigned_agent'', JStr ''agent''), (''required_capabilities'', JList [JStr ''plan''])]"

definition demo_spec :: "(string \<times> string) list \<Rightarrow> doc" where
  "demo_spec es = [(''tasks'', JList [JDict (demo_plan_task ''a''), JDict (demo_plan_task ''b'')]),
     (''edges'', JList (map (\<lambda>(x, y). JDict [(''from'', JStr x), (''to'', JStr y)]) es))]"

definition demo_draft :: plan_draft where
  "demo_draft = \<lparr>pd_plan_id = ''plan'', pd_username = ''ann'', pd_pipeline_id = ''p'', pd_run_id = None, pd_revision = 1,
     pd_graph_spec = demo_spec [(''a'', ''b'')], pd_is_valid = False, pd_shacl_report = None, pd_cached = False,
     pd_created_at = ''t0''\<rparr>"

definition demo_ve :: validator_env where
  "demo_ve = \<lparr>ve_store = demo_env, ve_ruleset = None, ve_shacl_on = False, ve_shacl = (\<lambda>_ _ _ _. None),
     ve_provider = None, ve_connector = None, ve_loads = (\<lambda>_. None), ve_repr = (\<lambda>_. [])\<rparr>"

definition demo_plans :: "(string \<times> doc) list" where
  "demo_plans = snd (save_plan_draft mem_kv demo_env ''ann'' (draft_doc demo_draft) [])"

theorem cycle_reported_iff_witness:
  "CycleDetected \<in> set (rp_violations (projr (validate_graph_spec (demo_spec [(''a'', ''b''), (''b'', ''a'')])))) \<longleftrightarrow>
    \<not> acyclic ({(hkey (edge_from e), hkey (edge_to e)) |e. e \<in> set [[(''from'', JStr ''a''), (''to'', JStr ''b'')], [(''from'', JStr ''b''), (''to'', JStr ''a'')]]} \<inter>
      {(a, b). a \<in> tid ` {t \<in> set [demo_plan_task ''a'', demo_plan_task ''b'']. truthy (jget t ''task_id'')} \<and>
        b \<in> tid ` {t \<in> set [demo_plan_task ''a'', demo_plan_task ''b'']. truthy (jget t ''task_id'')}})"
proof (rule cycle_reported_iff)
  have "\<not> isl (validate_graph_spec (demo_spec [(''a'', ''b''), (''b'', ''a'')]))" by code_simp
  then show "validate_graph_spec (demo_spec [(''a'', ''b''), (''b'', ''a'')]) =
      Inr (projr (validate_graph_spec (demo_spec [(''a'', ''b''), (''b'', ''a'')])))" by simp
qed (simp_all add: demo_spec_def docs_of_def)

definition demo_verdict :: "(plan_error + plan_draft) \<times> (string \<times> doc) list" where
  "demo_verdict = validate_plan_draft mem_kv demo_ve ''ann'' None None (Some ''plan'') demo_plans"

theorem stored_verdict_witness:
  "let p = projr (fst demo_verdict); c' = snd demo_verdict in
   (\<exists>d. get_plan_draft mem_kv ''ann'' (pd_plan_id p) c' = Some d \<and>
      draft_of_doc (now_iso (ve_store demo_ve)) d = Some (p\<lparr>pd_username := ''ann''\<rparr>)) \<and>
    (\<exists>p0 r. load_plan_draft mem_kv (ve_store demo_ve) ''ann'' None None (Some ''plan'') demo_plans = Inr p0 \<and>
       validate_graph_spec (pd_graph_spec p0) = Inr r \<and>
       p = p0\<lparr>pd_is_valid := pd_is_valid p, pd_shacl_report := pd_shacl_report p\<rparr> \<and>
       (pd_is_valid p \<longleftrightarrow> well_formed_plan (pd_graph_spec p0) \<and> shacl_passes demo_ve p0 None ''ann'' \<and> llm_passes demo_ve p0 r))"
  unfolding Let_def
proof (rule stored_verdict[OF mem.kv_collection_axioms])
  have "\<not> isl (fst demo_verdict)" by code_simp
  then show "validate_plan_draft mem_kv demo_ve ''ann'' None None (Some ''plan'') demo_plans =
      (Inr (projr (fst demo_verdict)), snd demo_verdict)"
    by (simp add: demo_verdict_def prod_eq_iff)
qed

end
