(* ===== verification/Execution_Properties.thy ===== *)
theory Execution_Properties
  imports Gate_Properties Plan_Execution Pheromone_Properties Store_Properties Plan_Validity
begin

text \<open>
  What the executor promises: every task of a launched plan gets one outcome, which succeeds exactly when its command was
  published; the verdict of the ethics gate decides whether the plan runs; and the report stored is read back by the pheromone engine.
\<close>

subsection \<open>Outcomes and messages\<close>

definition task_text :: "'c exec_env \<Rightarrow> json \<Rightarrow> string" where
  "task_text xe j = py_str (g_repr (xe_reg xe)) (jget (jdict j) ''task_id'')"

definition command_task :: "doc \<Rightarrow> json" where
  "command_task msg = jget (jdict (jget msg ''task_environ'')) ''TASK_ID''"

lemma exec_outcome_fields:
  assumes "exec_outcome g tk task ok ov dflt err b a = Inr oc"
  shows "oc_task_id oc = tk \<and> oc_success oc = ok"
  using assms by (cases "as_opt as_str (jget task ''assigned_agent'')"; cases "to_float g (dict_get ov ''duration_seconds'' (JReal dflt))";
      auto simp: exec_outcome_def bindR_iffs)

lemma task_environ_task: "task_environ xe pid rid plan tk task = Inr env \<Longrightarrow> jget env ''TASK_ID'' = JStr tk"
  by (auto simp: task_environ_def Let_def jget_def dict_get_def split: if_splits)

text \<open>A planned task is a failure or a start under its own identifier.\<close>

definition planned_as :: "string \<Rightarrow> task_plan \<Rightarrow> bool" where
  "planned_as tk p = (case p of SkipTask \<Rightarrow> False | FailTask oc \<Rightarrow> oc_task_id oc = tk \<and> \<not> oc_success oc
     | StartTask t d \<Rightarrow> t = tk \<and> command_task d = JStr tk)"

lemma plan_task_planned:
  assumes "plan_task kv xe u pid rid plan fails overrides smap j = Inr p" and "truthy (jget (jdict j) ''task_id'')"
  shows "planned_as (task_text xe j) p"
proof -
  obtain task where j: "j = JDict task" using assms(1) by (cases j) (simp_all add: plan_task_def)
  have failing: "planned_as (task_text xe j) p" if "bindR (exec_outcome (xe_reg xe) (task_text xe j) task False ov dflt err b a) (\<lambda>oc. Inr (FailTask oc)) = Inr p"
    for ov dflt err b a using that by (auto simp: bindR_iffs planned_as_def dest!: exec_outcome_fields)
  obtain ov where "override_of overrides (jget task ''task_id'') = Inr ov"
    using assms by (auto simp: plan_task_def j Let_def bindR_iffs)
  note p = assms(1)[unfolded plan_task_def j json.case Let_def this bindR.simps] and t = assms(2)[unfolded j jdict.simps]
  have tk_eq: "py_str (g_repr (xe_reg xe)) (jget task ''task_id'') = task_text xe j" by (simp add: task_text_def j)
  show ?thesis
  proof (cases "task_service_name kv xe u task")
    case None
    with p t tk_eq show ?thesis using failing by simp
  next
    case (Some name)
    obtain rt art err where "resolve_runtime_and_artifact (g_repr (xe_reg xe)) task (Option.bind (xe_services xe) (\<lambda>so. Option.bind (map_of smap name) (so_get so u))) =
        (rt, art, err)" by (rule prod_cases3)
    note q = p[unfolded tk_eq Some option.case this prod.case]
    show ?thesis
    proof (cases art)
      case None
      with q t show ?thesis using failing by simp
    next
      case (Some d)
      obtain env where e: "task_environ xe pid rid plan (task_text xe j) task = Inr env" using q t Some by (auto simp: bindR_iffs)
      from task_environ_task[OF this] q t Some e show ?thesis
        using failing by (auto simp: planned_as_def command_task_def jget_def[of _ "''task_environ''"] dict_get_def split: if_splits)
    qed
  qed
qed

lemma planned_all:
  assumes "mapR (plan_task kv xe u pid rid plan fails overrides smap) tasks = Inr ps" and "\<forall>j \<in> set tasks. truthy (jget (jdict j) ''task_id'')"
  shows "list_all2 planned_as (map (task_text xe) tasks) ps"
proof -
  from assms(1) have "list_all2 (\<lambda>j p. plan_task kv xe u pid rid plan fails overrides smap j = Inr p) tasks ps" by (simp add: mapR_Inr_iff)
  then have "list_all2 (\<lambda>j p. planned_as (task_text xe j) p) tasks ps"
    by (rule list.rel_mono_strong) (blast intro: plan_task_planned assms(2)[rule_format])
  then show ?thesis by (simp add: list_all2_map1)
qed

lemma failures_simps [simp]:
  "failures [] = []" "failures (SkipTask # ps) = failures ps" "failures (FailTask oc # ps) = oc # failures ps"
  "failures (StartTask t d # ps) = failures ps"
  by (simp_all add: failures_def)

lemma starts_simps [simp]:
  "starts [] = []" "starts (SkipTask # ps) = starts ps" "starts (FailTask oc # ps) = starts ps" "starts (StartTask t d # ps) = (t, d) # starts ps"
  by (simp_all add: starts_def)

lemma planned_cover: "list_all2 planned_as tids ps \<Longrightarrow> set tids = oc_task_id ` set (failures ps) \<union> fst ` set (starts ps)"
  by (induction rule: list_all2_induct) (auto simp: planned_as_def split: task_plan.splits)

lemma planned_failures: "list_all2 planned_as tids ps \<Longrightarrow> \<forall>oc \<in> set (failures ps). \<not> oc_success oc"
  by (induction rule: list_all2_induct) (auto simp: planned_as_def split: task_plan.splits)

lemma planned_starts: "list_all2 planned_as tids ps \<Longrightarrow> map (\<lambda>x. command_task (snd x)) (starts ps) = map (\<lambda>x. JStr (fst x)) (starts ps)"
  by (induction rule: list_all2_induct) (auto simp: planned_as_def split: task_plan.splits)

lemma planned_distinct:
  "list_all2 planned_as tids ps \<Longrightarrow> distinct tids \<Longrightarrow> distinct (map oc_task_id (failures ps)) \<and> distinct (map fst (starts ps)) \<and>
    oc_task_id ` set (failures ps) \<inter> fst ` set (starts ps) = {}"
proof (induction rule: list_all2_induct)
  case (Cons t ts p ps)
  then show ?case using planned_cover[OF Cons(2)] by (cases p) (auto simp: planned_as_def)
qed simp

text \<open>The second loop keeps the outcomes and adds one for each task without.\<close>

lemma report_started_adds:
  assumes "report_started g overrides payloads errors tasks os = Inr os'"
  defines "tk \<equiv> (\<lambda>task. py_str (g_repr g) (jget task ''task_id''))"
  shows "\<exists>new. os' = os @ new \<and> set (map oc_task_id os') = set (map oc_task_id os) \<union> set (map tk tasks) \<and>
    (distinct (map oc_task_id os) \<longrightarrow> distinct (map oc_task_id os')) \<and>
    (\<forall>oc \<in> set new. oc_success oc \<longleftrightarrow> map_of errors (oc_task_id oc) = None)"
  using assms(1)
proof (induction tasks arbitrary: os)
  case (Cons task tasks)
  show ?case
  proof (cases "\<exists>oc \<in> set os. oc_task_id oc = tk task")
    case True
    with Cons.prems have "report_started g overrides payloads errors tasks os = Inr os'" by (simp add: tk_def)
    moreover have "tk task \<in> set (map oc_task_id os)" using True by (metis image_eqI list.set_map)
    ultimately show ?thesis using Cons.IH by (simp add: insert_absorb)
  next
    case False
    then obtain oc where fields: "oc_task_id oc = tk task" "oc_success oc \<longleftrightarrow> map_of errors (tk task) = None"
      and r: "report_started g overrides payloads errors tasks (os @ [oc]) = Inr os'"
      using Cons.prems by (auto simp: tk_def Let_def bindR_iffs dest!: exec_outcome_fields)
    from Cons.IH[OF r] obtain new where new: "os' = (os @ [oc]) @ new" "set (map oc_task_id os') = set (map oc_task_id (os @ [oc])) \<union> set (map tk tasks)"
      "distinct (map oc_task_id (os @ [oc])) \<longrightarrow> distinct (map oc_task_id os')"
      "\<forall>oc \<in> set new. oc_success oc \<longleftrightarrow> map_of errors (oc_task_id oc) = None" by blast
    have "distinct (map oc_task_id (os @ [oc])) \<longleftrightarrow> distinct (map oc_task_id os)" using False fields by auto
    with new fields show ?thesis by (intro exI[of _ "oc # new"]) auto
  qed
qed simp

lemma published_zip:
  assumes "publish_start_tasks xe payloads = Inr published"
  obtains errs where "length errs = length payloads" and "published = zip payloads errs"
proof -
  have "map fst published = payloads"
    using assms by (auto simp: publish_start_tasks_def enumerate_eq_zip comp_def split: if_splits) (simp add: split_def flip: map_map)
  then have "length (map snd published) = length payloads \<and> published = zip payloads (map snd published)"
    by (metis length_map zip_map_fst_snd)
  then show ?thesis using that by blast
qed

lemma error_recorded:
  "length st = length errs \<Longrightarrow> map_of (fold (\<lambda>(t, _, err) m. case err of None \<Rightarrow> m | Some e \<Rightarrow> dict_set t e m) (zip (map fst st) (zip (map snd st) errs)) m) t = None \<longleftrightarrow>
     map_of m t = None \<and> (\<forall>d e. ((t, d), Some e) \<notin> set (zip st errs))"
  by (induction st errs arbitrary: m rule: list_induct2) (force simp: map_of_eq_None_iff split: option.splits)+

lemma zip_functional:
  "length st = length errs \<Longrightarrow> distinct (map fst st) \<Longrightarrow> ((t, d), e) \<in> set (zip st errs) \<Longrightarrow> ((t, d'), e') \<in> set (zip st errs) \<Longrightarrow> d = d' \<and> e = e'"
proof (induction st errs rule: list_induct2)
  case (Cons s ss e' es)
  then show ?case by (cases s) (force dest: set_zip_leftD)
qed simp

lemma zip_dom: "length st = length errs \<Longrightarrow> t \<in> fst ` set st \<longleftrightarrow> (\<exists>d e. ((t, d), e) \<in> set (zip st errs))"
proof -
  assume "length st = length errs"
  then have "set st = fst ` set (zip st errs)" by (metis map_fst_zip set_map)
  then show ?thesis by (force simp: image_iff)
qed

text \<open>The commands of the messages that were published.\<close>

lemma published_commands:
  assumes "length st = length errs" and "map (\<lambda>x. command_task (snd x)) st = map (\<lambda>x. JStr (fst x)) st"
  defines "msgs \<equiv> map fst (filter (\<lambda>x. snd x = None) (zip (map snd st) errs))"
  shows "command_task ` set msgs = JStr ` {t. \<exists>d. ((t, d), None) \<in> set (zip st errs)}"
    and "distinct (map fst st) \<Longrightarrow> distinct (map command_task msgs)"
proof -
  show "command_task ` set msgs = JStr ` {t. \<exists>d. ((t, d), None) \<in> set (zip st errs)}"
    using assms(1,2) unfolding msgs_def by (induction st errs rule: list_induct2) (auto simp: image_iff)
  assume "distinct (map fst st)"
  then have "distinct (map JStr (map fst st))" by (simp add: distinct_map inj_on_def)
  also have "map JStr (map fst st) = map command_task (map snd st)" using assms(2) by (simp add: comp_def)
  also have "map snd st = map fst (zip (map snd st) errs)" using assms(1) by simp
  also have "map command_task (map fst (zip (map snd st) errs)) = map (\<lambda>x. command_task (fst x)) (zip (map snd st) errs)" by (simp only: map_map comp_def)
  finally show "distinct (map command_task msgs)"
    using distinct_map_filter[of "\<lambda>x. command_task (fst x)" "zip (map snd st) errs" "\<lambda>x. snd x = None"] by (simp add: msgs_def comp_def)
qed

text \<open>The outcomes that succeed.\<close>

lemma successful_outcomes:
  assumes "length st = length errs" and "distinct (map fst st)" and "F \<inter> fst ` set st = {}" and "F = oc_task_id ` set fs"
    and "\<forall>oc \<in> set fs. \<not> oc_success oc" and "distinct (map oc_task_id (fs @ new))" and "oc_task_id ` set (fs @ new) = F \<union> fst ` set st"
    and "\<forall>oc \<in> set new. oc_success oc \<longleftrightarrow> (\<forall>d e. ((oc_task_id oc, d), Some e) \<notin> set (zip st errs))"
  shows "oc_task_id ` {oc \<in> set (fs @ new). oc_success oc} = {t. \<exists>d. ((t, d), None) \<in> set (zip st errs)}"
proof (intro equalityI subsetI)
  have ids: "oc_task_id ` set new = fst ` set st" 
  proof -
    have "F \<union> oc_task_id ` set new = F \<union> fst ` set st" using assms(4,7) by (simp add: image_Un)
    moreover have "F \<inter> oc_task_id ` set new = {}" using assms(4,6) by auto
    ultimately show ?thesis using assms(3) by blast
  qed
  { fix t assume "t \<in> oc_task_id ` {oc \<in> set (fs @ new). oc_success oc}"
    then obtain oc where oc: "oc \<in> set new" "t = oc_task_id oc" "oc_success oc" using assms(5) by auto
    then have "t \<in> fst ` set st" using ids by blast
    then obtain d e where de: "((t, d), e) \<in> set (zip st errs)" using zip_dom[OF assms(1)] by blast
    with oc assms(8) have "e = None" by (cases e) auto
    with de show "t \<in> {t. \<exists>d. ((t, d), None) \<in> set (zip st errs)}" by blast }
  { fix t assume "t \<in> {t. \<exists>d. ((t, d), None) \<in> set (zip st errs)}"
    then obtain d where d: "((t, d), None) \<in> set (zip st errs)" by blast
    then have "t \<in> oc_task_id ` set new" using zip_dom[OF assms(1)] ids by blast
    then obtain oc where oc: "oc \<in> set new" "t = oc_task_id oc" by blast
    have "\<forall>d e. ((t, d), Some e) \<notin> set (zip st errs)" using zip_functional[OF assms(1,2) d] by blast
    with oc assms(8) show "t \<in> oc_task_id ` {oc \<in> set (fs @ new). oc_success oc}" by auto }
qed

text \<open>C7. When a plan whose tasks have distinct identifiers is launched, every task gets exactly one outcome, no task is commanded twice, and
  the outcomes that succeed are exactly those of the tasks whose start command was published.\<close>

theorem launch_outcomes_match_messages:
  assumes "launch_tasks kv xe u pid rid plan fails overrides tasks = Inr (os, msgs)"
    and "\<forall>j \<in> set tasks. truthy (jget (jdict j) ''task_id'')" and "distinct (map (task_text xe) tasks)"
  shows "distinct (map oc_task_id os) \<and> oc_task_id ` set os = task_text xe ` set tasks \<and> distinct (map command_task msgs) \<and>
    command_task ` set msgs = (\<lambda>oc. JStr (oc_task_id oc)) ` {oc \<in> set os. oc_success oc}"
proof -
  obtain ps published errors payloads where m: "mapR (plan_task kv xe u pid rid plan fails overrides (service_lookup_map (g_repr (xe_reg xe)) (xe_services xe) u)) tasks = Inr ps"
    and pub: "publish_start_tasks xe (map snd (starts ps)) = Inr published"
    and errors: "errors = fold (\<lambda>(t, _, err) m. case err of None \<Rightarrow> m | Some e \<Rightarrow> dict_set t e m) (zip (map fst (starts ps)) published) []"
    and r: "report_started (xe_reg xe) overrides payloads errors (map jdict tasks) (failures ps) = Inr os"
    and msgs: "msgs = map fst (filter (\<lambda>x. snd x = None) published)"
    using assms(1) by (auto simp: launch_tasks_def Let_def bindR_iffs)
  note pl = planned_all[OF m assms(2)]
  define st where "st = starts ps"
  obtain errs where len: "length errs = length (map snd st)" and pz: "published = zip (map snd st) errs" using published_zip[OF pub] unfolding st_def by blast
  then have len': "length st = length errs" by simp
  have cover: "task_text xe ` set tasks = oc_task_id ` set (failures ps) \<union> fst ` set st" using planned_cover[OF pl] by (simp add: st_def)
  have dist: "distinct (map oc_task_id (failures ps))" "distinct (map fst st)" "oc_task_id ` set (failures ps) \<inter> fst ` set st = {}"
    using planned_distinct[OF pl assms(3)] by (simp_all add: st_def)
  have cmd: "map (\<lambda>x. command_task (snd x)) st = map (\<lambda>x. JStr (fst x)) st" using planned_starts[OF pl] by (simp add: st_def)
  obtain new where new: "os = failures ps @ new" "oc_task_id ` set os = oc_task_id ` set (failures ps) \<union> task_text xe ` set tasks"
    "distinct (map oc_task_id os)" "\<forall>oc \<in> set new. oc_success oc \<longleftrightarrow> map_of errors (oc_task_id oc) = None"
    using report_started_adds[OF r] dist(1) by (auto simp: task_text_def image_image)
  have "oc_task_id ` {oc \<in> set (failures ps @ new). oc_success oc} = {t. \<exists>d. ((t, d), None) \<in> set (zip st errs)}"
    by (rule successful_outcomes[OF len' dist(2,3) refl planned_failures[OF pl]])
      (use new cover error_recorded[OF len', of "[]"] in \<open>auto simp: errors pz st_def\<close>)
  then have "JStr ` oc_task_id ` {oc \<in> set os. oc_success oc} = command_task ` set msgs"
    using published_commands(1)[OF len' cmd] by (simp add: new(1) msgs pz)
  then show ?thesis using new(2,3) cover published_commands(2)[OF len' cmd dist(2)] by (simp add: msgs pz image_image Un_absorb1)
qed

definition exec_demo :: "(string \<times> doc) list exec_env" where
  "exec_demo = \<lparr>xe_reg = phero_env, xe_dumps = jstr, xe_rabbit = True, xe_channel = True,
     xe_publish = (\<lambda>i. if i = 1 then Some ''closed'' else None), xe_services = None, xe_agents = None\<rparr>"

definition launch_demo :: "json list" where
  "launch_demo = [JDict [(''task_id'', JStr ''t1''), (''service_name'', JStr ''s''), (''artifact'', JStr ''m:run'')],
     JDict [(''task_id'', JStr ''t2'')],
     JDict [(''task_id'', JStr ''t3''), (''service_name'', JStr ''s''), (''artifact'', JStr ''m:run'')]]"

theorem launch_outcomes_match_messages_witness:
  "\<exists>os msgs. launch_tasks mem_kv exec_demo ''ann'' (JStr ''pipe'') JNull ''plan'' [] [] launch_demo = Inr (os, msgs) \<and>
     map command_task msgs = [JStr ''t1''] \<and> oc_task_id ` {oc \<in> set os. oc_success oc} = {''t1''} \<and> oc_task_id ` set os = {''t1'', ''t2'', ''t3''}"
proof -
  have "(case launch_tasks mem_kv exec_demo ''ann'' (JStr ''pipe'') JNull ''plan'' [] [] launch_demo of
      Inl e \<Rightarrow> False | Inr (os, msgs) \<Rightarrow> map command_task msgs = [JStr ''t1''])" by code_simp
  then obtain os msgs where r: "launch_tasks mem_kv exec_demo ''ann'' (JStr ''pipe'') JNull ''plan'' [] [] launch_demo = Inr (os, msgs)"
    and m: "map command_task msgs = [JStr ''t1'']" by (auto split: sum.splits)
  have ids: "map (task_text exec_demo) launch_demo = [''t1'', ''t2'', ''t3'']" by code_simp
  have "list_all (\<lambda>j. truthy (jget (jdict j) ''task_id'')) launch_demo" by code_simp
  then have all: "\<forall>j \<in> set launch_demo. truthy (jget (jdict j) ''task_id'')" by (simp add: list_all_iff)
  have idset: "task_text exec_demo ` set launch_demo = {''t1'', ''t2'', ''t3''}" using arg_cong[OF ids, of set] by simp
  have "distinct (map (task_text exec_demo) launch_demo)" unfolding ids by simp
  from launch_outcomes_match_messages[OF r all this]
  have "oc_task_id ` set os = {''t1'', ''t2'', ''t3''}" and "set (map command_task msgs) = JStr ` oc_task_id ` {oc \<in> set os. oc_success oc}"
    unfolding idset by (simp_all add: image_image)
  moreover have "oc_task_id ` {oc \<in> set os. oc_success oc} = {''t1''}"
  proof -
    have eq: "JStr ` oc_task_id ` {oc \<in> set os. oc_success oc} = JStr ` {''t1''}" unfolding calculation(2)[symmetric] m by simp
    have "inj JStr" by (simp add: inj_def)
    from inj_image_eq_iff[OF this] show ?thesis using eq by (rule iffD1)
  qed
  ultimately show ?thesis using r m by - (intro exI conjI, assumption+)
qed

subsection \<open>The report\<close>

lemma as_outcome_json: "as_outcome (outcome_json oc) = Some oc"
  by (cases oc) (auto simp: outcome_json_def field_def as_opt_def jopt_def split: option.splits)

lemma those_map_inverse: "(\<And>x. g (f x) = Some x) \<Longrightarrow> those (map g (map f xs)) = Some xs"
  by (induction xs) simp_all

lemma report_outcomes_stored:
  assumes "execution_report g plan rid os = Inr d"
  shows "report_outcomes (with_meta e ty d) = Some os"
proof -
  obtain r where "as_opt as_str rid = Some r" and "d = [(''report_id'', JStr (e_uuid g)), (''plan_id'', JStr plan), (''pipeline_run_id'', jopt JStr r),
      (''outcomes'', JList (map outcome_json os)), (''success_rate'', JReal (success_rate os)), (''created_at'', JStr (g_dump g (e_now g)))]"
    using assms by (auto simp: execution_report_def split: option.splits)
  then show ?thesis
    using those_map_inverse[of as_outcome outcome_json os, OF as_outcome_json]
    by (cases r) (simp_all add: report_outcomes_def with_meta_def field_def as_opt_def jopt_def)
qed

lemma executor_stores:
  assumes "run_executor kv xe m (Some c) = (Inr (x, msgs), s)"
  obtains rid d where "execution_report (xe_reg xe) (xr_plan x) rid (xr_outcomes x) = Inr d"
    and "s = Some (snd (save_execution_report kv (store_env.truncate (xe_reg xe)) (sfield m ''username'') d c))"
    and "xr_report x = e_uuid (xe_reg xe)" and "xr_blocked x = block_reason kv (xe_reg xe) (sfield m ''username'') (xr_plan x) c"
    and "xr_blocked x \<noteq> None \<longrightarrow> xr_outcomes x = [] \<and> msgs = []"
  using assms
  by (auto simp: run_executor_def finish_execution_def Let_def apsnd_def map_prod_def split: if_splits sum.splits option.splits prod.splits)

lemma execution_report_stored:
  assumes "kv_collection kv" and "run_executor kv xe m (Some c) = (Inr (x, msgs), Some c')"
  shows "\<exists>d. kv_get kv c' (key3 ''execution'' (sfield m ''username'') (xr_plan x) (xr_report x)) = Some d \<and>
    feedback_from_execution_report d = map outcome_entry (xr_outcomes x)"
proof -
  obtain rid d where d: "execution_report (xe_reg xe) (xr_plan x) rid (xr_outcomes x) = Inr d" and id: "xr_report x = e_uuid (xe_reg xe)"
    and c': "c' = snd (save_execution_report kv (store_env.truncate (xe_reg xe)) (sfield m ''username'') d c)"
    using executor_stores[OF assms(2)] by blast
  have "sfield d ''plan_id'' = xr_plan x" "sfield d ''report_id'' = e_uuid (xe_reg xe)"
    using d by (auto simp: execution_report_def sfield_def jget_def dict_get_def split: option.splits)
  with c' id show ?thesis
    by (simp add: save_execution_report_def kv_collection.save_doc_get[OF assms(1)] feedback_from_execution_report_def report_outcomes_stored[OF d])
qed

text \<open>C19. What the executor stores the pheromone engine reads: after a run of the executor that returns, the report stored under the identifier
  returned gives the engine one entry of feedback per outcome, in order, none for a plan that was blocked.\<close>

theorem execution_report_roundtrip:
  assumes "kv_collection kv" and "run_executor kv xe m (Some c) = (Inr (x, msgs), Some c')"
  shows "\<exists>d. kv_get kv c' (key3 ''execution'' (sfield m ''username'') (xr_plan x) (xr_report x)) = Some d \<and>
    feedback_from_execution_report d = map outcome_entry (xr_outcomes x)"
  by (rule execution_report_stored[OF assms])

definition exec_message :: doc where
  "exec_message = [(''username'', JStr ''ann''), (''plan_id'', JStr ''plan'')]"

theorem execution_report_roundtrip_witness:
  "\<exists>x msgs c'. run_executor mem_kv exec_demo exec_message (Some demo_plans) = (Inr (x, msgs), Some c') \<and>
     (\<exists>d. kv_get mem_kv c' (key3 ''execution'' ''ann'' (xr_plan x) (xr_report x)) = Some d \<and>
       feedback_from_execution_report d = map outcome_entry (xr_outcomes x))"
proof -
  have "(case run_executor mem_kv exec_demo exec_message (Some demo_plans) of (Inr _, Some _) \<Rightarrow> True | _ \<Rightarrow> False)" by code_simp
  then obtain x msgs c' where r: "run_executor mem_kv exec_demo exec_message (Some demo_plans) = (Inr (x, msgs), Some c')"
    by (auto split: prod.splits sum.splits option.splits)
  have "sfield exec_message ''username'' = ''ann''" by code_simp
  with execution_report_roundtrip[OF mem.kv_collection_axioms r] r show ?thesis by metis
qed

subsection \<open>The verdict of the gate\<close>

lemma like_skip: "like q t \<Longrightarrow> like (CHR ''%'' # q) t"
  by (cases t) simp_all

lemma like_prefix_any: "like (p @ ''%'') (p @ s)"
proof (induction p)
  case (Cons a p)
  then show ?case using like_skip[OF Cons.IH] by simp
qed (simp add: like_percent)

lemma py_max_unique:
  "n \<in> insert m (set xs) \<Longrightarrow> \<forall>y \<in> insert m (set xs). y \<noteq> n \<longrightarrow> key y < key n \<Longrightarrow> py_max key m xs = n"
proof (induction xs arbitrary: m)
  case (Cons x xs)
  show ?case
  proof (cases "x = n \<or> m = n")
    case True
    then have "(if key m < key x then x else m) = n" using Cons.prems by (auto dest: less_asym)
    then show ?thesis using Cons.IH[of n] Cons.prems(2) by simp
  next
    case False
    with Cons.prems have "py_max key (if key m < key x then x else m) xs = n" by (intro Cons.IH) auto
    then show ?thesis by simp
  qed
qed simp

lemma latest_unique:
  assumes "n \<in> set items" and "\<forall>i \<in> set items. i \<noteq> n \<longrightarrow> py_str repr (jor (jget i f) (JStr [])) < py_str repr (jor (jget n f) (JStr []))"
  shows "latest_by_timestamp repr items f = Some n"
  using assms by (cases items) (auto simp: latest_by_timestamp_def intro: py_max_unique)

text \<open>Checks and approvals are saved under a fresh key and as the latest of their plan: saving one adds it to the listing of the plan, and
  writing other keys leaves the listing as it is.\<close>

definition verdicts :: "'c kv_ops \<Rightarrow> string \<Rightarrow> string \<Rightarrow> string \<Rightarrow> string \<Rightarrow> string \<Rightarrow> 'c \<Rightarrow> doc list" where
  "verdicts kv k kl ds u plan c = fst (list_or_latest kv (Some plan) (key2 kl u plan) (list_page kv (narrow (Some plan) (prefix2 k u)) no_listing ds c) c)"

lemma verdicts_eqs:
  "fst (list_ethics_checks kv u (Some plan) no_listing c) = verdicts kv ''ethics_check'' ''ethics_check_latest'' ''checked_at'' u plan c"
  "fst (list_human_approvals kv u (Some plan) no_listing c) = verdicts kv ''human_approval'' ''human_approval_latest'' ''decided_at'' u plan c"
  by (simp_all add: verdicts_def list_ethics_checks_def list_human_approvals_def)

lemma narrow_plan: "\<exists>q. narrow (Some plan) (prefix2 k u) = k @ ''::'' @ q"
  by (cases "given (Some plan)") (auto simp: narrow_def prefix2_def)

lemma narrow_key: "like (narrow (Some plan) (prefix2 k u) @ ''%'') (key3 k u plan x)"
proof -
  have "\<exists>r. key3 k u plan x = narrow (Some plan) (prefix2 k u) @ r" by (auto simp: narrow_def prefix2_def key3_def key2_def given_def)
  then show ?thesis using like_prefix_any by metis
qed

lemma page_items:
  assumes "kv_collection kv"
  shows "set (fst (list_page kv p no_listing ds c)) = {(''id'', JStr k) # d |k d. kv_get kv c k = Some d \<and> like (p @ ''%'') k}"
  by (rule kv_collection.list_page_all[OF assms]) (simp add: no_listing_def)

lemma saved_verdict_listed:
  fixes e :: store_env and u plan k kl ds :: string and d :: doc and c :: 'c
  assumes "kv_collection kv" and apart: "\<And>q r. \<not> like (k @ ''::'' @ q @ ''%'') (kl @ ''::'' @ r)"
  defines "n \<equiv> (''id'', JStr (key3 k u plan (e_uuid e))) # with_meta e k d"
    and "c1 \<equiv> snd (save_with_latest kv e k (key3 k u plan (e_uuid e)) d kl (key2 kl u plan) c)"
  shows "n \<in> set (verdicts kv k kl ds u plan c1) \<and> set (verdicts kv k kl ds u plan c1) \<subseteq> insert n (set (verdicts kv k kl ds u plan c))"
proof -
  let ?p = "narrow (Some plan) (prefix2 k u)" and ?key = "key3 k u plan (e_uuid e)" and ?latest = "key2 kl u plan"
  obtain q where q: "?p = k @ ''::'' @ q" using narrow_plan by blast
  have latest: "\<not> like (?p @ ''%'') ?latest" unfolding q using apart[of q "u @ ''::'' @ plan"] by (simp add: key2_def)
  note items = page_items[OF assms(1)] and key = narrow_key[of plan k u "e_uuid e"]
  have get: "kv_get kv c1 x = (if x = ?latest then Some (with_meta e kl (with_meta e k d)) else if x = ?key then Some (with_meta e k d) else kv_get kv c x)" for x
    by (simp add: c1_def save_with_latest_def kv_collection.get_upsert[OF assms(1)])
  have "n \<in> set (fst (list_page kv ?p no_listing ds c1))" unfolding items using key latest get[of ?key] by (auto simp: n_def)
  moreover have "set (fst (list_page kv ?p no_listing ds c1)) \<subseteq> insert n (set (fst (list_page kv ?p no_listing ds c)))"
    unfolding items using latest by (auto simp: get n_def split: if_splits)
  moreover have "set (fst (list_page kv ?p no_listing ds c)) \<subseteq> set (verdicts kv k kl ds u plan c)" by (auto simp: verdicts_def list_or_latest_def)
  moreover have "verdicts kv k kl ds u plan c1 = fst (list_page kv ?p no_listing ds c1)" using calculation(1) by (auto simp: verdicts_def list_or_latest_def)
  ultimately show ?thesis by auto
qed

lemma apart_kinds:
  "\<not> like (''ethics_check'' @ ''::'' @ q @ ''%'') (''ethics_check_latest'' @ ''::'' @ r)"
  "\<not> like (''human_approval'' @ ''::'' @ q @ ''%'') (''human_approval_latest'' @ ''::'' @ r)"
  by simp_all

lemma latest_verdict:
  assumes "n \<in> set items \<and> set items \<subseteq> insert n old" and "\<forall>i \<in> old. py_str repr (jor (jget i f) (JStr [])) < py_str repr (jor (jget n f) (JStr []))"
  shows "latest_by_timestamp repr items f = Some n"
  using assms by (intro latest_unique) auto

lemma ethics_stores:
  assumes "run_ethics kv ee call (Some c) = (Inr (res, cmd), s)"
  shows "s = Some (snd (save_ethics_check kv (ethics_env_store ee) (ea_username call)
    (check_doc (g_dump (ee_reg ee) (e_now (ee_reg ee))) (ea_count call) res) c))"
  using assms by (auto simp: run_ethics_def Let_def split: if_splits sum.splits)

text \<open>C4. The verdict of the ethics gate decides whether the executor runs the plan: when a review returns and stores its result later than
  the checks stored before, an execution of the same plan is blocked as rejected exactly when the review did not
  approve, whatever the action it announced; and then no task gets an outcome and no command is published.\<close>

theorem verdict_gates_execution:
  assumes "kv_collection kv" and "run_ethics kv ee call (Some c) = (Inr (res, cmd), Some c1)"
    and "\<forall>i \<in> set (fst (list_ethics_checks kv (ea_username call) (Some (et_plan res)) no_listing c)).
      py_str (g_repr (xe_reg xe)) (jor (jget i ''checked_at'') (JStr [])) < g_dump (ee_reg ee) (e_now (ee_reg ee))"
    and "g_getenv (xe_reg xe) ''EXECUTION_REQUIRE_ETHICS'' \<noteq> Some ''0''"
    and "run_executor kv xe m (Some c1) = (Inr (x, msgs), c2)" and "sfield m ''username'' = ea_username call" and "xr_plan x = et_plan res"
  shows "(xr_blocked x = Some ''ethics_rejected'' \<longleftrightarrow> \<not> rw_approved (et_review res)) \<and>
    (\<not> rw_approved (et_review res) \<longrightarrow> xr_outcomes x = [] \<and> msgs = [])"
proof -
  let ?now = "g_dump (ee_reg ee) (e_now (ee_reg ee))"
  let ?check = "check_doc ?now (ea_count call) res" and ?checks = "\<lambda>c. fst (list_ethics_checks kv (ea_username call) (Some (et_plan res)) no_listing c)"
  define n where "n = (''id'', JStr (key3 ''ethics_check'' (ea_username call) (et_plan res) (e_uuid (ethics_env_store ee)))) #
    with_meta (ethics_env_store ee) ''ethics_check'' ?check"
  have plan: "et_plan res = sfield ?check ''plan_id''" by (simp add: check_doc_def sfield_def jget_def dict_get_def)
  have c1: "c1 = snd (save_ethics_check kv (ethics_env_store ee) (ea_username call) ?check c)" using ethics_stores[OF assms(2)] by simp
  have time: "py_str (g_repr (xe_reg xe)) (jor (jget n ''checked_at'') (JStr [])) = ?now"
    and ok: "jget n ''approved'' = JBool (rw_approved (et_review res))"
    by (simp_all add: n_def check_doc_def with_meta_def jget_def dict_get_def jor_def)
  have "latest_by_timestamp (g_repr (xe_reg xe)) (?checks c1) ''checked_at'' = Some n"
    unfolding verdicts_eqs c1 save_ethics_check_def plan[symmetric] n_def
    by (rule latest_verdict[OF saved_verdict_listed[OF assms(1) apart_kinds(1)]]) (use assms(3) in \<open>simp only: time[unfolded n_def] verdicts_eqs\<close>)
  then have "block_reason kv (xe_reg xe) (ea_username call) (et_plan res) c1 = Some ''ethics_rejected'' \<longleftrightarrow> \<not> rw_approved (et_review res)"
    using assms(4) ok by (auto simp: block_reason_def rejects_def n_def Let_def)
  moreover have "xr_blocked x = block_reason kv (xe_reg xe) (ea_username call) (et_plan res) c1" and "xr_blocked x \<noteq> None \<longrightarrow> xr_outcomes x = [] \<and> msgs = []"
    using executor_stores[OF assms(5)] unfolding assms(6,7) by blast+
  ultimately show ?thesis by (cases "rw_approved (et_review res)") simp_all
qed

definition gate_env :: ethics_env where
  "gate_env = \<lparr>ee_reg = phero_env\<lparr>g_getenv := (\<lambda>v. if v = ''LLM_STUB_MODE'' then Some ''1'' else None)\<rparr>, ee_uuid = ''check'', ee_repr = jstr,
     ee_loads = (\<lambda>s. None), ee_connects = False, ee_ask = (\<lambda>_ _ _ _. None), ee_rabbit = False\<rparr>"

definition gate_call :: ethics_call where
  "gate_call = \<lparr>ea_username = ''ann'', ea_pipeline = None, ea_run = None, ea_plan = Some ''plan'', ea_count = 0\<rparr>"

definition risky_store :: "(string \<times> doc) list" where
  "risky_store = snd (upsert_task_spec mem_kv demo_env ''ann'' [(''task_id'', JStr ''a''), (''description'', JStr ''d''), (''risk_level'', JStr ''high'')] demo_plans)"

theorem verdict_gates_execution_witness:
  "\<exists>res cmd c1 x c2. run_ethics mem_kv gate_env gate_call (Some risky_store) = (Inr (res, cmd), Some c1) \<and> \<not> rw_approved (et_review res) \<and>
     run_executor mem_kv exec_demo exec_message (Some c1) = (Inr (x, []), c2) \<and> xr_blocked x = Some ''ethics_rejected''"
proof -
  define runs where "runs = (\<lambda>c. case run_executor mem_kv exec_demo exec_message (Some c) of (Inr (x, _), _) \<Rightarrow> xr_plan x = ''plan'' | _ \<Rightarrow> False)"
  have "(case run_ethics mem_kv gate_env gate_call (Some risky_store) of
      (Inr (res, _), Some c1) \<Rightarrow> et_plan res = ''plan'' \<and> \<not> rw_approved (et_review res) \<and> runs c1 | _ \<Rightarrow> False)"
    unfolding runs_def by code_simp
  moreover obtain o1 s1 where o1: "run_ethics mem_kv gate_env gate_call (Some risky_store) = (o1, s1)" by (rule prod.exhaust)
  ultimately obtain res cmd c1 where e: "run_ethics mem_kv gate_env gate_call (Some risky_store) = (Inr (res, cmd), Some c1)"
    and c1: "et_plan res = ''plan'' \<and> \<not> rw_approved (et_review res)" "runs c1"
    by (cases o1; cases s1) (auto simp: o1)
  from c1(2) obtain x msgs c2 where r: "run_executor mem_kv exec_demo exec_message (Some c1) = (Inr (x, msgs), c2)" and "xr_plan x = ''plan''"
    by (auto simp: runs_def split: prod.split_asm sum.split_asm)
  with c1 have p: "et_plan res = ''plan''" "xr_plan x = ''plan''" "\<not> rw_approved (et_review res)" by simp_all
  have old: "fst (list_ethics_checks mem_kv ''ann'' (Some ''plan'') no_listing risky_store) = []" by code_simp
  have "g_getenv (xe_reg exec_demo) ''EXECUTION_REQUIRE_ETHICS'' \<noteq> Some ''0''" by (simp add: exec_demo_def phero_env_def)
  moreover have "sfield exec_message ''username'' = ea_username gate_call" by code_simp
  ultimately have "xr_blocked x = Some ''ethics_rejected'' \<and> msgs = []"
    using verdict_gates_execution[OF mem.kv_collection_axioms e _ _ r] old p by (simp add: gate_call_def)
  with e r p show ?thesis by blast
qed

end
