(* ===== verification/Workflow_Config.thy ===== *)
theory Workflow_Config
  imports Kahn
begin

section \<open>The pipeline parser: dependencies, cycles and execution order\<close>

text \<open>
  The first half of \<^verbatim>\<open>ConfigParser\<close> (\<^verbatim>\<open>rabbitmq_workflow/workflow_config_parser.py\<close>): the
  steps that read a pipeline's task list, infer who depends on whom and accept or reject it. A task
  is the dictionary \<^verbatim>\<open>Task.model_dump()\<close> of the pydantic model, with the two entries the parser
  adds (\<^verbatim>\<open>dependencies\<close> and \<^verbatim>\<open>inferred_outputs\<close>). \<open>t_inputs\<close> is the optional
  \<^verbatim>\<open>inputs\<close> dictionary; of its entries only the list \<^verbatim>\<open>dependencies\<close> is read, and
  \<^verbatim>\<open>None\<close> makes \<^verbatim>\<open>None.get\<close> raise. Every \<^verbatim>\<open>raise\<close> is a value of
  \<open>parse_error\<close>. The argument \<open>it\<close> is the iteration order of Python sets.
\<close>

record task =
  t_id :: string
  t_name :: string
  t_available_services :: string
  t_action :: string
  t_is_entry :: bool
  t_description :: "string option"
  t_inputs :: "(string \<times> string list) list option"
  t_is_final_task :: bool
  t_dependencies :: "string list"
  t_inferred_outputs :: "string list"

record dag_config =
  dag_tasks :: "task list"
  dag_timeout :: "int option"

datatype parse_error =
    NoneInputs string
  | UnknownDependency string string
  | CircularDependency
  | SoloNodes "string list"
  | NoTasks
  | DisconnectedTasks "string list"
  | MissingTask string
  | NoExchangeSuggestion string
  | SetHasNoGet string
  | FanInNotFound string

subsection \<open>infer\_dependencies\_and\_outputs\<close>

fun add_outputs :: "string list \<Rightarrow> string \<Rightarrow> string list \<Rightarrow> string graph \<Rightarrow> parse_error + string graph" where
  "add_outputs ids t [] outs = Inr outs"
| "add_outputs ids t (d # ds) outs =
     (if d \<notin> set ids then Inl (UnknownDependency t d)
      else add_outputs ids t ds (dict_set d (set_add t (dict_get outs d [])) outs))"

fun infer_dependencies :: "(string list \<Rightarrow> string list) \<Rightarrow> string list \<Rightarrow> task list \<Rightarrow> string graph
    \<Rightarrow> parse_error + task list \<times> string graph" where
  "infer_dependencies it ids [] outs = Inr ([], outs)"
| "infer_dependencies it ids (t # ts) outs =
     (case t_inputs t of
        None \<Rightarrow> Inl (NoneInputs (t_id t))
      | Some i \<Rightarrow>
          (let deps = it (dict_get i ''dependencies'' [])
           in bindR (add_outputs ids (t_id t) deps outs) (\<lambda>outs'.
              bindR (infer_dependencies it ids ts outs') (\<lambda>(ts', outs'').
              Inr (t\<lparr>t_dependencies := deps\<rparr> # ts', outs'')))))"

fun infer_outputs :: "(string list \<Rightarrow> string list) \<Rightarrow> task list \<Rightarrow> string graph \<Rightarrow> task list \<times> string graph" where
  "infer_outputs it [] outs = ([], outs)"
| "infer_outputs it (t # ts) outs =
     (let r = infer_outputs it ts (dict_touch (t_id t) [] outs)
      in (t\<lparr>t_inferred_outputs := it (dict_get outs (t_id t) [])\<rparr> # fst r, snd r))"

definition infer_dependencies_and_outputs ::
    "(string list \<Rightarrow> string list) \<Rightarrow> task list \<Rightarrow> parse_error + task list \<times> string graph" where
  "infer_dependencies_and_outputs it ts =
     bindR (infer_dependencies it (map t_id ts) ts []) (\<lambda>(ts', outs). Inr (infer_outputs it ts' outs))"

subsection \<open>detect\_cycles\_kahn and parse\_dag\<close>

definition task_deps :: "task list \<Rightarrow> (string \<times> string list) list" where
  "task_deps ts = map (\<lambda>t. (t_id t, t_dependencies t)) ts"

definition detect_cycles_kahn :: "task list \<Rightarrow> parse_error + unit" where
  "detect_cycles_kahn ts =
     (let (graph, in_degree) = build_graph (task_deps ts) ([], []);
          queue = map fst (filter (\<lambda>(t, degree). degree = 0) in_degree);
          processed = snd (kahn_loop PopLeft graph in_degree queue [])
      in if length processed \<noteq> length ts then Inl CircularDependency else Inr ())"

definition make_task_dict :: "task list \<Rightarrow> (string \<times> task) list" where
  "make_task_dict ts = foldl (\<lambda>d t. dict_set (t_id t) t d) [] ts"

definition parse_dag :: "task list \<Rightarrow> string list \<times> string graph" where
  "parse_dag ts =
     (let task_dict = make_task_dict ts;
          (graph, in_degree) = build_graph (task_deps ts) ([], []);
          zero_in_degree = filter (\<lambda>t. dict_get in_degree t 0 = 0) (dict_keys task_dict)
      in (snd (kahn_loop PopLeft graph in_degree zero_in_degree []), graph))"

subsection \<open>validate\_no\_solo\_nodes and validate\_single\_connected\_dag\<close>

definition solo_nodes :: "task list \<Rightarrow> string graph \<Rightarrow> string list" where
  "solo_nodes ts graph =
     map t_id (filter (\<lambda>t. t_dependencies t = [] \<and> dict_get graph (t_id t) [] = []) ts)"

definition validate_no_solo_nodes :: "task list \<Rightarrow> string graph \<Rightarrow> parse_error + unit" where
  "validate_no_solo_nodes ts graph =
     (if solo_nodes ts graph \<noteq> [] then Inl (SoloNodes (solo_nodes ts graph)) else Inr ())"

definition graph_nodes :: "'a graph \<Rightarrow> 'a set" where
  "graph_nodes g = fst ` set g \<union> (\<Union>(k, l) \<in> set g. set l)"

lemma finite_graph_nodes [simp]: "finite (graph_nodes g)"
  by (auto simp: graph_nodes_def)

lemma succs_graph_nodes: "set (dict_get g x []) \<subseteq> graph_nodes g"
proof (cases "map_of g x")
  case (Some l)
  then show ?thesis using map_of_SomeD[OF Some] by (force simp: dict_get_def graph_nodes_def)
qed (simp add: dict_get_def)

lemma graph_nodes_touch: "graph_nodes (dict_touch k [] g) \<subseteq> insert k (graph_nodes g)"
  by (auto simp: graph_nodes_def dict_touch_def split: option.splits)

function reach_loop :: "'a graph \<Rightarrow> 'a list \<Rightarrow> 'a list \<Rightarrow> 'a graph \<times> 'a list" where
  "reach_loop g visited [] = (g, visited)"
| "reach_loop g visited (x # q) =
     (if x \<in> set visited then reach_loop g visited q
      else reach_loop (dict_touch x [] g) (visited @ [x]) (q @ dict_get g x []))"
  by pat_completeness auto
termination
proof (relation "measures [\<lambda>(g, visited, q). card ((graph_nodes g \<union> set q) - set visited),
    \<lambda>(g, visited, q). length q]", goal_cases)
  case (2 g visited x q)
  then have "(graph_nodes g \<union> set q) - set visited = (graph_nodes g \<union> set (x # q)) - set visited"
    by auto
  then show ?case by simp
next
  case (3 g visited x q)
  let ?old = "(graph_nodes g \<union> set (x # q)) - set visited"
  let ?new = "(graph_nodes (dict_touch x [] g) \<union> set (q @ dict_get g x [])) - set (visited @ [x])"
  have "?new \<subseteq> ?old - {x}"
    using graph_nodes_touch[of x g] succs_graph_nodes[of g x] by auto
  moreover have "x \<in> ?old" using 3 by simp
  ultimately have "?new \<subset> ?old" by blast
  then have "card ?new < card ?old" by (intro psubset_card_mono) simp_all
  then show ?case by simp
qed simp

definition validate_single_connected_dag :: "(string list \<Rightarrow> string list) \<Rightarrow> task list \<Rightarrow> string graph
    \<Rightarrow> parse_error + string graph" where
  "validate_single_connected_dag it ts graph =
     (if ts = [] then Inl NoTasks
      else let (graph', visited) = reach_loop graph [] [t_id (hd ts)]
           in if set visited \<noteq> set (map t_id ts)
              then Inl (DisconnectedTasks (it (filter (\<lambda>t. t \<notin> set visited) (map t_id ts))))
              else Inr graph')"

subsection \<open>What inference computes\<close>

definition raw_deps :: "task \<Rightarrow> string list" where
  "raw_deps t = (case t_inputs t of None \<Rightarrow> [] | Some i \<Rightarrow> dict_get i ''dependencies'' [])"

text \<open>The dependency lists as the user wrote them: what a configuration means.\<close>

definition config_deps :: "task list \<Rightarrow> (string \<times> string list) list" where
  "config_deps ts = map (\<lambda>t. (t_id t, raw_deps t)) ts"

definition inferred :: "(string list \<Rightarrow> string list) \<Rightarrow> task \<Rightarrow> task" where
  "inferred it t = t\<lparr>t_dependencies := it (raw_deps t)\<rparr>"

lemma inferred_simps [simp]:
  "t_id (inferred it t) = t_id t" "t_dependencies (inferred it t) = it (raw_deps t)"
  "t_name (inferred it t) = t_name t"
  by (simp_all add: inferred_def)

lemma add_outputs_Inr_iff:
  "(\<exists>o'. add_outputs ids t ds outs = Inr o') \<longleftrightarrow> set ds \<subseteq> set ids"
  by (induction ids t ds outs rule: add_outputs.induct) auto

lemma add_outputs_spec:
  "add_outputs ids t ds outs = Inr outs' \<Longrightarrow>
     set (dict_get outs' d []) = set (dict_get outs d []) \<union> (if d \<in> set ds then {t} else {})"
  by (induction ids t ds outs rule: add_outputs.induct) (auto split: if_splits)

lemma add_outputs_Inl:
  "add_outputs ids t ds outs = Inl e \<Longrightarrow> \<exists>d. e = UnknownDependency t d \<and> d \<in> set ds \<and> d \<notin> set ids"
  by (induction ids t ds outs rule: add_outputs.induct) (auto split: if_splits)

lemma infer_dependencies_Inr_iff:
  assumes "set_iteration it"
  shows "(\<exists>r. infer_dependencies it ids ts outs = Inr r) \<longleftrightarrow>
    (\<forall>t\<in>set ts. t_inputs t \<noteq> None \<and> set (raw_deps t) \<subseteq> set ids)"
proof (induction ts arbitrary: outs)
  case (Cons t ts)
  show ?case
  proof (cases "t_inputs t")
    case (Some i)
    then have "raw_deps t = dict_get i ''dependencies'' []" by (simp add: raw_deps_def)
    with Some Cons.IH show ?thesis
      using add_outputs_Inr_iff[of ids "t_id t" "it (raw_deps t)" outs] assms
      by (fastforce simp: Let_def bindR_Inr_iff)
  qed simp
qed simp

lemma infer_dependencies_spec:
  assumes "set_iteration it" and "infer_dependencies it ids ts outs = Inr (ts', outs')"
  shows "ts' = map (inferred it) ts \<and>
    (\<forall>d. set (dict_get outs' d []) = set (dict_get outs d []) \<union> {t_id t |t. t \<in> set ts \<and> d \<in> set (raw_deps t)})"
  using assms(2)
proof (induction ts arbitrary: outs ts' outs')
  case (Cons t ts)
  then obtain i where i: "t_inputs t = Some i" by (auto split: option.splits)
  then have raw: "raw_deps t = dict_get i ''dependencies'' []" by (simp add: raw_deps_def)
  from Cons.prems i raw obtain o1 ts1 where
    1: "add_outputs ids (t_id t) (it (raw_deps t)) outs = Inr o1"
    and 2: "infer_dependencies it ids ts o1 = Inr (ts1, outs')"
    and 3: "ts' = inferred it t # ts1"
    by (auto simp: Let_def bindR_Inr_iff inferred_def)
  show ?case
    using Cons.IH[OF 2] add_outputs_spec[OF 1] assms(1) 3 by auto
qed simp

lemma infer_dependencies_Inl:
  "infer_dependencies it ids ts outs = Inl e \<Longrightarrow> \<exists>t d. e = NoneInputs t \<or> e = UnknownDependency t d"
  by (induction it ids ts outs rule: infer_dependencies.induct)
    (auto simp: Let_def bindR_Inl_iff dest: add_outputs_Inl split: option.splits)

lemma infer_outputs_spec:
  "fst (infer_outputs it ts outs) = map (\<lambda>t. t\<lparr>t_inferred_outputs := it (dict_get outs (t_id t) [])\<rparr>) ts"
  "dict_get (snd (infer_outputs it ts outs)) k [] = dict_get outs k []"
  "fst ` set (snd (infer_outputs it ts outs)) = fst ` set outs \<union> t_id ` set ts"
  by (induction it ts outs rule: infer_outputs.induct) (auto simp: Let_def)

subsection \<open>Cycles and execution order\<close>

definition task_ids :: "task list \<Rightarrow> string set" where
  "task_ids ts = t_id ` set ts"

lemma fst_task_deps [simp]: "fst ` set (task_deps ts) = task_ids ts"
  by (force simp: task_deps_def task_ids_def)

lemma finite_task_ids [simp]: "finite (task_ids ts)"
  by (simp add: task_ids_def)

lemma zero_queue:
  assumes "distinct (dict_keys d)" and "set (dict_keys d) = N"
  shows "distinct (map fst (filter (\<lambda>(t, v). v = 0) d))"
    and "set (map fst (filter (\<lambda>(t, v). v = 0) d)) = {v \<in> N. dict_get d v (0::int) = 0}"
proof -
  show "distinct (map fst (filter (\<lambda>(t, v). v = 0) d))"
    using assms(1) by (simp add: distinct_map inj_on_def)
  show "set (map fst (filter (\<lambda>(t, v). v = 0) d)) = {v \<in> N. dict_get d v (0::int) = 0}"
    using assms by (force simp: dict_get_def image_iff)
qed

lemma length_eq_set_iff:
  assumes "distinct out" and "set out \<subseteq> set xs"
  shows "length out = length xs \<longleftrightarrow> distinct xs \<and> set out = set xs"
proof
  assume len: "length out = length xs"
  have "card (set out) = length xs" using len assms(1) by (simp add: distinct_card)
  moreover have "card (set out) \<le> card (set xs)" using assms(2) by (simp add: card_mono)
  ultimately have "card (set xs) = length xs" and "card (set out) = card (set xs)"
    using card_length[of xs] by simp_all
  then show "distinct xs \<and> set out = set xs"
    using assms(2) by (simp add: card_distinct card_subset_eq)
qed (metis assms(1) distinct_card)

lemma detect_cycles_kahn_iff:
  assumes "deps_known (task_deps ts)"
  shows "detect_cycles_kahn ts = Inr () \<longleftrightarrow> distinct (map t_id ts) \<and> acyclic (dep_edges (task_deps ts))"
proof -
  obtain g d where gd: "build_graph (task_deps ts) ([], []) = (g, d)" by fastforce
  note b = build_graph_correct[OF assms gd refl]
  let ?q = "map fst (filter (\<lambda>(t, v). v = 0) d)"
  obtain d' out where run: "kahn_loop PopLeft g d ?q [] = (d', out)" by fastforce
  note k = kahn_loop_correct[OF _ b(1) b(2) zero_queue[OF b(3) b(4)] run]
  have "length out = length (map t_id ts) \<longleftrightarrow> distinct (map t_id ts) \<and> set out = set (map t_id ts)"
    by (rule length_eq_set_iff) (use k(1,2) in \<open>simp_all add: task_ids_def\<close>)
  then show ?thesis
    using k(4) b(5) by (simp add: detect_cycles_kahn_def gd run task_ids_def)
qed

lemma detect_cycles_kahn_Inl: "detect_cycles_kahn ts = Inl e \<Longrightarrow> e = CircularDependency"
  by (auto simp: detect_cycles_kahn_def Let_def split: prod.splits if_splits)

lemma foldl_dict_set:
  "distinct (map f ts) \<Longrightarrow> \<forall>t\<in>set ts. f t \<notin> set (dict_keys d) \<Longrightarrow>
    foldl (\<lambda>d t. dict_set (f t) (h t) d) d ts = d @ map (\<lambda>t. (f t, h t)) ts"
proof (induction ts arbitrary: d)
  case (Cons t ts)
  then have "dict_set (f t) (h t) d = d @ [(f t, h t)]"
    by (simp add: dict_set_fresh)
  moreover have "\<forall>s\<in>set ts. f s \<notin> set (dict_keys (d @ [(f t, h t)]))"
    using Cons.prems by (simp add: image_iff) metis
  ultimately show ?case using Cons.IH[of "d @ [(f t, h t)]"] Cons.prems(1) by simp
qed simp

lemma make_task_dict_distinct:
  "distinct (map t_id ts) \<Longrightarrow> make_task_dict ts = map (\<lambda>t. (t_id t, t)) ts"
  unfolding make_task_dict_def by (subst foldl_dict_set) simp_all

lemma parse_dag_spec:
  assumes "deps_known (task_deps ts)" and "distinct (map t_id ts)" and "parse_dag ts = (order, graph)"
  shows "distinct order" and "set order \<subseteq> task_ids ts" and "preds_before graph (task_ids ts) order"
    and "set order = task_ids ts \<longleftrightarrow> acyclic (dep_edges (task_deps ts))"
    and "closed_graph graph (task_ids ts)" and "edges graph (task_ids ts) = dep_edges (task_deps ts)"
    and "graph = fst (build_graph (task_deps ts) ([], []))"
proof -
  obtain d where gd: "build_graph (task_deps ts) ([], []) = (graph, d)"
    using assms(3) by (auto simp: parse_dag_def Let_def split: prod.splits)
  note b = build_graph_correct[OF assms(1) gd fst_task_deps[symmetric]]
  let ?q = "filter (\<lambda>t. dict_get d t 0 = 0) (map t_id ts)"
  have "dict_keys (make_task_dict ts) = map t_id ts"
    using assms(2) by (simp add: make_task_dict_distinct comp_def)
  then have "snd (kahn_loop PopLeft graph d ?q []) = order"
    using assms(3) gd by (simp add: parse_dag_def)
  then obtain d' where run: "kahn_loop PopLeft graph d ?q [] = (d', order)" by (metis prod.collapse)
  have q: "distinct ?q" "set ?q = {v \<in> task_ids ts. dict_get d v 0 = 0}"
    using assms(2) by (auto simp: task_ids_def)
  note k = kahn_loop_correct[OF finite_task_ids b(1) b(2) q run]
  show "distinct order" "set order \<subseteq> task_ids ts" "preds_before graph (task_ids ts) order"
    "set order = task_ids ts \<longleftrightarrow> acyclic (dep_edges (task_deps ts))"
    "closed_graph graph (task_ids ts)" "edges graph (task_ids ts) = dep_edges (task_deps ts)"
    using k b by simp_all
  show "graph = fst (build_graph (task_deps ts) ([], []))" by (simp add: gd)
qed

subsection \<open>Reachability\<close>

definition succ_rel :: "'a graph \<Rightarrow> ('a \<times> 'a) set" where
  "succ_rel g = {(x, y). y \<in> set (succs g x)}"

lemma succ_rel_touch [simp]: "succ_rel (dict_touch x [] g) = succ_rel g"
  by (simp add: succ_rel_def)

lemma reach_loop_dict:
  assumes "reach_loop g vis q = (g', vis')"
  shows "dict_get g' k [] = dict_get g k []"
    and "distinct (dict_keys g) \<Longrightarrow> distinct (dict_keys g')"
    and "set vis \<subseteq> set vis'" and "fst ` set g \<subseteq> fst ` set g'"
  using assms by (induction g vis q rule: reach_loop.induct) (auto split: if_splits)

lemma reach_loop_keys:
  "reach_loop g vis q = (g', vis') \<Longrightarrow> fst ` set g' \<union> set vis = fst ` set g \<union> set vis'"
proof (induction g vis q rule: reach_loop.induct)
  case (2 g vis x q)
  show ?case
  proof (cases "x \<in> set vis")
    case False
    then have run: "reach_loop (dict_touch x [] g) (vis @ [x]) (q @ dict_get g x []) = (g', vis')"
      using "2.prems" by simp
    have "x \<in> set vis'" "x \<in> fst ` set g'"
      using reach_loop_dict(3,4)[OF run] by simp_all
    then show ?thesis using "2.IH"(2)[OF False run] by (simp add: insert_absorb)
  qed (use 2 in simp)
qed simp

lemma reach_loop_closed:
  assumes "reach_loop g vis q = (g', vis')" and "set vis \<union> set q \<subseteq> R" and "succ_rel g `` R \<subseteq> R"
    and "succ_rel g `` set vis \<subseteq> set vis \<union> set q"
  shows "set q \<subseteq> set vis' \<and> set vis' \<subseteq> R \<and> succ_rel g `` set vis' \<subseteq> set vis'"
  using assms
proof (induction g vis q rule: reach_loop.induct)
  case (2 g vis x q)
  show ?case
  proof (cases "x \<in> set vis")
    case True
    have "succ_rel g `` set vis \<subseteq> set vis \<union> set q" using "2.prems"(4) True by auto
    then show ?thesis
      using "2.IH"(1)[OF True] True "2.prems" reach_loop_dict(3)[OF "2.prems"(1)] by auto
  next
    case False
    have "succ_rel g `` set (vis @ [x]) \<subseteq> set (vis @ [x]) \<union> set (q @ dict_get g x [])"
      using "2.prems"(4) by (auto simp: succ_rel_def)
    moreover have "set (vis @ [x]) \<union> set (q @ dict_get g x []) \<subseteq> R"
      using "2.prems"(2,3) by (auto simp: succ_rel_def)
    moreover have run: "reach_loop (dict_touch x [] g) (vis @ [x]) (q @ dict_get g x []) = (g', vis')"
      using "2.prems"(1) False by simp
    ultimately show ?thesis
      using "2.IH"(2)[OF False run] reach_loop_dict(3)[OF run] "2.prems"(3) by auto
  qed
qed auto

lemma reach_loop_reachable:
  assumes "reach_loop g [] [x] = (g', vis')"
  shows "set vis' = (succ_rel g)\<^sup>* `` {x}" and "\<And>k. dict_get g' k [] = dict_get g k []"
    and "fst ` set g' = fst ` set g \<union> set vis'" and "distinct (dict_keys g) \<Longrightarrow> distinct (dict_keys g')"
proof -
  let ?R = "(succ_rel g)\<^sup>* `` {x}"
  have "succ_rel g `` ?R \<subseteq> ?R" by (auto intro: rtrancl.rtrancl_into_rtrancl)
  then have *: "x \<in> set vis' \<and> set vis' \<subseteq> ?R \<and> succ_rel g `` set vis' \<subseteq> set vis'"
    using reach_loop_closed[OF assms, of ?R] by auto
  have "y \<in> set vis'" if "(x, y) \<in> (succ_rel g)\<^sup>*" for y
    using that * by (induction) auto
  with * show "set vis' = ?R" by auto
  show "\<And>k. dict_get g' k [] = dict_get g k []" "fst ` set g' = fst ` set g \<union> set vis'"
    "distinct (dict_keys g) \<Longrightarrow> distinct (dict_keys g')"
    using reach_loop_dict(1,2)[OF assms] reach_loop_keys[OF assms] by simp_all
qed

end
