(* ===== verification/Run_Store.thy ===== *)
theory Run_Store
  imports Json Workflow_Config
begin

section \<open>Pipeline runs and the ephemeral run store\<close>

text \<open>
  The run model (\<^verbatim>\<open>pipeline_run_model.py\<close>), its initial value (\<^verbatim>\<open>seed_initial_run\<close> of
  \<^verbatim>\<open>orchestrator_core/utils.py\<close>) and \<^verbatim>\<open>EphemeralPipelineStore\<close>, the documents of the runs in
  progress. The server collection is the parameter \<open>doc_ops\<close> (an insertion fails on an existing key,
  a replacement on a missing one), with its laws in the locale \<open>doc_collection\<close>. A stored run is a
  \<open>stored_run\<close>: the validated \<^verbatim>\<open>PipelineRun\<close> with the extra key \<^verbatim>\<open>plan_id\<close> that
  plan revision writes into the document, an empty document, or one that does not validate.
\<close>

datatype pipeline_status = PsRunning | PsCompleted | PsFailed | PsIdle

datatype task_status = TsPending | TsRunning | TsCompleted | TsFailed | TsIdle

text \<open>A status arrives as the enum or as some string (an enum of another import path).\<close>

datatype raw_status = SEnum task_status | SRaw string

record task_state =
  ts_status :: raw_status
  ts_attempts :: int
  ts_error :: "string option"
  ts_is_final :: "bool option"
  ts_run_id :: string
  ts_task_id :: string
  ts_username :: string
  ts_pipeline_id :: string
  ts_service :: string
  ts_data :: doc

record pipeline_run =
  pr_run_id :: string
  pr_pipeline_id :: string
  pr_status :: pipeline_status
  pr_tasks :: "(string \<times> task_state) list"
  pr_finished_at :: "real option"
  pr_triggered_by :: string
  pr_final_task_ids :: "string list"
  pr_paused :: bool

datatype stored_run = StoredEmpty | StoredBad | StoredRun pipeline_run "string option"

subsection \<open>seed\_initial\_run\<close>

definition seed_task :: "string \<Rightarrow> string \<Rightarrow> string \<Rightarrow> string \<Rightarrow> task \<Rightarrow> task_state" where
  "seed_task u pid rid tid tmeta =
     \<lparr>ts_status = SEnum TsPending, ts_attempts = 0, ts_error = None,
      ts_is_final = Some (t_is_final_task tmeta), ts_run_id = rid, ts_task_id = tid, ts_username = u,
      ts_pipeline_id = pid, ts_service = t_available_services tmeta, ts_data = []\<rparr>"

definition seed_initial_run :: "string \<Rightarrow> string \<Rightarrow> string \<Rightarrow> (string \<times> task) list \<Rightarrow> pipeline_run" where
  "seed_initial_run u pid rid task_dict =
     \<lparr>pr_run_id = rid, pr_pipeline_id = pid, pr_status = PsRunning,
      pr_tasks = map (\<lambda>(tid, tmeta). (tid, seed_task u pid rid tid tmeta)) task_dict,
      pr_finished_at = None, pr_triggered_by = u,
      pr_final_task_ids = map fst (filter (\<lambda>(tid, tmeta). t_is_final_task tmeta) task_dict),
      pr_paused = False\<rparr>"

subsection \<open>The collection\<close>

record ('c, 'd) doc_ops =
  d_get :: "'c \<Rightarrow> string \<Rightarrow> 'd option"
  d_insert :: "string \<Rightarrow> 'd \<Rightarrow> 'c \<Rightarrow> 'c option"
  d_replace :: "string \<Rightarrow> 'd \<Rightarrow> 'c \<Rightarrow> 'c option"

locale doc_collection =
  fixes ops :: "('c, 'd) doc_ops"
  assumes insert_new: "d_get ops c k = None \<Longrightarrow>
      \<exists>c'. d_insert ops k d c = Some c' \<and> (\<forall>k'. d_get ops c' k' = (if k' = k then Some d else d_get ops c k'))"
    and insert_old: "d_get ops c k = Some d0 \<Longrightarrow> d_insert ops k d c = None"
    and replace_old: "d_get ops c k = Some d0 \<Longrightarrow>
      \<exists>c'. d_replace ops k d c = Some c' \<and> (\<forall>k'. d_get ops c' k' = (if k' = k then Some d else d_get ops c k'))"
    and replace_new: "d_get ops c k = None \<Longrightarrow> d_replace ops k d c = None"
begin

lemma replace_Some: "d_replace ops k d c = Some c' \<Longrightarrow> d_get ops c' k' = (if k' = k then Some d else d_get ops c k')"
  using replace_old[of c k _ d] replace_new[of c k d] by (cases "d_get ops c k") (simp, metis option.inject)

lemma insert_Some: "d_insert ops k d c = Some c' \<Longrightarrow> d_get ops c' k' = (if k' = k then Some d else d_get ops c k')"
  using insert_new[of c k d] insert_old[of c k _ d] by (cases "d_get ops c k") (metis option.inject, simp)

end

definition mem_docs :: "(string \<Rightarrow> 'd option, 'd) doc_ops" where
  "mem_docs = \<lparr>d_get = (\<lambda>c k. c k),
     d_insert = (\<lambda>k d c. if c k = None then Some (c(k \<mapsto> d)) else None),
     d_replace = (\<lambda>k d c. if c k = None then None else Some (c(k \<mapsto> d)))\<rparr>"

interpretation mem_docs: doc_collection mem_docs
  by unfold_locales (simp_all add: mem_docs_def)

subsection \<open>EphemeralPipelineStore\<close>

datatype store_error = DocumentExists | DocumentNotFound | InvalidRun | IndexErr | MissingBidder

definition run_key :: "string \<Rightarrow> string \<Rightarrow> string \<Rightarrow> string" where
  "run_key u pid rid = ''pipeline_run::'' @ u @ ''::'' @ pid @ ''::'' @ rid"

definition output_key :: "string \<Rightarrow> string \<Rightarrow> string \<Rightarrow> string" where
  "output_key u tid rid = ''task_output::'' @ u @ ''::'' @ tid @ ''::'' @ rid"

definition create_run :: "('c, 'd) doc_ops \<Rightarrow> string \<Rightarrow> string \<Rightarrow> string \<Rightarrow> 'd \<Rightarrow> 'c \<Rightarrow> store_error + 'c" where
  "create_run ops u pid rid st c =
     (case d_insert ops (run_key u pid rid) st c of None \<Rightarrow> Inl DocumentExists | Some c' \<Rightarrow> Inr c')"

definition read_run :: "('c, 'd) doc_ops \<Rightarrow> string \<Rightarrow> string \<Rightarrow> string \<Rightarrow> 'c \<Rightarrow> store_error + 'd" where
  "read_run ops u pid rid c =
     (case d_get ops c (run_key u pid rid) of None \<Rightarrow> Inl DocumentNotFound | Some d \<Rightarrow> Inr d)"

definition update_run :: "('c, 'd) doc_ops \<Rightarrow> string \<Rightarrow> string \<Rightarrow> string \<Rightarrow> 'd \<Rightarrow> 'c \<Rightarrow> store_error + 'c" where
  "update_run ops u pid rid st c =
     (case d_replace ops (run_key u pid rid) st c of None \<Rightarrow> Inl DocumentNotFound | Some c' \<Rightarrow> Inr c')"

definition read_task_output :: "('c, doc) doc_ops \<Rightarrow> string \<Rightarrow> string \<Rightarrow> string \<Rightarrow> 'c \<Rightarrow> doc" where
  "read_task_output ops u tid rid c = (case d_get ops c (output_key u tid rid) of None \<Rightarrow> [] | Some d \<Rightarrow> d)"

definition store_task_output :: "('c, doc) doc_ops \<Rightarrow> string \<Rightarrow> string \<Rightarrow> string \<Rightarrow> doc \<Rightarrow> 'c \<Rightarrow> store_error + 'c" where
  "store_task_output ops u tid rid d c =
     (case d_insert ops (output_key u tid rid) d c of
        Some c' \<Rightarrow> Inr c'
      | None \<Rightarrow> (case d_replace ops (output_key u tid rid) d c of None \<Rightarrow> Inl DocumentNotFound | Some c' \<Rightarrow> Inr c'))"

lemmas run_store_defs = create_run_def read_run_def update_run_def

context doc_collection
begin

lemma read_update:
  assumes "update_run ops u pid rid d c = Inr c'"
  shows "read_run ops u pid rid c' = Inr d"
    and "run_key v q s \<noteq> run_key u pid rid \<Longrightarrow> read_run ops v q s c' = read_run ops v q s c"
  using assms replace_Some by (auto simp: run_store_defs split: option.splits)

lemma update_ok: "read_run ops u pid rid c = Inr d0 \<Longrightarrow> \<exists>c'. update_run ops u pid rid d c = Inr c'"
  using replace_old by (fastforce simp: run_store_defs split: option.splits)

lemma create_read: "create_run ops u pid rid d c = Inr c' \<Longrightarrow> read_run ops u pid rid c' = Inr d"
  using insert_Some by (auto simp: run_store_defs split: option.splits)

lemma task_output_overwrites: "\<exists>c'. d_insert ops k d c = Some c' \<or> d_replace ops k d c = Some c'"
  using insert_new[of c k d] replace_old[of c k _ d] by (cases "d_get ops c k") blast+

end

end
