(* ===== verification/Plan_Revision.thy ===== *)
theory Plan_Revision
  imports Plan_Validator Run_Store
begin

section \<open>Plan revision\<close>

text \<open>
  \<^verbatim>\<open>agent_runtime/services/plan_revision_utils.py\<close>: a delta of task overrides, removals and additions
  applied to the graph of a plan, and the checks of the candidate against the state of the run;
  \<^verbatim>\<open>orchestrator_core/consumers/plan_revision.py\<close>: the handler that installs a stored candidate.
  Run documents are raw JSON objects here. A task or edge that is not an object is refused. \<open>repr\<close> is
  Python's text of floats and containers.
\<close>

subsection \<open>apply\_delta\<close>

type_synonym graph_state = "doc list \<times> doc list \<times> nat"

definition dict_update :: "doc \<Rightarrow> doc \<Rightarrow> doc" where
  "dict_update d p = fold (\<lambda>(k, v). dict_set k v) p d"

definition patch_task :: "doc \<Rightarrow> doc \<Rightarrow> shape_error + doc \<times> nat" where
  "patch_task overrides t =
     (let i = jget t ''task_id''
      in if \<not> truthy i then Inr (t, 0)
         else if \<not> hashable i then Inl BadShape
         else if is_str i \<and> is_dict (jget overrides (jstr i))
              then Inr (dict_update t (jdict (jget overrides (jstr i))), 1)
              else Inr (t, 0))"

definition delta_overrides :: "doc \<Rightarrow> graph_state \<Rightarrow> shape_error + graph_state" where
  "delta_overrides delta = (\<lambda>(ts, es, n).
     case jget delta ''task_overrides'' of
       JDict ov \<Rightarrow> bindR (mapR (patch_task ov) ts) (\<lambda>ps. Inr (map fst ps, es, n + sum_list (map snd ps)))
     | _ \<Rightarrow> Inr (ts, es, n))"

definition names :: "string list \<Rightarrow> json \<Rightarrow> bool" where
  "names rs j = (is_str j \<and> jstr j \<in> set rs)"

definition edge_kept :: "string list \<Rightarrow> doc \<Rightarrow> shape_error + bool" where
  "edge_kept rs e =
     (if \<not> hashable (edge_from e) then Inl BadShape
      else if names rs (edge_from e) then Inr False
      else if \<not> hashable (edge_to e) then Inl BadShape
      else Inr (\<not> names rs (edge_to e)))"

definition delta_remove_tasks :: "(json \<Rightarrow> string) \<Rightarrow> doc \<Rightarrow> graph_state \<Rightarrow> shape_error + graph_state" where
  "delta_remove_tasks repr delta = (\<lambda>(ts, es, n).
     case jget delta ''remove_tasks'' of
       JList ids \<Rightarrow>
         (let rs = remdups (map (py_str repr) ids)
          in if rs = [] then Inr (ts, es, n)
             else bindR (filterR (edge_kept rs) es) (\<lambda>es'.
               Inr (filter (\<lambda>t. py_str repr (jget t ''task_id'') \<notin> set rs) ts, es', n + length rs)))
     | _ \<Rightarrow> Inr (ts, es, n))"

definition delta_add_tasks :: "doc \<Rightarrow> graph_state \<Rightarrow> graph_state" where
  "delta_add_tasks delta = (\<lambda>(ts, es, n).
     let new = map jdict (filter (\<lambda>j. is_dict j \<and> truthy (jget (jdict j) ''task_id'')) (jlist (jget delta ''add_tasks'')))
     in (ts @ new, es, n + length new))"

definition delta_add_edges :: "doc \<Rightarrow> graph_state \<Rightarrow> graph_state" where
  "delta_add_edges delta = (\<lambda>(ts, es, n).
     let new = map jdict (filter (\<lambda>j. is_dict j \<and> truthy (edge_from (jdict j)) \<and> truthy (edge_to (jdict j)))
           (jlist (jget delta ''add_edges'')))
     in (ts, es @ new, n + length new))"

definition edge_pair :: "doc \<Rightarrow> shape_error + json \<times> json" where
  "edge_pair e =
     (if hashable (edge_from e) \<and> hashable (edge_to e) then Inr (hkey (edge_from e), hkey (edge_to e)) else Inl BadShape)"

definition delta_remove_edges :: "doc \<Rightarrow> graph_state \<Rightarrow> shape_error + graph_state" where
  "delta_remove_edges delta = (\<lambda>(ts, es, n).
     bindR (mapR edge_pair (map jdict (filter is_dict (jlist (jget delta ''remove_edges''))))) (\<lambda>ps.
       let pairs = remdups ps
       in if pairs = [] then Inr (ts, es, n)
          else bindR (filterR (\<lambda>e. bindR (edge_pair e) (\<lambda>p. Inr (p \<notin> set pairs))) es) (\<lambda>es'.
            Inr (ts, es', n + length pairs))))"

definition json_docs :: "doc list \<Rightarrow> json" where
  "json_docs ds = JList (map JDict ds)"

definition apply_delta :: "(json \<Rightarrow> string) \<Rightarrow> doc \<Rightarrow> doc \<Rightarrow> shape_error + doc \<times> nat" where
  "apply_delta repr spec delta =
     bindR (docs_of (jget spec ''tasks'')) (\<lambda>tasks.
     bindR (docs_of (jget spec ''edges'')) (\<lambda>es.
     bindR (delta_overrides delta (tasks, es, 0)) (\<lambda>s1.
     bindR (delta_remove_tasks repr delta s1) (\<lambda>s2.
     bindR (delta_remove_edges delta (delta_add_edges delta (delta_add_tasks delta s2))) (\<lambda>(ts, es', applied).
       Inr (dict_set ''edges'' (json_docs es') (dict_set ''tasks'' (json_docs ts) spec), applied))))))"

subsection \<open>Runtime constraints\<close>

datatype runtime_violation =
    RemoveStartedTask string
  | RunningAssignmentChange string json json
  | InvalidRuntimeDependency string "string list"

definition task_status_text :: "(json \<Rightarrow> string) \<Rightarrow> json \<Rightarrow> string option" where
  "task_status_text repr v = (if v = JNull then None else Some (upper_str (py_str repr v)))"

definition task_map :: "(json \<Rightarrow> string) \<Rightarrow> doc list \<Rightarrow> (string \<times> doc) list" where
  "task_map repr ts = fold (\<lambda>t m. if truthy (jget t ''task_id'') then dict_set (py_str repr (jget t ''task_id'')) t m else m) ts []"

definition with_status :: "(json \<Rightarrow> string) \<Rightarrow> string \<Rightarrow> (string \<times> json) list \<Rightarrow> string list" where
  "with_status repr s run_tasks =
     map fst (filter (\<lambda>(t, e). task_status_text repr (jget (jdict e) ''status'') = Some s) run_tasks)"

definition sorted_set :: "string list \<Rightarrow> string list" where
  "sorted_set xs = sort (remdups xs)"

definition predecessors :: "(json \<Rightarrow> string) \<Rightarrow> doc list \<Rightarrow> (string \<times> string list) list" where
  "predecessors repr es = fold (\<lambda>e m.
     if \<not> truthy (edge_from e) \<or> \<not> truthy (edge_to e) then m
     else let d = py_str repr (edge_to e) in dict_set d (set_add (py_str repr (edge_from e)) (dict_get m d [])) m) es []"

definition assignment_change :: "(string \<times> doc) list \<Rightarrow> (string \<times> doc) list \<Rightarrow> string \<Rightarrow> runtime_violation option" where
  "assignment_change base cand t =
     (let b = jget (dict_get base t []) ''assigned_agent''; c = jget (dict_get cand t []) ''assigned_agent''
      in if truthy b \<and> truthy c \<and> hkey b \<noteq> hkey c then Some (RunningAssignmentChange t b c) else None)"

definition validate_runtime_constraints :: "(string list \<Rightarrow> string list) \<Rightarrow> (json \<Rightarrow> string) \<Rightarrow> doc \<Rightarrow> doc \<Rightarrow> doc
    \<Rightarrow> shape_error + runtime_violation list" where
  "validate_runtime_constraints it repr base_graph candidate_graph run_doc =
     (case jor (jget run_doc ''tasks'') (JDict []) of
        JDict run_tasks \<Rightarrow>
          if \<not> list_all (\<lambda>(t, e). is_dict e) run_tasks then Inl BadShape
          else bindR (docs_of (jget base_graph ''tasks'')) (\<lambda>base.
               bindR (docs_of (jget candidate_graph ''tasks'')) (\<lambda>cand.
               bindR (docs_of (jget candidate_graph ''edges'')) (\<lambda>es.
                 let completed = with_status repr ''COMPLETED'' run_tasks;
                     running = with_status repr ''RUNNING'' run_tasks;
                     failed = with_status repr ''FAILED'' run_tasks;
                     base_tasks = task_map repr base; cand_tasks = task_map repr cand;
                     preds = predecessors repr es
                 in Inr (map RemoveStartedTask (filter (\<lambda>t. t \<notin> set (dict_keys cand_tasks)) (sorted_set (completed @ running @ failed))) @
                         List.map_filter (assignment_change base_tasks cand_tasks) (sorted_set running) @
                         List.map_filter (\<lambda>t. let invalid = filter (\<lambda>p. p \<notin> set completed) (it (dict_get preds t []))
                              in if invalid \<noteq> [] then Some (InvalidRuntimeDependency t invalid) else None)
                           (sorted_set (completed @ running))))))
      | _ \<Rightarrow> Inr [])"
subsection \<open>The candidate report\<close>

fun runtime_violation_doc :: "runtime_violation \<Rightarrow> doc" where
  "runtime_violation_doc (RemoveStartedTask t) = [(''code'', JStr ''remove_started_task''), (''task_id'', JStr t)]"
| "runtime_violation_doc (RunningAssignmentChange t a b) =
     [(''code'', JStr ''running_assignment_change''), (''task_id'', JStr t), (''from'', a), (''to'', b)]"
| "runtime_violation_doc (InvalidRuntimeDependency t ps) =
     [(''code'', JStr ''invalid_runtime_dependency''), (''task_id'', JStr t), (''invalid_predecessors'', str_list ps)]"

definition shacl_always :: "validator_env \<Rightarrow> doc \<Rightarrow> string \<Rightarrow> string option \<Rightarrow> string \<Rightarrow> doc \<times> bool" where
  "shacl_always ve gs plan pid u = shacl_gate (ve\<lparr>ve_shacl_on := True\<rparr>) gs plan pid u"

definition validate_candidate_graph :: "validator_env \<Rightarrow> (string list \<Rightarrow> string list) \<Rightarrow> doc \<Rightarrow> doc \<Rightarrow> doc \<Rightarrow> string \<Rightarrow> string option \<Rightarrow> string
    \<Rightarrow> shape_error + bool \<times> doc" where
  "validate_candidate_graph ve it candidate_graph base_graph run_doc plan pid u =
     bindR (validate_graph_spec candidate_graph) (\<lambda>static.
     let (shacl, shacl_ok) = shacl_always ve candidate_graph plan pid u
     in bindR (validate_runtime_constraints it (ve_repr ve) base_graph candidate_graph run_doc) (\<lambda>rvs.
          let conforms = (rp_conforms static \<and> shacl_ok \<and> rvs = [])
          in Inr (conforms,
              [(''checked_at'', JStr (now_iso (ve_store ve))), (''static'', JDict (report_doc ve static)),
               (''shacl_engine'', JDict shacl),
               (''runtime'', JDict [(''conforms'', JBool (rvs = [])),
                  (''violations'', JList (map (\<lambda>v. JDict (runtime_violation_doc v)) rvs))]),
               (''conforms'', JBool conforms)])))"

subsection \<open>Installing a revision\<close>

record revise_command =
  rc_username :: string
  rc_pipeline_id :: string
  rc_plan_id :: string
  rc_run_id :: "string option"
  rc_payload_ref :: string
  rc_suggestion_id :: "string option"
  rc_created_by :: string
  rc_reason :: string

record revised_event =
  re_username :: string
  re_pipeline_id :: string
  re_plan_id :: string
  re_revision :: int
  re_run_id :: "string option"
  re_created_by :: string
  re_reason :: string

definition revision_doc :: "store_env \<Rightarrow> string \<Rightarrow> string \<Rightarrow> string \<Rightarrow> string option \<Rightarrow> int \<Rightarrow> int option \<Rightarrow> doc \<Rightarrow> doc option
    \<Rightarrow> string \<Rightarrow> string option \<Rightarrow> string option \<Rightarrow> doc option \<Rightarrow> doc" where
  "revision_doc e plan u pid rid rv parent gs delta status created_by reason validation =
     [(''plan_id'', JStr plan), (''username'', JStr u), (''pipeline_id'', JStr pid), (''pipeline_run_id'', jopt JStr rid),
      (''revision'', JInt rv), (''parent_revision'', jopt JInt parent), (''graph_spec'', JDict gs), (''delta'', jopt JDict delta),
      (''status'', JStr status), (''created_by'', jopt JStr created_by), (''reason'', jopt JStr reason),
      (''validation'', jopt JDict validation), (''created_at'', JStr (now_iso e))]"

text \<open>\<open>set_run_plan\<close> is the update of the run document; every exception of it is caught and logged.\<close>

definition set_run_plan :: "('r, doc) doc_ops \<Rightarrow> string \<Rightarrow> string \<Rightarrow> string \<Rightarrow> string \<Rightarrow> int \<Rightarrow> 'r \<Rightarrow> 'r" where
  "set_run_plan ops u pid rid plan rv r =
     (case read_run ops u pid rid r of
        Inl _ \<Rightarrow> r
      | Inr d \<Rightarrow>
          (case update_run ops u pid rid (dict_set ''plan_revision'' (JInt rv) (dict_set ''plan_id'' (JStr plan) d)) r of
             Inl _ \<Rightarrow> r | Inr r' \<Rightarrow> r'))"

text \<open>\<open>turtle\<close> is the RDF export: absent when it is switched off or fails before the text is made. The
  fields of a candidate document have the types \<open>apply_revision\<close> writes; a field of another shape
  reads as empty.\<close>

definition with_semantic_graph :: "(doc \<Rightarrow> string option) \<Rightarrow> doc \<Rightarrow> doc" where
  "with_semantic_graph turtle gs =
     (case turtle gs of None \<Rightarrow> gs
      | Some t \<Rightarrow> dict_set ''semantic_graph'' (JDict [(''format'', JStr ''turtle''), (''data'', JStr t)]) gs)"

definition handle_revise_plan :: "'c kv_ops \<Rightarrow> ('r, doc) doc_ops \<Rightarrow> store_env \<Rightarrow> (doc \<Rightarrow> string option) \<Rightarrow> bool \<Rightarrow> revise_command
    \<Rightarrow> 'c \<times> 'r \<Rightarrow> (plan_error + revised_event option) \<times> 'c \<times> 'r" where
  "handle_revise_plan kv ops e turtle has_runs cmd = (\<lambda>(c, r).
     case get_raw kv (rc_payload_ref cmd) c of
       None \<Rightarrow> (Inr None, c, r)
     | Some [] \<Rightarrow> (Inr None, c, r)
     | Some (x # xs) \<Rightarrow>
         (let cand = x # xs; u = rc_username cmd; plan = rc_plan_id cmd;
              graph = jdict (jget cand ''candidate_graph''); delta = jdict (jget cand ''delta'');
              validation = jdict (jget cand ''validation'');
              base_revision = jint (dict_get cand ''base_revision'' (JInt 1));
              next_revision = jint (dict_get cand ''next_revision'' (JInt (base_revision + 1)))
          in case get_plan_draft kv u plan c of
               None \<Rightarrow> (Inr None, c, r)
             | Some d \<Rightarrow>
                 (case draft_of_doc (now_iso e) d of
                    None \<Rightarrow> (Inl PlanInvalid, c, r)
                  | Some draft \<Rightarrow>
                      (let graph' = with_semantic_graph turtle graph;
                           updated = draft\<lparr>pd_graph_spec := graph', pd_revision := next_revision,
                             pd_is_valid := truthy (jget validation ''conforms''), pd_shacl_report := Some validation\<rparr>;
                           c1 = snd (save_plan_draft kv e u (draft_doc updated) c);
                           c2 = snd (save_plan_revision kv e u (revision_doc e plan u (rc_pipeline_id cmd) (rc_run_id cmd)
                             next_revision (Some base_revision) graph' (Some delta) ''APPLIED'' (Some (rc_created_by cmd))
                             (Some (rc_reason cmd)) (Some validation)) c1);
                           r' = (if given (rc_run_id cmd) \<and> has_runs
                                 then set_run_plan ops u (rc_pipeline_id cmd) (the (rc_run_id cmd)) plan next_revision r else r)
                       in (Inr (Some \<lparr>re_username = u, re_pipeline_id = rc_pipeline_id cmd, re_plan_id = plan,
                            re_revision = next_revision, re_run_id = rc_run_id cmd, re_created_by = rc_created_by cmd,
                            re_reason = rc_reason cmd\<rparr>), c2, r')))))"

text \<open>\<open>apply_revision\<close> of \<^verbatim>\<open>llm_strategist_loop.py\<close> stores the candidate and publishes the command. The
  revision of a draft is \<^verbatim>\<open>int(revision or 1)\<close>.\<close>

definition draft_revision :: "plan_draft \<Rightarrow> int" where
  "draft_revision p = (if pd_revision p = 0 then 1 else pd_revision p)"

definition candidate_key :: "string \<Rightarrow> string \<Rightarrow> int \<Rightarrow> string" where
  "candidate_key u plan rv = ''revision_candidate::'' @ u @ ''::'' @ plan @ ''::'' @ str_int rv"

definition apply_revision :: "'c kv_ops \<Rightarrow> store_env \<Rightarrow> plan_draft \<Rightarrow> doc \<Rightarrow> doc \<Rightarrow> doc \<Rightarrow> string \<Rightarrow> string option \<Rightarrow> string \<Rightarrow> 'c
    \<Rightarrow> revise_command \<times> 'c" where
  "apply_revision kv e draft graph delta validation reason suggestion created_by c =
     (let next_revision = draft_revision draft + 1;
          ref = candidate_key (pd_username draft) (pd_plan_id draft) next_revision;
          cand = [(''candidate_graph'', JDict graph), (''delta'', JDict delta), (''validation'', JDict validation),
            (''base_revision'', JInt (draft_revision draft)), (''next_revision'', JInt next_revision),
            (''plan_id'', JStr (pd_plan_id draft)), (''pipeline_id'', JStr (pd_pipeline_id draft)),
            (''pipeline_run_id'', jopt JStr (pd_run_id draft))]
      in (\<lparr>rc_username = pd_username draft, rc_pipeline_id = pd_pipeline_id draft, rc_plan_id = pd_plan_id draft,
           rc_run_id = pd_run_id draft, rc_payload_ref = ref, rc_suggestion_id = suggestion, rc_created_by = created_by,
           rc_reason = reason\<rparr>, snd (upsert_raw kv e ref cand c)))"

end
