(* ===== verification/Graph_Builder.thy ===== *)
theory Graph_Builder
  imports Market_Models Agent_Registry Plan_Revision
begin

section \<open>The graph builder\<close>

text \<open>
  \<^verbatim>\<open>agent_runtime/services/graph_builder.py\<close>: from the task specifications and the bids of the marker store
  it awards every task to its best bid, closes the calls for proposals, stores the ranked candidates of each
  task for re-forwarding and saves the first draft of the plan. Bids, awards and calls are stored documents;
  the identifiers in them are strings or null, as their models demand. The state is the marker collection, the
  collection of the registry if there is one, and the collection of the runs if there is one. The record
  \<open>builder_env\<close> has the values of the services the builder only calls: the configuration of the pipeline store,
  the services, the RDF export, \<^verbatim>\<open>json.loads\<close>, \<^verbatim>\<open>str\<close> of a parsed timestamp and a supply of fresh
  identifiers (\<open>be_ids i\<close> for the \<open>i\<close>-th award or reservation).
\<close>

record builder_env =
  be_reg :: registry_env
  be_cnp :: cnp_env
  be_default_ttl :: int
  be_final_config :: "json option"
  be_services :: "doc list"
  be_turtle :: "doc \<Rightarrow> string option"
  be_loads :: "string \<Rightarrow> json option"
  be_dt_str :: "string \<Rightarrow> string"
  be_ids :: "nat \<Rightarrow> string"
  be_plan_id :: string

datatype build_error = BuildNoStore | BuildShape | BuildInvalid | BuildUsername

subsection \<open>Bids\<close>

record bid_filter =
  bf_allowed :: "json list option"
  bf_min_by_cfp :: "(string \<times> real) list"
  bf_min_default :: real

definition bid_score_of :: "cnp_env \<Rightarrow> doc \<Rightarrow> real" where
  "bid_score_of ce bid = (case py_float ce (dict_get bid ''bid_score'' (JInt 0)) of None \<Rightarrow> 0 | Some x \<Rightarrow> x)"

definition min_score_for :: "bid_filter \<Rightarrow> doc \<Rightarrow> real" where
  "min_score_for bf bid = (case jget bid ''cfp_id'' of
       JStr cfp \<Rightarrow> dict_get (bf_min_by_cfp bf) cfp (bf_min_default bf)
     | _ \<Rightarrow> bf_min_default bf)"

definition qualifies :: "cnp_env \<Rightarrow> bid_filter \<Rightarrow> doc \<Rightarrow> bool" where
  "qualifies ce bf bid \<longleftrightarrow> truthy (jget bid ''task_id'') \<and>
     (case bf_allowed bf of None \<Rightarrow> True | Some ids \<Rightarrow> jget bid ''cfp_id'' \<in> set ids) \<and>
     min_score_for bf bid \<le> bid_score_of ce bid"

text \<open>The score of the current best is compared as it is stored, and raises unless it is a number.\<close>

fun best_bids :: "cnp_env \<Rightarrow> bid_filter \<Rightarrow> (json \<times> doc) list \<Rightarrow> doc list \<Rightarrow> build_error + (json \<times> doc) list" where
  "best_bids ce bf best [] = Inr best"
| "best_bids ce bf best (bid # bids) =
     (if \<not> qualifies ce bf bid then best_bids ce bf best bids
      else case map_of best (jget bid ''task_id'') of
          None \<Rightarrow> best_bids ce bf (dict_set (jget bid ''task_id'') bid best) bids
        | Some cur \<Rightarrow> (case number (dict_get cur ''bid_score'' (JInt 0)) of
            None \<Rightarrow> Inl BuildShape
          | Some s \<Rightarrow> if s < bid_score_of ce bid then best_bids ce bf (dict_set (jget bid ''task_id'') bid best) bids
              else best_bids ce bf best bids))"

definition sort_bids :: "cnp_env \<Rightarrow> doc list \<Rightarrow> build_error + doc list" where
  "sort_bids ce bids =
     (if list_all (\<lambda>b. py_float ce (dict_get b ''bid_score'' (JInt 0)) \<noteq> None) bids
      then Inr (py_sort (bid_score_of ce) True bids) else Inl BuildShape)"

definition ranked_bids :: "cnp_env \<Rightarrow> bid_filter \<Rightarrow> doc list \<Rightarrow> build_error + (json \<times> doc list) list" where
  "ranked_bids ce bf bids =
     mapR (\<lambda>(t, bs). bindR (sort_bids ce bs) (\<lambda>s. Inr (t, s)))
       (fold (\<lambda>b d. dict_append d (jget b ''task_id'') b) (filter (qualifies ce bf) bids) [])"

subsection \<open>The load of an agent\<close>

definition awarded_metadata :: "cnp_env \<Rightarrow> string \<Rightarrow> doc \<Rightarrow> doc" where
  "awarded_metadata ce task_id d =
     (let st = agent_cnp_state ce d;
          cnp = jdict (jget (cs_metadata st) ''cnp'')
      in dict_set ''cnp'' (JDict
           (dict_set ''last_award'' (JDict [(''task_id'', JStr task_id)])
           (dict_set ''max_load'' (JInt (cs_max_load st))
           (dict_set ''load'' (JInt (min (cs_load st + 1) (cs_max_load st)))
           (dict_set ''tasks_received'' (JInt (cs_tasks_received st + 1)) cnp))))) (cs_metadata st))"

definition increment_agent_load :: "'c kv_ops \<Rightarrow> builder_env \<Rightarrow> string \<Rightarrow> string \<Rightarrow> string \<Rightarrow> 'c option \<Rightarrow> 'c option" where
  "increment_agent_load kv be u agent_id task_id registry =
     (case registry of
        None \<Rightarrow> None
      | Some rg \<Rightarrow> (case get_agent (be_reg be) kv u agent_id rg of
            None \<Rightarrow> Some rg
          | Some d \<Rightarrow> if d = [] then Some rg
              else case heartbeat (be_reg be) kv (be_default_ttl be) u agent_id None None (awarded_metadata (be_cnp be) task_id d) rg of
                  Inl _ \<Rightarrow> Some rg
                | Inr (_, rg') \<Rightarrow> Some rg'))"

subsection \<open>The graph\<close>

definition build_ontology :: "(json \<Rightarrow> string) \<Rightarrow> task_spec list \<Rightarrow> doc" where
  "build_ontology repr specs =
     (let caps = concat (map sp_required_capabilities specs); tags = concat (map sp_tags specs);
          types = map (\<lambda>s. py_str repr (jget (sp_metadata s) ''task_type''))
            (filter (\<lambda>s. truthy (jget (sp_metadata s) ''task_type'')) specs);
          entry = (\<lambda>k xs. if xs = [] then [] else [(k, str_json (sort (remdups xs)))])
      in entry ''capabilities'' caps @ entry ''tags'' tags @ entry ''task_types'' types)"

definition resolve_service_name :: "(json \<Rightarrow> string) \<Rightarrow> task_spec \<Rightarrow> doc option \<Rightarrow> json \<Rightarrow> (string \<times> string) list \<Rightarrow> string list
    \<Rightarrow> json" where
  "resolve_service_name repr spec bid agent services snames =
     (if truthy (jget (sp_metadata spec) ''service_name'') then JStr (py_str repr (jget (sp_metadata spec) ''service_name''))
      else case bid of
          Some b \<Rightarrow> if b \<noteq> [] \<and> truthy (jget b ''service_name'') then JStr (py_str repr (jget b ''service_name''))
            else if truthy agent \<and> map_of services (jstr agent) \<noteq> None then JStr (the (map_of services (jstr agent)))
            else if truthy agent \<and> jstr agent \<in> set snames then agent else JNull
        | None \<Rightarrow> if truthy agent \<and> map_of services (jstr agent) \<noteq> None then JStr (the (map_of services (jstr agent)))
            else if truthy agent \<and> jstr agent \<in> set snames then agent else JNull)"

fun risk_text :: "risk_level \<Rightarrow> string" where
  "risk_text RiskLow = ''low''"
| "risk_text RiskMedium = ''medium''"
| "risk_text RiskHigh = ''high''"
definition iter_json :: "json \<Rightarrow> build_error + json list" where
  "iter_json j = (case j of JList xs \<Rightarrow> Inr xs | JStr s \<Rightarrow> Inr (map (\<lambda>c. JStr [c]) s)
     | JDict d \<Rightarrow> Inr (map (\<lambda>(k, _). JStr k) d) | _ \<Rightarrow> Inl BuildShape)"

record award =
  aw_id :: string
  aw_task_id :: string
  aw_bidder_id :: string
  aw_bid_id :: "string option"
  aw_cfp_id :: "string option"
  aw_pipeline_id :: "string option"
  aw_run_id :: "string option"
  aw_status :: string
  aw_awarded_at :: string

definition award_doc :: "award \<Rightarrow> doc" where
  "award_doc a = [(''award_id'', JStr (aw_id a)), (''task_id'', JStr (aw_task_id a)), (''bidder_id'', JStr (aw_bidder_id a)),
     (''bid_id'', jopt JStr (aw_bid_id a)), (''cfp_id'', jopt JStr (aw_cfp_id a)), (''pipeline_id'', jopt JStr (aw_pipeline_id a)),
     (''pipeline_run_id'', jopt JStr (aw_run_id a)), (''status'', JStr (aw_status a)), (''awarded_at'', JStr (aw_awarded_at a))]"

definition award_of_doc :: "string \<Rightarrow> string \<Rightarrow> doc \<Rightarrow> award option" where
  "award_of_doc now uuid d = do {
     i \<leftarrow> field as_str (Some uuid) d ''award_id'';
     t \<leftarrow> field as_str None d ''task_id'';
     b \<leftarrow> field as_str None d ''bidder_id'';
     bid \<leftarrow> field (as_opt as_str) (Some None) d ''bid_id'';
     cfp \<leftarrow> field (as_opt as_str) (Some None) d ''cfp_id'';
     pid \<leftarrow> field (as_opt as_str) (Some None) d ''pipeline_id'';
     rid \<leftarrow> field (as_opt as_str) (Some None) d ''pipeline_run_id'';
     st \<leftarrow> field as_str (Some ''awarded'') d ''status'';
     when \<leftarrow> field as_str (Some now) d ''awarded_at'';
     Some \<lparr>aw_id = i, aw_task_id = t, aw_bidder_id = b, aw_bid_id = bid, aw_cfp_id = cfp, aw_pipeline_id = pid,
       aw_run_id = rid, aw_status = st, aw_awarded_at = when\<rparr> }"

definition graph_task :: "(json \<Rightarrow> string) \<Rightarrow> (json \<times> doc) list \<Rightarrow> (string \<times> award) list \<Rightarrow> (string \<times> string) list \<Rightarrow> string list
    \<Rightarrow> (string \<times> doc) list \<Rightarrow> task_spec \<Rightarrow> doc" where
  "graph_task repr best awards services snames run_tasks spec =
     (let bid = map_of best (JStr (sp_task_id spec)); award = map_of awards (sp_task_id spec);
          run_task = map_of run_tasks (sp_task_id spec);
          of_bid = (\<lambda>f. case bid of None \<Rightarrow> JNull | Some b \<Rightarrow> jget b f);
          of_run = (\<lambda>f. case run_task of None \<Rightarrow> JNull | Some t \<Rightarrow> jget t f);
          agent = (if bid \<noteq> None then of_bid ''bidder_id'' else jor (of_run ''service_name'') JNull)
      in [(''task_id'', JStr (sp_task_id spec)), (''description'', JStr (sp_description spec)),
          (''required_capabilities'', str_json (sp_required_capabilities spec)), (''tags'', str_json (sp_tags spec)),
          (''assigned_agent'', agent), (''bid_score'', of_bid ''bid_score''), (''bid_id'', of_bid ''bid_id''),
          (''service_name'', resolve_service_name repr spec bid agent services snames),
          (''cfp_id'', if bid \<noteq> None then of_bid ''cfp_id'' else case award of None \<Rightarrow> JNull | Some a \<Rightarrow> jopt JStr (aw_cfp_id a)),
          (''award_id'', case award of None \<Rightarrow> JNull | Some a \<Rightarrow> JStr (aw_id a)),
          (''task_type'', jget (sp_metadata spec) ''task_type''), (''risk_level'', JStr (risk_text (sp_risk_level spec))),
          (''requires_human_approval'', JBool (sp_requires_human_approval spec)), (''metadata'', JDict (sp_metadata spec)),
          (''status'', of_run ''status'')])"

definition graph_edges :: "task_spec \<Rightarrow> build_error + json list" where
  "graph_edges spec =
     (let deps = jget (sp_metadata spec) ''depends_on''
      in if \<not> truthy deps then Inr []
         else bindR (iter_json deps) (\<lambda>ds. Inr (map (\<lambda>d. JDict [(''from'', d), (''to'', JStr (sp_task_id spec))]) ds)))"

definition build_graph_spec :: "(json \<Rightarrow> string) \<Rightarrow> task_spec list \<Rightarrow> (json \<times> doc) list \<Rightarrow> (string \<times> award) list
    \<Rightarrow> (string \<times> string) list \<Rightarrow> string list \<Rightarrow> (string \<times> doc) list \<Rightarrow> build_error + doc \<times> nat" where
  "build_graph_spec repr specs best awards services snames run_tasks =
     bindR (mapR graph_edges specs) (\<lambda>es.
       let ontology = build_ontology repr specs
       in Inr ([(''tasks'', JList (map (\<lambda>s. JDict (graph_task repr best awards services snames run_tasks s)) specs)),
                (''edges'', JList (concat es))] @ (if ontology = [] then [] else [(''ontology'', JDict ontology)]),
               length specs))"

subsection \<open>Specifications from the pipeline\<close>

fun find_close :: "string \<Rightarrow> string \<Rightarrow> (string \<times> string) option" where
  "find_close acc (c # d # s) =
     (if c = CHR ''}'' \<and> d = CHR '']'' then Some (rev acc, s)
      else if c = CHR 0x0A then None else find_close (c # acc) (d # s))"
| "find_close acc _ = None"

definition cnp_prefix :: string where
  "cnp_prefix = ''[CNP:{''"

text \<open>\<open>extract_cnp_metadata\<close> matches \<^verbatim>\<open>\[CNP:(\{.*?\})\]\s*\<close> at the start: up to the first \<^verbatim>\<open>}]\<close>,
  on one line.\<close>

definition extract_cnp_metadata :: "builder_env \<Rightarrow> json \<Rightarrow> string \<times> doc" where
  "extract_cnp_metadata be description =
     (let text = (if truthy description then py_str (ce_repr (be_cnp be)) description else [])
      in if take (length cnp_prefix) text \<noteq> cnp_prefix then (text, [])
         else case find_close [] (drop (length cnp_prefix) text) of
             None \<Rightarrow> (text, [])
           | Some (inner, rest) \<Rightarrow> (case be_loads be (''{'' @ inner @ ''}'') of
               None \<Rightarrow> (text, [])
             | Some j \<Rightarrow> (dropWhile is_space rest, jdict j)))"

definition risk_level_from_metadata :: "(json \<Rightarrow> string) \<Rightarrow> doc \<Rightarrow> risk_level" where
  "risk_level_from_metadata repr m =
     (let raw = lower_str (strip (py_str repr (dict_get m ''risk_level'' (JStr ''medium''))))
      in if raw = ''high'' then RiskHigh else if raw = ''low'' then RiskLow else RiskMedium)"

definition service_name_from_run :: "(json \<Rightarrow> string) \<Rightarrow> doc option \<Rightarrow> string \<Rightarrow> json" where
  "service_name_from_run repr run_doc task_id =
     (let s = jget (jdict (jget (jdict (jget (case run_doc of None \<Rightarrow> [] | Some d \<Rightarrow> d) ''tasks'')) task_id)) ''service_name''
      in if truthy s then JStr (py_str repr s) else JNull)"

definition setdefault :: "string \<Rightarrow> json \<Rightarrow> doc \<Rightarrow> doc" where
  "setdefault k v d = (if map_of d k = None then dict_set k v d else d)"

definition task_dict_of :: "(json \<Rightarrow> string) \<Rightarrow> json \<Rightarrow> build_error + (string \<times> json) list" where
  "task_dict_of repr cfg =
     (if is_dict cfg \<and> is_dict (jget (jdict cfg) ''task_dict'') then Inr (jdict (jget (jdict cfg) ''task_dict''))
      else if truthy cfg \<and> \<not> is_dict cfg then Inl BuildShape
      else let dag = jor (jget (jdict cfg) ''dag'') (JDict []);
               tasks = dict_get (jdict dag) ''tasks'' (JList [])
        in if \<not> is_dict dag then Inl BuildShape
           else bindR (iter_json tasks) (\<lambda>ts. Inr (fold (\<lambda>t m. dict_set (py_str repr (jget (jdict t) ''id'')) t m)
             (filter (\<lambda>t. is_dict t \<and> truthy (jget (jdict t) ''id'')) ts) [])))"

definition pipeline_spec :: "builder_env \<Rightarrow> string \<Rightarrow> string \<Rightarrow> string option \<Rightarrow> doc option \<Rightarrow> string \<Rightarrow> doc \<Rightarrow> build_error + task_spec" where
  "pipeline_spec be u pid rid run_doc task_id tm =
     (let repr = ce_repr (be_cnp be);
          (description, cnp) = extract_cnp_metadata be (dict_get tm ''description'' (JStr []));
          meta0 = jor (jget tm ''metadata'') (JDict []);
          inputs = jor (jget tm ''inputs'') (JDict [])
      in if \<not> is_dict meta0 then Inl BuildShape
         else if \<not> truthy (jget tm ''dependencies'') \<and> \<not> is_dict inputs then Inl BuildShape
         else bindR (iter_json (jor (jor (jget tm ''dependencies'') (jget (jdict inputs) ''dependencies'')) (JList []))) (\<lambda>deps.
           let meta1 = setdefault ''pipeline_id'' (JStr pid) (setdefault ''depends_on'' (JList deps)
                 (fold (\<lambda>(k, v). dict_set k v) cnp (jdict meta0)));
               meta2 = (if given rid then setdefault ''pipeline_run_id'' (JStr (the rid)) meta1 else meta1);
               service = jor (service_name_from_run repr run_doc task_id) (jget tm ''available_services'');
               meta3 = (if truthy service then setdefault ''service_name'' (JStr (py_str repr service)) meta2 else meta2);
               meta4 = (if truthy (jget tm ''action'') \<and> map_of meta3 ''task_type'' = None
                 then dict_set ''task_type'' (JStr (py_str repr (jget tm ''action''))) meta3 else meta3);
               cap = jor (jor (jor (jget meta4 ''cnp_capability'') service) (jget tm ''available_services'')) (JStr task_id);
               tags = jlist (jor (jor (jget meta4 ''preferred_tags'') (jget tm ''tags'')) (JList []))
           in Inr \<lparr>sp_task_id = task_id, sp_username = u,
                sp_description = (if description \<noteq> [] then description else py_str repr (jor (jget tm ''name'') (JStr task_id))),
                sp_required_capabilities = [py_str repr cap],
                sp_tags = filter (\<lambda>t. strip t \<noteq> []) (map (py_str repr) tags),
                sp_risk_level = risk_level_from_metadata repr meta4,
                sp_requires_human_approval = truthy (jget meta4 ''requires_human_approval''),
                sp_coordination_mode = SoloPreferred, sp_metadata = meta4\<rparr>))"

definition load_pipeline_specs :: "builder_env \<Rightarrow> string \<Rightarrow> string \<Rightarrow> string option \<Rightarrow> doc option \<Rightarrow> json list
    \<Rightarrow> build_error + task_spec list" where
  "load_pipeline_specs be u pid rid run_doc include =
     (case be_final_config be of
        None \<Rightarrow> Inr []
      | Some cfg \<Rightarrow> bindR (task_dict_of (ce_repr (be_cnp be)) cfg) (\<lambda>td.
          mapR (\<lambda>(t, tm). pipeline_spec be u pid rid run_doc t (jdict tm))
            (filter (\<lambda>(t, tm). (include = [] \<or> JStr t \<in> set include) \<and> is_dict tm) td)))"
subsection \<open>Awards\<close>

definition pipeline_matches :: "string \<Rightarrow> string option \<Rightarrow> json list \<Rightarrow> doc \<Rightarrow> bool" where
  "pipeline_matches pid rid only spec \<longleftrightarrow>
     (only = [] \<or> jget spec ''task_id'' \<in> set only) \<and>
     (is_dict (jget spec ''metadata'') \<longrightarrow>
        (let m = jdict (jget spec ''metadata'')
         in \<not> (truthy (jget m ''pipeline_id'') \<and> jget m ''pipeline_id'' \<noteq> JStr pid) \<and>
            \<not> (given rid \<and> truthy (jget m ''pipeline_run_id'') \<and> jget m ''pipeline_run_id'' \<noteq> JStr (the rid))))"

definition collect_specs :: "doc list \<Rightarrow> task_spec list \<Rightarrow> task_spec list" where
  "collect_specs stored extra =
     (let by_id = fold (\<lambda>d m. case task_spec_of_doc d of None \<Rightarrow> m | Some s \<Rightarrow> dict_set (sp_task_id s) s m) stored []
      in map snd (fold (\<lambda>s m. dict_touch (sp_task_id s) s m) extra by_id))"

definition collect_awards :: "builder_env \<Rightarrow> doc list \<Rightarrow> (string \<times> award) list" where
  "collect_awards be docs = fold (\<lambda>d m.
     if \<not> truthy (jget d ''task_id'') then m
     else case award_of_doc (g_dump (be_reg be) (e_now (be_reg be))) (be_ids be 0) d of
         None \<Rightarrow> m
       | Some a \<Rightarrow>
           let t = py_str (ce_repr (be_cnp be)) (jget d ''task_id'')
           in (case map_of m t of
                 None \<Rightarrow> dict_set t a m
               | Some cur \<Rightarrow> if be_dt_str be (aw_awarded_at cur) < be_dt_str be (aw_awarded_at a) then dict_set t a m else m)) docs []"

record 'c award_state =
  as_awards :: "(string \<times> award) list"
  as_store :: 'c
  as_registry :: "'c option"

definition reservation_doc :: "builder_env \<Rightarrow> string \<Rightarrow> string \<Rightarrow> string \<Rightarrow> doc" where
  "reservation_doc be i task_id agent_id =
     [(''marker_id'', JStr i), (''task_id'', JStr task_id), (''agent_id'', JStr agent_id), (''status'', JStr ''reserved''),
      (''ttl_seconds'', JInt 300), (''created_at'', JStr (g_dump (be_reg be) (e_now (be_reg be))))]"

definition award_task :: "'c kv_ops \<Rightarrow> builder_env \<Rightarrow> string \<Rightarrow> string \<Rightarrow> string option \<Rightarrow> (json \<times> doc) list \<Rightarrow> task_spec
    \<Rightarrow> 'c award_state \<Rightarrow> build_error + 'c award_state" where
  "award_task kv be u pid rid best spec st =
     (let e = store_env.truncate (be_reg be); t = sp_task_id spec; n = length (as_awards st)
      in case map_of best (JStr t) of
           None \<Rightarrow> Inr st
         | Some bid \<Rightarrow>
             if map_of (as_awards st) t \<noteq> None then Inr st
             else case (as_opt as_str (jget bid ''bid_id''), as_opt as_str (jget bid ''cfp_id'')) of
                 (Some bid_id, Some cfp_id) \<Rightarrow>
                   let bidder = py_str (ce_repr (be_cnp be)) (jget bid ''bidder_id'');
                       a = \<lparr>aw_id = be_ids be (2 * n), aw_task_id = t, aw_bidder_id = bidder, aw_bid_id = bid_id, aw_cfp_id = cfp_id,
                         aw_pipeline_id = Some pid, aw_run_id = rid, aw_status = ''awarded'',
                         aw_awarded_at = g_dump (be_reg be) (e_now (be_reg be))\<rparr>;
                       c1 = snd (add_contract_award kv e u (award_doc a) (as_store st));
                       c2 = snd (add_reservation_marker kv e u (reservation_doc be (be_ids be (2 * n + 1)) t bidder) None c1)
                   in Inr \<lparr>as_awards = dict_set t a (as_awards st), as_store = c2,
                        as_registry = increment_agent_load kv be u bidder t (as_registry st)\<rparr>
               | _ \<Rightarrow> Inl BuildInvalid)"

fun award_tasks :: "'c kv_ops \<Rightarrow> builder_env \<Rightarrow> string \<Rightarrow> string \<Rightarrow> string option \<Rightarrow> (json \<times> doc) list \<Rightarrow> task_spec list
    \<Rightarrow> 'c award_state \<Rightarrow> build_error + 'c award_state" where
  "award_tasks kv be u pid rid best [] st = Inr st"
| "award_tasks kv be u pid rid best (s # ss) st =
     bindR (award_task kv be u pid rid best s st) (award_tasks kv be u pid rid best ss)"

subsection \<open>Calls for proposals\<close>

definition cfp_dump :: "string \<Rightarrow> string \<Rightarrow> doc \<Rightarrow> doc option" where
  "cfp_dump now uuid d = do {
     i \<leftarrow> field as_str (Some uuid) d ''cfp_id'';
     t \<leftarrow> field as_str None d ''task_id'';
     pid \<leftarrow> field (as_opt as_str) (Some None) d ''pipeline_id'';
     caps \<leftarrow> field as_strs (Some []) d ''required_capabilities'';
     st \<leftarrow> field as_str (Some ''open'') d ''status'';
     rnd \<leftarrow> field (as_check (\<lambda>n. 1 \<le> n) as_int) (Some 1) d ''round'';
     pri \<leftarrow> field (as_opt as_int) (Some None) d ''priority'';
     sti \<leftarrow> field (as_opt as_real) (Some None) d ''stimulus'';
     rew \<leftarrow> field (as_opt as_real) (Some None) d ''reward'';
     ms \<leftarrow> field (as_opt as_real) (Some None) d ''min_score'';
     mb \<leftarrow> field (as_opt as_int) (Some None) d ''max_bids'';
     lmax \<leftarrow> field (as_opt as_int) (Some None) d ''lmax'';
     why \<leftarrow> field (as_opt as_str) (Some None) d ''status_reason'';
     crea \<leftarrow> field as_str (Some now) d ''created_at'';
     clo \<leftarrow> field (as_opt as_str) (Some None) d ''closes_at'';
     Some [(''cfp_id'', JStr i), (''task_id'', JStr t), (''pipeline_id'', jopt JStr pid),
       (''required_capabilities'', str_json caps), (''status'', JStr st), (''round'', JInt rnd), (''priority'', jopt JInt pri),
       (''stimulus'', jopt JReal sti), (''reward'', jopt JReal rew), (''min_score'', jopt JReal ms), (''max_bids'', jopt JInt mb),
       (''lmax'', jopt JInt lmax), (''status_reason'', jopt JStr why), (''created_at'', JStr crea), (''closes_at'', jopt JStr clo)] }"

text \<open>A closing time without a time zone raises in the comparison; the stored ones have one.\<close>

definition cfp_expired :: "builder_env \<Rightarrow> doc \<Rightarrow> bool" where
  "cfp_expired be cfp =
     (truthy (jget cfp ''closes_at'') \<and>
      (case g_parse (be_reg be) (py_str (ce_repr (be_cnp be)) (jget cfp ''closes_at'')) of
         None \<Rightarrow> False | Some t \<Rightarrow> t \<le> e_now (be_reg be)))"

fun close_cfps :: "'c kv_ops \<Rightarrow> builder_env \<Rightarrow> string \<Rightarrow> json list \<Rightarrow> string list \<Rightarrow> doc list \<Rightarrow> 'c \<Rightarrow> build_error + 'c" where
  "close_cfps kv be u with_bids tasks [] c = Inr c"
| "close_cfps kv be u with_bids tasks (cfp # cfps) c =
     (let now = g_dump (be_reg be) (e_now (be_reg be))
      in if jget cfp ''status'' \<noteq> JStr ''open'' \<or> (jget cfp ''cfp_id'' \<notin> set with_bids \<and> \<not> cfp_expired be cfp)
         then close_cfps kv be u with_bids tasks cfps c
         else case cfp_dump now (be_ids be 0) cfp of
             None \<Rightarrow> Inl BuildInvalid
           | Some d \<Rightarrow>
               if jstr (jget d ''task_id'') \<notin> set tasks then close_cfps kv be u with_bids tasks cfps c
               else close_cfps kv be u with_bids tasks cfps
                 (snd (add_cfp kv (store_env.truncate (be_reg be)) u
                   (dict_set ''closes_at'' (JStr now)
                   (dict_set ''status_reason'' (JStr (if cfp_expired be cfp then ''expired'' else ''awarded''))
                   (dict_set ''status'' (JStr ''closed'') d))) c)))"

subsection \<open>Evaluation sequences\<close>

definition sequence_candidate :: "cnp_env \<Rightarrow> doc \<Rightarrow> json" where
  "sequence_candidate ce b = JDict
     [(''bidder_id'', jget b ''bidder_id''), (''bid_score'', JReal (bid_score_of ce b)), (''bid_id'', jget b ''bid_id''),
      (''trust_score'', jget b ''trust_score''), (''cost_estimate'', jget b ''cost_estimate''), (''agent_load'', jget b ''agent_load''),
      (''cfp_id'', jget b ''cfp_id'')]"

fun save_sequences :: "'c kv_ops \<Rightarrow> builder_env \<Rightarrow> string \<Rightarrow> string \<Rightarrow> string option \<Rightarrow> (json \<times> doc list) list \<Rightarrow> 'c
    \<Rightarrow> build_error + 'c" where
  "save_sequences kv be u pid rid [] c = Inr c"
| "save_sequences kv be u pid rid ((t, bids) # rs) c =
     (if length bids \<le> 1 then save_sequences kv be u pid rid rs c
      else if \<not> is_str t \<or> as_opt as_str (jget (hd bids) ''cfp_id'') = None then Inl BuildInvalid
      else save_sequences kv be u pid rid rs
        (snd (save_evaluation_sequence kv (store_env.truncate (be_reg be)) u
          [(''task_id'', t), (''pipeline_id'', JStr pid), (''pipeline_run_id'', jopt JStr rid), (''plan_id'', JStr (be_plan_id be)),
           (''cfp_id'', jget (hd bids) ''cfp_id''), (''candidates'', JList (map (sequence_candidate (be_cnp be)) bids)),
           (''current_index'', JInt 0), (''created_at'', JStr (g_dump (be_reg be) (e_now (be_reg be))))] c)))"

subsection \<open>The draft\<close>

definition service_map :: "'c kv_ops \<Rightarrow> builder_env \<Rightarrow> string \<Rightarrow> 'c option \<Rightarrow> (string \<times> string) list" where
  "service_map kv be u registry =
     (case registry of
        None \<Rightarrow> []
      | Some rg \<Rightarrow> (case list_agents (be_reg be) kv u None None None [] rg of
            Inl _ \<Rightarrow> []
          | Inr es \<Rightarrow> fold (\<lambda>d m. if truthy (jget d ''agent_id'') \<and> truthy (jget d ''service_name'')
              then dict_set (py_str (ce_repr (be_cnp be)) (jget d ''agent_id'')) (py_str (ce_repr (be_cnp be)) (jget d ''service_name'')) m
              else m) es []))"

definition service_names :: "builder_env \<Rightarrow> string list" where
  "service_names be = map (\<lambda>d. py_str (ce_repr (be_cnp be)) (jget d ''service_name''))
     (filter (\<lambda>d. truthy (jget d ''service_name'')) (be_services be))"

definition run_tasks_of :: "doc option \<Rightarrow> (string \<times> doc) list" where
  "run_tasks_of run_doc = (case run_doc of None \<Rightarrow> []
     | Some d \<Rightarrow> map (\<lambda>(k, v). (k, jdict v)) (filter (\<lambda>(k, v). is_dict v) (jdict (jget d ''tasks''))))"

definition bid_filter_of :: "builder_env \<Rightarrow> doc list \<Rightarrow> bid_filter" where
  "bid_filter_of be open_cfps =
     (let ids = map (\<lambda>d. jget d ''cfp_id'') (filter (\<lambda>d. truthy (jget d ''cfp_id'')) open_cfps);
          scored = filter (\<lambda>d. truthy (jget d ''cfp_id'') \<and> jget d ''min_score'' \<noteq> JNull) open_cfps
      in \<lparr>bf_allowed = (if ids = [] then None else Some ids),
          bf_min_by_cfp = fold (\<lambda>d. dict_set (py_str (ce_repr (be_cnp be)) (jget d ''cfp_id''))
            (coerce_float (be_cnp be) (jget d ''min_score'') 0)) scored [],
          bf_min_default = env_float (be_reg be) ''CNP_MIN_BID_SCORE'' 0\<rparr>)"

definition read_run_doc :: "('r, doc) doc_ops \<Rightarrow> string \<Rightarrow> string \<Rightarrow> string option \<Rightarrow> 'r option \<Rightarrow> doc option" where
  "read_run_doc ops u pid rid runs =
     (case runs of
        None \<Rightarrow> None
      | Some r \<Rightarrow> if \<not> given rid then None
          else case read_run ops u pid (the rid) r of Inl _ \<Rightarrow> None | Inr d \<Rightarrow> Some d)"

definition build_plan_draft :: "'c kv_ops \<Rightarrow> ('r, doc) doc_ops \<Rightarrow> builder_env \<Rightarrow> string \<Rightarrow> string \<Rightarrow> string option \<Rightarrow> json list
    \<Rightarrow> 'c option \<Rightarrow> 'c option \<Rightarrow> 'r option \<Rightarrow> build_error + plan_draft \<times> 'c \<times> 'c option \<times> 'r option" where
  "build_plan_draft kv ops be u pid rid only store registry runs =
     (case store of None \<Rightarrow> Inl BuildNoStore | Some c \<Rightarrow>
      let e = store_env.truncate (be_reg be); ce = be_cnp be; run_doc = read_run_doc ops u pid rid runs;
          stored = filter (pipeline_matches pid rid only) (fst (list_task_specs kv u no_listing c));
          bids = fst (list_bids kv u None None (Some pid) rid no_listing c);
          cfps = fst (list_cfps kv u None (Some ''open'') no_listing c);
          open_cfps = (if only = [] then cfps else filter (\<lambda>d. jget d ''task_id'' \<in> set only) cfps);
          bf = bid_filter_of be open_cfps
      in bindR (load_pipeline_specs be u pid rid run_doc only) (\<lambda>extra.
         let specs = collect_specs stored extra
         in bindR (best_bids ce bf [] bids) (\<lambda>best.
            bindR (award_tasks kv be u pid rid best specs
              \<lparr>as_awards = collect_awards be (fst (list_contract_awards kv u None (Some pid) rid no_listing c)),
               as_store = c, as_registry = registry\<rparr>) (\<lambda>st.
            bindR (close_cfps kv be u (filter truthy (map (\<lambda>b. jget b ''cfp_id'') bids)) (map sp_task_id specs) open_cfps (as_store st)) (\<lambda>c1.
            bindR (ranked_bids ce bf bids) (\<lambda>ranked.
            bindR (save_sequences kv be u pid rid ranked c1) (\<lambda>c2.
            bindR (build_graph_spec (ce_repr ce) specs best (as_awards st) (service_map kv be u (as_registry st)) (service_names be)
              (run_tasks_of run_doc)) (\<lambda>(gs, n).
              let gs1 = (if n = 0 then dict_set ''warnings'' (JList [JStr ''no_task_specs'']) gs else gs);
                  gs2 = with_semantic_graph (be_turtle be) gs1;
                  draft = \<lparr>pd_plan_id = be_plan_id be, pd_username = u, pd_pipeline_id = pid, pd_run_id = rid, pd_revision = 1,
                    pd_graph_spec = gs2, pd_is_valid = False, pd_shacl_report = None, pd_cached = False,
                    pd_created_at = g_dump (be_reg be) (e_now (be_reg be))\<rparr>;
                  c3 = snd (save_plan_draft kv e u (draft_doc draft) c2);
                  c4 = snd (save_plan_revision kv e u (revision_doc e (be_plan_id be) u pid rid 1 None gs2 None ''APPLIED''
                    (Some ''graph_builder'') (Some ''initial_plan'') None) c3);
                  runs' = (if given rid then map_option (set_run_plan ops u pid (the rid) (be_plan_id be) 1) runs else runs)
              in Inr (draft, c4, as_registry st, runs')))))))))"

definition run_graph_builder :: "'c kv_ops \<Rightarrow> ('r, doc) doc_ops \<Rightarrow> builder_env \<Rightarrow> doc \<Rightarrow> 'c option \<Rightarrow> 'c option \<Rightarrow> 'r option
    \<Rightarrow> build_error + (string \<times> string \<times> nat) \<times> 'c \<times> 'c option \<times> 'r option" where
  "run_graph_builder kv ops be msg store registry runs =
     (if \<not> truthy (jget msg ''username'') \<or> \<not> truthy (jget msg ''pipeline_id'') then Inl BuildUsername
      else bindR (if truthy (jget msg ''task_ids'') then iter_json (jget msg ''task_ids'') else Inr []) (\<lambda>ts.
        bindR (build_plan_draft kv ops be (jstr (jget msg ''username'')) (jstr (jget msg ''pipeline_id''))
          (as_str (jget msg ''pipeline_run_id'')) ts store registry runs) (\<lambda>(draft, c, rg, r).
          Inr ((pd_plan_id draft, pd_pipeline_id draft, length (jlist (jget (pd_graph_spec draft) ''tasks''))), c, rg, r))))"

end
