(* ===== verification/Plan_Services.thy ===== *)
theory Plan_Services
  imports Plan_Execution Plan_Revision Graph_Builder
begin

section \<open>Human approval, escalation, audit and cache of a plan\<close>

text \<open>
  The smaller services around a plan, each a function of its message, a dictionary, and of the marker store: \<^verbatim>\<open>services/human_validator.py\<close>,
  \<^verbatim>\<open>failure_escalation.py\<close>, \<^verbatim>\<open>audit_logger.py\<close>, \<^verbatim>\<open>input_validator.py\<close> and \<^verbatim>\<open>plan_cache.py\<close>. The provenance graph of an
  audit is \<open>au_turtle\<close>, \<open>None\<close> when building it raises, \<open>au_trace\<close> the identifiers of the current span and
  \<open>au_resource\<close> the namespace; the digest of a graph is a parameter. Metrics and spans are left out.
\<close>

datatype service_error = ServiceNoStore | ServiceUsername | ServiceIds | ServicePlan plan_error | ServiceShape

definition service_payload :: "doc \<Rightarrow> service_error + doc" where
  "service_payload m = (if truthy (jget m ''data'') then (case jget m ''data'' of JDict d \<Rightarrow> Inr d | _ \<Rightarrow> Inl ServiceShape) else Inr m)"

text \<open>What every service does first: the plan of the message.\<close>

definition service_plan :: "'c kv_ops \<Rightarrow> registry_env \<Rightarrow> string option \<Rightarrow> doc \<Rightarrow> 'c option \<Rightarrow> service_error + 'c \<times> plan_draft" where
  "service_plan kv g rid m store =
     (case store of
        None \<Rightarrow> Inl ServiceNoStore
      | Some c \<Rightarrow>
          if \<not> truthy (jget m ''username'') then Inl ServiceUsername
          else case load_plan_draft kv (store_env.truncate g) (sfield m ''username'') (as_str (jget m ''pipeline_id'')) rid (as_str (jget m ''plan_id'')) c of
            Inl e \<Rightarrow> Inl (ServicePlan e) | Inr d \<Rightarrow> Inr (c, d))"

subsection \<open>The human validator\<close>

definition risk_rank :: "risk_level \<Rightarrow> nat" where
  "risk_rank r = (case r of RiskLow \<Rightarrow> 0 | RiskMedium \<Rightarrow> 1 | RiskHigh \<Rightarrow> 2)"

definition max_risk :: "task_spec list \<Rightarrow> risk_level" where
  "max_risk specs = (if specs = [] then RiskMedium
     else fold (\<lambda>s r. if risk_rank r < risk_rank (sp_risk_level s) then sp_risk_level s else r) specs RiskLow)"

definition requires_human :: "task_spec list \<Rightarrow> bool" where
  "requires_human specs \<longleftrightarrow> (\<exists>s \<in> set specs. sp_requires_human_approval s \<or> sp_risk_level s = RiskHigh)"

definition human_specs :: "'c kv_ops \<Rightarrow> string \<Rightarrow> string option \<Rightarrow> 'c \<Rightarrow> task_spec list" where
  "human_specs kv u pid c = task_specs_for_pipeline kv \<lparr>ea_username = u, ea_pipeline = pid, ea_run = None, ea_plan = None, ea_count = 0\<rparr> c"

text \<open>What the human said, or that nobody had to say it.\<close>

definition human_decision :: "doc \<Rightarrow> task_spec list \<Rightarrow> bool" where
  "human_decision p specs =
     (let said = (if jget p ''human_approved'' = JNull then jget p ''approved'' else jget p ''human_approved'')
      in if said = JNull then \<not> requires_human specs else truthy said)"

definition approval_doc :: "string \<Rightarrow> string \<Rightarrow> string \<Rightarrow> string \<Rightarrow> bool \<Rightarrow> string option \<Rightarrow> doc option \<Rightarrow> risk_level \<Rightarrow> doc" where
  "approval_doc now plan u approver ok why changes risk =
     [(''plan_id'', JStr plan), (''username'', JStr u), (''approver'', JStr approver), (''approved'', JBool ok), (''rationale'', jopt JStr why),
      (''modifications'', jopt JDict changes), (''suggestion_id'', JNull), (''plan_revision'', JNull), (''risk_level'', JStr (risk_text risk)),
      (''decided_at'', JStr now)]"

record human_result =
  hr_plan :: string
  hr_required :: bool
  hr_approved :: bool
  hr_risk :: risk_level
  hr_applied :: nat

text \<open>The draft after the modifications of an approval.\<close>

definition modified_draft :: "registry_env \<Rightarrow> doc \<Rightarrow> json \<Rightarrow> bool \<Rightarrow> plan_draft \<Rightarrow> service_error + (plan_draft \<times> nat) option" where
  "modified_draft g p approver ok draft =
     (case jget p ''modifications'' of
        JDict changes \<Rightarrow>
          if \<not> ok \<or> changes = [] then Inr None
          else (case apply_delta (g_repr g) (pd_graph_spec draft) changes of
                  Inl _ \<Rightarrow> Inl ServiceShape
                | Inr (graph, n) \<Rightarrow> Inr (Some (draft\<lparr>pd_graph_spec := dict_set ''human_approval'' (JDict [(''approved'', JBool ok), (''approver'', approver),
                    (''decided_at'', JStr (g_dump g (e_now g)))]) graph\<rparr>, n)))
      | _ \<Rightarrow> Inr None)"

definition run_human_validator :: "'c kv_ops \<Rightarrow> registry_env \<Rightarrow> doc \<Rightarrow> 'c option \<Rightarrow> (service_error + human_result) \<times> 'c option" where
  "run_human_validator kv g m store =
     (case bindR (service_plan kv g None m store) (\<lambda>(c, d). bindR (service_payload m) (\<lambda>p. Inr (c, d, p))) of
        Inl e \<Rightarrow> (Inl e, store)
      | Inr (c, draft, p) \<Rightarrow>
          (let u = sfield m ''username''; e = store_env.truncate g; specs = human_specs kv u (as_str (jget m ''pipeline_id'')) c;
               ok = human_decision p specs;
               approver = jor (jget p ''approver'') (JStr (case g_getenv g ''HUMAN_APPROVER'' of None \<Rightarrow> ''human'' | Some s \<Rightarrow> s));
               changes = (case jget p ''modifications'' of JDict d \<Rightarrow> Some d | _ \<Rightarrow> None)
           in case modified_draft g p approver ok draft of
                Inl err \<Rightarrow> (Inl err, Some c)
              | Inr updated \<Rightarrow>
                  (let c1 = (case updated of None \<Rightarrow> c | Some (d, _) \<Rightarrow> snd (save_plan_draft kv e u (draft_doc d) c))
                   in case as_opt as_str (jor (jget p ''rationale'') (jget p ''notes'')) of
                        None \<Rightarrow> (Inl ServiceShape, Some c1)
                      | Some why \<Rightarrow>
                          (Inr \<lparr>hr_plan = pd_plan_id draft, hr_required = requires_human specs, hr_approved = ok, hr_risk = max_risk specs,
                              hr_applied = (case updated of None \<Rightarrow> 0 | Some (_, n) \<Rightarrow> n)\<rparr>,
                           Some (snd (save_human_approval kv e u (approval_doc (g_dump g (e_now g)) (pd_plan_id draft) u (py_str (g_repr g) approver) ok why changes
                             (max_risk specs)) c1))))))"

subsection \<open>Escalation of failures\<close>

fun to_int :: "json \<Rightarrow> int option" where
  "to_int (JInt i) = Some i"
| "to_int (JReal r) = Some (py_trunc r)"
| "to_int (JBool b) = Some (if b then 1 else 0)"
| "to_int (JStr s) = read_int s"
| "to_int _ = None"

definition int_or :: "json \<Rightarrow> int \<Rightarrow> int" where
  "int_or j dflt = (case to_int j of None \<Rightarrow> dflt | Some i \<Rightarrow> i)"

definition count_failures :: "doc option \<Rightarrow> service_error + nat" where
  "count_failures report =
     (case report of None \<Rightarrow> Inr 0 | Some d \<Rightarrow> (case jget d ''outcomes'' of
        JList os \<Rightarrow> if list_all is_dict os then Inr (length (filter (\<lambda>oc. jget (jdict oc) ''success'' = JBool False) os)) else Inl ServiceShape
      | _ \<Rightarrow> Inr 0))"

definition notice_doc :: "string \<Rightarrow> string \<Rightarrow> bool \<Rightarrow> doc" where
  "notice_doc now rid escalated =
     [(''pipeline_run_id'', JStr rid), (''reason'', JStr (if escalated then ''retries_exhausted'' else ''pending'')),
      (''severity'', JStr (risk_text (if escalated then RiskHigh else RiskMedium))), (''escalated_to'', JNull), (''retries_exhausted'', JBool escalated),
      (''created_at'', JStr now)]"

record escalation_result =
  sr_plan :: string
  sr_attempts :: int
  sr_max_retries :: int
  sr_failures :: nat
  sr_escalated :: bool

definition run_failure_escalation :: "'c kv_ops \<Rightarrow> registry_env \<Rightarrow> doc \<Rightarrow> 'c option \<Rightarrow> (service_error + escalation_result) \<times> 'c option" where
  "run_failure_escalation kv g m store =
     (case bindR (service_plan kv g None m store) (\<lambda>(c, d). bindR (service_payload m) (\<lambda>p.
        bindR (count_failures (latest_by_timestamp (g_repr g) (fst (list_execution_reports kv (sfield m ''username'') (Some (pd_plan_id d)) no_listing c)) ''created_at''))
          (\<lambda>n. Inr (c, d, p, n)))) of
        Inl e \<Rightarrow> (Inl e, store)
      | Inr (c, draft, p, n) \<Rightarrow>
          (let retries = int_or (jget p ''max_retries'') (case g_getenv g ''FAILURE_ESCALATION_MAX_RETRIES'' of None \<Rightarrow> 2 | Some s \<Rightarrow> int_or (JStr s) 2);
               attempts = int_or (jget p ''attempts'') 0; escalated = (0 < n \<and> retries \<le> attempts)
           in case as_str (jor (jget m ''pipeline_run_id'') (JStr [])) of
                None \<Rightarrow> (Inl ServiceShape, Some c)
              | Some rid \<Rightarrow>
                  (Inr \<lparr>sr_plan = pd_plan_id draft, sr_attempts = attempts, sr_max_retries = retries, sr_failures = n, sr_escalated = escalated\<rparr>,
                   Some (snd (save_escalation_notice kv (store_env.truncate g) (sfield m ''username'') (notice_doc (g_dump g (e_now g)) rid escalated) c)))))"

subsection \<open>The audit\<close>

definition traceability_score :: "bool \<Rightarrow> bool \<Rightarrow> bool \<Rightarrow> bool \<Rightarrow> bool \<Rightarrow> int" where
  "traceability_score valid human ethics executed escalation =
     min ((if valid then 25 else 0) + (if human then 20 else 0) + (if ethics then 20 else 0) + (if executed then 25 else 0) + (if escalation then 10 else 0)) 100"

record audit_env =
  au_reg :: registry_env
  au_resource :: string
  au_turtle :: "doc \<Rightarrow> string option"
  au_trace :: "(string \<times> string) option"

record audit_evidence =
  ev_human :: "doc option"
  ev_ethics :: "doc option"
  ev_execution :: "doc option"
  ev_escalation :: "doc option"

definition gather_evidence :: "'c kv_ops \<Rightarrow> registry_env \<Rightarrow> string \<Rightarrow> string \<Rightarrow> string option \<Rightarrow> 'c \<Rightarrow> audit_evidence" where
  "gather_evidence kv g u plan rid c =
     \<lparr>ev_human = latest_by_timestamp (g_repr g) (fst (list_human_approvals kv u (Some plan) no_listing c)) ''decided_at'',
      ev_ethics = latest_by_timestamp (g_repr g) (fst (list_ethics_checks kv u (Some plan) no_listing c)) ''checked_at'',
      ev_execution = latest_by_timestamp (g_repr g) (fst (list_execution_reports kv u (Some plan) no_listing c)) ''created_at'',
      ev_escalation = latest_by_timestamp (g_repr g) (fst (list_escalation_notices kv u rid no_listing c)) ''created_at''\<rparr>"

definition evidence_score :: "plan_draft \<Rightarrow> audit_evidence \<Rightarrow> int" where
  "evidence_score d ev = traceability_score (pd_is_valid d) (ev_human ev \<noteq> None) (ev_ethics ev \<noteq> None) (ev_execution ev \<noteq> None) (ev_escalation ev \<noteq> None)"

definition audit_payload :: "audit_env \<Rightarrow> string \<Rightarrow> plan_draft \<Rightarrow> audit_evidence \<Rightarrow> doc" where
  "audit_payload au uri d ev =
     (let base = [(''plan_id'', JStr (pd_plan_id d)), (''plan_valid'', JBool (pd_is_valid d)), (''human_approval'', jopt JDict (ev_human ev)),
            (''ethics_check'', jopt JDict (ev_ethics ev)), (''execution_report'', jopt JDict (ev_execution ev)),
            (''escalation_notice'', jopt JDict (ev_escalation ev)), (''traceability_score'', JInt (evidence_score d ev)), (''provenance_uri'', JStr uri)]
      in base @ (case au_turtle au base of None \<Rightarrow> [] | Some t \<Rightarrow> [(''prov_rdf'', JStr t), (''prov_format'', JStr ''turtle'')]) @
         (case au_trace au of None \<Rightarrow> [] | Some (t, s) \<Rightarrow> [(''trace'', JDict [(''trace_id'', JStr t), (''span_id'', JStr s)])]))"

definition audit_entry :: "audit_env \<Rightarrow> string \<Rightarrow> string \<Rightarrow> doc \<Rightarrow> doc" where
  "audit_entry au rid uri payload =
     [(''event_type'', JStr ''audit_summary''), (''pipeline_run_id'', JStr rid), (''actor'', JStr ''audit_logger''), (''rationale'', JNull),
      (''provenance'', JStr uri), (''trace_id'', jopt (\<lambda>x. JStr (fst x)) (au_trace au)), (''span_id'', jopt (\<lambda>x. JStr (snd x)) (au_trace au)),
      (''payload'', JDict payload), (''created_at'', JStr (g_dump (au_reg au) (e_now (au_reg au))))]"

text \<open>The plan, the key of the entry and the score.\<close>

definition run_audit :: "'c kv_ops \<Rightarrow> audit_env \<Rightarrow> doc \<Rightarrow> 'c option \<Rightarrow> (service_error + string \<times> string \<times> int) \<times> 'c option" where
  "run_audit kv au m store =
     (let g = au_reg au; rid = jget m ''pipeline_run_id'' in
      case service_plan kv g None m store of
        Inl e \<Rightarrow> (Inl e, store)
      | Inr (c, draft) \<Rightarrow>
          (let u = sfield m ''username''; plan = pd_plan_id draft; text_id = py_str (g_repr g) (jor rid (JStr []));
               ev = gather_evidence kv g u plan (as_str rid) c;
               uri = au_resource au @ ''audit/'' @ py_str (g_repr g) (jor rid (JStr ''run'')) @ ''/'' @ plan;
               (key, c1) = add_audit_log kv (store_env.truncate g) u (audit_entry au text_id uri (audit_payload au uri draft ev)) c
           in (Inr (plan, key, evidence_score draft ev), Some c1)))"

subsection \<open>The input validator and the plan cache\<close>

text \<open>Whether the input passes.\<close>

definition run_input_validator :: "doc \<Rightarrow> service_error + bool" where
  "run_input_validator m =
     (if \<not> truthy (jget m ''username'') \<or> \<not> truthy (jget m ''pipeline_id'') \<or> \<not> truthy (jget m ''pipeline_run_id'') then Inl ServiceIds
      else bindR (service_payload m) (\<lambda>p. Inr (\<not> (jget p ''content_filter_passed'' = JBool False \<or> jget p ''blocked'' = JBool True))))"

definition cache_key :: "(doc \<Rightarrow> string) \<Rightarrow> plan_draft \<Rightarrow> string" where
  "cache_key digest d = pd_pipeline_id d @ '':'' @ pd_plan_id d @ '':'' @ digest (pd_graph_spec d)"

text \<open>The key under which the plan was cached, \<open>None\<close> for a plan that is not valid.\<close>

definition cache_plan_draft :: "'c kv_ops \<Rightarrow> registry_env \<Rightarrow> (doc \<Rightarrow> string) \<Rightarrow> string \<Rightarrow> plan_draft \<Rightarrow> 'c \<Rightarrow> string option \<times> 'c" where
  "cache_plan_draft kv g digest u draft c =
     (if \<not> pd_is_valid draft then (None, c)
      else let key = cache_key digest draft;
               graph = dict_set ''cache'' (JDict [(''cache_key'', JStr key), (''cached_at'', JStr (g_dump g (e_now g)))]) (pd_graph_spec draft)
           in (Some key, snd (save_plan_draft kv (store_env.truncate g) u (draft_doc (draft\<lparr>pd_cached := True, pd_graph_spec := graph\<rparr>)) c)))"

definition run_plan_cache :: "'c kv_ops \<Rightarrow> registry_env \<Rightarrow> (doc \<Rightarrow> string) \<Rightarrow> doc \<Rightarrow> 'c option \<Rightarrow> (service_error + string option) \<times> 'c option" where
  "run_plan_cache kv g digest m store =
     (if \<not> truthy (jget m ''username'') then (Inl ServiceUsername, store) else
      case service_plan kv g (as_str (jget m ''pipeline_run_id'')) m store of
        Inl e \<Rightarrow> (Inl e, store)
      | Inr (c, draft) \<Rightarrow> apfst Inr (apsnd Some (cache_plan_draft kv g digest (sfield m ''username'') draft c)))"

end
