(* ===== verification/Service_Properties.thy ===== *)
theory Service_Properties
  imports Execution_Properties Plan_Services
begin

text \<open>
  What the services around a plan do for each other through the marker store: the decision of the human gates the executor,
  also when it changes the plan, and the audit finds what the human validator, the ethics gate and the executor stored.
\<close>

subsection \<open>Frames of the verdicts\<close>

lemma verdicts_keep:
  assumes "kv_collection kv" and "\<And>x. like (narrow (Some plan) (prefix2 k u) @ ''%'') x \<Longrightarrow> kv_get kv c' x = kv_get kv c x"
    and "kv_get kv c' (key2 kl u plan) = kv_get kv c (key2 kl u plan)"
  shows "set (verdicts kv k kl ds u plan c') = set (verdicts kv k kl ds u plan c)"
proof -
  let ?page = "\<lambda>c. fst (list_page kv (narrow (Some plan) (prefix2 k u)) no_listing ds c)"
  have "set (?page c') = set (?page c)" unfolding page_items[OF assms(1)] using assms(2) by auto
  moreover from this have "?page c' = [] \<longleftrightarrow> ?page c = []" by (metis set_empty)
  ultimately show ?thesis using assms(3) by (auto simp: verdicts_def list_or_latest_def split: option.splits)
qed

lemma draft_keeps_approvals:
  assumes "kv_collection kv"
  shows "set (verdicts kv ''human_approval'' ''human_approval_latest'' ds u plan (snd (save_plan_draft kv e v d c))) =
    set (verdicts kv ''human_approval'' ''human_approval_latest'' ds u plan c)"
proof (rule verdicts_keep[OF assms])
  have get: "kv_get kv (snd (save_plan_draft kv e v d c)) x = kv_get kv c x" if "\<And>q. x \<noteq> ''plan_draft::'' @ q" for x
    using that by (simp add: save_plan_draft_def kv_collection.save_doc_get[OF assms] key2_def)
  obtain q where q: "narrow (Some plan) (prefix2 ''human_approval'' u) = ''human_approval'' @ ''::'' @ q" using narrow_plan by blast
  show "kv_get kv (snd (save_plan_draft kv e v d c)) x = kv_get kv c x" if "like (narrow (Some plan) (prefix2 ''human_approval'' u) @ ''%'') x" for x
  proof (rule get)
    show "x \<noteq> ''plan_draft::'' @ r" for r using that unfolding q by auto
  qed
  show "kv_get kv (snd (save_plan_draft kv e v d c)) (key2 ''human_approval_latest'' u plan) = kv_get kv c (key2 ''human_approval_latest'' u plan)"
    by (rule get) (simp add: key2_def)
qed

subsection \<open>The decision of the human\<close>

lemma human_stores:
  assumes "run_human_validator kv g m (Some c) = (Inr r, s)"
  obtains c1 d where "s = Some (snd (save_human_approval kv (store_env.truncate g) (sfield m ''username'') d c1))" and "sfield d ''plan_id'' = hr_plan r"
    and "jget d ''approved'' = JBool (hr_approved r)" and "jget d ''decided_at'' = JStr (g_dump g (e_now g))"
    and "c1 = c \<or> (\<exists>p. c1 = snd (save_plan_draft kv (store_env.truncate g) (sfield m ''username'') p c))"
proof -
  obtain draft p where sp: "bindR (service_plan kv g None m (Some c)) (\<lambda>(c, d). bindR (service_payload m) (\<lambda>p. Inr (c, d, p))) = Inr (c, draft, p)"
    using assms by (auto simp: run_human_validator_def service_plan_def bindR_iffs split: sum.splits if_splits)
  note run = assms[unfolded run_human_validator_def sp sum.case prod.case Let_def]
  obtain updated why where u: "modified_draft g p (jor (jget p ''approver'') (JStr (case g_getenv g ''HUMAN_APPROVER'' of None \<Rightarrow> ''human'' | Some s \<Rightarrow> s)))
      (human_decision p (human_specs kv (sfield m ''username'') (as_str (jget m ''pipeline_id'')) c)) draft = Inr updated"
    and w: "as_opt as_str (jor (jget p ''rationale'') (jget p ''notes'')) = Some why"
    using run by (auto split: sum.splits option.splits)
  show thesis
    using run unfolding u w sum.case option.case
    by (cases updated) (auto intro!: that simp: approval_doc_def sfield_def jget_def dict_get_def)
qed

text \<open>C9. The decision of the human decides whether the executor runs the plan: when the human validator returns and stores its decision later than
  the decisions stored before (whether or not it also changes the plan) and human approval is required, an execution of the same
  plan is blocked when the human did not approve, so that no task gets an outcome and no command is published; and it is not blocked by the human when he did.\<close>

theorem human_gates_execution:
  assumes "kv_collection kv" and "run_human_validator kv g m (Some c) = (Inr r, Some c1)"
    and "\<forall>i \<in> set (fst (list_human_approvals kv (sfield m ''username'') (Some (hr_plan r)) no_listing c)).
      py_str (g_repr (xe_reg xe)) (jor (jget i ''decided_at'') (JStr [])) < g_dump g (e_now g)"
    and "g_getenv (xe_reg xe) ''EXECUTION_REQUIRE_HUMAN'' = Some ''1''"
    and "run_executor kv xe m' (Some c1) = (Inr (x, msgs), c2)" and "sfield m' ''username'' = sfield m ''username''" and "xr_plan x = hr_plan r"
  shows "if hr_approved r then xr_blocked x \<noteq> Some ''human_rejected'' else xr_blocked x \<noteq> None \<and> xr_outcomes x = [] \<and> msgs = []"
proof -
  let ?u = "sfield m ''username''" and ?e = "store_env.truncate g"
  let ?n = "\<lambda>d. (''id'', JStr (key3 ''human_approval'' ?u (hr_plan r) (e_uuid ?e))) # with_meta ?e ''human_approval'' d"
  obtain c' d where c1: "c1 = snd (save_human_approval kv ?e ?u d c')" and plan: "sfield d ''plan_id'' = hr_plan r"
    and d: "jget d ''approved'' = JBool (hr_approved r)" "jget d ''decided_at'' = JStr (g_dump g (e_now g))"
    and c': "c' = c \<or> (\<exists>p. c' = snd (save_plan_draft kv ?e ?u p c))"
    using human_stores[OF assms(2)] by blast
  have n: "py_str (g_repr (xe_reg xe)) (jor (jget (?n d) ''decided_at'') (JStr [])) = g_dump g (e_now g)" "jget (?n d) ''approved'' = JBool (hr_approved r)"
    using d by (simp_all add: with_meta_def jor_def)
  have "set (verdicts kv ''human_approval'' ''human_approval_latest'' ''decided_at'' ?u (hr_plan r) c') =
      set (verdicts kv ''human_approval'' ''human_approval_latest'' ''decided_at'' ?u (hr_plan r) c)"
    using c' draft_keeps_approvals[OF assms(1)] by auto
  then have "latest_by_timestamp (g_repr (xe_reg xe)) (fst (list_human_approvals kv ?u (Some (hr_plan r)) no_listing c1)) ''decided_at'' = Some (?n d)"
    unfolding verdicts_eqs c1 save_human_approval_def plan
    by (intro latest_verdict[OF saved_verdict_listed[OF assms(1) apart_kinds(2)]]) (use assms(3) in \<open>simp only: n(1) verdicts_eqs\<close>)
  then have "if hr_approved r then block_reason kv (xe_reg xe) ?u (hr_plan r) c1 \<noteq> Some ''human_rejected''
      else block_reason kv (xe_reg xe) ?u (hr_plan r) c1 \<noteq> None"
    using assms(4) n(2) by (auto simp: block_reason_def rejects_def Let_def)
  moreover have "xr_blocked x = block_reason kv (xe_reg xe) ?u (hr_plan r) c1" and "xr_blocked x \<noteq> None \<longrightarrow> xr_outcomes x = [] \<and> msgs = []"
    using executor_stores[OF assms(5)] unfolding assms(6,7) by blast+
  ultimately show ?thesis by (simp split: if_splits)
qed

subsection \<open>What the audit finds\<close>

lemma verdict_found: "kv_collection kv \<Longrightarrow> kv_get kv c (key3 k u plan x) \<noteq> None \<Longrightarrow> verdicts kv k kl ds u plan c \<noteq> []"
  using page_items[of kv "narrow (Some plan) (prefix2 k u)" ds c] narrow_key[of plan k u x]
  by (auto simp: verdicts_def list_or_latest_def)

lemma report_found:
  assumes "kv_collection kv" and "kv_get kv c (key3 ''execution'' u plan x) \<noteq> None"
  shows "fst (list_execution_reports kv u (Some plan) no_listing c) \<noteq> []"
proof -
  have "set (fst (list_execution_reports kv u (Some plan) no_listing c)) \<noteq> {}"
    unfolding list_execution_reports_def page_items[OF assms(1)] using assms(2) narrow_key[of plan "''execution''" u x] by auto
  then show ?thesis by simp
qed

lemma latest_exists: "items \<noteq> [] \<Longrightarrow> latest_by_timestamp repr items f \<noteq> None"
  by (cases items) (simp_all add: latest_by_timestamp_def)

lemma save_with_latest_keeps:
  assumes "kv_collection kv" and "kv_get kv c x \<noteq> None"
  shows "kv_get kv (snd (save_with_latest kv e k key d kl lkey c)) x \<noteq> None"
  using assms(2) by (simp add: save_with_latest_def kv_collection.get_upsert[OF assms(1)])

lemma save_with_latest_stores:
  assumes "kv_collection kv" shows "kv_get kv (snd (save_with_latest kv e k key d kl lkey c)) key \<noteq> None"
  by (simp add: save_with_latest_def kv_collection.get_upsert[OF assms])

lemma audit_stores:
  assumes "kv_collection kv" and "run_audit kv au m (Some c) = (Inr (plan, key, score), Some c')"
  obtains draft rid uri ev where "score = evidence_score draft ev"
    and "ev = gather_evidence kv (au_reg au) (sfield m ''username'') plan (as_str (jget m ''pipeline_run_id'')) c"
    and "kv_get kv c' key = Some (with_meta (store_env.truncate (au_reg au)) ''audit_log'' (audit_entry au rid uri (audit_payload au uri draft ev)))"
proof -
  obtain draft where sp: "service_plan kv (au_reg au) None m (Some c) = Inr (c, draft)"
    using assms(2) by (auto simp: run_audit_def service_plan_def Let_def split: sum.splits if_splits prod.splits)
  define ev where "ev = gather_evidence kv (au_reg au) (sfield m ''username'') plan (as_str (jget m ''pipeline_run_id'')) c"
  have "pd_plan_id draft = plan" using assms(2) by (auto simp: run_audit_def sp Let_def split: prod.splits)
  note run = assms(2)[unfolded run_audit_def sp sum.case prod.case Let_def this, folded ev_def]
  from run obtain rid uri where "add_audit_log kv (store_env.truncate (au_reg au)) (sfield m ''username'') (audit_entry au rid uri (audit_payload au uri draft ev)) c = (key, c')"
    and "score = evidence_score draft ev" by (auto split: prod.splits)
  moreover from this(1) have "kv_get kv c' key = Some (with_meta (store_env.truncate (au_reg au)) ''audit_log'' (audit_entry au rid uri (audit_payload au uri draft ev)))"
    by (auto simp: add_audit_log_def save_doc_def kv_collection.get_upsert[OF assms(1)])
  ultimately show thesis using that ev_def by blast
qed

lemma score_bounds:
  "traceability_score valid human ethics executed escalation \<le> 100"
  "human \<Longrightarrow> ethics \<Longrightarrow> executed \<Longrightarrow> 65 \<le> traceability_score valid human ethics executed escalation"
  by (simp_all add: traceability_score_def)

text \<open>C21. The audit finds what the others stored: after the human validator, the ethics gate and the executor have returned for a
  plan, in this order and whatever they decided, an audit of the plan scores at least 65 and at most 100, and the entry it stores holds that score.\<close>

theorem audit_finds_evidence:
  assumes "kv_collection kv"
    and "run_human_validator kv g m1 (Some c) = (Inr h, Some c1)" and "run_ethics kv ee call (Some c1) = (Inr (res, cmd), Some c2)"
    and "run_executor kv xe m2 (Some c2) = (Inr (x, msgs), Some c3)" and "run_audit kv au m3 (Some c3) = (Inr (plan, key, score), Some c4)"
    and "sfield m1 ''username'' = u" and "ea_username call = u" and "sfield m2 ''username'' = u" and "sfield m3 ''username'' = u"
    and "hr_plan h = plan" and "et_plan res = plan" and "xr_plan x = plan"
  shows "65 \<le> score \<and> score \<le> 100 \<and> (\<exists>d. kv_get kv c4 key = Some d \<and> jget (jdict (jget d ''payload'')) ''traceability_score'' = JInt score)"
proof -
  obtain c0 d1 where c1: "c1 = snd (save_human_approval kv (store_env.truncate g) u d1 c0)" and p1: "sfield d1 ''plan_id'' = plan"
    using human_stores[OF assms(2)] unfolding assms(6,10) by blast
  have c2: "c2 = snd (save_ethics_check kv (ethics_env_store ee) u (check_doc (g_dump (ee_reg ee) (e_now (ee_reg ee))) (ea_count call) res) c1)"
    using ethics_stores[OF assms(3)] assms(7) by simp
  have p2: "sfield (check_doc t n res) ''plan_id'' = plan" for t n using assms(11) by (simp add: check_doc_def sfield_def jget_def dict_get_def)
  obtain d3 where c3: "c3 = snd (save_execution_report kv (store_env.truncate (xe_reg xe)) u d3 c2)"
    using executor_stores[OF assms(4)] unfolding assms(8) by blast
  have keeps: "kv_get kv c3 y \<noteq> None" if "kv_get kv c2 y \<noteq> None" for y
    using that by (simp add: c3 save_execution_report_def kv_collection.save_doc_get[OF assms(1)])
  have "kv_get kv c3 (key3 ''human_approval'' u plan (e_uuid (store_env.truncate g))) \<noteq> None"
    by (rule keeps) (simp only: c2 save_ethics_check_def save_with_latest_keeps[OF assms(1)] c1 save_human_approval_def p1 save_with_latest_stores[OF assms(1)] not_False_eq_True)
  moreover have "kv_get kv c3 (key3 ''ethics_check'' u plan (e_uuid (ethics_env_store ee))) \<noteq> None"
    by (rule keeps) (simp only: c2 save_ethics_check_def p2 save_with_latest_stores[OF assms(1)] not_False_eq_True)
  moreover have "kv_get kv c3 (key3 ''execution'' u plan (xr_report x)) \<noteq> None"
    using execution_report_stored[OF assms(1,4)] assms(8,12) by auto
  ultimately have ev: "ev_human (gather_evidence kv g' u plan rid c3) \<noteq> None \<and> ev_ethics (gather_evidence kv g' u plan rid c3) \<noteq> None \<and>
      ev_execution (gather_evidence kv g' u plan rid c3) \<noteq> None" for g' rid
    unfolding gather_evidence_def audit_evidence.select_convs verdicts_eqs
    by (intro conjI latest_exists verdict_found[OF assms(1)] report_found[OF assms(1)])
  obtain draft rid uri ev' where score: "score = evidence_score draft ev'" and ev': "ev' = gather_evidence kv (au_reg au) u plan (as_str (jget m3 ''pipeline_run_id'')) c3"
    and stored: "kv_get kv c4 key = Some (with_meta (store_env.truncate (au_reg au)) ''audit_log'' (audit_entry au rid uri (audit_payload au uri draft ev')))"
    by (rule audit_stores[OF assms(1,5), unfolded assms(9)])
  from ev have "ev_human ev' \<noteq> None" "ev_ethics ev' \<noteq> None" "ev_execution ev' \<noteq> None" unfolding ev' by simp_all
  then have "65 \<le> score \<and> score \<le> 100" unfolding score evidence_score_def using score_bounds by simp
  with stored show ?thesis unfolding score by (simp add: audit_entry_def audit_payload_def with_meta_def Let_def)
qed

subsection \<open>A plan that the human rejects\<close>

text \<open>What holds of the result and the store after a call that returns.\<close>

definition after_call :: "('e + 'a) \<times> 'c option \<Rightarrow> ('a \<Rightarrow> 'c \<Rightarrow> bool) \<Rightarrow> bool" where
  "after_call r P = (case r of (Inr x, Some c) \<Rightarrow> P x c | _ \<Rightarrow> False)"

lemma after_callE:
  assumes "after_call r P"
  obtains x c where "r = (Inr x, Some c)" and "P x c"
  using assms by (cases "fst r"; cases "snd r"; cases r) (auto simp: after_call_def)

definition strict_exec :: "(string \<times> doc) list exec_env" where
  "strict_exec = exec_demo\<lparr>xe_reg := phero_env\<lparr>g_getenv := (\<lambda>v. if v = ''EXECUTION_REQUIRE_HUMAN'' then Some ''1'' else None)\<rparr>\<rparr>"

definition rejection :: doc where
  "rejection = exec_message @ [(''data'', JDict [(''approved'', JBool False)])]"

lemma demo_users: "sfield rejection ''username'' = ''ann''" "ea_username gate_call = ''ann''" "sfield exec_message ''username'' = ''ann''"
  by code_simp+

theorem human_gates_execution_witness:
  "\<exists>r c1 x c2. run_human_validator mem_kv phero_env rejection (Some demo_plans) = (Inr r, Some c1) \<and> \<not> hr_approved r \<and>
     run_executor mem_kv strict_exec exec_message (Some c1) = (Inr (x, []), Some c2) \<and> xr_blocked x \<noteq> None"
proof -
  have "after_call (run_human_validator mem_kv phero_env rejection (Some demo_plans)) (\<lambda>r c1. \<not> hr_approved r \<and> hr_plan r = ''plan'' \<and>
      after_call (run_executor mem_kv strict_exec exec_message (Some c1)) (\<lambda>x c2. xr_plan (fst x) = ''plan''))" by code_simp
  then obtain r c1 x msgs c2 where h: "run_human_validator mem_kv phero_env rejection (Some demo_plans) = (Inr r, Some c1)"
    and r: "\<not> hr_approved r" "hr_plan r = ''plan''" and x: "run_executor mem_kv strict_exec exec_message (Some c1) = (Inr (x, msgs), Some c2)"
    and plan: "xr_plan x = ''plan''" by (auto elim!: after_callE)
  have "fst (list_human_approvals mem_kv ''ann'' (Some ''plan'') no_listing demo_plans) = []" by code_simp
  then have "\<forall>i \<in> set (fst (list_human_approvals mem_kv (sfield rejection ''username'') (Some (hr_plan r)) no_listing demo_plans)).
      py_str (g_repr (xe_reg strict_exec)) (jor (jget i ''decided_at'') (JStr [])) < g_dump phero_env (e_now phero_env)"
    by (simp add: demo_users r)
  moreover have "g_getenv (xe_reg strict_exec) ''EXECUTION_REQUIRE_HUMAN'' = Some ''1''" by (simp add: strict_exec_def)
  ultimately have "xr_blocked x \<noteq> None \<and> msgs = []"
    using human_gates_execution[OF mem.kv_collection_axioms h _ _ x] by (simp add: demo_users r plan)
  with h r x show ?thesis by blast
qed

definition audit_demo :: audit_env where
  "audit_demo = \<lparr>au_reg = phero_env, au_resource = ''r/'', au_turtle = (\<lambda>_. None), au_trace = None\<rparr>"

definition quiet_gate :: ethics_env where
  "quiet_gate = gate_env\<lparr>ee_reg := phero_env\<lparr>g_getenv := (\<lambda>v. if v = ''LLM_STUB_MODE'' then Some ''1'' else if take 7 v = ''ETHICS_'' then Some [] else None)\<rparr>\<rparr>"

theorem audit_finds_evidence_witness:
  "\<exists>c3 plan key score c4. run_audit mem_kv audit_demo exec_message (Some c3) = (Inr (plan, key, score), Some c4) \<and> 65 \<le> score"
proof -
  have "after_call (run_human_validator mem_kv phero_env rejection (Some demo_plans)) (\<lambda>h c1. after_call (run_ethics mem_kv quiet_gate gate_call (Some c1)) (\<lambda>e c2.
      after_call (run_executor mem_kv exec_demo exec_message (Some c2)) (\<lambda>x c3. after_call (run_audit mem_kv audit_demo exec_message (Some c3)) (\<lambda>a c4.
      hr_plan h = ''plan'' \<and> et_plan (fst e) = ''plan'' \<and> xr_plan (fst x) = ''plan'' \<and> fst a = ''plan''))))" by code_simp
  then obtain h c1 res cmd c2 x msgs c3 plan key score c4 where r: "run_human_validator mem_kv phero_env rejection (Some demo_plans) = (Inr h, Some c1)"
      "run_ethics mem_kv quiet_gate gate_call (Some c1) = (Inr (res, cmd), Some c2)" "run_executor mem_kv exec_demo exec_message (Some c2) = (Inr (x, msgs), Some c3)"
    and a: "run_audit mem_kv audit_demo exec_message (Some c3) = (Inr (plan, key, score), Some c4)"
    and p: "hr_plan h = plan" "et_plan res = plan" "xr_plan x = plan" by (auto elim!: after_callE)
  from audit_finds_evidence[OF mem.kv_collection_axioms r a demo_users demo_users(3) p] a show ?thesis by blast
qed

end
