(* ===== verification/Runtime_Policy.thy ===== *)
theory Runtime_Policy
  imports Agent_Registry
begin

section \<open>The runtime policy\<close>

text \<open>
  \<^verbatim>\<open>services/runtime_policy.py\<close> with \<^verbatim>\<open>pydantic_models/runtime_policy_models.py\<close>: nine rules read the health signals and change a
  policy one after the other. The thresholds are read from the environment when the module is loaded. The decision is
  stored when the engine has a store; an exception of the store is caught. The logger is left out.
\<close>

record health_signals =
  hs_queue_lag :: real
  hs_consumers :: int
  hs_startup :: real
  hs_agent_sat :: real
  hs_verifier_sat :: real
  hs_token_burn :: real
  hs_cost_burn :: real
  hs_timeout_rate :: real
  hs_incident_rate :: real
  hs_handoff_rate :: real
  hs_retry_rate :: real
  hs_backlog :: int
  hs_wait :: real
  hs_captured :: string

datatype coalition_policy = CoalitionsEnabled | CoalitionsDiscouraged | CoalitionsDisabled
datatype verification_policy = VerifyNormal | VerifyStricter | VerifyMinimal
datatype fallback_policy = FallbackNormal | FallbackAggressive
datatype topology_bias = Baseline | LowLatency | HighSafety | LowCost
datatype gate_bias = GateNormal | GateEarlier | GateLater

record policy_state =
  ps_coalition :: coalition_policy
  ps_verification :: verification_policy
  ps_fallback :: fallback_policy
  ps_topology :: topology_bias
  ps_gate :: gate_bias
  ps_margin :: "real option"
  ps_retry :: real
  ps_suppression :: "string list"
  ps_escalation :: "string list"
  ps_rules :: "string list"

definition default_policy :: policy_state where
  "default_policy = \<lparr>ps_coalition = CoalitionsEnabled, ps_verification = VerifyNormal, ps_fallback = FallbackNormal, ps_topology = Baseline,
     ps_gate = GateNormal, ps_margin = None, ps_retry = 1, ps_suppression = [], ps_escalation = [], ps_rules = []\<rparr>"

record policy_thresholds =
  pt_lag_high :: real
  pt_lag_critical :: real
  pt_verifier :: real
  pt_timeout :: real
  pt_incident :: real
  pt_handoff :: real
  pt_cost :: real
  pt_backlog :: real
  pt_agent :: real
  pt_retry :: real

definition load_thresholds :: "registry_env \<Rightarrow> policy_thresholds" where
  "load_thresholds g =
     \<lparr>pt_lag_high = env_float g ''POLICY_QUEUE_LAG_HIGH_MS'' 500, pt_lag_critical = env_float g ''POLICY_QUEUE_LAG_CRITICAL_MS'' 2000,
      pt_verifier = env_float g ''POLICY_VERIFIER_SAT_HIGH'' (7 / 10), pt_timeout = env_float g ''POLICY_TIMEOUT_RATE_HIGH'' (15 / 100),
      pt_incident = env_float g ''POLICY_INCIDENT_RATE_HIGH'' (5 / 100), pt_handoff = env_float g ''POLICY_HANDOFF_FAIL_HIGH'' (20 / 100),
      pt_cost = env_float g ''POLICY_COST_BURN_HIGH_PER_MIN'' 5, pt_backlog = env_float g ''POLICY_HUMAN_BACKLOG_HIGH'' 10,
      pt_agent = env_float g ''POLICY_AGENT_SAT_HIGH'' (8 / 10), pt_retry = env_float g ''POLICY_RETRY_RATE_HIGH'' (25 / 100)\<rparr>"

definition runtime_policy_enabled :: "registry_env \<Rightarrow> bool" where
  "runtime_policy_enabled g = (g_getenv g ''RUNTIME_POLICY_ENABLE'' = Some ''1'')"

subsection \<open>The rules\<close>

definition fired :: "string \<Rightarrow> policy_state \<Rightarrow> policy_state" where
  "fired name s = s\<lparr>ps_rules := ps_rules s @ [name]\<rparr>"

definition rule_queue_lag :: "policy_thresholds \<Rightarrow> health_signals \<Rightarrow> policy_state \<Rightarrow> policy_state" where
  "rule_queue_lag t h s =
     (if pt_lag_critical t \<le> hs_queue_lag h then fired ''queue_lag_critical_disables_coalitions'' (s\<lparr>ps_coalition := CoalitionsDisabled\<rparr>)
      else if pt_lag_high t \<le> hs_queue_lag h then fired ''queue_lag_high_discourages_coalitions''
        (s\<lparr>ps_coalition := CoalitionsDiscouraged, ps_margin := Some (15 / 100)\<rparr>)
      else s)"

definition rule_verifier_saturation :: "policy_thresholds \<Rightarrow> health_signals \<Rightarrow> policy_state \<Rightarrow> policy_state" where
  "rule_verifier_saturation t h s =
     (if pt_verifier t \<le> hs_verifier_sat h then fired ''verifier_saturated_prefer_solo''
        (s\<lparr>ps_coalition := (if ps_coalition s = CoalitionsEnabled then CoalitionsDiscouraged else ps_coalition s), ps_fallback := FallbackAggressive\<rparr>)
      else s)"

definition rule_timeout_spike :: "policy_thresholds \<Rightarrow> health_signals \<Rightarrow> policy_state \<Rightarrow> policy_state" where
  "rule_timeout_spike t h s =
     (if pt_timeout t \<le> hs_timeout_rate h then fired ''timeout_spike_tighten_retries''
        (s\<lparr>ps_retry := max (1 / 2) (ps_retry s * (7 / 10)), ps_fallback := FallbackAggressive\<rparr>)
      else s)"

definition rule_policy_incident_spike :: "policy_thresholds \<Rightarrow> health_signals \<Rightarrow> policy_state \<Rightarrow> policy_state" where
  "rule_policy_incident_spike t h s =
     (if pt_incident t \<le> hs_incident_rate h then fired ''policy_incidents_force_stricter_verification'' (s\<lparr>ps_verification := VerifyStricter\<rparr>) else s)"

definition rule_handoff_friction_spike :: "policy_thresholds \<Rightarrow> health_signals \<Rightarrow> policy_state \<Rightarrow> policy_state" where
  "rule_handoff_friction_spike t h s =
     (if pt_handoff t \<le> hs_handoff_rate h then fired ''handoff_friction_discourages_coalitions''
        (s\<lparr>ps_coalition := CoalitionsDiscouraged, ps_margin := Some (12 / 100)\<rparr>)
      else s)"

definition rule_cost_burn_high :: "policy_thresholds \<Rightarrow> health_signals \<Rightarrow> policy_state \<Rightarrow> policy_state" where
  "rule_cost_burn_high t h s =
     (if pt_cost t \<le> hs_cost_burn h then fired ''cost_burn_high_prefer_cheap'' (s\<lparr>ps_topology := LowCost, ps_verification := VerifyMinimal\<rparr>) else s)"

definition rule_human_backlog :: "policy_thresholds \<Rightarrow> health_signals \<Rightarrow> policy_state \<Rightarrow> policy_state" where
  "rule_human_backlog t h s = (if pt_backlog t \<le> of_int (hs_backlog h) then fired ''human_backlog_defer_gates'' (s\<lparr>ps_gate := GateLater\<rparr>) else s)"

definition rule_agent_pool_pressure :: "policy_thresholds \<Rightarrow> health_signals \<Rightarrow> policy_state \<Rightarrow> policy_state" where
  "rule_agent_pool_pressure t h s =
     (if pt_agent t \<le> hs_agent_sat h then fired ''agent_pool_pressure_disable_coalitions''
        (s\<lparr>ps_coalition := CoalitionsDisabled, ps_retry := min (ps_retry s) (1 / 2)\<rparr>)
      else s)"

definition rule_retry_rate_high :: "policy_thresholds \<Rightarrow> health_signals \<Rightarrow> policy_state \<Rightarrow> policy_state" where
  "rule_retry_rate_high t h s =
     (if pt_retry t \<le> hs_retry_rate h then fired ''retry_rate_high_prefer_safety'' (s\<lparr>ps_topology := HighSafety\<rparr>) else s)"

definition policy_rules :: "(policy_thresholds \<Rightarrow> health_signals \<Rightarrow> policy_state \<Rightarrow> policy_state) list" where
  "policy_rules = [rule_queue_lag, rule_verifier_saturation, rule_timeout_spike, rule_policy_incident_spike, rule_handoff_friction_spike,
     rule_cost_burn_high, rule_human_backlog, rule_agent_pool_pressure, rule_retry_rate_high]"

subsection \<open>The engine\<close>

definition signals_doc :: "health_signals \<Rightarrow> doc" where
  "signals_doc h =
     [(''queue_lag_ms'', JReal (hs_queue_lag h)), (''queue_consumer_count'', JInt (hs_consumers h)), (''container_startup_latency_ms'', JReal (hs_startup h)),
      (''agent_pool_saturation'', JReal (hs_agent_sat h)), (''verifier_pool_saturation'', JReal (hs_verifier_sat h)),
      (''token_burn_rate_per_min'', JReal (hs_token_burn h)), (''cost_burn_rate_per_min'', JReal (hs_cost_burn h)),
      (''recent_timeout_rate'', JReal (hs_timeout_rate h)), (''recent_policy_incident_rate'', JReal (hs_incident_rate h)),
      (''recent_coalition_handoff_failure_rate'', JReal (hs_handoff_rate h)), (''recent_retry_rate'', JReal (hs_retry_rate h)),
      (''human_approval_backlog'', JInt (hs_backlog h)), (''human_approval_avg_wait_ms'', JReal (hs_wait h)), (''captured_at'', JStr (hs_captured h))]"

definition policy_doc :: "string \<Rightarrow> policy_state \<Rightarrow> doc" where
  "policy_doc now s =
     [(''coalition_mode'', JStr (case ps_coalition s of CoalitionsEnabled \<Rightarrow> ''enabled'' | CoalitionsDiscouraged \<Rightarrow> ''discouraged'' | CoalitionsDisabled \<Rightarrow> ''disabled'')),
      (''verification_mode'', JStr (case ps_verification s of VerifyNormal \<Rightarrow> ''normal'' | VerifyStricter \<Rightarrow> ''stricter'' | VerifyMinimal \<Rightarrow> ''minimal'')),
      (''fallback_policy'', JStr (case ps_fallback s of FallbackNormal \<Rightarrow> ''normal'' | FallbackAggressive \<Rightarrow> ''aggressive'')),
      (''topology_variant_bias'', JStr (case ps_topology s of Baseline \<Rightarrow> ''baseline'' | LowLatency \<Rightarrow> ''low_latency'' | HighSafety \<Rightarrow> ''high_safety'' | LowCost \<Rightarrow> ''low_cost'')),
      (''human_gate_bias'', JStr (case ps_gate s of GateNormal \<Rightarrow> ''normal'' | GateEarlier \<Rightarrow> ''earlier'' | GateLater \<Rightarrow> ''later'')),
      (''coalition_margin_override'', jopt JReal (ps_margin s)), (''retry_budget_multiplier'', JReal (ps_retry s)),
      (''mutation_suppression'', str_json (ps_suppression s)), (''mutation_escalation'', str_json (ps_escalation s)),
      (''triggered_rules'', str_json (ps_rules s)), (''evaluated_at'', JStr now)]"

definition decision_log :: "string \<Rightarrow> string \<Rightarrow> string \<Rightarrow> health_signals \<Rightarrow> policy_state \<Rightarrow> doc" where
  "decision_log log_id now u h s =
     [(''log_id'', JStr log_id), (''username'', JStr u), (''signals_snapshot'', JDict (signals_doc h)), (''policy_state'', JDict (policy_doc now s)),
      (''triggered_rules'', str_json (ps_rules s)), (''created_at'', JStr now)]"

definition apply_rules :: "policy_thresholds \<Rightarrow> health_signals \<Rightarrow> policy_state" where
  "apply_rules t h = fold (\<lambda>rule. rule t h) policy_rules default_policy"

definition evaluate_policy :: "'c kv_ops \<Rightarrow> registry_env \<Rightarrow> policy_thresholds \<Rightarrow> string \<Rightarrow> health_signals \<Rightarrow> 'c option \<Rightarrow> policy_state \<times> 'c option" where
  "evaluate_policy kv g t u h store =
     (if \<not> runtime_policy_enabled g then (default_policy, store)
      else let s = apply_rules t h
           in (s, map_option (\<lambda>c. snd (upsert_raw kv (store_env.truncate g) (''policy_log::'' @ u @ ''::'' @ e_uuid g)
                (decision_log (e_uuid g) (g_dump g (e_now g)) u h s) c)) store))"

subsection \<open>What the rules decide\<close>

text \<open>What each rule does to each field of the policy.\<close>

definition when_fired :: "bool \<Rightarrow> 'a \<Rightarrow> 'a list" where
  "when_fired c x = (if c then [x] else [])"

lemma filter_fired: "map snd (filter fst ((c, x) # xs)) = when_fired c x @ map snd (filter fst xs)"
  by (simp add: when_fired_def)

lemma rule_queue_lag_fields:
  "ps_coalition (rule_queue_lag t h s) = (if pt_lag_critical t \<le> hs_queue_lag h then CoalitionsDisabled else if pt_lag_high t \<le> hs_queue_lag h then CoalitionsDiscouraged else ps_coalition s)"
  "ps_margin (rule_queue_lag t h s) = (if \<not> pt_lag_critical t \<le> hs_queue_lag h \<and> pt_lag_high t \<le> hs_queue_lag h then Some (15 / 100) else ps_margin s)"
  "ps_rules (rule_queue_lag t h s) = ps_rules s @ when_fired (pt_lag_critical t \<le> hs_queue_lag h) ''queue_lag_critical_disables_coalitions'' @ when_fired (\<not> pt_lag_critical t \<le> hs_queue_lag h \<and> pt_lag_high t \<le> hs_queue_lag h) ''queue_lag_high_discourages_coalitions''"
  "ps_verification (rule_queue_lag t h s) = ps_verification s" "ps_fallback (rule_queue_lag t h s) = ps_fallback s" "ps_topology (rule_queue_lag t h s) = ps_topology s" "ps_gate (rule_queue_lag t h s) = ps_gate s" "ps_retry (rule_queue_lag t h s) = ps_retry s" "ps_suppression (rule_queue_lag t h s) = ps_suppression s" "ps_escalation (rule_queue_lag t h s) = ps_escalation s"
  by (simp_all add: rule_queue_lag_def fired_def when_fired_def)

lemma rule_verifier_saturation_fields:
  "ps_coalition (rule_verifier_saturation t h s) = (if pt_verifier t \<le> hs_verifier_sat h then if ps_coalition s = CoalitionsEnabled then CoalitionsDiscouraged else ps_coalition s else ps_coalition s)"
  "ps_fallback (rule_verifier_saturation t h s) = (if pt_verifier t \<le> hs_verifier_sat h then FallbackAggressive else ps_fallback s)"
  "ps_rules (rule_verifier_saturation t h s) = ps_rules s @ when_fired (pt_verifier t \<le> hs_verifier_sat h) ''verifier_saturated_prefer_solo''"
  "ps_verification (rule_verifier_saturation t h s) = ps_verification s" "ps_topology (rule_verifier_saturation t h s) = ps_topology s" "ps_gate (rule_verifier_saturation t h s) = ps_gate s" "ps_margin (rule_verifier_saturation t h s) = ps_margin s" "ps_retry (rule_verifier_saturation t h s) = ps_retry s" "ps_suppression (rule_verifier_saturation t h s) = ps_suppression s" "ps_escalation (rule_verifier_saturation t h s) = ps_escalation s"
  by (simp_all add: rule_verifier_saturation_def fired_def when_fired_def)

lemma rule_timeout_spike_fields:
  "ps_retry (rule_timeout_spike t h s) = (if pt_timeout t \<le> hs_timeout_rate h then max (1 / 2) (ps_retry s * (7 / 10)) else ps_retry s)"
  "ps_fallback (rule_timeout_spike t h s) = (if pt_timeout t \<le> hs_timeout_rate h then FallbackAggressive else ps_fallback s)"
  "ps_rules (rule_timeout_spike t h s) = ps_rules s @ when_fired (pt_timeout t \<le> hs_timeout_rate h) ''timeout_spike_tighten_retries''"
  "ps_coalition (rule_timeout_spike t h s) = ps_coalition s" "ps_verification (rule_timeout_spike t h s) = ps_verification s" "ps_topology (rule_timeout_spike t h s) = ps_topology s" "ps_gate (rule_timeout_spike t h s) = ps_gate s" "ps_margin (rule_timeout_spike t h s) = ps_margin s" "ps_suppression (rule_timeout_spike t h s) = ps_suppression s" "ps_escalation (rule_timeout_spike t h s) = ps_escalation s"
  by (simp_all add: rule_timeout_spike_def fired_def when_fired_def)

lemma rule_policy_incident_spike_fields:
  "ps_verification (rule_policy_incident_spike t h s) = (if pt_incident t \<le> hs_incident_rate h then VerifyStricter else ps_verification s)"
  "ps_rules (rule_policy_incident_spike t h s) = ps_rules s @ when_fired (pt_incident t \<le> hs_incident_rate h) ''policy_incidents_force_stricter_verification''"
  "ps_coalition (rule_policy_incident_spike t h s) = ps_coalition s" "ps_fallback (rule_policy_incident_spike t h s) = ps_fallback s" "ps_topology (rule_policy_incident_spike t h s) = ps_topology s" "ps_gate (rule_policy_incident_spike t h s) = ps_gate s" "ps_margin (rule_policy_incident_spike t h s) = ps_margin s" "ps_retry (rule_policy_incident_spike t h s) = ps_retry s" "ps_suppression (rule_policy_incident_spike t h s) = ps_suppression s" "ps_escalation (rule_policy_incident_spike t h s) = ps_escalation s"
  by (simp_all add: rule_policy_incident_spike_def fired_def when_fired_def)

lemma rule_handoff_friction_spike_fields:
  "ps_coalition (rule_handoff_friction_spike t h s) = (if pt_handoff t \<le> hs_handoff_rate h then CoalitionsDiscouraged else ps_coalition s)"
  "ps_margin (rule_handoff_friction_spike t h s) = (if pt_handoff t \<le> hs_handoff_rate h then Some (12 / 100) else ps_margin s)"
  "ps_rules (rule_handoff_friction_spike t h s) = ps_rules s @ when_fired (pt_handoff t \<le> hs_handoff_rate h) ''handoff_friction_discourages_coalitions''"
  "ps_verification (rule_handoff_friction_spike t h s) = ps_verification s" "ps_fallback (rule_handoff_friction_spike t h s) = ps_fallback s" "ps_topology (rule_handoff_friction_spike t h s) = ps_topology s" "ps_gate (rule_handoff_friction_spike t h s) = ps_gate s" "ps_retry (rule_handoff_friction_spike t h s) = ps_retry s" "ps_suppression (rule_handoff_friction_spike t h s) = ps_suppression s" "ps_escalation (rule_handoff_friction_spike t h s) = ps_escalation s"
  by (simp_all add: rule_handoff_friction_spike_def fired_def when_fired_def)

lemma rule_cost_burn_high_fields:
  "ps_topology (rule_cost_burn_high t h s) = (if pt_cost t \<le> hs_cost_burn h then LowCost else ps_topology s)"
  "ps_verification (rule_cost_burn_high t h s) = (if pt_cost t \<le> hs_cost_burn h then VerifyMinimal else ps_verification s)"
  "ps_rules (rule_cost_burn_high t h s) = ps_rules s @ when_fired (pt_cost t \<le> hs_cost_burn h) ''cost_burn_high_prefer_cheap''"
  "ps_coalition (rule_cost_burn_high t h s) = ps_coalition s" "ps_fallback (rule_cost_burn_high t h s) = ps_fallback s" "ps_gate (rule_cost_burn_high t h s) = ps_gate s" "ps_margin (rule_cost_burn_high t h s) = ps_margin s" "ps_retry (rule_cost_burn_high t h s) = ps_retry s" "ps_suppression (rule_cost_burn_high t h s) = ps_suppression s" "ps_escalation (rule_cost_burn_high t h s) = ps_escalation s"
  by (simp_all add: rule_cost_burn_high_def fired_def when_fired_def)

lemma rule_human_backlog_fields:
  "ps_gate (rule_human_backlog t h s) = (if pt_backlog t \<le> of_int (hs_backlog h) then GateLater else ps_gate s)"
  "ps_rules (rule_human_backlog t h s) = ps_rules s @ when_fired (pt_backlog t \<le> of_int (hs_backlog h)) ''human_backlog_defer_gates''"
  "ps_coalition (rule_human_backlog t h s) = ps_coalition s" "ps_verification (rule_human_backlog t h s) = ps_verification s" "ps_fallback (rule_human_backlog t h s) = ps_fallback s" "ps_topology (rule_human_backlog t h s) = ps_topology s" "ps_margin (rule_human_backlog t h s) = ps_margin s" "ps_retry (rule_human_backlog t h s) = ps_retry s" "ps_suppression (rule_human_backlog t h s) = ps_suppression s" "ps_escalation (rule_human_backlog t h s) = ps_escalation s"
  by (simp_all add: rule_human_backlog_def fired_def when_fired_def)

lemma rule_agent_pool_pressure_fields:
  "ps_coalition (rule_agent_pool_pressure t h s) = (if pt_agent t \<le> hs_agent_sat h then CoalitionsDisabled else ps_coalition s)"
  "ps_retry (rule_agent_pool_pressure t h s) = (if pt_agent t \<le> hs_agent_sat h then min (ps_retry s) (1 / 2) else ps_retry s)"
  "ps_rules (rule_agent_pool_pressure t h s) = ps_rules s @ when_fired (pt_agent t \<le> hs_agent_sat h) ''agent_pool_pressure_disable_coalitions''"
  "ps_verification (rule_agent_pool_pressure t h s) = ps_verification s" "ps_fallback (rule_agent_pool_pressure t h s) = ps_fallback s" "ps_topology (rule_agent_pool_pressure t h s) = ps_topology s" "ps_gate (rule_agent_pool_pressure t h s) = ps_gate s" "ps_margin (rule_agent_pool_pressure t h s) = ps_margin s" "ps_suppression (rule_agent_pool_pressure t h s) = ps_suppression s" "ps_escalation (rule_agent_pool_pressure t h s) = ps_escalation s"
  by (simp_all add: rule_agent_pool_pressure_def fired_def when_fired_def)

lemma rule_retry_rate_high_fields:
  "ps_topology (rule_retry_rate_high t h s) = (if pt_retry t \<le> hs_retry_rate h then HighSafety else ps_topology s)"
  "ps_rules (rule_retry_rate_high t h s) = ps_rules s @ when_fired (pt_retry t \<le> hs_retry_rate h) ''retry_rate_high_prefer_safety''"
  "ps_coalition (rule_retry_rate_high t h s) = ps_coalition s" "ps_verification (rule_retry_rate_high t h s) = ps_verification s" "ps_fallback (rule_retry_rate_high t h s) = ps_fallback s" "ps_gate (rule_retry_rate_high t h s) = ps_gate s" "ps_margin (rule_retry_rate_high t h s) = ps_margin s" "ps_retry (rule_retry_rate_high t h s) = ps_retry s" "ps_suppression (rule_retry_rate_high t h s) = ps_suppression s" "ps_escalation (rule_retry_rate_high t h s) = ps_escalation s"
  by (simp_all add: rule_retry_rate_high_def fired_def when_fired_def)

lemmas rule_fields =
  rule_queue_lag_fields rule_verifier_saturation_fields rule_timeout_spike_fields rule_policy_incident_spike_fields rule_handoff_friction_spike_fields
  rule_cost_burn_high_fields rule_human_backlog_fields rule_agent_pool_pressure_fields rule_retry_rate_high_fields

text \<open>C24. The policy the nine rules leave depends on the signals as follows: agent saturation decides first, then handoff failures, then
  the queue lag, then verifier saturation on coalitions; the cost burn on verification; the retry rate on the topology;
  the multiplier of the retry budget is 1, 7/10 or 1/2; and every rule that fired is recorded, in order. In particular failing handoffs turn coalitions that the critical
  queue lag had disabled back to discouraged, and a high cost turns the stricter verification of an incident spike to minimal.\<close>

theorem policy_closed_form:
  "apply_rules t h =
     (let lag = hs_queue_lag h; verifier = (pt_verifier t \<le> hs_verifier_sat h); timeout = (pt_timeout t \<le> hs_timeout_rate h);
          handoff = (pt_handoff t \<le> hs_handoff_rate h); agents = (pt_agent t \<le> hs_agent_sat h); cost = (pt_cost t \<le> hs_cost_burn h);
          incident = (pt_incident t \<le> hs_incident_rate h); backlog = (pt_backlog t \<le> of_int (hs_backlog h)); retry = (pt_retry t \<le> hs_retry_rate h);
          critical = (pt_lag_critical t \<le> lag); slow = (\<not> critical \<and> pt_lag_high t \<le> lag)
      in \<lparr>ps_coalition = (if agents then CoalitionsDisabled else if handoff then CoalitionsDiscouraged else if critical then CoalitionsDisabled
            else if slow \<or> verifier then CoalitionsDiscouraged else CoalitionsEnabled),
          ps_verification = (if cost then VerifyMinimal else if incident then VerifyStricter else VerifyNormal),
          ps_fallback = (if verifier \<or> timeout then FallbackAggressive else FallbackNormal),
          ps_topology = (if retry then HighSafety else if cost then LowCost else Baseline),
          ps_gate = (if backlog then GateLater else GateNormal),
          ps_margin = (if handoff then Some (12 / 100) else if slow then Some (15 / 100) else None),
          ps_retry = (if agents then 1 / 2 else if timeout then 7 / 10 else 1),
          ps_suppression = [], ps_escalation = [],
          ps_rules = map snd (filter fst [(critical, ''queue_lag_critical_disables_coalitions''), (slow, ''queue_lag_high_discourages_coalitions''),
            (verifier, ''verifier_saturated_prefer_solo''), (timeout, ''timeout_spike_tighten_retries''),
            (incident, ''policy_incidents_force_stricter_verification''), (handoff, ''handoff_friction_discourages_coalitions''),
            (cost, ''cost_burn_high_prefer_cheap''), (backlog, ''human_backlog_defer_gates''),
            (agents, ''agent_pool_pressure_disable_coalitions''), (retry, ''retry_rate_high_prefer_safety'')])\<rparr>)"
  unfolding apply_rules_def policy_rules_def fold_simps Let_def
  by (rule policy_state.equality) (simp_all only: rule_fields policy_state.select_convs default_policy_def filter_fired, auto simp: when_fired_def)

end
