(* ===== verification/Workflow_Levels.thy ===== *)
theory Workflow_Levels
  imports Workflow_Config
begin

section \<open>The pipeline parser: groups of parallel tasks\<close>

text \<open>
  \<^verbatim>\<open>ConfigParser.find_parallel_tasks\<close>: a third run of Kahn's algorithm that gives every task
  a level and reports the levels with more than one task. The loop is related to the shared
  \<open>kahn_loop\<close> (it pops the same tasks in the same order), and an invariant on top of the one of
  Kahn's algorithm shows that the levels are the longest-path depths: the queue is popped in the
  order of the levels, so the predecessor that releases a task is one of greatest level.
\<close>

type_synonym 'a levels = "('a \<times> nat) list"

subsection \<open>The routine\<close>

fun bump_degrees :: "'a list \<Rightarrow> 'a degrees \<Rightarrow> 'a degrees" where
  "bump_degrees [] d = d"
| "bump_degrees (y # ys) d = bump_degrees ys (dict_set y (dict_get d y 0 + 1) d)"

definition graph_degrees :: "'a graph \<Rightarrow> 'a degrees" where
  "graph_degrees g = foldl (\<lambda>d (k, deps). bump_degrees deps d) [] g"

fun relax_levels :: "nat \<Rightarrow> 'a list \<Rightarrow> 'a degrees \<Rightarrow> 'a levels \<Rightarrow> 'a list \<Rightarrow> 'a degrees \<times> 'a levels \<times> 'a list" where
  "relax_levels l [] d lv q = (d, lv, q)"
| "relax_levels l (y # ys) d lv q =
     (let v = dict_get d y 0 - 1
      in if v = 0 then relax_levels l ys (dict_set y v d) (dict_set y (l + 1) lv) (q @ [y])
         else relax_levels l ys (dict_set y v d) lv q)"

lemma relax_levels_relax:
  "\<exists>ns. snd (relax ys d q) = q @ ns \<and> set ns \<subseteq> set ys \<and>
     relax_levels l ys d lv q = (fst (relax ys d q), foldl (\<lambda>lv y. dict_set y (l + 1) lv) lv ns, q @ ns)"
proof (induction l ys d lv q rule: relax_levels.induct)
  case (2 l y ys d lv q)
  then show ?case
    by (cases "dict_get d y 0 - 1 = 0") (force simp: Let_def)+
qed simp

lemma relax_levels_pending:
  "relax_levels l ys d lv q = (d', lv', q') \<Longrightarrow> length q' + pending d' \<le> length q + pending d"
  using relax_levels_relax[of ys d q l lv] relax_pending[of ys d q] by auto

function level_loop :: "'a graph \<Rightarrow> 'a degrees \<Rightarrow> 'a levels \<Rightarrow> 'a list \<Rightarrow> 'a levels" where
  "level_loop g d lv [] = lv"
| "level_loop g d lv (x # q) =
     (let (d', lv', q') = relax_levels (dict_get lv x 0) (dict_get g x []) d lv q
      in level_loop g d' lv' q')"
  by pat_completeness auto
termination
  by (relation "measure (\<lambda>(g, d, lv, q). length q + pending d)")
    (auto simp: less_Suc_eq_le split: prod.splits intro: relax_levels_pending)

definition group_levels :: "'a levels \<Rightarrow> (nat \<times> 'a list) list" where
  "group_levels lv = foldl (\<lambda>levels (t, l). dict_append levels l t) [] lv"

definition find_parallel_tasks :: "'a list \<Rightarrow> 'a graph \<Rightarrow> 'a list list" where
  "find_parallel_tasks execution_order g =
     (let in_degree = graph_degrees g;
          initial_tasks = filter (\<lambda>t. dict_get in_degree t 0 = 0) execution_order;
          task_levels = level_loop g in_degree
            (foldl (\<lambda>lv t. dict_set t 0 lv) [] initial_tasks) initial_tasks
      in filter (\<lambda>ts. 1 < length ts) (map snd (group_levels task_levels)))"

subsection \<open>Degrees and groups\<close>

lemma bump_degrees_get: "dict_get (bump_degrees ys d) v 0 = dict_get d v 0 + int (count_list ys v)"
  by (induction ys d rule: bump_degrees.induct) auto

lemma graph_degrees_get: "dict_get (graph_degrees g) v 0 = (\<Sum>(k, l)\<leftarrow>g. int (count_list l v))"
proof -
  have "dict_get (foldl (\<lambda>d (k, deps). bump_degrees deps d) d g) v 0 =
      dict_get d v 0 + (\<Sum>(k, l)\<leftarrow>g. int (count_list l v))" for d
    by (induction g arbitrary: d) (auto simp: bump_degrees_get)
  then show ?thesis by (simp add: graph_degrees_def)
qed

lemma graph_degrees_in_edges:
  assumes "distinct (dict_keys g)" and "fst ` set g \<subseteq> N" and "finite N"
  shows "dict_get (graph_degrees g) v 0 = int (in_edges g N v)"
proof -
  have "(\<Sum>(k, l)\<leftarrow>g. int (count_list l v)) = (\<Sum>(k, l)\<in>set g. int (count_list l v))"
    using assms(1) by (subst sum_list_distinct_conv_sum_set) (auto simp: distinct_map)
  also have "\<dots> = (\<Sum>x\<in>fst ` set g. int (count_list (succs g x) v))"
    using assms(1) by (subst sum.reindex) (auto simp: distinct_map dict_get_def intro!: sum.cong)
  also have "\<dots> = (\<Sum>x\<in>N. int (count_list (succs g x) v))"
    using assms(2,3) by (intro sum.mono_neutral_left) (auto simp: dict_get_notin)
  finally show ?thesis by (simp add: graph_degrees_get in_edges_def)
qed

lemma foldl_group:
  "dict_get (foldl (\<lambda>levels (t, l). dict_append levels l t) gs lv) l [] =
     dict_get gs l [] @ map fst (filter (\<lambda>p. snd p = l) lv)"
  "distinct (dict_keys gs) \<Longrightarrow> distinct (dict_keys (foldl (\<lambda>levels (t, l). dict_append levels l t) gs lv))"
  by (induction lv arbitrary: gs) auto

lemma group_levels_get: "dict_get (group_levels lv) l [] = map fst (filter (\<lambda>p. snd p = l) lv)"
  by (simp add: group_levels_def foldl_group)

lemma distinct_group_levels: "distinct (dict_keys (group_levels lv))"
  by (simp add: group_levels_def foldl_group)

lemma group_levels_entry:
  assumes "(l, ts) \<in> set (group_levels lv)"
  shows "ts = map fst (filter (\<lambda>p. snd p = l) lv)"
  using assms distinct_group_levels[of lv] group_levels_get[of lv l] by (simp add: dict_get_eqI)

lemma group_levels_exists:
  assumes "map fst (filter (\<lambda>p. snd p = l) lv) \<noteq> []"
  shows "(l, map fst (filter (\<lambda>p. snd p = l) lv)) \<in> set (group_levels lv)"
proof (cases "map_of (group_levels lv) l")
  case None
  then show ?thesis using assms group_levels_get[of lv l] by (simp add: dict_get_def)
next
  case (Some ts)
  then show ?thesis using map_of_SomeD[OF Some] group_levels_entry by metis
qed

abbreviation level_set :: "'a levels \<Rightarrow> nat \<Rightarrow> 'a list" where
  "level_set lv l \<equiv> map fst (filter (\<lambda>p. snd p = l) lv)"

abbreviation level_groups :: "'a levels \<Rightarrow> 'a list list" where
  "level_groups lv \<equiv> filter (\<lambda>ts. 1 < length ts) (map snd (group_levels lv))"

lemma level_groups_iff: "grp \<in> set (level_groups lv) \<longleftrightarrow> 1 < length grp \<and> (\<exists>l. grp = level_set lv l)"
proof
  assume "grp \<in> set (level_groups lv)"
  then obtain l where "(l, grp) \<in> set (group_levels lv)" "1 < length grp" by auto
  then show "1 < length grp \<and> (\<exists>l. grp = level_set lv l)" using group_levels_entry by blast
next
  assume "1 < length grp \<and> (\<exists>l. grp = level_set lv l)"
  then obtain l where l: "1 < length grp" "grp = level_set lv l" by blast
  then have "level_set lv l \<noteq> []" by fastforce
  from group_levels_exists[OF this] l show "grp \<in> set (level_groups lv)" by force
qed

lemma level_set_iff:
  "distinct (dict_keys lv) \<Longrightarrow> x \<in> set (level_set lv l) \<longleftrightarrow> x \<in> set (dict_keys lv) \<and> dict_get lv x 0 = l"
  by (force simp: dict_get_distinct)

lemma same_group_iff:
  assumes "distinct (dict_keys lv)" and xy: "x \<in> set (dict_keys lv)" "y \<in> set (dict_keys lv)" "x \<noteq> y"
  shows "(\<exists>grp \<in> set (level_groups lv). x \<in> set grp \<and> y \<in> set grp) \<longleftrightarrow> dict_get lv x 0 = dict_get lv y 0"
proof
  note mem = level_set_iff[OF assms(1)]
  {
    assume "\<exists>grp \<in> set (level_groups lv). x \<in> set grp \<and> y \<in> set grp"
    then obtain l where "x \<in> set (level_set lv l)" "y \<in> set (level_set lv l)"
      using level_groups_iff by metis
    then show "dict_get lv x 0 = dict_get lv y 0" using mem by simp
  }
  assume eq: "dict_get lv x 0 = dict_get lv y 0"
  let ?grp = "level_set lv (dict_get lv x 0)"
  have in_grp: "x \<in> set ?grp" "y \<in> set ?grp" using mem xy eq by simp_all
  then have "card {x, y} \<le> card (set ?grp)" by (intro card_mono) auto
  then have "1 < length ?grp" using xy(3) card_length[of ?grp] by simp
  then have "?grp \<in> set (level_groups lv)" using level_groups_iff by blast
  with in_grp show "\<exists>grp \<in> set (level_groups lv). x \<in> set grp \<and> y \<in> set grp" by blast
qed

subsection \<open>The level invariant\<close>

definition level_ok :: "'a graph \<Rightarrow> 'a set \<Rightarrow> 'a levels \<Rightarrow> 'a \<times> nat \<Rightarrow> bool" where
  "level_ok g N A p \<longleftrightarrow>
     (\<forall>x\<in>N. fst p \<in> set (succs g x) \<longrightarrow> (\<exists>j < snd p. (x, j) \<in> set A)) \<and>
     (snd p = 0 \<or> (\<exists>(x, j) \<in> set A. fst p \<in> set (succs g x) \<and> snd p = Suc j))"

definition level_inv :: "'a graph \<Rightarrow> 'a set \<Rightarrow> 'a degrees \<Rightarrow> 'a levels \<Rightarrow> 'a levels \<Rightarrow> bool" where
  "level_inv g N d A Q \<longleftrightarrow>
     kahn_inv g N d (map fst Q) (map fst A) \<and> sorted (map snd (A @ Q)) \<and>
     (\<forall>p\<in>set Q. snd p \<le> Suc (snd (hd Q))) \<and> (\<forall>p\<in>set (A @ Q). level_ok g N A p)"

lemma sorted_map_const: "sorted (map (\<lambda>x. c :: nat) xs)"
  by (simp add: map_replicate_const)

lemma level_ok_mono: "level_ok g N A p \<Longrightarrow> set A \<subseteq> set B \<Longrightarrow> level_ok g N B p"
  unfolding level_ok_def by blast

lemma kahn_inv_released:
  assumes "kahn_inv g N d q acc" and "finite N" and "y \<in> set (acc @ q)" and "x \<in> N" and "y \<in> set (succs g x)"
  shows "x \<in> set acc"
proof -
  have "y \<in> N" using assms(1,3) by (auto simp: kahn_inv_def)
  then have "in_edges g (N - set acc) y = 0"
    using assms(1,3) by (auto simp: kahn_inv_def)
  then show ?thesis using assms(2,4,5) by (auto simp: in_edges_0_iff)
qed

lemma level_step:
  assumes inv: "level_inv g N d A ((x, l) # Q)" and fin: "finite N" and cl: "closed_graph g N"
    and k: "kahn_inv g N d' (map fst Q @ ns) (map fst A @ [x])" and ns: "set ns \<subseteq> set (succs g x)"
  shows "level_inv g N d' (A @ [(x, l)]) (Q @ map (\<lambda>y. (y, l + 1)) ns)"
proof -
  let ?A = "A @ [(x, l)]" and ?new = "map (\<lambda>y. (y, l + 1)) ns"
  have srt: "sorted (map snd (A @ (x, l) # Q))" and bnd: "\<forall>p\<in>set Q. snd p \<le> Suc l"
    and ok: "\<forall>p\<in>set (A @ (x, l) # Q). level_ok g N A p"
    using inv by (auto simp: level_inv_def)
  have le: "\<forall>p\<in>set ?A. snd p \<le> l" and ge: "\<forall>p\<in>set Q. l \<le> snd p"
    using srt by (auto simp: sorted_append)
  have new: "level_ok g N ?A (y, l + 1)" if "y \<in> set ns" for y
  proof -
    have "\<exists>j<l + 1. (z, j) \<in> set ?A" if z: "z \<in> N" "y \<in> set (succs g z)" for z
    proof -
      have "z \<in> set (map fst A @ [x])"
        using kahn_inv_released[OF k fin _ z] \<open>y \<in> set ns\<close> by simp
      then obtain j where "(z, j) \<in> set ?A" by fastforce
      with le show ?thesis by (metis le_imp_less_Suc Suc_eq_plus1 snd_conv)
    qed
    with that ns show ?thesis by (auto simp: level_ok_def)
  qed
  have "sorted (map snd (?A @ Q @ ?new))"
    using srt bnd le by (auto simp: sorted_append comp_def sorted_map_const)
  moreover have "\<forall>p\<in>set (Q @ ?new). snd p \<le> Suc (snd (hd (Q @ ?new)))"
  proof (cases Q)
    case Nil
    then show ?thesis by (cases ns) auto
  next
    case (Cons a Q')
    then have "l \<le> snd a" using ge by simp
    with Cons bnd show ?thesis by auto
  qed
  moreover have "\<forall>p\<in>set (?A @ Q @ ?new). level_ok g N ?A p"
    using ok new by (auto intro: level_ok_mono)
  moreover have "kahn_inv g N d' (map fst (Q @ ?new)) (map fst ?A)"
    using k by (simp add: comp_def)
  ultimately show ?thesis unfolding level_inv_def by simp
qed

lemma level_loop_spec:
  assumes "level_inv g N d A Q" and "finite N" and "closed_graph g N"
  shows "\<exists>d' B. level_loop g d (A @ Q) (map fst Q) = B \<and> level_inv g N d' B [] \<and>
    map fst B = snd (kahn_loop PopLeft g d (map fst Q) (map fst A))"
  using assms(1)
proof (induction "length Q + pending d" arbitrary: d A Q rule: less_induct)
  case less
  show ?case
  proof (cases Q)
    case Nil
    with less.prems show ?thesis by auto
  next
    case (Cons a Q')
    obtain x l where a: "a = (x, l)" by fastforce
    let ?q = "map fst Q'" and ?lv = "A @ Q"
    have kinv: "kahn_inv g N d (map fst Q) (map fst A)" using less.prems by (simp add: level_inv_def)
    then have dist: "distinct (map fst ?lv)" by (simp add: kahn_inv_def)
    then have lx: "dict_get ?lv x 0 = l" by (rule dict_get_distinct) (simp add: Cons a)
    obtain ns where ns: "snd (relax (succs g x) d ?q) = ?q @ ns" "set ns \<subseteq> set (succs g x)"
      and rl: "relax_levels l (succs g x) d ?lv ?q =
        (fst (relax (succs g x) d ?q), foldl (\<lambda>lv y. dict_set y (l + 1) lv) ?lv ns, ?q @ ns)"
      using relax_levels_relax[of "succs g x" d ?q l ?lv] by blast
    define d' where "d' = fst (relax (succs g x) d ?q)"
    have k: "kahn_inv g N d' (?q @ ns) (map fst A @ [x])"
      using kahn_inv_step[OF kinv _ assms(2,3) refl refl, of PopLeft] Cons a ns(1) by (simp add: d'_def)
    then have "distinct ns" "\<forall>y\<in>set ns. y \<notin> set (dict_keys ?lv)"
      by (auto simp: kahn_inv_def Cons a)
    then have lv': "foldl (\<lambda>lv y. dict_set y (l + 1) lv) ?lv ns = ?lv @ map (\<lambda>y. (y, l + 1)) ns"
      using foldl_dict_set[of "\<lambda>y. y" ns ?lv "\<lambda>y. l + 1"] by simp
    let ?A = "A @ [(x, l)]" and ?Q = "Q' @ map (\<lambda>y. (y, l + 1)) ns"
    have inv': "level_inv g N d' ?A ?Q"
      by (rule level_step[OF _ assms(2,3) k ns(2)]) (use less.prems Cons a in simp)
    have "length (?q @ ns) + pending d' \<le> length ?q + pending d"
      using relax_pending[of "succs g x" d ?q] ns(1) by (simp add: d'_def)
    then have dec: "length ?Q + pending d' < length Q + pending d" by (simp add: Cons)
    have "map fst ?Q = ?q @ ns" by (simp add: comp_def)
    moreover from this have "level_loop g d (A @ Q) (map fst Q) = level_loop g d' (?A @ ?Q) (map fst ?Q)"
      using rl lv' lx by (simp add: Cons a d'_def)
    moreover have "kahn_loop PopLeft g d (map fst Q) (map fst A) = kahn_loop PopLeft g d' (?q @ ns) (map fst ?A)"
      using ns(1) by (simp add: kahn_loop_step Cons a d'_def Let_def)
    ultimately show ?thesis using less.hyps[OF dec inv'] by metis
  qed
qed

subsection \<open>Depth of a task\<close>

definition preds :: "'a graph \<Rightarrow> 'a set \<Rightarrow> 'a \<Rightarrow> 'a set" where
  "preds g N y = {x \<in> N. y \<in> set (succs g x)}"

text \<open>The equations of the longest-path depth; in an acyclic graph they have one solution.\<close>

definition is_depth :: "'a graph \<Rightarrow> 'a set \<Rightarrow> ('a \<Rightarrow> nat) \<Rightarrow> bool" where
  "is_depth g N f \<longleftrightarrow> (\<forall>y\<in>N. f y = (if preds g N y = {} then 0 else Suc (Max (f ` preds g N y))))"

lemma finite_preds [simp]: "finite N \<Longrightarrow> finite (preds g N y)"
  by (simp add: preds_def)

lemma is_depth_edge:
  assumes "is_depth g N f" and "finite N" and "closed_graph g N" and "(x, y) \<in> edges g N"
  shows "f x < f y"
proof -
  have "x \<in> preds g N y" and "y \<in> N"
    using assms(3,4) by (auto simp: preds_def edges_def closed_graph_def)
  then show ?thesis
    using assms(1,2) by (auto simp: is_depth_def less_Suc_eq_le)
qed

lemma is_depth_path:
  assumes "is_depth g N f" and "finite N" and "closed_graph g N" and "(x, y) \<in> (edges g N)\<^sup>+"
  shows "f x < f y"
  using assms(4) by (induction) (use is_depth_edge[OF assms(1-3)] in \<open>auto intro: less_trans\<close>)

lemma is_depth_unique:
  assumes "is_depth g N f" and "is_depth g N h" and "finite N" and "closed_graph g N" and "y \<in> N"
  shows "f y = h y"
  using assms(5)
proof (induction "f y" arbitrary: y rule: less_induct)
  case less
  have "f x = h x" if "x \<in> preds g N y" for x
  proof -
    have "(x, y) \<in> edges g N" "x \<in> N" using that by (auto simp: preds_def edges_def)
    then show ?thesis using less.hyps is_depth_edge[OF assms(1,3,4)] by blast
  qed
  then have "f ` preds g N y = h ` preds g N y" by (intro image_cong) auto
  then show ?case using assms(1,2) less.prems by (simp add: is_depth_def)
qed

lemma level_inv_depth:
  assumes inv: "level_inv g N d B []" and fin: "finite N" and all: "set (map fst B) = N"
  shows "is_depth g N (\<lambda>y. dict_get B y 0)"
  unfolding is_depth_def
proof
  fix y assume "y \<in> N"
  with all obtain k where k: "(y, k) \<in> set B" by force
  have dist: "distinct (dict_keys B)" and ok: "level_ok g N B (y, k)"
    using inv k by (auto simp: level_inv_def kahn_inv_def)
  note get = dict_get_distinct[OF dist]
  have lt: "dict_get B x 0 < k" if "x \<in> preds g N y" for x
    using that ok get by (fastforce simp: level_ok_def preds_def)
  show "dict_get B y 0 = (if preds g N y = {} then 0 else Suc (Max ((\<lambda>y. dict_get B y 0) ` preds g N y)))"
  proof (cases "k = 0")
    case True
    with lt have "preds g N y = {}" by auto
    with True get[OF k] show ?thesis by simp
  next
    case False
    with ok obtain x j where x: "(x, j) \<in> set B" "y \<in> set (succs g x)" "k = Suc j"
      by (auto simp: level_ok_def)
    then have xp: "x \<in> preds g N y" using all by (force simp: preds_def)
    have "Max ((\<lambda>y. dict_get B y 0) ` preds g N y) = j"
      by (rule Max_eqI) (use lt x xp get[OF x(1)] fin in \<open>auto simp: less_Suc_eq_le intro: rev_image_eqI\<close>)
    then show ?thesis using get[OF k] x(3) xp by auto
  qed
qed

subsection \<open>Correctness of the groups\<close>

lemma find_parallel_tasks_groups:
  assumes fin: "finite N" and cl: "closed_graph g N" and ac: "acyclic (edges g N)"
    and keys: "distinct (dict_keys g)" "fst ` set g \<subseteq> N"
    and order: "distinct order" "set order = N"
  obtains lv where "distinct (dict_keys lv)" and "set (dict_keys lv) = N"
    and "is_depth g N (\<lambda>y. dict_get lv y 0)"
    and "find_parallel_tasks order g = level_groups lv"
proof -
  let ?d = "graph_degrees g"
  let ?q = "filter (\<lambda>t. dict_get ?d t 0 = 0) order"
  let ?Q = "map (\<lambda>t. (t, 0 :: nat)) ?q"
  have deg: "dict_get ?d v 0 = int (in_edges g N v)" for v
    by (rule graph_degrees_in_edges[OF keys fin])
  have q: "distinct ?q" "set ?q = {v \<in> N. dict_get ?d v 0 = 0}" using order by auto
  have mapQ: "map fst ?Q = ?q" by (simp add: comp_def)
  have "foldl (\<lambda>lv t. dict_set t (0 :: nat) lv) [] ?q = ?Q"
    using foldl_dict_set[of "\<lambda>t. t" ?q "[]" "\<lambda>t. 0 :: nat"] q(1) by simp
  moreover have "kahn_inv g N ?d (map fst ?Q) (map fst [])"
    unfolding mapQ using q deg by (auto simp: kahn_inv_def)
  then have "level_inv g N ?d [] ?Q"
    using deg fin q by (auto simp: level_inv_def level_ok_def comp_def in_edges_0_iff sorted_map_const)
  from level_loop_spec[OF this fin cl] obtain d' B where
    B: "level_loop g ?d ?Q ?q = B" "level_inv g N d' B []"
      "map fst B = snd (kahn_loop PopLeft g ?d ?q [])"
    unfolding mapQ by auto
  have "set (map fst B) = N"
    using kahn_loop_correct(4)[OF fin cl deg q, of PopLeft "fst (kahn_loop PopLeft g ?d ?q [])" "map fst B"] ac B(3)
    by simp
  moreover have "distinct (dict_keys B)" using B(2) by (simp add: level_inv_def kahn_inv_def)
  ultimately show thesis
    using that[of B] level_inv_depth[OF B(2) fin] B(1) by (simp add: find_parallel_tasks_def Let_def)
qed

lemma level_groups_independent:
  assumes "distinct (dict_keys lv)" and "is_depth g N (\<lambda>y. dict_get lv y 0)" and "finite N" and "closed_graph g N"
    and "grp \<in> set (level_groups lv)"
  shows "distinct grp \<and> 1 < length grp \<and> (\<forall>x \<in> set grp. \<forall>y \<in> set grp. (x, y) \<notin> (edges g N)\<^sup>+)"
proof -
  obtain l where l: "grp = level_set lv l" "1 < length grp" using assms(5) level_groups_iff by blast
  have "distinct grp" using assms(1) by (simp add: l(1) distinct_map inj_on_def)
  moreover have "dict_get lv x 0 = l" if "x \<in> set grp" for x
    using that level_set_iff[OF assms(1)] l(1) by blast
  then have "(x, y) \<notin> (edges g N)\<^sup>+" if "x \<in> set grp" "y \<in> set grp" for x y
    using is_depth_path[OF assms(2-4), of x y] that by auto
  ultimately show ?thesis using l(2) by blast
qed

end
