(* ===== verification/Workflow_Topology.thy ===== *)
theory Workflow_Topology
  imports Workflow_Levels
begin

section \<open>The pipeline parser: exchanges, queues and the final configuration\<close>

text \<open>
  The second half of \<^verbatim>\<open>ConfigParser\<close>: from the task graph to the RabbitMQ exchanges, queues
  and bindings of the pipeline, and \<^verbatim>\<open>parse_graph\<close>, which runs every step. The dictionary
  \<^verbatim>\<open>task_graph\<close> that these steps iterate over is the one the reachability check has walked, so
  it holds a key for every task. Not modelled: the timestamp \<^verbatim>\<open>last_updated\<close> of the result and
  the Graphviz drawing, which neither read nor change anything else.
\<close>

record exchange_suggestion =
  es_exchange_type :: string
  es_reason :: string
  es_task_name :: string

record subscriber_info =
  sub_task_name :: string
  sub_subscriptions :: "string list"

record publisher_info =
  pub_task_name :: string
  pub_publications :: "string list"

record queue_info =
  q_from_task :: "string option"
  q_to_task :: string
  q_queue_name :: string

record rabbitmq_config =
  rc_task_id :: string
  rc_exchange :: string
  rc_exchange_type :: string
  rc_queue :: string
  rc_routing_key :: string

record fan_in_meta =
  fm_required_steps :: "string list"
  fm_correlation_id :: string
  fm_timeout :: int

record final_config =
  fc_version :: nat
  fc_execution_order :: "string list"
  fc_task_graph :: "string graph"
  fc_parallel_tasks :: "string list list"
  fc_task_dict :: "(string \<times> task) list"
  fc_fan_in_steps :: "string list"
  fc_exchange_suggestions :: "(string \<times> exchange_suggestion) list"
  fc_publishers :: "(string \<times> publisher_info) list"
  fc_subscribers :: "(string \<times> subscriber_info) list"
  fc_queues :: "(string \<times> queue_info) list"
  fc_rabbitmq_configs :: "rabbitmq_config list"
  fc_fan_in_metadata :: "(string \<times> fan_in_meta) list"
  fc_task_outputs :: "string graph"

subsection \<open>Fan-in steps and exchange types\<close>

definition identify_fan_in_steps :: "(string \<times> task) list \<Rightarrow> string list" where
  "identify_fan_in_steps task_dict =
     map fst (filter (\<lambda>(i, t). 1 < length (t_dependencies t)) task_dict)"

definition suggest_for :: "nat \<Rightarrow> string \<Rightarrow> exchange_suggestion" where
  "suggest_for num_dependents nm =
     (if num_dependents = 1
      then \<lparr>es_exchange_type = ''direct'', es_reason = ''Single dependent task.'', es_task_name = nm\<rparr>
      else if num_dependents > 1
      then \<lparr>es_exchange_type = ''fanout'', es_reason = ''Multiple dependent tasks (broadcast).'',
            es_task_name = nm\<rparr>
      else \<lparr>es_exchange_type = ''direct'', es_reason = ''No dependent tasks or end of chain.'',
            es_task_name = nm\<rparr>)"

fun suggest_graph :: "(string \<times> task) list \<Rightarrow> string graph \<Rightarrow> (string \<times> exchange_suggestion) list
    \<Rightarrow> parse_error + (string \<times> exchange_suggestion) list" where
  "suggest_graph task_dict [] s = Inr s"
| "suggest_graph task_dict ((t, dependents) # g) s =
     (case map_of task_dict t of
        None \<Rightarrow> Inl (MissingTask t)
      | Some tk \<Rightarrow> suggest_graph task_dict g (dict_set t (suggest_for (length dependents) (t_name tk)) s))"

fun suggest_fan_in :: "(string \<times> task) list \<Rightarrow> string list \<Rightarrow> (string \<times> exchange_suggestion) list
    \<Rightarrow> (string \<times> exchange_suggestion) list" where
  "suggest_fan_in task_dict [] s = s"
| "suggest_fan_in task_dict (f # fs) s =
     (let s1 = (case map_of s f of
          Some _ \<Rightarrow> s
        | None \<Rightarrow> dict_set f \<lparr>es_exchange_type = ''fanout'', es_reason = '''',
            es_task_name = (case map_of task_dict f of None \<Rightarrow> '''' | Some tk \<Rightarrow> t_name tk)\<rparr> s)
      in suggest_fan_in task_dict fs
           (AList.map_entry f (\<lambda>e. e\<lparr>es_exchange_type := ''fanout'',
              es_reason := ''Fan-in step requiring aggregation of multiple upstream steps.''\<rparr>) s1))"

definition suggest_exchange_types :: "string graph \<Rightarrow> (string \<times> task) list \<Rightarrow> string list
    \<Rightarrow> parse_error + (string \<times> exchange_suggestion) list" where
  "suggest_exchange_types task_graph task_dict fan_in_steps =
     bindR (suggest_graph task_dict task_graph []) (\<lambda>s. Inr (suggest_fan_in task_dict fan_in_steps s))"

subsection \<open>Publishers, subscribers, queues\<close>

definition queue_name :: "string \<Rightarrow> string \<Rightarrow> string" where
  "queue_name dep t = ''queue_'' @ dep @ ''_to_'' @ t"

definition add_queues :: "string \<Rightarrow> string list \<Rightarrow> (string \<times> queue_info) list \<Rightarrow> (string \<times> queue_info) list" where
  "add_queues t deps queues =
     foldl (\<lambda>qs dep. dict_set (queue_name dep t)
       \<lparr>q_from_task = Some dep, q_to_task = t, q_queue_name = queue_name dep t\<rparr> qs) queues deps"

fun identify_publishers_subscribers_queues :: "string graph \<Rightarrow> (string \<times> task) list
    \<Rightarrow> (string \<times> publisher_info) list \<times> (string \<times> subscriber_info) list \<times> (string \<times> queue_info) list
    \<Rightarrow> (string \<times> publisher_info) list \<times> (string \<times> subscriber_info) list \<times> (string \<times> queue_info) list" where
  "identify_publishers_subscribers_queues task_graph [] acc = acc"
| "identify_publishers_subscribers_queues task_graph ((t, tk) # td) (pubs, subs, queues) =
     (let deps = t_dependencies tk;
          subs' = (if deps \<noteq> [] then dict_set t \<lparr>sub_task_name = t_name tk, sub_subscriptions = deps\<rparr> subs else subs);
          queues' = (if deps \<noteq> [] then add_queues t deps queues else queues);
          dependents = dict_get task_graph t [];
          pubs' = (if dependents \<noteq> [] then dict_set t \<lparr>pub_task_name = t_name tk, pub_publications = dependents\<rparr> pubs else pubs)
      in identify_publishers_subscribers_queues task_graph td (pubs', subs', queues'))"

subsection \<open>prepare\_rabbitmq\_configs\<close>

definition routing_key_for :: "string \<Rightarrow> string \<Rightarrow> string" where
  "routing_key_for exchange_type qn =
     (if exchange_type = ''direct'' then qn
      else if exchange_type = ''fanout'' then ''''
      else if exchange_type = ''headers'' then ''''
      else qn)"

definition edge_config :: "exchange_suggestion \<Rightarrow> string \<Rightarrow> string \<Rightarrow> rabbitmq_config" where
  "edge_config info from qn =
     \<lparr>rc_task_id = from, rc_exchange = ''exchange_'' @ from, rc_exchange_type = es_exchange_type info,
      rc_queue = qn, rc_routing_key = routing_key_for (es_exchange_type info) qn\<rparr>"

definition end_config :: "exchange_suggestion \<Rightarrow> queue_info \<Rightarrow> rabbitmq_config" where
  "end_config info qi =
     \<lparr>rc_task_id = q_to_task qi, rc_exchange = ''exchange_'' @ q_to_task qi,
      rc_exchange_type = es_exchange_type info, rc_queue = q_queue_name qi,
      rc_routing_key = q_queue_name qi\<rparr>"

fun prepare_rabbitmq_configs :: "string graph \<Rightarrow> (string \<times> queue_info) list
    \<Rightarrow> (string \<times> exchange_suggestion) list \<Rightarrow> string list \<Rightarrow> rabbitmq_config list
    \<Rightarrow> parse_error + rabbitmq_config list \<times> (string \<times> exchange_suggestion) list" where
  "prepare_rabbitmq_configs task_outputs [] s ends configs = Inr (configs, s)"
| "prepare_rabbitmq_configs task_outputs ((qn, qi) # queues) s ends configs =
     (case Option.bind (q_from_task qi) (map_of s) of
        None \<Rightarrow> Inl (NoExchangeSuggestion (case q_from_task qi of None \<Rightarrow> ''None'' | Some f \<Rightarrow> f))
      | Some info \<Rightarrow>
          (let configs' = configs @ [edge_config info (the (q_from_task qi)) qn];
               to_task = q_to_task qi
           in if dict_get task_outputs to_task [] = [] \<and> to_task \<notin> set ends
              then (case map_of s to_task of
                      None \<Rightarrow> Inl (SetHasNoGet to_task)
                    | Some info_end \<Rightarrow>
                        prepare_rabbitmq_configs task_outputs queues s (set_add to_task ends)
                          (configs' @ [end_config info_end qi]))
              else prepare_rabbitmq_configs task_outputs queues s ends configs'))"

subsection \<open>parse\_fan\_in\_metadata and parse\_graph\<close>

fun parse_fan_in_metadata :: "string \<Rightarrow> int option \<Rightarrow> task list \<Rightarrow> string list
    \<Rightarrow> (string \<times> fan_in_meta) list \<Rightarrow> parse_error + (string \<times> fan_in_meta) list" where
  "parse_fan_in_metadata pid tmo tasks [] meta = Inr meta"
| "parse_fan_in_metadata pid tmo tasks (f # fs) meta =
     (case find (\<lambda>t. t_id t = f) tasks of
        None \<Rightarrow> Inl (FanInNotFound f)
      | Some t \<Rightarrow> parse_fan_in_metadata pid tmo tasks fs
          (dict_set f \<lparr>fm_required_steps = t_dependencies t,
             fm_correlation_id = ''corr-'' @ f @ ''-'' @ pid,
             fm_timeout = (case tmo of None \<Rightarrow> 300 | Some x \<Rightarrow> x)\<rparr> meta))"

definition entry_config :: "string \<Rightarrow> rabbitmq_config" where
  "entry_config pid =
     \<lparr>rc_task_id = ''entry'', rc_exchange = ''pipeline_entry_'' @ pid, rc_exchange_type = ''direct'',
      rc_queue = ''pipeline_entry_queue_'' @ pid, rc_routing_key = ''pipeline_entry_queue_'' @ pid\<rparr>"

definition parse_graph :: "(string list \<Rightarrow> string list) \<Rightarrow> string \<Rightarrow> dag_config \<Rightarrow> parse_error + final_config" where
  "parse_graph it pid cfg =
     bindR (infer_dependencies_and_outputs it (dag_tasks cfg)) (\<lambda>(tasks, task_outputs).
     bindR (detect_cycles_kahn tasks) (\<lambda>_.
     (let (execution_order, graph) = parse_dag tasks in
     bindR (validate_no_solo_nodes tasks graph) (\<lambda>_.
     bindR (validate_single_connected_dag it tasks graph) (\<lambda>task_graph.
     (let parallel_tasks = find_parallel_tasks execution_order task_graph;
          task_dict = make_task_dict tasks;
          fan_in_steps = identify_fan_in_steps task_dict in
     bindR (suggest_exchange_types task_graph task_dict fan_in_steps) (\<lambda>suggestions.
     (let (pubs, subs, queues) = identify_publishers_subscribers_queues task_graph task_dict ([], [], []) in
     bindR (prepare_rabbitmq_configs task_outputs queues suggestions [] []) (\<lambda>(configs, suggestions').
     bindR (parse_fan_in_metadata pid (dag_timeout cfg) tasks fan_in_steps []) (\<lambda>meta.
     Inr \<lparr>fc_version = 1, fc_execution_order = execution_order, fc_task_graph = task_graph,
       fc_parallel_tasks = parallel_tasks, fc_task_dict = task_dict, fc_fan_in_steps = fan_in_steps,
       fc_exchange_suggestions = dict_set (''pipeline_entry_'' @ pid)
         \<lparr>es_exchange_type = ''direct'', es_reason = ''Pipeline entry point for external messages/triggers'',
          es_task_name = ''pipeline_entry_'' @ pid\<rparr> suggestions',
       fc_publishers = pubs, fc_subscribers = subs,
       fc_queues = dict_set (''pipeline_entry_queue_'' @ pid)
         \<lparr>q_from_task = None, q_to_task = ''entry'', q_queue_name = ''pipeline_entry_queue_'' @ pid\<rparr> queues,
       fc_rabbitmq_configs = configs @ [entry_config pid], fc_fan_in_metadata = meta,
       fc_task_outputs = task_outputs\<rparr>))))))))))"

subsection \<open>The checks of the first half, over the configuration as written\<close>

definition it_deps :: "(string list \<Rightarrow> string list) \<Rightarrow> task list \<Rightarrow> (string \<times> string list) list" where
  "it_deps it ts = map (\<lambda>t. (t_id t, it (raw_deps t))) ts"

lemma infer_facts:
  assumes it: "set_iteration it" and inf: "infer_dependencies_and_outputs it ts = Inr (tasks, outs)"
  shows "map t_id tasks = map t_id ts" and "task_deps tasks = it_deps it ts"
    and "map t_name tasks = map t_name ts"
    and "\<And>d. set (dict_get outs d []) = {t_id t |t. t \<in> set ts \<and> d \<in> set (raw_deps t)}"
proof -
  obtain ts1 o1 where 1: "infer_dependencies it (map t_id ts) ts [] = Inr (ts1, o1)"
    and r: "infer_outputs it ts1 o1 = (tasks, outs)"
    using inf by (auto simp: infer_dependencies_and_outputs_def bindR_Inr_iff)
  note s = infer_dependencies_spec[OF it 1]
  have "tasks = fst (infer_outputs it ts1 o1)" "outs = snd (infer_outputs it ts1 o1)" using r by simp_all
  with s show "map t_id tasks = map t_id ts" "task_deps tasks = it_deps it ts"
    "map t_name tasks = map t_name ts"
    "\<And>d. set (dict_get outs d []) = {t_id t |t. t \<in> set ts \<and> d \<in> set (raw_deps t)}"
    by (auto simp: infer_outputs_spec task_deps_def it_deps_def)
qed

lemma infer_accepts_iff:
  assumes "set_iteration it"
  shows "(\<exists>r. infer_dependencies_and_outputs it ts = Inr r) \<longleftrightarrow>
    (\<forall>t\<in>set ts. t_inputs t \<noteq> None) \<and> deps_known (config_deps ts)"
proof -
  have "(\<exists>r. infer_dependencies_and_outputs it ts = Inr r) \<longleftrightarrow>
      (\<exists>r. infer_dependencies it (map t_id ts) ts [] = Inr r)"
    by (auto simp: infer_dependencies_and_outputs_def bindR_Inr_iff)
  also have "\<dots> \<longleftrightarrow> (\<forall>t\<in>set ts. t_inputs t \<noteq> None) \<and> deps_known (config_deps ts)"
    unfolding infer_dependencies_Inr_iff[OF assms]
    by (auto simp: deps_known_def config_deps_def image_image)
  finally show ?thesis .
qed

lemma it_deps_config:
  assumes "set_iteration it"
  shows "dep_edges (it_deps it ts) = dep_edges (config_deps ts)"
    and "deps_known (it_deps it ts) \<longleftrightarrow> deps_known (config_deps ts)"
    and "fst ` set (it_deps it ts) = task_ids ts"
  using assms by (auto simp: dep_edges_def it_deps_def config_deps_def deps_known_def image_image task_ids_def)

lemma task_ids_cong: "map t_id ts = map t_id us \<Longrightarrow> task_ids ts = task_ids us"
  by (metis set_map task_ids_def)

lemma config_edges_ids: "deps_known (config_deps ts) \<Longrightarrow> dep_edges (config_deps ts) \<subseteq> task_ids ts \<times> task_ids ts"
  by (force simp: dep_edges_def deps_known_def config_deps_def task_ids_def)

text \<open>The dictionary the graph is kept in.\<close>

lemma build_graph_graph_keys:
  "distinct (dict_keys (fst gd)) \<Longrightarrow> distinct (dict_keys (fst (build_graph ts gd)))"
  "fst ` set (fst (build_graph ts gd)) = fst ` set (fst gd) \<union> (\<Union>(t, ds)\<in>set ts. set ds)"
proof -
  have "distinct (dict_keys (fst gd)) \<Longrightarrow> distinct (dict_keys (fst (add_deps t ds gd)))"
    and "fst ` set (fst (add_deps t ds gd)) = fst ` set (fst gd) \<union> set ds" for t ds and gd :: "'a graph \<times> 'a degrees"
    by (induction t ds gd rule: add_deps.induct) auto
  then show "distinct (dict_keys (fst gd)) \<Longrightarrow> distinct (dict_keys (fst (build_graph ts gd)))"
    "fst ` set (fst (build_graph ts gd)) = fst ` set (fst gd) \<union> (\<Union>(t, ds)\<in>set ts. set ds)"
    by (induction ts gd rule: build_graph.induct) (auto simp: Let_def)
qed

definition no_solo :: "task list \<Rightarrow> bool" where
  "no_solo ts \<longleftrightarrow> (\<forall>t\<in>set ts. raw_deps t \<noteq> [] \<or> (\<exists>u\<in>set ts. t_id t \<in> set (raw_deps u)))"

definition valid_config :: "task list \<Rightarrow> bool" where
  "valid_config ts \<longleftrightarrow> ts \<noteq> [] \<and> (\<forall>t\<in>set ts. t_inputs t \<noteq> None) \<and> deps_known (config_deps ts) \<and>
     distinct (map t_id ts) \<and> acyclic (dep_edges (config_deps ts)) \<and> no_solo ts \<and>
     (\<forall>t\<in>set ts. (t_id (hd ts), t_id t) \<in> (dep_edges (config_deps ts))\<^sup>*)"

lemma solo_nodes_eq:
  assumes it: "set_iteration it" and inf: "infer_dependencies_and_outputs it ts = Inr (tasks, outs)"
    and g: "\<And>x v. v \<in> set (succs g x) \<longleftrightarrow> (x, v) \<in> dep_edges (config_deps ts)"
  shows "solo_nodes tasks g =
    map t_id (filter (\<lambda>t. raw_deps t = [] \<and> (\<forall>u\<in>set ts. t_id t \<notin> set (raw_deps u))) ts)"
proof -
  have "solo_nodes tasks g = map fst (filter (\<lambda>(t, ds). ds = [] \<and> succs g t = []) (task_deps tasks))"
    by (simp add: solo_nodes_def task_deps_def filter_map comp_def)
  also have "\<dots> = map t_id (filter (\<lambda>t. raw_deps t = [] \<and> succs g (t_id t) = []) ts)"
    by (simp add: infer_facts(2)[OF it inf] it_deps_def filter_map comp_def set_iteration_Nil[OF it])
  finally have *: "solo_nodes tasks g = map t_id (filter (\<lambda>t. raw_deps t = [] \<and> succs g (t_id t) = []) ts)" .
  have "succs g x = [] \<longleftrightarrow> (\<forall>v. v \<notin> set (succs g x))" for x by (cases "succs g x") auto
  then have "succs g x = [] \<longleftrightarrow> (\<forall>u\<in>set ts. x \<notin> set (raw_deps u))" for x
    by (auto simp: g dep_edges_def config_deps_def)
  with * show ?thesis by simp
qed

lemma solo_nodes_iff:
  assumes it: "set_iteration it" and inf: "infer_dependencies_and_outputs it ts = Inr (tasks, outs)"
    and g: "\<And>x v. v \<in> set (succs g x) \<longleftrightarrow> (x, v) \<in> dep_edges (config_deps ts)"
  shows "validate_no_solo_nodes tasks g = Inr () \<longleftrightarrow> no_solo ts"
  by (auto simp: validate_no_solo_nodes_def solo_nodes_eq[OF assms] filter_empty_conv no_solo_def)

lemma parse_dag_graph:
  assumes "parse_dag tasks = (order, g)"
  shows "g = fst (build_graph (task_deps tasks) ([], []))"
  using assms by (auto simp: parse_dag_def Let_def split: prod.splits)

lemma rtrancl_image_eq_iff:
  assumes "R \<subseteq> N \<times> N" and "x \<in> N"
  shows "R\<^sup>* `` {x} = N \<longleftrightarrow> (\<forall>y\<in>N. (x, y) \<in> R\<^sup>*)"
proof -
  have "y \<in> N" if "(x, y) \<in> R\<^sup>*" for y
    using that assms by (induction) auto
  then show ?thesis by auto
qed

lemma connected_eq:
  assumes R: "\<And>x v. v \<in> set (succs g x) \<longleftrightarrow> (x, v) \<in> R" and sub: "R \<subseteq> task_ids tasks \<times> task_ids tasks"
    and ne: "tasks \<noteq> []"
  shows "validate_single_connected_dag it tasks g =
    (if \<forall>y\<in>task_ids tasks. (t_id (hd tasks), y) \<in> R\<^sup>*
     then Inr (fst (reach_loop g [] [t_id (hd tasks)]))
     else Inl (DisconnectedTasks (it (filter (\<lambda>t. (t_id (hd tasks), t) \<notin> R\<^sup>*) (map t_id tasks)))))"
proof -
  obtain g' vis where r: "reach_loop g [] [t_id (hd tasks)] = (g', vis)" by fastforce
  have "succ_rel g = R" using R by (auto simp: succ_rel_def)
  with reach_loop_reachable(1)[OF r] have vis: "set vis = R\<^sup>* `` {t_id (hd tasks)}" by simp
  moreover have "t_id (hd tasks) \<in> task_ids tasks" using ne by (simp add: task_ids_def)
  ultimately have eq: "set vis = t_id ` set tasks \<longleftrightarrow> (\<forall>y\<in>task_ids tasks. (t_id (hd tasks), y) \<in> R\<^sup>*)"
    using rtrancl_image_eq_iff[OF sub] by (simp add: task_ids_def)
  have "t \<in> set vis \<longleftrightarrow> (t_id (hd tasks), t) \<in> R\<^sup>*" for t using vis by simp
  then show ?thesis using ne r eq by (simp add: validate_single_connected_dag_def)
qed

lemma connected_iff:
  assumes "\<And>x v. v \<in> set (succs g x) \<longleftrightarrow> (x, v) \<in> R" and "R \<subseteq> task_ids tasks \<times> task_ids tasks"
  shows "(\<exists>g'. validate_single_connected_dag it tasks g = Inr g') \<longleftrightarrow>
    tasks \<noteq> [] \<and> (\<forall>y\<in>task_ids tasks. (t_id (hd tasks), y) \<in> R\<^sup>*)"
proof (cases "tasks = []")
  case False
  then show ?thesis by (subst connected_eq[OF assms False]) simp
qed (simp add: validate_single_connected_dag_def)

lemma connected_facts:
  assumes "validate_single_connected_dag it tasks g = Inr g'"
  shows "dict_get g' k [] = dict_get g k []" and "fst ` set g' = fst ` set g \<union> task_ids tasks"
    and "distinct (dict_keys g) \<Longrightarrow> distinct (dict_keys g')"
proof -
  obtain vis where r: "reach_loop g [] [t_id (hd tasks)] = (g', vis)" and "set vis = set (map t_id tasks)"
    using assms by (auto simp: validate_single_connected_dag_def Let_def split: prod.splits if_splits)
  then show "dict_get g' k [] = dict_get g k []" "fst ` set g' = fst ` set g \<union> task_ids tasks"
    "distinct (dict_keys g) \<Longrightarrow> distinct (dict_keys g')"
    using reach_loop_reachable(2-4)[OF r] by (simp_all add: task_ids_def)
qed

text \<open>The four checks together accept exactly the valid configurations.\<close>

lemma checks_iff:
  assumes it: "set_iteration it" and inf: "infer_dependencies_and_outputs it ts = Inr (tasks, outs)"
    and pd: "parse_dag tasks = (order, g)"
  shows "detect_cycles_kahn tasks = Inr () \<and> validate_no_solo_nodes tasks g = Inr () \<and>
      (\<exists>g'. validate_single_connected_dag it tasks g = Inr g') \<longleftrightarrow> valid_config ts"
proof -
  note f = infer_facts[OF it inf] and c = it_deps_config[OF it, of ts]
  have acc: "(\<forall>t\<in>set ts. t_inputs t \<noteq> None) \<and> deps_known (config_deps ts)"
    using infer_accepts_iff[OF it] inf by blast
  have ids: "task_ids tasks = task_ids ts" by (rule task_ids_cong[OF f(1)])
  have g: "\<And>x v. v \<in> set (succs g x) \<longleftrightarrow> (x, v) \<in> dep_edges (config_deps ts)"
    using succs_build_iff[of _ "task_deps tasks"] by (simp add: parse_dag_graph[OF pd] f(2) c(1))
  have hd: "tasks \<noteq> [] \<Longrightarrow> t_id (hd tasks) = t_id (hd ts)" and nil: "tasks = [] \<longleftrightarrow> ts = []"
    using f(1) by (metis hd_map map_is_Nil_conv)+
  have "detect_cycles_kahn tasks = Inr () \<longleftrightarrow> distinct (map t_id ts) \<and> acyclic (dep_edges (config_deps ts))"
    using detect_cycles_kahn_iff[of tasks] f(1,2) c acc by simp
  moreover have "validate_no_solo_nodes tasks g = Inr () \<longleftrightarrow> no_solo ts"
    by (rule solo_nodes_iff[OF it inf g])
  moreover have "(\<exists>g'. validate_single_connected_dag it tasks g = Inr g') \<longleftrightarrow>
      ts \<noteq> [] \<and> (\<forall>t\<in>set ts. (t_id (hd ts), t_id t) \<in> (dep_edges (config_deps ts))\<^sup>*)"
    using connected_iff[OF g, of tasks it, unfolded ids] config_edges_ids[of ts] acc hd nil
    by (auto simp: task_ids_def)
  ultimately show ?thesis using acc unfolding valid_config_def by blast
qed

subsection \<open>Exchange types\<close>

lemma suggest_graph_spec:
  assumes "fst ` set g \<subseteq> fst ` set td" and "distinct (dict_keys g)"
  shows "\<exists>s'. suggest_graph td g s = Inr s' \<and>
    (\<forall>t. map_of s' t = (case map_of g t of
        None \<Rightarrow> map_of s t
      | Some ds \<Rightarrow> Some (suggest_for (length ds) (t_name (the (map_of td t))))))"
  using assms
proof (induction td g s rule: suggest_graph.induct)
  case (2 td t ds g s)
  then have "t \<in> fst ` set td" by simp
  then obtain tk where tk: "map_of td t = Some tk" using map_of_key by metis
  with 2 obtain s' where s': "suggest_graph td g (dict_set t (suggest_for (length ds) (t_name tk)) s) = Inr s'"
    and m: "\<forall>u. map_of s' u = (case map_of g u of
        None \<Rightarrow> map_of (dict_set t (suggest_for (length ds) (t_name tk)) s) u
      | Some ds \<Rightarrow> Some (suggest_for (length ds) (t_name (the (map_of td u)))))"
    by auto
  have "map_of g t = None" using 2(3) by (simp add: map_of_eq_None_iff)
  with s' m tk show ?case by (auto simp: update_conv' split: option.splits)
qed simp

lemma suggest_fan_in_spec:
  "map_of (suggest_fan_in td fs s) t =
     (if t \<in> set fs then Some \<lparr>es_exchange_type = ''fanout'',
        es_reason = ''Fan-in step requiring aggregation of multiple upstream steps.'',
        es_task_name = (case map_of s t of Some e \<Rightarrow> es_task_name e
          | None \<Rightarrow> (case map_of td t of None \<Rightarrow> '''' | Some tk \<Rightarrow> t_name tk))\<rparr>
      else map_of s t)"
proof (induction td fs s rule: suggest_fan_in.induct)
  case (2 td f fs s)
  define s1 where "s1 = (case map_of s f of Some _ \<Rightarrow> s
    | None \<Rightarrow> dict_set f \<lparr>es_exchange_type = ''fanout'', es_reason = '''',
        es_task_name = (case map_of td f of None \<Rightarrow> '''' | Some tk \<Rightarrow> t_name tk)\<rparr> s)"
  note IH = "2.IH"[OF s1_def]
  have f: "map_of s1 f = Some (case map_of s f of Some e \<Rightarrow> e
    | None \<Rightarrow> \<lparr>es_exchange_type = ''fanout'', es_reason = '''',
        es_task_name = (case map_of td f of None \<Rightarrow> '''' | Some tk \<Rightarrow> t_name tk)\<rparr>)"
    and other: "t \<noteq> f \<Longrightarrow> map_of s1 t = map_of s t" for t
    by (auto simp: s1_def update_conv' split: option.splits)
  show ?case
    by (simp only: suggest_fan_in.simps Let_def flip: s1_def)
      (auto simp: IH map_of_map_entry f other split: option.splits)
qed simp

lemma suggest_exchange_types_spec:
  assumes "fst ` set g = fst ` set td" and "distinct (dict_keys g)" and "set fs \<subseteq> fst ` set td"
  shows "\<exists>s. suggest_exchange_types g td fs = Inr s \<and> fst ` set s = fst ` set td \<and>
    (\<forall>t \<in> fst ` set td. \<exists>e. map_of s t = Some e \<and>
      es_exchange_type e = (if 1 < length (succs g t) \<or> t \<in> set fs then ''fanout'' else ''direct''))"
proof -
  obtain s where s: "suggest_graph td g [] = Inr s"
    and m: "\<forall>t. map_of s t = (case map_of g t of None \<Rightarrow> None
      | Some ds \<Rightarrow> Some (suggest_for (length ds) (t_name (the (map_of td t)))))"
    using suggest_graph_spec[of g td "[]", unfolded map_of.simps] assms(1,2) by auto
  let ?s = "suggest_fan_in td fs s"
  have "\<exists>e. map_of ?s t = Some e \<and>
      es_exchange_type e = (if 1 < length (succs g t) \<or> t \<in> set fs then ''fanout'' else ''direct'')"
    if t: "t \<in> fst ` set td" for t
  proof -
    obtain ds where "map_of g t = Some ds"
      using map_of_key[of t g] t unfolding assms(1) by blast
    then have st: "map_of s t = Some (suggest_for (length ds) (t_name (the (map_of td t))))"
      and ds: "succs g t = ds"
      using m by (simp_all add: dict_get_def)
    show ?thesis
      by (cases "t \<in> set fs") (simp_all add: suggest_fan_in_spec st ds suggest_for_def)
  qed
  moreover have "fst ` set ?s = fst ` set td"
  proof (rule set_eqI)
    fix t
    have "t \<in> fst ` set ?s \<longleftrightarrow> map_of ?s t \<noteq> None" by (simp add: map_of_eq_None_iff)
    also have "\<dots> \<longleftrightarrow> t \<in> set fs \<or> map_of g t \<noteq> None"
      using m by (auto simp: suggest_fan_in_spec split: option.splits)
    finally show "t \<in> fst ` set ?s \<longleftrightarrow> t \<in> fst ` set td"
      using assms(1,3) by (auto simp: map_of_eq_None_iff)
  qed
  ultimately show ?thesis using s by (auto simp: suggest_exchange_types_def)
qed

subsection \<open>Queues\<close>

definition queue_entry :: "string \<times> string \<Rightarrow> queue_info" where
  "queue_entry e = \<lparr>q_from_task = Some (fst e), q_to_task = snd e, q_queue_name = queue_name (fst e) (snd e)\<rparr>"

definition dep_pairs :: "(string \<times> task) list \<Rightarrow> (string \<times> string) list" where
  "dep_pairs td = concat (map (\<lambda>(t, tk). map (\<lambda>d. (d, t)) (t_dependencies tk)) td)"

definition queues_of :: "(string \<times> string) list \<Rightarrow> (string \<times> queue_info) list \<Rightarrow> (string \<times> queue_info) list" where
  "queues_of es qs = foldl (\<lambda>qs e. dict_set (queue_name (fst e) (snd e)) (queue_entry e) qs) qs es"

lemma add_queues_of: "add_queues t deps qs = queues_of (map (\<lambda>d. (d, t)) deps) qs"
  by (simp add: add_queues_def queues_of_def foldl_map queue_entry_def)

lemma identify_queues:
  "snd (snd (identify_publishers_subscribers_queues g td acc)) = queues_of (dep_pairs td) (snd (snd acc))"
proof (induction g td acc rule: identify_publishers_subscribers_queues.induct)
  case (2 g t tk td pubs subs queues)
  then show ?case
    by (simp add: Let_def add_queues_of dep_pairs_def queues_of_def split: if_splits)
qed (simp add: dep_pairs_def queues_of_def)

lemma queues_of_sound:
  assumes "(n, qi) \<in> set (queues_of es qs)"
  shows "(n, qi) \<in> set qs \<or> (\<exists>e\<in>set es. n = queue_name (fst e) (snd e) \<and> qi = queue_entry e)"
  using assms unfolding queues_of_def
proof (induction es arbitrary: qs)
  case (Cons e es)
  have "set (dict_set k v d) \<subseteq> insert (k, v) (set d)" for k :: string and v :: queue_info and d
    by (induction d) auto
  then show ?case using Cons.IH Cons.prems by fastforce
qed simp

lemma queues_of_keys: "fst ` set (queues_of es qs) = fst ` set qs \<union> (\<lambda>(d, t). queue_name d t) ` set es"
  unfolding queues_of_def by (induction es arbitrary: qs) (auto simp: case_prod_unfold)

lemma set_dict_set_fresh: "k \<notin> fst ` set d \<Longrightarrow> set (dict_set k v d) = insert (k, v) (set d)"
  by (simp add: dict_set_fresh)

lemma queues_of_inj:
  assumes "distinct es" and "inj_on (\<lambda>(d, t). queue_name d t) (set es)"
  shows "queues_of es [] = map (\<lambda>e. (queue_name (fst e) (snd e), queue_entry e)) es"
  using assms foldl_dict_set[of "\<lambda>e. queue_name (fst e) (snd e)" es "[]" queue_entry]
  by (simp add: queues_of_def distinct_map case_prod_unfold)

subsection \<open>Bindings\<close>

abbreviation suggestion :: "(string \<times> exchange_suggestion) list \<Rightarrow> string \<Rightarrow> exchange_suggestion" where
  "suggestion s t \<equiv> the (map_of s t)"

definition edge_of :: "(string \<times> exchange_suggestion) list \<Rightarrow> string \<times> queue_info \<Rightarrow> rabbitmq_config" where
  "edge_of s q = (let f = the (q_from_task (snd q)) in edge_config (suggestion s f) f (fst q))"

definition end_of :: "(string \<times> exchange_suggestion) list \<Rightarrow> queue_info \<Rightarrow> rabbitmq_config" where
  "end_of s qi = end_config (suggestion s (q_to_task qi)) qi"

text \<open>\<open>prepared outs queues s ends cs es\<close>: the bindings \<open>cs\<close> are one per queue and one for each
  queue of \<open>es\<close>, which picks one queue of each end task that is not in \<open>ends\<close>.\<close>

definition prepared :: "string graph \<Rightarrow> (string \<times> queue_info) list \<Rightarrow> (string \<times> exchange_suggestion) list
    \<Rightarrow> string set \<Rightarrow> rabbitmq_config list \<Rightarrow> queue_info list \<Rightarrow> bool" where
  "prepared outs queues s ends cs es \<longleftrightarrow>
     set cs = edge_of s ` set queues \<union> end_of s ` set es \<and> set es \<subseteq> snd ` set queues \<and>
     distinct (map q_to_task es) \<and>
     q_to_task ` set es = {t \<in> (q_to_task \<circ> snd) ` set queues. dict_get outs t [] = []} - ends"

lemma prepared_end:
  assumes "prepared outs queues s (insert (q_to_task qi) ends) cs es"
    and "dict_get outs (q_to_task qi) [] = []" and "q_to_task qi \<notin> ends"
  shows "prepared outs ((n, qi) # queues) s ends (edge_of s (n, qi) # end_of s qi # cs) (qi # es)"
  using assms unfolding prepared_def by auto

lemma prepared_skip:
  assumes "prepared outs queues s ends cs es"
    and "\<not> (dict_get outs (q_to_task qi) [] = [] \<and> q_to_task qi \<notin> ends)"
  shows "prepared outs ((n, qi) # queues) s ends (edge_of s (n, qi) # cs) es"
  using assms unfolding prepared_def by auto

lemma prepare_spec:
  assumes "\<forall>(n, qi) \<in> set queues. \<exists>f. q_from_task qi = Some f \<and> f \<in> fst ` set s \<and> q_to_task qi \<in> fst ` set s"
  shows "\<exists>cs es. prepare_rabbitmq_configs outs queues s ends acc = Inr (acc @ cs, s) \<and>
    prepared outs queues s (set ends) cs es"
  using assms
proof (induction outs queues s ends acc rule: prepare_rabbitmq_configs.induct)
  case (2 outs n qi queues s ends acc)
  let ?to = "q_to_task qi"
  obtain f where f: "q_from_task qi = Some f" "f \<in> fst ` set s" "?to \<in> fst ` set s"
    using "2.prems" by auto
  obtain info where info: "map_of s f = Some info" using map_of_key[OF f(2)] by blast
  obtain ie where ie: "map_of s ?to = Some ie" using map_of_key[OF f(3)] by blast
  have b: "Option.bind (q_from_task qi) (map_of s) = Some info" by (simp add: f info)
  have prem: "\<forall>(n, qi) \<in> set queues. \<exists>f. q_from_task qi = Some f \<and> f \<in> fst ` set s \<and> q_to_task qi \<in> fst ` set s"
    using "2.prems" by simp
  have e: "edge_config info (the (q_from_task qi)) n = edge_of s (n, qi)" "end_config ie qi = end_of s qi"
    by (simp_all add: edge_of_def end_of_def f info ie)
  show ?case
  proof (cases "dict_get outs ?to [] = [] \<and> ?to \<notin> set ends")
    case True
    from "2.IH"(1)[OF b refl refl True ie prem] obtain cs es where
      r: "prepare_rabbitmq_configs outs queues s (set_add ?to ends) (acc @ [edge_of s (n, qi), end_of s qi]) =
          Inr (acc @ (edge_of s (n, qi) # end_of s qi # cs), s)"
      and p: "prepared outs queues s (insert ?to (set ends)) cs es"
      by (auto simp: e)
    then show ?thesis
      using prepared_end[OF p] True by (fastforce simp: b ie Let_def e)
  next
    case False
    from "2.IH"(2)[OF b refl refl False prem] obtain cs es where
      r: "prepare_rabbitmq_configs outs queues s ends (acc @ [edge_of s (n, qi)]) = Inr (acc @ (edge_of s (n, qi) # cs), s)"
      and p: "prepared outs queues s (set ends) cs es"
      by (auto simp: e)
    then have "prepare_rabbitmq_configs outs ((n, qi) # queues) s ends acc = Inr (acc @ (edge_of s (n, qi) # cs), s)"
      using False by (auto simp: b Let_def e)
    then show ?thesis using prepared_skip[OF p False] by blast
  qed
qed (auto simp: prepared_def)

lemma fan_in_metadata_spec:
  assumes "set fs \<subseteq> task_ids tasks" and "distinct (map t_id tasks)"
  shows "\<exists>m. parse_fan_in_metadata pid tmo tasks fs meta = Inr m \<and>
    (\<forall>f. map_of m f = (if f \<in> set fs
      then Some \<lparr>fm_required_steps = t_dependencies (the (map_of (map (\<lambda>t. (t_id t, t)) tasks) f)),
        fm_correlation_id = ''corr-'' @ f @ ''-'' @ pid,
        fm_timeout = (case tmo of None \<Rightarrow> 300 | Some x \<Rightarrow> x)\<rparr>
      else map_of meta f))"
  using assms
proof (induction pid tmo tasks fs meta rule: parse_fan_in_metadata.induct)
  case (2 pid tmo tasks f fs meta)
  have find: "find (\<lambda>t. t_id t = f) tasks = map_of (map (\<lambda>t. (t_id t, t)) tasks) f"
    by (induction tasks) auto
  have "f \<in> fst ` set (map (\<lambda>t. (t_id t, t)) tasks)"
    using "2.prems"(1) by (auto simp: task_ids_def image_image)
  then obtain t where t: "map_of (map (\<lambda>t. (t_id t, t)) tasks) f = Some t" using map_of_key by metis
  show ?case using "2.IH"[of t] "2.prems" by (auto simp: find t update_conv')
qed simp

subsection \<open>A run of the parser on a valid configuration\<close>

definition edge_list :: "(string list \<Rightarrow> string list) \<Rightarrow> task list \<Rightarrow> (string \<times> string) list" where
  "edge_list it ts = concat (map (\<lambda>t. map (\<lambda>d. (d, t_id t)) (it (raw_deps t))) ts)"

lemma set_edge_list: "set_iteration it \<Longrightarrow> set (edge_list it ts) = dep_edges (config_deps ts)"
  by (force simp: edge_list_def dep_edges_def config_deps_def)

lemma distinct_edge_list: "set_iteration it \<Longrightarrow> distinct (map t_id ts) \<Longrightarrow> distinct (edge_list it ts)"
  unfolding edge_list_def by (induction ts) (auto simp: distinct_map inj_on_def)

lemma dep_pairs_task_deps:
  "dep_pairs (map (\<lambda>t. (t_id t, t)) tasks) = concat (map (\<lambda>(i, ds). map (\<lambda>d. (d, i)) ds) (task_deps tasks))"
  by (simp add: dep_pairs_def task_deps_def comp_def)

lemma map_of_task_deps: "map_of (task_deps tasks) i = map_option t_dependencies (map_of (map (\<lambda>t. (t_id t, t)) tasks) i)"
  by (induction tasks) (auto simp: task_deps_def)

lemma fan_in_task_deps:
  "identify_fan_in_steps (map (\<lambda>t. (t_id t, t)) tasks) = map fst (filter (\<lambda>(i, ds). 1 < length ds) (task_deps tasks))"
  by (simp add: identify_fan_in_steps_def task_deps_def filter_map comp_def)

definition fan_in_of :: "(string list \<Rightarrow> string list) \<Rightarrow> task list \<Rightarrow> string list" where
  "fan_in_of it ts = map t_id (filter (\<lambda>t. 1 < length (it (raw_deps t))) ts)"

lemma front_valid:
  assumes it: "set_iteration it" and valid: "valid_config ts" and N: "N = task_ids ts"
  obtains tasks outs order g g' where "infer_dependencies_and_outputs it ts = Inr (tasks, outs)"
    and "parse_dag tasks = (order, g)"
    and "detect_cycles_kahn tasks = Inr ()" and "validate_no_solo_nodes tasks g = Inr ()"
    and "validate_single_connected_dag it tasks g = Inr g'"
    and "distinct order" and "set order = N" and "preds_before g' N order"
    and "closed_graph g' N" and "edges g' N = dep_edges (config_deps ts)"
    and "fst ` set g' = N" and "distinct (dict_keys g')"
proof -
  have inputs: "(\<forall>t\<in>set ts. t_inputs t \<noteq> None) \<and> deps_known (config_deps ts)"
    and dist: "distinct (map t_id ts)" and ac: "acyclic (dep_edges (config_deps ts))"
    using valid by (auto simp: valid_config_def)
  obtain tasks outs where inf: "infer_dependencies_and_outputs it ts = Inr (tasks, outs)"
    using infer_accepts_iff[OF it, of ts] inputs by auto
  note f = infer_facts[OF it inf] and c = it_deps_config[OF it, of ts]
  obtain order g where pd: "parse_dag tasks = (order, g)" by fastforce
  obtain g' where chk: "detect_cycles_kahn tasks = Inr ()" "validate_no_solo_nodes tasks g = Inr ()"
    and g': "validate_single_connected_dag it tasks g = Inr g'"
    using checks_iff[OF it inf pd] valid by auto
  have ids: "task_ids tasks = N" using task_ids_cong[OF f(1)] by (simp add: N)
  have known: "deps_known (task_deps tasks)" and edg: "dep_edges (task_deps tasks) = dep_edges (config_deps ts)"
    using inputs by (simp_all add: f(2) c)
  note p = parse_dag_spec[OF known _ pd, unfolded ids edg f(1), OF dist]
  note cf = connected_facts[OF g', unfolded ids]
  have "fst ` set g \<subseteq> N" and "distinct (dict_keys g)"
    using build_graph_graph_keys[where gd = "([], [])" and ts = "task_deps tasks"] known ids
    by (auto simp: p(7) deps_known_def)
  then have keys: "fst ` set g' = N" "distinct (dict_keys g')" using cf(2,3) by auto
  have "closed_graph g' N" "edges g' N = dep_edges (config_deps ts)" "preds_before g' N order"
    using cf(1) p by (simp_all add: closed_graph_def edges_def preds_before_def)
  then show thesis using that[OF inf pd chk g'] p ac keys by blast
qed

lemma back_valid:
  assumes it: "set_iteration it" and inf: "infer_dependencies_and_outputs it ts = Inr (tasks, outs)"
    and dist: "distinct (map t_id ts)" and N: "N = task_ids ts"
    and g: "fst ` set g = N" "distinct (dict_keys g)"
  obtains s cs es pubs subs meta where "identify_fan_in_steps (make_task_dict tasks) = fan_in_of it ts"
    and "suggest_exchange_types g (make_task_dict tasks) (fan_in_of it ts) = Inr s"
    and "identify_publishers_subscribers_queues g (make_task_dict tasks) ([], [], []) = (pubs, subs, queues_of (edge_list it ts) [])"
    and "prepare_rabbitmq_configs outs (queues_of (edge_list it ts) []) s [] [] = Inr (cs, s)"
    and "parse_fan_in_metadata pid tmo tasks (fan_in_of it ts) [] = Inr meta"
    and "fst ` set s = N"
    and "\<And>t. t \<in> N \<Longrightarrow> \<exists>e. map_of s t = Some e \<and>
      es_exchange_type e = (if 1 < length (succs g t) \<or> t \<in> set (fan_in_of it ts) then ''fanout'' else ''direct'')"
    and "prepared outs (queues_of (edge_list it ts) []) s {} cs es"
    and "\<And>f. map_of meta f = (if f \<in> set (fan_in_of it ts)
      then Some \<lparr>fm_required_steps = t_dependencies (the (map_of (map (\<lambda>t. (t_id t, t)) tasks) f)),
        fm_correlation_id = ''corr-'' @ f @ ''-'' @ pid,
        fm_timeout = (case tmo of None \<Rightarrow> 300 | Some x \<Rightarrow> x)\<rparr> else None)"
proof -
  note f = infer_facts[OF it inf]
  have ids: "task_ids tasks = N" using task_ids_cong[OF f(1)] by (simp add: N)
  define td where "td = map (\<lambda>t. (t_id t, t)) tasks"
  have td: "make_task_dict tasks = td"
    using make_task_dict_distinct[of tasks] dist f(1) by (simp add: td_def)
  have tdk: "fst ` set td = N" using ids by (auto simp: td_def task_ids_def image_image)
  have fan: "identify_fan_in_steps td = fan_in_of it ts"
    by (simp add: td_def fan_in_task_deps f(2) it_deps_def fan_in_of_def filter_map comp_def)
  have fanN: "set (fan_in_of it ts) \<subseteq> N" by (auto simp: fan_in_of_def N task_ids_def)
  have sugg: "\<exists>s. suggest_exchange_types g td (fan_in_of it ts) = Inr s \<and> fst ` set s = N \<and>
      (\<forall>t\<in>N. \<exists>e. map_of s t = Some e \<and>
        es_exchange_type e = (if 1 < length (succs g t) \<or> t \<in> set (fan_in_of it ts) then ''fanout'' else ''direct''))"
    using suggest_exchange_types_spec[of g td "fan_in_of it ts", unfolded tdk, OF g fanN] .
  then obtain s where s: "suggest_exchange_types g td (fan_in_of it ts) = Inr s" "fst ` set s = N"
    "\<And>t. t \<in> N \<Longrightarrow> \<exists>e. map_of s t = Some e \<and>
      es_exchange_type e = (if 1 < length (succs g t) \<or> t \<in> set (fan_in_of it ts) then ''fanout'' else ''direct'')"
    by blast
  have "dep_pairs td = edge_list it ts"
    by (simp add: td_def dep_pairs_task_deps f(2) it_deps_def edge_list_def comp_def)
  then obtain pubs subs where q:
    "identify_publishers_subscribers_queues g td ([], [], []) = (pubs, subs, queues_of (edge_list it ts) [])"
    using identify_queues[of g td "([], [], [])"] by (metis prod.collapse snd_conv)
  have "deps_known (config_deps ts)" using infer_accepts_iff[OF it, of ts] inf by auto
  note edgN = config_edges_ids[OF this, folded N]
  have "\<forall>(n, qi) \<in> set (queues_of (edge_list it ts) []).
      \<exists>f. q_from_task qi = Some f \<and> f \<in> fst ` set s \<and> q_to_task qi \<in> fst ` set s"
  proof clarify
    fix n qi assume "(n, qi) \<in> set (queues_of (edge_list it ts) [])"
    from queues_of_sound[OF this] obtain d t where "(d, t) \<in> dep_edges (config_deps ts)" "qi = queue_entry (d, t)"
      by (auto simp: set_edge_list[OF it])
    with edgN s(2) show "\<exists>f. q_from_task qi = Some f \<and> f \<in> fst ` set s \<and> q_to_task qi \<in> fst ` set s"
      by (auto simp: queue_entry_def)
  qed
  from prepare_spec[OF this, of outs "[]" "[]"] obtain cs es where
    prep: "prepare_rabbitmq_configs outs (queues_of (edge_list it ts) []) s [] [] = Inr (cs, s)"
    and pr: "prepared outs (queues_of (edge_list it ts) []) s {} cs es" by auto
  have "distinct (map t_id tasks)" using dist f(1) by simp
  from fan_in_metadata_spec[OF fanN[folded ids] this, of pid tmo "[]"] obtain meta where
    m: "parse_fan_in_metadata pid tmo tasks (fan_in_of it ts) [] = Inr meta"
    "\<And>f. map_of meta f = (if f \<in> set (fan_in_of it ts)
      then Some \<lparr>fm_required_steps = t_dependencies (the (map_of (map (\<lambda>t. (t_id t, t)) tasks) f)),
        fm_correlation_id = ''corr-'' @ f @ ''-'' @ pid,
        fm_timeout = (case tmo of None \<Rightarrow> 300 | Some x \<Rightarrow> x)\<rparr> else None)"
    unfolding map_of.simps by auto
  show thesis by (rule that[unfolded td, OF fan s(1) q prep m(1) s(2) s(3) pr m(2)])
qed

lemma parse_graph_valid:
  assumes it: "set_iteration it" and valid: "valid_config ts" and ts: "ts = dag_tasks cfg"
    and N: "N = task_ids ts"
  obtains fc s cs es where "parse_graph it pid cfg = Inr fc"
    and "distinct (fc_execution_order fc)" and "set (fc_execution_order fc) = N"
    and "preds_before (fc_task_graph fc) N (fc_execution_order fc)"
    and "distinct (dict_keys (fc_task_graph fc))" and "fst ` set (fc_task_graph fc) = N"
    and "closed_graph (fc_task_graph fc) N" and "edges (fc_task_graph fc) N = dep_edges (config_deps ts)"
    and "fc_parallel_tasks fc = find_parallel_tasks (fc_execution_order fc) (fc_task_graph fc)"
    and "fc_fan_in_steps fc = fan_in_of it ts"
    and "fst ` set s = N"
    and "\<And>t. t \<in> N \<Longrightarrow> \<exists>e. map_of s t = Some e \<and>
      es_exchange_type e = (if 1 < length (succs (fc_task_graph fc) t) \<or> t \<in> set (fan_in_of it ts)
        then ''fanout'' else ''direct'')"
    and "fc_rabbitmq_configs fc = cs @ [entry_config pid]"
    and "prepared (fc_task_outputs fc) (queues_of (edge_list it ts) []) s {} cs es"
    and "\<And>d. set (dict_get (fc_task_outputs fc) d []) = {t. (d, t) \<in> dep_edges (config_deps ts)}"
    and "\<And>f. map_of (fc_fan_in_metadata fc) f = (if f \<in> set (fan_in_of it ts)
      then Some \<lparr>fm_required_steps = the (map_of (it_deps it ts) f),
        fm_correlation_id = ''corr-'' @ f @ ''-'' @ pid,
        fm_timeout = (case dag_timeout cfg of None \<Rightarrow> 300 | Some x \<Rightarrow> x)\<rparr> else None)"
proof -
  have dist: "distinct (map t_id ts)" using valid by (simp add: valid_config_def)
  obtain tasks outs order g0 g where inf: "infer_dependencies_and_outputs it ts = Inr (tasks, outs)"
    and pd: "parse_dag tasks = (order, g0)" and c: "detect_cycles_kahn tasks = Inr ()"
    "validate_no_solo_nodes tasks g0 = Inr ()" "validate_single_connected_dag it tasks g0 = Inr g"
    and o: "distinct order" "set order = N" "preds_before g N order"
    and g: "closed_graph g N" "edges g N = dep_edges (config_deps ts)" "fst ` set g = N" "distinct (dict_keys g)"
    by (rule front_valid[OF it valid N]) (rule that; assumption)
  obtain s cs es pubs subs meta where b: "identify_fan_in_steps (make_task_dict tasks) = fan_in_of it ts"
    "suggest_exchange_types g (make_task_dict tasks) (fan_in_of it ts) = Inr s"
    "identify_publishers_subscribers_queues g (make_task_dict tasks) ([], [], []) = (pubs, subs, queues_of (edge_list it ts) [])"
    "prepare_rabbitmq_configs outs (queues_of (edge_list it ts) []) s [] [] = Inr (cs, s)"
    "parse_fan_in_metadata pid (dag_timeout cfg) tasks (fan_in_of it ts) [] = Inr meta"
    "fst ` set s = N"
    and st: "\<And>t. t \<in> N \<Longrightarrow> \<exists>e. map_of s t = Some e \<and>
      es_exchange_type e = (if 1 < length (succs g t) \<or> t \<in> set (fan_in_of it ts) then ''fanout'' else ''direct'')"
    and pr: "prepared outs (queues_of (edge_list it ts) []) s {} cs es"
    and m: "\<And>f. map_of meta f = (if f \<in> set (fan_in_of it ts)
      then Some \<lparr>fm_required_steps = t_dependencies (the (map_of (map (\<lambda>t. (t_id t, t)) tasks) f)),
        fm_correlation_id = ''corr-'' @ f @ ''-'' @ pid,
        fm_timeout = (case dag_timeout cfg of None \<Rightarrow> 300 | Some x \<Rightarrow> x)\<rparr> else None)"
    by (rule back_valid[OF it inf dist N g(3,4), of pid "dag_timeout cfg"]) (rule that; assumption)
  note f = infer_facts[OF it inf]
  have dep: "the (map_of (it_deps it ts) i) = t_dependencies (the (map_of (map (\<lambda>t. (t_id t, t)) tasks) i))"
    if "i \<in> set (fan_in_of it ts)" for i
  proof -
    have "i \<in> set (map t_id ts)" using that by (auto simp: fan_in_of_def)
    then have "i \<in> set (map t_id tasks)" by (simp only: f(1))
    then have "i \<in> fst ` set (map (\<lambda>t. (t_id t, t)) tasks)" by (simp add: image_image)
    then obtain t where "map_of (map (\<lambda>t. (t_id t, t)) tasks) i = Some t" using map_of_key by metis
    then show ?thesis by (simp add: f(2)[symmetric] map_of_task_deps)
  qed
  have outs: "set (dict_get outs d []) = {t. (d, t) \<in> dep_edges (config_deps ts)}" for d
    using f(4)[of d] by (auto simp: dep_edges_def config_deps_def)
  have run: "\<exists>fc. parse_graph it pid cfg = Inr fc \<and> fc_execution_order fc = order \<and> fc_task_graph fc = g \<and>
    fc_parallel_tasks fc = find_parallel_tasks order g \<and> fc_fan_in_steps fc = fan_in_of it ts \<and>
    fc_rabbitmq_configs fc = cs @ [entry_config pid] \<and> fc_task_outputs fc = outs \<and> fc_fan_in_metadata fc = meta"
    by (simp add: parse_graph_def ts[symmetric] inf pd c b Let_def)
  then obtain fc where fc: "parse_graph it pid cfg = Inr fc" "fc_execution_order fc = order" "fc_task_graph fc = g"
    "fc_parallel_tasks fc = find_parallel_tasks order g" "fc_fan_in_steps fc = fan_in_of it ts"
    "fc_rabbitmq_configs fc = cs @ [entry_config pid]" "fc_task_outputs fc = outs" "fc_fan_in_metadata fc = meta"
    by blast
  show thesis
    by (rule that[of fc s cs es]) (use st in \<open>simp_all only: fc o g b(6) pr outs m dep if_True if_False cong: if_cong\<close>)
qed

end
