(* ===== verification/Consumer_Config.thy ===== *)
theory Consumer_Config
  imports Run_Store Workflow_Topology
begin

section \<open>Publishers and consumers of a pipeline\<close>

text \<open>
  How the services of a run use the configuration the parser made: \<^verbatim>\<open>consumer_wrapper.py\<close> cuts out the queues
  and bindings of one service, \<^verbatim>\<open>pika_queue.py\<close> binds each queue to an exchange, \<^verbatim>\<open>event_handler.py\<close> binds the
  queues of a run, and \<^verbatim>\<open>forwarder.py\<close> with \<^verbatim>\<open>pub_wrapper.py\<close> publishes the result of a task. \<open>suffix\<close> is the
  switch \<^verbatim>\<open>PIPELINE_RUN_SUFFIX\<close>, \<open>run\<close> the identifier of the run. The broker is the parameter \<open>routes\<close>: on an
  exchange of the given type, whether a queue bound with the first key gets a message with the second.
\<close>

definition ends_with :: "string \<Rightarrow> string \<Rightarrow> bool" where
  "ends_with suf s = (length suf \<le> length s \<and> drop (length s - length suf) s = suf)"

definition or_str :: "string \<Rightarrow> string \<Rightarrow> string" where
  "or_str s dflt = (if s \<noteq> [] then s else dflt)"

text \<open>The run is appended with a dot, unless it is there already.\<close>

definition with_run :: "string \<Rightarrow> string \<Rightarrow> string" where
  "with_run run s = (if ends_with (''.'' @ run) s then s else s @ ''.'' @ run)"

subsection \<open>Publishing\<close>

definition get_dynamic_names_from_config :: "bool \<Rightarrow> string \<Rightarrow> rabbitmq_config \<Rightarrow> string \<times> string \<times> string" where
  "get_dynamic_names_from_config suffix run rb =
     (let key = strip (or_str (rc_routing_key rb) (rc_queue rb))
      in (rc_exchange rb, if suffix \<and> run \<noteq> [] \<and> key \<noteq> [] then with_run run key else key,
          lower_str (or_str (rc_exchange_type rb) ''direct'')))"

record publication =
  pb_exchange :: string
  pb_type :: string
  pb_key :: string
  pb_body :: doc

datatype publish_error = NoBinding string

definition envelope :: "string \<Rightarrow> string \<Rightarrow> string \<Rightarrow> string \<Rightarrow> json \<Rightarrow> doc" where
  "envelope run u pid from payload =
     [(''pipeline_run_id'', JStr run), (''username'', JStr u), (''pipeline_id'', JStr pid), (''from_task'', JStr from),
      (''payload'', payload)]"

definition publication_of :: "bool \<Rightarrow> string \<Rightarrow> doc \<Rightarrow> rabbitmq_config \<Rightarrow> publication" where
  "publication_of suffix run body rb =
     (let (_, key, ty) = get_dynamic_names_from_config suffix run rb
      in \<lparr>pb_exchange = rc_exchange rb, pb_type = ty, pb_key = key, pb_body = body\<rparr>)"

definition call_publish :: "bool \<Rightarrow> final_config \<Rightarrow> string \<Rightarrow> string \<Rightarrow> string \<Rightarrow> string \<Rightarrow> json \<Rightarrow> publish_error + publication list" where
  "call_publish suffix fc task run u pid payload =
     (let edge_rbs = filter (\<lambda>c. rc_task_id c = task) (fc_rabbitmq_configs fc)
      in if edge_rbs = [] then Inl (NoBinding task)
         else Inr (map (publication_of suffix run (envelope run u pid task payload)) edge_rbs))"

subsection \<open>The configuration of a service\<close>

definition get_tasks_for_service_name :: "string \<Rightarrow> final_config \<Rightarrow> string list" where
  "get_tasks_for_service_name svc fc = map fst (filter (\<lambda>(t, tk). t_available_services tk = svc) (fc_task_dict fc))"

definition get_subscribe_queues_for_task :: "string \<Rightarrow> final_config \<Rightarrow> string list" where
  "get_subscribe_queues_for_task t fc = map fst (filter (\<lambda>(n, q). q_to_task q = t) (fc_queues fc))"

record service_config =
  sc_queues :: "(string \<times> queue_info) list"
  sc_configs :: "rabbitmq_config list"
  sc_fan_in :: "(string \<times> fan_in_meta) list"
  sc_subscribers :: "(string \<times> subscriber_info) list"
  sc_task_dict :: "(string \<times> task) list"
  sc_per_run :: bool
  sc_run :: string
  sc_service :: string
  sc_pipeline :: string
  sc_username :: string

definition generate_final_config_for :: "string \<Rightarrow> string list \<Rightarrow> final_config \<Rightarrow> service_config" where
  "generate_final_config_for svc names fc =
     (let tasks = get_tasks_for_service_name svc fc
      in \<lparr>sc_queues = List.map_filter (\<lambda>n. map_option (Pair n) (map_of (fc_queues fc) n)) names,
          sc_configs = filter (\<lambda>c. rc_queue c \<in> set names) (fc_rabbitmq_configs fc),
          sc_fan_in = List.map_filter (\<lambda>t. map_option (Pair t) (map_of (fc_fan_in_metadata fc) t)) tasks,
          sc_subscribers = List.map_filter (\<lambda>t. map_option (Pair t) (map_of (fc_subscribers fc) t)) tasks,
          sc_task_dict = filter (\<lambda>(t, tk). t_available_services tk = svc) (fc_task_dict fc),
          sc_per_run = False, sc_run = [], sc_service = [], sc_pipeline = [], sc_username = []\<rparr>)"

definition suffix_queue :: "string \<Rightarrow> string \<times> queue_info \<Rightarrow> string \<times> queue_info" where
  "suffix_queue run q = (with_run run (fst q), snd q\<lparr>q_queue_name := with_run run (fst q)\<rparr>)"

definition suffix_config :: "string \<Rightarrow> string list \<Rightarrow> rabbitmq_config \<Rightarrow> rabbitmq_config" where
  "suffix_config run names rb =
     rb\<lparr>rc_queue := (if rc_queue rb \<in> set names then with_run run (rc_queue rb) else rc_queue rb),
        rc_routing_key := with_run run (or_str (rc_routing_key rb) (rc_queue rb))\<rparr>"

definition build_final_config_for_service :: "(string list \<Rightarrow> string list) \<Rightarrow> bool \<Rightarrow> string \<Rightarrow> string \<Rightarrow> string \<Rightarrow> string
    \<Rightarrow> final_config \<Rightarrow> service_config" where
  "build_final_config_for_service it suffix run u pid svc fc =
     (let tasks = get_tasks_for_service_name svc fc;
          names = it (concat (map (\<lambda>t. get_subscribe_queues_for_task t fc) tasks));
          mini = generate_final_config_for svc names fc;
          mini = (if suffix \<and> run \<noteq> []
            then mini\<lparr>sc_queues := map (suffix_queue run) (sc_queues mini),
              sc_configs := map (suffix_config run (map fst (sc_queues mini))) (sc_configs mini), sc_per_run := True\<rparr>
            else mini)
      in mini\<lparr>sc_run := run, sc_service := svc, sc_pipeline := pid, sc_username := u\<rparr>)"

subsection \<open>Bindings\<close>

record binding =
  bi_queue :: string
  bi_exchange :: string
  bi_type :: string
  bi_key :: string

definition known_type :: "string \<Rightarrow> string" where
  "known_type ty = (if ty \<in> {''direct'', ''fanout'', ''topic'', ''headers''} then ty else ''direct'')"

text \<open>The exchange a queue of the service is bound to; \<open>None\<close> when no configuration names the queue.\<close>

definition setup_exchange_binding :: "service_config \<Rightarrow> string \<Rightarrow> binding option" where
  "setup_exchange_binding sc qn =
     (case find (\<lambda>c. rc_queue c = qn) (sc_configs sc) of
        None \<Rightarrow> None
      | Some rb \<Rightarrow>
          (let base = or_str (rc_queue rb) qn
           in Some \<lparr>bi_queue = qn, bi_exchange = rc_exchange rb,
             bi_type = known_type (lower_str (or_str (rc_exchange_type rb) ''direct'')),
             bi_key = (if rc_routing_key rb \<noteq> [] then rc_routing_key rb
               else if sc_per_run sc \<and> sc_run sc \<noteq> [] then base @ ''.'' @ sc_run sc else base)\<rparr>))"

definition consumer_bindings :: "service_config \<Rightarrow> binding list" where
  "consumer_bindings sc = List.map_filter (\<lambda>(n, q). setup_exchange_binding sc (q_queue_name q)) (sc_queues sc)"

text \<open>The bindings of the queues of a run that the event handler declares beside them.\<close>

definition rb_index :: "final_config \<Rightarrow> ((string \<times> string) \<times> rabbitmq_config) list" where
  "rb_index fc = fold (\<lambda>c m. if rc_task_id c \<noteq> [] \<and> rc_queue c \<noteq> [] then dict_set (rc_task_id c, rc_queue c) c m else m)
     (fc_rabbitmq_configs fc) []"

definition run_binding :: "string \<Rightarrow> string \<Rightarrow> rabbitmq_config \<Rightarrow> binding" where
  "run_binding run base rb =
     (let raw = lower_str (or_str (rc_exchange_type rb) ''direct'');
          ty = (if raw \<in> {''direct'', ''fanout'', ''topic''} then raw else ''direct''); run_queue = base @ ''.'' @ run
      in \<lparr>bi_queue = run_queue, bi_exchange = rc_exchange rb, bi_type = ty,
          bi_key = (if ty = ''fanout'' then rc_routing_key rb else if ty = ''topic'' then run_queue
            else or_str (rc_routing_key rb) base @ ''.'' @ run)\<rparr>)"

definition ensure_run_topology :: "final_config \<Rightarrow> string \<Rightarrow> binding list" where
  "ensure_run_topology fc run =
     concat (map (\<lambda>(base, edge). case q_from_task edge of
         None \<Rightarrow> []
       | Some from \<Rightarrow> if from = [] \<or> q_to_task edge = [] then []
           else (case map_of (rb_index fc) (from, base) of None \<Rightarrow> [] | Some rb \<Rightarrow> [run_binding run base rb]))
       (fc_queues fc))"

subsection \<open>Delivery\<close>

text \<open>\<open>copies routes pubs b\<close>: how many of the published messages the broker puts into the queue of the binding.\<close>

definition copies :: "(string \<Rightarrow> string \<Rightarrow> string \<Rightarrow> bool) \<Rightarrow> publication list \<Rightarrow> binding \<Rightarrow> nat" where
  "copies routes pubs b = length (filter (\<lambda>p. pb_exchange p = bi_exchange b \<and> routes (bi_type b) (bi_key b) (pb_key p)) pubs)"

text \<open>What the broker promises: a direct exchange compares the keys, a fanout exchange ignores them.\<close>

locale exchange_routing =
  fixes routes :: "string \<Rightarrow> string \<Rightarrow> string \<Rightarrow> bool"
  assumes direct: "routes ''direct'' b k \<longleftrightarrow> b = k"
    and fanout: "routes ''fanout'' b k"
begin

lemma copies_direct: "bi_type b = ''direct'' \<Longrightarrow> copies routes pubs b = length (filter (\<lambda>p. pb_exchange p = bi_exchange b \<and> pb_key p = bi_key b) pubs)"
  by (auto simp: copies_def direct intro!: arg_cong[where f = length] filter_cong)

lemma copies_fanout: "bi_type b = ''fanout'' \<Longrightarrow> copies routes pubs b = length (filter (\<lambda>p. pb_exchange p = bi_exchange b) pubs)"
  by (auto simp: copies_def fanout)

end

definition broker :: "string \<Rightarrow> string \<Rightarrow> string \<Rightarrow> bool" where
  "broker ty b k = (if ty = ''fanout'' then True else b = k)"

interpretation broker: exchange_routing broker
  by unfold_locales (simp_all add: broker_def)

subsection \<open>Bindings of an edge\<close>

lemma ends_with_append [simp]: "ends_with suf (s @ suf)"
  by (simp add: ends_with_def)

lemma find_filter: "\<forall>x \<in> set xs. P x \<longrightarrow> Q x \<Longrightarrow> find P (filter Q xs) = find P xs"
  by (induction xs) auto

lemma lower_types [simp]: "lower_str ''direct'' = ''direct''" "lower_str ''fanout'' = ''fanout''"
  by code_simp+

end
