(* ===== verification/Fan_In.thy ===== *)
theory Fan_In
  imports Consumer_Config
begin

section \<open>Fan-in\<close>

text \<open>
  The consumer side of \<^verbatim>\<open>pika_queue.py\<close>: a message of a paused run is held back; otherwise the handler of the queue
  files it under the run and the task it is for, and the task is forwarded when all the steps it requires have sent
  one. The state is \<^verbatim>\<open>aggregator_store\<close>, a dictionary of dictionaries from the sending task to its envelope. An
  envelope names the sending task by a string, as the publishers write it. \<open>repr\<close> prints the other values.
\<close>

type_synonym aggregator = "(string \<times> (string \<times> doc) list) list"

record forwarded =
  fw_state :: task_state
  fw_trigger :: "string list"
  fw_task :: string

subsection \<open>Paused runs\<close>

definition pause_holds :: "(json \<Rightarrow> string) \<Rightarrow> json \<Rightarrow> bool" where
  "pause_holds repr run_doc =
     (case run_doc of
        JDict d \<Rightarrow> truthy (jget d ''paused'') \<and>
          upper_str (py_str repr (jor (jget d ''status'') (JStr []))) \<notin> {''COMPLETED'', ''FAILED''}
      | _ \<Rightarrow> False)"

text \<open>\<open>obs n\<close> is the run document at the \<open>n\<close>-th look; the result is the look at which the message is let through.\<close>

partial_function (option) wait_from :: "(json \<Rightarrow> string) \<Rightarrow> (nat \<Rightarrow> json) \<Rightarrow> nat \<Rightarrow> nat option" where
  "wait_from repr obs n = (if pause_holds repr (obs n) then wait_from repr obs (Suc n) else Some n)"

definition wait_if_paused :: "(json \<Rightarrow> string) \<Rightarrow> bool \<Rightarrow> (nat \<Rightarrow> json) \<Rightarrow> doc \<Rightarrow> nat option" where
  "wait_if_paused repr has_store obs payload =
     (if truthy (jget payload ''pipeline_run_id'') \<and> truthy (jget payload ''username'') \<and> truthy (jget payload ''pipeline_id'') \<and> has_store
      then wait_from repr obs 0 else Some 0)"

subsection \<open>The handler of a queue\<close>

definition make_next_task_state :: "service_config \<Rightarrow> string \<Rightarrow> doc \<Rightarrow> (string \<times> doc) list option \<Rightarrow> task_state option" where
  "make_next_task_state sc to_task base aggregated =
     (let svc = (case map_of (sc_task_dict sc) to_task of None \<Rightarrow> [] | Some tk \<Rightarrow> t_available_services tk);
          data = (case aggregated of
              Some parts \<Rightarrow> [(''upstreams'', JDict (map (\<lambda>(f, d). (f, JDict d)) parts))]
            | None \<Rightarrow> [(''from_task'', jget base ''from_task''), (''payload'', JDict base)])
      in case (jget base ''pipeline_run_id'', dict_get base ''username'' (JStr []), jor (jget base ''pipeline_config_id'') (JStr []),
            jor (jor (jget base ''pipeline_id'') (JStr (sc_pipeline sc))) (JStr [])) of
           (JStr run, JStr u, JStr _, JStr pid) \<Rightarrow> Some
             \<lparr>ts_status = SEnum TsPending, ts_attempts = 0, ts_error = None, ts_is_final = Some False, ts_run_id = run,
              ts_task_id = to_task, ts_username = u, ts_pipeline_id = pid, ts_service = svc, ts_data = data\<rparr>
         | _ \<Rightarrow> None)"

definition required_upstreams :: "service_config \<Rightarrow> string \<Rightarrow> string list" where
  "required_upstreams sc t = (case map_of (sc_fan_in sc) t of None \<Rightarrow> [] | Some m \<Rightarrow> fm_required_steps m)"

definition sender :: "doc \<Rightarrow> string" where
  "sender msg = jstr (dict_get msg ''from_task'' (JStr ''<unknown>''))"

definition aggregator_key :: "(json \<Rightarrow> string) \<Rightarrow> doc \<Rightarrow> string \<Rightarrow> string" where
  "aggregator_key repr msg to_task = py_str repr (jget msg ''pipeline_run_id'') @ ''_'' @ to_task"

definition default_handler :: "(json \<Rightarrow> string) \<Rightarrow> service_config \<Rightarrow> string \<Rightarrow> doc \<Rightarrow> aggregator \<Rightarrow> forwarded option \<times> aggregator" where
  "default_handler repr sc to_task msg st =
     (if to_task = [] \<or> \<not> truthy (jget msg ''pipeline_run_id'') then (None, st)
      else let key = aggregator_key repr msg to_task; from = sender msg;
               parts = dict_set from msg (dict_get st key []);
               st1 = dict_set key parts st;
               needed = required_upstreams sc to_task
           in if needed = [] then
                (map_option (\<lambda>t. \<lparr>fw_state = t, fw_trigger = [from], fw_task = to_task\<rparr>) (make_next_task_state sc to_task msg None), st1)
              else if set needed \<subseteq> set (map fst parts) then
                (map_option (\<lambda>t. \<lparr>fw_state = t, fw_trigger = map fst parts, fw_task = to_task\<rparr>)
                   (make_next_task_state sc to_task msg (Some parts)), AList.delete key st1)
              else (None, st1))"

fun handle_all :: "(json \<Rightarrow> string) \<Rightarrow> service_config \<Rightarrow> (string \<times> doc) list \<Rightarrow> aggregator \<Rightarrow> forwarded list \<times> aggregator" where
  "handle_all repr sc [] st = ([], st)"
| "handle_all repr sc ((t, m) # ms) st =
     (let (f, st1) = default_handler repr sc t m st; (fs, st2) = handle_all repr sc ms st1
      in ((case f of None \<Rightarrow> fs | Some x \<Rightarrow> x # fs), st2))"

subsection \<open>Dispatch to another service\<close>

record dispatch_command =
  dp_username :: string
  dp_pipeline :: string
  dp_run :: string
  dp_plan :: string
  dp_task :: string
  dp_agent :: string
  dp_service :: string
  dp_reforwards :: int

record dispatched_event =
  de_task :: string
  de_agent :: string
  de_service :: string
  de_type :: string
  de_reforwards :: int

text \<open>The bindings the parser makes have no \<^verbatim>\<open>to_tasks\<close>, so a queue is chosen by the end of its name. All
  publications succeed.\<close>

definition dispatch_targets :: "final_config \<Rightarrow> string \<Rightarrow> rabbitmq_config list" where
  "dispatch_targets fc t = filter (\<lambda>c. ends_with t (rc_queue c)) (fc_rabbitmq_configs fc)"

definition handle_dispatch_task :: "('c, doc) doc_ops \<Rightarrow> bool \<Rightarrow> dispatch_command \<Rightarrow> 'c option \<Rightarrow> final_config option
    \<Rightarrow> (dispatched_event \<times> publication list) option" where
  "handle_dispatch_task ops suffix cmd outputs fc =
     (case outputs of None \<Rightarrow> None | Some c \<Rightarrow>
      let input_doc = read_task_output ops (dp_username cmd) (''input_'' @ dp_task cmd) (dp_run cmd) c
      in if input_doc = [] then None
         else case fc of None \<Rightarrow> None | Some cfg \<Rightarrow>
           (let body = envelope (dp_run cmd) (dp_username cmd) (dp_pipeline cmd) ''__cnp_dispatch__'' (JDict input_doc);
                pubs = map (publication_of suffix (dp_run cmd) body) (dispatch_targets cfg (dp_task cmd))
            in if pubs = [] then None
               else Some (\<lparr>de_task = dp_task cmd, de_agent = dp_agent cmd, de_service = dp_service cmd, de_type = ''cross_service'',
                 de_reforwards = dp_reforwards cmd\<rparr>, pubs)))"

end
