(* ===== verification/Workflow_Properties.thy ===== *)
theory Workflow_Properties
  imports Workflow_Topology
begin

section \<open>The pipeline parser: what it promises\<close>

text \<open>
  The properties of \<^verbatim>\<open>ConfigParser.parse_graph\<close> as a whole, each over the configuration as the
  user wrote it (\<open>config_deps\<close>), with a concrete pipeline (\<open>diamond\<close>) on which they apply.
\<close>

definition mk_task :: "string \<Rightarrow> string list \<Rightarrow> task" where
  "mk_task i ds = \<lparr>t_id = i, t_name = i, t_available_services = ''svc_'' @ i, t_action = ''run'',
     t_is_entry = (ds = []), t_description = None, t_inputs = Some [(''dependencies'', ds)],
     t_is_final_task = False, t_dependencies = [], t_inferred_outputs = []\<rparr>"

definition diamond :: dag_config where
  "diamond = \<lparr>dag_tasks = [mk_task ''a'' [], mk_task ''b'' [''a''], mk_task ''c'' [''a''],
     mk_task ''d'' [''b'', ''c'']], dag_timeout = None\<rparr>"

lemma diamond_run: "\<exists>fc. parse_graph remdups ''p'' diamond = Inr fc"
proof -
  have "\<not> isl (parse_graph remdups ''p'' diamond)" by code_simp
  then show ?thesis by (cases "parse_graph remdups ''p'' diamond") auto
qed

lemma parse_graph_invalid:
  assumes it: "set_iteration it" and ok: "parse_graph it pid cfg = Inr fc"
  shows "valid_config (dag_tasks cfg)"
proof (cases "infer_dependencies_and_outputs it (dag_tasks cfg)")
  case inf: (Inr r)
  obtain tasks outs where r: "r = (tasks, outs)" by fastforce
  obtain order g where pd: "parse_dag tasks = (order, g)" by fastforce
  have 1: "detect_cycles_kahn tasks = Inr ()"
    using ok by (cases "detect_cycles_kahn tasks") (simp_all add: parse_graph_def inf r)
  have 2: "validate_no_solo_nodes tasks g = Inr ()"
    using ok by (cases "validate_no_solo_nodes tasks g") (simp_all add: parse_graph_def inf r 1 pd)
  have 3: "\<exists>g'. validate_single_connected_dag it tasks g = Inr g'"
    using ok by (cases "validate_single_connected_dag it tasks g") (simp_all add: parse_graph_def inf r 1 2 pd)
  show ?thesis using checks_iff[OF it inf[unfolded r] pd] 1 2 3 by simp
qed (use ok in \<open>simp add: parse_graph_def\<close>)

text \<open>What holds of the result of a run, with the suggestions \<open>s\<close>, the bindings \<open>cs\<close> and the
  queues \<open>es\<close> chosen for the end tasks.\<close>

definition parsed :: "(string list \<Rightarrow> string list) \<Rightarrow> string \<Rightarrow> dag_config \<Rightarrow> final_config
    \<Rightarrow> (string \<times> exchange_suggestion) list \<Rightarrow> rabbitmq_config list \<Rightarrow> queue_info list \<Rightarrow> bool" where
  "parsed it pid cfg fc s cs es \<longleftrightarrow> (let ts = dag_tasks cfg; N = task_ids ts; g = fc_task_graph fc in
     distinct (fc_execution_order fc) \<and> set (fc_execution_order fc) = N \<and>
     preds_before g N (fc_execution_order fc) \<and> distinct (dict_keys g) \<and> fst ` set g = N \<and>
     closed_graph g N \<and> edges g N = dep_edges (config_deps ts) \<and>
     fc_parallel_tasks fc = find_parallel_tasks (fc_execution_order fc) g \<and>
     fc_fan_in_steps fc = fan_in_of it ts \<and> fst ` set s = N \<and>
     (\<forall>t\<in>N. \<exists>e. map_of s t = Some e \<and> es_exchange_type e =
        (if 1 < length (succs g t) \<or> t \<in> set (fan_in_of it ts) then ''fanout'' else ''direct'')) \<and>
     fc_rabbitmq_configs fc = cs @ [entry_config pid] \<and>
     prepared (fc_task_outputs fc) (queues_of (edge_list it ts) []) s {} cs es \<and>
     (\<forall>d. set (dict_get (fc_task_outputs fc) d []) = {t. (d, t) \<in> dep_edges (config_deps ts)}) \<and>
     (\<forall>f. map_of (fc_fan_in_metadata fc) f = (if f \<in> set (fan_in_of it ts)
       then Some \<lparr>fm_required_steps = the (map_of (it_deps it ts) f),
         fm_correlation_id = ''corr-'' @ f @ ''-'' @ pid,
         fm_timeout = (case dag_timeout cfg of None \<Rightarrow> 300 | Some x \<Rightarrow> x)\<rparr> else None)))"

lemma parse_graph_runs:
  assumes it: "set_iteration it" and valid: "valid_config (dag_tasks cfg)"
  shows "\<exists>fc s cs es. parse_graph it pid cfg = Inr fc \<and> parsed it pid cfg fc s cs es"
  by (rule parse_graph_valid[OF it valid refl refl, of pid]) (unfold parsed_def Let_def, blast)

lemma parse_graph_parsed:
  assumes "set_iteration it" and "parse_graph it pid cfg = Inr fc"
  obtains s cs es where "parsed it pid cfg fc s cs es"
  using parse_graph_runs[OF assms(1) parse_graph_invalid[OF assms], of pid] assms(2) by auto

text \<open>C1. The parser accepts a pipeline exactly when it is well formed: it has tasks, every task has an
  inputs dictionary, every dependency names a task, the identifiers are distinct, the dependencies
  have no cycle, no task stands alone and every task is reachable from the first one. In every other
  case it raises, whatever the iteration order of Python sets.\<close>

theorem parse_graph_accepts_iff:
  assumes "set_iteration it"
  shows "(\<exists>fc. parse_graph it pid cfg = Inr fc) \<longleftrightarrow> valid_config (dag_tasks cfg)"
  using parse_graph_invalid[OF assms] parse_graph_runs[OF assms, of cfg pid] by blast

theorem parse_graph_accepts_iff_witness:
  "set_iteration remdups \<and> valid_config (dag_tasks diamond)"
  using parse_graph_accepts_iff[OF set_iteration_remdups, of "''p''" diamond] diamond_run set_iteration_remdups by simp

text \<open>C2. The execution order of an accepted pipeline is a permutation of its tasks in which every task
  comes after all the tasks it depends on.\<close>

theorem execution_order_topological:
  assumes "set_iteration it" and "parse_graph it pid cfg = Inr fc"
  shows "distinct (fc_execution_order fc) \<and> set (fc_execution_order fc) = task_ids (dag_tasks cfg) \<and>
    (\<forall>i < length (fc_execution_order fc). \<forall>d. (d, fc_execution_order fc ! i) \<in> dep_edges (config_deps (dag_tasks cfg)) \<longrightarrow>
      d \<in> set (take i (fc_execution_order fc)))"
proof -
  let ?N = "task_ids (dag_tasks cfg)" and ?g = "fc_task_graph fc" and ?o = "fc_execution_order fc"
  have o: "distinct ?o" "set ?o = ?N" "preds_before ?g ?N ?o" "edges ?g ?N = dep_edges (config_deps (dag_tasks cfg))"
    by (rule parse_graph_parsed[OF assms], simp add: parsed_def Let_def)+
  show ?thesis using o(1,2,3) by (auto simp: o(4)[symmetric] edges_def preds_before_def)
qed

theorem execution_order_topological_witness:
  "\<exists>fc. parse_graph remdups ''p'' diamond = Inr fc \<and> distinct (fc_execution_order fc) \<and>
     set (fc_execution_order fc) = task_ids (dag_tasks diamond)"
proof -
  obtain fc where fc: "parse_graph remdups ''p'' diamond = Inr fc" using diamond_run by blast
  show ?thesis using execution_order_topological[OF set_iteration_remdups fc] fc by blast
qed

text \<open>C20. The parallel groups of an accepted pipeline are the longest-path levels with more than one task:
  two different tasks share a group exactly when they have the same depth, and no task of a group
  depends, directly or not, on another one of it.\<close>

theorem parallel_groups_by_depth:
  assumes "set_iteration it" and "parse_graph it pid cfg = Inr fc"
  shows "\<exists>depth. is_depth (fc_task_graph fc) (task_ids (dag_tasks cfg)) depth \<and>
    (\<forall>x \<in> task_ids (dag_tasks cfg). \<forall>y \<in> task_ids (dag_tasks cfg). x \<noteq> y \<longrightarrow>
      ((\<exists>grp \<in> set (fc_parallel_tasks fc). x \<in> set grp \<and> y \<in> set grp) \<longleftrightarrow> depth x = depth y)) \<and>
    (\<forall>grp \<in> set (fc_parallel_tasks fc). distinct grp \<and> 1 < length grp \<and>
      (\<forall>x \<in> set grp. \<forall>y \<in> set grp. (x, y) \<notin> (dep_edges (config_deps (dag_tasks cfg)))\<^sup>+))"
proof -
  let ?N = "task_ids (dag_tasks cfg)" and ?g = "fc_task_graph fc" and ?o = "fc_execution_order fc"
  have o: "distinct ?o" "set ?o = ?N" "distinct (dict_keys ?g)" "fst ` set ?g \<subseteq> ?N" "closed_graph ?g ?N"
    "edges ?g ?N = dep_edges (config_deps (dag_tasks cfg))" "fc_parallel_tasks fc = find_parallel_tasks ?o ?g"
    by (rule parse_graph_parsed[OF assms], simp add: parsed_def Let_def)+
  have "acyclic (edges ?g ?N)"
    using parse_graph_invalid[OF assms] by (simp add: o(6) valid_config_def)
  then obtain lv where lv: "distinct (dict_keys lv)" "set (dict_keys lv) = ?N" "is_depth ?g ?N (\<lambda>y. dict_get lv y 0)"
    "fc_parallel_tasks fc = level_groups lv"
    using find_parallel_tasks_groups[OF finite_task_ids o(5) _ o(3,4,1,2)] o(7) by metis
  show ?thesis
    using same_group_iff[OF lv(1)] level_groups_independent[OF lv(1,3) finite_task_ids o(5)] lv(3)
    by (intro exI[of _ "\<lambda>y. dict_get lv y 0"]) (simp only: lv(2,4) o(6) simp_thms, blast)
qed

theorem parallel_groups_by_depth_witness:
  "\<exists>fc depth. parse_graph remdups ''p'' diamond = Inr fc \<and>
     is_depth (fc_task_graph fc) (task_ids (dag_tasks diamond)) depth \<and> depth ''b'' = depth ''c''"
proof -
  obtain fc where fc: "parse_graph remdups ''p'' diamond = Inr fc" using diamond_run by blast
  have "fc_parallel_tasks (projr (parse_graph remdups ''p'' diamond)) = [[''b'', ''c'']]" by code_simp
  then have "fc_parallel_tasks fc = [[''b'', ''c'']]" by (simp add: fc)
  moreover have bc: "''b'' \<in> task_ids (dag_tasks diamond)" "''c'' \<in> task_ids (dag_tasks diamond)" by code_simp+
  moreover obtain depth where d: "is_depth (fc_task_graph fc) (task_ids (dag_tasks diamond)) depth"
    "\<forall>x \<in> task_ids (dag_tasks diamond). \<forall>y \<in> task_ids (dag_tasks diamond). x \<noteq> y \<longrightarrow>
      ((\<exists>grp \<in> set (fc_parallel_tasks fc). x \<in> set grp \<and> y \<in> set grp) \<longleftrightarrow> depth x = depth y)"
    using parallel_groups_by_depth[OF set_iteration_remdups fc] by blast
  ultimately have "depth ''b'' = depth ''c''" using d(2)[rule_format, OF bc] by simp
  with fc d(1) show ?thesis by blast
qed

lemma edge_of_simps:
  "rc_task_id (edge_of s (n, queue_entry (d, t))) = d"
  "rc_exchange (edge_of s (n, queue_entry (d, t))) = ''exchange_'' @ d"
  "rc_queue (edge_of s (n, queue_entry (d, t))) = n"
  "rc_exchange_type (edge_of s (n, queue_entry (d, t))) = es_exchange_type (suggestion s d)"
  "rc_routing_key (edge_of s (n, queue_entry (d, t))) = routing_key_for (es_exchange_type (suggestion s d)) n"
  by (simp_all add: edge_of_def edge_config_def queue_entry_def)

lemma end_of_simps:
  "rc_task_id (end_of s (queue_entry (d, t))) = t" "rc_exchange (end_of s (queue_entry (d, t))) = ''exchange_'' @ t"
  "rc_queue (end_of s (queue_entry (d, t))) = queue_name d t"
  by (simp_all add: end_of_def end_config_def queue_entry_def)

lemma end_of_exchange: "rc_exchange (end_of s qi) = ''exchange_'' @ q_to_task qi"
  by (simp add: end_of_def end_config_def)

lemma entry_exchange: "rc_exchange (entry_config pid) \<noteq> ''exchange_'' @ t"
  by (simp add: entry_config_def)

lemma queues_of_set:
  assumes "set_iteration it" and "distinct (map t_id ts)"
    and "inj_on (\<lambda>(d, t). queue_name d t) (dep_edges (config_deps ts))"
  shows "set (queues_of (edge_list it ts) []) = (\<lambda>(d, t). (queue_name d t, queue_entry (d, t))) ` dep_edges (config_deps ts)"
  using queues_of_inj[OF distinct_edge_list[OF assms(1,2)]] assms(3)
  by (simp add: set_edge_list[OF assms(1)] case_prod_unfold)

lemma config_edge_iff:
  "(d, t) \<in> dep_edges (config_deps ts) \<longleftrightarrow> (\<exists>u\<in>set ts. t_id u = t \<and> d \<in> set (raw_deps u))"
  by (auto simp: dep_edges_def config_deps_def)

lemma no_solo_end:
  assumes "no_solo ts" and "t \<in> task_ids ts"
  shows "(\<exists>d. (d, t) \<in> dep_edges (config_deps ts)) \<or> (\<exists>u. (t, u) \<in> dep_edges (config_deps ts))"
proof -
  obtain tk where tk: "tk \<in> set ts" "t = t_id tk" using assms(2) by (auto simp: task_ids_def)
  with assms(1) have "raw_deps tk \<noteq> [] \<or> (\<exists>u\<in>set ts. t \<in> set (raw_deps u))" by (simp add: no_solo_def)
  then show ?thesis
  proof
    assume "raw_deps tk \<noteq> []"
    then obtain d where "d \<in> set (raw_deps tk)" by (cases "raw_deps tk") auto
    with tk show ?thesis by (auto simp: config_edge_iff)
  qed (auto simp: config_edge_iff)
qed

text \<open>The end tasks: each has one binding, found through one of its own inbound queues.\<close>

lemma end_binding_unique:
  assumes q: "set queues = (\<lambda>(d, t). (queue_name d t, queue_entry (d, t))) ` E"
    and pr: "prepared outs queues s {} cs es"
    and outs: "\<And>d. set (dict_get outs d []) = {t. (d, t) \<in> E}"
    and t: "dict_get outs t [] = []" and dt: "(d, t) \<in> E"
  shows "\<exists>!c. c \<in> set (cs @ [entry_config pid]) \<and> rc_exchange c = ''exchange_'' @ t"
proof -
  have cs: "set cs = edge_of s ` set queues \<union> end_of s ` set es" and es: "set es \<subseteq> snd ` set queues"
    "distinct (map q_to_task es)"
    "q_to_task ` set es = {t \<in> (q_to_task \<circ> snd) ` set queues. dict_get outs t [] = []}"
    using pr by (simp_all add: prepared_def)
  have "(queue_name d t, queue_entry (d, t)) \<in> set queues"
    unfolding q using imageI[OF dt, of "\<lambda>(d, t). (queue_name d t, queue_entry (d, t))"] by (simp only: prod.case)
  then have "t \<in> (q_to_task \<circ> snd) ` set queues"
    by (rule rev_image_eqI) (simp add: queue_entry_def)
  with t have "t \<in> q_to_task ` set es" unfolding es(3) by blast
  then obtain qi where qi: "qi \<in> set es" "q_to_task qi = t" by blast
  have no_edge: "(t, u) \<notin> E" for u using outs[of t] t by simp
  show ?thesis
  proof (rule ex1I[of _ "end_of s qi"])
    show "end_of s qi \<in> set (cs @ [entry_config pid]) \<and> rc_exchange (end_of s qi) = ''exchange_'' @ t"
      using qi by (auto simp: cs end_of_exchange)
    fix c assume c: "c \<in> set (cs @ [entry_config pid]) \<and> rc_exchange c = ''exchange_'' @ t"
    then consider d u where "(d, u) \<in> E" "c = edge_of s (queue_name d u, queue_entry (d, u))"
      | qj where "qj \<in> set es" "c = end_of s qj"
      using entry_exchange[of pid t] by (auto simp: cs q)
    then show "c = end_of s qi"
    proof cases
      case 1
      then show ?thesis using c no_edge by (simp add: edge_of_simps)
    next
      case (2 qj)
      then have "q_to_task qj = q_to_task qi" using c qi by (simp add: end_of_exchange)
      then have "qj = qi" using 2 qi es(2) by (metis distinct_map inj_onD)
      then show ?thesis using 2 by simp
    qed
  qed
qed



definition colliding :: dag_config where
  "colliding = \<lparr>dag_tasks = [mk_task ''a'' [], mk_task ''b_to_c'' [''a''], mk_task ''a_to_b'' [''a''],
     mk_task ''c'' [''a_to_b'']], dag_timeout = None\<rparr>"

text \<open>The queue names are not injective: a pipeline whose task identifiers contain \<^verbatim>\<open>_to_\<close> can be
  accepted and lose an edge, because two edges get the same queue and the dictionary of queues
  keeps one of them.\<close>

theorem colliding_queue_lost:
  "(''a'', ''b_to_c'') \<in> dep_edges (config_deps (dag_tasks colliding)) \<and>
   (''a_to_b'', ''c'') \<in> dep_edges (config_deps (dag_tasks colliding)) \<and>
   queue_name ''a'' ''b_to_c'' = queue_name ''a_to_b'' ''c'' \<and>
   (\<exists>fc. parse_graph remdups ''p'' colliding = Inr fc \<and>
     map_of (fc_queues fc) (queue_name ''a'' ''b_to_c'') = Some (queue_entry (''a_to_b'', ''c'')))"
proof -
  have "map_of (fc_queues (projr (parse_graph remdups ''p'' colliding))) (queue_name ''a'' ''b_to_c'') =
      Some (queue_entry (''a_to_b'', ''c''))" by code_simp
  moreover have "\<not> isl (parse_graph remdups ''p'' colliding)" by code_simp
  then have "parse_graph remdups ''p'' colliding = Inr (projr (parse_graph remdups ''p'' colliding))" by simp
  moreover have "queue_name ''a'' ''b_to_c'' = queue_name ''a_to_b'' ''c''" by (simp add: queue_name_def)
  moreover have "edge_list remdups (dag_tasks colliding) = [(''a'', ''b_to_c''), (''a'', ''a_to_b''), (''a_to_b'', ''c'')]"
    by code_simp
  then have "dep_edges (config_deps (dag_tasks colliding)) = set [(''a'', ''b_to_c''), (''a'', ''a_to_b''), (''a_to_b'', ''c'')]"
    by (simp only: flip: set_edge_list[OF set_iteration_remdups])
  ultimately show ?thesis by auto
qed

text \<open>The fan-in metadata of an accepted pipeline has an entry exactly for the tasks with more than one
  dependency; its required steps are those dependencies, each once, and its timeout is the one of
  the configuration or 300 seconds.\<close>

theorem fan_in_metadata_complete:
  assumes "set_iteration it" and "parse_graph it pid cfg = Inr fc"
  shows "case map_of (fc_fan_in_metadata fc) t of
      None \<Rightarrow> t \<notin> task_ids (dag_tasks cfg) \<or> card {d. (d, t) \<in> dep_edges (config_deps (dag_tasks cfg))} \<le> 1
    | Some m \<Rightarrow> t \<in> task_ids (dag_tasks cfg) \<and> 1 < card {d. (d, t) \<in> dep_edges (config_deps (dag_tasks cfg))} \<and>
        distinct (fm_required_steps m) \<and>
        set (fm_required_steps m) = {d. (d, t) \<in> dep_edges (config_deps (dag_tasks cfg))} \<and>
        fm_timeout m = (case dag_timeout cfg of None \<Rightarrow> 300 | Some x \<Rightarrow> x)"
proof -
  let ?ts = "dag_tasks cfg"
  have dist: "distinct (map t_id ?ts)" using parse_graph_invalid[OF assms] by (simp add: valid_config_def)
  have m: "map_of (fc_fan_in_metadata fc) t = (if t \<in> set (fan_in_of it ?ts)
       then Some \<lparr>fm_required_steps = the (map_of (it_deps it ?ts) t), fm_correlation_id = ''corr-'' @ t @ ''-'' @ pid,
         fm_timeout = (case dag_timeout cfg of None \<Rightarrow> 300 | Some x \<Rightarrow> x)\<rparr> else None)"
    by (rule parse_graph_parsed[OF assms]) (simp only: parsed_def Let_def)
  have deps: "{d. (d, t_id u) \<in> dep_edges (config_deps ?ts)} = set (raw_deps u)"
    "map_of (it_deps it ?ts) (t_id u) = Some (it (raw_deps u))"
    "t_id u \<in> set (fan_in_of it ?ts) \<longleftrightarrow> 1 < card (set (raw_deps u))" if "u \<in> set ?ts" for u
  proof -
    have inj: "v = u" if "v \<in> set ?ts" "t_id v = t_id u" for v
      using dist that \<open>u \<in> set ?ts\<close> by (metis distinct_map inj_onD)
    show "{d. (d, t_id u) \<in> dep_edges (config_deps ?ts)} = set (raw_deps u)"
      using inj that by (auto simp: config_edge_iff)
    show "map_of (it_deps it ?ts) (t_id u) = Some (it (raw_deps u))"
      using dist that by (intro map_of_is_SomeI) (auto simp: it_deps_def comp_def)
    show "t_id u \<in> set (fan_in_of it ?ts) \<longleftrightarrow> 1 < card (set (raw_deps u))"
      using inj that by (auto simp: fan_in_of_def set_iteration_length[OF assms(1)])
  qed
  show ?thesis
  proof (cases "t \<in> task_ids ?ts")
    case True
    then obtain u where u: "u \<in> set ?ts" "t = t_id u" by (auto simp: task_ids_def)
    show ?thesis
      unfolding m unfolding u(2)
      by (cases "1 < card (set (raw_deps u))") (simp_all add: deps[OF u(1)] u(1) assms(1) task_ids_def)
  next
    case False
    then have "t \<notin> set (fan_in_of it ?ts)" by (auto simp: fan_in_of_def task_ids_def)
    then show ?thesis using False m by simp
  qed
qed

theorem fan_in_metadata_complete_witness:
  "\<exists>fc m. parse_graph remdups ''p'' diamond = Inr fc \<and> map_of (fc_fan_in_metadata fc) ''d'' = Some m \<and>
     set (fm_required_steps m) = {d. (d, ''d'') \<in> dep_edges (config_deps (dag_tasks diamond))} \<and> fm_timeout m = 300"
proof -
  obtain fc where fc: "parse_graph remdups ''p'' diamond = Inr fc" using diamond_run by blast
  have "map_of (fc_fan_in_metadata (projr (parse_graph remdups ''p'' diamond))) ''d'' \<noteq> None" by code_simp
  then obtain m where m: "map_of (fc_fan_in_metadata fc) ''d'' = Some m" by (auto simp: fc)
  have "dag_timeout diamond = None" by (simp add: diamond_def)
  then show ?thesis
    using fan_in_metadata_complete[OF set_iteration_remdups fc, of "''d''"] m fc by auto
qed

definition error_true :: "task list \<Rightarrow> parse_error \<Rightarrow> bool" where
  "error_true ts e = (case e of
      NoneInputs t \<Rightarrow> \<exists>u\<in>set ts. t_id u = t \<and> t_inputs u = None
    | UnknownDependency t d \<Rightarrow> (d, t) \<in> dep_edges (config_deps ts) \<and> d \<notin> task_ids ts
    | CircularDependency \<Rightarrow> \<not> distinct (map t_id ts) \<or> \<not> acyclic (dep_edges (config_deps ts))
    | SoloNodes l \<Rightarrow> l \<noteq> [] \<and> set l = {t_id u |u. u \<in> set ts \<and> raw_deps u = [] \<and>
        (\<forall>v\<in>set ts. t_id u \<notin> set (raw_deps v))}
    | NoTasks \<Rightarrow> ts = []
    | DisconnectedTasks l \<Rightarrow> l \<noteq> [] \<and>
        set l = {t \<in> task_ids ts. (t_id (hd ts), t) \<notin> (dep_edges (config_deps ts))\<^sup>*}
    | _ \<Rightarrow> False)"

lemma infer_error_true:
  assumes it: "set_iteration it" and "infer_dependencies it (map t_id ts) us outs = Inl e" and "set us \<subseteq> set ts"
  shows "error_true ts e"
  using assms(2,3)
proof (induction us arbitrary: outs)
  case (Cons u us)
  show ?case
  proof (cases "t_inputs u")
    case None
    with Cons.prems show ?thesis by (auto simp: error_true_def)
  next
    case (Some i)
    let ?ds = "it (raw_deps u)"
    have raw: "raw_deps u = dict_get i ''dependencies'' []" by (simp add: raw_deps_def Some)
    show ?thesis
    proof (cases "add_outputs (map t_id ts) (t_id u) ?ds outs")
      case (Inl e')
      with Cons.prems Some raw have "e = e'" by simp
      with add_outputs_Inl[OF Inl] Cons.prems(2) it show ?thesis
        by (auto simp: error_true_def config_edge_iff task_ids_def)
    next
      case (Inr outs')
      with Cons.prems(1) Some raw have "infer_dependencies it (map t_id ts) us outs' = Inl e"
        by (auto simp: bindR_Inl_iff)
      with Cons show ?thesis by simp
    qed
  qed
qed simp

lemma check_error_true:
  assumes it: "set_iteration it" and inf: "infer_dependencies_and_outputs it ts = Inr (tasks, outs)"
    and pd: "parse_dag tasks = (order, g)"
  shows "detect_cycles_kahn tasks = Inl e \<Longrightarrow> error_true ts e"
    and "validate_no_solo_nodes tasks g = Inl e \<Longrightarrow> error_true ts e"
    and "validate_single_connected_dag it tasks g = Inl e \<Longrightarrow> error_true ts e"
proof -
  note f = infer_facts[OF it inf] and c = it_deps_config[OF it, of ts]
  have known: "deps_known (config_deps ts)" using infer_accepts_iff[OF it, of ts] inf by auto
  have ids: "task_ids tasks = task_ids ts" by (rule task_ids_cong[OF f(1)])
  have g: "\<And>x v. v \<in> set (succs g x) \<longleftrightarrow> (x, v) \<in> dep_edges (config_deps ts)"
    using succs_build_iff[of _ "task_deps tasks"] by (simp add: parse_dag_graph[OF pd] f(2) c(1))
  show "error_true ts e" if e: "detect_cycles_kahn tasks = Inl e"
  proof -
    have "detect_cycles_kahn tasks \<noteq> Inr ()" "e = CircularDependency" using e detect_cycles_kahn_Inl by auto
    then show ?thesis
      using detect_cycles_kahn_iff[of tasks] known by (simp add: error_true_def f(1,2) c)
  qed
  show "error_true ts e" if "validate_no_solo_nodes tasks g = Inl e"
    using that by (auto simp: validate_no_solo_nodes_def solo_nodes_eq[OF it inf g] error_true_def split: if_splits)
  show "error_true ts e" if e: "validate_single_connected_dag it tasks g = Inl e"
  proof (cases "tasks = []")
    case True
    then show ?thesis using e f(1) by (simp add: validate_single_connected_dag_def error_true_def)
  next
    case False
    then have hd: "t_id (hd tasks) = t_id (hd ts)" using f(1) by (metis hd_map map_is_Nil_conv)
    have "e = DisconnectedTasks (it (filter (\<lambda>t. (t_id (hd ts), t) \<notin> (dep_edges (config_deps ts))\<^sup>*) (map t_id ts)))"
      and "\<not> (\<forall>y\<in>task_ids ts. (t_id (hd ts), y) \<in> (dep_edges (config_deps ts))\<^sup>*)"
      using e connected_eq[OF g config_edges_ids[OF known, folded ids] False, of it]
      by (simp_all add: hd ids f(1) split: if_splits)
    then show ?thesis
      by (auto simp: error_true_def set_iteration_Nil[OF it] it task_ids_def filter_empty_conv)
  qed
qed

text \<open>C26. The errors of the parser tell the truth, and only the errors meant for the user occur: a missing
  inputs dictionary or an unknown dependency is one of the configuration, a circular dependency is
  reported only for a cycle or a duplicate identifier, the tasks reported as solo are those with no
  dependency and no dependent, the tasks reported as disconnected are those not reachable from the
  first. The remaining raises (a missing task, a missing exchange suggestion, the call of
  \<^verbatim>\<open>get\<close> on a set, an unknown fan-in step) are unreachable.\<close>

theorem parse_graph_error_true:
  assumes it: "set_iteration it" and err: "parse_graph it pid cfg = Inl e"
  shows "error_true (dag_tasks cfg) e"
proof (cases "infer_dependencies_and_outputs it (dag_tasks cfg)")
  case (Inl e')
  then have "infer_dependencies it (map t_id (dag_tasks cfg)) (dag_tasks cfg) [] = Inl e"
    using err by (auto simp: parse_graph_def infer_dependencies_and_outputs_def bindR_Inl_iff split: prod.splits)
  then show ?thesis by (rule infer_error_true[OF it]) simp
next
  case inf: (Inr r)
  obtain tasks outs where r: "r = (tasks, outs)" by fastforce
  obtain order g where pd: "parse_dag tasks = (order, g)" by fastforce
  note ce = check_error_true[OF it inf[unfolded r] pd]
  show ?thesis
  proof (cases "detect_cycles_kahn tasks")
    case 1: (Inr u)
    show ?thesis
    proof (cases "validate_no_solo_nodes tasks g")
      case 2: (Inr u)
      show ?thesis
      proof (cases "validate_single_connected_dag it tasks g")
        case (Inr g')
        then have "valid_config (dag_tasks cfg)" using checks_iff[OF it inf[unfolded r] pd] 1 2 by auto
        then show ?thesis using parse_graph_runs[OF it, of cfg pid] err by auto
      qed (use err ce in \<open>simp add: parse_graph_def inf r 1 2 pd\<close>)
    qed (use err ce in \<open>simp add: parse_graph_def inf r 1 pd\<close>)
  qed (use err ce in \<open>simp add: parse_graph_def inf r\<close>)
qed

theorem parse_graph_error_true_witness:
  "parse_graph remdups ''p'' \<lparr>dag_tasks = [mk_task ''a'' [''b''], mk_task ''b'' [''a'']], dag_timeout = None\<rparr> =
     Inl CircularDependency \<and>
   error_true [mk_task ''a'' [''b''], mk_task ''b'' [''a'']] CircularDependency"
proof -
  have "parse_graph remdups ''p'' \<lparr>dag_tasks = [mk_task ''a'' [''b''], mk_task ''b'' [''a'']], dag_timeout = None\<rparr> =
     Inl CircularDependency" by code_simp
  from parse_graph_error_true[OF set_iteration_remdups this] this show ?thesis by simp
qed

end
