(* ===== verification/Delivery_Properties.thy ===== *)
theory Delivery_Properties
  imports Consumer_Config Workflow_Properties
begin

section \<open>From a task to its dependents\<close>

text \<open>
  The bindings of an accepted pipeline as lists: the configurations of the exchange of a task are those of its edges,
  in the order of the queues, and the first configuration that names the queue of an edge is the one of that edge.
\<close>

lemma edge_of_queue_entry:
  "edge_of s (n, queue_entry (d, t)) = edge_config (suggestion s d) d n"
  by (simp add: edge_of_def queue_entry_def)

lemma find_first: "find P xs = Some x \<Longrightarrow> find P (xs @ ys) = Some x"
  by (induction xs) (simp_all split: if_splits)

lemma prepare_lists:
  assumes "prepare_rabbitmq_configs outs queues s ends acc = Inr (cs, s')"
  shows "\<exists>ds. cs = acc @ ds \<and>
    (\<forall>d. dict_get outs d [] \<noteq> [] \<longrightarrow>
      filter (\<lambda>c. rc_exchange c = ''exchange_'' @ d) ds = map (edge_of s) (filter (\<lambda>(n, q). q_from_task q = Some d) queues)) \<and>
    (distinct (map fst queues) \<longrightarrow> (\<forall>(n, q) \<in> set queues. q_queue_name q = n) \<longrightarrow>
      (\<forall>(n, q) \<in> set queues. find (\<lambda>c. rc_queue c = n) ds = Some (edge_of s (n, q))))"
  using assms
proof (induction outs queues s ends acc rule: prepare_rabbitmq_configs.induct)
  case (2 outs n qi queues s ends acc)
  obtain info where b: "Option.bind (q_from_task qi) (map_of s) = Some info"
    using "2.prems" by (auto split: option.splits)
  then obtain f where f: "q_from_task qi = Some f" "map_of s f = Some info" by (auto simp: bind_eq_Some_conv)
  have e: "edge_config info (the (q_from_task qi)) n = edge_of s (n, qi)" by (simp add: edge_of_def f)
  have en: "rc_exchange (edge_of s (n, qi)) = ''exchange_'' @ f" "rc_queue (edge_of s (n, qi)) = n"
    by (simp_all add: edge_of_def edge_config_def f)
  let ?to = "q_to_task qi"
  show ?case
  proof (cases "dict_get outs ?to [] = [] \<and> ?to \<notin> set ends")
    case True
    obtain ie where ie: "map_of s ?to = Some ie"
      using "2.prems" True by (auto simp: b Let_def split: option.splits)
    have ee: "end_config ie qi = end_of s qi" by (simp add: end_of_def ie)
    have q: "rc_exchange (end_of s qi) = ''exchange_'' @ ?to" "rc_queue (end_of s qi) = q_queue_name qi"
      by (simp_all add: end_of_def end_config_def)
    have "prepare_rabbitmq_configs outs queues s (set_add ?to ends) ((acc @ [edge_of s (n, qi)]) @ [end_of s qi]) = Inr (cs, s')"
      using "2.prems" True by (simp add: b Let_def ie e ee)
    from "2.IH"(1)[OF b refl refl True ie, unfolded e ee, OF this] obtain ds where ds: "cs = (acc @ [edge_of s (n, qi), end_of s qi]) @ ds"
      "\<forall>d. dict_get outs d [] \<noteq> [] \<longrightarrow>
        filter (\<lambda>c. rc_exchange c = ''exchange_'' @ d) ds = map (edge_of s) (filter (\<lambda>(n, q). q_from_task q = Some d) queues)"
      "distinct (map fst queues) \<longrightarrow> (\<forall>(n, q) \<in> set queues. q_queue_name q = n) \<longrightarrow>
        (\<forall>(n, q) \<in> set queues. find (\<lambda>c. rc_queue c = n) ds = Some (edge_of s (n, q)))" by auto
    show ?thesis
      by (rule exI[of _ "edge_of s (n, qi) # end_of s qi # ds"]) (use ds True f q en in \<open>auto simp: rev_image_eqI split: if_splits\<close>)
  next
    case False
    have "prepare_rabbitmq_configs outs queues s ends (acc @ [edge_of s (n, qi)]) = Inr (cs, s')"
      using "2.prems" False by (auto simp: b Let_def e)
    from "2.IH"(2)[OF b refl refl False, unfolded e, OF this] obtain ds where ds: "cs = (acc @ [edge_of s (n, qi)]) @ ds"
      "\<forall>d. dict_get outs d [] \<noteq> [] \<longrightarrow>
        filter (\<lambda>c. rc_exchange c = ''exchange_'' @ d) ds = map (edge_of s) (filter (\<lambda>(n, q). q_from_task q = Some d) queues)"
      "distinct (map fst queues) \<longrightarrow> (\<forall>(n, q) \<in> set queues. q_queue_name q = n) \<longrightarrow>
        (\<forall>(n, q) \<in> set queues. find (\<lambda>c. rc_queue c = n) ds = Some (edge_of s (n, q)))" by auto
    show ?thesis
      by (rule exI[of _ "edge_of s (n, qi) # ds"]) (use ds f en in \<open>auto simp: rev_image_eqI split: if_splits\<close>)
  qed
qed simp

text \<open>The queues of the result are those of the edges and the entry queue.\<close>

lemma parse_graph_wiring:
  assumes it: "set_iteration it" and ok: "parse_graph it pid cfg = Inr fc"
  obtains s s' cs where "fc_queues fc = dict_set (''pipeline_entry_queue_'' @ pid)
      \<lparr>q_from_task = None, q_to_task = ''entry'', q_queue_name = ''pipeline_entry_queue_'' @ pid\<rparr> (queues_of (edge_list it (dag_tasks cfg)) [])"
    and "prepare_rabbitmq_configs (fc_task_outputs fc) (queues_of (edge_list it (dag_tasks cfg)) []) s [] [] = Inr (cs, s')"
    and "fc_rabbitmq_configs fc = cs @ [entry_config pid]"
proof -
  let ?ts = "dag_tasks cfg"
  have dist: "distinct (map t_id ?ts)" using parse_graph_invalid[OF it ok] by (simp add: valid_config_def)
  obtain tasks outs where inf: "infer_dependencies_and_outputs it ?ts = Inr (tasks, outs)"
    using ok by (cases "infer_dependencies_and_outputs it ?ts") (auto simp: parse_graph_def)
  note f = infer_facts[OF it inf]
  have td: "make_task_dict tasks = map (\<lambda>t. (t_id t, t)) tasks" using make_task_dict_distinct[of tasks] dist f(1) by simp
  have q: "snd (snd (identify_publishers_subscribers_queues g (make_task_dict tasks) ([], [], []))) = queues_of (edge_list it ?ts) []" for g
    by (simp add: identify_queues td dep_pairs_task_deps f(2) it_deps_def edge_list_def comp_def)
  obtain order g where pd: "parse_dag tasks = (order, g)" by fastforce
  from ok obtain g' s0 cs s1 meta where r: "validate_single_connected_dag it tasks g = Inr g'"
    "suggest_exchange_types g' (make_task_dict tasks) (identify_fan_in_steps (make_task_dict tasks)) = Inr s0"
    "prepare_rabbitmq_configs outs (queues_of (edge_list it ?ts) []) s0 [] [] = Inr (cs, s1)"
    and fc: "fc_queues fc = dict_set (''pipeline_entry_queue_'' @ pid)
       \<lparr>q_from_task = None, q_to_task = ''entry'', q_queue_name = ''pipeline_entry_queue_'' @ pid\<rparr> (queues_of (edge_list it ?ts) [])"
    "fc_rabbitmq_configs fc = cs @ [entry_config pid]" "fc_task_outputs fc = outs"
    by (auto simp: parse_graph_def inf pd Let_def bindR_Inr_iff case_prod_unfold q)
  show thesis by (rule that[OF fc(1) _ fc(2)]) (use r(3) fc(3) in simp)
qed

text \<open>For an edge of an accepted pipeline: the configurations on the exchange of its source, and the first one of
  its queue.\<close>

lemma edge_wiring:
  assumes it: "set_iteration it" and ok: "parse_graph it pid cfg = Inr fc"
    and inj: "inj_on (\<lambda>(d, t). queue_name d t) (dep_edges (config_deps (dag_tasks cfg)))"
    and dt: "(d, t) \<in> dep_edges (config_deps (dag_tasks cfg))"
  obtains rb where "rc_task_id rb = d" and "rc_exchange rb = ''exchange_'' @ d" and "rc_queue rb = queue_name d t"
    and "find (\<lambda>c. rc_queue c = queue_name d t) (fc_rabbitmq_configs fc) = Some rb"
    and "map_of (fc_queues fc) (queue_name d t) = Some (queue_entry (d, t))"
    and "\<forall>c \<in> set (fc_rabbitmq_configs fc). rc_exchange c = ''exchange_'' @ d \<longrightarrow>
      rc_task_id c = d \<and> rc_exchange_type c = rc_exchange_type rb"
    and "length (filter (\<lambda>c. rc_exchange c = ''exchange_'' @ d) (fc_rabbitmq_configs fc)) =
      card {u. (d, u) \<in> dep_edges (config_deps (dag_tasks cfg))}"
    and "rc_exchange_type rb = ''fanout'' \<and> rc_routing_key rb = [] \<or>
      rc_exchange_type rb = ''direct'' \<and> rc_routing_key rb = queue_name d t \<and>
        filter (\<lambda>c. rc_exchange c = ''exchange_'' @ d) (fc_rabbitmq_configs fc) = [rb]"
proof -
  let ?ts = "dag_tasks cfg" and ?E = "dep_edges (config_deps (dag_tasks cfg))"
  let ?Q = "queues_of (edge_list it ?ts) []" and ?x = "\<lambda>c. rc_exchange c = ''exchange_'' @ d"
  have dist: "distinct (map t_id ?ts)" using parse_graph_invalid[OF it ok] by (simp add: valid_config_def)
  obtain s s1 cs where w: "fc_queues fc = dict_set (''pipeline_entry_queue_'' @ pid)
      \<lparr>q_from_task = None, q_to_task = ''entry'', q_queue_name = ''pipeline_entry_queue_'' @ pid\<rparr> ?Q"
    "prepare_rabbitmq_configs (fc_task_outputs fc) ?Q s [] [] = Inr (cs, s1)"
    "fc_rabbitmq_configs fc = cs @ [entry_config pid]" by (rule parse_graph_wiring[OF it ok])
  obtain s2 cs2 es where p: "parsed it pid cfg fc s2 cs2 es" by (rule parse_graph_parsed[OF it ok])
  have "cs2 = cs" using p w(3) by (simp add: parsed_def Let_def)
  with p have pr: "prepared (fc_task_outputs fc) ?Q s2 {} cs es"
    and outs: "\<And>d. set (dict_get (fc_task_outputs fc) d []) = {t. (d, t) \<in> ?E}"
    and sN: "\<forall>t\<in>task_ids ?ts. \<exists>e. map_of s2 t = Some e \<and> es_exchange_type e =
        (if 1 < length (succs (fc_task_graph fc) t) \<or> t \<in> set (fan_in_of it ?ts) then ''fanout'' else ''direct'')"
    and g: "closed_graph (fc_task_graph fc) (task_ids ?ts)" "edges (fc_task_graph fc) (task_ids ?ts) = ?E"
    by (simp_all add: parsed_def Let_def)
  have E: "set (edge_list it ?ts) = ?E" by (rule set_edge_list[OF it])
  have dE: "distinct (edge_list it ?ts)" by (rule distinct_edge_list[OF it dist])
  have Q: "?Q = map (\<lambda>e. (queue_name (fst e) (snd e), queue_entry e)) (edge_list it ?ts)"
    using queues_of_inj[OF dE] inj E by simp
  have "map fst ?Q = map (\<lambda>(d, t). queue_name d t) (edge_list it ?ts)" unfolding Q by (simp add: comp_def case_prod_unfold)
  then have keys: "distinct (map fst ?Q)" using dE inj E by (simp only: distinct_map)
  have names: "\<forall>(n, q) \<in> set ?Q. q_queue_name q = n" unfolding Q by (auto simp: queue_entry_def)
  have outd: "dict_get (fc_task_outputs fc) d [] \<noteq> []" using outs[of d] dt by auto
  obtain ds where ds: "cs = [] @ ds"
    "\<forall>d. dict_get (fc_task_outputs fc) d [] \<noteq> [] \<longrightarrow>
      filter (\<lambda>c. rc_exchange c = ''exchange_'' @ d) ds = map (edge_of s) (filter (\<lambda>(n, q). q_from_task q = Some d) ?Q)"
    "distinct (map fst ?Q) \<longrightarrow> (\<forall>(n, q) \<in> set ?Q. q_queue_name q = n) \<longrightarrow>
      (\<forall>(n, q) \<in> set ?Q. find (\<lambda>c. rc_queue c = n) ds = Some (edge_of s (n, q)))" using prepare_lists[OF w(2)] by blast
  have cs: "filter ?x cs = map (edge_of s) (filter (\<lambda>(n, q). q_from_task q = Some d) ?Q)" using ds(1,2) outd by simp
  have "\<forall>(n, q) \<in> set ?Q. find (\<lambda>c. rc_queue c = n) cs = Some (edge_of s (n, q))" using ds(1,3) keys names by simp
  then have fnd: "find (\<lambda>c. rc_queue c = n) cs = Some (edge_of s (n, q))" if "(n, q) \<in> set ?Q" for n q using that by blast
  have inQ: "(queue_name d t, queue_entry (d, t)) \<in> set ?Q" using dt E unfolding Q by force
  define rb where "rb = edge_of s (queue_name d t, queue_entry (d, t))"
  have rb: "rc_task_id rb = d" "rc_exchange rb = ''exchange_'' @ d" "rc_queue rb = queue_name d t"
    "rc_routing_key rb = routing_key_for (rc_exchange_type rb) (queue_name d t)"
    by (simp_all add: rb_def edge_of_queue_entry edge_config_def)
  have filt: "filter ?x (fc_rabbitmq_configs fc) = map (edge_of s) (filter (\<lambda>(n, q). q_from_task q = Some d) ?Q)"
    unfolding w(3) filter_append cs by (simp add: entry_config_def)
  have fromd: "filter (\<lambda>(n, q). q_from_task q = Some d) ?Q = map (\<lambda>e. (queue_name (fst e) (snd e), queue_entry e)) (filter (\<lambda>e. fst e = d) (edge_list it ?ts))"
    unfolding Q by (simp add: filter_map comp_def queue_entry_def)
  have len: "length (filter ?x (fc_rabbitmq_configs fc)) = card {u. (d, u) \<in> ?E}"
  proof -
    have "distinct (map snd (filter (\<lambda>e. fst e = d) (edge_list it ?ts)))" using dE by (simp add: distinct_map inj_on_def prod_eq_iff)
    moreover have "set (map snd (filter (\<lambda>e. fst e = d) (edge_list it ?ts))) = {u. (d, u) \<in> ?E}"
      unfolding E[symmetric] by (auto intro: rev_image_eqI)
    ultimately have "card {u. (d, u) \<in> ?E} = length (map snd (filter (\<lambda>e. fst e = d) (edge_list it ?ts)))" using distinct_card by fastforce
    then show ?thesis unfolding filt fromd by (simp only: length_map)
  qed
  have same: "rc_task_id c = d \<and> rc_exchange_type c = rc_exchange_type rb" if "c \<in> set (fc_rabbitmq_configs fc)" "?x c" for c
  proof -
    have "c \<in> set (filter ?x (fc_rabbitmq_configs fc))" using that by simp
    then obtain u where "c = edge_of s (queue_name d u, queue_entry (d, u))" unfolding filt fromd by auto
    then show ?thesis by (simp add: rb_def edge_of_queue_entry edge_config_def)
  qed
  have d: "d \<in> task_ids ?ts" using dt g(2) by (auto simp: edges_def)
  have ty: "rc_exchange_type rb = (if 1 < length (succs (fc_task_graph fc) d) \<or> d \<in> set (fan_in_of it ?ts) then ''fanout'' else ''direct'')"
  proof -
    have "rb \<in> set (filter ?x (fc_rabbitmq_configs fc))" 
      unfolding filt rb_def using inQ by (auto simp: queue_entry_def)
    then have "rb \<in> set cs" using rb(2) entry_exchange[of pid d] by (auto simp: w(3))
    then have "rb \<in> edge_of s2 ` set ?Q \<or> rb \<in> end_of s2 ` set es" using pr by (auto simp: prepared_def)
    then have "rb \<in> edge_of s2 ` set ?Q"
    proof
      assume "rb \<in> end_of s2 ` set es"
      then obtain qi where qi: "qi \<in> set es" "rb = end_of s2 qi" by blast
      then have "q_to_task qi = d" using rb(2) by (simp add: end_of_exchange)
      moreover have "dict_get (fc_task_outputs fc) (q_to_task qi) [] = []" using pr qi(1) by (auto simp: prepared_def)
      ultimately show ?thesis using outd by simp
    qed
    then obtain d' u where "rb = edge_of s2 (queue_name d' u, queue_entry (d', u))" unfolding Q by auto
    moreover have "d' = d" using calculation rb(1) by (simp add: edge_of_queue_entry edge_config_def)
    moreover obtain e where "map_of s2 d = Some e" "es_exchange_type e =
        (if 1 < length (succs (fc_task_graph fc) d) \<or> d \<in> set (fan_in_of it ?ts) then ''fanout'' else ''direct'')" using sN d by blast
    ultimately show ?thesis by (simp add: edge_of_queue_entry edge_config_def)
  qed
  have one: "filter ?x (fc_rabbitmq_configs fc) = [rb]" if "rc_exchange_type rb = ''direct''"
  proof -
    have "length (succs (fc_task_graph fc) d) \<le> 1" using that ty by (simp split: if_splits)
    moreover have "{u. (d, u) \<in> ?E} = set (succs (fc_task_graph fc) d)" using g d by (auto simp: edges_def closed_graph_def)
    ultimately have "length (filter ?x (fc_rabbitmq_configs fc)) \<le> 1" using card_length[of "succs (fc_task_graph fc) d"] len by simp
    moreover have "rb \<in> set (filter ?x (fc_rabbitmq_configs fc))"
      unfolding filt rb_def using inQ by (auto simp: queue_entry_def)
    moreover have "length xs \<le> 1 \<Longrightarrow> x \<in> set xs \<Longrightarrow> xs = [x]" for x :: rabbitmq_config and xs
      by (cases xs) (auto simp: le_Suc_eq)
    ultimately show ?thesis by blast
  qed
  show thesis
  proof (rule that[of rb, OF rb(1-3) _ _ _ len])
    show "find (\<lambda>c. rc_queue c = queue_name d t) (fc_rabbitmq_configs fc) = Some rb"
      using fnd[OF inQ] by (simp add: w(3) rb_def find_first)
    have "map_of ?Q (queue_name d t) = Some (queue_entry (d, t))" by (rule map_of_is_SomeI[OF keys inQ])
    then show "map_of (fc_queues fc) (queue_name d t) = Some (queue_entry (d, t))"
      by (simp add: w(1) update_conv' queue_name_def)
    show "\<forall>c \<in> set (fc_rabbitmq_configs fc). ?x c \<longrightarrow> rc_task_id c = d \<and> rc_exchange_type c = rc_exchange_type rb" using same by blast
    show "rc_exchange_type rb = ''fanout'' \<and> rc_routing_key rb = [] \<or> rc_exchange_type rb = ''direct'' \<and> rc_routing_key rb = queue_name d t \<and>
        filter ?x (fc_rabbitmq_configs fc) = [rb]"
      using ty one rb(4) by (auto simp: routing_key_for_def)
  qed
qed

lemma with_run_append: "\<not> ends_with (''.'' @ run) s \<Longrightarrow> with_run run s = s @ ''.'' @ run"
  by (simp add: with_run_def)

lemma map_filter_keys: "map fst (List.map_filter (\<lambda>n. map_option (Pair n) (m n)) ns) = filter (\<lambda>n. m n \<noteq> None) ns"
  by (induction ns) (auto simp: map_filter_def)

lemma find_map: "find P (map f xs) = map_option f (find (\<lambda>x. P (f x)) xs)"
  by (induction xs) auto

lemma find_weaken: "\<forall>x \<in> set xs. P x = Q x \<Longrightarrow> find P xs = find Q xs"
  by (induction xs) auto

text \<open>The service of a task consumes its queue, bound to the exchange of the source of the edge.\<close>

lemma service_binding:
  assumes it: "set_iteration it" and q: "map_of (fc_queues fc) n = Some qi" and to: "q_to_task qi = t" "q_queue_name qi = n" "n \<noteq> []"
    and f: "find (\<lambda>c. rc_queue c = n) (fc_rabbitmq_configs fc) = Some rb"
    and tk: "map_of (fc_task_dict fc) t = Some tk"
    and fresh: "suffix \<Longrightarrow> \<forall>m \<in> fst ` set (fc_queues fc). \<not> ends_with (''.'' @ run) m"
  obtains b where "b \<in> set (consumer_bindings (build_final_config_for_service it suffix run u pid (t_available_services tk) fc))"
    and "bi_queue b = (if suffix \<and> run \<noteq> [] then with_run run n else n)" and "bi_exchange b = rc_exchange rb"
    and "bi_type b = known_type (lower_str (or_str (rc_exchange_type rb) ''direct''))"
    and "bi_key b = (if suffix \<and> run \<noteq> [] then with_run run (or_str (rc_routing_key rb) n) else or_str (rc_routing_key rb) n)"
proof -
  let ?svc = "t_available_services tk"
  define names where "names = it (concat (map (\<lambda>t. get_subscribe_queues_for_task t fc) (get_tasks_for_service_name ?svc fc)))"
  have rb: "rc_queue rb = n" using f by (simp add: find_Some_iff) blast
  have mem: "set names = set (concat (map (\<lambda>t. get_subscribe_queues_for_task t fc) (get_tasks_for_service_name ?svc fc)))"
    using it unfolding names_def set_iteration_def by blast
  have "t \<in> set (get_tasks_for_service_name ?svc fc)"
    using map_of_SomeD[OF tk] by (force simp: get_tasks_for_service_name_def)
  moreover have "n \<in> set (get_subscribe_queues_for_task t fc)"
    using map_of_SomeD[OF q] to(1) by (force simp: get_subscribe_queues_for_task_def)
  ultimately have n: "n \<in> set names" unfolding mem by auto
  have sub: "set names \<subseteq> fst ` set (fc_queues fc)" unfolding mem by (auto simp: get_subscribe_queues_for_task_def)
  have qs: "(n, qi) \<in> set (List.map_filter (\<lambda>n. map_option (Pair n) (map_of (fc_queues fc) n)) names)"
    using n q by (force simp: map_filter_def)
  have f1: "find (\<lambda>c. rc_queue c = n) (filter (\<lambda>c. rc_queue c \<in> set names) (fc_rabbitmq_configs fc)) = Some rb"
    using f n by (subst find_filter) auto
  let ?sc = "build_final_config_for_service it suffix run u pid ?svc fc"
  show thesis
  proof (cases "suffix \<and> run \<noteq> []")
    case False
    then have sc: "sc_queues ?sc = List.map_filter (\<lambda>n. map_option (Pair n) (map_of (fc_queues fc) n)) names"
      "sc_configs ?sc = filter (\<lambda>c. rc_queue c \<in> set names) (fc_rabbitmq_configs fc)" "\<not> sc_per_run ?sc"
      by (auto simp: build_final_config_for_service_def generate_final_config_for_def names_def Let_def)
    let ?b = "\<lparr>bi_queue = n, bi_exchange = rc_exchange rb, bi_type = known_type (lower_str (or_str (rc_exchange_type rb) ''direct'')),
      bi_key = or_str (rc_routing_key rb) n\<rparr>"
    have b: "setup_exchange_binding ?sc n = Some ?b"
      using to(3) sc(3) by (simp add: setup_exchange_binding_def sc(2) f1 rb or_str_def Let_def)
    have "?b \<in> set (consumer_bindings ?sc)"
      using qs b to(2) by (force simp: consumer_bindings_def sc(1) map_filter_def)
    from that[OF this] show thesis using False by auto
  next
    case True
    then have sc: "sc_queues ?sc = map (suffix_queue run) (List.map_filter (\<lambda>n. map_option (Pair n) (map_of (fc_queues fc) n)) names)"
      "sc_configs ?sc = map (suffix_config run (map fst (List.map_filter (\<lambda>n. map_option (Pair n) (map_of (fc_queues fc) n)) names)))
        (filter (\<lambda>c. rc_queue c \<in> set names) (fc_rabbitmq_configs fc))" "sc_per_run ?sc"
      by (auto simp: build_final_config_for_service_def generate_final_config_for_def names_def Let_def)
    have all: "set (map fst (List.map_filter (\<lambda>n. map_option (Pair n) (map_of (fc_queues fc) n)) names)) = set names"
      using sub by (auto simp: map_filter_keys map_of_eq_None_iff)
    have app: "with_run run m = m @ ''.'' @ run" if "m \<in> set names" for m
      using that fresh True sub with_run_append by blast
    have eq: "(rc_queue (suffix_config run (map fst (List.map_filter (\<lambda>n. map_option (Pair n) (map_of (fc_queues fc) n)) names)) c) = with_run run n) =
        (rc_queue c = n)" if "c \<in> set (filter (\<lambda>c. rc_queue c \<in> set names) (fc_rabbitmq_configs fc))" for c
      using that app[OF n] app[of "rc_queue c"] unfolding suffix_config_def all by simp
    have f2: "find (\<lambda>c. rc_queue c = with_run run n) (sc_configs ?sc) =
        Some (suffix_config run (map fst (List.map_filter (\<lambda>n. map_option (Pair n) (map_of (fc_queues fc) n)) names)) rb)"
      by (simp only: sc(2) find_map trans[OF find_weaken[OF ballI[OF eq]] f1] option.map)
    have ne: "with_run run (or_str (rc_routing_key rb) n) \<noteq> []" using to(3) by (auto simp: with_run_def or_str_def)
    let ?b = "\<lparr>bi_queue = with_run run n, bi_exchange = rc_exchange rb,
      bi_type = known_type (lower_str (or_str (rc_exchange_type rb) ''direct'')), bi_key = with_run run (or_str (rc_routing_key rb) n)\<rparr>"
    have b: "setup_exchange_binding ?sc (with_run run n) = Some ?b"
      using ne by (simp add: setup_exchange_binding_def f2 suffix_config_def rb Let_def)
    have "suffix_queue run (n, qi) \<in> set (sc_queues ?sc)" using qs by (simp add: sc)
    then have "?b \<in> set (consumer_bindings ?sc)"
      using b by (force simp: consumer_bindings_def map_filter_def suffix_queue_def)
    from that[OF this] show thesis using True by auto
  qed
qed

text \<open>C13. Every dependent gets as many copies as there are dependents: when a task of an accepted pipeline publishes
  its result, the queue of each edge that leaves it is bound by the service of the dependent task and receives one
  message per dependent, because the publisher sends one message per edge and all go to one fanout exchange. So the
  message arrives, and exactly once only for a task with one dependent.\<close>

theorem edge_copies:
  assumes "set_iteration it" and "parse_graph it pid cfg = Inr fc" and "exchange_routing routes"
    and "inj_on (\<lambda>(d, t). queue_name d t) (dep_edges (config_deps (dag_tasks cfg)))"
    and "(d, t) \<in> dep_edges (config_deps (dag_tasks cfg))" and "strip (queue_name d t) = queue_name d t"
    and "suffix \<Longrightarrow> \<forall>m \<in> fst ` set (fc_queues fc). \<not> ends_with (''.'' @ run) m"
    and "map_of (fc_task_dict fc) t = Some tk"
  obtains pubs b where "call_publish suffix fc d run u pid payload = Inr pubs"
    and "b \<in> set (consumer_bindings (build_final_config_for_service it suffix run u pid (t_available_services tk) fc))"
    and "bi_queue b = (if suffix \<and> run \<noteq> [] then with_run run (queue_name d t) else queue_name d t)"
    and "copies routes pubs b = card {v. (d, v) \<in> dep_edges (config_deps (dag_tasks cfg))}"
proof -
  let ?x = "\<lambda>c. rc_exchange c = ''exchange_'' @ d"
  obtain rb where rb: "rc_task_id rb = d" "rc_exchange rb = ''exchange_'' @ d" "rc_queue rb = queue_name d t"
    "find (\<lambda>c. rc_queue c = queue_name d t) (fc_rabbitmq_configs fc) = Some rb"
    "map_of (fc_queues fc) (queue_name d t) = Some (queue_entry (d, t))"
    "\<forall>c \<in> set (fc_rabbitmq_configs fc). ?x c \<longrightarrow> rc_task_id c = d \<and> rc_exchange_type c = rc_exchange_type rb"
    "length (filter ?x (fc_rabbitmq_configs fc)) = card {u. (d, u) \<in> dep_edges (config_deps (dag_tasks cfg))}"
    and ty: "rc_exchange_type rb = ''fanout'' \<and> rc_routing_key rb = [] \<or>
      rc_exchange_type rb = ''direct'' \<and> rc_routing_key rb = queue_name d t \<and> filter ?x (fc_rabbitmq_configs fc) = [rb]"
    by (rule edge_wiring[OF assms(1,2,4,5)])
  have n: "queue_name d t \<noteq> []" "q_to_task (queue_entry (d, t)) = t" "q_queue_name (queue_entry (d, t)) = queue_name d t"
    by (simp_all add: queue_name_def queue_entry_def)
  obtain b where b: "b \<in> set (consumer_bindings (build_final_config_for_service it suffix run u pid (t_available_services tk) fc))"
    "bi_queue b = (if suffix \<and> run \<noteq> [] then with_run run (queue_name d t) else queue_name d t)" "bi_exchange b = rc_exchange rb"
    "bi_type b = known_type (lower_str (or_str (rc_exchange_type rb) ''direct''))"
    "bi_key b = (if suffix \<and> run \<noteq> [] then with_run run (or_str (rc_routing_key rb) (queue_name d t)) else or_str (rc_routing_key rb) (queue_name d t))"
    by (rule service_binding[OF assms(1) rb(5) n(2,3,1) rb(4) assms(8,7)])
  let ?mine = "filter (\<lambda>c. rc_task_id c = d) (fc_rabbitmq_configs fc)"
  have "rb \<in> set (fc_rabbitmq_configs fc)" using rb(4) by (auto simp: find_Some_iff)
  then have "?mine \<noteq> []" using rb(1) by (auto simp: filter_empty_conv)
  then have pubs: "call_publish suffix fc d run u pid payload = Inr (map (publication_of suffix run (envelope run u pid d payload)) ?mine)"
    by (simp add: call_publish_def)
  have mine: "filter ?x ?mine = filter ?x (fc_rabbitmq_configs fc)"
    using rb(6) by (auto simp: filter_filter intro: filter_cong)
  have ex: "pb_exchange (publication_of suffix run body c) = rc_exchange c" for body c
    by (simp add: publication_of_def get_dynamic_names_from_config_def Let_def)
  have "copies routes (map (publication_of suffix run (envelope run u pid d payload)) ?mine) b = length (filter ?x (fc_rabbitmq_configs fc))"
    using ty
  proof
    assume "rc_exchange_type rb = ''fanout'' \<and> rc_routing_key rb = []"
    then have "bi_type b = ''fanout''" by (simp add: b(4) known_type_def or_str_def)
    show ?thesis
      by (simp only: exchange_routing.copies_fanout[OF assms(3) \<open>bi_type b = ''fanout''\<close>] filter_map length_map comp_def ex b(3) rb(2) mine)
  next
    assume d: "rc_exchange_type rb = ''direct'' \<and> rc_routing_key rb = queue_name d t \<and> filter ?x (fc_rabbitmq_configs fc) = [rb]"
    then have "bi_type b = ''direct''" by (simp add: b(4) known_type_def or_str_def)
    note dir = exchange_routing.copies_direct[OF assms(3) this]
    have key: "pb_key (publication_of suffix run body rb) = bi_key b" for body
      using d n(1) assms(6) by (simp add: publication_of_def get_dynamic_names_from_config_def b(5) or_str_def Let_def)
    have "filter (\<lambda>c. rc_exchange c = bi_exchange b \<and> pb_key (publication_of suffix run body c) = bi_key b) ?mine =
        filter (\<lambda>c. pb_key (publication_of suffix run body c) = bi_key b) (filter ?x ?mine)" for body
      unfolding filter_filter b(3) rb(2) by (rule filter_cong) auto
    also have "filter (\<lambda>c. pb_key (publication_of suffix run body c) = bi_key b) (filter ?x ?mine) = [rb]" for body
      using d key[of body] unfolding mine by (simp del: filter_filter)
    finally have "filter (\<lambda>c. rc_exchange c = bi_exchange b \<and> pb_key (publication_of suffix run body c) = bi_key b) ?mine = [rb]" for body .
    then show ?thesis using d by (simp only: dir filter_map length_map comp_def ex)
  qed
  then show thesis using that[OF pubs b(1,2)] rb(7) by simp
qed

lemma diamond_edges:
  "dep_edges (config_deps (dag_tasks diamond)) = {(''a'', ''b''), (''a'', ''c''), (''b'', ''d''), (''c'', ''d'')}"
proof -
  have "edge_list remdups (dag_tasks diamond) = [(''a'', ''b''), (''a'', ''c''), (''b'', ''d''), (''c'', ''d'')]" by code_simp
  then show ?thesis using set_edge_list[OF set_iteration_remdups, of "dag_tasks diamond"] by simp
qed

theorem edge_copies_witness:
  "\<exists>fc pubs tk b. parse_graph remdups ''p'' diamond = Inr fc \<and> map_of (fc_task_dict fc) ''b'' = Some tk \<and>
     call_publish False fc ''a'' ''r'' ''u'' ''p'' JNull = Inr pubs \<and>
     b \<in> set (consumer_bindings (build_final_config_for_service remdups False ''r'' ''u'' ''p'' (t_available_services tk) fc)) \<and>
     bi_queue b = ''queue_a_to_b'' \<and> copies broker pubs b = 2"
proof -
  obtain fc where fc: "parse_graph remdups ''p'' diamond = Inr fc" using diamond_run by blast
  have "(case parse_graph remdups ''p'' diamond of Inl _ \<Rightarrow> False | Inr fc \<Rightarrow> map_of (fc_task_dict fc) ''b'' \<noteq> None)" by code_simp
  then obtain tk where tk: "map_of (fc_task_dict fc) ''b'' = Some tk" by (auto simp: fc)
  have inj: "inj_on (\<lambda>(d, t). queue_name d t) (dep_edges (config_deps (dag_tasks diamond)))"
    by (simp add: diamond_edges queue_name_def)
  have e: "(''a'', ''b'') \<in> dep_edges (config_deps (dag_tasks diamond))" by (simp add: diamond_edges)
  have s: "strip (queue_name ''a'' ''b'') = queue_name ''a'' ''b''" by code_simp
  have two: "card {v. (''a'', v) \<in> dep_edges (config_deps (dag_tasks diamond))} = 2"
  proof -
    have "{v. (''a'', v) \<in> dep_edges (config_deps (dag_tasks diamond))} = {''b'', ''c''}" by (auto simp: diamond_edges)
    then show ?thesis by simp
  qed
  obtain pubs b where r: "call_publish False fc ''a'' ''r'' ''u'' ''p'' JNull = Inr pubs"
    "b \<in> set (consumer_bindings (build_final_config_for_service remdups False ''r'' ''u'' ''p'' (t_available_services tk) fc))"
    "bi_queue b = (if False \<and> ''r'' \<noteq> [] then with_run ''r'' (queue_name ''a'' ''b'') else queue_name ''a'' ''b'')"
    "copies broker pubs b = card {v. (''a'', v) \<in> dep_edges (config_deps (dag_tasks diamond))}"
    by (rule edge_copies[where run = "''r''" and u = "''u''" and payload = JNull, OF set_iteration_remdups fc
      broker.exchange_routing_axioms inj e s FalseE tk])
  show ?thesis
    using fc tk r two by (intro exI[of _ fc] exI[of _ pubs] exI[of _ tk] exI[of _ b]) (simp add: queue_name_def)
qed

end
