(* ===== verification/Fan_In_Properties.thy ===== *)
theory Fan_In_Properties
  imports Fan_In Delivery_Properties
begin

section \<open>Properties of fan-in\<close>

text \<open>
  For one task with required steps and one run: \<open>aimed\<close> are the messages for it, \<open>runs_of\<close> the times it is forwarded.
  The bounds on the number of forwards are proved for every aggregator that does not hold a complete set, by induction
  on the sequence of messages, which may contain any messages for other tasks and runs in between.
\<close>

definition aimed :: "string \<Rightarrow> string \<Rightarrow> (string \<times> doc) list \<Rightarrow> doc list" where
  "aimed t run ms = map snd (filter (\<lambda>(t', m). t' = t \<and> jget m ''pipeline_run_id'' = JStr run) ms)"

definition runs_of :: "string \<Rightarrow> string \<Rightarrow> forwarded list \<Rightarrow> forwarded list" where
  "runs_of t run fs = filter (\<lambda>f. fw_task f = t \<and> ts_run_id (fw_state f) = run) fs"

definition sound_envelope :: "service_config \<Rightarrow> doc \<Rightarrow> bool" where
  "sound_envelope sc m \<longleftrightarrow> is_str (jget m ''pipeline_run_id'') \<and> is_str (dict_get m ''username'' (JStr [])) \<and>
     is_str (jor (jget m ''pipeline_config_id'') (JStr [])) \<and> is_str (jor (jor (jget m ''pipeline_id'') (JStr (sc_pipeline sc))) (JStr []))"

definition sent :: "string \<Rightarrow> doc list \<Rightarrow> nat" where
  "sent u ms = length (filter (\<lambda>m. sender m = u) ms)"

definition waiting :: "(json \<Rightarrow> string) \<Rightarrow> string \<Rightarrow> string \<Rightarrow> aggregator \<Rightarrow> string set" where
  "waiting repr t run st = set (map fst (dict_get st (run @ ''_'' @ t) []))"

lemma is_str_iff: "is_str j \<longleftrightarrow> (\<exists>s. j = JStr s)"
  by (cases j) simp_all

lemma make_next_sound:
  assumes "sound_envelope sc m"
  obtains ts where "make_next_task_state sc t m parts = Some ts" and "ts_task_id ts = t" and "JStr (ts_run_id ts) = jget m ''pipeline_run_id''"
  using assms by (auto simp: sound_envelope_def is_str_iff make_next_task_state_def Let_def)

lemma make_next_run: "make_next_task_state sc t m parts = Some ts \<Longrightarrow> jget m ''pipeline_run_id'' = JStr (ts_run_id ts)"
  by (auto simp: make_next_task_state_def Let_def split: json.splits)

lemma handler_forward:
  assumes "default_handler repr sc t m st = (Some f, st')"
  shows "fw_task f = t" and "jget m ''pipeline_run_id'' = JStr (ts_run_id (fw_state f))"
    and "set (required_upstreams sc t) \<subseteq> set (fw_trigger f)"
  using assms by (auto simp: default_handler_def Let_def dest: make_next_run split: if_splits)

text \<open>A message under another key leaves the set that waits under this one.\<close>

lemma handler_other:
  assumes "aggregator_key repr m t \<noteq> k"
  shows "dict_get (snd (default_handler repr sc t m st)) k [] = dict_get st k []"
  using assms by (auto simp: default_handler_def Let_def dict_get_def update_conv' delete_conv')

text \<open>A message for the task: it completes the set and is forwarded, or it waits.\<close>

lemma handler_aimed:
  assumes "t \<noteq> []" and "run \<noteq> []" and "jget m ''pipeline_run_id'' = JStr run" and "required_upstreams sc t \<noteq> []" and "sound_envelope sc m"
  shows "set (required_upstreams sc t) \<subseteq> insert (sender m) (waiting repr t run st) \<Longrightarrow>
      \<exists>f. fst (default_handler repr sc t m st) = Some f \<and> fw_task f = t \<and> ts_run_id (fw_state f) = run \<and>
        waiting repr t run (snd (default_handler repr sc t m st)) = {}"
    and "\<not> set (required_upstreams sc t) \<subseteq> insert (sender m) (waiting repr t run st) \<Longrightarrow>
      fst (default_handler repr sc t m st) = None \<and>
      waiting repr t run (snd (default_handler repr sc t m st)) = insert (sender m) (waiting repr t run st)"
proof -
  let ?k = "run @ ''_'' @ t" and ?needed = "required_upstreams sc t"
  define parts where "parts = dict_set (sender m) m (dict_get st ?k [])"
  have k: "aggregator_key repr m t = ?k" using assms(3) by (simp add: aggregator_key_def)
  have keys: "set (map fst parts) = insert (sender m) (waiting repr t run st)"
    by (simp add: parts_def waiting_def)
  obtain ts where ts: "make_next_task_state sc t m (Some parts) = Some ts" "JStr (ts_run_id ts) = jget m ''pipeline_run_id''"
    using make_next_sound[OF assms(5)] by metis
  have h: "default_handler repr sc t m st =
     (if set ?needed \<subseteq> set (map fst parts)
      then (Some \<lparr>fw_state = ts, fw_trigger = map fst parts, fw_task = t\<rparr>, AList.delete ?k (dict_set ?k parts st))
      else (None, dict_set ?k parts st))"
  proof -
    have guard: "\<not> (t = [] \<or> \<not> truthy (jget m ''pipeline_run_id''))" using assms(1-3) by simp
    show ?thesis
      unfolding default_handler_def Let_def k parts_def[symmetric] if_not_P[OF guard] if_not_P[OF assms(4)] ts(1) option.map ..
  qed
  show "set ?needed \<subseteq> insert (sender m) (waiting repr t run st) \<Longrightarrow>
      \<exists>f. fst (default_handler repr sc t m st) = Some f \<and> fw_task f = t \<and> ts_run_id (fw_state f) = run \<and>
        waiting repr t run (snd (default_handler repr sc t m st)) = {}"
    unfolding h keys using ts(2) assms(3) by (simp add: waiting_def dict_get_def delete_conv')
  show "\<not> set ?needed \<subseteq> insert (sender m) (waiting repr t run st) \<Longrightarrow>
      fst (default_handler repr sc t m st) = None \<and>
      waiting repr t run (snd (default_handler repr sc t m st)) = insert (sender m) (waiting repr t run st)"
    unfolding h keys[symmetric] by (simp add: waiting_def)
qed

text \<open>Only messages for the task use its key.\<close>

definition own_key :: "(json \<Rightarrow> string) \<Rightarrow> string \<Rightarrow> string \<Rightarrow> (string \<times> doc) list \<Rightarrow> bool" where
  "own_key repr t run ms \<longleftrightarrow> (\<forall>(t', m) \<in> set ms. aggregator_key repr m t' = run @ ''_'' @ t \<longrightarrow> t' = t \<and> jget m ''pipeline_run_id'' = JStr run)"

text \<open>The reference: an all-of join that starts again, empty, whenever the last required sender has been seen.\<close>

fun joins :: "string set \<Rightarrow> string set \<Rightarrow> string list \<Rightarrow> nat" where
  "joins needed seen [] = 0"
| "joins needed seen (u # us) =
     (if needed \<subseteq> insert u seen then Suc (joins needed {} us) else joins needed (insert u seen) us)"

lemma joins_upper: "needed \<noteq> {} \<Longrightarrow> u \<in> needed \<Longrightarrow> \<not> needed \<subseteq> seen \<Longrightarrow>
    joins needed seen us \<le> count_list us u + (if u \<in> seen then 1 else 0)"
proof (induction us arbitrary: seen)
  case (Cons v us)
  show ?case
  proof (cases "needed \<subseteq> insert v seen")
    case True
    then show ?thesis using Cons.IH[of "{}"] Cons.prems by auto
  next
    case False
    then show ?thesis using Cons.IH[of "insert v seen"] Cons.prems by (auto split: if_splits)
  qed
qed simp

lemma joins_lower: "\<not> needed \<subseteq> seen \<Longrightarrow> needed \<subseteq> seen \<union> set us \<Longrightarrow> 0 < joins needed seen us"
  by (induction us arbitrary: seen) auto

lemma handler_other_message:
  assumes "default_handler repr sc t' m st = (f, st1)" and "\<not> (t' = t \<and> jget m ''pipeline_run_id'' = JStr run)"
    and "aggregator_key repr m t' \<noteq> run @ ''_'' @ t"
  shows "waiting repr t run st1 = waiting repr t run st" and "runs_of t run (case f of None \<Rightarrow> [] | Some y \<Rightarrow> [y]) = []"
  using handler_other[OF assms(3), of sc st] handler_forward(1,2)[of repr sc t' m st _ st1] assms(1,2)
  by (auto simp: waiting_def runs_of_def split: option.splits)

lemma handle_all_trigger: "f \<in> set (fst (handle_all repr sc ms st)) \<Longrightarrow> set (required_upstreams sc (fw_task f)) \<subseteq> set (fw_trigger f)"
proof (induction ms arbitrary: st)
  case (Cons x ms)
  obtain t' m where x: "x = (t', m)" by (cases x)
  obtain g st1 where h: "default_handler repr sc t' m st = (g, st1)" by fastforce
  show ?case
    using Cons.prems Cons.IH[of st1] handler_forward(1,3)[of repr sc t' m st _ st1] h
    by (auto simp: x case_prod_unfold Let_def split: option.splits)
qed simp

text \<open>The handlers of a service, on any interleaving of messages, forward a task as often as the reference joins.\<close>

lemma handle_all_joins:
  assumes "t \<noteq> []" and "run \<noteq> []" and "required_upstreams sc t \<noteq> []"
  shows "own_key repr t run ms \<Longrightarrow> \<forall>m \<in> set (aimed t run ms). sound_envelope sc m \<Longrightarrow>
    length (runs_of t run (fst (handle_all repr sc ms st))) =
      joins (set (required_upstreams sc t)) (waiting repr t run st) (map sender (aimed t run ms))"
proof (induction ms arbitrary: st)
  case (Cons x ms)
  obtain t' m where x: "x = (t', m)" by (cases x)
  let ?N = "set (required_upstreams sc t)" and ?W = "waiting repr t run"
  obtain f st1 where h: "default_handler repr sc t' m st = (f, st1)" by fastforce
  have own: "own_key repr t run ms" using Cons.prems(1) by (simp add: own_key_def)
  have all: "fst (handle_all repr sc (x # ms) st) = (case f of None \<Rightarrow> [] | Some y \<Rightarrow> [y]) @ fst (handle_all repr sc ms st1)"
    by (simp add: x h case_prod_unfold Let_def split: option.splits)
  show ?case
  proof (cases "t' = t \<and> jget m ''pipeline_run_id'' = JStr run")
    case True
    have aim: "aimed t run (x # ms) = m # aimed t run ms" using True by (simp add: aimed_def x)
    have sound: "sound_envelope sc m" "\<forall>m \<in> set (aimed t run ms). sound_envelope sc m" using Cons.prems(2) by (simp_all add: aim)
    note ha = handler_aimed[OF assms(1,2) conjunct2[OF True] assms(3) sound(1), of repr st]
    show ?thesis
    proof (cases "?N \<subseteq> insert (sender m) (?W st)")
      case complete: True
      from ha(1)[OF this] obtain y where y: "f = Some y" "fw_task y = t" "ts_run_id (fw_state y) = run" "?W st1 = {}"
        using h True by auto
      show ?thesis using Cons.IH[OF own sound(2), of st1] complete by (simp add: all y aim runs_of_def)
    next
      case False
      from ha(2)[OF this] have y: "f = None" "?W st1 = insert (sender m) (?W st)" using h True by auto
      show ?thesis using Cons.IH[OF own sound(2), of st1] False by (simp add: all y aim)
    qed
  next
    case False
    have aim: "aimed t run (x # ms) = aimed t run ms" using False by (simp add: aimed_def x)
    have key: "aggregator_key repr m t' \<noteq> run @ ''_'' @ t" using Cons.prems(1) False by (auto simp: own_key_def x)
    show ?thesis
      using Cons.IH[OF own, of st1] Cons.prems(2) handler_other_message[OF h False key] by (simp add: all aim runs_of_def)
  qed
qed (simp add: runs_of_def aimed_def)

lemma count_sent: "count_list (map sender ms) u = sent u ms"
  by (induction ms) (simp_all add: sent_def)

lemma joins_once:
  assumes "needed \<noteq> {}" and "\<forall>u \<in> needed. count_list us u = 1"
  shows "joins needed {} us = 1"
proof -
  obtain u where u: "u \<in> needed" using assms(1) by blast
  have "v \<in> set us" if "v \<in> needed" for v
    using assms(2) that by (metis count_list_0_iff zero_neq_one)
  then have "0 < joins needed {} us" using assms(1) by (intro joins_lower) auto
  moreover have "joins needed {} us \<le> 1" using joins_upper[OF assms(1) u, of "{}" us] assms u by simp
  ultimately show ?thesis by simp
qed

definition fan_in_service :: service_config where
  "fan_in_service = build_final_config_for_service remdups False ''r'' ''u'' ''p'' ''svc_d'' (projr (parse_graph remdups ''p'' diamond))"

definition join_message :: "string \<Rightarrow> string \<Rightarrow> string \<times> doc" where
  "join_message run from = (''d'', envelope run ''u'' ''p'' from (JDict []))"

definition join_messages :: "(string \<times> doc) list" where
  "join_messages = [join_message ''r'' ''c'', join_message ''q'' ''b'', join_message ''r'' ''b'', join_message ''q'' ''b'']"

lemma fan_in_service_steps: "required_upstreams fan_in_service ''d'' = [''b'', ''c'']"
  unfolding fan_in_service_def by code_simp

lemma joins_of_handler:
  assumes "t \<noteq> []" and "run \<noteq> []" and "required_upstreams sc t \<noteq> []" and "own_key repr t run ms"
    and "\<forall>m \<in> set (aimed t run ms). sound_envelope sc m"
    and "fw = runs_of t run (fst (handle_all repr sc ms []))"
  shows "u \<in> set (required_upstreams sc t) \<Longrightarrow> length fw \<le> sent u (aimed t run ms)"
    and "(\<And>u. u \<in> set (required_upstreams sc t) \<Longrightarrow> 0 < sent u (aimed t run ms)) \<Longrightarrow> 0 < length fw"
    and "(\<And>u. u \<in> set (required_upstreams sc t) \<Longrightarrow> sent u (aimed t run ms) = 1) \<Longrightarrow> length fw = 1"
    and "f \<in> set fw \<Longrightarrow> set (required_upstreams sc t) \<subseteq> set (fw_trigger f)"
proof -
  let ?us = "map sender (aimed t run ms)" and ?N = "set (required_upstreams sc t)"
  have j: "length fw = joins ?N {} ?us"
    using handle_all_joins[OF assms(1-5), of "[]"] by (simp add: assms(6) waiting_def)
  show "length fw \<le> sent u (aimed t run ms)" if "u \<in> ?N"
    using joins_upper[of ?N u "{}" ?us] that assms(3) by (simp add: j count_sent)
  show "0 < length fw" if "\<And>u. u \<in> ?N \<Longrightarrow> 0 < sent u (aimed t run ms)"
  proof -
    have "u \<in> set ?us" if "u \<in> ?N" for u
      using \<open>\<And>u. u \<in> ?N \<Longrightarrow> 0 < sent u (aimed t run ms)\<close>[OF that] by (metis count_sent count_notin less_irrefl)
    then show ?thesis using assms(3) unfolding j by (intro joins_lower) auto
  qed
  show "length fw = 1" if "\<And>u. u \<in> ?N \<Longrightarrow> sent u (aimed t run ms) = 1"
    unfolding j using assms(3) that by (intro joins_once) (auto simp: count_sent)
  show "set (required_upstreams sc t) \<subseteq> set (fw_trigger f)" if "f \<in> set fw"
    using that handle_all_trigger[of f repr sc ms "[]"] by (simp add: assms(6) runs_of_def)
qed

text \<open>C10. Fan-in (\<^verbatim>\<open>pika_queue.py\<close>): whatever the order in which a service gets the messages, and whatever messages
  for other tasks and runs come in between, a task that requires several upstream steps is forwarded at most as often as each
  required step has sent, at least once when all have, exactly once when each has sent one message, and never on less than
  the whole set.\<close>

theorem fan_in_joins:
  assumes "t \<noteq> []" and "run \<noteq> []" and "required_upstreams sc t \<noteq> []" and "own_key repr t run ms"
    and "\<forall>m \<in> set (aimed t run ms). sound_envelope sc m"
    and "fw = runs_of t run (fst (handle_all repr sc ms []))"
  shows "(\<forall>u \<in> set (required_upstreams sc t). length fw \<le> sent u (aimed t run ms)) \<and>
     ((\<forall>u \<in> set (required_upstreams sc t). 0 < sent u (aimed t run ms)) \<longrightarrow> 0 < length fw) \<and>
     ((\<forall>u \<in> set (required_upstreams sc t). sent u (aimed t run ms) = 1) \<longrightarrow> length fw = 1) \<and>
     (\<forall>f \<in> set fw. set (required_upstreams sc t) \<subseteq> set (fw_trigger f))"
  by (intro conjI ballI impI) (rule joins_of_handler[OF assms]; simp)+

lemma pb_body_of: "pb_body (publication_of suffix run body c) = body"
  by (simp add: publication_of_def case_prod_unfold Let_def)

theorem fan_in_joins_witness:
  "length (runs_of ''d'' ''r'' (fst (handle_all (\<lambda>_. []) fan_in_service join_messages []))) = 1"
proof (rule fan_in_joins[OF _ _ _ _ _ refl, THEN conjunct2, THEN conjunct2, THEN conjunct1, THEN mp])
  show "required_upstreams fan_in_service ''d'' \<noteq> []" by (simp add: fan_in_service_steps)
  show "own_key (\<lambda>_. []) ''d'' ''r'' join_messages"
    by (simp add: own_key_def join_messages_def join_message_def aggregator_key_def envelope_def dict_simps)
  show "\<forall>m \<in> set (aimed ''d'' ''r'' join_messages). sound_envelope fan_in_service m"
    unfolding fan_in_service_def by code_simp
  show "\<forall>u \<in> set (required_upstreams fan_in_service ''d''). sent u (aimed ''d'' ''r'' join_messages) = 1"
  proof
    fix u assume "u \<in> set (required_upstreams fan_in_service ''d'')"
    then have "u = ''b'' \<or> u = ''c''" by (simp add: fan_in_service_steps)
    moreover have "sent ''b'' (aimed ''d'' ''r'' join_messages) = 1" by code_simp
    moreover have "sent ''c'' (aimed ''d'' ''r'' join_messages) = 1" by code_simp
    ultimately show "sent u (aimed ''d'' ''r'' join_messages) = 1" by blast
  qed
qed simp_all

text \<open>A join for which one required sender keeps silent stays incomplete.\<close>

lemma handler_silent:
  assumes "u \<in> set (required_upstreams sc t)" and "u \<notin> set (map fst (dict_get st (aggregator_key repr m t) []))" and "sender m \<noteq> u"
  shows "fst (default_handler repr sc t m st) = None"
    and "u \<notin> set (map fst (dict_get (snd (default_handler repr sc t m st)) (aggregator_key repr m t) []))"
  using assms by (auto simp: default_handler_def Let_def)

lemma handle_all_silent:
  assumes "u \<in> set (required_upstreams sc t)" and "\<And>m. m \<in> set ms \<Longrightarrow> sender m \<noteq> u \<and> aggregator_key repr m t = k"
  shows "u \<notin> set (map fst (dict_get st k [])) \<Longrightarrow> fst (handle_all repr sc (map (Pair t) ms) st) = []"
  using assms(2)
proof (induction ms arbitrary: st)
  case (Cons m ms)
  have m: "sender m \<noteq> u" "aggregator_key repr m t = k" using Cons.prems(2)[of m] by simp_all
  note s = handler_silent[OF assms(1), of st repr m, unfolded m(2), OF Cons.prems(1) m(1)]
  show ?case using Cons.IH[OF s(2)] Cons.prems(2) s(1) by (simp add: case_prod_unfold Let_def)
qed simp

lemma dispatch_unseen:
  assumes "handle_dispatch_task ops suffix cmd outputs fc = Some (ev, pubs)"
    and "u \<in> set (required_upstreams sc (dp_task cmd))" and "u \<noteq> ''__cnp_dispatch__''"
  shows "de_type ev = ''cross_service''" and "pubs \<noteq> []"
    and "fst (handle_all repr sc (map (\<lambda>p. (dp_task cmd, pb_body p)) (concat (replicate n pubs))) []) = []"
proof -
  show "de_type ev = ''cross_service''" and "pubs \<noteq> []"
    using assms(1) by (auto simp: handle_dispatch_task_def Let_def split: option.splits if_splits)
  obtain c where c: "outputs = Some c" using assms(1) by (cases outputs) (simp_all add: handle_dispatch_task_def)
  obtain cfg where f: "fc = Some cfg"
    using assms(1) by (cases fc) (simp_all add: handle_dispatch_task_def c Let_def split: if_splits)
  define d where "d = JDict (read_task_output ops (dp_username cmd) (''input_'' @ dp_task cmd) (dp_run cmd) c)"
  have pubs: "pubs = map (publication_of suffix (dp_run cmd)
      (envelope (dp_run cmd) (dp_username cmd) (dp_pipeline cmd) ''__cnp_dispatch__'' d)) (dispatch_targets cfg (dp_task cmd))"
    using assms(1) unfolding handle_dispatch_task_def c f option.case Let_def d_def[symmetric] by (simp split: if_splits)
  have "fst (handle_all repr sc (map (Pair (dp_task cmd)) (map pb_body (concat (replicate n pubs)))) []) = []"
  proof (rule handle_all_silent[OF assms(2), where k = "dp_run cmd @ ''_'' @ dp_task cmd"])
    fix m assume "m \<in> set (map pb_body (concat (replicate n pubs)))"
    then have m: "m = envelope (dp_run cmd) (dp_username cmd) (dp_pipeline cmd) ''__cnp_dispatch__'' d"
      by (auto simp: pubs pb_body_of split: if_splits)
    show "sender m \<noteq> u \<and> aggregator_key repr m (dp_task cmd) = dp_run cmd @ ''_'' @ dp_task cmd"
      using assms(3) by (simp add: m envelope_def sender_def aggregator_key_def dict_simps)
  qed simp
  then show "fst (handle_all repr sc (map (\<lambda>p. (dp_task cmd, pb_body p)) (concat (replicate n pubs))) []) = []"
    by (simp add: comp_def)
qed

text \<open>C23. A task handed to another service after its award (\<^verbatim>\<open>handle_dispatch_task\<close>) is sent there in an envelope from
  \<^verbatim>\<open>__cnp_dispatch__\<close>. When the task is a fan-in its consumer waits for the required steps, of which that is none: the
  dispatch is reported done, its messages are filed, and the task is not forwarded, however often it is dispatched.\<close>

theorem dispatch_lost_at_fan_in:
  assumes "handle_dispatch_task ops suffix cmd outputs fc = Some (ev, pubs)"
    and "u \<in> set (required_upstreams sc (dp_task cmd))" and "u \<noteq> ''__cnp_dispatch__''"
  shows "de_type ev = ''cross_service'' \<and> pubs \<noteq> [] \<and>
     fst (handle_all repr sc (map (\<lambda>p. (dp_task cmd, pb_body p)) (concat (replicate n pubs))) []) = []"
  using dispatch_unseen[OF assms] by blast

definition join_dispatch :: dispatch_command where
  "join_dispatch = \<lparr>dp_username = ''u'', dp_pipeline = ''p'', dp_run = ''r'', dp_plan = ''plan'', dp_task = ''d'', dp_agent = ''agent'',
     dp_service = ''svc_d'', dp_reforwards = 0\<rparr>"

definition join_outputs :: "string \<Rightarrow> doc option" where
  "join_outputs = map_of [(output_key ''u'' ''input_d'' ''r'', [(''raw_output'', JStr ''x'')])]"

theorem dispatch_lost_at_fan_in_witness:
  "\<exists>ev pubs. handle_dispatch_task mem_docs False join_dispatch (Some join_outputs) (Some (projr (parse_graph remdups ''p'' diamond))) =
      Some (ev, pubs) \<and> de_type ev = ''cross_service'' \<and> length pubs = 3 \<and>
     fst (handle_all (\<lambda>_. []) fan_in_service (map (\<lambda>p. (''d'', pb_body p)) (concat (replicate 3 pubs))) []) = []"
proof -
  let ?r = "handle_dispatch_task mem_docs False join_dispatch (Some join_outputs) (Some (projr (parse_graph remdups ''p'' diamond)))"
  have "(case ?r of None \<Rightarrow> False | Some (ev, pubs) \<Rightarrow> length pubs = 3)" by code_simp
  then obtain ev pubs where r: "?r = Some (ev, pubs)" "length pubs = 3" by (cases ?r) auto
  have t: "dp_task join_dispatch = ''d''" by (simp add: join_dispatch_def)
  have u: "''b'' \<in> set (required_upstreams fan_in_service (dp_task join_dispatch))" by (simp add: t fan_in_service_steps)
  have "''b'' \<noteq> ''__cnp_dispatch__''" by simp
  note l = dispatch_lost_at_fan_in[OF r(1) u this]
  have "fst (handle_all (\<lambda>_. []) fan_in_service (map (\<lambda>p. (''d'', pb_body p)) (concat (replicate 3 pubs))) []) = []"
    using l[THEN conjunct2, THEN conjunct2, of "\<lambda>_. []" 3] unfolding t .
  then show ?thesis using r l[THEN conjunct1] by blast
qed

lemma wait_from_open:
  assumes "wait_from repr obs n = Some k"
  shows "n \<le> k \<and> \<not> pause_holds repr (obs k)"
  by (rule wait_from.raw_induct[where P = "\<lambda>repr obs n k. n \<le> k \<and> \<not> pause_holds repr (obs k)", OF _ assms])
    (fastforce split: if_splits)

text \<open>A message of a paused run (\<^verbatim>\<open>_wait_if_paused\<close>) is let through at the first look at which the run is
  no longer paused or has ended, and is held for ever exactly when there is no such look.\<close>

theorem pause_releases:
  "wait_from repr obs n = (if \<exists>k\<ge>n. \<not> pause_holds repr (obs k) then Some (LEAST k. n \<le> k \<and> \<not> pause_holds repr (obs k)) else None)"
  (is "_ = (if ?open then Some (Least ?P) else None)")
proof (cases ?open)
  case True
  have step: "wait_from repr obs (k - d) = Some k" if "\<not> pause_holds repr (obs k)" and "d \<le> k"
    and "\<And>j. k - d \<le> j \<Longrightarrow> j < k \<Longrightarrow> pause_holds repr (obs j)" for k d
    using that(2,3)
  proof (induction d)
    case 0
    then show ?case using that(1) by (subst wait_from.simps) simp
  next
    case (Suc d)
    have "wait_from repr obs (k - d) = Some k" using Suc by simp
    then show ?case using Suc.prems by (subst wait_from.simps) (simp add: Suc_diff_Suc)
  qed
  let ?k = "Least ?P"
  have k: "n \<le> ?k" "\<not> pause_holds repr (obs ?k)" using LeastI_ex[of ?P] True by blast+
  have "pause_holds repr (obs j)" if "n \<le> j" "j < ?k" for j using not_less_Least[OF that(2)] that(1) by blast
  then have "wait_from repr obs (?k - (?k - n)) = Some ?k" by (intro step[OF k(2)]) (use k(1) in auto)
  then show ?thesis unfolding if_P[OF True] diff_diff_cancel[OF k(1)] .
next
  case False
  have "n \<le> k \<and> \<not> pause_holds repr (obs k)" if "wait_from repr obs n = Some k" for k
    using that by (rule wait_from_open)
  then show ?thesis using False by (cases "wait_from repr obs n") auto
qed

end
