(* ===== verification/Effects.thy ===== *)
theory Effects
  imports Prelude
begin

section \<open>Effects\<close>

text \<open>
  A handler of the program that writes to a store and can raise keeps the writes made before the exception.
  Such a handler maps the state to a result, \<open>Inl\<close> the error or \<open>Inr\<close> the value, and the state it leaves.
  \<open>bindS\<close> is sequencing, \<open>forS\<close> a \<^verbatim>\<open>for\<close> loop that an exception ends, \<open>liftS\<close> a
  computation without effects and \<open>onS\<close> a write. The lemmas \<open>keeps\<close> carry a relation between the state before
  and after through these.
\<close>

type_synonym ('s, 'e, 'a) effect = "'s \<Rightarrow> ('e + 'a) \<times> 's"

definition retS :: "'a \<Rightarrow> ('s, 'e, 'a) effect" where
  "retS x s = (Inr x, s)"

definition failS :: "'e \<Rightarrow> ('s, 'e, 'a) effect" where
  "failS e s = (Inl e, s)"

definition liftS :: "'e + 'a \<Rightarrow> ('s, 'e, 'a) effect" where
  "liftS r s = (r, s)"

definition getS :: "('s \<Rightarrow> 'a) \<Rightarrow> ('s, 'e, 'a) effect" where
  "getS f s = (Inr (f s), s)"

definition onS :: "('s \<Rightarrow> 's) \<Rightarrow> ('s, 'e, unit) effect" where
  "onS f s = (Inr (), f s)"

definition bindS :: "('s, 'e, 'a) effect \<Rightarrow> ('a \<Rightarrow> ('s, 'e, 'b) effect) \<Rightarrow> ('s, 'e, 'b) effect" where
  "bindS m f s = (case m s of (Inl e, s') \<Rightarrow> (Inl e, s') | (Inr x, s') \<Rightarrow> f x s')"

fun forS :: "('a \<Rightarrow> ('s, 'e, unit) effect) \<Rightarrow> 'a list \<Rightarrow> ('s, 'e, unit) effect" where
  "forS f [] = retS ()"
| "forS f (x # xs) = bindS (f x) (\<lambda>_. forS f xs)"

named_theorems effects \<open>evaluation of effects\<close>

lemma effect_simps [effects, simp]:
  "retS x s = (Inr x, s)" "failS e s = (Inl e, s)" "liftS r s = (r, s)" "getS f s = (Inr (f s), s)" "onS g s = (Inr (), g s)"
  by (simp_all add: retS_def failS_def liftS_def getS_def onS_def)

lemma bindS_Inr: "bindS m f s = (Inr y, s') \<longleftrightarrow> (\<exists>x t. m s = (Inr x, t) \<and> f x t = (Inr y, s'))"
  by (auto simp: bindS_def split: prod.splits sum.splits)

lemma bindS_eval [effects]: "m s = (Inr x, t) \<Longrightarrow> bindS m f s = f x t" "m' s = (Inl e, t) \<Longrightarrow> bindS m' f' s = (Inl e, t)"
  by (simp_all add: bindS_def)

lemma bindS_pure [effects, simp]:
  "bindS (retS x) f s = f x s" "bindS (failS e) f' s = (Inl e, s)" "bindS (getS g) f'' s = f'' (g s) s" "bindS (onS h) f''' s = f''' () (h s)"
  by (simp_all add: bindS_def)

lemma bindS_lift [effects, simp]: "bindS (liftS (Inr x)) f s = f x s" "bindS (liftS (Inl e)) f' s = (Inl e, s)"
  by (simp_all add: bindS_def)

subsection \<open>Relations an effect keeps\<close>

definition keeps :: "('s \<Rightarrow> 's \<Rightarrow> bool) \<Rightarrow> ('s, 'e, 'a) effect \<Rightarrow> bool" where
  "keeps R m \<longleftrightarrow> (\<forall>s. R s (snd (m s)))"

named_theorems keeping \<open>effects that keep a relation\<close>

lemma keepsI: "(\<And>s. R s (snd (m s))) \<Longrightarrow> keeps R m"
  by (simp add: keeps_def)

lemma keepsD: "keeps R m \<Longrightarrow> R s (snd (m s))"
  by (simp add: keeps_def)

lemma keeps_pure [keeping]:
  assumes "reflp R"
  shows "keeps R (retS x)" "keeps R (failS e)" "keeps R (liftS r)" "keeps R (getS f)"
  using assms by (auto simp: keeps_def reflpD)

lemma keeps_onS: "(\<And>s. R s (f s)) \<Longrightarrow> keeps R (onS f)"
  by (simp add: keeps_def)

lemma keeps_bindS:
  assumes "transp R" and "keeps R m" and "\<And>x. keeps R (f x)"
  shows "keeps R (bindS m f)"
proof (rule keepsI)
  fix s
  obtain r t where m: "m s = (r, t)" by fastforce
  then have "R s t" using keepsD[OF assms(2), of s] by simp
  moreover have "R t (snd (f x t))" for x by (rule keepsD[OF assms(3)])
  ultimately show "R s (snd (bindS m f s))"
    using m transpD[OF assms(1)] by (cases r) (auto simp: bindS_def)
qed

lemma keeps_forS:
  assumes "reflp R" and "transp R" and "\<And>x. x \<in> set xs \<Longrightarrow> keeps R (f x)"
  shows "keeps R (forS f xs)"
  using assms(3) by (induction xs) (auto intro: keeps_pure[OF assms(1)] keeps_bindS[OF assms(2)])

text \<open>An invariant that every round of a loop keeps, the rounds taken in order.\<close>

lemma forS_invariant:
  assumes "\<And>x s. x \<in> set xs \<Longrightarrow> I s \<Longrightarrow> I (snd (f x s))" and "I s"
  shows "I (snd (forS f xs s))"
  using assms
proof (induction xs arbitrary: s)
  case (Cons x xs)
  obtain r t where f: "f x s = (r, t)" by fastforce
  then have "I t" using Cons.prems(1)[of x s] Cons.prems(2) by simp
  then show ?case using Cons f by (cases r) (auto simp: bindS_def)
qed simp

lemma bindS_invariant:
  assumes "I (snd (m s))" and "\<And>x t. m s = (Inr x, t) \<Longrightarrow> I t \<Longrightarrow> J (snd (f x t))" and "\<And>t. I t \<Longrightarrow> J t"
  shows "J (snd (bindS m f s))"
  using assms by (cases "m s"; cases "fst (m s)") (auto simp: bindS_def)

end
