(* ===== verification/Bandit_Learner.thy ===== *)
theory Bandit_Learner
  imports Agent_Registry "HOL-Library.Monad_Syntax"
begin

section \<open>The bandit learner\<close>

text \<open>
  \<^verbatim>\<open>agent_runtime/services/bandit_learner.py\<close>: a LinUCB model per type of task, kept in the marker store
  as a flattened matrix and a vector, and the reward of an outcome. Vectors and matrices are lists of reals;
  \<^verbatim>\<open>numpy.linalg.solve(A, eye)\<close> is the parameter \<open>bl_solve\<close>, \<open>None\<close> when it raises. A learner caches the
  contexts it has read; every use in the program makes a learner for one call, so the model reads the store.
\<close>

record bid_features =
  bf_trust :: real
  bf_cost_norm :: real
  bf_load_norm :: real
  bf_failure_penalty :: real
  bf_hist_success :: real
  bf_speed :: real

definition features_to_array :: "bid_features \<Rightarrow> real list" where
  "features_to_array f = [bf_trust f, bf_cost_norm f, bf_load_norm f, bf_failure_penalty f, bf_hist_success f, bf_speed f]"

definition features_doc :: "bid_features \<Rightarrow> doc" where
  "features_doc f = [(''trust'', JReal (bf_trust f)), (''cost_norm'', JReal (bf_cost_norm f)), (''load_norm'', JReal (bf_load_norm f)),
     (''failure_penalty'', JReal (bf_failure_penalty f)), (''hist_success'', JReal (bf_hist_success f)), (''speed'', JReal (bf_speed f))]"

definition features_of_doc :: "doc \<Rightarrow> bid_features option" where
  "features_of_doc d = do {
     t \<leftarrow> field as_real (Some 0) d ''trust'';
     cn \<leftarrow> field as_real (Some 0) d ''cost_norm'';
     l \<leftarrow> field as_real (Some 0) d ''load_norm'';
     f \<leftarrow> field as_real (Some 0) d ''failure_penalty'';
     h \<leftarrow> field as_real (Some 0) d ''hist_success'';
     s \<leftarrow> field as_real (Some 0) d ''speed'';
     Some \<lparr>bf_trust = t, bf_cost_norm = cn, bf_load_norm = l, bf_failure_penalty = f, bf_hist_success = h, bf_speed = s\<rparr> }"

subsection \<open>The reward\<close>

record bandit_outcome =
  bo_success :: bool
  bo_latency :: "real option"
  bo_retries :: int
  bo_cost :: "real option"
  bo_blocks :: int

definition capped_penalty :: "real option \<Rightarrow> real \<Rightarrow> real \<Rightarrow> real" where
  "capped_penalty x scale cap = (case x of None \<Rightarrow> 0 | Some v \<Rightarrow> if 0 < v then min (v / scale) cap else 0)"

definition compute_reward :: "bandit_outcome \<Rightarrow> real" where
  "compute_reward oc =
     (let r = (if bo_success oc then 1 else -1);
          r = r - (1 / 2) * of_int (max 0 (bo_retries oc - 1));
          r = r - capped_penalty (bo_latency oc) 60 (3 / 10);
          r = r - capped_penalty (bo_cost oc) 10 (1 / 5);
          r = r - (1 / 10) * of_int (bo_blocks oc)
      in max (min r (3 / 2)) (-2))"

subsection \<open>Vectors and matrices\<close>

definition dot :: "real list \<Rightarrow> real list \<Rightarrow> real" where
  "dot xs ys = (\<Sum>(x, y) \<leftarrow> zip xs ys. x * y)"

definition mat_vec :: "real list list \<Rightarrow> real list \<Rightarrow> real list" where
  "mat_vec m v = map (\<lambda>row. dot row v) m"

definition vec_mat :: "real list \<Rightarrow> real list list \<Rightarrow> real list" where
  "vec_mat v m = map (\<lambda>j. dot v (map (\<lambda>row. row ! j) m)) [0..<length v]"

definition add_vec :: "real list \<Rightarrow> real list \<Rightarrow> real list" where
  "add_vec xs ys = map2 (+) xs ys"

definition scale_vec :: "real \<Rightarrow> real list \<Rightarrow> real list" where
  "scale_vec a xs = map (\<lambda>x. a * x) xs"

definition outer :: "real list \<Rightarrow> real list \<Rightarrow> real list list" where
  "outer xs ys = map (\<lambda>x. scale_vec x ys) xs"

definition identity :: "nat \<Rightarrow> real list list" where
  "identity n = map (\<lambda>i. map (\<lambda>j. if i = j then 1 else 0) [0..<n]) [0..<n]"

fun reshape :: "nat \<Rightarrow> nat \<Rightarrow> real list \<Rightarrow> real list list" where
  "reshape 0 c xs = []"
| "reshape (Suc r) c xs = take c xs # reshape r c (drop c xs)"

subsection \<open>Contexts\<close>

record linucb =
  lc_d :: nat
  lc_A :: "real list list"
  lc_b :: "real list"
  lc_n :: int

definition new_context :: "nat \<Rightarrow> linucb" where
  "new_context d = \<lparr>lc_d = d, lc_A = identity d, lc_b = replicate d 0, lc_n = 0\<rparr>"

record model_state =
  ms_task_type :: string
  ms_d :: int
  ms_A :: "real list"
  ms_b :: "real list"
  ms_n :: int

fun as_reals :: "json \<Rightarrow> real list option" where
  "as_reals (JList xs) = those (map as_real xs)"
| "as_reals _ = None"

definition model_state_of_doc :: "doc \<Rightarrow> model_state option" where
  "model_state_of_doc doc = do {
     t \<leftarrow> field as_str None doc ''task_type'';
     d \<leftarrow> field as_int (Some 6) doc ''d'';
     a \<leftarrow> field as_reals (Some []) doc ''A_flat'';
     b \<leftarrow> field as_reals (Some []) doc ''b_flat'';
     n \<leftarrow> field as_int (Some 0) doc ''n_updates'';
     _ \<leftarrow> field as_str (Some []) doc ''created_at'';
     _ \<leftarrow> field as_str (Some []) doc ''updated_at'';
     Some \<lparr>ms_task_type = t, ms_d = d, ms_A = a, ms_b = b, ms_n = n\<rparr> }"

definition model_state_doc :: "string \<Rightarrow> model_state \<Rightarrow> doc" where
  "model_state_doc now m = [(''task_type'', JStr (ms_task_type m)), (''d'', JInt (ms_d m)), (''A_flat'', JList (map JReal (ms_A m))),
     (''b_flat'', JList (map JReal (ms_b m))), (''n_updates'', JInt (ms_n m)), (''created_at'', JStr now), (''updated_at'', JStr now)]"

text \<open>A negative dimension raises in \<^verbatim>\<open>np.eye\<close>. A flattened part of the wrong length is ignored.\<close>

definition from_state :: "model_state \<Rightarrow> linucb option" where
  "from_state m = (if ms_d m < 0 then None
     else let d = nat (ms_d m); ctx = new_context d;
              ctx = (if ms_A m \<noteq> [] \<and> length (ms_A m) = d * d then ctx\<lparr>lc_A := reshape d d (ms_A m)\<rparr> else ctx);
              ctx = (if ms_b m \<noteq> [] \<and> length (ms_b m) = d then ctx\<lparr>lc_b := ms_b m\<rparr> else ctx)
       in Some (ctx\<lparr>lc_n := ms_n m\<rparr>))"

definition to_state :: "string \<Rightarrow> linucb \<Rightarrow> model_state" where
  "to_state task_type ctx = \<lparr>ms_task_type = task_type, ms_d = int (lc_d ctx), ms_A = concat (lc_A ctx), ms_b = lc_b ctx, ms_n = lc_n ctx\<rparr>"

type_synonym solver = "real list list \<Rightarrow> real list list option"

definition predict :: "solver \<Rightarrow> linucb \<Rightarrow> real list \<Rightarrow> real \<Rightarrow> real option" where
  "predict solve ctx x alpha =
     (case solve (lc_A ctx) of
        None \<Rightarrow> None
      | Some ai \<Rightarrow> if length x \<noteq> lc_d ctx then None
          else Some (dot (mat_vec ai (lc_b ctx)) x + alpha * sqrt (max (dot (vec_mat x ai) x) 0)))"

definition update_context :: "linucb \<Rightarrow> real list \<Rightarrow> real \<Rightarrow> linucb option" where
  "update_context ctx x reward =
     (if length x \<noteq> lc_d ctx then None
      else Some (ctx\<lparr>lc_A := map2 add_vec (lc_A ctx) (outer x x), lc_b := add_vec (lc_b ctx) (scale_vec reward x),
        lc_n := lc_n ctx + 1\<rparr>))"

subsection \<open>The learner\<close>

definition bandit_enabled :: "registry_env \<Rightarrow> bool" where
  "bandit_enabled g = (g_getenv g ''CNP_BANDIT_ENABLE'' = Some ''1'')"

definition load_context :: "'c kv_ops \<Rightarrow> string \<Rightarrow> string \<Rightarrow> 'c \<Rightarrow> linucb" where
  "load_context kv u task_type c =
     (case get_bandit_model kv u task_type c of
        None \<Rightarrow> new_context 6
      | Some d \<Rightarrow> if d = [] then new_context 6
          else (case Option.bind (model_state_of_doc d) from_state of None \<Rightarrow> new_context 6 | Some ctx \<Rightarrow> ctx))"

definition persist_context :: "'c kv_ops \<Rightarrow> registry_env \<Rightarrow> string \<Rightarrow> string \<Rightarrow> linucb \<Rightarrow> 'c \<Rightarrow> 'c" where
  "persist_context kv g u task_type ctx c =
     snd (save_bandit_model kv (store_env.truncate g) u (model_state_doc (g_dump g (e_now g)) (to_state task_type ctx)) c)"

definition get_bias :: "'c kv_ops \<Rightarrow> registry_env \<Rightarrow> solver \<Rightarrow> string \<Rightarrow> string \<Rightarrow> bid_features \<Rightarrow> 'c \<Rightarrow> real option" where
  "get_bias kv g solve u task_type f c =
     (if \<not> bandit_enabled g then Some 0
      else predict solve (load_context kv u task_type c) (features_to_array f) (env_float g ''CNP_BANDIT_ALPHA'' 1))"

text \<open>\<open>draw\<close> is the value of \<^verbatim>\<open>random.random()\<close>.\<close>

definition should_explore :: "registry_env \<Rightarrow> real \<Rightarrow> bool" where
  "should_explore g draw = (bandit_enabled g \<and> draw < env_float g ''CNP_BANDIT_EPSILON'' (1 / 10))"

definition record_reward :: "'c kv_ops \<Rightarrow> registry_env \<Rightarrow> string \<Rightarrow> string \<Rightarrow> bid_features \<Rightarrow> real \<Rightarrow> 'c \<Rightarrow> 'c option" where
  "record_reward kv g u task_type f reward c =
     (if \<not> bandit_enabled g then Some c
      else case update_context (load_context kv u task_type c) (features_to_array f) reward of
          None \<Rightarrow> None
        | Some ctx \<Rightarrow> Some (persist_context kv g u task_type ctx c))"

end
