(* ===== verification/Blueprint_Bidder.thy ===== *)
theory Blueprint_Bidder
  imports Effects Bandit_Learner Graph_Builder
begin

section \<open>The bidder\<close>

text \<open>
  \<^verbatim>\<open>agent_runtime/services/blueprint_bidder.py\<close>: for every task specification it keeps a call for
  proposals open, raises the stimulus of the call round by round, and writes the bids of the agents whose
  response threshold the stimulus reaches. The state \<open>bid_state\<close> has the marker collection, the number of
  fresh identifiers drawn (\<open>bd_ids i\<close> is the \<open>i\<close>-th), the counters of the result and the variable
  \<^verbatim>\<open>pipeline_id\<close>, which the loop over the specifications keeps from one to the next. The record
  \<open>bidder_env\<close> has the environment of the registry, the scoring constants, the rows the execution graph
  answers (\<open>None\<close> when the query raises), the solver of the learner and the random draws per task. The clock is
  read once per run. An exception ends the run with \<open>Inl\<close>; what was written before it stays.
\<close>

record bidder_env =
  bd_reg :: registry_env
  bd_cnp :: cnp_env
  bd_ids :: "nat \<Rightarrow> string"
  bd_success_rows :: "string \<Rightarrow> doc list option"
  bd_duration_rows :: "string \<Rightarrow> doc list option"
  bd_solve :: solver
  bd_draw :: "string \<Rightarrow> real"
  bd_pick :: "string \<Rightarrow> nat \<Rightarrow> nat"

datatype bid_error = BidNoStore | BidUsername | BidShape | BidInvalid | BidEnv | BidRegistry | BidRemote

record 'c bid_state =
  bs_store :: 'c
  bs_next :: nat
  bs_bids :: nat
  bs_cfps :: nat
  bs_pipeline :: json

abbreviation bd_now :: "bidder_env \<Rightarrow> string" where
  "bd_now bd \<equiv> g_dump (bd_reg bd) (e_now (bd_reg bd))"

abbreviation bd_store :: "bidder_env \<Rightarrow> nat \<Rightarrow> store_env" where
  "bd_store bd n \<equiv> (store_env.truncate (bd_reg bd))\<lparr>e_uuid := bd_ids bd n\<rparr>"

abbreviation bd_text :: "bidder_env \<Rightarrow> json \<Rightarrow> string" where
  "bd_text bd \<equiv> py_str (ce_repr (bd_cnp bd))"

definition env_float_strict :: "registry_env \<Rightarrow> string \<Rightarrow> real \<Rightarrow> bid_error + real" where
  "env_float_strict g name dflt = (case g_getenv g name of None \<Rightarrow> Inr dflt
     | Some raw \<Rightarrow> (case g_float g raw of None \<Rightarrow> Inl BidEnv | Some r \<Rightarrow> Inr r))"

definition env_not :: "registry_env \<Rightarrow> string \<Rightarrow> string \<Rightarrow> bool" where
  "env_not g name off = (g_getenv g name \<noteq> Some off)"

subsection \<open>Bids already made\<close>

definition cfp_key :: "bidder_env \<Rightarrow> json \<Rightarrow> string" where
  "cfp_key bd v = (if truthy v then bd_text bd v else ''__none__'')"

text \<open>For each call the bidders of the bids stored for it: \<^verbatim>\<open>by_cfp\<close> is their set and \<^verbatim>\<open>counts\<close>
  their number.\<close>

definition existing_bid_state :: "'c kv_ops \<Rightarrow> bidder_env \<Rightarrow> string \<Rightarrow> string \<Rightarrow> 'c \<Rightarrow> (string \<times> string list) list" where
  "existing_bid_state kv bd u task_id c =
     fold (\<lambda>bid m. if truthy (jget bid ''bidder_id'')
         then dict_append m (cfp_key bd (jget bid ''cfp_id'')) (bd_text bd (jget bid ''bidder_id'')) else m)
       (fst (list_bids kv u (Some task_id) None None None no_listing c)) []"

subsection \<open>Calls for proposals\<close>

text \<open>A timestamp without a time zone raises in the comparison; the stored ones have one.\<close>

definition parse_time :: "bidder_env \<Rightarrow> json \<Rightarrow> real option" where
  "parse_time bd v = (case v of JStr s \<Rightarrow> g_parse (bd_reg bd) s | _ \<Rightarrow> None)"

definition cfp_due :: "bidder_env \<Rightarrow> doc \<Rightarrow> bool" where
  "cfp_due bd cfp = (case parse_time bd (jget cfp ''closes_at'') of None \<Rightarrow> False | Some t \<Rightarrow> t \<le> e_now (bd_reg bd))"

definition close_call :: "'c kv_ops \<Rightarrow> bidder_env \<Rightarrow> string \<Rightarrow> string \<Rightarrow> doc \<Rightarrow> ('c bid_state, bid_error, unit) effect" where
  "close_call kv bd u why cfp st =
     (case cfp_dump (bd_now bd) (bd_ids bd (bs_next st)) cfp of
        None \<Rightarrow> (Inl BidInvalid, st)
      | Some d \<Rightarrow> (Inr (), st\<lparr>bs_store := snd (add_cfp kv (bd_store bd 0) u
          (dict_set ''closes_at'' (JStr (bd_now bd)) (dict_set ''status_reason'' (JStr why)
            (dict_set ''status'' (JStr ''closed'') d))) (bs_store st)), bs_next := Suc (bs_next st)\<rparr>))"

text \<open>\<^verbatim>\<open>max(int(c.get("round") or 0) for c in cfps)\<close>\<close>

definition rounds_of :: "cnp_env \<Rightarrow> doc list \<Rightarrow> bid_error + int list" where
  "rounds_of ce cfps = mapR (\<lambda>d. case py_int ce (jor (jget d ''round'') (JInt 0)) of None \<Rightarrow> Inl BidShape | Some i \<Rightarrow> Inr i) cfps"

definition new_call :: "bidder_env \<Rightarrow> task_spec \<Rightarrow> task_parameters \<Rightarrow> json \<Rightarrow> int \<Rightarrow> string \<Rightarrow> bid_error + doc" where
  "new_call bd spec tp pid rnd uuid =
     (let g = bd_reg bd; ttl = env_int g ''CNP_CFP_TTL_SECONDS'' 300
      in bindR (env_float_strict g ''CNP_STIMULUS_STEP'' (1 / 10)) (\<lambda>step.
         bindR (env_float_strict g ''CNP_STIMULUS_MAX'' 1) (\<lambda>top.
           let stimulus = min (tp_stimulus tp + of_int (rnd - 1) * step) top;
               max_bids = env_int g ''CNP_MAX_BIDS_PER_TASK'' (env_int g ''BLUEPRINT_BIDS_PER_TASK'' 1);
               ms = (case tp_min_score tp of None \<Rightarrow> env_float g ''CNP_MIN_BID_SCORE'' 0 | Some m \<Rightarrow> m)
           in case as_opt as_str pid of
                None \<Rightarrow> Inl BidInvalid
              | Some p \<Rightarrow> if rnd < 1 then Inl BidInvalid
                  else Inr [(''cfp_id'', JStr uuid), (''task_id'', JStr (sp_task_id spec)), (''pipeline_id'', jopt JStr p),
                    (''required_capabilities'', str_json (sp_required_capabilities spec)), (''status'', JStr ''open''),
                    (''round'', JInt rnd), (''priority'', JInt (tp_priority tp)), (''stimulus'', JReal stimulus),
                    (''reward'', JReal (tp_reward tp)), (''min_score'', if ms \<le> 0 then JNull else JReal ms),
                    (''max_bids'', JInt max_bids), (''lmax'', JInt (env_int g ''CNP_LMAX_DEFAULT'' 3)), (''status_reason'', JNull),
                    (''created_at'', JStr (bd_now bd)), (''closes_at'', JStr (g_dump g (e_now g + of_int ttl)))])))"

definition next_round :: "cnp_env \<Rightarrow> doc list \<Rightarrow> bid_error + int" where
  "next_round ce cfps = (case cfps of [] \<Rightarrow> Inr 1 | _ \<Rightarrow> bindR (rounds_of ce cfps) (\<lambda>rs. Inr (Max (set rs) + 1)))"

definition announce :: "'c kv_ops \<Rightarrow> bidder_env \<Rightarrow> string \<Rightarrow> task_spec \<Rightarrow> task_parameters \<Rightarrow> ('c bid_state, bid_error, doc list) effect" where
  "announce kv bd u spec tp st =
     (let all = fst (list_cfps kv u (Some (sp_task_id spec)) None no_listing (bs_store st))
      in case bindR (next_round (bd_cnp bd) all) (\<lambda>r. new_call bd spec tp (bs_pipeline st) r (bd_ids bd (bs_next st))) of
           Inl e \<Rightarrow> (Inl e, st)
         | Inr d \<Rightarrow> (Inr [d], st\<lparr>bs_store := snd (add_cfp kv (bd_store bd 0) u d (bs_store st)), bs_next := Suc (bs_next st),
             bs_cfps := Suc (bs_cfps st)\<rparr>))"

definition open_cfps :: "'c kv_ops \<Rightarrow> bidder_env \<Rightarrow> string \<Rightarrow> task_spec \<Rightarrow> task_parameters \<Rightarrow> ('c bid_state, bid_error, doc list) effect" where
  "open_cfps kv bd u spec tp st =
     (let cfps = fst (list_cfps kv u (Some (sp_task_id spec)) (Some ''open'') no_listing (bs_store st));
          still_open = filter (\<lambda>d. \<not> cfp_due bd d) cfps
      in bindS (forS (close_call kv bd u ''expired'') (filter (cfp_due bd) cfps)) (\<lambda>_.
           if still_open \<noteq> [] then retS still_open else announce kv bd u spec tp) st)"
subsection \<open>Candidates\<close>

record candidate =
  cd_id :: string
  cd_score :: real
  cd_value :: real
  cd_cost :: real
  cd_load :: int
  cd_max_load :: int
  cd_threshold :: real
  cd_trust :: real

definition candidate_of :: "cnp_env \<Rightarrow> task_spec \<Rightarrow> task_parameters \<Rightarrow> real \<Rightarrow> doc \<Rightarrow> candidate option" where
  "candidate_of ce spec tp stimulus raw =
     (let agent = normalize_agent (ce_repr ce) raw; state = agent_cnp_state ce agent;
          threshold = response_threshold ce (tp_task_type tp) state None;
          cap = capability_value ce agent spec;
          cost = estimate_cost (tp_reward tp) cap (cs_load state) (cs_max_load state)
      in if \<not> truthy (jget agent ''agent_id'') \<or> stimulus < threshold \<or> cap < cost then None
         else Some \<lparr>cd_id = py_str (ce_repr ce) (jget agent ''agent_id''), cd_score = score_agent_for_task ce agent spec,
           cd_value = cap, cd_cost = cost, cd_load = cs_load state, cd_max_load = cs_max_load state,
           cd_threshold = threshold, cd_trust = trust_score ce state\<rparr>)"

definition system_candidate :: "registry_env \<Rightarrow> task_parameters \<Rightarrow> candidate" where
  "system_candidate g tp = \<lparr>cd_id = ''system'', cd_score = 1 / 2, cd_value = 1, cd_cost = tp_reward tp, cd_load = 0,
     cd_max_load = env_int g ''CNP_LMAX_DEFAULT'' 3, cd_threshold = 0, cd_trust = 0\<rparr>"

text \<open>The stimulus the bids answer to: the largest one of the open calls. Stored stimuli are numbers or null, as
  their model demands.\<close>

definition active_stimulus :: "task_parameters \<Rightarrow> doc list \<Rightarrow> real" where
  "active_stimulus tp cfps =
     (let xs = concat (map (\<lambda>d. case number (jget d ''stimulus'') of None \<Rightarrow> [] | Some r \<Rightarrow> [r]) cfps)
      in if xs = [] then tp_stimulus tp else Max (set xs))"

subsection \<open>History\<close>

definition flag_text :: "registry_env \<Rightarrow> string \<Rightarrow> string" where
  "flag_text g name = (case g_getenv g name of None \<Rightarrow> [] | Some r \<Rightarrow> lower_str (strip r))"

definition recorder_enabled :: "registry_env \<Rightarrow> bool" where
  "recorder_enabled g =
     (let raw = flag_text g ''EXECUTION_RECORDER_ENABLE''; yes = {''1'', ''true'', ''yes'', ''on''}
      in if raw \<in> {''0'', ''false'', ''no'', ''off''} then False
         else if raw \<in> yes then True
         else flag_text g ''FUSEKI_ENABLE'' \<in> yes \<or> (case g_getenv g ''FUSEKI_URL'' of None \<Rightarrow> False | Some url \<Rightarrow> url \<noteq> []))"

type_synonym stats = "real option \<times> real option \<times> real option"

definition fetch_historical_stats :: "bidder_env \<Rightarrow> string \<Rightarrow> string list \<Rightarrow> stats" where
  "fetch_historical_stats bd agent_id caps =
     (let ce = bd_cnp bd;
          rate = (case bd_success_rows bd agent_id of
              None \<Rightarrow> None
            | Some [] \<Rightarrow> Some None
            | Some (row # _) \<Rightarrow> (case (py_int ce (dict_get row ''total'' (JInt 0)), py_int ce (dict_get row ''successes'' (JInt 0))) of
                (Some runs, Some wins) \<Rightarrow> Some (if 0 < runs then Some (of_int wins / of_int runs) else None)
              | _ \<Rightarrow> None));
          base = (case caps of [] \<Rightarrow> Some None
            | cap # _ \<Rightarrow> (case bd_duration_rows bd cap of
                None \<Rightarrow> None
              | Some [] \<Rightarrow> Some None
              | Some (row # _) \<Rightarrow> if jget row ''avgDuration'' = JNull then Some None
                  else map_option Some (py_float ce (jget row ''avgDuration''))))
      in case (rate, base) of (Some r, Some b) \<Rightarrow> (r, b, b) | _ \<Rightarrow> (None, None, None))"

definition stats_for :: "bidder_env \<Rightarrow> task_spec \<Rightarrow> candidate \<Rightarrow> stats" where
  "stats_for bd spec cd = (if recorder_enabled (bd_reg bd) \<and> cd_id cd \<noteq> []
     then fetch_historical_stats bd (cd_id cd) (sp_required_capabilities spec) else (None, None, None))"

definition failure_for :: "'c kv_ops \<Rightarrow> bidder_env \<Rightarrow> string \<Rightarrow> task_parameters \<Rightarrow> 'c \<Rightarrow> candidate \<Rightarrow> real option" where
  "failure_for kv bd u tp c cd =
     (if cd_id cd = [] then None
      else Some (case failure_surface_penalty (bd_cnp bd)
            (list_failure_markers kv (bd_store bd 0) u (cd_id cd) (Some (tp_task_type tp)) c) of Inl _ \<Rightarrow> 0 | Inr r \<Rightarrow> r))"

subsection \<open>Scoring\<close>

record scored =
  sc_entry :: candidate
  sc_bid_score :: real
  sc_features :: bid_features

definition or_zero :: "real option \<Rightarrow> real" where
  "or_zero x = (case x of None \<Rightarrow> 0 | Some r \<Rightarrow> r)"

definition score_candidate :: "'c kv_ops \<Rightarrow> bidder_env \<Rightarrow> string \<Rightarrow> task_spec \<Rightarrow> task_parameters \<Rightarrow> 'c \<Rightarrow> candidate list \<Rightarrow> candidate \<Rightarrow> scored" where
  "score_candidate kv bd u spec tp c cds cd =
     (let costs = set (map cd_cost cds); loads = set (map cd_load cds);
          (sr, avg, base) = stats_for bd spec cd; fp = failure_for kv bd u tp c cd;
          speed = (case (avg, base) of (Some a, Some b) \<Rightarrow> if 0 < b then max (1 - min (a / b) 1) 0 else 0 | _ \<Rightarrow> 0);
          f = \<lparr>bf_trust = cd_trust cd, bf_cost_norm = norm_between (cd_cost cd) (Min costs) (Max costs),
               bf_load_norm = norm_between (of_int (cd_load cd)) (of_int (Min loads)) (of_int (Max loads)),
               bf_failure_penalty = or_zero fp, bf_hist_success = or_zero sr, bf_speed = speed\<rparr>;
          bias = (if bandit_enabled (bd_reg bd) then get_bias kv (bd_reg bd) (bd_solve bd) u (tp_task_type tp) f c else None)
      in \<lparr>sc_entry = cd,
          sc_bid_score = score_bid (bd_cnp bd) (cd_trust cd) (cd_cost cd) (cd_load cd) (Min costs) (Max costs) (Min loads) (Max loads)
            \<lparr>bh_success_rate = sr, bh_avg_duration = avg, bh_baseline = base, bh_failure_penalty = fp, bh_context_bias = bias\<rparr>,
          sc_features = f\<rparr>)"

definition swap_first :: "nat \<Rightarrow> 'a list \<Rightarrow> 'a list" where
  "swap_first i xs = (if i < length xs then xs[0 := xs ! i, i := xs ! 0] else xs)"

definition rank_candidates :: "'c kv_ops \<Rightarrow> bidder_env \<Rightarrow> string \<Rightarrow> task_spec \<Rightarrow> task_parameters \<Rightarrow> 'c \<Rightarrow> candidate list \<Rightarrow> scored list" where
  "rank_candidates kv bd u spec tp c cds =
     (let ranked = py_sort sc_bid_score True (map (score_candidate kv bd u spec tp c cds) cds)
      in if bandit_enabled (bd_reg bd) \<and> 1 < length ranked \<and> should_explore (bd_reg bd) (bd_draw bd (sp_task_id spec))
         then swap_first (bd_pick bd (sp_task_id spec) (length ranked - 1)) ranked else ranked)"

definition decision_doc :: "bidder_env \<Rightarrow> string \<Rightarrow> task_spec \<Rightarrow> task_parameters \<Rightarrow> string option \<Rightarrow> int \<Rightarrow> scored list \<Rightarrow> doc" where
  "decision_doc bd uuid spec tp pid rnd es =
     [(''decision_id'', JStr uuid), (''task_id'', JStr (sp_task_id spec)), (''task_type'', JStr (tp_task_type tp)),
      (''required_capabilities'', str_json (sp_required_capabilities spec)), (''pipeline_id'', jopt JStr pid), (''cnp_round'', JInt rnd),
      (''candidate_bidders'', JList (map (\<lambda>e. JDict [(''bidder_id'', JStr (cd_id (sc_entry e))), (''bid_score'', JReal (sc_bid_score e)),
         (''features'', JDict (features_doc (sc_features e)))]) es)),
      (''chosen_bidder_id'', JStr (cd_id (sc_entry (hd es)))), (''chosen_features'', JDict (features_doc (sc_features (hd es)))),
      (''reward'', JNull), (''outcome'', JNull), (''created_at'', JStr (bd_now bd)), (''outcome_recorded_at'', JNull)]"

text \<open>An error while the decision is recorded is dropped.\<close>

definition record_decision :: "'c kv_ops \<Rightarrow> bidder_env \<Rightarrow> string \<Rightarrow> task_spec \<Rightarrow> task_parameters \<Rightarrow> doc list \<Rightarrow> scored list
    \<Rightarrow> 'c bid_state \<Rightarrow> 'c bid_state" where
  "record_decision kv bd u spec tp cfps es st =
     (if \<not> bandit_enabled (bd_reg bd) \<or> es = [] then st
      else case (as_opt as_str (bs_pipeline st), as_int (case cfps of [] \<Rightarrow> JInt 1 | d # _ \<Rightarrow> dict_get d ''round'' (JInt 1))) of
          (Some pid, Some rnd) \<Rightarrow> st\<lparr>bs_store := snd (save_decision_record kv (bd_store bd 0) u
            (decision_doc bd (bd_ids bd (bs_next st)) spec tp pid rnd es) (bs_store st)), bs_next := Suc (bs_next st)\<rparr>
        | _ \<Rightarrow> st)"
subsection \<open>Bids\<close>

definition bid_doc :: "bidder_env \<Rightarrow> task_spec \<Rightarrow> task_parameters \<Rightarrow> real \<Rightarrow> string option \<Rightarrow> int option \<Rightarrow> scored \<Rightarrow> doc" where
  "bid_doc bd spec tp stimulus cfp_id rnd e =
     (let cd = sc_entry e in
      [(''task_id'', JStr (sp_task_id spec)), (''bidder_id'', JStr (cd_id cd)), (''bid_score'', JReal (sc_bid_score e)),
       (''bid_type'', JStr ''solo''), (''rationale'', JStr ''icnp-bid''), (''cfp_id'', jopt JStr cfp_id), (''pipeline_id'', JNull),
       (''pipeline_run_id'', JNull), (''ttl_seconds'', JInt (env_int (bd_reg bd) ''CNP_BID_TTL_SECONDS'' 86400)),
       (''task_priority'', JInt (tp_priority tp)), (''task_stimulus'', JReal stimulus), (''task_reward'', JReal (tp_reward tp)),
       (''capability_score'', JReal (cd_score cd)), (''cost_estimate'', JReal (cd_cost cd)), (''agent_load'', JInt (cd_load cd)),
       (''response_threshold'', JReal (cd_threshold cd)), (''trust_score'', JReal (cd_trust cd)), (''cnp_round'', jopt JInt rnd),
       (''created_at'', JStr (bd_now bd))])"

text \<open>The entries that get a bid on a call: above the minimum score, without a bid on it yet, and as many as
  there are free slots. An earlier bid on a call of the same key counts.\<close>

definition bid_limit :: "bidder_env \<Rightarrow> doc \<Rightarrow> int" where
  "bid_limit bd cfp =
     (let own = coerce_int (bd_cnp bd) (jget cfp ''max_bids'') 0; dflt = env_int (bd_reg bd) ''BLUEPRINT_BIDS_PER_TASK'' 1
      in if own \<noteq> 0 then own else if dflt \<noteq> 0 then dflt else 1)"

definition winners :: "bidder_env \<Rightarrow> (string \<times> string list) list \<Rightarrow> scored list \<Rightarrow> doc \<Rightarrow> scored list" where
  "winners bd existing es cfp =
     (let low = env_float (bd_reg bd) ''CNP_MIN_BID_SCORE'' 0;
          min_score = (if jget cfp ''min_score'' = JNull then low else coerce_float (bd_cnp bd) (jget cfp ''min_score'') low);
          bidders = dict_get existing (cfp_key bd (jget cfp ''cfp_id'')) [];
          eligible = filter (\<lambda>e. cd_id (sc_entry e) \<notin> set bidders) (filter (\<lambda>e. min_score \<le> sc_bid_score e) es)
      in take (nat (bid_limit bd cfp - int (length bidders))) eligible)"

definition place_bid :: "'c kv_ops \<Rightarrow> bidder_env \<Rightarrow> string \<Rightarrow> task_spec \<Rightarrow> task_parameters \<Rightarrow> real \<Rightarrow> doc \<Rightarrow> scored
    \<Rightarrow> ('c bid_state, bid_error, unit) effect" where
  "place_bid kv bd u spec tp stimulus cfp e st =
     (case (as_opt as_str (jget cfp ''cfp_id''), as_opt as_int (jget cfp ''round'')) of
        (Some cfp_id, Some rnd) \<Rightarrow> (Inr (), st\<lparr>bs_store := snd (add_bid kv (bd_store bd (bs_next st)) u
            (bid_doc bd spec tp stimulus cfp_id rnd e) (bs_store st)), bs_next := Suc (bs_next st), bs_bids := Suc (bs_bids st)\<rparr>)
      | _ \<Rightarrow> (Inl BidInvalid, st))"

definition place_bids :: "'c kv_ops \<Rightarrow> bidder_env \<Rightarrow> string \<Rightarrow> task_spec \<Rightarrow> task_parameters \<Rightarrow> real \<Rightarrow> (string \<times> string list) list
    \<Rightarrow> scored list \<Rightarrow> doc list \<Rightarrow> ('c bid_state, bid_error, unit) effect" where
  "place_bids kv bd u spec tp stimulus existing es cfps =
     forS (\<lambda>cfp. forS (place_bid kv bd u spec tp stimulus cfp) (winners bd existing es cfp)) (if cfps = [] then [[]] else cfps)"

subsection \<open>A run\<close>

text \<open>The next round: without a candidate the open calls are closed and a call of the next round is opened, while
  the rounds are below the limit.\<close>

definition escalate :: "'c kv_ops \<Rightarrow> bidder_env \<Rightarrow> string \<Rightarrow> task_spec \<Rightarrow> task_parameters \<Rightarrow> doc list
    \<Rightarrow> ('c bid_state, bid_error, doc list) effect" where
  "escalate kv bd u spec tp cfps st =
     (case fst (list_cfps kv u (Some (sp_task_id spec)) None no_listing (bs_store st)) of
        all \<Rightarrow> (case (if all = [] then Inr 1 else bindR (rounds_of (bd_cnp bd) all) (\<lambda>rs. Inr (Max (set rs)))) of
            Inl e \<Rightarrow> (Inl e, st)
          | Inr current \<Rightarrow>
              if env_int (bd_reg bd) ''CNP_MAX_ROUNDS'' 3 \<le> current then (Inr cfps, st)
              else bindS (forS (close_call kv bd u ''no_bids'') (filter (\<lambda>d. jget d ''status'' = JStr ''open'') cfps))
                (\<lambda>_. open_cfps kv bd u spec tp) st))"

definition candidates :: "cnp_env \<Rightarrow> task_spec \<Rightarrow> task_parameters \<Rightarrow> real \<Rightarrow> doc list \<Rightarrow> candidate list" where
  "candidates ce spec tp stimulus agents =
     concat (map (\<lambda>a. case candidate_of ce spec tp stimulus a of None \<Rightarrow> [] | Some cd \<Rightarrow> [cd]) agents)"

definition with_fallback :: "registry_env \<Rightarrow> task_parameters \<Rightarrow> candidate list \<Rightarrow> candidate list" where
  "with_fallback g tp found =
     (if found = [] \<and> env_not g ''CNP_FALLBACK_TO_SYSTEM'' ''0'' then [system_candidate g tp] else found)"

definition offer_bids :: "'c kv_ops \<Rightarrow> bidder_env \<Rightarrow> string \<Rightarrow> task_spec \<Rightarrow> task_parameters \<Rightarrow> real \<Rightarrow> (string \<times> string list) list
    \<Rightarrow> candidate list \<Rightarrow> doc list \<Rightarrow> ('c bid_state, bid_error, unit) effect" where
  "offer_bids kv bd u spec tp stimulus existing cds cfps =
     (if cds = [] then retS ()
      else bindS (getS (\<lambda>s. rank_candidates kv bd u spec tp (bs_store s) cds)) (\<lambda>es.
           bindS (onS (record_decision kv bd u spec tp cfps es)) (\<lambda>_. place_bids kv bd u spec tp stimulus existing es cfps)))"

definition respond :: "'c kv_ops \<Rightarrow> bidder_env \<Rightarrow> string \<Rightarrow> doc list \<Rightarrow> task_spec \<Rightarrow> task_parameters \<Rightarrow> (string \<times> string list) list
    \<Rightarrow> doc list \<Rightarrow> ('c bid_state, bid_error, unit) effect" where
  "respond kv bd u agents spec tp existing cfps =
     (let stimulus = active_stimulus tp cfps; found = candidates (bd_cnp bd) spec tp stimulus agents
      in bindS (if found = [] \<and> env_not (bd_reg bd) ''CNP_OPEN_NEXT_ROUND_ON_EMPTY'' ''0'' then escalate kv bd u spec tp cfps else retS cfps)
           (offer_bids kv bd u spec tp stimulus existing (with_fallback (bd_reg bd) tp found)))"

definition bid_on_spec :: "'c kv_ops \<Rightarrow> bidder_env \<Rightarrow> string \<Rightarrow> doc list \<Rightarrow> task_spec \<Rightarrow> ('c bid_state, bid_error, unit) effect" where
  "bid_on_spec kv bd u agents spec st =
     (let tp = task_params (bd_cnp bd) spec; existing = existing_bid_state kv bd u (sp_task_id spec) (bs_store st)
      in bindS (open_cfps kv bd u spec tp) (respond kv bd u agents spec tp existing)
           (st\<lparr>bs_pipeline := jor (bs_pipeline st) (jget (sp_metadata spec) ''pipeline_id'')\<rparr>))"

definition load_task_specs :: "'c kv_ops \<Rightarrow> string \<Rightarrow> json list option \<Rightarrow> 'c \<Rightarrow> bid_error + task_spec list" where
  "load_task_specs kv u only c =
     mapR (\<lambda>d. case task_spec_of_doc d of None \<Rightarrow> Inl BidInvalid | Some s \<Rightarrow> Inr s)
       (filter (\<lambda>d. case only of None \<Rightarrow> True | Some ts \<Rightarrow> jget d ''task_id'' \<in> set ts) (fst (list_task_specs kv u no_listing c)))"

definition wanted_tasks :: "doc \<Rightarrow> bid_error + json list option" where
  "wanted_tasks payload =
     (let ts = jget payload ''task_ids''
      in if is_str ts then Inr (Some [ts])
         else if \<not> truthy ts then Inr None
         else case iter_json ts of Inl _ \<Rightarrow> Inl BidShape | Inr xs \<Rightarrow> Inr (Some xs))"

definition bid_payload :: "doc \<Rightarrow> bid_error + doc" where
  "bid_payload msg =
     (let base = (if truthy (jget msg ''data'') then jget msg ''data'' else JDict [])
      in case base of
           JDict d \<Rightarrow>
             let p = fold (\<lambda>k p. if map_of msg k \<noteq> None \<and> map_of p k = None then dict_set k (jget msg k) p else p)
                 [''cnp_force_local'', ''pipeline_id'', ''task_ids''] d
             in Inr (if p = [] then msg else p)
         | _ \<Rightarrow> Inl BidShape)"

definition registered_agents :: "'c kv_ops \<Rightarrow> registry_env \<Rightarrow> string \<Rightarrow> 'c option \<Rightarrow> registry_error + doc list" where
  "registered_agents kv g u registry = (case registry of None \<Rightarrow> Inr [] | Some rg \<Rightarrow> list_agents g kv u None None None [] rg)"

definition bid_locally :: "'c kv_ops \<Rightarrow> bidder_env \<Rightarrow> string \<Rightarrow> doc \<Rightarrow> 'c option \<Rightarrow> nat \<Rightarrow> 'c \<Rightarrow> (bid_error + doc) \<times> 'c" where
  "bid_locally kv bd u payload registry n c =
     (case bindR (wanted_tasks payload) (\<lambda>only. load_task_specs kv u only c) of
        Inl e \<Rightarrow> (Inl e, c)
      | Inr specs \<Rightarrow>
          if specs = [] then (Inr [(''bids_created'', JInt 0), (''task_count'', JInt 0)], c)
          else case registered_agents kv (bd_reg bd) u registry of
              Inl _ \<Rightarrow> (Inl BidRegistry, c)
            | Inr agents \<Rightarrow>
                (case forS (bid_on_spec kv bd u agents) specs
                    \<lparr>bs_store = c, bs_next = n, bs_bids = 0, bs_cfps = 0, bs_pipeline = jget payload ''pipeline_id''\<rparr> of
                   (Inl e, st) \<Rightarrow> (Inl e, bs_store st)
                 | (Inr _, st) \<Rightarrow> (Inr [(''bids_created'', JInt (int (bs_bids st))), (''cfps_created'', JInt (int (bs_cfps st))),
                     (''task_count'', JInt (int (length specs)))], bs_store st)))"

text \<open>The bidder may be asked to delegate to a remote one; \<open>remote\<close> is the answer of that service and the store it
  leaves, its failure \<open>None\<close>.\<close>

definition run_bidder :: "'c kv_ops \<Rightarrow> bidder_env \<Rightarrow> (string \<Rightarrow> doc \<Rightarrow> 'c \<Rightarrow> doc option \<times> 'c) \<Rightarrow> doc \<Rightarrow> 'c option \<Rightarrow> nat \<Rightarrow> 'c option
    \<Rightarrow> (bid_error + doc) \<times> 'c option" where
  "run_bidder kv bd remote msg registry n store =
     (case store of
        None \<Rightarrow> (Inl BidNoStore, None)
      | Some c \<Rightarrow>
          if \<not> truthy (jget msg ''username'') then (Inl BidUsername, Some c)
          else let u = bd_text bd (jget msg ''username''); g = bd_reg bd
            in case bid_payload msg of
                 Inl e \<Rightarrow> (Inl e, Some c)
               | Inr payload \<Rightarrow>
                   let http = ((case g_getenv g ''CNP_BIDDER_MODE'' of None \<Rightarrow> False | Some m \<Rightarrow> lower_str m = ''http'')
                         \<and> \<not> truthy (jget payload ''cnp_force_local''));
                       url = (case g_getenv g ''CNP_BIDDER_URL'' of None \<Rightarrow> [] | Some s \<Rightarrow> s);
                       (answer, c1) = (if http \<and> url \<noteq> [] then remote u (dict_set ''cnp_force_local'' (JBool True) payload) c else (None, c))
                   in case answer of
                        Some d \<Rightarrow> (Inr d, Some c1)
                      | None \<Rightarrow> if http \<and> \<not> env_not g ''CNP_BIDDER_HTTP_FALLBACK'' ''0'' then (Inl BidRemote, Some c1)
                          else (case bid_locally kv bd u payload registry n c1 of (r, c2) \<Rightarrow> (r, Some c2)))"

end
