(* ===== verification/Coalition.thy ===== *)
theory Coalition
  imports Market_Models Agent_Registry "HOL-Library.List_Lexorder" "HOL-Library.Char_ord"
begin

section \<open>Coalitions\<close>

text \<open>
  \<^verbatim>\<open>coalition_scorer.py\<close>, \<^verbatim>\<open>coalition_assembler.py\<close> and \<^verbatim>\<open>coalition_executor.py\<close> of
  \<^verbatim>\<open>agent_runtime/services\<close>: the assembly of a bid of two agents, its comparison with a solo bid, and the
  execution of an awarded contract step by step. The agents that run the steps are the argument \<open>step\<close>, which
  maps the world \<open>w\<close> to the result of a call (\<open>None\<close> if it raises) and the next world; \<open>clock w\<close> is
  \<^verbatim>\<open>time.monotonic()\<close>.
\<close>

datatype coalition_role = RolePlanner | RoleExecutor | RoleVerifier | RoleSafety

fun role_text :: "coalition_role \<Rightarrow> string" where
  "role_text RolePlanner = ''planner''"
| "role_text RoleExecutor = ''executor''"
| "role_text RoleVerifier = ''verifier''"
| "role_text RoleSafety = ''safety''"

record member =
  mb_agent_id :: string
  mb_role :: coalition_role

record coalition_bid =
  cb_task_id :: string
  cb_members :: "member list"
  cb_handoff_plan :: "string list"
  cb_joint_confidence :: real
  cb_expected_latency_ms :: int
  cb_expected_cost :: real
  cb_joint_trust :: real
  cb_fallback_mode :: string
  cb_fallback_agent_id :: "string option"

datatype coalition_error = CoalitionShape | CoalitionInvalid

subsection \<open>Scoring\<close>

definition coalition_enabled :: "registry_env \<Rightarrow> bool" where
  "coalition_enabled g = (g_getenv g ''CNP_COALITION_ENABLE'' = Some ''1'')"

definition signal :: "cnp_env \<Rightarrow> doc \<Rightarrow> string \<Rightarrow> real \<Rightarrow> coalition_error + real" where
  "signal ce signals k dflt = (case py_float ce (dict_get signals k (JReal dflt)) of None \<Rightarrow> Inl CoalitionShape | Some x \<Rightarrow> Inr x)"

definition coalition_utility :: "registry_env \<Rightarrow> cnp_env \<Rightarrow> coalition_bid \<Rightarrow> doc \<Rightarrow> coalition_error + real" where
  "coalition_utility g ce bid signals =
     bindR (signal ce signals ''complementarity_bonus'' 0) (\<lambda>complementarity.
     bindR (signal ce signals ''verification_bonus'' 0) (\<lambda>verification.
     bindR (signal ce signals ''handoff_friction'' 0) (\<lambda>handoff_risk.
     bindR (signal ce signals ''coalition_overhead'' 0) (\<lambda>overhead.
       let raw = env_float g ''CNP_COAL_W_CONFIDENCE'' (3 / 10) * cb_joint_confidence bid +
             env_float g ''CNP_COAL_W_TRUST'' (1 / 5) * cb_joint_trust bid + (complementarity + verification);
           raw = (if 0 < cb_expected_cost bid
             then raw - env_float g ''CNP_COAL_W_COST'' (3 / 20) * min (cb_expected_cost bid / 10) 1 else raw);
           raw = (if 0 < cb_expected_latency_ms bid
             then raw - env_float g ''CNP_COAL_W_LATENCY'' (1 / 10) * min (of_int (cb_expected_latency_ms bid) / 30000) 1 else raw);
           raw = raw - env_float g ''CNP_COAL_W_HANDOFF'' (1 / 10) * handoff_risk;
           raw = raw - env_float g ''CNP_COAL_W_OVERHEAD'' (1 / 20) * overhead
       in Inr (max 0 (min 1 (1 / 2 + raw / 2)))))))"

datatype award_mode = AwardSolo | AwardCoalition

definition compare_solo_vs_coalition :: "registry_env \<Rightarrow> real \<Rightarrow> real \<Rightarrow> real option \<Rightarrow> award_mode" where
  "compare_solo_vs_coalition g best_solo coalition margin =
     (let m = (case margin of None \<Rightarrow> env_float g ''CNP_COALITION_MARGIN'' (3 / 50) | Some m \<Rightarrow> m)
      in if best_solo + m \<le> coalition then AwardCoalition else AwardSolo)"

subsection \<open>Assembly\<close>

definition text_list :: "doc \<Rightarrow> string \<Rightarrow> coalition_error + string list" where
  "text_list d k = (case dict_get d k (JList []) of
       JList xs \<Rightarrow> if list_all is_str xs then Inr (map jstr xs) else Inl CoalitionShape
     | JStr s \<Rightarrow> Inr (map (\<lambda>c. [c]) s)
     | JDict m \<Rightarrow> Inr (map fst m)
     | _ \<Rightarrow> Inl CoalitionShape)"

definition verifier_capabilities :: "string list" where
  "verifier_capabilities = [''validate'', ''verification'', ''policy.check'', ''verify.semantic'']"

definition is_verifier_candidate :: "doc \<Rightarrow> coalition_error + bool" where
  "is_verifier_candidate agent =
     bindR (text_list agent ''capabilities'') (\<lambda>caps.
     bindR (text_list agent ''tags'') (\<lambda>tags.
       let norm = map (\<lambda>s. strip (lower_str s))
       in Inr (list_ex (\<lambda>c. c \<in> set verifier_capabilities) (norm caps) \<or>
               ''verifier'' \<in> set (norm tags) \<or> ''verification'' \<in> set (norm tags))))"

text \<open>\<open>cnp_entry\<close> is \<^verbatim>\<open>agent.get("metadata", {}).get("cnp", {}).get(k, dflt)\<close>.\<close>

definition cnp_entry :: "doc \<Rightarrow> string \<Rightarrow> json \<Rightarrow> coalition_error + json" where
  "cnp_entry agent k dflt = (case dict_get agent ''metadata'' (JDict []) of
       JDict m \<Rightarrow> (case dict_get m ''cnp'' (JDict []) of JDict cnp \<Rightarrow> Inr (dict_get cnp k dflt) | _ \<Rightarrow> Inl CoalitionShape)
     | _ \<Rightarrow> Inl CoalitionShape)"

definition as_float :: "cnp_env \<Rightarrow> json \<Rightarrow> coalition_error + real" where
  "as_float ce j = (case py_float ce j of None \<Rightarrow> Inl CoalitionShape | Some x \<Rightarrow> Inr x)"

definition as_number :: "cnp_env \<Rightarrow> json \<Rightarrow> coalition_error + int" where
  "as_number ce j = (case py_int ce j of None \<Rightarrow> Inl CoalitionShape | Some x \<Rightarrow> Inr x)"

definition agent_trust :: "cnp_env \<Rightarrow> doc \<Rightarrow> coalition_error + real" where
  "agent_trust ce agent = bindR (cnp_entry agent ''trust'' (JReal (1 / 2))) (as_float ce)"

definition coalition_compatibility_score :: "cnp_env \<Rightarrow> doc \<Rightarrow> doc \<Rightarrow> doc \<Rightarrow> coalition_error + real" where
  "coalition_compatibility_score ce primary partner signals =
     bindR (text_list primary ''capabilities'') (\<lambda>pc.
     bindR (text_list partner ''capabilities'') (\<lambda>qc.
     bindR (signal ce signals ''joint_trust'' (1 / 2)) (\<lambda>joint.
     bindR (agent_trust ce primary) (\<lambda>t1.
     bindR (agent_trust ce partner) (\<lambda>t2.
     bindR (signal ce signals ''handoff_friction'' 0) (\<lambda>friction.
     bindR (bindR (cnp_entry partner ''load'' (JInt 0)) (as_number ce)) (\<lambda>load.
     bindR (bindR (cnp_entry partner ''max_load'' (JInt 3)) (as_number ce)) (\<lambda>max_load.
       let primary_caps = map lower_str pc; partner_caps = remdups (map lower_str qc);
           new_caps = filter (\<lambda>c. c \<notin> set primary_caps) partner_caps;
           complementarity = min (real (length new_caps) / real (max (length partner_caps) 1)) 1 * (2 / 5);
           load_penalty = (if 0 < max_load then of_int load / of_int max_load * (1 / 10) else 0)
       in Inr (max 0 (min 1 (complementarity + joint * (1 / 4) + min t1 t2 * (3 / 20) - friction * (1 / 10) - load_penalty)))))))))))"

definition load_signals :: "'c kv_ops \<Rightarrow> string \<Rightarrow> string \<Rightarrow> string \<Rightarrow> 'c option \<Rightarrow> doc \<Rightarrow> doc" where
  "load_signals kv u signature task_sig store signals =
     (case store of None \<Rightarrow> signals
      | Some c \<Rightarrow> fold (\<lambda>ty s. case get_coalition_signal kv u ty signature task_sig c of
            None \<Rightarrow> s
          | Some d \<Rightarrow> if d = [] then s else dict_set ty (dict_get d ''score'' (JReal 0)) s)
          [''joint_trust'', ''handoff_friction''] signals)"

text \<open>The dictionary of signals is one for the whole loop: a partner without stored signals is scored with
  those of the last partner that had some.\<close>

fun best_partner :: "'c kv_ops \<Rightarrow> cnp_env \<Rightarrow> string \<Rightarrow> string \<Rightarrow> doc \<Rightarrow> string \<Rightarrow> 'c option \<Rightarrow> doc \<Rightarrow> (doc \<times> real) option \<Rightarrow> doc list
    \<Rightarrow> coalition_error + (doc \<times> real) option" where
  "best_partner kv ce u task_sig primary pid store signals best [] = Inr best"
| "best_partner kv ce u task_sig primary pid store signals best (agent # agents) =
     (let qid = py_str (ce_repr ce) (dict_get agent ''agent_id'' (JStr []))
      in if qid = pid \<or> qid = [] then best_partner kv ce u task_sig primary pid store signals best agents
         else bindR (is_verifier_candidate agent) (\<lambda>ok.
           if \<not> ok then best_partner kv ce u task_sig primary pid store signals best agents
           else let signals' = load_signals kv u (take 8 pid @ ''+'' @ take 8 qid) task_sig store signals
             in bindR (coalition_compatibility_score ce primary agent signals') (\<lambda>fit.
                best_partner kv ce u task_sig primary pid store signals'
                  (if (case best of None \<Rightarrow> 0 | Some (_, x) \<Rightarrow> x) < fit then Some (agent, fit) else best) agents)))"

definition py_round :: "real \<Rightarrow> int" where
  "py_round x = (let f = \<lfloor>x\<rfloor>; d = x - of_int f
     in if d < 1 / 2 then f else if 1 / 2 < d then f + 1 else if even f then f else f + 1)"

definition round4 :: "real \<Rightarrow> real" where
  "round4 x = of_int (py_round (x * 10000)) / 10000"

definition mode_allows :: "string option \<Rightarrow> coordination_mode \<Rightarrow> bool" where
  "mode_allows policy_mode mode \<longleftrightarrow>
     (policy_mode \<in> {Some ''disabled'', Some ''discouraged''} \<longrightarrow> mode = CoalitionRequired) \<and>
     mode \<in> {CoalitionAllowed, CoalitionRequired}"

definition assemble_coalition :: "'c kv_ops \<Rightarrow> registry_env \<Rightarrow> cnp_env \<Rightarrow> task_spec \<Rightarrow> doc \<Rightarrow> real \<Rightarrow> doc list \<Rightarrow> 'c option \<Rightarrow> string
    \<Rightarrow> string option \<Rightarrow> coalition_error + coalition_bid option" where
  "assemble_coalition kv g ce spec primary score agents store u policy_mode =
     (let pid = py_str (ce_repr ce) (dict_get primary ''agent_id'' (JStr []));
          task_sig = (case sp_required_capabilities spec of [] \<Rightarrow> [] | c # _ \<Rightarrow> c)
      in if \<not> coalition_enabled g \<or> \<not> mode_allows policy_mode (sp_coordination_mode spec) \<or> pid = [] \<or>
            env_int g ''CNP_COALITION_MAX_TEAM_SIZE'' 2 < 2 then Inr None
         else bindR (best_partner kv ce u task_sig primary pid store [] None agents) (\<lambda>best.
           case best of
             None \<Rightarrow> Inr None
           | Some (partner, fit) \<Rightarrow>
               if fit < env_float g ''CNP_COALITION_MIN_COMPAT'' (1 / 5) then Inr None
               else let qid = py_str (ce_repr ce) (dict_get partner ''agent_id'' (JStr []))
                 in bindR (agent_trust ce partner) (\<lambda>t2. bindR (agent_trust ce primary) (\<lambda>t1.
                   let overhead = env_float g ''CNP_COALITION_OVERHEAD_FACTOR'' (7 / 5);
                       confidence = round4 (min 1 (score + fit * (3 / 20)));
                       latency = py_trunc (7000 * overhead); cost = round4 (1 / 5 * overhead); trust = round4 ((t1 + t2) / 2)
                   in if 0 \<le> confidence \<and> confidence \<le> 1 \<and> 0 \<le> latency \<and> 0 \<le> cost \<and> 0 \<le> trust \<and> trust \<le> 1
                      then Inr (Some \<lparr>cb_task_id = sp_task_id spec,
                        cb_members = [\<lparr>mb_agent_id = pid, mb_role = RolePlanner\<rparr>, \<lparr>mb_agent_id = qid, mb_role = RoleVerifier\<rparr>],
                        cb_handoff_plan = [pid @ ''_generate'', qid @ ''_verify'', pid @ ''_finalize''],
                        cb_joint_confidence = confidence, cb_expected_latency_ms = latency, cb_expected_cost = cost,
                        cb_joint_trust = trust, cb_fallback_mode = ''degrade_to_solo'', cb_fallback_agent_id = Some pid\<rparr>)
                      else Inl CoalitionInvalid))))"
subsection \<open>Execution\<close>

record contract =
  ct_id :: string
  ct_task_id :: string
  ct_members :: "member list"
  ct_execution_plan :: doc
  ct_timeouts :: doc
  ct_fallback :: doc

datatype failure_state = PartnerTimeout | HandoffValidationFailed | CoalitionAborted | FallbackToSolo

record coalition_outcome =
  co_coalition_id :: string
  co_signature :: string
  co_members :: "string list"
  co_task_id :: string
  co_task_signature :: string
  co_success :: bool
  co_retries :: int
  co_handoff_failures :: int
  co_latency_ms :: int
  co_quality :: real
  co_failure :: "failure_state option"

definition join_plus :: "string list \<Rightarrow> string" where
  "join_plus ws = (case ws of [] \<Rightarrow> [] | w # r \<Rightarrow> w @ concat (map (\<lambda>v. CHR ''+'' # v) r))"

definition coalition_signature :: "contract \<Rightarrow> string" where
  "coalition_signature ct = join_plus (sort (map (\<lambda>m. role_text (mb_role m)) (ct_members ct)))"

definition member_ids :: "contract \<Rightarrow> string list" where
  "member_ids ct = map mb_agent_id (ct_members ct)"

definition make_outcome :: "contract \<Rightarrow> string \<Rightarrow> bool \<Rightarrow> int \<Rightarrow> int \<Rightarrow> real \<Rightarrow> real \<Rightarrow> failure_state option \<Rightarrow> coalition_outcome" where
  "make_outcome ct tsig ok retries failures elapsed quality fs =
     \<lparr>co_coalition_id = ct_id ct, co_signature = coalition_signature ct, co_members = member_ids ct, co_task_id = ct_task_id ct,
      co_task_signature = tsig, co_success = ok, co_retries = retries, co_handoff_failures = failures,
      co_latency_ms = py_trunc elapsed, co_quality = quality, co_failure = fs\<rparr>"

definition member_at :: "contract \<Rightarrow> nat \<Rightarrow> member" where
  "member_at ct i = ct_members ct ! (i mod length (ct_members ct))"

definition switches_at :: "contract \<Rightarrow> nat \<Rightarrow> bool" where
  "switches_at ct i \<longleftrightarrow> 0 < i \<and> mb_agent_id (member_at ct (i - 1)) \<noteq> mb_agent_id (member_at ct i)"

text \<open>A failed step: the fallback to one agent, or the end of the coalition. \<open>t0\<close> is the start time.\<close>

definition step_failed :: "(string \<Rightarrow> json \<Rightarrow> json \<Rightarrow> 'w \<Rightarrow> json option \<times> 'w) \<Rightarrow> ('w \<Rightarrow> real) \<Rightarrow> contract \<Rightarrow> string \<Rightarrow> json \<Rightarrow> real
    \<Rightarrow> 'w \<Rightarrow> coalition_outcome \<times> 'w" where
  "step_failed step clock ct tsig message t0 w =
     (let preferred = jget (ct_fallback ct) ''preferred_agent_id'';
          aborted = (\<lambda>w. (make_outcome ct tsig False 0 1 ((clock w - t0) * 1000) 0 (Some CoalitionAborted), w))
      in if dict_get (ct_fallback ct) ''mode'' (JStr ''fail_fast'') = JStr ''degrade_to_solo'' \<and> truthy preferred
         then case step (jstr preferred) (JStr ''solo_fallback'') message w of
             (Some _, w') \<Rightarrow> (make_outcome ct tsig True 1 1 ((clock w' - t0) * 1000) 0 (Some FallbackToSolo), w')
           | (None, w') \<Rightarrow> aborted w'
         else aborted w)"

fun run_steps :: "(string \<Rightarrow> json \<Rightarrow> json \<Rightarrow> 'w \<Rightarrow> json option \<times> 'w) \<Rightarrow> ('w \<Rightarrow> real) \<Rightarrow> contract \<Rightarrow> string \<Rightarrow> json \<Rightarrow> real \<Rightarrow> int \<Rightarrow> int
    \<Rightarrow> nat \<Rightarrow> int \<Rightarrow> json \<Rightarrow> json list \<Rightarrow> 'w \<Rightarrow> coalition_outcome \<times> 'w" where
  "run_steps step clock ct tsig message t0 timeout max_handoffs i handoffs out [] w =
     (make_outcome ct tsig True 0 0 ((clock w - t0) * 1000) 1 None, w)"
| "run_steps step clock ct tsig message t0 timeout max_handoffs i handoffs out (s # ss) w =
     (let elapsed = (clock w - t0) * 1000; handoffs' = (if switches_at ct i then handoffs + 1 else handoffs)
      in if of_int timeout < elapsed then (make_outcome ct tsig False 0 0 elapsed 0 (Some PartnerTimeout), w)
         else if switches_at ct i \<and> max_handoffs < handoffs'
         then (make_outcome ct tsig False 0 1 elapsed 0 (Some HandoffValidationFailed), w)
         else case step (mb_agent_id (member_at ct i)) s out w of
             (Some r, w') \<Rightarrow> run_steps step clock ct tsig message t0 timeout max_handoffs (Suc i) handoffs' r ss w'
           | (None, w') \<Rightarrow> step_failed step clock ct tsig message t0 w')"

text \<open>The steps are those of the plan, walked as a Python iterable, or one per member.\<close>

definition contract_steps :: "contract \<Rightarrow> coalition_error + json list" where
  "contract_steps ct =
     (let steps = dict_get (ct_execution_plan ct) ''steps'' (JList [])
      in if \<not> truthy steps then Inr (map (\<lambda>i. JStr (''step_'' @ str_nat i)) [0..<length (ct_members ct)])
         else case steps of JList xs \<Rightarrow> Inr xs | JStr s \<Rightarrow> Inr (map (\<lambda>c. JStr [c]) s) | JDict d \<Rightarrow> Inr (map (\<lambda>(k, _). JStr k) d)
           | _ \<Rightarrow> Inl CoalitionShape)"

definition execute_coalition :: "(string \<Rightarrow> json \<Rightarrow> json \<Rightarrow> 'w \<Rightarrow> json option \<times> 'w) \<Rightarrow> ('w \<Rightarrow> real) \<Rightarrow> cnp_env \<Rightarrow> contract \<Rightarrow> json \<Rightarrow> string
    \<Rightarrow> 'w \<Rightarrow> coalition_error + coalition_outcome \<times> 'w" where
  "execute_coalition step clock ce ct message tsig w =
     bindR (as_number ce (dict_get (ct_execution_plan ct) ''max_handoffs'' (JInt 2))) (\<lambda>max_handoffs.
     bindR (as_number ce (dict_get (ct_timeouts ct) ''overall_ms'' (JInt 15000))) (\<lambda>timeout.
     bindR (as_number ce (dict_get (ct_timeouts ct) ''member_step_ms'' (JInt 7000))) (\<lambda>_.
       if ct_members ct = [] then
         Inr (\<lparr>co_coalition_id = ct_id ct, co_signature = ''empty'', co_members = [], co_task_id = ct_task_id ct,
           co_task_signature = tsig, co_success = False, co_retries = 0, co_handoff_failures = 0, co_latency_ms = 0, co_quality = 0,
           co_failure = Some CoalitionAborted\<rparr>, w)
       else bindR (contract_steps ct) (\<lambda>steps.
         Inr (run_steps step clock ct tsig message (clock w) timeout max_handoffs 0 0 message steps w)))))"

end
