(* ===== verification/Competing_Service.thy ===== *)
theory Competing_Service
  imports Blueprint_Bidder Coalition
begin

section \<open>Routing a task to one of several agents\<close>

text \<open>
  The part of \<^verbatim>\<open>agent_runtime/forwarder.py\<close> that chooses the service of a task when the agent registry has
  several agents for a capability: round robin over the services, or an inline contract net that scores the agents,
  stores their bids, the ranking and the award, and routes to the first. The state \<open>route_state\<close> is the marker
  collection (\<open>None\<close> when the runtime has none) and the number of identifiers drawn. The record \<open>route_env\<close> has the
  environment, the identifiers, the random draws and \<^verbatim>\<open>json.loads\<close>. An exception is \<open>Inl\<close>; the caller drops it.
\<close>

record route_env =
  rt_reg :: registry_env
  rt_cnp :: cnp_env
  rt_ids :: "nat \<Rightarrow> string"
  rt_draw :: real
  rt_pick :: "nat \<Rightarrow> nat"
  rt_json :: "string \<Rightarrow> doc option"

record 'c route_state =
  rs_graph :: "'c option"
  rs_next :: nat

datatype route_error = RouteEnv | RouteShape | RouteInvalid

definition env_enabled :: "registry_env \<Rightarrow> string \<Rightarrow> bool \<Rightarrow> bool" where
  "env_enabled g name dflt = (case g_getenv g name of None \<Rightarrow> dflt
     | Some raw \<Rightarrow> lower_str (strip raw) \<notin> {'''', ''0'', ''false'', ''no'', ''off''})"

subsection \<open>Shared capabilities and round robin\<close>

text \<open>Registered agents have lists of strings as their capabilities.\<close>

definition service_names :: "(json \<Rightarrow> string) \<Rightarrow> doc list \<Rightarrow> string list" where
  "service_names repr agents =
     sort (remdups (map (\<lambda>a. py_str repr (jget a ''service_name'')) (filter (\<lambda>a. truthy (jget a ''service_name'')) agents)))"

fun first_shared :: "registry_env \<Rightarrow> 'c kv_ops \<Rightarrow> (json \<Rightarrow> string) \<Rightarrow> string \<Rightarrow> 'c \<Rightarrow> json list \<Rightarrow> (string \<times> string list) option" where
  "first_shared g kv repr u c [] = None"
| "first_shared g kv repr u c (cap # caps) =
     (case list_agents g kv u None (Some (jstr cap)) None [] c of
        Inl _ \<Rightarrow> first_shared g kv repr u c caps
      | Inr agents \<Rightarrow> if 1 < length (service_names repr agents) then Some (py_str repr cap, service_names repr agents)
          else first_shared g kv repr u c caps)"

definition find_shared_capability :: "registry_env \<Rightarrow> 'c kv_ops \<Rightarrow> (json \<Rightarrow> string) \<Rightarrow> string \<Rightarrow> string \<Rightarrow> 'c \<Rightarrow> (string \<times> string list) option" where
  "find_shared_capability g kv repr u svc c =
     (case list_agents g kv u (Some svc) None None [] c of
        Inl _ \<Rightarrow> None
      | Inr [] \<Rightarrow> None
      | Inr (entry # _) \<Rightarrow> first_shared g kv repr u c (jlist (dict_get entry ''capabilities'' (JList []))))"

type_synonym turns = "((string \<times> string) \<times> nat) list"

definition select_round_robin :: "string \<Rightarrow> string \<Rightarrow> string list \<Rightarrow> turns \<Rightarrow> string option \<times> turns" where
  "select_round_robin u cap svcs turns =
     (if svcs = [] then (None, turns)
      else let i = (case map_of turns (u, cap) of None \<Rightarrow> 0 | Some k \<Rightarrow> Suc k mod length svcs)
           in (Some (svcs ! i), dict_set (u, cap) i turns))"

subsection \<open>The task that is bid for\<close>

record route_query =
  rq_task :: string
  rq_capability :: string
  rq_username :: string
  rq_pipeline :: string
  rq_run :: string
  rq_data :: doc

text \<open>\<^verbatim>\<open>[CNP:(\{.*?\})\]\s*\<close> at the start of the description: up to the first \<^verbatim>\<open>}]\<close> on the line.\<close>

fun until_close :: "string \<Rightarrow> (string \<times> string) option" where
  "until_close (c # d # s) =
     (if c = CHR ''}'' \<and> d = CHR '']'' then Some ([c], s)
      else if c = CHR 0x0A then None
      else map_option (\<lambda>(b, r). (c # b, r)) (until_close (d # s)))"
| "until_close _ = None"

definition cnp_prefix :: "string \<Rightarrow> (string \<times> string) option" where
  "cnp_prefix s = (if take 6 s = ''[CNP:{''
     then map_option (\<lambda>(b, r). (CHR ''{'' # b, dropWhile is_space r)) (until_close (drop 6 s)) else None)"

definition split_metadata :: "(string \<Rightarrow> doc option) \<Rightarrow> string \<Rightarrow> doc \<times> string" where
  "split_metadata parse s =
     (case cnp_prefix s of
        None \<Rightarrow> ([], s)
      | Some (text, rest) \<Rightarrow> (case parse text of None \<Rightarrow> ([], s) | Some d \<Rightarrow> (d, rest)))"

definition description_of :: "doc \<Rightarrow> json" where
  "description_of data =
     (let d = dict_get data ''description'' (JStr [])
      in if truthy d then d
         else case dict_get data ''payload'' (JDict []) of
             JDict p \<Rightarrow> (case dict_get p ''payload'' (JDict []) of
                 JDict q \<Rightarrow> (case dict_get q ''data'' (JDict []) of JDict r \<Rightarrow> dict_get r ''description'' (JStr []) | _ \<Rightarrow> d)
               | _ \<Rightarrow> d)
           | _ \<Rightarrow> d)"

definition route_risk :: "(json \<Rightarrow> string) \<Rightarrow> json \<Rightarrow> risk_level" where
  "route_risk repr j = (let s = lower_str (py_str repr j)
     in if s = ''low'' then RiskLow else if s = ''high'' then RiskHigh else RiskMedium)"

definition route_spec :: "route_env \<Rightarrow> route_query \<Rightarrow> route_error + task_spec" where
  "route_spec rt q =
     (case (jor (description_of (rq_data q)) (JStr []), dict_get (rq_data q) ''metadata'' (JDict [])) of
        (JStr desc, JDict metadata) \<Rightarrow>
          (let (cnp, rest) = split_metadata (rt_json rt) desc;
               merged = fold (\<lambda>(k, v). dict_set k v) cnp metadata
           in if \<not> is_str (description_of (rq_data q)) then Inl RouteInvalid
              else case as_strs (dict_get merged ''preferred_tags'' (JList [])) of
                 None \<Rightarrow> Inl RouteInvalid
               | Some tags \<Rightarrow> Inr
                   \<lparr>sp_task_id = rq_task q, sp_username = rq_username q, sp_description = rest,
                    sp_required_capabilities = [rq_capability q], sp_tags = tags,
                    sp_risk_level = route_risk (ce_repr (rt_cnp rt)) (dict_get merged ''risk_level'' (JStr ''medium'')),
                    sp_requires_human_approval = False, sp_coordination_mode = SoloPreferred, sp_metadata = merged\<rparr>)
      | _ \<Rightarrow> Inl RouteShape)"

subsection \<open>Scores\<close>

record rival =
  rv_agent :: doc
  rv_trust :: real
  rv_cost :: real
  rv_load :: int
  rv_capability :: real
  rv_pheromone :: real
  rv_failure :: real

text \<open>An intensity that is no number ends the search; what was found before it counts.\<close>

fun strongest :: "cnp_env \<Rightarrow> string \<Rightarrow> real \<Rightarrow> doc list \<Rightarrow> real" where
  "strongest ce cap acc [] = acc"
| "strongest ce cap acc (m # ms) =
     (if dict_get m ''capability'' (JStr []) \<noteq> JStr cap then strongest ce cap acc ms
      else case py_float ce (dict_get m ''intensity'' (JInt 0)) of None \<Rightarrow> acc | Some r \<Rightarrow> strongest ce cap (max acc r) ms)"

definition agent_key :: "cnp_env \<Rightarrow> doc \<Rightarrow> string" where
  "agent_key ce agent = py_str (ce_repr ce) (jget agent ''agent_id'')"

definition rival_of :: "'c kv_ops \<Rightarrow> route_env \<Rightarrow> route_query \<Rightarrow> task_spec \<Rightarrow> 'c option \<Rightarrow> doc \<Rightarrow> rival" where
  "rival_of kv rt q spec graph raw =
     (let ce = rt_cnp rt; agent = normalize_agent (ce_repr ce) raw; state = agent_cnp_state ce agent; tp = task_params ce spec
      in \<lparr>rv_agent = agent, rv_trust = trust_score ce state,
          rv_cost = estimate_cost (tp_reward tp) (capability_value ce agent spec) (cs_load state) (cs_max_load state),
          rv_load = cs_load state, rv_capability = score_agent_for_task ce agent spec,
          rv_pheromone = (case graph of None \<Rightarrow> 0 | Some c \<Rightarrow>
            if env_enabled (rt_reg rt) ''PHEROMONE_ENABLE'' True
            then strongest ce (rq_capability q) 0
              (fst (list_affordance_markers kv (rq_username q) None (Some (agent_key ce agent)) None None no_listing c)) else 0),
          rv_failure = (case graph of None \<Rightarrow> 0 | Some c \<Rightarrow>
            (case failure_surface_penalty ce (list_failure_markers kv (store_env.truncate (rt_reg rt)) (rq_username q)
                (agent_key ce agent) (Some (tp_task_type tp)) c) of Inl _ \<Rightarrow> 0 | Inr r \<Rightarrow> r))\<rparr>)"

text \<open>The weights are read strictly: a value of the environment that is no number raises.\<close>

definition route_weights :: "registry_env \<Rightarrow> route_error + real \<times> real" where
  "route_weights g =
     (case (env_float_strict g ''CNP_PHEROMONE_WEIGHT'' (3 / 20), env_float_strict g ''CNP_CAPABILITY_WEIGHT'' (1 / 4)) of
        (Inr pw, Inr cw) \<Rightarrow> Inr (if env_enabled g ''PHEROMONE_ENABLE'' True then pw else 0, cw)
      | _ \<Rightarrow> Inl RouteEnv)"

definition plain_history :: "real \<Rightarrow> bid_history" where
  "plain_history fp = \<lparr>bh_success_rate = None, bh_avg_duration = None, bh_baseline = None, bh_failure_penalty = Some fp, bh_context_bias = None\<rparr>"

definition blended_score :: "cnp_env \<Rightarrow> real \<Rightarrow> real \<Rightarrow> rival list \<Rightarrow> rival \<Rightarrow> real" where
  "blended_score ce pw cw rivals r =
     (let costs = set (map rv_cost rivals); loads = set (map rv_load rivals);
          tmax = (if Min costs < Max costs then Max costs else Min costs + 1 / 100);
          lmax = (if Min loads < Max loads then Max loads else Max loads + 1);
          base = score_bid ce (rv_trust r) (rv_cost r) (rv_load r) (Min costs) tmax (Min loads) lmax (plain_history (rv_failure r))
      in base * (1 - cw - pw) + rv_capability r * cw + rv_pheromone r * pw)"

definition ranked_rivals :: "route_env \<Rightarrow> real \<Rightarrow> real \<Rightarrow> real \<Rightarrow> rival list \<Rightarrow> (rival \<times> real) list" where
  "ranked_rivals rt pw cw eps rivals =
     (let ranked = py_sort snd True (map (\<lambda>r. (r, blended_score (rt_cnp rt) pw cw rivals r)) rivals)
      in if 1 < length ranked \<and> rt_draw rt < eps then swap_first (rt_pick rt (length ranked - 1)) ranked else ranked)"

subsection \<open>What is stored\<close>

definition rival_id :: "route_env \<Rightarrow> rival \<times> real \<Rightarrow> string" where
  "rival_id rt e = agent_key (rt_cnp rt) (rv_agent (fst e))"

definition inline_bid :: "route_env \<Rightarrow> route_query \<Rightarrow> task_parameters \<Rightarrow> int \<Rightarrow> rival \<times> real \<Rightarrow> doc" where
  "inline_bid rt q tp ttl e =
     [(''task_id'', JStr (rq_task q)), (''bidder_id'', JStr (rival_id rt e)), (''bid_score'', JReal (snd e)), (''bid_type'', JStr ''solo''),
      (''rationale'', JStr ''inline-cnp-resolve''), (''cfp_id'', JNull), (''pipeline_id'', JStr (rq_pipeline q)),
      (''pipeline_run_id'', JStr (rq_run q)), (''ttl_seconds'', JInt ttl), (''task_priority'', JInt (tp_priority tp)),
      (''task_stimulus'', JReal (tp_stimulus tp)), (''task_reward'', JReal (tp_reward tp)), (''capability_score'', JReal (rv_capability (fst e))),
      (''cost_estimate'', JReal (rv_cost (fst e))), (''agent_load'', JInt (rv_load (fst e))), (''response_threshold'', JNull),
      (''trust_score'', JReal (rv_trust (fst e))), (''cnp_round'', JNull), (''created_at'', JStr (g_dump (rt_reg rt) (e_now (rt_reg rt))))]"

definition rt_store :: "route_env \<Rightarrow> nat \<Rightarrow> store_env" where
  "rt_store rt n = (store_env.truncate (rt_reg rt))\<lparr>e_uuid := rt_ids rt n\<rparr>"

text \<open>A score outside the unit interval does not validate, and the bid is not stored.\<close>

definition persist_bid :: "'c kv_ops \<Rightarrow> route_env \<Rightarrow> route_query \<Rightarrow> task_parameters \<Rightarrow> int \<Rightarrow> rival \<times> real
    \<Rightarrow> (string \<times> string) list \<times> 'c \<times> nat \<Rightarrow> (string \<times> string) list \<times> 'c \<times> nat" where
  "persist_bid kv rt q tp ttl e = (\<lambda>(ids, c, n).
     if snd e < 0 \<or> 1 < snd e then (ids, c, n)
     else let (bid_id, c') = add_bid kv (rt_store rt n) (rq_username q) (inline_bid rt q tp ttl e) c
          in (dict_set (rival_id rt e) bid_id ids, c', Suc n))"

definition candidate_doc :: "route_env \<Rightarrow> (string \<times> string) list \<Rightarrow> rival \<times> real \<Rightarrow> json" where
  "candidate_doc rt ids e = JDict
     [(''bidder_id'', JStr (rival_id rt e)), (''service_name'', jget (rv_agent (fst e)) ''service_name''), (''bid_score'', JReal (round4 (snd e))),
      (''bid_id'', jopt JStr (map_of ids (rival_id rt e))), (''trust_score'', JReal (round4 (rv_trust (fst e)))),
      (''cost_estimate'', JReal (round4 (rv_cost (fst e)))), (''capability_score'', JReal (round4 (rv_capability (fst e)))),
      (''pheromone_intensity'', JReal (round4 (rv_pheromone (fst e))))]"

definition inline_sequence :: "route_env \<Rightarrow> route_query \<Rightarrow> (string \<times> string) list \<Rightarrow> (rival \<times> real) list \<Rightarrow> doc" where
  "inline_sequence rt q ids es =
     [(''task_id'', JStr (rq_task q)), (''pipeline_id'', JStr (rq_pipeline q)), (''pipeline_run_id'', JStr (rq_run q)),
      (''plan_id'', JStr (rq_pipeline q)), (''cfp_id'', JNull), (''candidates'', JList (map (candidate_doc rt ids) es)),
      (''current_index'', JInt 0), (''created_at'', JStr (g_dump (rt_reg rt) (e_now (rt_reg rt))))]"

definition inline_award :: "route_env \<Rightarrow> route_query \<Rightarrow> nat \<Rightarrow> (string \<times> string) list \<Rightarrow> rival \<times> real \<Rightarrow> doc" where
  "inline_award rt q n ids e =
     [(''award_id'', JStr (rt_ids rt n)), (''task_id'', JStr (rq_task q)), (''bidder_id'', JStr (rival_id rt e)),
      (''bid_id'', jopt JStr (map_of ids (rival_id rt e))), (''cfp_id'', JNull), (''pipeline_id'', JStr (rq_pipeline q)),
      (''pipeline_run_id'', JStr (rq_run q)), (''status'', JStr ''awarded''), (''awarded_at'', JStr (g_dump (rt_reg rt) (e_now (rt_reg rt))))]"

definition store_auction :: "'c kv_ops \<Rightarrow> route_env \<Rightarrow> route_query \<Rightarrow> task_parameters \<Rightarrow> int \<Rightarrow> (rival \<times> real) list
    \<Rightarrow> 'c route_state \<Rightarrow> doc \<times> 'c route_state" where
  "store_auction kv rt q tp ttl es st =
     (case rs_graph st of
        None \<Rightarrow> (inline_sequence rt q [] es, st)
      | Some c \<Rightarrow>
          (let (ids, c1, n) = fold (persist_bid kv rt q tp ttl) es ([], c, rs_next st);
               s = inline_sequence rt q ids es;
               c2 = snd (save_evaluation_sequence kv (rt_store rt n) (rq_username q) s c1);
               c3 = snd (add_contract_award kv (rt_store rt n) (rq_username q) (inline_award rt q n ids (hd es)) c2)
           in (s, \<lparr>rs_graph = Some c3, rs_next = Suc n\<rparr>)))"

definition env_int_strict :: "registry_env \<Rightarrow> string \<Rightarrow> int \<Rightarrow> route_error + int" where
  "env_int_strict g name dflt = (case g_getenv g name of None \<Rightarrow> Inr dflt
     | Some raw \<Rightarrow> (case read_int raw of None \<Rightarrow> Inl RouteEnv | Some i \<Rightarrow> Inr i))"

definition run_auction :: "'c kv_ops \<Rightarrow> route_env \<Rightarrow> route_query \<Rightarrow> doc list
    \<Rightarrow> ('c route_state, route_error, string \<times> doc option) effect" where
  "run_auction kv rt q agents st =
     (case route_spec rt q of
        Inl e \<Rightarrow> (Inl e, st)
      | Inr spec \<Rightarrow>
          (let rivals = map (rival_of kv rt q spec (rs_graph st)) agents
           in case bindR (route_weights (rt_reg rt)) (\<lambda>w.
                bindR (case env_float_strict (rt_reg rt) ''CNP_EPSILON_GREEDY'' (1 / 20) of Inl _ \<Rightarrow> Inl RouteEnv | Inr e \<Rightarrow> Inr e) (\<lambda>eps.
                bindR (env_int_strict (rt_reg rt) ''CNP_BID_TTL_SECONDS'' 86400) (\<lambda>ttl.
                  Inr (ranked_rivals rt (fst w) (snd w) eps rivals, ttl)))) of
               Inl e \<Rightarrow> (Inl e, st)
             | Inr (es, ttl) \<Rightarrow>
                 (let (s, st') = store_auction kv rt q (task_params (rt_cnp rt) spec) ttl es st
                  in (Inr (jstr (jget (rv_agent (fst (hd es))) ''service_name''), Some s), st'))))"

definition resolve_competing_service :: "'c kv_ops \<Rightarrow> route_env \<Rightarrow> route_query \<Rightarrow> 'c option
    \<Rightarrow> ('c route_state, route_error, string \<times> doc option) effect" where
  "resolve_competing_service kv rt q registry st =
     (let cap = rq_capability q; same = (Inr (cap, None), st) in
      case registry of None \<Rightarrow> same | Some c \<Rightarrow>
      case list_agents (rt_reg rt) kv (rq_username q) (Some cap) None None [] c of
        Inl _ \<Rightarrow> same
      | Inr (_ # _) \<Rightarrow> same
      | Inr [] \<Rightarrow>
          (case list_agents (rt_reg rt) kv (rq_username q) None (Some cap) None [] c of
             Inl _ \<Rightarrow> same
           | Inr [] \<Rightarrow> same
           | Inr [a] \<Rightarrow> (Inr (jstr (dict_get a ''service_name'' (JStr cap)), None), st)
           | Inr agents \<Rightarrow> run_auction kv rt q agents st))"

end
