(* ===== verification/Registry_Client.thy ===== *)
theory Registry_Client
  imports Agent_Registry Cnp_Scoring
begin

section \<open>The agents' side of the registry\<close>

text \<open>
  \<^verbatim>\<open>agent_runtime/registry_client.py\<close>: an agent registers, sends heartbeats and tells the registry when it
  starts and finishes a task. The state of the client is \<open>client_state\<close>; the registry behind HTTP is a \<open>server\<close>, whose
  operations answer a request with a status code, or \<open>None\<close> when the request raises, and leave a state. The end
  points of \<^verbatim>\<open>api_service/routers/agent_registry.py\<close> over the registry store are one such server. The lock of the
  counter makes each update of it one step; the steps of concurrent tasks are a list.
\<close>

record client_config =
  ca_username :: string
  ca_agent_id :: string
  ca_service :: string
  ca_description :: "string option"
  ca_capabilities :: "string list"
  ca_tags :: "string list"
  ca_host :: string
  ca_pid :: int
  ca_ttl :: int
  ca_threshold :: int

record client_state =
  cl_status :: string
  cl_busy :: int
  cl_failures :: int
  cl_registered :: bool

record 's server =
  sv_register :: "string \<Rightarrow> doc \<Rightarrow> int \<Rightarrow> 's \<Rightarrow> int option \<times> 's"
  sv_heartbeat :: "string \<Rightarrow> string \<Rightarrow> doc \<Rightarrow> 's \<Rightarrow> int option \<times> 's"
  sv_delete :: "string \<Rightarrow> string \<Rightarrow> 's \<Rightarrow> int option \<times> 's"

subsection \<open>Configuration\<close>

definition new_client :: client_state where
  "new_client = \<lparr>cl_status = ''idle'', cl_busy = 0, cl_failures = 0, cl_registered = False\<rparr>"

definition split_csv :: "string option \<Rightarrow> string list" where
  "split_csv raw = (case raw of None \<Rightarrow> [] | Some s \<Rightarrow> if s = [] then []
     else map strip (filter (\<lambda>item. strip item \<noteq> []) (split_at (CHR '','') s)))"

text \<open>Here an empty value counts as unset.\<close>

definition set_env :: "registry_env \<Rightarrow> string \<Rightarrow> string option" where
  "set_env g name = (case g_getenv g name of None \<Rightarrow> None | Some raw \<Rightarrow> if raw = [] then None else Some raw)"

definition client_int :: "registry_env \<Rightarrow> string \<Rightarrow> int \<Rightarrow> int" where
  "client_int g name dflt = (case set_env g name of None \<Rightarrow> dflt | Some raw \<Rightarrow> (case read_int raw of None \<Rightarrow> dflt | Some i \<Rightarrow> i))"

definition client_float :: "registry_env \<Rightarrow> string \<Rightarrow> real \<Rightarrow> real" where
  "client_float g name dflt = (case set_env g name of None \<Rightarrow> dflt | Some raw \<Rightarrow> (case g_float g raw of None \<Rightarrow> dflt | Some r \<Rightarrow> r))"

definition load_registry_config :: "registry_env \<Rightarrow> string \<Rightarrow> int \<Rightarrow> string \<Rightarrow> client_config option" where
  "load_registry_config g host pid service =
     (case set_env g ''AGENT_REGISTRY_URL'' of None \<Rightarrow> None
      | Some _ \<Rightarrow>
          let interval = client_float g ''AGENT_REGISTRY_HEARTBEAT_SECONDS'' 15
          in Some \<lparr>ca_username = (case g_getenv g ''AGENT_REGISTRY_USERNAME'' of None \<Rightarrow> ''system'' | Some u \<Rightarrow> u),
            ca_agent_id = (case set_env g ''AGENT_ID'' of None \<Rightarrow> service @ ''-'' @ host @ ''-'' @ str_int pid | Some a \<Rightarrow> a),
            ca_service = service, ca_description = g_getenv g ''AGENT_DESCRIPTION'',
            ca_capabilities = split_csv (g_getenv g ''AGENT_CAPABILITIES''), ca_tags = split_csv (g_getenv g ''AGENT_TAGS''),
            ca_host = host, ca_pid = pid,
            ca_ttl = client_int g ''AGENT_REGISTRY_TTL_SECONDS'' (max (py_trunc (interval * 3)) 30),
            ca_threshold = client_int g ''AGENT_REGISTRY_FAILURE_THRESHOLD'' 3\<rparr>)"

subsection \<open>Requests\<close>

definition client_entry :: "client_config \<Rightarrow> client_state \<Rightarrow> doc" where
  "client_entry cf cl =
     [(''agent_id'', JStr (ca_agent_id cf)), (''service_name'', JStr (ca_service cf)), (''owner'', JStr (ca_username cf)),
      (''description'', jopt JStr (ca_description cf)), (''capabilities'', str_json (ca_capabilities cf)), (''tags'', str_json (ca_tags cf)),
      (''status'', JStr (cl_status cl)), (''metadata'', JDict [(''hostname'', JStr (ca_host cf)), (''pid'', JInt (ca_pid cf))])]"

definition client_register :: "'s server \<Rightarrow> client_config \<Rightarrow> client_state \<Rightarrow> 's \<Rightarrow> bool \<times> client_state \<times> 's" where
  "client_register sv cf cl s =
     (let (r, s') = sv_register sv (ca_username cf) (client_entry cf cl) (ca_ttl cf) s;
          ok = (case r of None \<Rightarrow> False | Some code \<Rightarrow> code < 400)
      in (ok, cl\<lparr>cl_registered := ok\<rparr>, s'))"

definition counters :: "client_state \<Rightarrow> doc" where
  "counters cl = [(''busy_count'', JInt (cl_busy cl)), (''failure_count'', JInt (cl_failures cl))]"

definition client_heartbeat :: "'s server \<Rightarrow> client_config \<Rightarrow> string option \<Rightarrow> doc \<Rightarrow> int option \<Rightarrow> client_state \<Rightarrow> 's
    \<Rightarrow> bool \<times> client_state \<times> 's" where
  "client_heartbeat sv cf status metadata ttl cl s =
     (let cl1 = (case status of None \<Rightarrow> cl | Some x \<Rightarrow> cl\<lparr>cl_status := x\<rparr>);
          payload = [(''status'', JStr (cl_status cl1)), (''ttl_seconds'', JInt (case ttl of None \<Rightarrow> ca_ttl cf | Some t \<Rightarrow> t)),
            (''metadata'', JDict (if metadata = [] then counters cl1 else metadata))];
          post = sv_heartbeat sv (ca_username cf) (ca_agent_id cf) payload;
          settle = (\<lambda>r cl s. case r of None \<Rightarrow> (False, cl, s) | Some code \<Rightarrow> (code < 400, cl\<lparr>cl_registered := code < 400\<rparr>, s))
      in case post s of
           (Some code, s1) \<Rightarrow>
             if code = 404 then
               (let (ok, cl2, s2) = client_register sv cf (cl1\<lparr>cl_registered := False\<rparr>) s1
                in if ok then (let (r, s3) = post s2 in settle r cl2 s3) else settle (Some 404) cl2 s2)
             else settle (Some code) cl1 s1
         | (None, s1) \<Rightarrow> (False, cl1, s1))"

subsection \<open>Tasks\<close>

record task_note =
  nt_task :: string
  nt_run :: "string option"
  nt_service :: "string option"

definition note_doc :: "task_note \<Rightarrow> doc" where
  "note_doc nt = [(''task_id'', JStr (nt_task nt)), (''pipeline_run_id'', jopt JStr (nt_run nt)), (''service_name'', jopt JStr (nt_service nt))]"

definition mark_task_started :: "'s server \<Rightarrow> client_config \<Rightarrow> task_note \<Rightarrow> client_state \<Rightarrow> 's \<Rightarrow> client_state \<times> 's" where
  "mark_task_started sv cf nt cl s =
     (let cl1 = cl\<lparr>cl_busy := cl_busy cl + 1\<rparr>;
          status = (if max 1 (ca_threshold cf) \<le> cl_failures cl1 then ''unhealthy'' else ''busy'')
      in snd (client_heartbeat sv cf (Some status) (counters cl1 @ note_doc nt) None cl1 s))"

definition mark_task_finished :: "'s server \<Rightarrow> client_config \<Rightarrow> task_note \<Rightarrow> bool option \<Rightarrow> client_state \<Rightarrow> 's \<Rightarrow> client_state \<times> 's" where
  "mark_task_finished sv cf nt success cl s =
     (let count = max 0 (cl_busy cl - 1);
          failures = (case success of None \<Rightarrow> cl_failures cl | Some True \<Rightarrow> 0 | Some False \<Rightarrow> cl_failures cl + 1);
          cl1 = cl\<lparr>cl_busy := count, cl_failures := failures\<rparr>;
          status = (if max 1 (ca_threshold cf) \<le> failures then ''unhealthy'' else if count = 0 then ''idle'' else ''busy'')
      in snd (client_heartbeat sv cf (Some status)
           (counters cl1 @ note_doc nt @ [(''last_task_success'', jopt JBool success)]) None cl1 s))"

definition deregister :: "'s server \<Rightarrow> client_config \<Rightarrow> 's \<Rightarrow> bool \<times> 's" where
  "deregister sv cf s =
     (let (r, s') = sv_delete sv (ca_username cf) (ca_agent_id cf) s
      in (case r of None \<Rightarrow> False | Some code \<Rightarrow> code \<in> {200, 204, 404}, s'))"

text \<open>One round of \<^verbatim>\<open>heartbeat_loop\<close> is a heartbeat of the present status; \<open>n\<close> rounds pass until it is stopped.\<close>

primrec heartbeat_loop :: "'s server \<Rightarrow> client_config \<Rightarrow> nat \<Rightarrow> client_state \<Rightarrow> 's \<Rightarrow> client_state \<times> 's" where
  "heartbeat_loop sv cf 0 cl s = (cl, s)"
| "heartbeat_loop sv cf (Suc n) cl s = (let (_, cl', s') = client_heartbeat sv cf None [] None cl s in heartbeat_loop sv cf n cl' s')"

subsection \<open>The end points\<close>

text \<open>The state is the registry collection, \<open>None\<close> when the service has none. A body that does not validate is 422.\<close>

definition api_register :: "registry_env \<Rightarrow> 'c kv_ops \<Rightarrow> int \<Rightarrow> string \<Rightarrow> doc \<Rightarrow> int \<Rightarrow> 'c option \<Rightarrow> int option \<times> 'c option" where
  "api_register g kv default_ttl u entry ttl store =
     (if ttl < 0 then (Some 422, store)
      else case store of None \<Rightarrow> (Some 500, store)
      | Some c \<Rightarrow>
          (let c' = snd (upsert_agent g kv default_ttl u entry (Some ttl) c)
           in (Some (if get_agent g kv u (jstr (jget entry ''agent_id'')) c' = None then 500 else 201), Some c')))"

definition agent_statuses :: "string list" where
  "agent_statuses = [''online'', ''idle'', ''busy'', ''offline'', ''unhealthy'']"

definition api_heartbeat :: "registry_env \<Rightarrow> 'c kv_ops \<Rightarrow> int \<Rightarrow> string \<Rightarrow> string \<Rightarrow> doc \<Rightarrow> 'c option \<Rightarrow> int option \<times> 'c option" where
  "api_heartbeat g kv default_ttl u a payload store =
     (case (field (as_opt as_str) (Some None) payload ''status'', field (as_opt as_int) (Some None) payload ''ttl_seconds'',
            field as_dict (Some []) payload ''metadata'') of
        (Some status, Some ttl, Some metadata) \<Rightarrow>
          if (case status of None \<Rightarrow> False | Some s \<Rightarrow> s \<notin> set agent_statuses) \<or> (case ttl of None \<Rightarrow> False | Some t \<Rightarrow> t < 0)
          then (Some 422, store)
          else (case store of None \<Rightarrow> (Some 500, store)
            | Some c \<Rightarrow> (case heartbeat g kv default_ttl u a status ttl metadata c of
                 Inl AgentNotFound \<Rightarrow> (Some 404, store)
               | Inl _ \<Rightarrow> (Some 500, store)
               | Inr (_, c') \<Rightarrow> (Some 200, Some c')))
      | _ \<Rightarrow> (Some 422, store))"

definition api_delete :: "'c kv_ops \<Rightarrow> string \<Rightarrow> string \<Rightarrow> 'c option \<Rightarrow> int option \<times> 'c option" where
  "api_delete kv u a store =
     (case store of None \<Rightarrow> (Some 500, store)
      | Some c \<Rightarrow> (case delete_agent kv u a c of Inl _ \<Rightarrow> (Some 500, store) | Inr c' \<Rightarrow> (Some 204, Some c')))"

definition registry_api :: "registry_env \<Rightarrow> 'c kv_ops \<Rightarrow> int \<Rightarrow> 'c option server" where
  "registry_api g kv default_ttl = \<lparr>sv_register = api_register g kv default_ttl, sv_heartbeat = api_heartbeat g kv default_ttl,
     sv_delete = api_delete kv\<rparr>"

end
