(* ===== verification/Dedupe.thy ===== *)
theory Dedupe
  imports Prelude
begin

section \<open>The event deduplication cache\<close>

text \<open>
  \<^verbatim>\<open>_LRUSet\<close> of \<^verbatim>\<open>agent_runtime/tracker.py\<close>: a set of keys with a time stamp each, kept
  in the order of use, bounded in number and in age. The clock is an argument of each operation;
  both read it before they take the lock, and the lock makes each a step of its own.
\<close>

record lru =
  lru_max :: nat
  lru_ttl :: real
  lru_data :: "(string \<times> real) list"

definition new_lru :: lru where
  "new_lru = \<lparr>lru_max = 4096, lru_ttl = 3600, lru_data = []\<rparr>"

definition purge_expired :: "real \<Rightarrow> lru \<Rightarrow> lru" where
  "purge_expired now l =
     (if lru_ttl l \<le> 0 then l
      else l\<lparr>lru_data := dropWhile (\<lambda>(k, ts). \<not> now - ts \<le> lru_ttl l) (lru_data l)\<rparr>)"

definition move_to_end :: "string \<Rightarrow> real \<Rightarrow> (string \<times> real) list \<Rightarrow> (string \<times> real) list" where
  "move_to_end key now d = filter (\<lambda>p. fst p \<noteq> key) d @ [(key, now)]"

definition lru_contains :: "real \<Rightarrow> string \<Rightarrow> lru \<Rightarrow> bool \<times> lru" where
  "lru_contains now key l =
     (let l' = purge_expired now l
      in if key \<in> set (dict_keys (lru_data l'))
         then (True, l'\<lparr>lru_data := move_to_end key now (lru_data l')\<rparr>)
         else (False, l'))"

definition lru_add :: "real \<Rightarrow> string \<Rightarrow> lru \<Rightarrow> lru" where
  "lru_add now key l =
     (let l' = purge_expired now l; d = move_to_end key now (lru_data l')
      in l'\<lparr>lru_data := drop (length d - lru_max l') d\<rparr>)"

subsection \<open>Invariant\<close>

text \<open>Keys are distinct, there are at most \<open>lru_max\<close>, and the stamps grow towards the recent end and are
  in the past.\<close>

definition lru_inv :: "real \<Rightarrow> lru \<Rightarrow> bool" where
  "lru_inv now l \<longleftrightarrow> distinct (dict_keys (lru_data l)) \<and> length (lru_data l) \<le> lru_max l \<and>
     sorted (map snd (lru_data l)) \<and> (\<forall>p\<in>set (lru_data l). snd p \<le> now)"

lemma new_lru_inv: "lru_inv now new_lru"
  by (simp add: lru_inv_def new_lru_def)

lemma purge_params [simp]: "lru_max (purge_expired now l) = lru_max l" "lru_ttl (purge_expired now l) = lru_ttl l"
  by (simp_all add: purge_expired_def)

lemma dropWhile_suffix: "\<exists>ys. xs = ys @ dropWhile P xs"
  by (metis takeWhile_dropWhile_id)

lemma purge_suffix: "\<exists>ys. lru_data l = ys @ lru_data (purge_expired now l)"
  using dropWhile_suffix by (auto simp: purge_expired_def)

lemma purge_inv:
  assumes "lru_inv t l" and "t \<le> now"
  shows "lru_inv now (purge_expired now l)"
proof -
  obtain ys where ys: "lru_data l = ys @ lru_data (purge_expired now l)" using purge_suffix by blast
  have "distinct (map fst (ys @ lru_data (purge_expired now l)))" "length (ys @ lru_data (purge_expired now l)) \<le> lru_max l"
    "sorted (map snd (ys @ lru_data (purge_expired now l)))" "\<forall>p\<in>set (ys @ lru_data (purge_expired now l)). snd p \<le> now"
    using assms unfolding lru_inv_def ys[symmetric] by force+
  then show ?thesis by (simp add: lru_inv_def sorted_append)
qed

text \<open>With sorted stamps, purging from the old end removes exactly the expired keys.\<close>

lemma purge_keys:
  assumes "lru_inv t l" and "0 < lru_ttl l"
  shows "set (lru_data (purge_expired now l)) = {p \<in> set (lru_data l). now - snd p \<le> lru_ttl l}"
proof -
  have "sorted (map snd xs) \<Longrightarrow> set (dropWhile (\<lambda>(k, ts). \<not> now - ts \<le> T) xs) = {p \<in> set xs. now - snd p \<le> T}" for xs :: "(string \<times> real) list" and T
  proof (induction xs)
    case (Cons a xs)
    then have "\<forall>p\<in>set xs. snd a \<le> snd p" by simp
    with Cons show ?case by (cases a) force
  qed simp
  then show ?thesis using assms by (simp add: purge_expired_def lru_inv_def)
qed

lemma move_inv:
  assumes "lru_inv now l"
  shows "distinct (dict_keys (move_to_end k now (lru_data l)))"
    and "sorted (map snd (move_to_end k now (lru_data l)))"
    and "\<forall>p\<in>set (move_to_end k now (lru_data l)). snd p \<le> now"
proof -
  have s: "sorted (map snd (filter P xs))" if "sorted (map snd xs)" for P and xs :: "(string \<times> real) list"
    using that by (induction xs) auto
  show "distinct (dict_keys (move_to_end k now (lru_data l)))"
    using assms by (auto simp: lru_inv_def move_to_end_def distinct_map inj_on_def)
  show "sorted (map snd (move_to_end k now (lru_data l)))"
    using assms s by (auto simp: lru_inv_def move_to_end_def sorted_append)
  show "\<forall>p\<in>set (move_to_end k now (lru_data l)). snd p \<le> now"
    using assms by (auto simp: lru_inv_def move_to_end_def)
qed

lemma length_move: "k \<in> set (dict_keys d) \<Longrightarrow> length (move_to_end k now d) \<le> length d"
  by (induction d) (auto simp: move_to_end_def le_SucI intro: order_trans[OF length_filter_le])

lemma contains_inv:
  assumes "lru_inv t l" and "t \<le> now"
  shows "lru_inv now (snd (lru_contains now k l))"
proof -
  note p = purge_inv[OF assms] and m = move_inv[OF purge_inv[OF assms], of k]
  show ?thesis
    using p m length_move[of k "lru_data (purge_expired now l)" now]
    by (simp add: lru_contains_def Let_def lru_inv_def) (meson order_trans)
qed

lemma add_inv:
  assumes "lru_inv t l" and "t \<le> now"
  shows "lru_inv now (lru_add now k l)"
proof -
  note m = move_inv[OF purge_inv[OF assms], of k]
  let ?d = "move_to_end k now (lru_data (purge_expired now l))"
  have "sorted (map snd (drop n ?d))" "distinct (map fst (drop n ?d))" "\<forall>p\<in>set (drop n ?d). snd p \<le> now" for n
    using m by (auto simp: drop_map[symmetric] dest: in_set_dropD)
  then show ?thesis by (auto simp: lru_add_def Let_def lru_inv_def)
qed

subsection \<open>Membership\<close>

lemma contains_iff:
  assumes "lru_inv t l" and "0 < lru_ttl l"
  shows "fst (lru_contains now k l) \<longleftrightarrow> (\<exists>ts. (k, ts) \<in> set (lru_data l) \<and> now - ts \<le> lru_ttl l)"
  using purge_keys[OF assms, of now] by (force simp: lru_contains_def Let_def)

lemma add_recent:
  assumes "0 < lru_max l"
  shows "(k, now) \<in> set (lru_data (lru_add now k l))"
proof -
  let ?d = "filter (\<lambda>p. fst p \<noteq> k) (lru_data (purge_expired now l))"
  have "drop (length (?d @ [(k, now)]) - lru_max l) (?d @ [(k, now)]) = drop (length ?d + 1 - lru_max l) ?d @ [(k, now)]"
    using assms by simp
  then show ?thesis by (simp add: lru_add_def Let_def move_to_end_def)
qed

lemma lru_params:
  "lru_ttl (lru_add now k l) = lru_ttl l" "lru_max (lru_add now k l) = lru_max l"
  "lru_ttl (snd (lru_contains now k l)) = lru_ttl l" "lru_max (snd (lru_contains now k l)) = lru_max l"
  by (simp_all add: lru_add_def lru_contains_def Let_def)

end
