(* ===== verification/Tracker.thy ===== *)
theory Tracker
  imports Run_Store Dedupe Graph_Marker_Store
begin

section \<open>The run tracker\<close>

text \<open>
  \<^verbatim>\<open>PipelineRunTracker\<close> (\<^verbatim>\<open>agent_runtime/tracker.py\<close>): the handler of task events that
  moves a pipeline run through its states, re-forwards a failed task to the next bidder and stops the
  services of a finished run. \<open>tracker_env\<close> holds what an event reads but does not change: the
  clocks, the feature switch, the pipeline configuration, the iteration order of sets. The state is the
  deduplication caches, the run documents and the marker store. The handler returns an error (an
  exception leaves it) or the re-forwarding information with the services it sends a stop command to;
  it runs under the lock of its run, so a sequence of events is a sequence of such steps. The trigger of
  the strategist loop and the published messages are fire-and-forget and do not change this state.
\<close>

record reforward_info =
  rf_task_id :: string
  rf_new_service :: string
  rf_new_agent_id :: string
  rf_sequence_index :: int
  rf_bid_score :: real

record tracker_env =
  te_clock :: real
  te_wall :: real
  te_reforward_on :: bool
  te_has_store :: bool
  te_cfg :: "doc option"
  te_store_env :: store_env
  te_it :: "string list \<Rightarrow> string list"

record ('c, 'g) tracker_state =
  tr_dedupe :: "(string \<times> lru) list"
  tr_runs :: 'c
  tr_graph :: 'g

subsection \<open>Statuses and event keys\<close>

fun status_value :: "task_status \<Rightarrow> string" where
  "status_value TsPending = ''PENDING''"
| "status_value TsRunning = ''RUNNING''"
| "status_value TsCompleted = ''COMPLETED''"
| "status_value TsFailed = ''FAILED''"
| "status_value TsIdle = ''IDLE''"

definition parse_status :: "string \<Rightarrow> task_status option" where
  "parse_status s = find (\<lambda>t. status_value t = s) [TsPending, TsRunning, TsCompleted, TsFailed, TsIdle]"

fun to_enum :: "raw_status \<Rightarrow> task_status option" where
  "to_enum (SEnum s) = Some s"
| "to_enum (SRaw raw) =
     (case parse_status raw of Some s \<Rightarrow> Some s
      | None \<Rightarrow> (case parse_status (capitalize raw) of Some s \<Rightarrow> Some s
                 | None \<Rightarrow> parse_status (map upper_char raw)))"

fun order_of :: "task_status \<Rightarrow> nat" where
  "order_of TsPending = 0"
| "order_of TsRunning = 1"
| "order_of TsCompleted = 2"
| "order_of TsFailed = 3"
| "order_of TsIdle = 0"

definition forward_only :: "task_status \<Rightarrow> task_status \<Rightarrow> bool" where
  "forward_only prev new = (order_of new \<ge> order_of prev)"

definition show_status :: "task_status option \<Rightarrow> string" where
  "show_status s = (case s of None \<Rightarrow> ''None'' | Some t \<Rightarrow> ''TaskStatus.'' @ status_value t)"

text \<open>A \<^verbatim>\<open>TaskState\<close> has neither a sequence number nor an \<^verbatim>\<open>updated_at\<close>, so those parts of
  the key are the defaults.\<close>

definition event_key :: "task_state \<Rightarrow> string" where
  "event_key t = ts_task_id t @ '':'' @ show_status (to_enum (ts_status t)) @ '':'' @ str_int (ts_attempts t) @ '':0''"

subsection \<open>Final tasks and services\<close>

definition zero_out :: "doc \<Rightarrow> string list" where
  "zero_out d = map fst (filter (\<lambda>(t, outs). \<not> truthy outs) d)"

definition derive_finals_from_cfg :: "doc option \<Rightarrow> string list" where
  "derive_finals_from_cfg cfg =
     (case cfg of None \<Rightarrow> []
      | Some data \<Rightarrow>
          if data = [] then []
          else let by_outputs = (case jget data ''task_outputs'' of JDict d \<Rightarrow> zero_out d | _ \<Rightarrow> []);
                   by_graph = (case jget data ''task_graph'' of JDict d \<Rightarrow> zero_out d | _ \<Rightarrow> []);
                   eo = jlist (jget data ''execution_order'')
               in if by_outputs \<noteq> [] then by_outputs
                  else if by_graph \<noteq> [] then by_graph
                  else if eo \<noteq> [] then [jstr (last eo)] else [])"

definition is_final :: "task_state \<Rightarrow> bool" where
  "is_final t = (ts_is_final t = Some True)"

definition finals :: "doc option \<Rightarrow> pipeline_run \<Rightarrow> string list" where
  "finals cfg run =
     (if pr_final_task_ids run \<noteq> [] then pr_final_task_ids run
      else let hinted = map fst (filter (\<lambda>(t, ts). is_final ts) (pr_tasks run))
           in if hinted \<noteq> [] then hinted else derive_finals_from_cfg cfg)"

definition service_of_meta :: "doc \<Rightarrow> string option" where
  "service_of_meta tmeta =
     (let svc = jor (jget tmeta ''available_services'') (jget tmeta ''service'')
      in if truthy svc then Some (jstr svc) else None)"

definition service_for_task :: "doc option \<Rightarrow> string \<Rightarrow> string option" where
  "service_for_task cfg t =
     (case cfg of None \<Rightarrow> None
      | Some data \<Rightarrow> if data = [] then None
          else service_of_meta (jdict (jget (jdict (jget data ''task_dict'')) t)))"

definition services_from_cfg :: "doc option \<Rightarrow> string list" where
  "services_from_cfg cfg =
     (case cfg of None \<Rightarrow> []
      | Some data \<Rightarrow> remdups (List.map_filter (\<lambda>(t, m). service_of_meta (jdict m)) (jdict (jget data ''task_dict''))))"

definition stop_services :: "tracker_env \<Rightarrow> pipeline_run \<Rightarrow> string list" where
  "stop_services te run =
     (let resolved = List.map_filter (\<lambda>(t, ts). if ts_service ts \<noteq> [] then Some (ts_service ts)
            else service_for_task (te_cfg te) t) (pr_tasks run)
      in te_it te (if resolved \<noteq> [] then resolved else services_from_cfg (te_cfg te)))"

definition all_finals_done :: "string list \<Rightarrow> pipeline_run \<Rightarrow> bool" where
  "all_finals_done fs run = list_all (\<lambda>f. case map_of (pr_tasks run) f of
       None \<Rightarrow> False | Some t \<Rightarrow> to_enum (ts_status t) = Some TsCompleted) fs"

subsection \<open>Re-forwarding\<close>

definition award_doc :: "store_env \<Rightarrow> string \<Rightarrow> string \<Rightarrow> doc \<Rightarrow> string \<Rightarrow> string \<Rightarrow> doc" where
  "award_doc e t bidder cand pid rid =
     [(''award_id'', JStr (e_uuid e)), (''task_id'', JStr t), (''bidder_id'', JStr bidder),
      (''bid_id'', jget cand ''bid_id''), (''cfp_id'', jget cand ''cfp_id''), (''pipeline_id'', JStr pid),
      (''pipeline_run_id'', JStr rid), (''status'', JStr ''awarded''), (''awarded_at'', JStr (now_iso e))]"

definition try_reforward :: "'g kv_ops \<Rightarrow> tracker_env \<Rightarrow> string \<Rightarrow> string \<Rightarrow> string \<Rightarrow> string \<Rightarrow> string option
    \<Rightarrow> pipeline_run \<Rightarrow> 'g \<Rightarrow> (store_error + reforward_info option \<times> pipeline_run) \<times> 'g" where
  "try_reforward kv te u pid rid t plan run g =
     (if \<not> te_reforward_on te \<or> \<not> te_has_store te \<or> \<not> given plan then (Inr (None, run), g)
      else case map_of (pr_tasks run) t of
             None \<Rightarrow> (Inr (None, run), g)
           | Some ts \<Rightarrow>
               (case advance_evaluation_sequence kv (te_store_env te) u t (the plan) g of
                  (Inl _, g') \<Rightarrow> (Inl IndexErr, g')
                | (Inr None, g') \<Rightarrow> (Inr (None, run), g')
                | (Inr (Some cand), g') \<Rightarrow>
                    (case map_of cand ''bidder_id'' of
                       None \<Rightarrow> (Inl MissingBidder, g')
                     | Some b \<Rightarrow>
                         (let bidder = jstr b;
                              g'' = snd (add_contract_award kv (te_store_env te) u
                                (award_doc (te_store_env te) t bidder cand pid rid) g');
                              svc = (case service_for_task (te_cfg te) t of Some s \<Rightarrow> s | None \<Rightarrow> bidder);
                              ts' = ts\<lparr>ts_status := SEnum TsPending, ts_error := None, ts_service := svc\<rparr>
                          in (Inr (Some \<lparr>rf_task_id = t, rf_new_service = svc, rf_new_agent_id = bidder,
                                rf_sequence_index = (case map_of cand ''sequence_index'' of None \<Rightarrow> -1 | Some i \<Rightarrow> jint i),
                                rf_bid_score = jreal (jget cand ''bid_score'')\<rparr>,
                              run\<lparr>pr_tasks := dict_set t ts' (pr_tasks run)\<rparr>), g'')))))"

subsection \<open>on\_task\_done\<close>

definition decide_run :: "'g kv_ops \<Rightarrow> tracker_env \<Rightarrow> task_status \<Rightarrow> task_state \<Rightarrow> string option \<Rightarrow> pipeline_run \<Rightarrow> 'g
    \<Rightarrow> (store_error + reforward_info option \<times> pipeline_run) \<times> 'g" where
  "decide_run kv te s upd plan run g =
     (if s = TsFailed
      then case try_reforward kv te (ts_username upd) (ts_pipeline_id upd) (ts_run_id upd) (ts_task_id upd) plan run g of
             (Inl e, g') \<Rightarrow> (Inl e, g')
           | (Inr (None, run'), g') \<Rightarrow>
               (Inr (None, run'\<lparr>pr_status := PsFailed, pr_finished_at := Some (te_wall te)\<rparr>), g')
           | (Inr (Some rf, run'), g') \<Rightarrow> (Inr (Some rf, run'), g')
      else let fs = finals (te_cfg te) run
           in if fs \<noteq> [] \<and> all_finals_done fs run
              then (Inr (None, run\<lparr>pr_status := PsCompleted, pr_finished_at := Some (te_wall te)\<rparr>), g)
              else (Inr (None, run), g))"

definition merge_final :: "task_state \<Rightarrow> task_state \<Rightarrow> task_state" where
  "merge_final prev upd = upd\<lparr>ts_is_final := Some (is_final prev \<or> is_final upd)\<rparr>"

definition process_event :: "('c, stored_run) doc_ops \<Rightarrow> 'g kv_ops \<Rightarrow> tracker_env \<Rightarrow> task_status \<Rightarrow> task_state
    \<Rightarrow> task_state \<Rightarrow> pipeline_run \<Rightarrow> string option \<Rightarrow> ('c, 'g) tracker_state
    \<Rightarrow> (store_error + reforward_info option \<times> string list) \<times> ('c, 'g) tracker_state" where
  "process_event ops kv te s upd prev run plan st =
     (let t = ts_task_id upd; rid = ts_run_id upd;
          run1 = run\<lparr>pr_tasks := dict_set t upd (pr_tasks run)\<rparr>
      in case decide_run kv te s upd plan run1 (tr_graph st) of
           (Inl e, g) \<Rightarrow> (Inl e, st\<lparr>tr_graph := g\<rparr>)
         | (Inr (rf, run2), g) \<Rightarrow>
             (let run3 = run2\<lparr>pr_tasks := dict_set t (merge_final prev upd) (pr_tasks run2)\<rparr>
              in case update_run ops (ts_username upd) (ts_pipeline_id upd) rid (StoredRun run3 None) (tr_runs st) of
                   Inl e \<Rightarrow> (Inl e, st\<lparr>tr_graph := g\<rparr>)
                 | Inr c' \<Rightarrow>
                     (Inr (rf, if pr_status run = PsRunning \<and> pr_status run3 \<in> {PsCompleted, PsFailed}
                               then stop_services te run3 else []),
                      st\<lparr>tr_graph := g, tr_runs := c',
                         tr_dedupe := dict_set rid (lru_add (te_clock te) (event_key upd)
                           (dict_get (tr_dedupe st) rid new_lru)) (tr_dedupe st)\<rparr>)))"

definition on_task_done :: "('c, stored_run) doc_ops \<Rightarrow> 'g kv_ops \<Rightarrow> tracker_env \<Rightarrow> task_state
    \<Rightarrow> ('c, 'g) tracker_state \<Rightarrow> (store_error + reforward_info option \<times> string list) \<times> ('c, 'g) tracker_state" where
  "on_task_done ops kv te event st =
     (case to_enum (ts_status event) of
        None \<Rightarrow> (Inr (None, []), st)
      | Some s \<Rightarrow>
          (let upd = event\<lparr>ts_status := SEnum s\<rparr>;
               rid = ts_run_id upd;
               (dup, l) = lru_contains (te_clock te) (event_key upd) (dict_get (tr_dedupe st) rid new_lru);
               st1 = st\<lparr>tr_dedupe := dict_set rid l (tr_dedupe st)\<rparr>
           in if dup then (Inr (None, []), st1)
              else case read_run ops (ts_username upd) (ts_pipeline_id upd) rid (tr_runs st) of
                     Inl e \<Rightarrow> (Inl e, st1)
                   | Inr StoredEmpty \<Rightarrow> (Inr (None, []), st1)
                   | Inr StoredBad \<Rightarrow> (Inl InvalidRun, st1)
                   | Inr (StoredRun run plan) \<Rightarrow>
                       (case map_of (pr_tasks run) (ts_task_id upd) of
                          None \<Rightarrow> (Inr (None, []), st1)
                        | Some prev \<Rightarrow>
                            (let prev_status = (case to_enum (ts_status prev) of None \<Rightarrow> TsPending | Some p \<Rightarrow> p)
                             in if \<not> forward_only prev_status s then (Inr (None, []), st1)
                                else process_event ops kv te s upd prev run plan st1))))"

end
