(* ===== verification/Forwarder.thy ===== *)
theory Forwarder
  imports Competing_Service Fan_In Registry_Client Tracker
begin

section \<open>The forwarder\<close>

text \<open>
  \<^verbatim>\<open>DefaultForwarder\<close> of \<^verbatim>\<open>agent_runtime/forwarder.py\<close>: a message becomes the state of a task, the task is routed, an
  agent runs it with retries, its output is stored and the outcome published, with further rounds after a failure
  that the tracker re-forwards. \<open>forward_env\<close> has what the forwarder reads: the operations of the stores, the
  configuration of the pipeline with the keys \<open>fe_name\<close> and \<open>fe_dag\<close> of the same document, the answers of the
  agents and the draws in the order they are asked for, and \<^verbatim>\<open>model_dump\<close>. \<open>forward_state\<close> is what it changes; the
  calls of the agents and the jobs it schedules and does not wait for are lists in it. An agent answers with a
  dictionary, as its type says. The write of the time of an injected failure, spans and logs are left out.
\<close>

record forward_task = task_state +
  ft_config :: "string option"
  ft_output_ref :: "string option"
  ft_result :: json

record entry_message =
  em_pipeline :: string
  em_username :: string
  em_run :: string
  em_config :: "string option"

datatype forward_message = MState forward_task | MEntry entry_message | MParts "(string \<times> doc) list" | MOther

datatype answer = Answer doc | Raised | TypeErr

datatype agent = OwnLogic | Entry string

record agent_call =
  ac_agent :: agent
  ac_long :: bool
  ac_task :: forward_task

datatype job = FlowJob string string string "nat option" | LearnJob string string string bool int

datatype forward_error = BadReforwards | UnboundGraph | BadDescription | NoTemplates | BadMessage | NoConfig | NoBus
  | Unpublished publish_error

record ('r, 'o, 'g, 's) forward_env =
  fe_kv :: "'g kv_ops"
  fe_runs :: "('r, stored_run) doc_ops"
  fe_docs :: "('o, doc) doc_ops"
  fe_route :: route_env
  fe_registry :: "'g option"
  fe_has_graph :: bool
  fe_config :: "final_config option"
  fe_name :: string
  fe_dag :: "(string \<times> string) list"
  fe_templates :: "(string \<Rightarrow> string \<Rightarrow> doc) option"
  fe_json :: "doc \<Rightarrow> string"
  fe_dump :: "forward_task \<Rightarrow> doc"
  fe_run_config :: "string option"
  fe_imports :: "string \<Rightarrow> bool"
  fe_has_logic :: bool
  fe_answer :: "nat \<Rightarrow> answer"
  fe_draw :: "nat \<Rightarrow> real"
  fe_tracker :: "(nat \<Rightarrow> tracker_env) option"
  fe_client :: "('s server \<times> client_config) option"
  fe_suffix :: bool
  fe_has_bus :: bool
  fe_retry_text :: string

record ('r, 'o, 'g, 's) forward_state =
  fo_tracker :: "('r, 'g) tracker_state"
  fo_next :: nat
  fo_turns :: turns
  fo_outputs :: "'o option"
  fo_client :: client_state
  fo_server :: 's
  fo_calls :: "agent_call list"
  fo_jobs :: "job list"
  fo_bound :: bool

abbreviation fe_env :: "('r, 'o, 'g, 's) forward_env \<Rightarrow> registry_env" where
  "fe_env fe \<equiv> rt_reg (fe_route fe)"

subsection \<open>Outputs of tasks\<close>

text \<open>\<^verbatim>\<open>CouchbaseDocStore\<close> keeps the output of a task under a key that it returns and later splits again.\<close>

fun first_colons :: "string \<Rightarrow> (string \<times> string) option" where
  "first_colons (a # b # s) = (if a = CHR '':'' \<and> b = CHR '':'' then Some ([], s)
     else map_option (\<lambda>(x, r). (a # x, r)) (first_colons (b # s)))"
| "first_colons _ = None"

primrec split_colons :: "nat \<Rightarrow> string \<Rightarrow> string list" where
  "split_colons 0 s = [s]"
| "split_colons (Suc n) s = (case first_colons s of None \<Rightarrow> [s] | Some (x, r) \<Rightarrow> x # split_colons n r)"

definition save_output :: "('o, doc) doc_ops \<Rightarrow> string \<Rightarrow> string \<Rightarrow> string \<Rightarrow> doc \<Rightarrow> 'o option \<Rightarrow> (string \<times> 'o) option" where
  "save_output ops u run t raw store =
     (case store of None \<Rightarrow> None
      | Some c \<Rightarrow> (case store_task_output ops u t run raw c of Inl _ \<Rightarrow> None | Inr c' \<Rightarrow> Some (output_key u t run, c')))"

definition load_output :: "('o, doc) doc_ops \<Rightarrow> string \<Rightarrow> 'o option \<Rightarrow> doc option" where
  "load_output ops ref store =
     (case (store, split_colons 3 ref) of
        (Some c, [_, u, t, run]) \<Rightarrow> Some (read_task_output ops u t run c)
      | _ \<Rightarrow> None)"

text \<open>What \<^verbatim>\<open>load\<close> raises is dropped, so that enrichment itself never fails.\<close>

definition enrich_task_state :: "('o, doc) doc_ops \<Rightarrow> 'o option \<Rightarrow> forward_task \<Rightarrow> forward_task" where
  "enrich_task_state ops store t =
     (case ft_output_ref t of None \<Rightarrow> t | Some ref \<Rightarrow>
        if ref = [] then t
        else case load_output ops ref store of None \<Rightarrow> t
          | Some d \<Rightarrow> t\<lparr>ts_data := fold (\<lambda>(k, v). dict_set k v) d (ts_data t)\<rparr>)"

definition persist_output :: "('o, doc) doc_ops \<Rightarrow> forward_task \<Rightarrow> doc \<Rightarrow> 'o option \<Rightarrow> (forward_task \<times> 'o option) option" where
  "persist_output ops t raw store =
     map_option (\<lambda>(ref, c). (t\<lparr>ft_output_ref := Some ref, ft_result := jget raw ''result''\<rparr>, Some c))
       (save_output ops (ts_username t) (ts_run_id t) (ts_task_id t) raw store)"

primrec call_persistence :: "('o, doc) doc_ops \<Rightarrow> nat \<Rightarrow> forward_task \<Rightarrow> doc \<Rightarrow> 'o option \<Rightarrow> (forward_task \<times> 'o option) option" where
  "call_persistence ops 0 t raw store = None"
| "call_persistence ops (Suc n) t raw store =
     (case persist_output ops t raw store of None \<Rightarrow> call_persistence ops n t raw store | Some r \<Rightarrow> Some r)"

text \<open>The decorator around an agent's logic.\<close>

definition enforce_raw_output :: "json \<Rightarrow> doc option" where
  "enforce_raw_output result =
     (case result of
        JDict d \<Rightarrow> if set (map fst d) \<noteq> {''raw_output''} then None
          else (case jget d ''raw_output'' of JStr s \<Rightarrow> if strip s = [] then None else Some d | _ \<Rightarrow> None)
      | _ \<Rightarrow> None)"

subsection \<open>The message\<close>

definition new_task :: "string \<Rightarrow> string \<Rightarrow> string \<Rightarrow> string \<Rightarrow> string option \<Rightarrow> string \<Rightarrow> bool \<Rightarrow> doc \<Rightarrow> forward_task" where
  "new_task t u pid run config svc final data =
     \<lparr>ts_status = SEnum TsRunning, ts_attempts = 0, ts_error = None, ts_is_final = Some final, ts_run_id = run, ts_task_id = t,
      ts_username = u, ts_pipeline_id = pid, ts_service = svc, ts_data = data, ft_config = config, ft_output_ref = None, ft_result = JNull\<rparr>"

definition task_meta :: "final_config option \<Rightarrow> string \<Rightarrow> task option" where
  "task_meta cfg t = (case cfg of None \<Rightarrow> None | Some fc \<Rightarrow> map_of (fc_task_dict fc) t)"

definition join_task :: "('r, 'o, 'g, 's) forward_env \<Rightarrow> (string \<times> doc) list \<Rightarrow> json \<Rightarrow> string \<Rightarrow> forward_error + forward_task option" where
  "join_task fe parts triggered t =
     (let env = snd (hd parts); run = jget env ''pipeline_run_id''; u = jget env ''username''; pid = jget env ''pipeline_id''
      in if \<not> truthy run \<or> \<not> truthy u \<or> \<not> truthy pid then Inr None
         else case task_meta (fe_config fe) t of None \<Rightarrow> Inr None
           | Some tk \<Rightarrow> (case (run, u, pid) of
                 (JStr run, JStr u, JStr pid) \<Rightarrow> Inr (Some (new_task t u pid run (fe_run_config fe) (t_available_services tk)
                   (t_inferred_outputs tk = [])
                   [(''aggregated'', JDict (map (\<lambda>(k, v). (k, jget v ''payload'')) parts)), (''triggered_by'', triggered)]))
               | _ \<Rightarrow> Inl BadMessage))"

definition entry_task :: "('r, 'o, 'g, 's) forward_env \<Rightarrow> entry_message \<Rightarrow> string \<Rightarrow> forward_task" where
  "entry_task fe m t =
     (case task_meta (fe_config fe) t of
        None \<Rightarrow> new_task t (em_username m) (em_pipeline m) (em_run m) (em_config m) t True []
      | Some tk \<Rightarrow> new_task t (em_username m) (em_pipeline m) (em_run m) (em_config m) (t_available_services tk)
          (t_inferred_outputs tk = [])
          (case t_description tk of None \<Rightarrow> [] | Some d \<Rightarrow> if d = [] then [] else [(''description'', JStr d)]))"

text \<open>\<open>None\<close>: the message is dropped.\<close>

definition prepare :: "('r, 'o, 'g, 's) forward_env \<Rightarrow> forward_message \<Rightarrow> json \<Rightarrow> string \<Rightarrow> 'o option \<Rightarrow> forward_error + forward_task option" where
  "prepare fe m triggered t store =
     (case m of
        MParts parts \<Rightarrow> if parts \<noteq> [] \<and> ''pipeline_run_id'' \<in> set (map fst (snd (hd parts))) then join_task fe parts triggered t else Inr None
      | MState s \<Rightarrow> Inr (Some ((enrich_task_state (fe_docs fe) store s)\<lparr>ts_status := SEnum TsRunning\<rparr>))
      | MEntry e \<Rightarrow> Inr (Some (entry_task fe e t))
      | MOther \<Rightarrow> Inr None)"

definition keep_input :: "('r, 'o, 'g, 's) forward_env \<Rightarrow> string \<Rightarrow> forward_task \<Rightarrow> ('r, 'o, 'g, 's) forward_state \<Rightarrow> ('r, 'o, 'g, 's) forward_state" where
  "keep_input fe t task st =
     (case fo_outputs st of None \<Rightarrow> st
      | Some c \<Rightarrow> (case store_task_output (fe_docs fe) (ts_username task) (''input_'' @ t) (ts_run_id task) (fe_dump fe task) c of
            Inl _ \<Rightarrow> st | Inr c' \<Rightarrow> st\<lparr>fo_outputs := Some c'\<rparr>))"

definition upstreams_of :: "json \<Rightarrow> string list" where
  "upstreams_of triggered = (case triggered of JStr s \<Rightarrow> [s] | JList xs \<Rightarrow> map jstr xs | _ \<Rightarrow> [])"

definition flow_jobs :: "('r, 'o, 'g, 's) forward_env \<Rightarrow> json \<Rightarrow> string \<Rightarrow> forward_task \<Rightarrow> ('r, 'o, 'g, 's) forward_state \<Rightarrow> ('r, 'o, 'g, 's) forward_state" where
  "flow_jobs fe triggered t task st =
     (if \<not> truthy triggered then st
      else let size = (if ts_data task = [] then None else Some (length (fe_json fe (ts_data task))));
               froms = filter (\<lambda>f. f \<notin> {[], ''api'', ''entry'', ''unit''}) (upstreams_of triggered)
           in st\<lparr>fo_bound := True, fo_jobs := fo_jobs st @ map (\<lambda>f. FlowJob f t (ts_run_id task) size) froms\<rparr>)"

subsection \<open>Routing\<close>

definition agent_entry_map :: "(string \<times> string) list" where
  "agent_entry_map =
     [(''warehouse-north'', ''agentcy.demo_agents.warehouse_agent_north:run''),
      (''warehouse-central'', ''agentcy.demo_agents.warehouse_agent_central:run''),
      (''warehouse-south'', ''agentcy.demo_agents.warehouse_agent_south:run''),
      (''cost-estimator'', ''agentcy.demo_agents.cost_estimator:run''),
      (''speed-estimator'', ''agentcy.demo_agents.speed_estimator:run'')]"

text \<open>A module that cannot be imported raises (outer \<open>None\<close>).\<close>

definition load_agent_entry :: "(string \<Rightarrow> bool) \<Rightarrow> string \<Rightarrow> agent option option" where
  "load_agent_entry imports svc =
     (case map_of agent_entry_map svc of None \<Rightarrow> Some None | Some e \<Rightarrow> if imports e then Some (Some (Entry e)) else None)"

text \<open>The description of the task in the configuration; \<open>True\<close> when there is none and the dictionary is still the
  one of the task.\<close>

definition described :: "('r, 'o, 'g, 's) forward_env \<Rightarrow> string \<Rightarrow> doc \<Rightarrow> doc \<times> bool" where
  "described fe t data =
     (case fe_config fe of None \<Rightarrow> (data, True)
      | Some _ \<Rightarrow>
          (case (case task_meta (fe_config fe) t of None \<Rightarrow> None | Some tk \<Rightarrow> t_description tk) of
             Some (c # d) \<Rightarrow> (dict_set ''description'' (JStr (c # d)) data, False)
           | _ \<Rightarrow> (case find (\<lambda>(i, d). i = t \<and> d \<noteq> []) (fe_dag fe) of
                 None \<Rightarrow> (data, True) | Some (_, d) \<Rightarrow> (dict_set ''description'' (JStr d) data, False))))"

definition has_cnp :: "json \<Rightarrow> bool option" where
  "has_cnp j = (case j of JStr s \<Rightarrow> Some (substr_of ''[CNP:'' s) | JList xs \<Rightarrow> Some (JStr ''[CNP:'' \<in> set xs)
     | JDict d \<Rightarrow> Some (''[CNP:'' \<in> set (map fst d)) | _ \<Rightarrow> None)"

definition client_key :: "('r, 'o, 'g, 's) forward_env \<Rightarrow> string option" where
  "client_key fe = (case fe_config fe of None \<Rightarrow> None
     | Some _ \<Rightarrow> find (\<lambda>k. substr_of k (lower_str (fe_name fe))) [''freshco'', ''techparts'', ''greenleaf'', ''quickship'', ''nordicsteel''])"

text \<open>The data the bidders see, and the data of the task, which are one dictionary unless a description was found.\<close>

definition cnp_task_data :: "('r, 'o, 'g, 's) forward_env \<Rightarrow> string \<Rightarrow> doc \<Rightarrow> forward_error + doc \<times> doc" where
  "cnp_task_data fe t data =
     (let (d, same) = described fe t data; old = dict_get d ''description'' (JStr [])
      in case has_cnp old of
           None \<Rightarrow> Inl BadDescription
         | Some True \<Rightarrow> Inr (d, data)
         | Some False \<Rightarrow>
             (case client_key fe of None \<Rightarrow> Inr (d, data)
              | Some k \<Rightarrow> (case fe_templates fe of None \<Rightarrow> Inl NoTemplates
                | Some table \<Rightarrow>
                    if table k t = [] then Inr (d, data)
                    else let d' = dict_set ''description''
                           (JStr (''[CNP:'' @ fe_json fe (table k t) @ ''] '' @ py_str (ce_repr (rt_cnp (fe_route fe))) old)) d
                         in Inr (d', if same then d' else data))))"

record routed =
  ro_base :: forward_task
  ro_task :: forward_task
  ro_entry :: "agent option"
  ro_seq :: "doc option"

definition unrouted :: "forward_task \<Rightarrow> routed" where
  "unrouted t = \<lparr>ro_base = t, ro_task = t, ro_entry = None, ro_seq = None\<rparr>"

text \<open>The task goes to \<open>svc\<close>; when its module cannot be imported the service is kept and the entry is not.\<close>

definition redirect :: "('r, 'o, 'g, 's) forward_env \<Rightarrow> string \<Rightarrow> string \<Rightarrow> routed \<Rightarrow> routed" where
  "redirect fe cur svc r =
     (if svc = cur then r
      else r\<lparr>ro_task := (ro_task r)\<lparr>ts_service := svc\<rparr>,
        ro_entry := (case load_agent_entry (fe_imports fe) svc of None \<Rightarrow> None | Some e \<Rightarrow> e)\<rparr>)"

definition current_service :: "string \<Rightarrow> forward_task \<Rightarrow> string" where
  "current_service t task = (if ts_service task = [] then t else ts_service task)"

definition shared_capability :: "('r, 'o, 'g, 's) forward_env \<Rightarrow> string \<Rightarrow> forward_task \<Rightarrow> (string \<times> string list) option" where
  "shared_capability fe t task =
     (case fe_registry fe of None \<Rightarrow> None
      | Some c \<Rightarrow> (case find_shared_capability (fe_env fe) (fe_kv fe) (ce_repr (rt_cnp (fe_route fe))) (ts_username task) (current_service t task) c of
            Some ([], _) \<Rightarrow> None | r \<Rightarrow> r))"

definition route_by_auction :: "('r, 'o, 'g, 's) forward_env \<Rightarrow> string \<Rightarrow> string \<Rightarrow> forward_task
    \<Rightarrow> (('r, 'o, 'g, 's) forward_state, forward_error, routed) effect" where
  "route_by_auction fe t cap task st =
     (case cnp_task_data fe t (ts_data task) of
        Inl e \<Rightarrow> (Inl e, st)
      | Inr (d, own) \<Rightarrow>
          (let task = task\<lparr>ts_data := own\<rparr>;
               q = \<lparr>rq_task = t, rq_capability = cap, rq_username = ts_username task, rq_pipeline = ts_pipeline_id task,
                 rq_run = ts_run_id task, rq_data = d\<rparr>;
               rs = \<lparr>rs_graph = (if fe_has_graph fe then Some (tr_graph (fo_tracker st)) else None), rs_next = fo_next st\<rparr>;
               (r, rs') = resolve_competing_service (fe_kv fe) (fe_route fe) q (fe_registry fe) rs;
               st' = st\<lparr>fo_next := rs_next rs', fo_tracker := (fo_tracker st)\<lparr>tr_graph :=
                 (case rs_graph rs' of None \<Rightarrow> tr_graph (fo_tracker st) | Some g \<Rightarrow> g)\<rparr>\<rparr>
           in (Inr (case r of Inl _ \<Rightarrow> unrouted task
                  | Inr (svc, seq) \<Rightarrow> redirect fe (current_service t task) svc ((unrouted task)\<lparr>ro_seq := seq\<rparr>)), st')))"

definition route_task :: "('r, 'o, 'g, 's) forward_env \<Rightarrow> string \<Rightarrow> forward_task
    \<Rightarrow> (('r, 'o, 'g, 's) forward_state, forward_error, routed) effect" where
  "route_task fe t task st =
     (case shared_capability fe t task of
        None \<Rightarrow> (Inr (unrouted task), st)
      | Some (cap, svcs) \<Rightarrow>
          if g_getenv (fe_env fe) ''CNP_MANAGER_ENABLE'' = Some ''1'' then route_by_auction fe t cap task st
          else if lower_str (strip (case g_getenv (fe_env fe) ''AGENT_ASSIGNMENT_BASELINE'' of None \<Rightarrow> ''direct''
              | Some b \<Rightarrow> if b = [] then ''direct'' else b)) = ''round_robin''
          then (let (svc, turns) = select_round_robin (ts_username task) cap svcs (fo_turns st)
                in (Inr (case svc of None \<Rightarrow> unrouted task
                      | Some x \<Rightarrow> if x = [] then unrouted task else redirect fe (current_service t task) x (unrouted task)),
                    st\<lparr>fo_turns := turns\<rparr>))
          else (Inr (unrouted task), st))"

subsection \<open>Running the agent\<close>

text \<open>At most \<open>n\<close> attempts from the \<open>i\<close>-th answer on; only a \<^verbatim>\<open>TypeError\<close> is not tried again.\<close>

primrec attempts :: "(nat \<Rightarrow> answer) \<Rightarrow> nat \<Rightarrow> nat \<Rightarrow> answer \<times> nat" where
  "attempts ans 0 i = (Raised, i)"
| "attempts ans (Suc n) i = (case ans i of Raised \<Rightarrow> attempts ans n (Suc i) | r \<Rightarrow> (r, Suc i))"

text \<open>After a \<^verbatim>\<open>TypeError\<close> the logic is called again with the message alone.\<close>

definition call_logic :: "('r, 'o, 'g, 's) forward_env \<Rightarrow> agent \<Rightarrow> forward_task \<Rightarrow> ('r, 'o, 'g, 's) forward_state
    \<Rightarrow> doc option \<times> ('r, 'o, 'g, 's) forward_state" where
  "call_logic fe ag task st =
     (let i = length (fo_calls st); (r, j) = attempts (fe_answer fe) 3 i;
          (r', k) = (if r = TypeErr then attempts (fe_answer fe) 3 j else (r, j));
          log = replicate (j - i) \<lparr>ac_agent = ag, ac_long = True, ac_task = task\<rparr>
            @ replicate (k - j) \<lparr>ac_agent = ag, ac_long = False, ac_task = task\<rparr>
      in (case r' of Answer d \<Rightarrow> Some d | _ \<Rightarrow> None, st\<lparr>fo_calls := fo_calls st @ log\<rparr>))"

definition injected :: "('r, 'o, 'g, 's) forward_env \<Rightarrow> nat \<Rightarrow> string \<Rightarrow> bool" where
  "injected fe k label =
     (case g_getenv (fe_env fe) ''FAILURE_INJECT_SERVICE'' of None \<Rightarrow> False
      | Some svcs \<Rightarrow> svcs \<noteq> [] \<and> label \<in> set (split_at (CHR '','') svcs) \<and>
          (case env_float_strict (fe_env fe) ''FAILURE_INJECT_RATE'' 1 of Inl _ \<Rightarrow> True | Inr rate \<Rightarrow> fe_draw fe k < rate))"

text \<open>\<open>None\<close> is an exception.\<close>

definition attempt :: "('r, 'o, 'g, 's) forward_env \<Rightarrow> nat \<Rightarrow> string \<Rightarrow> routed \<Rightarrow> ('r, 'o, 'g, 's) forward_state
    \<Rightarrow> doc option \<times> ('r, 'o, 'g, 's) forward_state" where
  "attempt fe k t r st =
     (if injected fe k (current_service t (ro_task r)) then (None, st)
      else case (ro_entry r, fe_has_logic fe) of
          (Some ag, _) \<Rightarrow> call_logic fe ag (ro_task r) st
        | (None, True) \<Rightarrow> call_logic fe OwnLogic (ro_task r) st
        | (None, False) \<Rightarrow> (None, st))"

subsection \<open>Pheromone after a success\<close>

fun deposited :: "cnp_env \<Rightarrow> real \<Rightarrow> doc list \<Rightarrow> real" where
  "deposited ce acc [] = acc"
| "deposited ce acc (m # ms) =
     (case py_float ce (dict_get m ''intensity'' (JInt 0)) of None \<Rightarrow> acc | Some r \<Rightarrow> deposited ce (max acc r) ms)"

definition deposit_capability :: "(json \<Rightarrow> string) \<Rightarrow> string \<Rightarrow> doc list \<Rightarrow> string" where
  "deposit_capability repr t cands =
     (let svc = (\<lambda>c. py_str repr (dict_get c ''service_name'' (JStr [])))
      in if \<exists>c \<in> set cands. substr_of ''warehouse'' (svc c) then ''warehouse_matching''
         else if \<exists>c \<in> set cands. svc c \<in> {''cost-estimator'', ''speed-estimator''} then ''deal_estimation'' else t)"

definition winner_agent :: "string \<Rightarrow> doc list \<Rightarrow> string" where
  "winner_agent svc cands = (case find (\<lambda>c. jget c ''service_name'' = JStr svc) cands of
       None \<Rightarrow> svc | Some c \<Rightarrow> jstr (dict_get c ''bidder_id'' (JStr svc)))"

definition deposit_affordance :: "('r, 'o, 'g, 's) forward_env \<Rightarrow> string \<Rightarrow> doc \<Rightarrow> forward_task
    \<Rightarrow> ('r, 'o, 'g, 's) forward_state \<Rightarrow> ('r, 'o, 'g, 's) forward_state" where
  "deposit_affordance fe t seq task st =
     (if \<not> env_enabled (fe_env fe) ''PHEROMONE_ENABLE'' True then st
      else if \<not> fe_has_graph fe then st\<lparr>fo_bound := True\<rparr>
      else let cands = map jdict (jlist (jget seq ''candidates'')); kv = fe_kv fe; ce = rt_cnp (fe_route fe);
               u = ts_username task; a = winner_agent (ts_service task) cands; g = tr_graph (fo_tracker st);
               before = deposited ce 0 (fst (list_affordance_markers kv u (Some t) (Some a) None None no_listing g));
               st1 = st\<lparr>fo_bound := True\<rparr>
           in case env_float_strict (fe_env fe) ''PHEROMONE_DEPOSIT_DELTA'' (1 / 5) of
                Inl _ \<Rightarrow> st1
              | Inr delta \<Rightarrow>
                  (let x = min (before + delta) 1;
                       m = \<lparr>mk_id = rt_ids (fe_route fe) (fo_next st), mk_task_id = t, mk_agent_id = a,
                         mk_capability = Some (deposit_capability (ce_repr ce) t cands), mk_intensity = x,
                         mk_rationale = Some (''success:'' @ t @ '':'' @ take 8 (ts_run_id task)),
                         mk_pipeline_id = Some (ts_pipeline_id task), mk_run_id = Some (ts_run_id task), mk_failure = None,
                         mk_ttl = 86400, mk_created_at = g_dump (fe_env fe) (e_now (fe_env fe))\<rparr>
                   in if x < 0 then st1
                      else st1\<lparr>fo_next := Suc (fo_next st), fo_tracker := (fo_tracker st)\<lparr>tr_graph :=
                        snd (add_affordance_marker kv (store_env.truncate (fe_env fe)) u (marker_doc m) None g)\<rparr>\<rparr>))"

subsection \<open>One round\<close>

definition notify_started :: "('r, 'o, 'g, 's) forward_env \<Rightarrow> task_note \<Rightarrow> ('r, 'o, 'g, 's) forward_state \<Rightarrow> ('r, 'o, 'g, 's) forward_state" where
  "notify_started fe nt st =
     (case fe_client fe of None \<Rightarrow> st
      | Some (sv, cf) \<Rightarrow> (let (cl, s) = mark_task_started sv cf nt (fo_client st) (fo_server st) in st\<lparr>fo_client := cl, fo_server := s\<rparr>))"

definition notify_finished :: "('r, 'o, 'g, 's) forward_env \<Rightarrow> task_note \<Rightarrow> bool \<Rightarrow> ('r, 'o, 'g, 's) forward_state \<Rightarrow> ('r, 'o, 'g, 's) forward_state" where
  "notify_finished fe nt ok st =
     (case fe_client fe of None \<Rightarrow> st
      | Some (sv, cf) \<Rightarrow> (let (cl, s) = mark_task_finished sv cf nt (Some ok) (fo_client st) (fo_server st) in st\<lparr>fo_client := cl, fo_server := s\<rparr>))"

definition note_of :: "string \<Rightarrow> forward_task \<Rightarrow> task_note" where
  "note_of t task = \<lparr>nt_task = ts_task_id task, nt_run = Some (ts_run_id task), nt_service = Some t\<rparr>"

text \<open>The outcome of an attempt, with what \<^verbatim>\<open>call_persistence_with_retry\<close> makes of it.\<close>

definition settle :: "('r, 'o, 'g, 's) forward_env \<Rightarrow> routed \<Rightarrow> forward_task \<Rightarrow> doc option \<Rightarrow> 'o option \<Rightarrow> forward_task \<times> 'o option" where
  "settle fe r base res store =
     (let done = (case res of None \<Rightarrow> base\<lparr>ts_status := SEnum TsFailed\<rparr>
        | Some _ \<Rightarrow> base\<lparr>ts_status := SEnum TsCompleted,
            ts_service := (if ro_entry r = None then ts_service base else ts_service (ro_task r))\<rparr>);
          raw = (case res of None \<Rightarrow> [(''raw_output'', JStr ''error'')] | Some d \<Rightarrow> d)
      in case call_persistence (fe_docs fe) 3 done raw store of
           None \<Rightarrow> (done\<lparr>ts_status := SEnum TsFailed, ts_error := Some (''Persistence error: '' @ fe_retry_text fe)\<rparr>, store)
         | Some x \<Rightarrow> x)"

text \<open>The duration of an execution is never computed (the subtraction of times with and without a zone raises), so no
  execution is recorded, and the marker store is a variable that only flow jobs or a deposit have set.\<close>

definition learn_job :: "('r, 'o, 'g, 's) forward_env \<Rightarrow> nat \<Rightarrow> forward_task
    \<Rightarrow> (('r, 'o, 'g, 's) forward_state, forward_error, unit) effect" where
  "learn_job fe k final st =
     (if \<not> bandit_enabled (fe_env fe) then (Inr (), st)
      else if \<not> fo_bound st then (Inl UnboundGraph, st)
      else if \<not> fe_has_graph fe then (Inr (), st)
      else (Inr (), st\<lparr>fo_jobs := fo_jobs st @ [LearnJob (ts_username final) (ts_task_id final) (ts_service final)
        (ts_status final = SEnum TsCompleted) (int k)]\<rparr>))"

definition track :: "('r, 'o, 'g, 's) forward_env \<Rightarrow> nat \<Rightarrow> forward_task \<Rightarrow> ('r, 'o, 'g, 's) forward_state
    \<Rightarrow> reforward_info option \<times> ('r, 'o, 'g, 's) forward_state" where
  "track fe k final st =
     (case fe_tracker fe of None \<Rightarrow> (None, st)
      | Some te \<Rightarrow>
          (let (r, tr) = on_task_done (fe_runs fe) (fe_kv fe) (te k) (task_state.truncate final) (fo_tracker st)
           in (case r of Inl _ \<Rightarrow> None | Inr (rf, _) \<Rightarrow> if ts_status final = SEnum TsFailed then rf else None,
               st\<lparr>fo_tracker := tr\<rparr>)))"

definition one_round :: "('r, 'o, 'g, 's) forward_env \<Rightarrow> nat \<Rightarrow> string \<Rightarrow> routed \<Rightarrow> forward_task
    \<Rightarrow> (('r, 'o, 'g, 's) forward_state, forward_error, forward_task \<times> reforward_info option) effect" where
  "one_round fe k t r base st =
     (let (res, st) = attempt fe k t r (notify_started fe (note_of t (ro_task r)) st);
          st = (case (res, ro_seq r) of (Some _, Some seq) \<Rightarrow> deposit_affordance fe t seq (ro_task r) st | _ \<Rightarrow> st);
          st = notify_finished fe (note_of t (ro_task r)) (res \<noteq> None) st;
          (final, outs) = settle fe r base res (fo_outputs st);
          st = st\<lparr>fo_outputs := outs\<rparr>
      in bindS (learn_job fe k final) (\<lambda>_ st. (let (rf, st') = track fe k final st in (Inr (final, rf), st'))) st)"

text \<open>\<open>n\<close> re-forwards are left after round \<open>k\<close>.\<close>

primrec rounds :: "('r, 'o, 'g, 's) forward_env \<Rightarrow> nat \<Rightarrow> nat \<Rightarrow> string \<Rightarrow> routed \<Rightarrow> forward_task
    \<Rightarrow> (('r, 'o, 'g, 's) forward_state, forward_error, forward_task) effect" where
  "rounds fe 0 k t r base = bindS (one_round fe k t r base) (\<lambda>(final, rf). retS final)"
| "rounds fe (Suc n) k t r base = bindS (one_round fe k t r base) (\<lambda>(final, rf).
     case rf of None \<Rightarrow> retS final
     | Some i \<Rightarrow> rounds fe n (Suc k) t r
         ((ro_task r)\<lparr>ts_status := SEnum TsRunning, ts_error := None, ts_service := rf_new_service i\<rparr>))"

subsection \<open>What the bandit learns from an outcome\<close>

text \<open>A job that is run later: the first record of the task for this agent that has no outcome is completed, and the
  learner is told the reward. An exception ends it and keeps what was written.\<close>

definition outcome_doc :: "bandit_outcome \<Rightarrow> doc" where
  "outcome_doc oc = [(''success'', JBool (bo_success oc)), (''latency_seconds'', jopt JReal (bo_latency oc)), (''retries'', JInt (bo_retries oc)),
     (''cost_actual'', jopt JReal (bo_cost oc)), (''policy_blocks'', JInt (bo_blocks oc))]"

definition update_bandit_decision :: "'c kv_ops \<Rightarrow> registry_env \<Rightarrow> (json \<Rightarrow> string) \<Rightarrow> string \<Rightarrow> string \<Rightarrow> string \<Rightarrow> bandit_outcome \<Rightarrow> 'c \<Rightarrow> 'c" where
  "update_bandit_decision kv g repr u t agent oc c =
     (case find (\<lambda>d. jget d ''chosen_bidder_id'' = JStr agent \<and> jget d ''outcome'' = JNull)
         (fst (list_decision_records kv u (Some t) None no_listing c)) of
        None \<Rightarrow> c
      | Some d \<Rightarrow>
          (let reward = compute_reward oc;
               c' = snd (update_decision_outcome kv (store_env.truncate g) u t (py_str repr (dict_get d ''decision_id'' (JStr [])))
                 (outcome_doc oc) reward c)
           in case jget d ''chosen_features'' of
                JDict fs \<Rightarrow>
                  if fs = [] then c'
                  else (case features_of_doc fs of None \<Rightarrow> c'
                    | Some f \<Rightarrow> (case record_reward kv g u (py_str repr (dict_get d ''task_type'' (JStr ''general''))) f reward c' of
                          None \<Rightarrow> c' | Some c'' \<Rightarrow> c''))
              | _ \<Rightarrow> c'))"

definition job_outcome :: "bool \<Rightarrow> int \<Rightarrow> bandit_outcome" where
  "job_outcome ok retries = \<lparr>bo_success = ok, bo_latency = None, bo_retries = retries, bo_cost = None, bo_blocks = 0\<rparr>"

subsection \<open>forward\<close>

definition publish_outcome :: "('r, 'o, 'g, 's) forward_env \<Rightarrow> string \<Rightarrow> forward_task \<Rightarrow> forward_error + publication list" where
  "publish_outcome fe t final =
     (case fe_config fe of None \<Rightarrow> Inl NoConfig
      | Some fc \<Rightarrow> (case call_publish (fe_suffix fe) fc t (ts_run_id final) (ts_username final) (ts_pipeline_id final)
            (JDict (fe_dump fe final)) of
          Inl e \<Rightarrow> Inl (Unpublished e) | Inr ps \<Rightarrow> if fe_has_bus fe then Inr ps else Inl NoBus))"

definition max_reforwards :: "('r, 'o, 'g, 's) forward_env \<Rightarrow> forward_error + nat" where
  "max_reforwards fe = (case env_int_strict (fe_env fe) ''CNP_MAX_REFORWARDS'' 3 of Inl _ \<Rightarrow> Inl BadReforwards | Inr n \<Rightarrow> Inr (nat n))"

definition forward_task_state :: "('r, 'o, 'g, 's) forward_env \<Rightarrow> json \<Rightarrow> string \<Rightarrow> forward_task
    \<Rightarrow> (('r, 'o, 'g, 's) forward_state, forward_error, publication list) effect" where
  "forward_task_state fe triggered t task =
     bindS (onS (\<lambda>st. flow_jobs fe triggered t task (keep_input fe t task (st\<lparr>fo_bound := False\<rparr>)))) (\<lambda>_.
     bindS (route_task fe t task) (\<lambda>r.
     bindS (liftS (max_reforwards fe)) (\<lambda>n.
     bindS (rounds fe n 0 t r (ro_base r)) (\<lambda>final. liftS (publish_outcome fe t final)))))"

definition forward :: "('r, 'o, 'g, 's) forward_env \<Rightarrow> forward_message \<Rightarrow> json \<Rightarrow> string
    \<Rightarrow> (('r, 'o, 'g, 's) forward_state, forward_error, publication list) effect" where
  "forward fe m triggered t st =
     (case prepare fe m triggered t (fo_outputs st) of
        Inl e \<Rightarrow> (Inl e, st)
      | Inr None \<Rightarrow> (Inr [], st)
      | Inr (Some task) \<Rightarrow> forward_task_state fe triggered t task st)"

end
