(* ===== verification/Run_Launch.thy ===== *)
theory Run_Launch
  imports Forwarder
begin

section \<open>Launching, starting and archiving runs\<close>

text \<open>
  \<^verbatim>\<open>agent_runtime/runner.py\<close> waits for the configuration of a pipeline, writes the document of a new run and announces it;
  \<^verbatim>\<open>event_handler.py\<close> reacts to an announcement in every service; \<^verbatim>\<open>consumers.py\<close> connects the two and moves a finished run
  to the archive (\<^verbatim>\<open>run_mover.py\<close>). What a service keeps is \<open>service_state\<close>: the runs it has started consumers for, the
  state its forwarders share, and the bindings, consumers, forwards and publications made so far. A forwarder is made
  for each event, with a tracker that has seen no event. \<open>look\<close> is what one read of the configuration gives.
\<close>

subsection \<open>Runner\<close>

datatype look = Ready final_config | Missing | Broken

datatype launch_error = LaunchEnv | LaunchNotFound | LaunchStore | LaunchUnavailable | LaunchNoHot | LaunchRun store_error | LaunchNoRabbit

text \<open>\<open>n\<close> looks are left from the \<open>i\<close>-th on.\<close>

primrec look_for_config :: "(nat \<Rightarrow> look) \<Rightarrow> nat \<Rightarrow> nat \<Rightarrow> launch_error + final_config" where
  "look_for_config obs 0 i = Inl (if i = 0 then LaunchUnavailable else LaunchNotFound)"
| "look_for_config obs (Suc n) i =
     (case obs i of Ready fc \<Rightarrow> Inr fc | Missing \<Rightarrow> look_for_config obs n (Suc i) | Broken \<Rightarrow> Inl LaunchStore)"

definition wait_for_final_config :: "registry_env \<Rightarrow> (nat \<Rightarrow> look) \<Rightarrow> launch_error + final_config" where
  "wait_for_final_config g obs =
     (case (env_int_strict g ''PIPELINE_CONFIG_WAIT_ATTEMPTS'' 20, env_float_strict g ''PIPELINE_CONFIG_WAIT_SECONDS'' (1 / 2)) of
        (Inr n, Inr _) \<Rightarrow> look_for_config obs (nat n) 0
      | _ \<Rightarrow> Inl LaunchEnv)"

definition write_initial_run :: "('r, stored_run) doc_ops \<Rightarrow> string \<Rightarrow> string \<Rightarrow> string \<Rightarrow> final_config \<Rightarrow> 'r option \<Rightarrow> launch_error + 'r" where
  "write_initial_run ops u pid run fc hot =
     (case hot of None \<Rightarrow> Inl LaunchNoHot
      | Some c \<Rightarrow> (case create_run ops u pid run (StoredRun (seed_initial_run u pid run (fc_task_dict fc)) None) c of
            Inl e \<Rightarrow> Inl (LaunchRun e) | Inr c' \<Rightarrow> Inr c'))"

datatype launch_message = EntryQueued doc | StartedEvent doc | CycleCommand string string string

definition entry_doc :: "string \<Rightarrow> string \<Rightarrow> string \<Rightarrow> string \<Rightarrow> doc" where
  "entry_doc u pid run cfg = [(''pipeline_id'', JStr pid), (''username'', JStr u), (''pipeline_run_id'', JStr run), (''pipeline_config_id'', JStr cfg)]"

definition started_doc :: "string \<Rightarrow> string \<Rightarrow> string \<Rightarrow> string \<Rightarrow> doc" where
  "started_doc u pid run cfg = [(''event'', JStr ''pipeline_started''), (''username'', JStr u), (''pipeline_id'', JStr pid),
     (''pipeline_run_id'', JStr run), (''pipeline_config_id'', JStr cfg)]"

definition launch :: "registry_env \<Rightarrow> ('r, stored_run) doc_ops \<Rightarrow> (nat \<Rightarrow> look) \<Rightarrow> bool \<Rightarrow> string \<Rightarrow> string \<Rightarrow> string \<Rightarrow> string
    \<Rightarrow> ('r option, launch_error, string \<times> launch_message list) effect" where
  "launch g ops obs rabbit run u pid cfg hot =
     (case bindR (wait_for_final_config g obs) (\<lambda>fc. write_initial_run ops u pid run fc hot) of
        Inl e \<Rightarrow> (Inl e, hot)
      | Inr c \<Rightarrow>
          if \<not> rabbit then (Inl LaunchNoRabbit, Some c)
          else (Inr (run, [EntryQueued (entry_doc u pid run cfg), StartedEvent (started_doc u pid run cfg)] @
            (if g_getenv g ''CNP_MANAGER_ENABLE'' = Some ''1'' \<and> g_getenv g ''CNP_AUTO_ON_LAUNCH'' = Some ''1''
             then [CycleCommand u pid run] else [])), Some c))"

text \<open>\<^verbatim>\<open>run_task\<close>, which the program defines and does not call. \<open>Inr False\<close>: nothing to update.\<close>

definition run_task :: "('r, stored_run) doc_ops \<Rightarrow> task_state \<Rightarrow> ('r option, launch_error, bool) effect" where
  "run_task ops m hot =
     (case hot of None \<Rightarrow> (Inl LaunchNoHot, hot)
      | Some c \<Rightarrow>
          (case read_run ops (ts_username m) (ts_pipeline_id m) (ts_run_id m) c of
             Inl e \<Rightarrow> (Inl (LaunchRun e), hot)
           | Inr StoredEmpty \<Rightarrow> (Inr False, hot)
           | Inr StoredBad \<Rightarrow> (Inl (LaunchRun InvalidRun), hot)
           | Inr (StoredRun run plan) \<Rightarrow>
               (case map_of (pr_tasks run) (ts_task_id m) of
                  None \<Rightarrow> (Inr False, hot)
                | Some ts \<Rightarrow>
                    (let run1 = run\<lparr>pr_tasks := dict_set (ts_task_id m) (ts\<lparr>ts_status := ts_status m\<rparr>) (pr_tasks run)\<rparr>;
                         run2 = (if ts_status m = SEnum TsFailed then run1\<lparr>pr_status := PsFailed\<rparr> else run1);
                         run3 = (if is_final ts \<and> ts_status m = SEnum TsCompleted then run2\<lparr>pr_status := PsCompleted\<rparr> else run2)
                     in case update_run ops (ts_username m) (ts_pipeline_id m) (ts_run_id m) (StoredRun run3 plan) c of
                          Inl e \<Rightarrow> (Inl (LaunchRun e), hot)
                        | Inr c' \<Rightarrow> (Inr True, Some c')))))"

subsection \<open>The archive\<close>

text \<open>The transaction takes the run out of the hot collection and into the cold one, or fails and changes neither.\<close>

definition terminal :: "pipeline_status \<Rightarrow> bool" where
  "terminal s \<longleftrightarrow> s \<in> {PsCompleted, PsFailed}"

record ('c, 'd) removable_ops = "('c, 'd) doc_ops" +
  d_remove :: "string \<Rightarrow> 'c \<Rightarrow> 'c"

definition finalize_run :: "('h, stored_run) removable_ops \<Rightarrow> ('a, stored_run) doc_ops \<Rightarrow> string \<Rightarrow> string \<Rightarrow> string \<Rightarrow> 'h \<times> 'a \<Rightarrow> bool \<times> 'h \<times> 'a" where
  "finalize_run hot cold u pid run s =
     (case d_get hot (fst s) (run_key u pid run) of
        Some (StoredRun r plan) \<Rightarrow>
          if \<not> terminal (pr_status r) then (False, s)
          else (case d_insert cold (run_key u pid run) (StoredRun r plan) (snd s) of
              None \<Rightarrow> (False, s) | Some a \<Rightarrow> (True, d_remove hot (run_key u pid run) (fst s), a))
      | _ \<Rightarrow> (False, s))"

text \<open>Which events of the bus the finalizer acts on.\<close>

definition finalizes :: "doc \<Rightarrow> bool" where
  "finalizes evt \<longleftrightarrow> jget evt ''event'' = JStr ''pipeline_completed'' \<or>
     (jget evt ''event'' = JStr ''run_status_changed'' \<and> jget evt ''status'' \<in> {JStr ''COMPLETED'', JStr ''FAILED''})"

subsection \<open>The handler of announcements\<close>

record ('r, 'o, 'g, 's) service_state =
  ss_boot :: "string list"
  ss_world :: "('r, 'o, 'g, 's) forward_state"
  ss_bindings :: "binding list"
  ss_managers :: "(string \<times> string) list"
  ss_forwards :: "(string \<times> string) list"
  ss_published :: "publication list"

definition entry_tasks :: "final_config \<Rightarrow> string \<Rightarrow> string list" where
  "entry_tasks fc service = map fst (filter (\<lambda>(t, tk). t_is_entry tk \<and> t_available_services tk = service) (fc_task_dict fc))"

definition forward_entry :: "('r, 'o, 'g, 's) forward_env \<Rightarrow> entry_message \<Rightarrow> string \<Rightarrow> ('r, 'o, 'g, 's) service_state \<Rightarrow> ('r, 'o, 'g, 's) service_state" where
  "forward_entry fe m t st =
     (let (r, w) = forward fe (MEntry m) (JStr ''entry'') t (ss_world st)
      in st\<lparr>ss_world := w, ss_forwards := ss_forwards st @ [(em_run m, t)],
        ss_published := ss_published st @ (case r of Inl _ \<Rightarrow> [] | Inr ps \<Rightarrow> ps)\<rparr>)"

text \<open>The first announcement of a run makes its queues and starts the consumers of the service.\<close>

definition bootstrap :: "('r, 'o, 'g, 's) forward_env \<Rightarrow> string \<Rightarrow> string \<Rightarrow> ('r, 'o, 'g, 's) service_state \<Rightarrow> ('r, 'o, 'g, 's) service_state" where
  "bootstrap fe service run st =
     (if run \<in> set (ss_boot st) then st
      else st\<lparr>ss_boot := run # ss_boot st, ss_managers := ss_managers st @ [(service, run)],
        ss_bindings := ss_bindings st @ (case fe_config fe of None \<Rightarrow> [] | Some fc \<Rightarrow> ensure_run_topology fc run)\<rparr>)"

definition other_services :: "final_config \<Rightarrow> string \<Rightarrow> string list" where
  "other_services fc service =
     sort (remdups (filter (\<lambda>s. s \<noteq> [] \<and> s \<noteq> service) (map (t_available_services \<circ> snd) (fc_task_dict fc))))"

definition single_process :: "('r, 'o, 'g, 's) forward_env \<Rightarrow> string \<Rightarrow> string \<Rightarrow> ('r, 'o, 'g, 's) service_state \<Rightarrow> ('r, 'o, 'g, 's) service_state" where
  "single_process fe service run st =
     (if g_getenv (fe_env fe) ''SINGLE_PROCESS_ALL_SERVICES'' \<noteq> Some ''1'' then st
      else case fe_config fe of None \<Rightarrow> st
        | Some fc \<Rightarrow> st\<lparr>ss_managers := ss_managers st @ map (\<lambda>s. (s, run)) (other_services fc service)\<rparr>)"

definition fresh_forwarder :: "('r, 'o, 'g, 's) service_state \<Rightarrow> ('r, 'o, 'g, 's) service_state" where
  "fresh_forwarder st = st\<lparr>ss_world := (ss_world st)\<lparr>fo_tracker := (fo_tracker (ss_world st))\<lparr>tr_dedupe := []\<rparr>\<rparr>\<rparr>"

definition on_pipeline_event :: "(string \<Rightarrow> string \<Rightarrow> ('r, 'o, 'g, 's) forward_env) \<Rightarrow> string \<Rightarrow> doc
    \<Rightarrow> ('r, 'o, 'g, 's) service_state \<Rightarrow> ('r, 'o, 'g, 's) service_state" where
  "on_pipeline_event fes service event st =
     (if truthy (jget event ''event'') \<and> jget event ''event'' \<noteq> JStr ''pipeline_started'' then st
      else case (jget event ''username'', jget event ''pipeline_id'', jget event ''pipeline_run_id'') of
          (JStr u, JStr pid, JStr run) \<Rightarrow>
            (let fe = fes u pid;
                 st = single_process fe service run (bootstrap fe service run (fresh_forwarder st))
             in if ''task_id'' \<in> set (map fst event) then st
                else case (as_opt as_str (dict_get event ''pipeline_config_id'' (JStr pid)), fe_config fe) of
                    (Some cfg, Some fc) \<Rightarrow>
                      fold (forward_entry fe \<lparr>em_pipeline = pid, em_username = u, em_run = run, em_config = cfg\<rparr>) (entry_tasks fc service) st
                  | _ \<Rightarrow> st)
        | _ \<Rightarrow> st)"

text \<open>Which service starts runs. It hears of a run from its entry queue and, as every service, from the bus.\<close>

definition launches_runs :: "registry_env \<Rightarrow> string \<Rightarrow> bool" where
  "launches_runs g service =
     (case g_getenv g ''START_PIPELINE_CONSUMER_ENABLE'' of
        Some x \<Rightarrow> lower_str (strip x) \<in> {''1'', ''true'', ''yes'', ''on''}
      | None \<Rightarrow> service = strip (case g_getenv g ''START_PIPELINE_LAUNCHER_SERVICE'' of None \<Rightarrow> ''call-transcription'' | Some s \<Rightarrow> s))"

definition heard :: "bool \<Rightarrow> launch_message list \<Rightarrow> doc list" where
  "heard launcher ms = concat (map (\<lambda>m. case m of EntryQueued d \<Rightarrow> if launcher then [d] else [] | StartedEvent d \<Rightarrow> [d] | CycleCommand _ _ _ \<Rightarrow> []) ms)"

end
