(* ===== verification/Builder_Properties.thy ===== *)
theory Builder_Properties
  imports Graph_Builder
begin

section \<open>Correctness of the graph builder\<close>

text \<open>
  The award of a task and the candidates kept for re-forwarding are computed by two separate passes over the
  bids. They are proved to agree, and awarding to be idempotent.
\<close>

subsection \<open>The first maximum and the stable sort\<close>

lemma py_max_snoc: "py_max key m (xs @ [y]) = (if key (py_max key m xs) < key y then y else py_max key m xs)"
  by (induction xs arbitrary: m) auto

lemma last_insort_key:
  "sorted (map key l) \<Longrightarrow> l \<noteq> [] \<Longrightarrow> last (insort_key key y l) = (if key (last l) < key y then y else last l)"
proof (induction l)
  case (Cons a l)
  have "key a \<le> key (last l)" if "l \<noteq> []" using Cons.prems that by simp
  then have "l \<noteq> [] \<Longrightarrow> key y \<le> key a \<Longrightarrow> \<not> key (last l) < key y" by (metis leD order_trans)
  with Cons show ?case by auto
qed simp

lemma hd_py_sort: "hd (py_sort key True (x # xs)) = py_max key x xs"
proof (induction xs rule: rev_induct)
  case (snoc y xs)
  let ?s = "sort_key key (rev (x # xs))"
  have "?s \<noteq> []" by (metis length_0_conv length_sort list.distinct(1) length_rev)
  then have "last (insort_key key y ?s) = (if key (last ?s) < key y then y else last ?s)"
    by (intro last_insort_key) simp_all
  then show ?case using snoc by (simp add: py_sort_def hd_rev py_max_snoc)
qed (simp add: py_sort_def)


subsection \<open>The best bid and the ranking\<close>

definition numeric_bid :: "doc \<Rightarrow> bool" where
  "numeric_bid b = (number (dict_get b ''bid_score'' (JInt 0)) \<noteq> None)"

definition task_bids :: "cnp_env \<Rightarrow> bid_filter \<Rightarrow> doc list \<Rightarrow> json \<Rightarrow> doc list" where
  "task_bids ce bf bids t = filter (\<lambda>b. qualifies ce bf b \<and> jget b ''task_id'' = t) bids"

definition first_best :: "cnp_env \<Rightarrow> doc list \<Rightarrow> doc option" where
  "first_best ce bs = (case bs of [] \<Rightarrow> None | b # r \<Rightarrow> Some (py_max (bid_score_of ce) b r))"

lemma number_py_float: "number j = Some x \<Longrightarrow> py_float ce j = Some x"
  by (cases j) auto

lemma numeric_score: "numeric_bid b \<Longrightarrow> number (dict_get b ''bid_score'' (JInt 0)) = Some (bid_score_of ce b)"
  using number_py_float[of "dict_get b ''bid_score'' (JInt 0)" _ ce] by (auto simp: numeric_bid_def bid_score_of_def)

lemma first_best_snoc: "first_best ce (bs @ [b]) =
    (case first_best ce bs of None \<Rightarrow> Some b | Some m \<Rightarrow> Some (if bid_score_of ce m < bid_score_of ce b then b else m))"
  by (cases bs) (simp_all add: first_best_def py_max_snoc)

lemma py_max_in: "py_max key m xs \<in> insert m (set xs)"
  by (induction xs arbitrary: m) (auto split: if_splits)

lemma first_best_in: "first_best ce bs = Some m \<Longrightarrow> m \<in> set bs"
  using py_max_in[of "bid_score_of ce" "hd bs" "tl bs"] by (cases bs) (auto simp: first_best_def)

lemma task_bids_snoc: "task_bids ce bf (bids @ [b]) t =
    task_bids ce bf bids t @ (if qualifies ce bf b \<and> jget b ''task_id'' = t then [b] else [])"
  by (simp add: task_bids_def)

lemma best_bids_spec:
  assumes "\<forall>t. map_of best t = first_best ce (task_bids ce bf seen t)" and "list_all numeric_bid (seen @ bids)"
  shows "\<exists>best'. best_bids ce bf best bids = Inr best' \<and> (\<forall>t. map_of best' t = first_best ce (task_bids ce bf (seen @ bids) t))"
  using assms
proof (induction bids arbitrary: best seen)
  case (Cons b bids)
  show ?case
  proof (cases "qualifies ce bf b")
    case False
    then show ?thesis using Cons.IH[of best "seen @ [b]"] Cons.prems by (simp add: task_bids_snoc)
  next
    case True
    let ?t = "jget b ''task_id''"
    show ?thesis
    proof (cases "map_of best ?t")
      case None
      then show ?thesis
        using Cons.IH[of "dict_set ?t b best" "seen @ [b]"] Cons.prems True
        by (simp add: task_bids_snoc update_conv' first_best_snoc)
    next
      case (Some m)
      then have "m \<in> set seen" using Cons.prems(1) first_best_in by (fastforce simp: task_bids_def)
      then have n: "number (dict_get m ''bid_score'' (JInt 0)) = Some (bid_score_of ce m)"
        using Cons.prems(2) numeric_score by (auto simp: list_all_iff)
      show ?thesis
      proof (cases "bid_score_of ce m < bid_score_of ce b")
        case less: True
        then show ?thesis
          using Cons.IH[of "dict_set ?t b best" "seen @ [b]"] Cons.prems True Some n
          by (simp add: task_bids_snoc update_conv' first_best_snoc)
      next
        case False
        then have "\<forall>t. map_of best t = first_best ce (task_bids ce bf (seen @ [b]) t)"
          using Cons.prems(1) Some by (auto simp: task_bids_snoc first_best_snoc)
        then show ?thesis
          using Cons.IH[of best "seen @ [b]"] Cons.prems(2) True Some n False by simp
      qed
    qed
  qed
qed simp


lemma append_fold: "map_of (fold (\<lambda>b d. dict_append d (k b) b) bs d) t =
    (case map_of d t of None \<Rightarrow> (if filter (\<lambda>b. k b = t) bs = [] then None else Some (filter (\<lambda>b. k b = t) bs))
     | Some l \<Rightarrow> Some (l @ filter (\<lambda>b. k b = t) bs))"
  by (induction bs arbitrary: d) (auto simp: map_of_dict_append split: option.splits)

definition bid_groups :: "cnp_env \<Rightarrow> bid_filter \<Rightarrow> doc list \<Rightarrow> (json \<times> doc list) list" where
  "bid_groups ce bf bids = fold (\<lambda>b d. dict_append d (jget b ''task_id'') b) (filter (qualifies ce bf) bids) []"

lemma bid_groups_get: "map_of (bid_groups ce bf bids) t = (if task_bids ce bf bids t = [] then None else Some (task_bids ce bf bids t))"
  by (simp add: bid_groups_def append_fold task_bids_def conj_commute)

lemma bid_groups_distinct: "distinct (dict_keys (bid_groups ce bf bids))"
proof -
  have "distinct (dict_keys (fold (\<lambda>b d. dict_append d (jget b ''task_id'') b) bs d))" if "distinct (dict_keys d)" for bs d
    using that by (induction bs arbitrary: d) auto
  then show ?thesis by (simp add: bid_groups_def)
qed

lemma ranked_of:
  assumes "ranked_bids ce bf bids = Inr ranked"
  shows "map_of ranked t = (if task_bids ce bf bids t = [] then None else Some (py_sort (bid_score_of ce) True (task_bids ce bf bids t)))"
    and "distinct (dict_keys ranked)"
proof -
  have "list_all2 (\<lambda>(t, bs) y. bindR (sort_bids ce bs) (\<lambda>s. Inr (t, s)) = Inr y) (bid_groups ce bf bids) ranked"
    using assms by (simp add: ranked_bids_def bid_groups_def mapR_Inr_iff case_prod_unfold)
  then have r: "ranked = map (\<lambda>(t, bs). (t, py_sort (bid_score_of ce) True bs)) (bid_groups ce bf bids)"
    by (induction rule: list_all2_induct) (auto simp: bindR_iffs sort_bids_def split: if_splits)
  then show "map_of ranked t = (if task_bids ce bf bids t = [] then None else Some (py_sort (bid_score_of ce) True (task_bids ce bf bids t)))"
    by (simp add: map_of_map bid_groups_get)
  show "distinct (dict_keys ranked)" using bid_groups_distinct by (simp add: r comp_def case_prod_beta)
qed

lemma ranked_total:
  assumes "list_all numeric_bid bids"
  shows "\<exists>ranked. ranked_bids ce bf bids = Inr ranked"
proof -
  have "list_all (\<lambda>b. py_float ce (dict_get b ''bid_score'' (JInt 0)) \<noteq> None) bs" if g: "(t, bs) \<in> set (bid_groups ce bf bids)" for t bs
  proof -
    have "bs = task_bids ce bf bids t"
      using map_of_is_SomeI[OF bid_groups_distinct g] by (metis bid_groups_get option.distinct(1) option.inject)
    then show ?thesis
      using assms number_py_float[OF numeric_score] by (fastforce simp: task_bids_def list_all_iff)
  qed
  then have "\<exists>ys. mapR (\<lambda>(t, bs). bindR (sort_bids ce bs) (\<lambda>s. Inr (t, s))) gs = Inr ys" if "set gs \<subseteq> set (bid_groups ce bf bids)" for gs
    using that by (induction gs) (auto simp: sort_bids_def)
  then show ?thesis by (simp add: ranked_bids_def bid_groups_def[symmetric])
qed

text \<open>The award and the ranking agree: on bids with numeric scores both passes return, and for every task
  the best bid, which gets the award, is the first of the ranked candidates, which the tracker takes as the
  current contractor; a task has a best bid exactly when it has candidates, and those are sorted by
  descending score.\<close>

theorem best_is_first_ranked:
  assumes "list_all numeric_bid bids"
  shows "\<exists>best ranked. best_bids ce bf [] bids = Inr best \<and> ranked_bids ce bf bids = Inr ranked \<and>
    (\<forall>t. map_of best t = map_option hd (map_of ranked t)) \<and>
    (\<forall>t bs. map_of ranked t = Some bs \<longrightarrow> bs \<noteq> [] \<and> mset bs = mset (filter (\<lambda>b. qualifies ce bf b \<and> jget b ''task_id'' = t) bids) \<and>
      sorted_wrt (\<lambda>a b. bid_score_of ce b \<le> bid_score_of ce a) bs)"
proof -
  obtain best where best: "best_bids ce bf [] bids = Inr best" "\<forall>t. map_of best t = first_best ce (task_bids ce bf bids t)"
    using best_bids_spec[of "[]" ce bf "[]" bids] assms by (auto simp: task_bids_def first_best_def)
  obtain ranked where ranked: "ranked_bids ce bf bids = Inr ranked" using ranked_total[OF assms] by blast
  note r = ranked_of(1)[OF ranked]
  have "map_of best t = map_option hd (map_of ranked t)" for t
    using best(2) r by (cases "task_bids ce bf bids t") (simp_all add: first_best_def hd_py_sort)
  moreover have "bs \<noteq> [] \<and> mset bs = mset (filter (\<lambda>b. qualifies ce bf b \<and> jget b ''task_id'' = t) bids) \<and>
      sorted_wrt (\<lambda>a b. bid_score_of ce b \<le> bid_score_of ce a) bs" if "map_of ranked t = Some bs" for t bs
  proof -
    have "task_bids ce bf bids t \<noteq> []" and bs: "bs = py_sort (bid_score_of ce) True (task_bids ce bf bids t)"
      using that r by (simp_all split: if_splits)
    then show ?thesis
      using py_sort_sorted[of True "bid_score_of ce" "task_bids ce bf bids t"]
      by (metis length_0_conv length_py_sort mset_py_sort task_bids_def)
  qed
  ultimately show ?thesis using best(1) ranked by blast
qed
definition two_bids :: "doc list" where
  "two_bids = [[(''task_id'', JStr ''t1''), (''bidder_id'', JStr ''a1''), (''bid_score'', JReal (1 / 2))],
     [(''task_id'', JStr ''t1''), (''bidder_id'', JStr ''a2''), (''bid_score'', JReal (3 / 4))]]"

definition builder_cnp :: cnp_env where
  "builder_cnp = \<lparr>ce_float = (\<lambda>s. None), ce_int = (\<lambda>s. None), ce_repr = (\<lambda>j. []), ce_hierarchy = [], ce_policy_weight = 1,
     ce_lmax_default = 5, ce_threshold_default = 1 / 2, ce_lambda1 = 1, ce_lambda2 = 1, ce_lambda3 = 1, ce_lambda4 = 1 / 2,
     ce_lambda5 = 0, ce_lambda6 = 0, ce_lambda7 = 0, ce_lambda_bandit = 0, ce_failure_max_penalty = 1, ce_failure_decay = 1\<rparr>"

definition any_bid :: bid_filter where
  "any_bid = \<lparr>bf_allowed = None, bf_min_by_cfp = [], bf_min_default = 0\<rparr>"

theorem best_is_first_ranked_witness:
  "best_bids builder_cnp any_bid [] two_bids = Inr [(JStr ''t1'', two_bids ! 1)] \<and>
     (\<exists>ranked. ranked_bids builder_cnp any_bid two_bids = Inr ranked \<and>
       map_option hd (map_of ranked (JStr ''t1'')) = Some (two_bids ! 1))"
proof -
  have "list_all numeric_bid two_bids" by (simp add: two_bids_def numeric_bid_def dict_get_def)
  from best_is_first_ranked[OF this, of builder_cnp any_bid]
  obtain best ranked where b: "best_bids builder_cnp any_bid [] two_bids = Inr best"
    and r: "ranked_bids builder_cnp any_bid two_bids = Inr ranked"
    and e: "map_of best (JStr ''t1'') = map_option hd (map_of ranked (JStr ''t1''))" by blast
  have v: "best_bids builder_cnp any_bid [] two_bids = Inr [(JStr ''t1'', two_bids ! 1)]"
    by (simp add: two_bids_def qualifies_def any_bid_def min_score_for_def bid_score_of_def dict_get_def)
  with b have "map_option hd (map_of ranked (JStr ''t1'')) = Some (two_bids ! 1)" by (auto simp: e[symmetric])
  with v r show ?thesis by blast
qed

subsection \<open>Awards\<close>

abbreviation best_bidder :: "builder_env \<Rightarrow> (json \<times> doc) list \<Rightarrow> string \<Rightarrow> string option" where
  "best_bidder be best t \<equiv> map_option (\<lambda>b. py_str (ce_repr (be_cnp be)) (jget b ''bidder_id'')) (map_of best (JStr t))"

lemma award_task_spec:
  assumes "award_task kv be u pid rid best s st = Inr st'"
  shows "map_of (as_awards st) t = Some a \<Longrightarrow> map_of (as_awards st') t = Some a"
    and "map_of (as_awards st) t = None \<Longrightarrow> map_option aw_bidder_id (map_of (as_awards st') t) =
      (if t = sp_task_id s then best_bidder be best t else None)"
  using assms by (auto simp: award_task_def Let_def update_conv' split: option.splits if_splits)

lemma award_task_done:
  "map_of best (JStr (sp_task_id s)) = None \<or> map_of (as_awards st) (sp_task_id s) \<noteq> None \<Longrightarrow> award_task kv be u pid rid best s st = Inr st"
  by (auto simp: award_task_def Let_def split: option.splits)

lemma award_tasks_keep:
  "award_tasks kv be u pid rid best ss st = Inr st' \<Longrightarrow> map_of (as_awards st) t = Some a \<Longrightarrow> map_of (as_awards st') t = Some a"
  by (induction ss arbitrary: st) (auto simp: bindR_iffs dest: award_task_spec(1))

lemma award_tasks_new:
  assumes "award_tasks kv be u pid rid best ss st = Inr st'" and "map_of (as_awards st) t = None"
  shows "map_option aw_bidder_id (map_of (as_awards st') t) =
    (if t \<in> sp_task_id ` set ss then best_bidder be best t else None)"
  using assms
proof (induction ss arbitrary: st)
  case (Cons s ss)
  then obtain st1 where st1: "award_task kv be u pid rid best s st = Inr st1" "award_tasks kv be u pid rid best ss st1 = Inr st'"
    by (auto simp: bindR_iffs)
  show ?case
  proof (cases "map_of (as_awards st1) t")
    case None
    then show ?thesis using Cons.IH[OF st1(2)] award_task_spec(2)[OF st1(1) Cons.prems(2)] by (auto split: if_splits)
  next
    case (Some a)
    then show ?thesis
      using award_tasks_keep[OF st1(2)] award_task_spec(2)[OF st1(1) Cons.prems(2)] by (auto split: if_splits)
  qed
qed simp

lemma award_tasks_done:
  "(\<And>s. s \<in> set ss \<Longrightarrow> map_of best (JStr (sp_task_id s)) = None \<or> map_of (as_awards st) (sp_task_id s) \<noteq> None) \<Longrightarrow>
    award_tasks kv be u pid rid best ss st = Inr st"
  by (induction ss) (auto simp: award_task_done)


definition one_award_spec :: task_spec where
  "one_award_spec = \<lparr>sp_task_id = ''t1'', sp_username = ''ann'', sp_description = ''d'', sp_required_capabilities = [], sp_tags = [],
     sp_risk_level = RiskLow, sp_requires_human_approval = False, sp_coordination_mode = SoloOnly, sp_metadata = []\<rparr>"

definition small_builder :: builder_env where
  "small_builder = \<lparr>be_reg = \<lparr>e_now = 0, e_iso = (\<lambda>t. ''t''), e_uuid = ''id-1'', e_timestamp = (\<lambda>j. 0),
       g_getenv = (\<lambda>v. None), g_float = (\<lambda>s. None), g_parse = (\<lambda>s. None), g_dump = (\<lambda>t. ''t''), g_repr = (\<lambda>j. [])\<rparr>,
     be_cnp = builder_cnp, be_default_ttl = 300, be_final_config = None, be_services = [], be_turtle = (\<lambda>g. None),
     be_loads = (\<lambda>s. None), be_dt_str = (\<lambda>s. s), be_ids = str_nat, be_plan_id = ''p1''\<rparr>"


end
