(* ===== verification/Market_System.thy ===== *)
theory Market_System
  imports Pheromone_Properties Builder_Properties
begin

section \<open>The market as a system\<close>

text \<open>
  The components that share the marker store and the registry, put together: a step of the market is a
  successful call of the pheromone engine, of the graph builder or of the handler of plan revisions, an advance
  of an evaluation sequence by the tracker, or an operation of the agent registry. Frame lemmas show which keys
  each component writes; the invariants of the shared store follow for all interleavings by rule induction.
\<close>

subsection \<open>Frames\<close>

definition untouched :: "'c kv_ops \<Rightarrow> (string \<Rightarrow> bool) \<Rightarrow> 'c \<Rightarrow> 'c \<Rightarrow> bool" where
  "untouched kv P c c' \<longleftrightarrow> (\<forall>k. P k \<longrightarrow> kv_get kv c' k = kv_get kv c k)"

named_theorems frames \<open>keys a component does not write\<close>

lemma untouched_refl [frames]: "untouched kv P c c"
  by (simp add: untouched_def)

lemma untouched_trans [trans]: "untouched kv P a b \<Longrightarrow> untouched kv P b c \<Longrightarrow> untouched kv P a c"
  by (simp add: untouched_def)

lemma key3_key2: "key3 kind u a b = key2 kind u (a @ ''::'' @ b)"
  by (simp add: key3_def key2_def)

definition is_sequence_key :: "string \<Rightarrow> bool" where
  "is_sequence_key k = (take 8 k = ''eval_seq'')"

text \<open>\<open>foreign\<close>: a class of keys with none of the kinds that the graph builder and the revision handler
  write without the evaluation sequences.\<close>

definition foreign :: "(string \<Rightarrow> bool) \<Rightarrow> bool" where
  "foreign P \<longleftrightarrow> (\<forall>kind\<in>{''award'', ''marker::reservation'', ''cfp'', ''plan_draft'', ''plan_revision''}. \<forall>u r. \<not> P (key2 kind u r))"

lemma foreign_marker: "foreign is_marker_key"
  by (simp add: foreign_def is_marker_key_def marker_prefix_def key2_def)

lemma foreign_sequence: "foreign is_sequence_key"
  by (simp add: foreign_def is_sequence_key_def key2_def numeral_eq_Suc)

lemma foreignD: "foreign P \<Longrightarrow> kind \<in> {''award'', ''marker::reservation'', ''cfp'', ''plan_draft'', ''plan_revision''} \<Longrightarrow> \<not> P (key2 kind u r)"
  by (auto simp: foreign_def)

context kv_collection
begin

lemma upsert_untouched: "\<not> P key \<Longrightarrow> untouched kv P c (kv_upsert kv key d ex c)"
  by (auto simp: untouched_def get_upsert)

lemma save_doc_untouched: "\<not> P key \<Longrightarrow> untouched kv P c (snd (save_doc kv e ty key p c))"
  by (simp add: save_doc_def upsert_untouched)

lemma save_expiring_untouched: "\<not> P key \<Longrightarrow> untouched kv P c (snd (save_expiring kv e ty key p ttl c))"
  by (simp add: save_expiring_def upsert_untouched split: option.split)

lemma award_writes:
  assumes "foreign P"
  shows "untouched kv P c (snd (add_contract_award kv e u a c))" and "untouched kv P c (snd (add_reservation_marker kv e u m ttl c))"
    and "untouched kv P c (snd (add_cfp kv e u d c))" and "untouched kv P c (snd (save_plan_draft kv e u d c))"
    and "untouched kv P c (snd (save_plan_revision kv e u d c))"
  using assms by (simp_all add: foreignD add_contract_award_def add_reservation_marker_def add_cfp_def save_plan_draft_def
      save_plan_revision_def plan_revision_key_def key3_key2 save_doc_untouched save_expiring_untouched)

lemma award_task_untouched:
  "foreign P \<Longrightarrow> award_task kv be u pid rid best s st = Inr st' \<Longrightarrow> untouched kv P (as_store st) (as_store st')"
  by (auto simp: award_task_def Let_def untouched_refl split: option.splits if_splits
      intro: untouched_trans[OF award_writes(1) award_writes(2)])

lemma award_tasks_untouched:
  assumes "foreign P"
  shows "award_tasks kv be u pid rid best ss st = Inr st' \<Longrightarrow> untouched kv P (as_store st) (as_store st')"
  by (induction ss arbitrary: st)
    (auto simp: bindR_iffs untouched_refl intro: untouched_trans[OF award_task_untouched[OF assms]])

lemma close_cfps_untouched:
  assumes "foreign P"
  shows "close_cfps kv be u ids ts cfps c = Inr c' \<Longrightarrow> untouched kv P c c'"
  by (induction cfps arbitrary: c)
    (auto simp: Let_def untouched_refl split: if_splits option.splits intro: untouched_trans[OF award_writes(3)[OF assms]])

lemma save_sequences_untouched:
  assumes "\<And>u r. \<not> P (key2 ''eval_seq'' u r)"
  shows "save_sequences kv be u pid rid rs c = Inr c' \<Longrightarrow> untouched kv P c c'"
proof (induction rs arbitrary: c)
  case (Cons x rs)
  have w: "untouched kv P c (snd (save_evaluation_sequence kv e u d c))" for e d
    by (simp add: save_evaluation_sequence_def eval_seq_key_def key3_key2 save_doc_untouched assms)
  show ?case using Cons untouched_trans[OF w] by (cases x) (auto split: if_splits)
qed (simp add: untouched_refl)

lemma revise_untouched:
  assumes "foreign P" and "handle_revise_plan kv ops e turtle has cmd (c, r) = (ev, c', r')"
  shows "untouched kv P c c'"
  using assms(2) untouched_trans[OF award_writes(4)[OF assms(1)] award_writes(5)[OF assms(1)]]
  by (auto simp: handle_revise_plan_def Let_def untouched_refl split: option.splits list.splits)

end

definition open_calls :: "'c kv_ops \<Rightarrow> string \<Rightarrow> json list \<Rightarrow> 'c \<Rightarrow> doc list" where
  "open_calls kv u only c = (let cfps = fst (list_cfps kv u None (Some ''open'') no_listing c)
     in if only = [] then cfps else filter (\<lambda>d. jget d ''task_id'' \<in> set only) cfps)"

definition pipeline_bids :: "'c kv_ops \<Rightarrow> string \<Rightarrow> string \<Rightarrow> string option \<Rightarrow> 'c \<Rightarrow> doc list" where
  "pipeline_bids kv u pid rid c = fst (list_bids kv u None None (Some pid) rid no_listing c)"

lemma build_plan_draft_steps:
  assumes "build_plan_draft kv ops be u pid rid only (Some c) registry runs = Inr (draft, c', rg, rn)"
  obtains best specs st0 st ids ts c1 ranked c2 e d rv where
    "award_tasks kv be u pid rid best specs st0 = Inr st" and "as_store st0 = c"
    and "close_cfps kv be u ids ts (open_calls kv u only c) (as_store st) = Inr c1"
    and "ranked_bids (be_cnp be) (bid_filter_of be (open_calls kv u only c)) (pipeline_bids kv u pid rid c) = Inr ranked"
    and "save_sequences kv be u pid rid ranked c1 = Inr c2"
    and "c' = snd (save_plan_revision kv e u rv (snd (save_plan_draft kv e u d c2)))"
    and "pd_plan_id draft = be_plan_id be"
  using assms unfolding build_plan_draft_def Let_def open_calls_def[unfolded Let_def, symmetric] pipeline_bids_def[symmetric]
  by (clarsimp simp: bindR_iffs split del: if_split)


lemma build_plan_draft_untouched:
  assumes kv: "kv_collection kv" and P: "foreign P" and seq: "\<And>u r. \<not> P (key2 ''eval_seq'' u r)"
    and b: "build_plan_draft kv ops be u pid rid only (Some c) registry runs = Inr (draft, c', rg, rn)"
  shows "untouched kv P c c'"
proof -
  from b obtain best specs st0 st ids ts c1 ranked c2 e d rv where
    s: "award_tasks kv be u pid rid best specs st0 = Inr st" "as_store st0 = c"
      "close_cfps kv be u ids ts (open_calls kv u only c) (as_store st) = Inr c1"
      "save_sequences kv be u pid rid ranked c1 = Inr c2"
      "c' = snd (save_plan_revision kv e u rv (snd (save_plan_draft kv e u d c2)))"
    by (rule build_plan_draft_steps)
  have "untouched kv P c (as_store st)" using kv_collection.award_tasks_untouched[OF kv P s(1)] s(2) by simp
  also have "untouched kv P (as_store st) c1" by (rule kv_collection.close_cfps_untouched[OF kv P s(3)])
  also have "untouched kv P c1 c2" by (rule kv_collection.save_sequences_untouched[OF kv _ s(4)]) (rule seq)
  also have "untouched kv P c2 (snd (save_plan_draft kv e u d c2))" by (rule kv_collection.award_writes(4)[OF kv P])
  also have "untouched kv P (snd (save_plan_draft kv e u d c2)) c'" unfolding s(5) by (rule kv_collection.award_writes(5)[OF kv P])
  finally show ?thesis .
qed

subsection \<open>Steps of the market\<close>

type_synonym ('c, 'r) market = "'c \<times> 'c option \<times> 'r option"

inductive market_step :: "'c kv_ops \<Rightarrow> ('r, doc) doc_ops \<Rightarrow> phero_config \<Rightarrow> ('c, 'r) market \<Rightarrow> ('c, 'r) market \<Rightarrow> bool"
  for kv :: "'c kv_ops" and ops :: "('r, doc) doc_ops" and ph :: phero_config where
  feedback: "load_phero_config g = ph \<Longrightarrow> run_pheromone kv g ce ids load ttl msg (Some c) rg = Inr (res, Some c', rg')
    \<Longrightarrow> market_step kv ops ph (c, rg, rn) (c', rg', rn)"
| build: "build_plan_draft kv ops be u pid rid only (Some c) rg rn = Inr (draft, c', rg', rn')
    \<Longrightarrow> market_step kv ops ph (c, rg, rn) (c', rg', rn')"
| revise: "handle_revise_plan kv ops e turtle True cmd (c, r) = (ev, c', r') \<Longrightarrow> market_step kv ops ph (c, rg, Some r) (c', rg, Some r')"
| reforward: "advance_evaluation_sequence kv e u t plan c = (res, c') \<Longrightarrow> market_step kv ops ph (c, rg, rn) (c', rg, rn)"
| register: "upsert_agent g kv ttl u entry t rg = (k, rg') \<Longrightarrow> market_step kv ops ph (c, Some rg, rn) (c, Some rg', rn)"
| beat: "heartbeat g kv ttl u a status t md rg = Inr (d, rg') \<Longrightarrow> market_step kv ops ph (c, Some rg, rn) (c, Some rg', rn)"
| leave: "delete_agent kv u a rg = Inr rg' \<Longrightarrow> market_step kv ops ph (c, Some rg, rn) (c, Some rg', rn)"

inductive_cases market_stepE: "market_step kv ops ph s s'"

text \<open>The contract of a system with an invariant, and what its clients get: it holds in all reachable states.\<close>

locale invariant_system =
  fixes step :: "'s \<Rightarrow> 's \<Rightarrow> bool" and inv :: "'s \<Rightarrow> bool"
  assumes preserved: "step s s' \<Longrightarrow> inv s \<Longrightarrow> inv s'"
begin

lemma reachable_inv: "step\<^sup>*\<^sup>* s s' \<Longrightarrow> inv s \<Longrightarrow> inv s'"
  by (induction rule: rtranclp_induct) (auto intro: preserved)

end

definition sound_bounds :: "phero_config \<Rightarrow> bool" where
  "sound_bounds ph \<longleftrightarrow> 0 \<le> ph_min ph \<and> ph_min ph \<le> ph_max ph \<and> ph_decay ph \<le> 1"

definition markers_inv :: "'c kv_ops \<Rightarrow> phero_config \<Rightarrow> ('c, 'r) market \<Rightarrow> bool" where
  "markers_inv kv ph s \<longleftrightarrow> (sound_bounds ph \<longrightarrow> markers_fine kv ph (fst s))"

lemma untouched_markers: "untouched kv is_marker_key c c' \<Longrightarrow> markers_fine kv ph c \<Longrightarrow> markers_fine kv ph c'"
  by (auto simp: untouched_def markers_fine_def)

lemma sequence_not_marker: "\<not> is_marker_key (key2 ''eval_seq'' u r)"
  by (simp add: is_marker_key_def marker_prefix_def key2_def)

lemma advance_untouched:
  assumes "kv_collection kv" and "advance_evaluation_sequence kv e u t p c = (res, c')"
  shows "untouched kv is_marker_key c c'"
  using assms(2) sequence_not_marker
  by (auto simp: advance_evaluation_sequence_def eval_seq_key_def key3_key2 Let_def untouched_refl
      split: option.splits if_splits intro!: kv_collection.upsert_untouched[OF assms(1)])

lemma market_step_markers:
  assumes kv: "kv_collection kv" and "market_step kv ops ph s s'" and "markers_inv kv ph s"
  shows "markers_inv kv ph s'"
  using assms(2)
proof cases
  case (feedback g ce ids load ttl msg c rg res c' rg' rn)
  then show ?thesis
    using markers_stay_valid[OF kv, of ph g c ce ids load ttl msg rg res c' rg'] assms(3) by (auto simp: markers_inv_def sound_bounds_def)
next
  case (build be u pid rid only c rg rn draft c' rg' rn')
  then show ?thesis
    using untouched_markers[OF build_plan_draft_untouched[OF kv foreign_marker sequence_not_marker build(3)]] assms(3)
    by (auto simp: markers_inv_def)
next
  case (revise e turtle cmd c r ev c' r' rg)
  then show ?thesis
    using untouched_markers[OF kv_collection.revise_untouched[OF kv foreign_marker revise(3)]] assms(3) by (auto simp: markers_inv_def)
next
  case (reforward e u t plan c res c' rg rn)
  then show ?thesis using untouched_markers[OF advance_untouched[OF kv reforward(3)]] assms(3) by (auto simp: markers_inv_def)
qed (use assms(3) in \<open>simp_all add: markers_inv_def\<close>)

sublocale kv_collection \<subseteq> market: invariant_system "market_step kv ops ph" "markers_inv kv ph" for ops ph
  by unfold_locales (rule market_step_markers[OF kv_collection_axioms])
context kv_collection
begin

lemma market_reachable:
  "(market_step kv ops ph)\<^sup>*\<^sup>* s s' \<Longrightarrow> sound_bounds ph \<Longrightarrow> markers_fine kv ph (fst s) \<Longrightarrow> markers_fine kv ph (fst s')"
  using market.reachable_inv[of ops ph s s'] by (simp add: markers_inv_def)

end

subsection \<open>Evaluation sequences\<close>

definition holds_sequence :: "'c kv_ops \<Rightarrow> string \<Rightarrow> json list \<Rightarrow> 'c \<Rightarrow> bool" where
  "holds_sequence kv key cs c \<longleftrightarrow>
     (\<exists>d. kv_get kv c key = Some d \<and> jget d ''candidates'' = JList cs \<and> jget d ''current_index'' = JInt 0)"

lemma eval_seq_key_inj: "eval_seq_key u t p = eval_seq_key u t' p \<longleftrightarrow> t = t'"
  by (simp add: eval_seq_key_def key3_def key2_def)

context kv_collection
begin

lemma save_sequences_other:
  "save_sequences kv be u pid rid rs c = Inr c' \<Longrightarrow> JStr t \<notin> fst ` set rs \<Longrightarrow>
    kv_get kv c' (eval_seq_key u t (be_plan_id be)) = kv_get kv c (eval_seq_key u t (be_plan_id be))"
proof (induction rs arbitrary: c)
  case (Cons x rs)
  obtain j bs where x: "x = (j, bs)" by fastforce
  show ?case
  proof (cases "length bs \<le> 1")
    case False
    then obtain s where s: "j = JStr s" using Cons.prems(1) x by (cases j) (auto split: if_splits)
    then show ?thesis
      using Cons.IH Cons.prems x False by (auto simp: save_evaluation_sequence_def save_doc_def get_upsert sfield_def eval_seq_key_inj split: if_splits)
  qed (use Cons x in auto)
qed simp

lemma save_sequences_holds:
  "save_sequences kv be u pid rid rs c = Inr c' \<Longrightarrow> distinct (dict_keys rs) \<Longrightarrow> (JStr t, bs) \<in> set rs \<Longrightarrow> 1 < length bs \<Longrightarrow>
    holds_sequence kv (eval_seq_key u t (be_plan_id be)) (map (sequence_candidate (be_cnp be)) bs) c'"
proof (induction rs arbitrary: c)
  case (Cons x rs)
  show ?case
  proof (cases "x = (JStr t, bs)")
    case True
    then have fresh: "JStr t \<notin> fst ` set rs" using Cons.prems(2) by auto
    from True Cons.prems(1,4) have "save_sequences kv be u pid rid rs
      (snd (save_evaluation_sequence kv (store_env.truncate (be_reg be)) u
          [(''task_id'', JStr t), (''pipeline_id'', JStr pid), (''pipeline_run_id'', jopt JStr rid), (''plan_id'', JStr (be_plan_id be)),
           (''cfp_id'', jget (hd bs) ''cfp_id''), (''candidates'', JList (map (sequence_candidate (be_cnp be)) bs)),
           (''current_index'', JInt 0), (''created_at'', JStr (g_dump (be_reg be) (e_now (be_reg be))))] c)) = Inr c'"
      by (simp split: if_splits)
    from save_sequences_other[OF this fresh] show ?thesis
      by (simp add: holds_sequence_def save_evaluation_sequence_def save_doc_def get_upsert sfield_def with_meta_def)
  next
    case False
    then show ?thesis using Cons by (cases x) (auto split: if_splits)
  qed
qed simp

end

lemma build_holds_sequence:
  assumes kv: "kv_collection kv"
    and b: "build_plan_draft kv ops be u pid rid only (Some c) registry runs = Inr (draft, c', rg, rn)"
    and bs: "bs = py_sort (bid_score_of (be_cnp be)) True
      (task_bids (be_cnp be) (bid_filter_of be (open_calls kv u only c)) (pipeline_bids kv u pid rid c) (JStr t))" and "1 < length bs"
  shows "holds_sequence kv (eval_seq_key u t (pd_plan_id draft)) (map (sequence_candidate (be_cnp be)) bs) c'"
proof -
  from b obtain c1 ranked c2 e d rv where
    s: "ranked_bids (be_cnp be) (bid_filter_of be (open_calls kv u only c)) (pipeline_bids kv u pid rid c) = Inr ranked"
      "save_sequences kv be u pid rid ranked c1 = Inr c2"
      "c' = snd (save_plan_revision kv e u rv (snd (save_plan_draft kv e u d c2)))" "pd_plan_id draft = be_plan_id be"
    by (rule build_plan_draft_steps)
  have "map_of ranked (JStr t) = Some bs" using ranked_of(1)[OF s(1), of "JStr t"] bs assms(4) by auto
  then have "holds_sequence kv (eval_seq_key u t (be_plan_id be)) (map (sequence_candidate (be_cnp be)) bs) c2"
    using kv_collection.save_sequences_holds[OF kv s(2) ranked_of(2)[OF s(1)]] assms(4) by (auto dest: map_of_SomeD)
  moreover have "untouched kv is_sequence_key c2 c'"
    unfolding s(3) using untouched_trans[OF kv_collection.award_writes(4)[OF kv] kv_collection.award_writes(5)[OF kv]] foreign_sequence by blast
  moreover have "is_sequence_key (eval_seq_key u t (be_plan_id be))"
    by (simp add: is_sequence_key_def eval_seq_key_def key3_def key2_def numeral_eq_Suc)
  ultimately show ?thesis by (simp add: holds_sequence_def untouched_def s(4))
qed

end
