(* ===== verification/Bidder_Properties.thy ===== *)
theory Bidder_Properties
  imports Blueprint_Bidder Market_System
begin

section \<open>Properties of the bidder\<close>

text \<open>
  The bids on a call never exceed the limit of the call, through any run of the bidder and all its tasks; a call of
  a new round has a higher round than every earlier call of its task and a stimulus between the base and the
  maximum; and a run without agents still leaves a bid for every task when the system may stand in. The names of
  users and tasks are those without a wildcard and a colon (\<open>name_ok\<close>).
\<close>

subsection \<open>Counting bids\<close>

definition name_ok :: "string \<Rightarrow> bool" where
  "name_ok s \<longleftrightarrow> s \<noteq> [] \<and> plain s \<and> CHR '':'' \<notin> set s"

definition is_bid :: "bidder_env \<Rightarrow> string \<Rightarrow> string \<Rightarrow> doc \<Rightarrow> bool" where
  "is_bid bd t i d \<longleftrightarrow> jget d ''task_id'' = JStr t \<and> truthy (jget d ''bidder_id'') \<and> cfp_key bd (jget d ''cfp_id'') = i"

definition bid_keys :: "'c kv_ops \<Rightarrow> bidder_env \<Rightarrow> string \<Rightarrow> string \<Rightarrow> string \<Rightarrow> 'c \<Rightarrow> string set" where
  "bid_keys kv bd u t i c = {k. \<exists>d. kv_get kv c k = Some d \<and> like ((prefix2 ''bid'' u @ t @ ''::'') @ ''%'') k \<and> is_bid bd t i d}"

definition booked :: "'c kv_ops \<Rightarrow> bidder_env \<Rightarrow> string \<Rightarrow> string \<Rightarrow> string \<Rightarrow> 'c \<Rightarrow> nat" where
  "booked kv bd u t i c = length (dict_get (existing_bid_state kv bd u t c) i [])"

lemma fold_buckets:
  "dict_get (fold (\<lambda>b m. if P b then dict_append m (f b) (g b) else m) bs m) i [] =
     dict_get m i [] @ map g (filter (\<lambda>b. P b \<and> f b = i) bs)"
  by (induction bs arbitrary: m) auto

context kv_collection
begin

lemma finite_rows: "finite {k. \<exists>d. kv_get kv c k = Some d \<and> like pat k \<and> Q k d}"
proof -
  have "{k. \<exists>d. kv_get kv c k = Some d \<and> like pat k \<and> Q k d} \<subseteq> fst ` set (kv_rows kv c pat None None)"
    by (force simp: rows_set)
  then show ?thesis using finite_subset by blast
qed

lemma rows_count: "length (filter (\<lambda>(k, d). Q d) (kv_rows kv c pat ord None)) = card {k. \<exists>d. kv_get kv c k = Some d \<and> like pat k \<and> Q d}"
proof -
  let ?rs = "filter (\<lambda>(k, d). Q d) (kv_rows kv c pat ord None)"
  have "distinct (map fst ?rs)" using rows_distinct[of c pat ord] by (auto simp: distinct_map intro: inj_on_subset)
  then have "length ?rs = card (set (map fst ?rs))" by (metis distinct_card length_map)
  also have "set (map fst ?rs) = {k. \<exists>d. kv_get kv c k = Some d \<and> like pat k \<and> Q d}" by (force simp: rows_set)
  finally show ?thesis .
qed

lemma booked_card: "t \<noteq> [] \<Longrightarrow> booked kv bd u t i c = card (bid_keys kv bd u t i c)"
proof -
  assume t: "t \<noteq> []"
  let ?pat = "(prefix2 ''bid'' u @ t @ ''::'') @ ''%''"
  have "booked kv bd u t i c =
      length (filter (\<lambda>(k, d). is_bid bd t i d) (kv_rows kv c ?pat (Some (''bid_score'', True)) None))"
    using t by (auto simp: booked_def existing_bid_state_def fold_buckets list_bids_def list_page_def list_by_prefix_def no_listing_def
        allowed_sort_fields_def keep_def narrow_def given_def filter_map o_def case_prod_unfold is_bid_def Let_def
        intro!: arg_cong[where f = length] filter_cong)
  then show ?thesis by (simp add: rows_count bid_keys_def)
qed

lemma finite_bid_keys: "finite (bid_keys kv bd u t i c)"
  unfolding bid_keys_def by (rule finite_rows)

lemma bid_keys_foreign: "take 3 key \<noteq> ''bid'' \<Longrightarrow> bid_keys kv bd u t i (kv_upsert kv key d ex c) = bid_keys kv bd u t i c"
proof -
  assume key: "take 3 key \<noteq> ''bid''"
  have "like ((prefix2 ''bid'' u @ t @ ''::'') @ ''%'') k \<Longrightarrow> take 3 k = ''bid''" for k
    by (cases k; cases "tl k"; cases "tl (tl k)") (auto simp: prefix2_def)
  with key show ?thesis by (auto simp: bid_keys_def get_upsert)
qed

lemma booked_foreign: "take 3 key \<noteq> ''bid'' \<Longrightarrow> t \<noteq> [] \<Longrightarrow> booked kv bd u t i (kv_upsert kv key d ex c) = booked kv bd u t i c"
  by (simp add: booked_card bid_keys_foreign)

lemma bid_keys_upsert: "bid_keys kv bd u t i (kv_upsert kv key d ex c) \<subseteq>
    (if is_bid bd t i d then insert key (bid_keys kv bd u t i c) else bid_keys kv bd u t i c)"
  by (auto simp: bid_keys_def get_upsert split: if_splits)

lemma booked_upsert: "t \<noteq> [] \<Longrightarrow> booked kv bd u t i (kv_upsert kv key d ex c) \<le> booked kv bd u t i c + (if is_bid bd t i d then 1 else 0)"
proof -
  assume t: "t \<noteq> []"
  have "card (bid_keys kv bd u t i (kv_upsert kv key d ex c)) \<le>
      card (if is_bid bd t i d then insert key (bid_keys kv bd u t i c) else bid_keys kv bd u t i c)"
    by (rule card_mono) (simp_all add: finite_bid_keys bid_keys_upsert)
  also have "\<dots> \<le> card (bid_keys kv bd u t i c) + (if is_bid bd t i d then 1 else 0)"
    by (simp add: card_insert_if finite_bid_keys)
  finally show ?thesis by (simp add: booked_card[OF t])
qed

end

subsection \<open>Calls filed under their keys\<close>

definition call :: "'c kv_ops \<Rightarrow> string \<Rightarrow> string \<Rightarrow> string \<Rightarrow> 'c \<Rightarrow> doc option" where
  "call kv u t i c = kv_get kv c (key3 ''cfp'' u t i)"

definition filed :: "'c kv_ops \<Rightarrow> string \<Rightarrow> 'c \<Rightarrow> bool" where
  "filed kv u c \<longleftrightarrow> (\<forall>k d. kv_get kv c k = Some d \<and> take (length (prefix2 ''cfp'' u)) k = prefix2 ''cfp'' u \<longrightarrow>
     (\<exists>t i. name_ok t \<and> i \<noteq> [] \<and> k = key3 ''cfp'' u t i \<and> jget d ''task_id'' = JStr t \<and> jget d ''cfp_id'' = JStr i))"

definition calls :: "'c kv_ops \<Rightarrow> string \<Rightarrow> string \<Rightarrow> string option \<Rightarrow> 'c \<Rightarrow> doc list" where
  "calls kv u t status c = fst (list_cfps kv u (Some t) status no_listing c)"

definition current :: "'c kv_ops \<Rightarrow> bidder_env \<Rightarrow> string \<Rightarrow> string \<Rightarrow> 'c \<Rightarrow> doc \<Rightarrow> bool" where
  "current kv bd u t c d \<longleftrightarrow> (\<exists>i d'. i \<noteq> [] \<and> jget d ''cfp_id'' = JStr i \<and> jget d ''task_id'' = JStr t \<and> call kv u t i c = Some d' \<and>
     jget d' ''max_bids'' = jget d ''max_bids'')"

text \<open>Open calls as the next step gets them: known to the store, each with an identifier of its own.\<close>

definition biddable :: "'c kv_ops \<Rightarrow> bidder_env \<Rightarrow> string \<Rightarrow> string \<Rightarrow> 'c \<Rightarrow> doc list \<Rightarrow> bool" where
  "biddable kv bd u t c ds \<longleftrightarrow> ds \<noteq> [] \<and> distinct (map (\<lambda>d. jget d ''cfp_id'') ds) \<and> (\<forall>d \<in> set ds. current kv bd u t c d)"

definition same_bids :: "'c kv_ops \<Rightarrow> bidder_env \<Rightarrow> string \<Rightarrow> 'c bid_state \<Rightarrow> 'c bid_state \<Rightarrow> bool" where
  "same_bids kv bd u s s' \<longleftrightarrow> (\<forall>t i. t \<noteq> [] \<longrightarrow> booked kv bd u t i (bs_store s') = booked kv bd u t i (bs_store s))"

lemma same_bids_order: "reflp (same_bids kv bd u)" "transp (same_bids kv bd u)"
  by (auto simp: same_bids_def intro!: reflpI transpI)

lemma key_split: "CHR '':'' \<notin> set t \<Longrightarrow> CHR '':'' \<notin> set t' \<Longrightarrow> t @ ''::'' @ i = t' @ ''::'' @ i' \<longleftrightarrow> t = t' \<and> i = i'"
proof -
  assume n: "CHR '':'' \<notin> set t" "CHR '':'' \<notin> set t'"
  have h: "takeWhile (\<lambda>c. c \<noteq> CHR '':'') (w @ CHR '':'' # r) = w" if "CHR '':'' \<notin> set w" for w r
    using that by (induction w) auto
  from h[OF n(1), of "CHR '':'' # i"] h[OF n(2), of "CHR '':'' # i'"] show ?thesis by auto
qed

lemma name_okD: "name_ok t \<Longrightarrow> t \<noteq> [] \<and> plain t \<and> CHR '':'' \<notin> set t"
  by (simp add: name_ok_def)

lemma like_literal: "plain p \<Longrightarrow> like (p @ ''%'') k \<longleftrightarrow> take (length p) k = p"
proof -
  assume p: "plain p"
  then have "CHR ''%'' \<notin> set p" by (simp add: plain_def)
  from like_append[OF this, of "''%''" k] like_plain[OF p, of "take (length p) k"] show ?thesis
    by (auto simp: like_percent dest: arg_cong[of "take _ _" _ length])
qed

lemma plain_parts: "name_ok u \<Longrightarrow> name_ok t \<Longrightarrow> plain (prefix2 ''cfp'' u @ t @ ''::'')"
  by (auto simp: plain_def prefix2_def name_ok_def)

lemma given_Some: "given (Some t) \<longleftrightarrow> t \<noteq> []" "\<not> given None"
  by (simp_all add: given_def)

context kv_collection
begin

lemma calls_listedE:
  assumes "name_ok u" "name_ok t" "filed kv u c" and d: "d \<in> set (calls kv u t status c)"
  obtains i d' where "i \<noteq> []" "d = (''id'', JStr (key3 ''cfp'' u t i)) # d'" "call kv u t i c = Some d'"
    "jget d' ''cfp_id'' = JStr i" "jget d' ''task_id'' = JStr t"
proof -
  have ts: "t \<noteq> []" using assms(2) name_okD by blast
  from d ts obtain k d' where k: "kv_get kv c k = Some d'" "like ((prefix2 ''cfp'' u @ t @ ''::'') @ ''%'') k" "d = (''id'', JStr k) # d'"
    by (auto simp: calls_def list_cfps_def list_page_def list_by_prefix_def no_listing_def narrow_def given_def keep_def Let_def rows_set split: if_splits)
  then have pre: "take (length (prefix2 ''cfp'' u @ t @ ''::'')) k = prefix2 ''cfp'' u @ t @ ''::''"
    using like_literal[OF plain_parts[OF assms(1,2)]] by blast
  then have k': "k = prefix2 ''cfp'' u @ t @ ''::'' @ drop (length (prefix2 ''cfp'' u @ t @ ''::'')) k" by (metis append_assoc append_take_drop_id)
  then have "take (length (prefix2 ''cfp'' u)) k = prefix2 ''cfp'' u" by (metis append_eq_conv_conj)
  then obtain t' i where f: "name_ok t'" "i \<noteq> []" "k = key3 ''cfp'' u t' i" "jget d' ''task_id'' = JStr t'" "jget d' ''cfp_id'' = JStr i"
    using assms(3) k(1) unfolding filed_def by blast
  have "t @ ''::'' @ drop (length (prefix2 ''cfp'' u @ t @ ''::'')) k = t' @ ''::'' @ i"
    using k' f(3) by (simp add: key3_def key2_def prefix2_def)
  then have "t = t'" using key_split name_okD[OF assms(2)] name_okD[OF f(1)] by metis
  with that k f show thesis by (simp add: call_def)
qed

lemma calls_current: "name_ok u \<Longrightarrow> name_ok t \<Longrightarrow> filed kv u c \<Longrightarrow> d \<in> set (calls kv u t status c) \<Longrightarrow> current kv bd u t c d"
  by (erule (3) calls_listedE) (auto simp: current_def)

lemma calls_distinct:
  assumes "name_ok u" "name_ok t" "filed kv u c"
  shows "distinct (map (\<lambda>d. jget d ''cfp_id'') (calls kv u t status c))"
proof -
  have ts: "t \<noteq> []" using assms(2) name_okD by blast
  obtain P where P: "calls kv u t status c = filter P (map (\<lambda>(k, d). (''id'', JStr k) # d)
      (kv_rows kv c ((prefix2 ''cfp'' u @ t @ ''::'') @ ''%'') (Some (''created_at'', True)) None))"
  proof (cases "given status")
    case True
    then show thesis using that[of "\<lambda>d. jget d ''status'' = JStr (the status)"] ts
      by (simp add: calls_def list_cfps_def list_page_def list_by_prefix_def no_listing_def narrow_def given_Some keep_def Let_def allowed_sort_fields_def)
  next
    case False
    then show thesis using that[of "\<lambda>_. True"] ts
      by (simp add: calls_def list_cfps_def list_page_def list_by_prefix_def no_listing_def narrow_def given_Some keep_def Let_def allowed_sort_fields_def)
  qed
  let ?rows = "kv_rows kv c ((prefix2 ''cfp'' u @ t @ ''::'') @ ''%'') (Some (''created_at'', True)) None"
  have "map (\<lambda>d. jget d ''id'') (map (\<lambda>(k, d). (''id'', JStr k) # d) ?rows) = map JStr (map fst ?rows)" by auto
  then have "distinct (map (\<lambda>d. jget d ''id'') (map (\<lambda>(k, d). (''id'', JStr k) # d) ?rows))"
    using rows_distinct[of c "(prefix2 ''cfp'' u @ t @ ''::'') @ ''%''" "Some (''created_at'', True)"]
    by (simp only: distinct_map[of JStr]) (simp add: inj_on_def)
  then have "distinct (map (\<lambda>d. jget d ''id'') (calls kv u t status c))" unfolding P by (rule distinct_map_filter)
  moreover have "inj_on (\<lambda>d. jget d ''cfp_id'') (set (calls kv u t status c))"
  proof (rule inj_onI)
    fix x y assume x: "x \<in> set (calls kv u t status c)" and y: "y \<in> set (calls kv u t status c)" and e: "jget x ''cfp_id'' = jget y ''cfp_id''"
    obtain i x' where i: "x = (''id'', JStr (key3 ''cfp'' u t i)) # x'" "call kv u t i c = Some x'" "jget x' ''cfp_id'' = JStr i"
      using calls_listedE[OF assms x] by metis
    obtain j y' where j: "y = (''id'', JStr (key3 ''cfp'' u t j)) # y'" "call kv u t j c = Some y'" "jget y' ''cfp_id'' = JStr j"
      using calls_listedE[OF assms y] by metis
    have "i = j" using e i(1,3) j(1,3) by simp
    then show "x = y" using i j by simp
  qed
  ultimately show ?thesis by (auto simp: distinct_map)
qed

end

subsection \<open>The limit of a call\<close>

definition call_limit :: "'c kv_ops \<Rightarrow> bidder_env \<Rightarrow> string \<Rightarrow> string \<Rightarrow> string \<Rightarrow> 'c \<Rightarrow> nat" where
  "call_limit kv bd u t i c = (case call kv u t i c of None \<Rightarrow> 0 | Some d \<Rightarrow> nat (bid_limit bd d))"

text \<open>\<open>fair\<close>: the calls are filed, the identifiers not drawn yet name no call, and since the store \<open>c0\<close> no
  call has got bids above its limit.\<close>

definition fair :: "'c kv_ops \<Rightarrow> bidder_env \<Rightarrow> string \<Rightarrow> 'c \<Rightarrow> 'c bid_state \<Rightarrow> bool" where
  "fair kv bd u c0 st \<longleftrightarrow> filed kv u (bs_store st) \<and>
     (\<forall>m t. name_ok t \<longrightarrow> bs_next st \<le> m \<longrightarrow> call kv u t (bd_ids bd m) (bs_store st) = None) \<and>
     (\<forall>t i. name_ok t \<longrightarrow> booked kv bd u t i (bs_store st) \<le> max (booked kv bd u t i c0) (call_limit kv bd u t i (bs_store st)))"

lemma fairI:
  assumes "filed kv u (bs_store st)" and "\<And>m t. name_ok t \<Longrightarrow> bs_next st \<le> m \<Longrightarrow> call kv u t (bd_ids bd m) (bs_store st) = None"
    and "\<And>t i. name_ok t \<Longrightarrow> booked kv bd u t i (bs_store st) \<le> max (booked kv bd u t i c0) (call_limit kv bd u t i (bs_store st))"
  shows "fair kv bd u c0 st"
  using assms by (simp add: fair_def)

lemma fairD:
  assumes "fair kv bd u c0 st"
  shows "filed kv u (bs_store st)" and "name_ok t \<Longrightarrow> bs_next st \<le> m \<Longrightarrow> call kv u t (bd_ids bd m) (bs_store st) = None"
    and "name_ok t \<Longrightarrow> booked kv bd u t i (bs_store st) \<le> max (booked kv bd u t i c0) (call_limit kv bd u t i (bs_store st))"
  using assms by (auto simp: fair_def)

definition drawn_ids :: "bidder_env \<Rightarrow> bool" where
  "drawn_ids bd \<longleftrightarrow> inj (bd_ids bd) \<and> (\<forall>n. bd_ids bd n \<noteq> [])"

lemma cfp_key_str: "i \<noteq> [] \<Longrightarrow> cfp_key bd (JStr i) = i"
  by (simp add: cfp_key_def)

lemma cfp_dump_fields:
  assumes "cfp_dump now uuid d = Some d2"
  shows "jget d ''task_id'' = JStr t \<Longrightarrow> jget d2 ''task_id'' = JStr t" and "jget d ''cfp_id'' = JStr i \<Longrightarrow> jget d2 ''cfp_id'' = JStr i"
    and "jget d2 ''max_bids'' = jget d ''max_bids''"
proof -
  from assms obtain t' i' mb where f: "field as_str None d ''task_id'' = Some t'" "field as_str (Some uuid) d ''cfp_id'' = Some i'"
    "field (as_opt as_int) (Some None) d ''max_bids'' = Some mb"
    "jget d2 ''task_id'' = JStr t'" "jget d2 ''cfp_id'' = JStr i'" "jget d2 ''max_bids'' = jopt JInt mb"
    by (clarsimp simp: cfp_dump_def bind_eq_Some_conv)
  show "jget d ''task_id'' = JStr t \<Longrightarrow> jget d2 ''task_id'' = JStr t" "jget d ''cfp_id'' = JStr i \<Longrightarrow> jget d2 ''cfp_id'' = JStr i"
    using f by (auto simp: field_def jget_def dict_get_def split: option.splits)
  show "jget d2 ''max_bids'' = jget d ''max_bids''"
    using f(3,6) by (cases "jget d ''max_bids''") (auto simp: field_def jget_def dict_get_def as_opt_def jopt_def split: option.splits)
qed

context kv_collection
begin

lemma add_cfp_store: "jget d ''task_id'' = JStr t \<Longrightarrow> jget d ''cfp_id'' = JStr i \<Longrightarrow>
    snd (add_cfp kv e u d c) = kv_upsert kv (key3 ''cfp'' u t i) (with_meta e ''cfp'' d) None c"
  by (simp add: add_cfp_def save_doc_def sfield_def)

lemma key3_inj: "name_ok t \<Longrightarrow> name_ok t' \<Longrightarrow> key3 ''cfp'' u t i = key3 ''cfp'' u t' i' \<longleftrightarrow> t = t' \<and> i = i'"
  using key_split[of t t' i i'] name_okD by (auto simp: key3_def key2_def)

lemma call_upsert: "name_ok t \<Longrightarrow> name_ok t' \<Longrightarrow>
    call kv u t' i' (kv_upsert kv (key3 ''cfp'' u t i) d ex c) = (if t' = t \<and> i' = i then Some d else call kv u t' i' c)"
  using key3_inj[of t' t u i' i] by (auto simp: call_def get_upsert)

lemma filed_call:
  assumes "filed kv u c" and "call kv u t i c = Some d"
  shows "\<exists>t' i'. name_ok t' \<and> key3 ''cfp'' u t i = key3 ''cfp'' u t' i' \<and> i' \<noteq> []"
proof -
  have "take (length (prefix2 ''cfp'' u)) (key3 ''cfp'' u t i) = prefix2 ''cfp'' u" by (simp add: prefix2_def key3_def key2_def)
  with assms show ?thesis unfolding filed_def call_def by blast
qed

text \<open>A call is written: what was known of the others stays.\<close>

lemma write_call:
  assumes "fair kv bd u c0 st" and t: "name_ok t" and i: "i \<noteq> []" and d: "jget d ''task_id'' = JStr t" "jget d ''cfp_id'' = JStr i"
    and lim: "booked kv bd u t i (bs_store st) \<le> max (booked kv bd u t i c0) (nat (bid_limit bd d))"
    and new: "\<And>m. n \<le> m \<Longrightarrow> bs_next st \<le> m \<and> bd_ids bd m \<noteq> i"
    and st': "st' = st\<lparr>bs_store := snd (add_cfp kv e u d (bs_store st)), bs_next := n\<rparr>"
  shows "fair kv bd u c0 st'" and "current kv bd u t (bs_store st') d"
proof -
  let ?c = "bs_store st" and ?k = "key3 ''cfp'' u t i"
  have c': "bs_store st' = kv_upsert kv ?k (with_meta e ''cfp'' d) None ?c" using st' d by (simp add: add_cfp_store)
  note f = fairD[OF assms(1)]
  show "fair kv bd u c0 st'"
  proof (rule fairI)
    show "filed kv u (bs_store st')"
      unfolding filed_def c' get_upsert
    proof (intro allI impI, goal_cases)
      case (1 k x)
      then show ?case
      proof (cases "k = ?k")
        case True
        then show ?thesis using 1 t i d by (auto simp: with_meta_def)
      next
        case False
        then show ?thesis using 1 f(1) unfolding filed_def by simp
      qed
    qed
  next
    fix m t' assume t': "name_ok t'" and "bs_next st' \<le> m"
    then have "n \<le> m" using st' by simp
    then show "call kv u t' (bd_ids bd m) (bs_store st') = None" using new f(2)[OF t', of m] unfolding c' call_upsert[OF t t'] by simp
  next
    fix t' i' assume t': "name_ok t'"
    have "take 3 ?k \<noteq> ''bid''" by (simp add: key3_def key2_def)
    moreover have "t' \<noteq> []" using t' name_okD by blast
    ultimately have b: "booked kv bd u t' i' (bs_store st') = booked kv bd u t' i' ?c" unfolding c' by (rule booked_foreign)
    have "call_limit kv bd u t' i' (bs_store st') = (if t' = t \<and> i' = i then nat (bid_limit bd d) else call_limit kv bd u t' i' ?c)"
      using t t' by (simp add: call_limit_def c' call_upsert bid_limit_def with_meta_def)
    then show "booked kv bd u t' i' (bs_store st') \<le> max (booked kv bd u t' i' c0) (call_limit kv bd u t' i' (bs_store st'))"
      using b lim f(3)[OF t', of i'] by auto
  qed
  show "current kv bd u t (bs_store st') d"
    using i d t by (auto simp: current_def c' call_upsert with_meta_def)
qed

lemma write_call_current:
  assumes "current kv bd u t' c d'" and t: "name_ok t" "name_ok t'" and d: "jget d ''task_id'' = JStr t" "jget d ''cfp_id'' = JStr i"
    and "\<And>d0. call kv u t i c = Some d0 \<Longrightarrow> jget d ''max_bids'' = jget d0 ''max_bids''"
  shows "current kv bd u t' (snd (add_cfp kv e u d c)) d'"
proof -
  obtain j d1 where j: "j \<noteq> []" "jget d' ''cfp_id'' = JStr j" "jget d' ''task_id'' = JStr t'" "call kv u t' j c = Some d1"
    "jget d1 ''max_bids'' = jget d' ''max_bids''" using assms(1) by (auto simp: current_def)
  define d2 where "d2 = (if t' = t \<and> j = i then with_meta e ''cfp'' d else d1)"
  have "call kv u t' j (snd (add_cfp kv e u d c)) = Some d2"
    using j(4) by (simp add: add_cfp_store[OF d] call_upsert[OF t] d2_def)
  moreover have "jget d2 ''max_bids'' = jget d' ''max_bids''" using j(4,5) assms(6)[of d1] by (auto simp: d2_def with_meta_def)
  ultimately show ?thesis using j(1-3) unfolding current_def by blast
qed

lemma close_call_fair:
  assumes "fair kv bd u c0 st" and d: "current kv bd u t (bs_store st) d" and t: "name_ok t"
  shows "fair kv bd u c0 (snd (close_call kv bd u why d st))"
    and "name_ok t' \<Longrightarrow> current kv bd u t' (bs_store st) d' \<Longrightarrow> current kv bd u t' (bs_store (snd (close_call kv bd u why d st))) d'"
proof -
  obtain i d1 where i: "i \<noteq> []" "jget d ''cfp_id'' = JStr i" "jget d ''task_id'' = JStr t" "call kv u t i (bs_store st) = Some d1"
    "jget d1 ''max_bids'' = jget d ''max_bids''" using d by (auto simp: current_def)
  define d2 where "d2 = (\<lambda>d2. dict_set ''closes_at'' (JStr (bd_now bd)) (dict_set ''status_reason'' (JStr why) (dict_set ''status'' (JStr ''closed'') d2)))"
  have both: "fair kv bd u c0 (snd (close_call kv bd u why d st)) \<and>
    (name_ok t' \<longrightarrow> current kv bd u t' (bs_store st) d' \<longrightarrow> current kv bd u t' (bs_store (snd (close_call kv bd u why d st))) d')"
  proof (cases "cfp_dump (bd_now bd) (bd_ids bd (bs_next st)) d")
    case (Some x)
    note x = cfp_dump_fields[OF Some]
    have f: "jget (d2 x) ''task_id'' = JStr t" "jget (d2 x) ''cfp_id'' = JStr i" "jget (d2 x) ''max_bids'' = jget d1 ''max_bids''"
      using x i by (simp_all add: d2_def)
    have "bid_limit bd (d2 x) = bid_limit bd d1" using f(3) by (simp add: bid_limit_def)
    then have lim: "booked kv bd u t i (bs_store st) \<le> max (booked kv bd u t i c0) (nat (bid_limit bd (d2 x)))"
      using fairD(3)[OF assms(1) t, of i] i(4) by (simp add: call_limit_def)
    have new: "bs_next st \<le> m \<and> bd_ids bd m \<noteq> i" if "Suc (bs_next st) \<le> m" for m
      using that fairD(2)[OF assms(1) t, of m] i(4) by auto
    have r: "snd (close_call kv bd u why d st) =
        st\<lparr>bs_store := snd (add_cfp kv (bd_store bd 0) u (d2 x) (bs_store st)), bs_next := Suc (bs_next st)\<rparr>"
      using Some by (simp add: close_call_def d2_def)
    have "fair kv bd u c0 (snd (close_call kv bd u why d st))" unfolding r by (rule write_call(1)[OF assms(1) t i(1) f(1,2) lim new refl])
    moreover have "jget (d2 x) ''max_bids'' = jget d0 ''max_bids''" if "call kv u t i (bs_store st) = Some d0" for d0
      using that i(4) f(3) by simp
    ultimately show ?thesis using write_call_current[OF _ t _ f(1,2)] unfolding r by simp
  qed (simp add: close_call_def assms(1))
  show "fair kv bd u c0 (snd (close_call kv bd u why d st))"
    and "name_ok t' \<Longrightarrow> current kv bd u t' (bs_store st) d' \<Longrightarrow> current kv bd u t' (bs_store (snd (close_call kv bd u why d st))) d'"
    using both by blast+
qed

lemma close_calls_fair:
  assumes "fair kv bd u c0 st" and t: "name_ok t" and ds: "\<forall>d \<in> set ds. current kv bd u t (bs_store st) d"
    and "\<forall>d \<in> set ks. current kv bd u t (bs_store st) d"
  shows "fair kv bd u c0 (snd (forS (close_call kv bd u why) ds st)) \<and>
    (\<forall>d \<in> set ks. current kv bd u t (bs_store (snd (forS (close_call kv bd u why) ds st))) d)"
proof -
  let ?I = "\<lambda>s. fair kv bd u c0 s \<and> (\<forall>d \<in> set (ds @ ks). current kv bd u t (bs_store s) d)"
  have "?I (snd (forS (close_call kv bd u why) ds st))"
  proof (rule forS_invariant)
    fix d s assume d: "d \<in> set ds" and I: "?I s"
    then have c: "current kv bd u t (bs_store s) d" by simp
    have f: "fair kv bd u c0 s" using I by blast
    show "?I (snd (close_call kv bd u why d s))" using close_call_fair[OF f c t] I t by blast
  qed (use assms in auto)
  then show ?thesis by simp
qed

lemma new_call_fields:
  assumes "new_call bd spec tp pid rnd uuid = Inr d"
  shows "jget d ''task_id'' = JStr (sp_task_id spec)" and "jget d ''cfp_id'' = JStr uuid" and "jget d ''round'' = JInt rnd" and "1 \<le> rnd"
  using assms by (auto simp: new_call_def Let_def bindR_iffs split: option.splits if_splits)

lemma announce_fair:
  assumes f: "fair kv bd u c0 st" and t: "name_ok (sp_task_id spec)" and ids: "drawn_ids bd"
  shows "fair kv bd u c0 (snd (announce kv bd u spec tp st))"
    and "fst (announce kv bd u spec tp st) = Inr ds \<Longrightarrow> \<exists>d. ds = [d] \<and> current kv bd u (sp_task_id spec) (bs_store (snd (announce kv bd u spec tp st))) d"
proof -
  let ?t = "sp_task_id spec" and ?i = "bd_ids bd (bs_next st)"
  have "fair kv bd u c0 (snd (announce kv bd u spec tp st)) \<and> (fst (announce kv bd u spec tp st) = Inr ds \<longrightarrow>
    (\<exists>d. ds = [d] \<and> current kv bd u ?t (bs_store (snd (announce kv bd u spec tp st))) d))"
  proof (cases "bindR (next_round (bd_cnp bd) (fst (list_cfps kv u (Some ?t) None no_listing (bs_store st))))
      (\<lambda>r. new_call bd spec tp (bs_pipeline st) r ?i)")
    case (Inr d)
    then have d: "jget d ''task_id'' = JStr ?t" "jget d ''cfp_id'' = JStr ?i" by (auto simp: bindR_iffs new_call_fields)
    have free: "call kv u ?t ?i (bs_store st) = None" using fairD(2)[OF f t] by simp
    have lim: "booked kv bd u ?t ?i (bs_store st) \<le> max (booked kv bd u ?t ?i c0) (nat (bid_limit bd d))"
      using fairD(3)[OF f t, of ?i] free by (simp add: call_limit_def)
    have new: "bs_next st \<le> m \<and> bd_ids bd m \<noteq> ?i" if "Suc (bs_next st) \<le> m" for m
      using that ids injD[of "bd_ids bd" m "bs_next st"] by (auto simp: drawn_ids_def)
    have i: "?i \<noteq> []" using ids by (simp add: drawn_ids_def)
    note w = write_call[where n = "Suc (bs_next st)", OF f t i d lim new refl]
    have "fair kv bd u c0 (s\<lparr>bs_cfps := n\<rparr>) = fair kv bd u c0 s" for s n by (simp add: fair_def)
    with w Inr show ?thesis by (auto simp: announce_def)
  qed (simp_all add: announce_def f)
  then show "fair kv bd u c0 (snd (announce kv bd u spec tp st))"
    and "fst (announce kv bd u spec tp st) = Inr ds \<Longrightarrow> \<exists>d. ds = [d] \<and> current kv bd u ?t (bs_store (snd (announce kv bd u spec tp st))) d"
    by blast+
qed

lemma open_cfps_fair:
  assumes f: "fair kv bd u c0 st" and u: "name_ok u" and t: "name_ok (sp_task_id spec)" and ids: "drawn_ids bd"
  shows "fair kv bd u c0 (snd (open_cfps kv bd u spec tp st))"
    and "fst (open_cfps kv bd u spec tp st) = Inr ds \<Longrightarrow> biddable kv bd u (sp_task_id spec) (bs_store (snd (open_cfps kv bd u spec tp st))) ds"
proof -
  let ?t = "sp_task_id spec"
  let ?cfps = "calls kv u ?t (Some ''open'') (bs_store st)"
  let ?due = "filter (cfp_due bd) ?cfps" and ?rest = "filter (\<lambda>d. \<not> cfp_due bd d) ?cfps"
  have cur: "\<forall>d \<in> set ?cfps. current kv bd u ?t (bs_store st) d" using calls_current[OF u t fairD(1)[OF f]] by blast
  obtain r s where rs: "forS (close_call kv bd u ''expired'') ?due st = (r, s)" by fastforce
  from close_calls_fair[OF f t, of ?due ?rest "''expired''"] cur rs
  have s: "fair kv bd u c0 s" "\<forall>d \<in> set ?rest. current kv bd u ?t (bs_store s) d" by auto
  have run: "open_cfps kv bd u spec tp st = (case r of Inl e \<Rightarrow> (Inl e, s) | Inr _ \<Rightarrow> if ?rest \<noteq> [] then (Inr ?rest, s) else announce kv bd u spec tp s)"
    using rs by (simp add: open_cfps_def calls_def bindS_def split: sum.splits)
  show "fair kv bd u c0 (snd (open_cfps kv bd u spec tp st))"
    using run s(1) announce_fair(1)[OF s(1) t ids] by (auto split: sum.splits)
  assume r: "fst (open_cfps kv bd u spec tp st) = Inr ds"
  have "distinct (map (\<lambda>d. jget d ''cfp_id'') ?rest)" by (rule distinct_map_filter) (rule calls_distinct[OF u t fairD(1)[OF f]])
  then show "biddable kv bd u ?t (bs_store (snd (open_cfps kv bd u spec tp st))) ds"
    using run r s announce_fair(2)[OF s(1) t ids, of tp ds] by (auto simp: biddable_def split: sum.splits if_splits)
qed

lemma escalate_fair:
  assumes f: "fair kv bd u c0 st" and u: "name_ok u" and t: "name_ok (sp_task_id spec)" and ids: "drawn_ids bd"
    and b: "biddable kv bd u (sp_task_id spec) (bs_store st) cfps"
  shows "fair kv bd u c0 (snd (escalate kv bd u spec tp cfps st))"
    and "fst (escalate kv bd u spec tp cfps st) = Inr ds \<Longrightarrow> biddable kv bd u (sp_task_id spec) (bs_store (snd (escalate kv bd u spec tp cfps st))) ds"
proof -
  let ?t = "sp_task_id spec" and ?open = "filter (\<lambda>d. jget d ''status'' = JStr ''open'') cfps"
  obtain r s where rs: "forS (close_call kv bd u ''no_bids'') ?open st = (r, s)" by fastforce
  have "\<forall>d \<in> set ?open. current kv bd u ?t (bs_store st) d" using b by (auto simp: biddable_def)
  from close_calls_fair[OF f t this, of "[]" "''no_bids''"] rs have s: "fair kv bd u c0 s" by simp
  have run: "(\<exists>e. escalate kv bd u spec tp cfps st = (Inl e, st)) \<or> escalate kv bd u spec tp cfps st = (Inr cfps, st) \<or>
      escalate kv bd u spec tp cfps st = (case r of Inl e \<Rightarrow> (Inl e, s) | Inr _ \<Rightarrow> open_cfps kv bd u spec tp s)"
    using rs by (auto simp: escalate_def bindS_def split: sum.splits)
  show "fair kv bd u c0 (snd (escalate kv bd u spec tp cfps st))"
    using run f s open_cfps_fair(1)[OF s u t ids] by (auto split: sum.splits)
  assume "fst (escalate kv bd u spec tp cfps st) = Inr ds"
  then show "biddable kv bd u ?t (bs_store (snd (escalate kv bd u spec tp cfps st))) ds"
    using run b open_cfps_fair(2)[OF s u t ids, of tp ds] by (auto split: sum.splits)
qed

text \<open>Writes of other kinds of documents.\<close>

lemma write_other:
  assumes f: "fair kv bd u c0 st" and k: "take 3 key \<noteq> ''bid''" "take 3 key \<noteq> ''cfp''" and n: "bs_next st \<le> n"
  shows "fair kv bd u c0 (st\<lparr>bs_store := kv_upsert kv key d ex (bs_store st), bs_next := n\<rparr>)"
    and "current kv bd u t (bs_store st) d' \<Longrightarrow> current kv bd u t (kv_upsert kv key d ex (bs_store st)) d'"
    and "t \<noteq> [] \<Longrightarrow> booked kv bd u t i (kv_upsert kv key d ex (bs_store st)) = booked kv bd u t i (bs_store st)"
proof -
  have c: "call kv u t i (kv_upsert kv key d ex (bs_store st)) = call kv u t i (bs_store st)" for t i
    using k(2) by (auto simp: call_def get_upsert key3_def key2_def)
  have b: "t \<noteq> [] \<Longrightarrow> booked kv bd u t i (kv_upsert kv key d ex (bs_store st)) = booked kv bd u t i (bs_store st)" for t i
    by (rule booked_foreign[OF k(1)])
  have p: "take (length (prefix2 ''cfp'' u)) key \<noteq> prefix2 ''cfp'' u"
    using k(2) by (cases key; cases "tl key"; cases "tl (tl key)") (auto simp: prefix2_def)
  have "filed kv u (kv_upsert kv key d ex (bs_store st))"
    using fairD(1)[OF f] p unfolding filed_def get_upsert by metis
  then show "fair kv bd u c0 (st\<lparr>bs_store := kv_upsert kv key d ex (bs_store st), bs_next := n\<rparr>)"
    using fairD(2,3)[OF f] n by (intro fairI) (auto simp: c b[OF name_okD[THEN conjunct1]] call_limit_def)
  show "current kv bd u t (bs_store st) d' \<Longrightarrow> current kv bd u t (kv_upsert kv key d ex (bs_store st)) d'"
    by (simp add: current_def c)
  show "t \<noteq> [] \<Longrightarrow> booked kv bd u t i (kv_upsert kv key d ex (bs_store st)) = booked kv bd u t i (bs_store st)" by (rule b)
qed

lemma record_decision_fair:
  assumes f: "fair kv bd u c0 st"
  shows "fair kv bd u c0 (record_decision kv bd u spec tp cfps es st)"
    and "current kv bd u t (bs_store st) d' \<Longrightarrow> current kv bd u t (bs_store (record_decision kv bd u spec tp cfps es st)) d'"
    and "t \<noteq> [] \<Longrightarrow> booked kv bd u t i (bs_store (record_decision kv bd u spec tp cfps es st)) = booked kv bd u t i (bs_store st)"
proof -
  define st' where "st' = record_decision kv bd u spec tp cfps es st"
  have "st' = st \<or> (\<exists>a b d. st' = st\<lparr>bs_store := kv_upsert kv (key3 ''decision'' u a b) d None (bs_store st), bs_next := Suc (bs_next st)\<rparr>)"
    by (auto simp: st'_def record_decision_def save_decision_record_def save_doc_def split: option.splits)
  moreover have "take 3 (key3 ''decision'' u a b) \<noteq> ''bid''" "take 3 (key3 ''decision'' u a b) \<noteq> ''cfp''" for a b
    by (simp_all add: key3_def key2_def)
  ultimately show "fair kv bd u c0 (record_decision kv bd u spec tp cfps es st)"
    and "current kv bd u t (bs_store st) d' \<Longrightarrow> current kv bd u t (bs_store (record_decision kv bd u spec tp cfps es st)) d'"
    and "t \<noteq> [] \<Longrightarrow> booked kv bd u t i (bs_store (record_decision kv bd u spec tp cfps es st)) = booked kv bd u t i (bs_store st)"
    using f write_other[where n = "Suc (bs_next st)", OF f] unfolding st'_def[symmetric] by auto
qed

lemma save_expiring_upsert:
  obtains b where "snd (save_expiring kv e ty key p ttl c) = kv_upsert kv key b (expiry ttl) c"
    and "\<And>f. f \<noteq> ''_meta'' \<Longrightarrow> f \<noteq> ''expires_at'' \<Longrightarrow> jget b f = jget p f"
  by (cases "expiry ttl") (simp_all add: save_expiring_def with_meta_def)

text \<open>A bid is written: it counts for its call only.\<close>

lemma place_bid_effect:
  assumes d: "jget d ''cfp_id'' = JStr i" "i \<noteq> []" and s: "place_bid kv bd u spec tp x d e st = (r, st')"
  shows "call kv u t' i' (bs_store st') = call kv u t' i' (bs_store st)"
    and "filed kv u (bs_store st) \<Longrightarrow> filed kv u (bs_store st')" and "bs_next st \<le> bs_next st'"
    and "t' \<noteq> [] \<Longrightarrow> booked kv bd u t' i' (bs_store st') \<le> booked kv bd u t' i' (bs_store st) + (if t' = sp_task_id spec \<and> i' = i then 1 else 0)"
proof -
  have w: "st' = st \<or> (\<exists>key b. take 3 key = ''bid'' \<and> jget b ''task_id'' = JStr (sp_task_id spec) \<and> cfp_key bd (jget b ''cfp_id'') = i \<and>
      bs_store st' = kv_upsert kv key b (expiry (Some (env_int (bd_reg bd) ''CNP_BID_TTL_SECONDS'' 86400))) (bs_store st) \<and> bs_next st' = Suc (bs_next st))"
  proof (cases "as_opt as_int (jget d ''round'')")
    case None
    then show ?thesis using s by (simp add: place_bid_def split: option.splits)
  next
    case (Some rnd)
    let ?b = "dict_set ''bid_id'' (JStr (bd_ids bd (bs_next st))) (bid_doc bd spec tp x (Some i) rnd e)"
    let ?t = "expiry (Some (env_int (bd_reg bd) ''CNP_BID_TTL_SECONDS'' 86400))"
    have b: "jget ?b ''task_id'' = JStr (sp_task_id spec)" "jget ?b ''cfp_id'' = JStr i"
      "jget (bid_doc bd spec tp x (Some i) rnd e) ''ttl_seconds'' = JInt (env_int (bd_reg bd) ''CNP_BID_TTL_SECONDS'' 86400)"
      by (simp_all add: bid_doc_def Let_def jopt_def)
    define key where "key = key3 ''bid'' u (sp_task_id spec) (cd_id (sc_entry e)) @ ''::'' @ bd_ids bd (bs_next st)"
    have "take 3 key = ''bid''" by (simp add: key_def key3_def key2_def)
    moreover have "st' = st\<lparr>bs_store := snd (save_expiring kv (bd_store bd (bs_next st)) ''blueprint_bid'' key ?b
        (Some (env_int (bd_reg bd) ''CNP_BID_TTL_SECONDS'' 86400)) (bs_store st)), bs_next := Suc (bs_next st), bs_bids := Suc (bs_bids st)\<rparr>"
      using s Some d b(3) by (simp add: place_bid_def add_bid_def Let_def as_opt_def key_def sfield_def bid_doc_def)
    ultimately have st: "take 3 key = ''bid''" "snd (save_expiring kv (bd_store bd (bs_next st)) ''blueprint_bid'' key ?b
        (Some (env_int (bd_reg bd) ''CNP_BID_TTL_SECONDS'' 86400)) (bs_store st)) = bs_store st'" "bs_next st' = Suc (bs_next st)" by simp_all
    obtain b where b1: "bs_store st' = kv_upsert kv key b ?t (bs_store st)" and b2: "\<And>f. f \<noteq> ''_meta'' \<Longrightarrow> f \<noteq> ''expires_at'' \<Longrightarrow> jget b f = jget ?b f"
      using save_expiring_upsert[of "bd_store bd (bs_next st)" "''blueprint_bid''" key ?b "Some (env_int (bd_reg bd) ''CNP_BID_TTL_SECONDS'' 86400)" "bs_store st"]
      unfolding st(2) by blast
    have "jget b ''task_id'' = jget ?b ''task_id''" "jget b ''cfp_id'' = jget ?b ''cfp_id''" by (simp_all add: b2)
    with b b1 st cfp_key_str[OF d(2), of bd] show ?thesis by (intro disjI2 exI[of _ key] exI[of _ b]) simp
  qed
  have p: "take (length (prefix2 ''cfp'' u)) key \<noteq> prefix2 ''cfp'' u" if "take 3 key = ''bid''" for key
    using that by (cases key; cases "tl key"; cases "tl (tl key)") (auto simp: prefix2_def)
  show "call kv u t' i' (bs_store st') = call kv u t' i' (bs_store st)"
    using w by (auto simp: call_def get_upsert key3_def key2_def)
  show "filed kv u (bs_store st')" if "filed kv u (bs_store st)"
    using w p that unfolding filed_def by (metis get_upsert)
  show "bs_next st \<le> bs_next st'" using w by auto
  show "t' \<noteq> [] \<Longrightarrow> booked kv bd u t' i' (bs_store st') \<le> booked kv bd u t' i' (bs_store st) + (if t' = sp_task_id spec \<and> i' = i then 1 else 0)"
  proof -
    assume t': "t' \<noteq> []"
    from w show ?thesis
    proof (elim disjE exE conjE)
      fix key b assume b: "jget b ''task_id'' = JStr (sp_task_id spec)" "cfp_key bd (jget b ''cfp_id'') = i"
        "bs_store st' = kv_upsert kv key b (expiry (Some (env_int (bd_reg bd) ''CNP_BID_TTL_SECONDS'' 86400))) (bs_store st)"
      then have "is_bid bd t' i' b \<Longrightarrow> t' = sp_task_id spec \<and> i' = i" by (simp add: is_bid_def)
      then show ?thesis unfolding b(3) using booked_upsert[OF t', of bd u i' key b _ "bs_store st"] by (smt (verit, best) add_mono_thms_linordered_semiring(2) le_trans zero_le)
    qed simp
  qed
qed

lemma place_on_call:
  assumes d: "jget d ''cfp_id'' = JStr i" "i \<noteq> []" and t: "t = sp_task_id spec" "t \<noteq> []" and s: "forS (place_bid kv bd u spec tp x d) es st = (r, st')"
  shows "(\<forall>t' i'. call kv u t' i' (bs_store st') = call kv u t' i' (bs_store st)) \<and> (filed kv u (bs_store st) \<longrightarrow> filed kv u (bs_store st')) \<and>
    bs_next st \<le> bs_next st' \<and> (\<forall>t' i'. t' \<noteq> [] \<longrightarrow> booked kv bd u t' i' (bs_store st') \<le> booked kv bd u t' i' (bs_store st) +
      (if t' = t \<and> i' = i then length es else 0))"
  using s
proof (induction es arbitrary: st)
  case (Cons e es)
  obtain r1 s1 where s1: "place_bid kv bd u spec tp x d e st = (r1, s1)" by fastforce
  note one = place_bid_effect[OF d s1]
  show ?case
  proof (cases r1)
    case (Inl er)
    then have "st' = s1" using Cons.prems s1 by (simp add: bindS_def)
    moreover have "booked kv bd u t' i' (bs_store s1) \<le> booked kv bd u t' i' (bs_store st) + (if t' = t \<and> i' = i then length (e # es) else 0)"
      if "t' \<noteq> []" for t' i'
      using one(4)[OF that, of i'] t(1) by (auto split: if_splits)
    ultimately show ?thesis using one(1-3) by blast
  next
    case (Inr y)
    then have "forS (place_bid kv bd u spec tp x d) es s1 = (r, st')" using Cons.prems s1 by (simp add: bindS_def)
    note ih = Cons.IH[OF this]
    have "booked kv bd u t' i' (bs_store st') \<le> booked kv bd u t' i' (bs_store st) + (if t' = t \<and> i' = i then length (e # es) else 0)"
      if "t' \<noteq> []" for t' i'
    proof -
      have "booked kv bd u t' i' (bs_store st') \<le> booked kv bd u t' i' (bs_store s1) + (if t' = t \<and> i' = i then length es else 0)" using ih that by blast
      then show ?thesis using one(4)[OF that, of i'] t(1) by (auto split: if_splits)
    qed
    moreover have "call kv u t' i' (bs_store st') = call kv u t' i' (bs_store st)" for t' i' using ih one(1)[of t' i'] by simp
    moreover have "filed kv u (bs_store st) \<Longrightarrow> filed kv u (bs_store st')" using ih one(2) by blast
    moreover have "bs_next st \<le> bs_next st'" using ih one(3) by linarith
    ultimately show ?thesis by blast
  qed
qed simp

lemma place_bids_fair:
  assumes "fair kv bd u c0 st" and t: "name_ok (sp_task_id spec)" and "biddable kv bd u (sp_task_id spec) (bs_store st) ds"
    and "\<And>i. booked kv bd u (sp_task_id spec) i (bs_store st) = length (dict_get existing i [])"
  shows "fair kv bd u c0 (snd (place_bids kv bd u spec tp x existing es ds st))"
proof -
  let ?t = "sp_task_id spec"
  let ?f = "\<lambda>d. forS (place_bid kv bd u spec tp x d) (winners bd existing es d)"
  have t': "?t \<noteq> []" using t name_okD by blast
  have "fair kv bd u c0 (snd (forS ?f ds st))"
    if "fair kv bd u c0 st" "distinct (map (\<lambda>d. jget d ''cfp_id'') ds)" "\<forall>d \<in> set ds. current kv bd u ?t (bs_store st) d"
      "\<forall>d \<in> set ds. \<forall>i. jget d ''cfp_id'' = JStr i \<longrightarrow> booked kv bd u ?t i (bs_store st) \<le> length (dict_get existing i [])"
      "\<forall>i. length (dict_get existing i []) \<le> max (booked kv bd u ?t i c0) (call_limit kv bd u ?t i (bs_store st))" for ds st
    using that
  proof (induction ds arbitrary: st)
    case (Cons d ds)
    obtain i d' where i: "i \<noteq> []" "jget d ''cfp_id'' = JStr i" "call kv u ?t i (bs_store st) = Some d'" "jget d' ''max_bids'' = jget d ''max_bids''"
      using Cons.prems(3) by (auto simp: current_def)
    obtain r1 s1 where s1: "?f d st = (r1, s1)" by fastforce
    note eff = place_on_call[OF i(2,1) refl t' s1]
    have c: "call kv u t1 i1 (bs_store s1) = call kv u t1 i1 (bs_store st)" for t1 i1 using eff by blast
    have b: "booked kv bd u t1 i1 (bs_store s1) \<le> booked kv bd u t1 i1 (bs_store st) + (if t1 = ?t \<and> i1 = i then length (winners bd existing es d) else 0)"
      if "t1 \<noteq> []" for t1 i1 using eff that by blast
    have lim: "bid_limit bd d = bid_limit bd d'" using i(4) by (simp add: bid_limit_def)
    have w: "length (winners bd existing es d) \<le> nat (bid_limit bd d - int (length (dict_get existing i [])))"
      using i by (simp add: winners_def Let_def cfp_key_str)
    have own: "booked kv bd u ?t i (bs_store s1) \<le> max (booked kv bd u ?t i c0) (call_limit kv bd u ?t i (bs_store s1))"
    proof -
      have "booked kv bd u ?t i (bs_store st) \<le> length (dict_get existing i [])" using Cons.prems(4) i(2) by simp
      moreover have "length (dict_get existing i []) \<le> max (booked kv bd u ?t i c0) (nat (bid_limit bd d))"
        using spec[OF Cons.prems(5), of i] i(3) lim by (simp add: call_limit_def)
      moreover have "call_limit kv bd u ?t i (bs_store s1) = nat (bid_limit bd d)" using i(3) lim c by (simp add: call_limit_def)
      ultimately show ?thesis using b[OF t', of i] w by (simp add: max_def split: if_splits)
    qed
    have f1: "fair kv bd u c0 s1"
    proof (rule fairI)
      show "filed kv u (bs_store s1)" using eff fairD(1)[OF Cons.prems(1)] by blast
      show "call kv u t1 (bd_ids bd m) (bs_store s1) = None" if "name_ok t1" "bs_next s1 \<le> m" for m t1
        using that fairD(2)[OF Cons.prems(1), of t1 m] eff by (simp add: c)
      show "booked kv bd u t1 i1 (bs_store s1) \<le> max (booked kv bd u t1 i1 c0) (call_limit kv bd u t1 i1 (bs_store s1))" if "name_ok t1" for t1 i1
      proof (cases "t1 = ?t \<and> i1 = i")
        case False
        then have "booked kv bd u t1 i1 (bs_store s1) \<le> booked kv bd u t1 i1 (bs_store st)" using b[of t1 i1] that name_okD by auto
        then show ?thesis using fairD(3)[OF Cons.prems(1) that, of i1] c by (simp add: call_limit_def)
      qed (use own in simp)
    qed
    show ?case
    proof (cases r1)
      case (Inr y)
      have "fair kv bd u c0 (snd (forS ?f ds s1))"
      proof (rule Cons.IH[OF f1])
        show "distinct (map (\<lambda>d. jget d ''cfp_id'') ds)" using Cons.prems(2) by simp
        show "\<forall>d \<in> set ds. current kv bd u ?t (bs_store s1) d" using Cons.prems(3) by (simp add: current_def c)
        show "\<forall>i. length (dict_get existing i []) \<le> max (booked kv bd u ?t i c0) (call_limit kv bd u ?t i (bs_store s1))"
          using Cons.prems(5) by (simp add: call_limit_def c)
        show "\<forall>d \<in> set ds. \<forall>i. jget d ''cfp_id'' = JStr i \<longrightarrow> booked kv bd u ?t i (bs_store s1) \<le> length (dict_get existing i [])"
        proof (intro ballI allI impI)
          fix d2 j assume d2: "d2 \<in> set ds" "jget d2 ''cfp_id'' = JStr j"
          then have "JStr j \<in> (\<lambda>d. jget d ''cfp_id'') ` set ds" by (metis imageI)
          then have "j \<noteq> i" using Cons.prems(2) i(2) by auto
          then show "booked kv bd u ?t j (bs_store s1) \<le> length (dict_get existing j [])"
            using b[OF t', of j] Cons.prems(4) d2 by (fastforce intro: order_trans)
        qed
      qed
      then show ?thesis using s1 Inr by (simp add: bindS_def)
    qed (use s1 f1 in \<open>simp add: bindS_def\<close>)
  qed simp
  moreover have "length (dict_get existing i []) \<le> max (booked kv bd u ?t i c0) (call_limit kv bd u ?t i (bs_store st))" for i
    using fairD(3)[OF assms(1) t, of i] assms(4) by simp
  ultimately show ?thesis using assms by (simp add: place_bids_def biddable_def)
qed

subsection \<open>A run of the bidder\<close>

lemma add_cfp_same_bids: "t \<noteq> [] \<Longrightarrow> booked kv bd u t i (snd (add_cfp kv e v d c)) = booked kv bd u t i c"
  by (simp add: add_cfp_def save_doc_def booked_foreign key3_def key2_def)

lemma calling_keeps_bids [keeping]:
  "keeps (same_bids kv bd u) (close_call kv bd u why d)" "keeps (same_bids kv bd u) (announce kv bd u spec tp)"
  by (auto simp: keeps_def same_bids_def close_call_def announce_def Let_def add_cfp_same_bids split: option.split sum.split)

lemma open_cfps_keeps_bids [keeping]: "keeps (same_bids kv bd u) (open_cfps kv bd u spec tp)"
proof -
  have "keeps (same_bids kv bd u) (bindS (forS (close_call kv bd u ''expired'') xs) (\<lambda>_. if ys \<noteq> [] then retS ys else announce kv bd u spec tp))" for xs ys
    by (rule keeps_bindS[OF same_bids_order(2)])
      (auto intro!: keeps_forS[OF same_bids_order] calling_keeps_bids keeps_pure[OF same_bids_order(1)])
  then show ?thesis unfolding keeps_def open_cfps_def Let_def by blast
qed

lemma escalate_keeps_bids [keeping]: "keeps (same_bids kv bd u) (escalate kv bd u spec tp cfps)"
proof -
  have "keeps (same_bids kv bd u) (bindS (forS (close_call kv bd u ''no_bids'') xs) (\<lambda>_. open_cfps kv bd u spec tp))" for xs
    by (rule keeps_bindS[OF same_bids_order(2)]) (auto intro!: keeps_forS[OF same_bids_order] keeping)
  then show ?thesis
    unfolding keeps_def escalate_def Let_def by (auto simp: same_bids_def split: sum.splits)
qed

lemma offer_bids_fair:
  assumes f: "fair kv bd u c0 s" and t: "name_ok (sp_task_id spec)" and b: "biddable kv bd u (sp_task_id spec) (bs_store s) cfps"
    and same: "\<And>i. booked kv bd u (sp_task_id spec) i (bs_store s) = length (dict_get existing i [])"
  shows "fair kv bd u c0 (snd (offer_bids kv bd u spec tp x existing cds cfps s))"
proof -
  let ?t = "sp_task_id spec"
  have t': "?t \<noteq> []" using t name_okD by blast
  have "fair kv bd u c0 (snd (place_bids kv bd u spec tp x existing es cfps (record_decision kv bd u spec tp cfps es s)))" for es
  proof (rule place_bids_fair[OF record_decision_fair(1)[OF f] t])
    show "biddable kv bd u ?t (bs_store (record_decision kv bd u spec tp cfps es s)) cfps"
      using b record_decision_fair(2)[OF f] by (simp add: biddable_def)
    show "booked kv bd u ?t i (bs_store (record_decision kv bd u spec tp cfps es s)) = length (dict_get existing i [])" for i
      using same record_decision_fair(3)[OF f t'] by simp
  qed
  then show ?thesis using f by (cases "cds = []") (simp_all add: offer_bids_def)
qed

lemma respond_fair:
  assumes f: "fair kv bd u c0 s" and u: "name_ok u" and t: "name_ok (sp_task_id spec)" and ids: "drawn_ids bd"
    and b: "biddable kv bd u (sp_task_id spec) (bs_store s) cfps"
    and same: "\<And>i. booked kv bd u (sp_task_id spec) i (bs_store s) = length (dict_get existing i [])"
  shows "fair kv bd u c0 (snd (respond kv bd u agents spec tp existing cfps s))"
  unfolding respond_def Let_def
proof (rule bindS_invariant[where I = "fair kv bd u c0"], goal_cases)
  case 1
  show ?case using escalate_fair(1)[OF f u t ids b] f by simp
next
  case (2 cfps2 s2)
  have t': "sp_task_id spec \<noteq> []" using t name_okD by blast
  have "biddable kv bd u (sp_task_id spec) (bs_store s2) cfps2 \<and> same_bids kv bd u s s2"
    using 2(1) escalate_fair(2)[OF f u t ids b, of tp cfps2] b keepsD[OF escalate_keeps_bids, of bd u s spec tp cfps]
      reflpD[OF same_bids_order(1), of kv bd u s] by (auto split: if_splits)
  then show ?case using offer_bids_fair[OF 2(2) t] same t' by (simp add: same_bids_def)
qed

lemma bid_on_spec_fair:
  assumes f: "fair kv bd u c0 st" and u: "name_ok u" and t: "name_ok (sp_task_id spec)" and ids: "drawn_ids bd"
  shows "fair kv bd u c0 (snd (bid_on_spec kv bd u agents spec st))"
  unfolding bid_on_spec_def Let_def
proof (rule bindS_invariant[where I = "fair kv bd u c0"], goal_cases)
  let ?st = "st\<lparr>bs_pipeline := jor (bs_pipeline st) (jget (sp_metadata spec) ''pipeline_id'')\<rparr>"
  have f0: "fair kv bd u c0 ?st" using f by (simp add: fair_def)
  {
    case 1
    show ?case by (rule open_cfps_fair(1)[OF f0 u t ids])
  next
    case (2 cfps s)
    have t': "sp_task_id spec \<noteq> []" using t name_okD by blast
    have "biddable kv bd u (sp_task_id spec) (bs_store s) cfps" "same_bids kv bd u ?st s"
      using 2(1) open_cfps_fair(2)[OF f0 u t ids, of "task_params (bd_cnp bd) spec" cfps]
        keepsD[OF open_cfps_keeps_bids, of bd u ?st spec "task_params (bd_cnp bd) spec"] by simp_all
    then show ?case using respond_fair[OF 2(2) u t ids] t' by (simp add: same_bids_def booked_def[symmetric])
  }
qed

lemma list_all2_sources: "list_all2 P xs ys \<Longrightarrow> y \<in> set ys \<Longrightarrow> \<exists>x \<in> set xs. P x y"
  by (induction rule: list_all2_induct) auto

lemma bid_locally_fair:
  assumes u: "name_ok u" and ids: "drawn_ids bd" and "filed kv u c"
    and free: "\<And>m t. name_ok t \<Longrightarrow> n \<le> m \<Longrightarrow> call kv u t (bd_ids bd m) c = None"
    and specs: "\<And>d s. d \<in> set (fst (list_task_specs kv u no_listing c)) \<Longrightarrow> task_spec_of_doc d = Some s \<Longrightarrow> name_ok (sp_task_id s)"
    and run: "bid_locally kv bd u payload registry n c = (r, c')" and t: "name_ok t" and "call kv u t i c' = Some d"
  shows "booked kv bd u t i c' \<le> max (booked kv bd u t i c) (nat (bid_limit bd d))"
proof -
  let ?s0 = "\<lambda>pid. \<lparr>bs_store = c, bs_next = n, bs_bids = 0, bs_cfps = 0, bs_pipeline = pid\<rparr>"
  have f0: "fair kv bd u c (?s0 pid)" for pid using assms(3) free by (simp add: fair_def)
  have "c' = c \<or> (\<exists>specs agents pid only. load_task_specs kv u only c = Inr specs \<and>
      c' = bs_store (snd (forS (bid_on_spec kv bd u agents) specs (?s0 pid))))"
  proof (cases "bindR (wanted_tasks payload) (\<lambda>only. load_task_specs kv u only c)")
    case (Inr specs)
    then obtain only where o: "load_task_specs kv u only c = Inr specs" by (auto simp: bindR_iffs)
    have "c' = c \<or> (\<exists>agents pid. c' = bs_store (snd (forS (bid_on_spec kv bd u agents) specs (?s0 pid))))"
    proof (cases "specs = [] \<or> (\<exists>e. registered_agents kv (bd_reg bd) u registry = Inl e)")
      case True
      then show ?thesis using run Inr by (elim disjE exE) (simp_all add: bid_locally_def split: if_splits)
    next
      case False
      then obtain agents where ag: "registered_agents kv (bd_reg bd) u registry = Inr agents" "specs \<noteq> []"
        by (metis sum.exhaust)
      obtain ro st where f: "forS (bid_on_spec kv bd u agents) specs (?s0 (jget payload ''pipeline_id'')) = (ro, st)" by fastforce
      then have "c' = bs_store st" using run Inr ag by (cases ro) (simp_all add: bid_locally_def)
      with f show ?thesis by (metis snd_conv)
    qed
    then show ?thesis using o by blast
  qed (use run in \<open>simp add: bid_locally_def\<close>)
  then show ?thesis
  proof (elim disjE exE conjE)
    fix specs agents pid only assume sp: "load_task_specs kv u only c = Inr specs" and c': "c' = bs_store (snd (forS (bid_on_spec kv bd u agents) specs (?s0 pid)))"
    have ok: "name_ok (sp_task_id s)" if "s \<in> set specs" for s
    proof -
      from sp have "list_all2 (\<lambda>d s. task_spec_of_doc d = Some s) (filter (\<lambda>d. case only of None \<Rightarrow> True | Some ts \<Rightarrow> jget d ''task_id'' \<in> set ts)
          (fst (list_task_specs kv u no_listing c))) specs"
        by (auto simp: load_task_specs_def mapR_Inr_iff elim!: list_all2_mono split: option.splits)
      from list_all2_sources[OF this that] obtain d where "d \<in> set (fst (list_task_specs kv u no_listing c))" "task_spec_of_doc d = Some s"
        by auto
      then show ?thesis by (rule specs)
    qed
    have "fair kv bd u c (snd (forS (bid_on_spec kv bd u agents) specs (?s0 pid)))"
      by (rule forS_invariant) (auto intro: bid_on_spec_fair u ids ok f0)
    from fairD(3)[OF this t, of i] show ?thesis using assms(8) c' by (simp add: call_limit_def)
  qed simp
qed

end

end
