(* ===== verification/Contract_Net_Cycle.thy ===== *)
theory Contract_Net_Cycle
  imports Blueprint_Bidder
begin

section \<open>The cycle of the contract net\<close>

text \<open>
  \<^verbatim>\<open>orchestrator_core/consumers/cnp_manager.py\<close> runs announce, bid and award for a pipeline: rounds of the
  bidder until every task has a bid, the graph builder, and the path seeder
  (\<^verbatim>\<open>agent_runtime/services/path_seeder.py\<close>). \<^verbatim>\<open>cnp_lifecycle.py\<close> handles the
  reassignment of a failed task. The state \<open>cycle_run\<close> has the marker collection, the state of the cycle, the states
  saved so far and the events published, in order, and the count of bids. \<open>envs r\<close> is the environment of round
  \<open>r\<close>, and \<open>envs 0\<close> that of the handler itself and of the seeder. Publishing succeeds, and the pause between rounds has no effect on the state.
\<close>

subsection \<open>Seeding the path\<close>

definition seed_marker :: "bidder_env \<Rightarrow> doc list \<Rightarrow> string \<Rightarrow> task_spec \<Rightarrow> affordance" where
  "seed_marker bd agents uuid spec =
     (let ranked = rank_agents_for_task (bd_cnp bd) agents spec (Some 1);
          (agent, intensity) = (case ranked of [] \<Rightarrow> (JStr ''system'', 1 / 2) | (a, s) # _ \<Rightarrow> (jget a ''agent_id'', s))
      in \<lparr>mk_id = uuid, mk_task_id = sp_task_id spec, mk_agent_id = bd_text bd agent,
          mk_capability = (case sp_required_capabilities spec of [] \<Rightarrow> None | cap # _ \<Rightarrow> Some cap), mk_intensity = intensity,
          mk_rationale = Some ''path_seed'', mk_pipeline_id = None, mk_run_id = None, mk_failure = None, mk_ttl = 300,
          mk_created_at = bd_now bd\<rparr>)"

fun seed_markers :: "'c kv_ops \<Rightarrow> bidder_env \<Rightarrow> string \<Rightarrow> doc list \<Rightarrow> nat \<Rightarrow> task_spec list \<Rightarrow> 'c \<Rightarrow> 'c" where
  "seed_markers kv bd u agents n [] c = c"
| "seed_markers kv bd u agents n (spec # specs) c =
     seed_markers kv bd u agents (Suc n) specs
       (snd (add_affordance_marker kv (bd_store bd 0) u (marker_doc (seed_marker bd agents (bd_ids bd n) spec))
         (Some (env_int (bd_reg bd) ''PATH_SEED_TTL_SECONDS'' 300)) c))"

definition run_path_seeder :: "'c kv_ops \<Rightarrow> bidder_env \<Rightarrow> doc \<Rightarrow> 'c option \<Rightarrow> nat \<Rightarrow> 'c option \<Rightarrow> (bid_error + doc) \<times> 'c option" where
  "run_path_seeder kv bd msg registry n store =
     (case store of
        None \<Rightarrow> (Inl BidNoStore, None)
      | Some c \<Rightarrow>
          if \<not> truthy (jget msg ''username'') then (Inl BidUsername, Some c)
          else let u = bd_text bd (jget msg ''username'');
                   payload = (if truthy (jget msg ''data'') then jget msg ''data'' else JDict msg)
            in case (if is_dict payload then bindR (wanted_tasks (jdict payload)) (\<lambda>only. load_task_specs kv u only c) else Inl BidShape) of
                 Inl e \<Rightarrow> (Inl e, Some c)
               | Inr specs \<Rightarrow>
                   if specs = [] then (Inr [(''markers_created'', JInt 0), (''task_count'', JInt 0)], Some c)
                   else case registered_agents kv (bd_reg bd) u registry of
                       Inl _ \<Rightarrow> (Inl BidRegistry, Some c)
                     | Inr agents \<Rightarrow> (Inr [(''markers_created'', JInt (int (length specs))), (''task_count'', JInt (int (length specs)))],
                         Some (seed_markers kv bd u agents n specs c)))"

subsection \<open>What a failed build leaves\<close>

text \<open>\<open>build_plan_draft\<close> gives no state when it raises; the handler of the cycle goes on with the stores as
  they are then. These follow the steps of the builder up to the first that raises.\<close>

fun award_until :: "'c kv_ops \<Rightarrow> builder_env \<Rightarrow> string \<Rightarrow> string \<Rightarrow> string option \<Rightarrow> (json \<times> doc) list \<Rightarrow> task_spec list
    \<Rightarrow> 'c award_state \<Rightarrow> 'c award_state" where
  "award_until kv be u pid rid best [] st = st"
| "award_until kv be u pid rid best (s # ss) st =
     (case award_task kv be u pid rid best s st of Inl _ \<Rightarrow> st | Inr st' \<Rightarrow> award_until kv be u pid rid best ss st')"

fun close_until :: "'c kv_ops \<Rightarrow> builder_env \<Rightarrow> string \<Rightarrow> json list \<Rightarrow> string list \<Rightarrow> doc list \<Rightarrow> 'c \<Rightarrow> 'c" where
  "close_until kv be u ids tasks [] c = c"
| "close_until kv be u ids tasks (d # ds) c =
     (case close_cfps kv be u ids tasks [d] c of Inl _ \<Rightarrow> c | Inr c' \<Rightarrow> close_until kv be u ids tasks ds c')"

fun save_until :: "'c kv_ops \<Rightarrow> builder_env \<Rightarrow> string \<Rightarrow> string \<Rightarrow> string option \<Rightarrow> (json \<times> doc list) list \<Rightarrow> 'c \<Rightarrow> 'c" where
  "save_until kv be u pid rid [] c = c"
| "save_until kv be u pid rid (r # rs) c =
     (case save_sequences kv be u pid rid [r] c of Inl _ \<Rightarrow> c | Inr c' \<Rightarrow> save_until kv be u pid rid rs c')"

definition abandoned_build :: "'c kv_ops \<Rightarrow> ('r, doc) doc_ops \<Rightarrow> builder_env \<Rightarrow> string \<Rightarrow> string \<Rightarrow> string option \<Rightarrow> json list
    \<Rightarrow> 'c \<Rightarrow> 'c option \<Rightarrow> 'r option \<Rightarrow> 'c \<times> 'c option" where
  "abandoned_build kv ops be u pid rid only c registry runs =
     (let ce = be_cnp be; stored = filter (pipeline_matches pid rid only) (fst (list_task_specs kv u no_listing c));
          bids = fst (list_bids kv u None None (Some pid) rid no_listing c);
          cfps = fst (list_cfps kv u None (Some ''open'') no_listing c);
          open_cfps = (if only = [] then cfps else filter (\<lambda>d. jget d ''task_id'' \<in> set only) cfps);
          bf = bid_filter_of be open_cfps
      in case load_pipeline_specs be u pid rid (read_run_doc ops u pid rid runs) only of
           Inl _ \<Rightarrow> (c, registry)
         | Inr extra \<Rightarrow> (case best_bids ce bf [] bids of
             Inl _ \<Rightarrow> (c, registry)
           | Inr best \<Rightarrow>
               let specs = collect_specs stored extra;
                   st0 = \<lparr>as_awards = collect_awards be (fst (list_contract_awards kv u None (Some pid) rid no_listing c)),
                     as_store = c, as_registry = registry\<rparr>;
                   st = award_until kv be u pid rid best specs st0;
                   closed = close_until kv be u (filter truthy (map (\<lambda>b. jget b ''cfp_id'') bids)) (map sp_task_id specs) open_cfps (as_store st)
               in case (award_tasks kv be u pid rid best specs st0, close_cfps kv be u (filter truthy (map (\<lambda>b. jget b ''cfp_id'') bids))
                      (map sp_task_id specs) open_cfps (as_store st), ranked_bids ce bf bids) of
                    (Inl _, _, _) \<Rightarrow> (as_store st, as_registry st)
                  | (_, Inr _, Inr ranked) \<Rightarrow> (save_until kv be u pid rid ranked closed, as_registry st)
                  | _ \<Rightarrow> (closed, as_registry st)))"

subsection \<open>The state of a cycle\<close>

datatype cycle_status = CycleStarted | CycleBidding | CycleAwarding | CycleCompleted | CycleFailed

fun cycle_status_text :: "cycle_status \<Rightarrow> string" where
  "cycle_status_text CycleStarted = ''started''"
| "cycle_status_text CycleBidding = ''bidding''"
| "cycle_status_text CycleAwarding = ''awarding''"
| "cycle_status_text CycleCompleted = ''completed''"
| "cycle_status_text CycleFailed = ''failed''"

record round_summary =
  rs_round :: int
  rs_bids :: int
  rs_cfps :: int
  rs_with :: nat
  rs_without :: int
  rs_stimulus :: real

record cycle_state =
  cy_id :: string
  cy_username :: string
  cy_pipeline :: string
  cy_run :: "string option"
  cy_status :: cycle_status
  cy_tasks :: "string list"
  cy_round :: int
  cy_max_rounds :: int
  cy_timeout :: int
  cy_total_bids :: int
  cy_plan :: "string option"
  cy_history :: "round_summary list"
  cy_error :: "string option"
  cy_created :: string
  cy_completed :: "string option"

definition summary_doc :: "round_summary \<Rightarrow> doc" where
  "summary_doc r = [(''round'', JInt (rs_round r)), (''bids_collected'', JInt (rs_bids r)), (''cfps_created'', JInt (rs_cfps r)),
     (''tasks_with_bids'', JInt (int (rs_with r))), (''tasks_without_bids'', JInt (rs_without r)), (''stimulus'', JReal (rs_stimulus r))]"

definition cycle_doc :: "cycle_state \<Rightarrow> doc" where
  "cycle_doc cy = [(''cycle_id'', JStr (cy_id cy)), (''username'', JStr (cy_username cy)), (''pipeline_id'', JStr (cy_pipeline cy)),
     (''pipeline_run_id'', jopt JStr (cy_run cy)), (''status'', JStr (cycle_status_text (cy_status cy))),
     (''task_ids'', str_json (cy_tasks cy)), (''current_round'', JInt (cy_round cy)), (''max_rounds'', JInt (cy_max_rounds cy)),
     (''bid_timeout_seconds'', JInt (cy_timeout cy)), (''total_bids'', JInt (cy_total_bids cy)), (''plan_id'', jopt JStr (cy_plan cy)),
     (''round_history'', JList (map (\<lambda>r. JDict (summary_doc r)) (cy_history cy))), (''error'', jopt JStr (cy_error cy)),
     (''created_at'', JStr (cy_created cy)), (''completed_at'', jopt JStr (cy_completed cy))]"

record cycle_command =
  cc_username :: string
  cc_pipeline :: string
  cc_run :: "string option"
  cc_tasks :: "string list"
  cc_max_rounds :: "int option"
  cc_timeout :: "int option"

datatype cycle_event =
    CycleStartedEvent string nat int
  | CfpBroadcastEvent string int "json list" "json list" real
  | RoundCompletedEvent string round_summary
  | CycleCompletedEvent string string int int int int

record 'c cycle_run =
  cr_store :: 'c
  cr_cycle :: cycle_state
  cr_saved :: "cycle_state list"
  cr_events :: "cycle_event list"
  cr_total :: int

definition or_int :: "int option \<Rightarrow> int \<Rightarrow> int" where
  "or_int x dflt = (case x of None \<Rightarrow> dflt | Some i \<Rightarrow> if i = 0 then dflt else i)"

definition save_cycle :: "'c kv_ops \<Rightarrow> bidder_env \<Rightarrow> (cycle_state \<Rightarrow> cycle_state) \<Rightarrow> 'c cycle_run \<Rightarrow> 'c cycle_run" where
  "save_cycle kv bd f st = (let cy = f (cr_cycle st) in
     st\<lparr>cr_cycle := cy, cr_saved := cr_saved st @ [cy],
        cr_store := snd (save_cnp_cycle kv (bd_store bd 0) (cy_username cy) (cycle_doc cy) (cr_store st))\<rparr>)"

definition publish :: "cycle_event \<Rightarrow> 'c cycle_run \<Rightarrow> 'c cycle_run" where
  "publish ev st = st\<lparr>cr_events := cr_events st @ [ev]\<rparr>"

subsection \<open>A round\<close>

definition task_target :: "cycle_command \<Rightarrow> string list" where
  "task_target cmd = remdups (cc_tasks cmd)"

text \<open>The tasks with a bid and those without, over all bids of the user.\<close>

definition coverage :: "cycle_command \<Rightarrow> nat \<Rightarrow> doc list \<Rightarrow> nat \<times> int" where
  "coverage cmd task_count bids =
     (let target = task_target cmd; ids = remdups (map (\<lambda>b. jget b ''task_id'') bids)
      in if target \<noteq> [] then
           let covered = length (filter (\<lambda>t. t \<in> JStr ` set target) ids) in (covered, int (length target) - int covered)
         else (length ids, max 0 (int task_count - int (length ids))))"

definition bid_message :: "cycle_command \<Rightarrow> doc" where
  "bid_message cmd = [(''username'', JStr (cc_username cmd)),
     (''data'', JDict ([(''cnp_force_local'', JBool True), (''pipeline_id'', JStr (cc_pipeline cmd))] @
       (if cc_tasks cmd \<noteq> [] then [(''task_ids'', str_json (cc_tasks cmd))] else [])))]"

type_synonym 'c remote = "string \<Rightarrow> doc \<Rightarrow> 'c \<Rightarrow> doc option \<times> 'c"

definition cycle_round :: "'c kv_ops \<Rightarrow> (nat \<Rightarrow> bidder_env) \<Rightarrow> 'c remote \<Rightarrow> cycle_command \<Rightarrow> nat \<Rightarrow> 'c option \<Rightarrow> int
    \<Rightarrow> 'c cycle_run \<Rightarrow> bool \<times> 'c cycle_run" where
  "cycle_round kv envs remote cmd task_count registry r st =
     (let bd = envs (nat r); id = cy_id (cr_cycle st);
          (res, store') = run_bidder kv bd remote (bid_message cmd) registry 0 (Some (cr_store st));
          result = (case res of Inl _ \<Rightarrow> [] | Inr d \<Rightarrow> d);
          c = (case store' of None \<Rightarrow> cr_store st | Some c \<Rightarrow> c);
          created = jint (dict_get result ''bids_created'' (JInt 0)); cfps = jint (dict_get result ''cfps_created'' (JInt 0));
          raw = dict_get result ''stimulus'' (JReal 0);
          stimulus = (if truthy raw then coerce_float (bd_cnp bd) raw 0 else 0);
          (covered, open) = coverage cmd task_count (fst (list_bids kv (cc_username cmd) None None None None no_listing c));
          summary = \<lparr>rs_round = r, rs_bids = created, rs_cfps = cfps, rs_with = covered, rs_without = open, rs_stimulus = stimulus\<rparr>;
          st1 = publish (CfpBroadcastEvent id r (jlist (dict_get result ''cfp_ids'' (JList [])))
              (jlist (dict_get result ''required_capabilities'' (JList []))) stimulus)
            (st\<lparr>cr_store := c, cr_total := cr_total st + created\<rparr>);
          st2 = publish (RoundCompletedEvent id summary) st1;
          st3 = save_cycle kv (envs 0) (\<lambda>cy. cy\<lparr>cy_round := r, cy_history := cy_history cy @ [summary], cy_total_bids := cr_total st2\<rparr>) st2
      in (open = 0 \<and> 0 < covered, st3))"

fun cycle_rounds :: "'c kv_ops \<Rightarrow> (nat \<Rightarrow> bidder_env) \<Rightarrow> 'c remote \<Rightarrow> cycle_command \<Rightarrow> nat \<Rightarrow> 'c option \<Rightarrow> int list
    \<Rightarrow> 'c cycle_run \<Rightarrow> 'c cycle_run" where
  "cycle_rounds kv envs remote cmd task_count registry [] st = st"
| "cycle_rounds kv envs remote cmd task_count registry (r # rs) st =
     (let (stop, st') = cycle_round kv envs remote cmd task_count registry r st
      in if stop then st' else cycle_rounds kv envs remote cmd task_count registry rs st')"

subsection \<open>The handler\<close>

definition new_cycle :: "bidder_env \<Rightarrow> cycle_command \<Rightarrow> cycle_state" where
  "new_cycle bd cmd = \<lparr>cy_id = bd_ids bd 0, cy_username = cc_username cmd, cy_pipeline = cc_pipeline cmd, cy_run = cc_run cmd,
     cy_status = CycleBidding, cy_tasks = cc_tasks cmd, cy_round = 0,
     cy_max_rounds = or_int (cc_max_rounds cmd) (env_int (bd_reg bd) ''CNP_MAX_ROUNDS'' 3),
     cy_timeout = or_int (cc_timeout cmd) (env_int (bd_reg bd) ''CNP_CFP_TTL_SECONDS'' 300), cy_total_bids = 0, cy_plan = None,
     cy_history = [], cy_error = None, cy_created = bd_now bd, cy_completed = None\<rparr>"

text \<open>After the award \<^verbatim>\<open>target_task_ids\<close> is read, which only a round assigns: without a round it is an unbound
  local variable.\<close>

datatype cycle_error = UnboundTarget

definition start_cycle :: "'c kv_ops \<Rightarrow> bidder_env \<Rightarrow> cycle_command \<Rightarrow> 'c \<Rightarrow> nat \<times> 'c cycle_run" where
  "start_cycle kv bd cmd c =
     (let st = save_cycle kv bd id \<lparr>cr_store = c, cr_cycle = new_cycle bd cmd, cr_saved = [], cr_events = [], cr_total = 0\<rparr>;
          task_count = (if cc_tasks cmd \<noteq> [] then length (cc_tasks cmd)
            else length (fst (list_task_specs kv (cc_username cmd) no_listing (cr_store st))))
      in (task_count, publish (CycleStartedEvent (cy_id (cr_cycle st)) task_count (cy_max_rounds (cr_cycle st))) st))"

definition bidding_phase :: "'c kv_ops \<Rightarrow> (nat \<Rightarrow> bidder_env) \<Rightarrow> 'c remote \<Rightarrow> cycle_command \<Rightarrow> 'c option \<Rightarrow> 'c \<Rightarrow> nat \<times> 'c cycle_run" where
  "bidding_phase kv envs remote cmd registry c =
     (let (task_count, st) = start_cycle kv (envs 0) cmd c;
          st1 = cycle_rounds kv envs remote cmd task_count registry [1..cy_max_rounds (cr_cycle st)] st
      in (task_count, save_cycle kv (envs 0) (\<lambda>cy. cy\<lparr>cy_status := CycleAwarding\<rparr>) st1))"

definition finish_cycle :: "'c kv_ops \<Rightarrow> (nat \<Rightarrow> bidder_env) \<Rightarrow> cycle_command \<Rightarrow> nat \<Rightarrow> 'c option \<Rightarrow> plan_draft \<Rightarrow> 'c cycle_run
    \<Rightarrow> (cycle_error + cycle_state) \<times> 'c cycle_run" where
  "finish_cycle kv envs cmd task_count registry draft st =
     (let seed = [(''username'', JStr (cc_username cmd)), (''data'', JDict [(''pipeline_id'', JStr (cc_pipeline cmd))])];
          c = (case snd (run_path_seeder kv (envs 0) seed registry 1 (Some (cr_store st))) of None \<Rightarrow> cr_store st | Some c \<Rightarrow> c);
          st1 = save_cycle kv (envs 0) (\<lambda>cy. cy\<lparr>cy_plan := Some (pd_plan_id draft), cy_status := CycleCompleted,
            cy_total_bids := cr_total st, cy_completed := Some (bd_now (envs 0))\<rparr>) (st\<lparr>cr_store := c\<rparr>);
          cy = cr_cycle st1; target = task_target cmd;
          awarded = (if pd_graph_spec draft = [] then 0 else int (length (jdict (dict_get (pd_graph_spec draft) ''assignments'' (JDict [])))));
          unawarded = (if pd_graph_spec draft = [] then 0 else if target \<noteq> [] then int (length target) - awarded
            else max 0 (int task_count - awarded))
      in if pd_graph_spec draft \<noteq> [] \<and> cy_history cy = [] then (Inl UnboundTarget, st1)
         else (Inr cy, publish (CycleCompletedEvent (cy_id cy) (pd_plan_id draft) (cy_round cy) (cr_total st1) awarded unawarded) st1))"

definition handle_run_cnp_cycle :: "'c kv_ops \<Rightarrow> ('r, doc) doc_ops \<Rightarrow> (nat \<Rightarrow> bidder_env) \<Rightarrow> builder_env \<Rightarrow> 'c remote \<Rightarrow> cycle_command
    \<Rightarrow> 'c option \<Rightarrow> 'c option \<Rightarrow> 'r option \<Rightarrow> ((cycle_error + cycle_state) \<times> 'c cycle_run \<times> 'c option \<times> 'r option) option" where
  "handle_run_cnp_cycle kv ops envs be remote cmd store registry runs =
     (case store of None \<Rightarrow> None | Some c \<Rightarrow>
      let (task_count, st) = bidding_phase kv envs remote cmd registry c; only = map JStr (cc_tasks cmd)
      in Some (case build_plan_draft kv ops be (cc_username cmd) (cc_pipeline cmd) (cc_run cmd) only (Some (cr_store st)) registry runs of
           Inl _ \<Rightarrow>
             let (c1, rg1) = abandoned_build kv ops be (cc_username cmd) (cc_pipeline cmd) (cc_run cmd) only (cr_store st) registry runs;
                 st1 = save_cycle kv (envs 0) (\<lambda>cy. cy\<lparr>cy_status := CycleFailed, cy_error := Some ''graph_builder_failed'',
                   cy_completed := Some (bd_now (envs 0))\<rparr>) (st\<lparr>cr_store := c1\<rparr>)
             in (Inr (cr_cycle st1), st1, rg1, runs)
         | Inr (draft, c1, rg1, runs1) \<Rightarrow>
             (case finish_cycle kv envs cmd task_count rg1 draft (st\<lparr>cr_store := c1\<rparr>) of (r, st1) \<Rightarrow> (r, st1, rg1, runs1))))"

subsection \<open>Reassignment\<close>

record reassign_command =
  ra_username :: string
  ra_pipeline :: string
  ra_run :: string
  ra_plan :: string
  ra_task :: string
  ra_failed :: string

record reassigned_event =
  re_task :: string
  re_failed :: string
  re_new_agent :: json
  re_score :: real
  re_index :: int

datatype reassign_error = ReassignShape

text \<open>The event is made from the candidate at the current index of the evaluation sequence; only the load of the new
  agent changes.\<close>

definition handle_reassign_task :: "'c kv_ops \<Rightarrow> builder_env \<Rightarrow> reassign_command \<Rightarrow> 'c option \<Rightarrow> 'c option
    \<Rightarrow> (reassign_error + reassigned_event option) \<times> 'c option" where
  "handle_reassign_task kv be cmd store registry =
     (case store of None \<Rightarrow> (Inr None, registry) | Some c \<Rightarrow>
      (case get_evaluation_sequence kv (ra_username cmd) (ra_task cmd) (ra_plan cmd) c of
         None \<Rightarrow> (Inr None, registry)
       | Some d \<Rightarrow>
           (case py_int (be_cnp be) (dict_get d ''current_index'' (JInt 0)) of
              None \<Rightarrow> (Inl ReassignShape, registry)
            | Some i \<Rightarrow>
                let cands = jlist (jor (jget d ''candidates'') (JList []))
                in if int (length cands) \<le> i then (Inr None, registry)
                   else (case py_nth cands i of
                       Some (JDict cand) \<Rightarrow>
                         let agent = dict_get cand ''bidder_id'' (JStr ''unknown'')
                         in (case py_float (be_cnp be) (dict_get cand ''bid_score'' (JInt 0)) of
                               None \<Rightarrow> (Inl ReassignShape, registry)
                             | Some score \<Rightarrow> if \<not> is_str agent then (Inl ReassignShape,
                                   increment_agent_load kv be (ra_username cmd) (py_str (ce_repr (be_cnp be)) agent) (ra_task cmd) registry)
                                 else (Inr (Some \<lparr>re_task = ra_task cmd, re_failed = ra_failed cmd, re_new_agent = agent, re_score = score,
                                     re_index = i\<rparr>), increment_agent_load kv be (ra_username cmd) (jstr agent) (ra_task cmd) registry))
                     | _ \<Rightarrow> (Inl ReassignShape, registry)))))"

end
