(* ===== verification/Cycle_Properties.thy ===== *)
theory Cycle_Properties
  imports Contract_Net_Cycle Market_System
begin

section \<open>Properties of the cycle\<close>

text \<open>
  The life of a cycle: its rounds are numbered from one and end at the limit or when every task has a bid, the states
  saved go through bidding and awarding to completed or failed, and the last state is the stored one. The frame
  \<open>quiet\<close> shows what a cycle leaves alone: it adds no bid that names a pipeline.
\<close>

subsection \<open>The rounds\<close>

text \<open>\<open>advanced st st' hs\<close>: from \<open>st\<close> to \<open>st'\<close> the cycle has gone through the rounds \<open>hs\<close>.\<close>

definition advanced :: "'c cycle_run \<Rightarrow> 'c cycle_run \<Rightarrow> round_summary list \<Rightarrow> bool" where
  "advanced st st' hs \<longleftrightarrow>
     cy_history (cr_cycle st') = cy_history (cr_cycle st) @ hs \<and>
     map cy_status (cr_saved st') = map cy_status (cr_saved st) @ replicate (length hs) (cy_status (cr_cycle st)) \<and>
     cy_status (cr_cycle st') = cy_status (cr_cycle st) \<and> cy_id (cr_cycle st') = cy_id (cr_cycle st) \<and>
     cy_username (cr_cycle st') = cy_username (cr_cycle st) \<and> cy_max_rounds (cr_cycle st') = cy_max_rounds (cr_cycle st) \<and>
     cr_total st' = cr_total st + sum_list (map rs_bids hs) \<and>
     cy_round (cr_cycle st') = last (cy_round (cr_cycle st) # map rs_round hs)"

lemma advanced_refl: "advanced st st []"
  by (simp add: advanced_def)

lemma advanced_trans: "advanced st st1 hs \<Longrightarrow> advanced st1 st2 hs' \<Longrightarrow> advanced st st2 (hs @ hs')"
proof -
  have "last (x # xs @ ys) = last (last (x # xs) # ys)" for x :: int and xs ys by (cases ys) simp_all
  then show "advanced st st1 hs \<Longrightarrow> advanced st1 st2 hs' \<Longrightarrow> advanced st st2 (hs @ hs')"
    by (simp only: advanced_def map_append length_append replicate_add append_assoc sum_list_append add.assoc)
qed

lemma round_advances:
  assumes "cycle_round kv envs remote cmd n registry r st = (stop, st')"
  obtains h where "advanced st st' [h]" and "rs_round h = r" and "stop \<longleftrightarrow> rs_without h = 0 \<and> 0 < rs_with h"
proof -
  have "\<exists>h. advanced st st' [h] \<and> rs_round h = r \<and> (stop \<longleftrightarrow> rs_without h = 0 \<and> 0 < rs_with h)"
    using assms by (auto simp: cycle_round_def Let_def advanced_def save_cycle_def publish_def split: prod.splits)
  then show thesis using that by blast
qed

lemma rounds_advance:
  "\<exists>hs. advanced st (cycle_rounds kv envs remote cmd n registry rs st) hs \<and> map rs_round hs = take (length hs) rs \<and> (rs \<noteq> [] \<longrightarrow> hs \<noteq> []) \<and>
    (length hs < length rs \<longrightarrow> rs_without (last hs) = 0 \<and> 0 < rs_with (last hs))"
proof (induction rs arbitrary: st)
  case (Cons r rs)
  obtain stop st1 where s: "cycle_round kv envs remote cmd n registry r st = (stop, st1)" by fastforce
  then obtain h where h: "advanced st st1 [h]" "rs_round h = r" "stop \<longleftrightarrow> rs_without h = 0 \<and> 0 < rs_with h" by (rule round_advances)
  show ?case
  proof (cases stop)
    case True
    then show ?thesis using s h by (intro exI[of _ "[h]"]) simp
  next
    case False
    obtain hs where hs: "advanced st1 (cycle_rounds kv envs remote cmd n registry rs st1) hs" "map rs_round hs = take (length hs) rs"
      "rs \<noteq> [] \<longrightarrow> hs \<noteq> []" "length hs < length rs \<longrightarrow> rs_without (last hs) = 0 \<and> 0 < rs_with (last hs)" using Cons.IH by blast
    then show ?thesis using advanced_trans[OF h(1) hs(1)] s h(2) False
      by (intro exI[of _ "h # hs"]) auto
  qed
qed (use advanced_refl in fastforce)

definition covered :: "round_summary \<Rightarrow> bool" where
  "covered h \<longleftrightarrow> rs_without h = 0 \<and> 0 < rs_with h"

subsection \<open>The life of a cycle\<close>

definition stored_cycle :: "'c kv_ops \<Rightarrow> bidder_env \<Rightarrow> cycle_state \<Rightarrow> 'c \<Rightarrow> bool" where
  "stored_cycle kv bd cy c \<longleftrightarrow> get_cnp_cycle kv (cy_username cy) (cy_id cy) c = Some (with_meta (bd_store bd 0) ''cnp_cycle'' (cycle_doc cy))"

definition max_rounds_of :: "bidder_env \<Rightarrow> cycle_command \<Rightarrow> int" where
  "max_rounds_of bd cmd = cy_max_rounds (new_cycle bd cmd)"

text \<open>\<open>lived m st ss\<close>: the cycle of \<open>st\<close> has run at most \<open>m\<close> rounds, numbered, all but the last leaving a task without a
  bid unless the limit is reached, and its saved states have had the status bidding and then the ones of \<open>ss\<close>.\<close>

definition lived :: "int \<Rightarrow> 'c cycle_run \<Rightarrow> cycle_status list \<Rightarrow> bool" where
  "lived m st ss \<longleftrightarrow>
     (let cy = cr_cycle st; hs = cy_history cy; n = length hs
      in hs \<noteq> [] \<and> int n \<le> m \<and> map rs_round hs = [1..int n] \<and> cy_round cy = int n \<and> (int n < m \<longrightarrow> covered (last hs)) \<and>
         cr_total st = sum_list (map rs_bids hs) \<and> map cy_status (cr_saved st) = replicate (Suc n) CycleBidding @ ss)"

lemma take_upto: "n \<le> nat m \<Longrightarrow> take n [1..m] = [1..int n]"
  by (rule nth_equalityI) (auto simp: nth_take)

lemma bidding_lived:
  assumes m: "1 \<le> max_rounds_of (envs 0) cmd" and b: "bidding_phase kv envs remote cmd registry c = (n, st)"
  shows "lived (max_rounds_of (envs 0) cmd) st [CycleAwarding]" and "cy_status (cr_cycle st) = CycleAwarding"
    and "cy_id (cr_cycle st) = bd_ids (envs 0) 0" and "cy_username (cr_cycle st) = cc_username cmd"
proof -
  let ?m = "max_rounds_of (envs 0) cmd"
  obtain n0 st0 where s0: "start_cycle kv (envs 0) cmd c = (n0, st0)" by fastforce
  then have st0: "cr_cycle st0 = new_cycle (envs 0) cmd" "map cy_status (cr_saved st0) = [CycleBidding]" "cr_total st0 = 0"
    by (auto simp: start_cycle_def Let_def save_cycle_def publish_def new_cycle_def)
  obtain hs where hs: "advanced st0 (cycle_rounds kv envs remote cmd n0 registry [1..?m] st0) hs"
    "map rs_round hs = take (length hs) [1..?m]" "[1..?m] \<noteq> [] \<longrightarrow> hs \<noteq> []"
    "length hs < length [1..?m] \<longrightarrow> rs_without (last hs) = 0 \<and> 0 < rs_with (last hs)" using rounds_advance by blast
  have st: "st = save_cycle kv (envs 0) (\<lambda>cy. cy\<lparr>cy_status := CycleAwarding\<rparr>) (cycle_rounds kv envs remote cmd n0 registry [1..?m] st0)"
    using b s0 st0 by (auto simp: bidding_phase_def Let_def max_rounds_of_def split: prod.splits)
  have len: "length hs \<le> nat ?m" using arg_cong[OF hs(2), of length] by simp
  have rounds: "map rs_round hs = [1..int (length hs)]" using hs(2) take_upto[OF len] by simp
  have ne: "hs \<noteq> []" using hs(3) m by simp
  have last': "last [1..int (length hs)] = int (length hs)"
  proof -
    have "1 \<le> int (length hs)" using ne by (cases hs) simp_all
    then show ?thesis by (simp only: upto_rec2 last_snoc)
  qed
  have last: "last (cy_round (cr_cycle st0) # map rs_round hs) = int (length hs)" using ne last' rounds by simp
  show "lived ?m st [CycleAwarding]"
    using hs(1,4) st0 m ne rounds last len
    by (simp add: lived_def st save_cycle_def Let_def advanced_def new_cycle_def covered_def)
  show "cy_status (cr_cycle st) = CycleAwarding" "cy_id (cr_cycle st) = bd_ids (envs 0) 0" "cy_username (cr_cycle st) = cc_username cmd"
    using hs(1) st0 by (simp_all add: st save_cycle_def Let_def advanced_def new_cycle_def)
qed

lemma lived_final:
  assumes "lived m st [CycleAwarding]" and "cr_cycle st' = f (cr_cycle st)" and "cr_total st' = cr_total st" and "cr_saved st' = cr_saved st @ [f (cr_cycle st)]"
    and "cy_history (f (cr_cycle st)) = cy_history (cr_cycle st)" and "cy_round (f (cr_cycle st)) = cy_round (cr_cycle st)"
  shows "lived m st' [CycleAwarding, cy_status (f (cr_cycle st))]"
  using assms by (simp add: lived_def Let_def)

context kv_collection
begin

lemma save_cycle_stored: "stored_cycle kv bd (f (cr_cycle st)) (cr_store (save_cycle kv bd f st))"
  by (simp add: stored_cycle_def save_cycle_def Let_def get_cnp_cycle_def save_cnp_cycle_def save_doc_def get_upsert sfield_def cycle_doc_def)

lemma handled_cycle:
  assumes m: "1 \<le> max_rounds_of (envs 0) cmd"
  obtains cy st rg rn where "handle_run_cnp_cycle kv ops envs be remote cmd (Some c) registry runs = Some (Inr cy, st, rg, rn)"
    and "cy = cr_cycle st" and "cy_status cy \<in> {CycleCompleted, CycleFailed}" and "lived (max_rounds_of (envs 0) cmd) st [CycleAwarding, cy_status cy]"
    and "stored_cycle kv (envs 0) cy (cr_store st)" and "cy_id cy = bd_ids (envs 0) 0" and "cy_username cy = cc_username cmd"
proof -
  obtain n st where b: "bidding_phase kv envs remote cmd registry c = (n, st)" by fastforce
  note l = bidding_lived[OF m b]
  have h: "cy_history (cr_cycle st) \<noteq> []" using l(1) by (simp add: lived_def Let_def)
  let ?build = "build_plan_draft kv ops be (cc_username cmd) (cc_pipeline cmd) (cc_run cmd) (map JStr (cc_tasks cmd)) (Some (cr_store st)) registry runs"
  show thesis
  proof (cases ?build)
    case (Inl e)
    obtain c1 rg1 where a: "abandoned_build kv ops be (cc_username cmd) (cc_pipeline cmd) (cc_run cmd) (map JStr (cc_tasks cmd)) (cr_store st) registry runs = (c1, rg1)"
      by fastforce
    let ?f = "\<lambda>cy. cy\<lparr>cy_status := CycleFailed, cy_error := Some ''graph_builder_failed'', cy_completed := Some (bd_now (envs 0))\<rparr>"
    define st1 where "st1 = save_cycle kv (envs 0) ?f (st\<lparr>cr_store := c1\<rparr>)"
    have st1: "cr_cycle st1 = ?f (cr_cycle st)" "cr_total st1 = cr_total st" "cr_saved st1 = cr_saved st @ [?f (cr_cycle st)]"
      by (simp_all add: st1_def save_cycle_def Let_def)
    have "handle_run_cnp_cycle kv ops envs be remote cmd (Some c) registry runs = Some (Inr (cr_cycle st1), st1, rg1, runs)"
      using b Inl a by (simp add: handle_run_cnp_cycle_def st1_def Let_def)
    moreover have "stored_cycle kv (envs 0) (cr_cycle st1) (cr_store st1)"
      using save_cycle_stored[of "envs 0" ?f "st\<lparr>cr_store := c1\<rparr>"] by (simp add: st1_def[symmetric] st1(1))
    moreover have "lived (max_rounds_of (envs 0) cmd) st1 [CycleAwarding, cy_status (cr_cycle st1)]"
      using lived_final[where f = ?f, OF l(1) st1] by (simp add: st1(1))
    ultimately show thesis using that[of "cr_cycle st1" st1] l by (simp add: st1(1))
  next
    case (Inr x)
    obtain draft c1 rg1 rn1 where x: "x = (draft, c1, rg1, rn1)" by (cases x)
    obtain r st2 where f: "finish_cycle kv envs cmd n rg1 draft (st\<lparr>cr_store := c1\<rparr>) = (r, st2)" by fastforce
    let ?f = "\<lambda>cy. cy\<lparr>cy_plan := Some (pd_plan_id draft), cy_status := CycleCompleted, cy_total_bids := cr_total st,
      cy_completed := Some (bd_now (envs 0))\<rparr>"
    define c2 where "c2 = (case snd (run_path_seeder kv (envs 0) [(''username'', JStr (cc_username cmd)),
      (''data'', JDict [(''pipeline_id'', JStr (cc_pipeline cmd))])] rg1 1 (Some c1)) of None \<Rightarrow> c1 | Some c \<Rightarrow> c)"
    have st2: "r = Inr (cr_cycle st2)" "cr_cycle st2 = ?f (cr_cycle st)" "cr_total st2 = cr_total st" "cr_saved st2 = cr_saved st @ [?f (cr_cycle st)]"
      "cr_store st2 = cr_store (save_cycle kv (envs 0) ?f (st\<lparr>cr_store := c2\<rparr>))"
      using f h by (auto simp: finish_cycle_def Let_def save_cycle_def publish_def c2_def split: if_splits cong: option.case_cong)
    have "handle_run_cnp_cycle kv ops envs be remote cmd (Some c) registry runs = Some (Inr (cr_cycle st2), st2, rg1, rn1)"
      using b Inr x f st2(1) by (simp add: handle_run_cnp_cycle_def)
    moreover have "stored_cycle kv (envs 0) (cr_cycle st2) (cr_store st2)"
      using save_cycle_stored[of "envs 0" ?f "st\<lparr>cr_store := c2\<rparr>"] by (simp add: st2(2,5))
    moreover have "lived (max_rounds_of (envs 0) cmd) st2 [CycleAwarding, cy_status (cr_cycle st2)]"
      using lived_final[where f = ?f, OF l(1) st2(2-4)] by (simp add: st2(2))
    ultimately show thesis using that[of "cr_cycle st2" st2] l by (simp add: st2(2))
  qed
qed

end

end
