(* ===== verification/Cycle_Frames.thy ===== *)
theory Cycle_Frames
  imports Cycle_Properties
begin

section \<open>What a cycle leaves alone\<close>

text \<open>
  \<open>quiet kv c c'\<close>: between the stores \<open>c\<close> and \<open>c'\<close> no award has changed and no bid that names a pipeline has been
  added. Each write of the bidder, the seeder and the handler of the cycle is quiet; so is the graph builder when the
  store has no bid of the pipeline, for it then awards nothing.
\<close>

definition is_bid_key :: "string \<Rightarrow> bool" where
  "is_bid_key k \<longleftrightarrow> take 5 k = ''bid::''"

definition is_award_key :: "string \<Rightarrow> bool" where
  "is_award_key k \<longleftrightarrow> take 7 k = ''award::''"

definition quiet :: "'c kv_ops \<Rightarrow> 'c \<Rightarrow> 'c \<Rightarrow> bool" where
  "quiet kv c c' \<longleftrightarrow> untouched kv is_award_key c c' \<and>
     (\<forall>k d. kv_get kv c' k = Some d \<longrightarrow> is_bid_key k \<longrightarrow> jget d ''pipeline_id'' \<noteq> JNull \<longrightarrow> kv_get kv c k = Some d)"

lemma quiet_refl [simp]: "quiet kv c c"
  by (simp add: quiet_def untouched_refl)

lemma quiet_trans [trans]: "quiet kv a b \<Longrightarrow> quiet kv b c \<Longrightarrow> quiet kv a c"
  using untouched_trans by (fastforce simp: quiet_def)

lemma key_kinds:
  "is_bid_key (key2 kind u r) \<longleftrightarrow> take 5 (kind @ ''::'' @ u @ ''::'' @ r) = ''bid::''"
  "is_award_key (key2 kind u r) \<longleftrightarrow> take 7 (kind @ ''::'' @ u @ ''::'' @ r) = ''award::''"
  by (simp_all add: is_bid_key_def is_award_key_def key2_def)

context kv_collection
begin

lemma upsert_quiet: "\<not> is_award_key k \<Longrightarrow> \<not> is_bid_key k \<or> jget d ''pipeline_id'' = JNull \<Longrightarrow> quiet kv c (kv_upsert kv k d ex c)"
  by (auto simp: quiet_def get_upsert upsert_untouched)

lemma save_doc_quiet: "\<not> is_award_key k \<Longrightarrow> \<not> is_bid_key k \<Longrightarrow> quiet kv c (snd (save_doc kv e ty k p c))"
  by (simp add: save_doc_def upsert_quiet)

lemma writes_quiet:
  "quiet kv c (snd (add_cfp kv e u d c))" "quiet kv c (snd (save_decision_record kv e u d c))" "quiet kv c (snd (save_cnp_cycle kv e u d c))"
  "quiet kv c (snd (save_plan_draft kv e u d c))" "quiet kv c (snd (save_plan_revision kv e u d c))"
  "quiet kv c (snd (save_evaluation_sequence kv e u d c))" "quiet kv c (snd (add_affordance_marker kv e u d ttl c))"
  by (simp_all add: add_cfp_def save_decision_record_def save_cnp_cycle_def save_plan_draft_def save_plan_revision_def plan_revision_key_def
      save_evaluation_sequence_def eval_seq_key_def add_affordance_marker_def save_expiring_def key3_key2 key_kinds save_doc_quiet upsert_quiet
      split: option.split)

lemma bid_quiet: "jget d ''pipeline_id'' = JNull \<Longrightarrow> quiet kv c (snd (add_bid kv e u d c))"
  by (simp add: add_bid_def Let_def save_expiring_def key3_key2 is_award_key_def key2_def with_meta_def upsert_quiet split: option.split)

end

definition quiet_bids :: "'c kv_ops \<Rightarrow> 'c bid_state \<Rightarrow> 'c bid_state \<Rightarrow> bool" where
  "quiet_bids kv s s' \<longleftrightarrow> quiet kv (bs_store s) (bs_store s')"

lemma quiet_bids_order: "reflp (quiet_bids kv)" "transp (quiet_bids kv)"
  by (auto simp: quiet_bids_def intro!: reflpI transpI elim: quiet_trans)

context kv_collection
begin

lemma bidder_steps_quiet:
  "keeps (quiet_bids kv) (close_call kv bd u why d)" "keeps (quiet_bids kv) (announce kv bd u spec tp)"
  "keeps (quiet_bids kv) (place_bid kv bd u spec tp x d e)" "keeps (quiet_bids kv) (onS (record_decision kv bd u spec tp cfps es))"
  by (auto simp: keeps_def quiet_bids_def close_call_def announce_def place_bid_def record_decision_def Let_def writes_quiet bid_quiet bid_doc_def
      split: option.split sum.split)

lemmas quiet_loop = keeps_forS[OF quiet_bids_order] keeps_pure[OF quiet_bids_order(1)] bidder_steps_quiet

lemma open_cfps_quiet: "keeps (quiet_bids kv) (open_cfps kv bd u spec tp)"
proof -
  have "keeps (quiet_bids kv) (bindS (forS (close_call kv bd u ''expired'') xs) (\<lambda>_. if ys \<noteq> [] then retS ys else announce kv bd u spec tp))" for xs ys
    by (rule keeps_bindS[OF quiet_bids_order(2)]) (auto intro!: quiet_loop)
  then show ?thesis unfolding keeps_def open_cfps_def Let_def by blast
qed

lemma escalate_quiet: "keeps (quiet_bids kv) (escalate kv bd u spec tp cfps)"
proof -
  have "keeps (quiet_bids kv) (bindS (forS (close_call kv bd u ''no_bids'') xs) (\<lambda>_. open_cfps kv bd u spec tp))" for xs
    by (rule keeps_bindS[OF quiet_bids_order(2)]) (auto intro!: quiet_loop open_cfps_quiet)
  then show ?thesis unfolding keeps_def escalate_def Let_def by (auto simp: quiet_bids_def split: sum.splits)
qed

lemma offer_bids_quiet: "keeps (quiet_bids kv) (offer_bids kv bd u spec tp x existing cds cfps)"
  unfolding offer_bids_def place_bids_def
  by (auto intro!: keeps_bindS[OF quiet_bids_order(2)] quiet_loop)

lemma bid_on_spec_quiet: "keeps (quiet_bids kv) (bid_on_spec kv bd u agents spec)"
proof -
  have r: "keeps (quiet_bids kv) (respond kv bd u agents spec tp existing cfps)" for tp existing cfps
    unfolding respond_def Let_def
    by (rule keeps_bindS[OF quiet_bids_order(2)]) (auto intro: escalate_quiet quiet_loop offer_bids_quiet)
  have "keeps (quiet_bids kv) (bindS (open_cfps kv bd u spec tp) (respond kv bd u agents spec tp existing))" for tp existing
    by (rule keeps_bindS[OF quiet_bids_order(2)]) (auto intro: open_cfps_quiet r)
  then have "quiet kv (bs_store s) (bs_store (snd (bindS (open_cfps kv bd u spec tp) (respond kv bd u agents spec tp existing) s)))" for tp existing s
    by (simp add: keeps_def quiet_bids_def)
  then show ?thesis unfolding keeps_def bid_on_spec_def Let_def quiet_bids_def
    by (metis bid_state.select_convs(1) bid_state.surjective bid_state.update_convs(5))
qed

lemma bid_locally_quiet: "quiet kv c (snd (bid_locally kv bd u payload registry n c))"
proof -
  have "quiet kv c (bs_store (snd (forS (bid_on_spec kv bd u agents) specs \<lparr>bs_store = c, bs_next = n, bs_bids = 0, bs_cfps = 0, bs_pipeline = pid\<rparr>)))"
    for agents specs pid
  proof -
    have "keeps (quiet_bids kv) (forS (bid_on_spec kv bd u agents) specs)" by (rule keeps_forS[OF quiet_bids_order bid_on_spec_quiet])
    from keepsD[OF this, of "\<lparr>bs_store = c, bs_next = n, bs_bids = 0, bs_cfps = 0, bs_pipeline = pid\<rparr>"] show ?thesis
      by (simp add: quiet_bids_def)
  qed
  then show ?thesis
    by (auto simp: bid_locally_def split: sum.split prod.split) (metis snd_conv)+
qed

lemma run_bidder_local: "run_bidder kv bd remote (bid_message cmd) registry n (Some c) =
  (if cc_username cmd = [] then (Inl BidUsername, Some c)
   else case bid_locally kv bd (cc_username cmd) (jdict (jget (bid_message cmd) ''data'')) registry n c of (r, c') \<Rightarrow> (r, Some c'))"
  by (simp add: run_bidder_def bid_message_def bid_payload_def jget_def dict_get_def Let_def)

lemma save_cycle_quiet: "quiet kv (cr_store st) (cr_store (save_cycle kv bd f st))"
  by (simp add: save_cycle_def Let_def writes_quiet)

lemma cycle_round_quiet: "quiet kv (cr_store st) (cr_store (snd (cycle_round kv envs remote cmd n registry r st)))"
proof -
  obtain r1 c1 where l: "bid_locally kv (envs (nat r)) (cc_username cmd) (jdict (jget (bid_message cmd) ''data'')) registry 0 (cr_store st) = (r1, c1)"
    by fastforce
  then have q1: "quiet kv (cr_store st) c1" using bid_locally_quiet by (metis snd_conv)
  obtain res c where b: "run_bidder kv (envs (nat r)) remote (bid_message cmd) registry 0 (Some (cr_store st)) = (res, Some c)"
    and q: "quiet kv (cr_store st) c"
    using l q1 by (cases "cc_username cmd = []") (simp_all add: run_bidder_local)
  have "quiet kv c (cr_store (snd (cycle_round kv envs remote cmd n registry r st)))"
    using b by (simp add: cycle_round_def Let_def publish_def save_cycle_def writes_quiet split: prod.split)
  then show ?thesis by (rule quiet_trans[OF q])
qed

lemma cycle_rounds_quiet: "quiet kv (cr_store st) (cr_store (cycle_rounds kv envs remote cmd n registry rs st))"
proof (induction rs arbitrary: st)
  case (Cons r rs)
  obtain stop st1 where s: "cycle_round kv envs remote cmd n registry r st = (stop, st1)" by fastforce
  then have "quiet kv (cr_store st) (cr_store st1)" using cycle_round_quiet[of st envs remote cmd n registry r] by simp
  then show ?case using s quiet_trans[OF _ Cons.IH, of "cr_store st" st1] by simp
qed simp

lemma bidding_quiet: "bidding_phase kv envs remote cmd registry c = (n, st) \<Longrightarrow> quiet kv c (cr_store st)"
proof -
  assume b: "bidding_phase kv envs remote cmd registry c = (n, st)"
  obtain n0 st0 where s0: "start_cycle kv (envs 0) cmd c = (n0, st0)" by fastforce
  then have "quiet kv c (cr_store st0)" by (auto simp: start_cycle_def Let_def publish_def save_cycle_def writes_quiet)
  also have "quiet kv (cr_store st0) (cr_store (cycle_rounds kv envs remote cmd n0 registry [1..cy_max_rounds (cr_cycle st0)] st0))"
    by (rule cycle_rounds_quiet)
  also have "quiet kv (cr_store (cycle_rounds kv envs remote cmd n0 registry [1..cy_max_rounds (cr_cycle st0)] st0)) (cr_store st)"
    using b s0 save_cycle_quiet by (auto simp: bidding_phase_def)
  finally show ?thesis .
qed

lemma seed_markers_quiet: "quiet kv c (seed_markers kv bd u agents n specs c)"
  by (induction specs arbitrary: n c) (auto intro: quiet_trans[OF writes_quiet(7)])

lemma seeder_some: "snd (run_path_seeder kv bd msg registry n (Some c)) \<noteq> None"
  by (simp add: run_path_seeder_def Let_def split: sum.split)

lemma seeder_quiet: "run_path_seeder kv bd msg registry n (Some c) = (r, Some c') \<Longrightarrow> quiet kv c c'"
  by (auto simp: run_path_seeder_def Let_def seed_markers_quiet split: if_splits sum.splits)

subsection \<open>The builder without bids\<close>

lemma no_bid_no_award: "award_tasks kv be u pid rid [] specs st = Inr st"
  by (induction specs) (simp_all add: award_task_def)

lemma no_bid_no_award': "award_until kv be u pid rid [] specs st = st"
  by (induction specs) (simp_all add: award_task_def)

lemma close_cfps_quiet: "close_cfps kv be u ids ts ds c = Inr c' \<Longrightarrow> quiet kv c c'"
  by (induction ds arbitrary: c) (auto simp: Let_def split: if_splits option.splits intro: quiet_trans[OF writes_quiet(1)])

lemma close_until_quiet: "quiet kv c (close_until kv be u ids ts ds c)"
proof (induction ds arbitrary: c)
  case (Cons d ds)
  then show ?case
    by (cases "close_cfps kv be u ids ts [d] c") (auto simp del: close_cfps.simps intro: quiet_trans[OF close_cfps_quiet])
qed simp

lemma save_sequences_quiet: "save_sequences kv be u pid rid rs c = Inr c' \<Longrightarrow> quiet kv c c'"
proof (induction rs arbitrary: c)
  case (Cons x rs)
  then show ?case by (cases x) (auto split: if_splits intro: quiet_trans[OF writes_quiet(6)])
qed simp

lemma save_until_quiet: "quiet kv c (save_until kv be u pid rid rs c)"
proof (induction rs arbitrary: c)
  case (Cons r rs)
  then show ?case
    by (cases "save_sequences kv be u pid rid [r] c") (auto simp del: save_sequences.simps intro: quiet_trans[OF save_sequences_quiet])
qed simp

lemma build_without_bids:
  assumes none: "fst (list_bids kv u None None (Some pid) rid no_listing c) = []"
    and b: "build_plan_draft kv ops be u pid rid only (Some c) registry runs = Inr (draft, c', rg, rn)"
  shows "quiet kv c c'"
proof -
  from b obtain specs st ids ts ds c1 ranked c2 e d rv where
    s: "award_tasks kv be u pid rid [] specs
        \<lparr>as_awards = collect_awards be (fst (list_contract_awards kv u None (Some pid) rid no_listing c)), as_store = c, as_registry = registry\<rparr> = Inr st"
      "close_cfps kv be u ids ts ds (as_store st) = Inr c1" "save_sequences kv be u pid rid ranked c1 = Inr c2"
      "c' = snd (save_plan_revision kv e u rv (snd (save_plan_draft kv e u d c2)))"
    unfolding build_plan_draft_def Let_def
    by (clarsimp simp: bindR_iffs none split del: if_split)
  have "quiet kv c c1" using close_cfps_quiet[OF s(2)] s(1) by (simp add: no_bid_no_award) (metis award_state.select_convs(2) sum.inject(2))
  also have "quiet kv c1 c2" by (rule save_sequences_quiet[OF s(3)])
  also have "quiet kv c2 (snd (save_plan_draft kv e u d c2))" by (rule writes_quiet)
  also have "quiet kv (snd (save_plan_draft kv e u d c2)) c'" unfolding s(4) by (rule writes_quiet)
  finally show ?thesis .
qed

lemma abandoned_without_bids:
  assumes none: "fst (list_bids kv u None None (Some pid) rid no_listing c) = []"
  shows "quiet kv c (fst (abandoned_build kv ops be u pid rid only c registry runs))"
proof -
  have q: "quiet kv c (save_until kv be u pid rid rs (close_until kv be u ids ts ds c))" for rs ids ts ds
    by (rule quiet_trans[OF close_until_quiet save_until_quiet])
  show ?thesis
    unfolding abandoned_build_def Let_def none
    by (auto simp: no_bid_no_award no_bid_no_award' close_until_quiet q split: sum.split)
qed

lemma no_pipeline_bids:
  assumes "\<And>k d. kv_get kv c k = Some d \<Longrightarrow> is_bid_key k \<Longrightarrow> jget d ''pipeline_id'' \<noteq> JStr pid" and "pid \<noteq> []"
  shows "fst (list_bids kv u None None (Some pid) rid no_listing c) = []"
proof -
  have none: "jget d ''pipeline_id'' \<noteq> JStr pid" if r: "(k, d) \<in> set (kv_rows kv c (prefix2 ''bid'' u @ ''%'') ord None)" for k d ord
  proof -
    have l: "like (''bid::'' @ (u @ ''::%'')) k" and d: "kv_get kv c k = Some d" using rows_sub[OF r] by (simp_all add: prefix2_def)
    have p: "plain ''bid::''" by (simp add: plain_def)
    then have "like ''bid::'' (take (length ''bid::'') k)" using l like_append[of "''bid::''" "u @ ''::%''" k] unfolding plain_def by blast
    then have "''bid::'' = take (length ''bid::'') k" by (simp only: like_plain[OF p])
    then have "is_bid_key k" by (simp add: is_bid_key_def numeral_eq_Suc)
    then show ?thesis using assms(1)[OF d] by blast
  qed
  have "d \<notin> set (fst (list_bids kv u None None (Some pid) rid no_listing c))" for d
    using none assms(2) by (auto simp: list_bids_def list_page_def list_by_prefix_def no_listing_def keep_def given_def narrow_def Let_def)
  then show ?thesis by (metis ex_in_conv set_empty)
qed

lemma finish_quiet:
  assumes "finish_cycle kv envs cmd n rg draft st = (r, st')"
  shows "quiet kv (cr_store st) (cr_store st')"
proof -
  let ?seed = "[(''username'', JStr (cc_username cmd)), (''data'', JDict [(''pipeline_id'', JStr (cc_pipeline cmd))])]"
  obtain rr c2 where s: "run_path_seeder kv (envs 0) ?seed rg 1 (Some (cr_store st)) = (rr, Some c2)"
    using seeder_some by (metis not_Some_eq prod.collapse)
  have q: "quiet kv c2 (cr_store (save_cycle kv (envs 0) f (st\<lparr>cr_store := c2\<rparr>)))" for f
    using save_cycle_quiet[of "st\<lparr>cr_store := c2\<rparr>" "envs 0" f] by simp
  have "quiet kv c2 (cr_store st')"
    using assms q unfolding finish_cycle_def Let_def s by (auto simp: publish_def split: if_splits)
  then show ?thesis by (rule quiet_trans[OF seeder_quiet[OF s]])
qed

lemma cycle_quiet:
  assumes "\<And>k d. kv_get kv c k = Some d \<Longrightarrow> is_bid_key k \<Longrightarrow> jget d ''pipeline_id'' \<noteq> JStr (cc_pipeline cmd)" and "cc_pipeline cmd \<noteq> []"
    and h: "handle_run_cnp_cycle kv ops envs be remote cmd (Some c) registry runs = Some (r, st, rg, rn)"
  shows "quiet kv c (cr_store st)"
proof -
  obtain n st0 where b: "bidding_phase kv envs remote cmd registry c = (n, st0)" by fastforce
  have q0: "quiet kv c (cr_store st0)" by (rule bidding_quiet[OF b])
  have "jget d ''pipeline_id'' \<noteq> JStr (cc_pipeline cmd)" if "kv_get kv (cr_store st0) k = Some d" "is_bid_key k" for k d
    using q0 that assms(1)[of k d] by (auto simp: quiet_def)
  from no_pipeline_bids[OF this assms(2)]
  have none: "fst (list_bids kv (cc_username cmd) None None (Some (cc_pipeline cmd)) (cc_run cmd) no_listing (cr_store st0)) = []" by simp
  let ?build = "build_plan_draft kv ops be (cc_username cmd) (cc_pipeline cmd) (cc_run cmd) (map JStr (cc_tasks cmd)) (Some (cr_store st0)) registry runs"
  have "quiet kv (cr_store st0) (cr_store st)"
  proof (cases ?build)
    case (Inl e)
    then show ?thesis
      using h b abandoned_without_bids[OF none, of ops be "map JStr (cc_tasks cmd)" registry runs]
      by (auto simp: handle_run_cnp_cycle_def Let_def save_cycle_def split: prod.splits intro: quiet_trans[OF _ writes_quiet(3)])
  next
    case (Inr x)
    obtain draft c1 rg1 rn1 where x: "x = (draft, c1, rg1, rn1)" by (cases x)
    have q1: "quiet kv (cr_store st0) c1" by (rule build_without_bids[OF none]) (use Inr x in simp)
    obtain r1 st1 where f: "finish_cycle kv envs cmd n rg1 draft (st0\<lparr>cr_store := c1\<rparr>) = (r1, st1)" by fastforce
    then have "st1 = st" using h b Inr x by (simp add: handle_run_cnp_cycle_def)
    then show ?thesis using quiet_trans[OF q1, of "cr_store st"] finish_quiet[OF f] by simp
  qed
  with q0 show ?thesis by (rule quiet_trans)
qed

end

end
