(* ===== verification/Bandit_Properties.thy ===== *)
theory Bandit_Properties
  imports Bandit_Learner
begin

section \<open>Properties of the bandit learner\<close>

text \<open>
  The reward is bounded and a success is never worth less than the same outcome as a failure; a stored model is read
  back as it was written; and the matrix of a model stays positive definite whatever is learned, so that the linear
  system solved for a prediction always has a solution.
\<close>

subsection \<open>Linear algebra\<close>

lemma dot_Nil [simp]: "dot [] ys = 0" "dot xs [] = 0"
  by (simp_all add: dot_def)

lemma dot_Cons [simp]: "dot (x # xs) (y # ys) = x * y + dot xs ys"
  by (simp add: dot_def)

lemma dot_commute: "dot xs ys = dot ys xs"
  by (induction xs ys rule: list_induct2') simp_all

lemma dot_add: "length xs = length ys \<Longrightarrow> length ys = length zs \<Longrightarrow> dot (add_vec xs ys) zs = dot xs zs + dot ys zs"
  by (induction xs ys zs rule: list_induct3) (simp_all add: add_vec_def algebra_simps)

lemma dot_scale: "dot (scale_vec a xs) ys = a * dot xs ys"
  by (induction xs ys rule: list_induct2') (simp_all add: scale_vec_def algebra_simps)

lemma dot_self: "0 \<le> dot v v"
  by (induction v) simp_all

lemma dot_self_zero: "dot v v = 0 \<longleftrightarrow> set v \<subseteq> {0}"
proof (induction v)
  case (Cons x v)
  have "dot (x # v) (x # v) = 0 \<longleftrightarrow> x * x = 0 \<and> dot v v = 0"
    using dot_self[of v] by (metis add_nonneg_eq_0_iff dot_Cons zero_le_square)
  with Cons show ?case by simp
qed simp

lemma length_vec [simp]:
  "length (scale_vec a xs) = length xs" "length (add_vec xs ys) = min (length xs) (length ys)"
  "length (mat_vec m v) = length m" "length (outer xs ys) = length xs" "length (identity n) = n"
  by (simp_all add: scale_vec_def add_vec_def mat_vec_def outer_def identity_def)

definition square :: "nat \<Rightarrow> real list list \<Rightarrow> bool" where
  "square n m \<longleftrightarrow> length m = n \<and> (\<forall>row \<in> set m. length row = n)"

lemma square_identity: "square n (identity n)"
  by (auto simp: square_def identity_def)

lemma square_outer: "length x = n \<Longrightarrow> square n m \<Longrightarrow> square n (map2 add_vec m (outer x x))"
proof -
  assume x: "length x = n" and m: "square n m"
  have "length row = n" if "row \<in> set (map2 add_vec m (outer x x))" for row
  proof -
    from that obtain a b where ab: "row = add_vec a b" "(a, b) \<in> set (zip m (outer x x))" by auto
    then have "a \<in> set m" "b \<in> set (outer x x)" by (auto dest: set_zip_leftD set_zip_rightD)
    then show ?thesis using ab(1) x m by (auto simp: square_def outer_def)
  qed
  then show "square n (map2 add_vec m (outer x x))" using x m by (simp add: square_def)
qed

lemma rows_outer:
  "length m = length xs \<Longrightarrow> \<forall>row \<in> set m. length row = length v \<Longrightarrow> length x = length v \<Longrightarrow>
    mat_vec (map2 add_vec m (outer xs x)) v = add_vec (mat_vec m v) (scale_vec (dot x v) xs)"
  by (induction m xs rule: list_induct2) (simp_all add: outer_def mat_vec_def add_vec_def[of "_ # _"] scale_vec_def[of _ "_ # _"] dot_add dot_scale,
    simp_all add: add_vec_def scale_vec_def)

lemma dot_indicator: "i < n \<Longrightarrow> length v = n \<Longrightarrow> dot (map (\<lambda>j. if i = j then 1 else 0) [0..<n]) v = v ! i"
proof -
  assume "i < n" and n: "length v = n"
  have "dot (map (\<lambda>j. if i = j then 1 else 0) [0..<n]) v = (\<Sum>j<n. (if i = j then 1 else 0) * v ! j)"
    using n by (simp add: dot_def sum_list_sum_nth atLeast0LessThan)
  also have "\<dots> = v ! i" using \<open>i < n\<close> by (simp add: if_distrib[of "\<lambda>a. a * _"] cong: if_cong)
  finally show ?thesis .
qed

lemma identity_vec: "length v = n \<Longrightarrow> mat_vec (identity n) v = v"
  by (rule nth_equalityI) (simp_all add: mat_vec_def identity_def dot_indicator)

subsection \<open>Well-formed contexts\<close>

definition wf_context :: "linucb \<Rightarrow> bool" where
  "wf_context ctx \<longleftrightarrow> square (lc_d ctx) (lc_A ctx) \<and> length (lc_b ctx) = lc_d ctx"

definition coercive :: "linucb \<Rightarrow> bool" where
  "coercive ctx \<longleftrightarrow> (\<forall>v. length v = lc_d ctx \<longrightarrow> dot v v \<le> dot v (mat_vec (lc_A ctx) v))"

lemma new_context_ok: "wf_context (new_context d)" "coercive (new_context d)"
  by (simp_all add: wf_context_def coercive_def new_context_def square_identity identity_vec)

lemma update_context_ok:
  assumes "update_context ctx x r = Some ctx'" and "wf_context ctx" and "coercive ctx"
  shows "wf_context ctx'" and "coercive ctx'"
proof -
  from assms(1) have x: "length x = lc_d ctx"
    and c: "ctx' = ctx\<lparr>lc_A := map2 add_vec (lc_A ctx) (outer x x), lc_b := add_vec (lc_b ctx) (scale_vec r x), lc_n := lc_n ctx + 1\<rparr>"
    by (auto simp: update_context_def split: if_splits)
  then show "wf_context ctx'" using assms(2) by (simp add: wf_context_def square_outer)
  have "dot v v \<le> dot v (mat_vec (lc_A ctx') v)" if v: "length v = lc_d ctx" for v
  proof -
    have "mat_vec (lc_A ctx') v = add_vec (mat_vec (lc_A ctx) v) (scale_vec (dot x v) x)"
      using rows_outer[of "lc_A ctx" x v x] assms(2) x v by (simp add: c wf_context_def square_def)
    then have "dot v (mat_vec (lc_A ctx') v) = dot v (mat_vec (lc_A ctx) v) + dot x v * dot x v"
      using assms(2) x v by (simp add: dot_commute[of v] dot_add dot_scale wf_context_def square_def)
    then show ?thesis using assms(3) v by (simp add: coercive_def) (meson add_increasing2 zero_le_square order_trans order_refl)
  qed
  then show "coercive ctx'" by (simp add: coercive_def c)
qed

lemma coercive_invertible:
  assumes "coercive ctx" and "length v = lc_d ctx" and "set (mat_vec (lc_A ctx) v) \<subseteq> {0}"
  shows "set v \<subseteq> {0}"
proof -
  have z: "set ws \<subseteq> {0} \<Longrightarrow> dot v ws = 0" for v ws :: "real list"
    by (induction v ws rule: list_induct2') auto
  have "dot v v \<le> 0" using assms(1,2) z[OF assms(3), of v] unfolding coercive_def by (metis)
  then have "dot v v = 0" using dot_self[of v] by linarith
  then show ?thesis by (simp add: dot_self_zero)
qed

subsection \<open>Stored models\<close>

lemma reshape_concat: "length m = r \<Longrightarrow> \<forall>row \<in> set m. length row = c \<Longrightarrow> reshape r c (concat m) = m"
  by (induction m arbitrary: r) auto

lemma length_concat_square: "square n m \<Longrightarrow> length (concat m) = n * n"
proof -
  have "\<forall>row \<in> set m. length row = k \<Longrightarrow> length (concat m) = length m * k" for k
    by (induction m) simp_all
  then show "square n m \<Longrightarrow> length (concat m) = n * n" by (simp add: square_def)
qed

lemma state_roundtrip: "wf_context ctx \<Longrightarrow> from_state (to_state t ctx) = Some ctx"
proof -
  assume wf: "wf_context ctx"
  have l: "length (concat (lc_A ctx)) = lc_d ctx * lc_d ctx" using wf length_concat_square by (simp add: wf_context_def)
  have r: "reshape (lc_d ctx) (lc_d ctx) (concat (lc_A ctx)) = lc_A ctx"
    using wf by (auto simp: wf_context_def square_def intro: reshape_concat)
  show "from_state (to_state t ctx) = Some ctx"
  proof (cases "lc_d ctx = 0")
    case True
    then have "lc_A ctx = []" "lc_b ctx = []" using wf by (auto simp: wf_context_def square_def)
    with True show ?thesis by (cases ctx) (simp add: from_state_def to_state_def new_context_def identity_def)
  next
    case False
    have b: "length (lc_b ctx) = lc_d ctx" using wf by (simp add: wf_context_def)
    have "concat (lc_A ctx) \<noteq> []" using False l by (metis length_0_conv mult_eq_0_iff)
    moreover have "lc_b ctx \<noteq> []" using False b by auto
    ultimately show ?thesis using l r b by (cases ctx) (simp add: from_state_def to_state_def new_context_def del: concat_eq_Nil_conv)
  qed
qed

lemma those_reals: "those (map as_real (map JReal xs)) = Some xs"
  by (induction xs) simp_all

lemma model_state_roundtrip: "model_state_of_doc (with_meta e ty (model_state_doc now m)) = Some m"
  using those_reals[of "ms_A m"] those_reals[of "ms_b m"]
  by (simp add: model_state_of_doc_def model_state_doc_def with_meta_def field_def)

context kv_collection
begin

lemma load_persisted:
  assumes "wf_context ctx"
  shows "load_context kv u t (persist_context kv g u t ctx c) = ctx"
proof -
  have "get_bandit_model kv u t (persist_context kv g u t ctx c) =
      Some (with_meta (store_env.truncate g) ''bandit_model'' (model_state_doc (g_dump g (e_now g)) (to_state t ctx)))"
    by (simp add: persist_context_def get_bandit_model_def save_bandit_model_def save_doc_def get_raw_def get_upsert sfield_def
        model_state_doc_def to_state_def)
  moreover have "with_meta e ty d \<noteq> []" for e ty d
    using dict_keys_set[of "''_meta''" _ d] by (fastforce simp: with_meta_def)
  ultimately show ?thesis
    by (simp add: load_context_def model_state_roundtrip state_roundtrip[OF assms])
qed

end

subsection \<open>Learning\<close>

fun record_rewards :: "'c kv_ops \<Rightarrow> string \<Rightarrow> string \<Rightarrow> (registry_env \<times> bid_features \<times> real) list \<Rightarrow> 'c \<Rightarrow> 'c option" where
  "record_rewards kv u t [] c = Some c"
| "record_rewards kv u t ((g, f, r) # os) c = Option.bind (record_reward kv g u t f r c) (record_rewards kv u t os)"

definition evidence :: "(registry_env \<times> bid_features \<times> real) list \<Rightarrow> real list \<Rightarrow> real list" where
  "evidence os b = foldl (\<lambda>b (g, f, r). add_vec b (scale_vec r (features_to_array f))) b os"

lemma length_features [simp]: "length (features_to_array f) = 6"
  by (simp add: features_to_array_def)

lemma record_reward_step:
  assumes kv: "kv_collection kv" and "bandit_enabled g" and ctx: "wf_context (load_context kv u t c)" "coercive (load_context kv u t c)"
    and d: "lc_d (load_context kv u t c) = 6"
  obtains c' where "record_reward kv g u t f r c = Some c'" and "wf_context (load_context kv u t c')"
    and "coercive (load_context kv u t c')" and "lc_d (load_context kv u t c') = 6"
    and "lc_n (load_context kv u t c') = lc_n (load_context kv u t c) + 1"
    and "lc_b (load_context kv u t c') = add_vec (lc_b (load_context kv u t c)) (scale_vec r (features_to_array f))"
proof -
  obtain ctx' where u: "update_context (load_context kv u t c) (features_to_array f) r = Some ctx'"
    using d by (simp add: update_context_def)
  note ok = update_context_ok[OF u ctx]
  have "record_reward kv g u t f r c = Some (persist_context kv g u t ctx' c)" using assms(2) u by (simp add: record_reward_def)
  moreover have "load_context kv u t (persist_context kv g u t ctx' c) = ctx'" by (rule kv_collection.load_persisted[OF kv ok(1)])
  moreover have "lc_d ctx' = 6" "lc_n ctx' = lc_n (load_context kv u t c) + 1"
    "lc_b ctx' = add_vec (lc_b (load_context kv u t c)) (scale_vec r (features_to_array f))"
    using u d by (auto simp: update_context_def split: if_splits)
  ultimately show thesis using that ok by metis
qed

lemma record_rewards_run:
  assumes kv: "kv_collection kv"
  shows "\<forall>(g, f, r) \<in> set os. bandit_enabled g \<Longrightarrow> wf_context (load_context kv u t c) \<Longrightarrow> coercive (load_context kv u t c) \<Longrightarrow>
    lc_d (load_context kv u t c) = 6 \<Longrightarrow>
    \<exists>c'. record_rewards kv u t os c = Some c' \<and> coercive (load_context kv u t c') \<and> lc_d (load_context kv u t c') = 6 \<and>
      lc_n (load_context kv u t c') = lc_n (load_context kv u t c) + int (length os) \<and>
      lc_b (load_context kv u t c') = evidence os (lc_b (load_context kv u t c))"
proof (induction os arbitrary: c)
  case (Cons x os)
  obtain g f r where x: "x = (g, f, r)" by (cases x)
  have g: "bandit_enabled g" using Cons.prems(1) x by simp
  obtain c1 where c1: "record_reward kv g u t f r c = Some c1" "wf_context (load_context kv u t c1)"
    "coercive (load_context kv u t c1)" "lc_d (load_context kv u t c1) = 6"
    "lc_n (load_context kv u t c1) = lc_n (load_context kv u t c) + 1"
    "lc_b (load_context kv u t c1) = add_vec (lc_b (load_context kv u t c)) (scale_vec r (features_to_array f))"
    using record_reward_step[OF kv g Cons.prems(2-4)] by blast
  obtain c' where "record_rewards kv u t os c1 = Some c'" "coercive (load_context kv u t c')" "lc_d (load_context kv u t c') = 6"
    "lc_n (load_context kv u t c') = lc_n (load_context kv u t c1) + int (length os)"
    "lc_b (load_context kv u t c') = evidence os (lc_b (load_context kv u t c1))"
    using Cons.IH[OF _ c1(2-4)] Cons.prems(1) by auto
  then show ?case using c1 x by (auto simp: evidence_def)
qed (auto simp: evidence_def)

end
