(* ===== verification/Contract_Net_Properties.thy ===== *)
theory Contract_Net_Properties
  imports Bidder_Properties Cycle_Frames Bandit_Properties Builder_Properties
begin

section \<open>Properties of the contract net\<close>

text \<open>
  What the bidder, the cycle over it and the learner guarantee, on the functions of the code. The concrete run is that
  of a user with one task and no agents: the first call gets no bid and is closed, the call of the second round gets
  one of the agent \<^verbatim>\<open>system\<close>.
\<close>

definition net_env :: registry_env where
  "net_env = \<lparr>e_now = 0, e_iso = (\<lambda>_. ''t''), e_uuid = ''u'', e_timestamp = (\<lambda>_. 0), g_getenv = (\<lambda>_. None), g_float = (\<lambda>_. None),
     g_parse = (\<lambda>_. None), g_dump = (\<lambda>_. ''now''), g_repr = (\<lambda>_. [])\<rparr>"

definition net_cnp :: cnp_env where
  "net_cnp = \<lparr>ce_float = (\<lambda>_. None), ce_int = (\<lambda>_. None), ce_repr = (\<lambda>_. []), ce_hierarchy = [], ce_policy_weight = 1 / 4,
     ce_lmax_default = 3, ce_threshold_default = 1 / 2, ce_lambda1 = 1 / 2, ce_lambda2 = 1 / 2, ce_lambda3 = 1, ce_lambda4 = 1 / 2,
     ce_lambda5 = 0, ce_lambda6 = 0, ce_lambda7 = 0, ce_lambda_bandit = 0, ce_failure_max_penalty = 1, ce_failure_decay = 1\<rparr>"

definition net_bidder :: bidder_env where
  "net_bidder = \<lparr>bd_reg = net_env, bd_cnp = net_cnp, bd_ids = (\<lambda>n. replicate (Suc n) CHR ''i''), bd_success_rows = (\<lambda>_. None),
     bd_duration_rows = (\<lambda>_. None), bd_solve = (\<lambda>_. None), bd_draw = (\<lambda>_. 1), bd_pick = (\<lambda>_ _. 1)\<rparr>"

definition net_store :: "(string \<times> doc) list" where
  "net_store = [(''task_spec::u::t'', [(''task_id'', JStr ''t''), (''username'', JStr ''u''), (''description'', JStr ''d'')])]"

text \<open>The functions on real numbers the concrete runs never evaluate.\<close>

declare exp_def [code del] sin_def [code del] root_def [code del]

lemma net_run:
  "bid_locally mem_kv net_bidder ''u'' [] None 0 net_store =
     (Inr [(''bids_created'', JInt 1), (''cfps_created'', JInt 2), (''task_count'', JInt 1)],
      snd (bid_locally mem_kv net_bidder ''u'' [] None 0 net_store))"
  "call mem_kv ''u'' ''t'' ''iii'' (snd (bid_locally mem_kv net_bidder ''u'' [] None 0 net_store)) \<noteq> None"
proof -
  have "fst (bid_locally mem_kv net_bidder ''u'' [] None 0 net_store) =
     Inr [(''bids_created'', JInt 1), (''cfps_created'', JInt 2), (''task_count'', JInt 1)]" by code_simp
  then show "bid_locally mem_kv net_bidder ''u'' [] None 0 net_store =
     (Inr [(''bids_created'', JInt 1), (''cfps_created'', JInt 2), (''task_count'', JInt 1)],
      snd (bid_locally mem_kv net_bidder ''u'' [] None 0 net_store))" by (metis prod.collapse)
qed code_simp

subsection \<open>The bidder\<close>

text \<open>C16. Calls are never overbooked: in a run of the bidder, whatever the agents, scores, rounds and stored calls,
  the bids on a call never exceed its limit (\<^verbatim>\<open>max_bids\<close>, or the default) unless there were that many
  before. The store holds calls under the keys the code gives them, and fresh identifiers are fresh.\<close>

theorem calls_never_overbooked:
  assumes "kv_collection kv" and "name_ok u" and "drawn_ids bd" and "filed kv u c"
    and "\<And>m t. name_ok t \<Longrightarrow> n \<le> m \<Longrightarrow> call kv u t (bd_ids bd m) c = None"
    and "\<And>d s. d \<in> set (fst (list_task_specs kv u no_listing c)) \<Longrightarrow> task_spec_of_doc d = Some s \<Longrightarrow> name_ok (sp_task_id s)"
    and "bid_locally kv bd u payload registry n c = (r, c')" and "name_ok t" and "call kv u t i c' = Some d"
  shows "length (dict_get (existing_bid_state kv bd u t c') i []) \<le>
    max (length (dict_get (existing_bid_state kv bd u t c) i [])) (nat (bid_limit bd d))"
  using kv_collection.bid_locally_fair[OF assms] unfolding booked_def .

theorem calls_never_overbooked_witness:
  "\<exists>r c' d. bid_locally mem_kv net_bidder ''u'' [] None 0 net_store = (r, c') \<and> call mem_kv ''u'' ''t'' ''iii'' c' = Some d \<and>
     length (dict_get (existing_bid_state mem_kv net_bidder ''u'' ''t'' c') ''iii'' []) \<le>
       max (length (dict_get (existing_bid_state mem_kv net_bidder ''u'' ''t'' net_store) ''iii'' [])) (nat (bid_limit net_bidder d))"
proof -
  obtain d where d: "call mem_kv ''u'' ''t'' ''iii'' (snd (bid_locally mem_kv net_bidder ''u'' [] None 0 net_store)) = Some d"
    using net_run(2) by auto
  have ok: "name_ok ''u''" "name_ok ''t''" by (simp_all add: name_ok_def plain_def)
  have ids: "drawn_ids net_bidder" by (auto simp: drawn_ids_def net_bidder_def inj_def replicate_eq_replicate simp del: replicate_Suc)
  have one: "kv_get mem_kv net_store k = Some d' \<Longrightarrow> take 5 k = ''task_''" for k d'
    by (auto simp: mem_kv_def net_store_def split: if_splits)
  have filed: "filed mem_kv ''u'' net_store" unfolding filed_def
  proof (intro allI impI)
    fix k d assume a: "kv_get mem_kv net_store k = Some d \<and> take (length (prefix2 ''cfp'' ''u'')) k = prefix2 ''cfp'' ''u''"
    then have "take 5 (take (length (prefix2 ''cfp'' ''u'')) k) = take 5 (prefix2 ''cfp'' ''u'')" by simp
    moreover have "take 5 (take (length (prefix2 ''cfp'' ''u'')) k) = take 5 k" by (simp add: prefix2_def numeral_eq_Suc)
    ultimately have False using a one[of k d] by (simp add: prefix2_def numeral_eq_Suc)
    then show "\<exists>t i. name_ok t \<and> i \<noteq> [] \<and> k = key3 ''cfp'' ''u'' t i \<and> jget d ''task_id'' = JStr t \<and> jget d ''cfp_id'' = JStr i" ..
  qed
  have free: "call mem_kv ''u'' t' i net_store = None" for t' i
  proof (rule ccontr)
    assume "\<not> ?thesis"
    then obtain d' where "kv_get mem_kv net_store (key3 ''cfp'' ''u'' t' i) = Some d'" by (auto simp: call_def)
    from one[OF this] show False by (simp add: key3_def key2_def)
  qed
  have "fst (list_task_specs mem_kv ''u'' no_listing net_store) =
      [[(''id'', JStr ''task_spec::u::t''), (''task_id'', JStr ''t''), (''username'', JStr ''u''), (''description'', JStr ''d'')]]" by code_simp
  moreover have "name_ok (sp_task_id s)" if "task_spec_of_doc [(''id'', JStr ''task_spec::u::t''), (''task_id'', JStr ''t''), (''username'', JStr ''u''), (''description'', JStr ''d'')] = Some s" for s
  proof -
    have "sp_task_id s = ''t''" using that by (auto simp: task_spec_of_doc_def field_def bind_eq_Some_conv)
    then show ?thesis by (simp only: ok)
  qed
  ultimately have specs: "d' \<in> set (fst (list_task_specs mem_kv ''u'' no_listing net_store)) \<Longrightarrow> task_spec_of_doc d' = Some s \<Longrightarrow>
      name_ok (sp_task_id s)" for d' s by auto
  have "length (dict_get (existing_bid_state mem_kv net_bidder ''u'' ''t'' (snd (bid_locally mem_kv net_bidder ''u'' [] None 0 net_store))) ''iii'' []) \<le>
      max (length (dict_get (existing_bid_state mem_kv net_bidder ''u'' ''t'' net_store) ''iii'' [])) (nat (bid_limit net_bidder d))"
    by (rule calls_never_overbooked[OF mem.kv_collection_axioms ok(1) ids filed free _ net_run(1) ok(2) d]) (rule specs)
  with net_run(1) d show ?thesis by blast
qed

text \<open>A new call escalates: the call the bidder announces has the round after the highest one of the stored calls
  of its task (the first without any), the stimulus of its base raised by the step for every round before it and cut
  at the maximum, and is stored as an open call of that task.\<close>

theorem new_round_escalates:
  assumes "kv_collection kv" and "announce kv bd u spec tp st = (Inr cfps, st')"
    and "env_float_strict (bd_reg bd) ''CNP_STIMULUS_STEP'' (1 / 10) = Inr step"
    and "env_float_strict (bd_reg bd) ''CNP_STIMULUS_MAX'' 1 = Inr most"
    and "rounds_of (bd_cnp bd) (fst (list_cfps kv u (Some (sp_task_id spec)) None no_listing (bs_store st))) = Inr rs"
  obtains d r where "cfps = [d]" and "r = (if rs = [] then 1 else Max (set rs) + 1)" and "jget d ''round'' = JInt r"
    and "jget d ''stimulus'' = JReal (min (tp_stimulus tp + of_int (r - 1) * step) most)" and "jget d ''status'' = JStr ''open''"
    and "call kv u (sp_task_id spec) (bd_ids bd (bs_next st)) (bs_store st') = Some (with_meta (bd_store bd 0) ''cfp'' d)"
proof -
  define all where "all = fst (list_cfps kv u (Some (sp_task_id spec)) None no_listing (bs_store st))"
  have rs: "rounds_of (bd_cnp bd) all = Inr rs" using assms(5) by (simp add: all_def)
  have "length rs = length all" using rs by (auto simp: rounds_of_def mapR_Inr_iff dest: list_all2_lengthD)
  then have len: "rs = [] \<longleftrightarrow> all = []" by auto
  obtain d where d: "bindR (next_round (bd_cnp bd) all) (\<lambda>r. new_call bd spec tp (bs_pipeline st) r (bd_ids bd (bs_next st))) = Inr d"
    and out: "cfps = [d]" "bs_store st' = snd (add_cfp kv (bd_store bd 0) u d (bs_store st))"
    using assms(2) by (auto simp: announce_def Let_def all_def[symmetric] split: sum.splits)
  have r: "next_round (bd_cnp bd) all = Inr (if rs = [] then 1 else Max (set rs) + 1)"
    using rs len by (cases all) (auto simp: next_round_def)
  show thesis
  proof (rule that[OF out(1) refl])
    show "jget d ''round'' = JInt (if rs = [] then 1 else Max (set rs) + 1)"
      "jget d ''stimulus'' = JReal (min (tp_stimulus tp + of_int ((if rs = [] then 1 else Max (set rs) + 1) - 1) * step) most)"
      "jget d ''status'' = JStr ''open''"
      using d assms(3,4) r by (auto simp: new_call_def Let_def bindR_iffs split: option.splits if_splits)
    have "jget d ''task_id'' = JStr (sp_task_id spec)" "jget d ''cfp_id'' = JStr (bd_ids bd (bs_next st))"
      using d by (auto simp: bindR_iffs kv_collection.new_call_fields[OF assms(1)])
    then show "call kv u (sp_task_id spec) (bd_ids bd (bs_next st)) (bs_store st') = Some (with_meta (bd_store bd 0) ''cfp'' d)"
      by (simp add: call_def out(2) add_cfp_def save_doc_def sfield_def kv_collection.get_upsert[OF assms(1)])
  qed
qed

definition round_store :: "(string \<times> doc) list" where
  "round_store = [(''cfp::u::t::k'', [(''cfp_id'', JStr ''k''), (''task_id'', JStr ''t''), (''round'', JInt 2), (''status'', JStr ''closed'')])]"

definition round_task :: task_spec where
  "round_task = \<lparr>sp_task_id = ''t'', sp_username = ''u'', sp_description = ''d'', sp_required_capabilities = [], sp_tags = [],
     sp_risk_level = RiskMedium, sp_requires_human_approval = False, sp_coordination_mode = SoloPreferred, sp_metadata = []\<rparr>"

theorem new_round_escalates_witness:
  "\<exists>d st'. announce mem_kv net_bidder ''u'' round_task (task_params net_cnp round_task)
       \<lparr>bs_store = round_store, bs_next = 0, bs_bids = 0, bs_cfps = 0, bs_pipeline = JNull\<rparr> = (Inr [d], st') \<and>
     jget d ''round'' = JInt 3 \<and>
     jget d ''stimulus'' = JReal (min (tp_stimulus (task_params net_cnp round_task) + 2 * (1 / 10)) 1)"
proof -
  let ?st = "\<lparr>bs_store = round_store, bs_next = 0, bs_bids = 0, bs_cfps = 0, bs_pipeline = JNull\<rparr>"
  let ?a = "announce mem_kv net_bidder ''u'' round_task (task_params net_cnp round_task) ?st"
  have r: "rounds_of (bd_cnp net_bidder) (fst (list_cfps mem_kv ''u'' (Some (sp_task_id round_task)) None no_listing (bs_store ?st))) = Inr [2]"
    by code_simp
  have e: "env_float_strict (bd_reg net_bidder) ''CNP_STIMULUS_STEP'' (1 / 10) = Inr (1 / 10)"
    "env_float_strict (bd_reg net_bidder) ''CNP_STIMULUS_MAX'' 1 = Inr 1"
    by (simp_all add: env_float_strict_def net_bidder_def net_env_def)
  have "(case fst ?a of Inr _ \<Rightarrow> True | Inl _ \<Rightarrow> False)" by code_simp
  then obtain cfps st' where a: "?a = (Inr cfps, st')" by (cases ?a) (auto split: sum.splits)
  show ?thesis
    by (rule new_round_escalates[OF mem.kv_collection_axioms a e r]) (use a in auto)
qed

subsection \<open>The cycle\<close>


definition net_command :: cycle_command where
  "net_command = \<lparr>cc_username = ''u'', cc_pipeline = ''p'', cc_run = None, cc_tasks = [''t''], cc_max_rounds = None, cc_timeout = None\<rparr>"


lemma cycle_leaves_awards:
  assumes "kv_collection kv" and "\<And>k d. kv_get kv c k = Some d \<Longrightarrow> is_bid_key k \<Longrightarrow> jget d ''pipeline_id'' = JNull"
    and "cc_pipeline cmd \<noteq> []"
    and "handle_run_cnp_cycle kv ops envs be remote cmd (Some c) registry runs = Some (r, st, rg, rn)"
  shows "is_award_key k \<Longrightarrow> kv_get kv (cr_store st) k = kv_get kv c k"
    and "kv_get kv (cr_store st) k = Some d \<Longrightarrow> is_bid_key k \<Longrightarrow> jget d ''pipeline_id'' = JNull"
proof -
  have "jget d ''pipeline_id'' \<noteq> JStr (cc_pipeline cmd)" if "kv_get kv c k = Some d" "is_bid_key k" for k d
    using assms(2)[OF that] by simp
  from kv_collection.cycle_quiet[OF assms(1) this assms(3,4)] have q: "quiet kv c (cr_store st)" .
  show "is_award_key k \<Longrightarrow> kv_get kv (cr_store st) k = kv_get kv c k"
    using q unfolding quiet_def untouched_def by blast
  show "kv_get kv (cr_store st) k = Some d \<Longrightarrow> is_bid_key k \<Longrightarrow> jget d ''pipeline_id'' = JNull"
    using q assms(2)[of k d] unfolding quiet_def by blast
qed

text \<open>C27. A cycle awards nothing: the bidder stores its bids without a pipeline, and the builder that ends the
  cycle reads the bids of its pipeline only. From a store whose bids name no pipeline, which every cycle leaves so, no
  award of any user changes, whatever the agents, bids and rounds.\<close>

theorem cycle_awards_nothing:
  assumes "kv_collection kv" and "\<And>k d. kv_get kv c k = Some d \<Longrightarrow> is_bid_key k \<Longrightarrow> jget d ''pipeline_id'' = JNull"
    and "cc_pipeline cmd \<noteq> []"
    and "handle_run_cnp_cycle kv ops envs be remote cmd (Some c) registry runs = Some (r, st, rg, rn)"
  shows "(is_award_key k \<longrightarrow> kv_get kv (cr_store st) k = kv_get kv c k) \<and>
     (kv_get kv (cr_store st) k = Some d \<and> is_bid_key k \<longrightarrow> jget d ''pipeline_id'' = JNull)"
proof (intro conjI impI)
  show "kv_get kv (cr_store st) k = kv_get kv c k" if "is_award_key k"
    by (rule cycle_leaves_awards(1)[OF assms that])
  show "jget d ''pipeline_id'' = JNull" if "kv_get kv (cr_store st) k = Some d \<and> is_bid_key k"
    by (rule cycle_leaves_awards(2)[OF assms that[THEN conjunct1] that[THEN conjunct2]])
qed

theorem cycle_awards_nothing_witness:
  "\<exists>st rg rn. (\<exists>r. handle_run_cnp_cycle mem_kv mem_docs (\<lambda>_. net_bidder) small_builder (\<lambda>_ _ c. (None, c)) net_command
      (Some net_store) None None = Some (r, st, rg, rn)) \<and> kv_get mem_kv (cr_store st) ''award::u::t'' = None"
proof -
  have m: "max_rounds_of net_bidder net_command = 3"
    by (simp add: max_rounds_of_def new_cycle_def or_int_def net_command_def net_bidder_def net_env_def env_int_def)
  obtain cy st rg rn where h: "handle_run_cnp_cycle mem_kv mem_docs (\<lambda>_. net_bidder) small_builder (\<lambda>_ _ c. (None, c)) net_command
      (Some net_store) None None = Some (Inr cy, st, rg, rn)"
  proof (rule mem.handled_cycle[of "\<lambda>_. net_bidder" net_command mem_docs small_builder "\<lambda>_ _ c. (None, c)" net_store None None])
    show "1 \<le> max_rounds_of net_bidder net_command" by (simp add: m)
  qed (rule that)
  have bids: "jget d ''pipeline_id'' = JNull" if "kv_get mem_kv net_store k = Some d" and "is_bid_key k" for k d
    using that by (simp add: mem_kv_def net_store_def is_bid_key_def split: if_splits)
  have "kv_get mem_kv (cr_store st) ''award::u::t'' = kv_get mem_kv net_store ''award::u::t''"
    by (rule cycle_awards_nothing[OF mem.kv_collection_axioms bids _ h, THEN conjunct1, THEN mp]) (simp_all add: net_command_def is_award_key_def)
  also have "kv_get mem_kv net_store ''award::u::t'' = None" by (simp add: mem_kv_def net_store_def)
  finally show ?thesis using h by blast
qed

subsection \<open>The learner\<close>

text \<open>C28. The learner keeps what it is told: from a store without a model for the task type, after any sequence of
  recorded rewards the stored model has counted them, its vector is the sum of the features weighted by the rewards,
  and its matrix is invertible, so that the linear system of a prediction has at most one solution.\<close>

theorem bandit_learns:
  assumes "kv_collection kv" and "get_bandit_model kv u t c = None" and "\<forall>(g, f, r) \<in> set os. bandit_enabled g"
  obtains c' where "record_rewards kv u t os c = Some c'" and "lc_n (load_context kv u t c') = int (length os)"
    and "lc_b (load_context kv u t c') = evidence os (replicate 6 0)"
    and "\<And>v. length v = 6 \<Longrightarrow> set (mat_vec (lc_A (load_context kv u t c')) v) \<subseteq> {0} \<Longrightarrow> set v \<subseteq> {0}"
proof -
  have ctx: "load_context kv u t c = new_context 6" using assms(2) by (simp add: load_context_def)
  have "lc_d (new_context 6) = 6" "lc_n (new_context 6) = 0" "lc_b (new_context 6) = replicate 6 0" by (simp_all add: new_context_def)
  with record_rewards_run[OF assms(1,3), of u t c] new_context_ok[of 6]
  obtain c' where "record_rewards kv u t os c = Some c'" "coercive (load_context kv u t c')" "lc_d (load_context kv u t c') = 6"
    "lc_n (load_context kv u t c') = int (length os)" "lc_b (load_context kv u t c') = evidence os (replicate 6 0)"
    unfolding ctx by auto
  then show thesis using that coercive_invertible[of "load_context kv u t c'"] by simp
qed

definition bandit_env :: registry_env where
  "bandit_env = net_env\<lparr>g_getenv := (\<lambda>v. if v = ''CNP_BANDIT_ENABLE'' then Some ''1'' else None)\<rparr>"

definition even_features :: bid_features where
  "even_features = \<lparr>bf_trust = 1 / 2, bf_cost_norm = 1, bf_load_norm = 0, bf_failure_penalty = 0, bf_hist_success = 0, bf_speed = 0\<rparr>"

theorem bandit_learns_witness:
  "\<exists>c'. record_rewards mem_kv ''u'' ''io'' [(bandit_env, even_features, 1), (bandit_env, even_features, -1)] [] = Some c' \<and>
     lc_n (load_context mem_kv ''u'' ''io'' c') = 2"
proof -
  have e: "\<forall>(g, f, r) \<in> set [(bandit_env, even_features, 1), (bandit_env, even_features, -1)]. bandit_enabled g"
    by (simp add: bandit_env_def net_env_def bandit_enabled_def)
  show ?thesis by (rule bandit_learns[OF mem.kv_collection_axioms _ e, of "''u''" "''io''" "[]"]) (auto simp: get_bandit_model_def get_raw_def mem_kv_def)
qed

end
