(* ===== verification/Tracker_Properties.thy ===== *)
theory Tracker_Properties
  imports Tracker Store_Properties
begin

section \<open>What the tracker promises\<close>

text \<open>
  Invariants of the event handler over any run store that satisfies the laws of \<open>doc_collection\<close>:
  statuses only move forward, a run is stopped at most once, a run completes with its final tasks,
  a repeated event changes nothing. Two properties show how re-forwarding defeats itself.
\<close>

definition rank :: "task_state \<Rightarrow> nat" where
  "rank t = order_of (case to_enum (ts_status t) of None \<Rightarrow> TsPending | Some p \<Rightarrow> p)"

abbreviation event_doc :: "('c, stored_run) doc_ops \<Rightarrow> task_state \<Rightarrow> 'c \<Rightarrow> store_error + stored_run" where
  "event_doc ops ev c \<equiv> read_run ops (ts_username ev) (ts_pipeline_id ev) (ts_run_id ev) c"

subsection \<open>Case analysis of the handler\<close>

definition quiet :: "(store_error + reforward_info option \<times> string list) \<Rightarrow> bool" where
  "quiet r \<longleftrightarrow> (\<forall>rf ss. r = Inr (rf, ss) \<longrightarrow> rf = None \<and> ss = [])"

lemma quiet_simps [simp]: "quiet (Inl e)" "quiet (Inr (None, []))"
  by (simp_all add: quiet_def)

lemma on_task_done_cases:
  assumes "on_task_done ops kv te ev st = (r, st')"
  obtains (dropped) "tr_runs st' = tr_runs st" "tr_graph st' = tr_graph st" "quiet r"
  | (processed) s prev run plan l where
      "to_enum (ts_status ev) = Some s" "event_doc ops ev (tr_runs st) = Inr (StoredRun run plan)"
      "map_of (pr_tasks run) (ts_task_id ev) = Some prev" "rank prev \<le> order_of s"
      "lru_ttl l = lru_ttl (dict_get (tr_dedupe st) (ts_run_id ev) new_lru)"
      "lru_max l = lru_max (dict_get (tr_dedupe st) (ts_run_id ev) new_lru)"
      "process_event ops kv te s (ev\<lparr>ts_status := SEnum s\<rparr>) prev run plan
         (st\<lparr>tr_dedupe := dict_set (ts_run_id ev) l (tr_dedupe st)\<rparr>) = (r, st')"
proof (cases "to_enum (ts_status ev)")
  case None
  with assms have "st' = st" "r = Inr (None, [])" by (auto simp: on_task_done_def)
  then show ?thesis using dropped by simp
next
  case (Some s)
  define q where "q = lru_contains (te_clock te) (event_key (ev\<lparr>ts_status := SEnum s\<rparr>)) (dict_get (tr_dedupe st) (ts_run_id ev) new_lru)"
  define st1 where "st1 = st\<lparr>tr_dedupe := dict_set (ts_run_id ev) (snd q) (tr_dedupe st)\<rparr>"
  have lp: "lru_ttl (snd q) = lru_ttl (dict_get (tr_dedupe st) (ts_run_id ev) new_lru)"
    "lru_max (snd q) = lru_max (dict_get (tr_dedupe st) (ts_run_id ev) new_lru)"
    by (simp_all add: q_def lru_params)
  have eq: "on_task_done ops kv te ev st = (if fst q then (Inr (None, []), st1)
      else case event_doc ops ev (tr_runs st) of
             Inl e \<Rightarrow> (Inl e, st1)
           | Inr StoredEmpty \<Rightarrow> (Inr (None, []), st1)
           | Inr StoredBad \<Rightarrow> (Inl InvalidRun, st1)
           | Inr (StoredRun run plan) \<Rightarrow>
               (case map_of (pr_tasks run) (ts_task_id ev) of
                  None \<Rightarrow> (Inr (None, []), st1)
                | Some prev \<Rightarrow> if \<not> rank prev \<le> order_of s then (Inr (None, []), st1)
                    else process_event ops kv te s (ev\<lparr>ts_status := SEnum s\<rparr>) prev run plan st1))"
    by (simp add: on_task_done_def Some Let_def rank_def forward_only_def case_prod_unfold q_def st1_def
        split: sum.split stored_run.split option.split)
  consider "(\<exists>e. r = Inl e) \<or> r = Inr (None, [])" "st' = st1" | run plan prev where
      "event_doc ops ev (tr_runs st) = Inr (StoredRun run plan)" "map_of (pr_tasks run) (ts_task_id ev) = Some prev"
      "rank prev \<le> order_of s" "process_event ops kv te s (ev\<lparr>ts_status := SEnum s\<rparr>) prev run plan st1 = (r, st')"
    using assms unfolding eq by (auto split: if_splits sum.splits stored_run.splits option.splits)
  then show ?thesis
  proof cases
    case 1
    then show ?thesis by (intro dropped) (auto simp: st1_def)
  next
    case 2
    then show ?thesis using processed Some lp unfolding st1_def by blast
  qed
qed

subsection \<open>What the decision changes\<close>

lemma try_reforward_facts:
  assumes "try_reforward kv te u pid rid t plan run g = (Inr (rf, run'), g')"
  shows "pr_status run' = pr_status run" and "pr_final_task_ids run' = pr_final_task_ids run"
    and "t' \<noteq> t \<Longrightarrow> map_of (pr_tasks run') t' = map_of (pr_tasks run) t'"
    and "rf \<noteq> None \<Longrightarrow> given plan"
  using assms
  by (auto simp: try_reforward_def Let_def update_conv' split: if_splits option.splits prod.splits sum.splits)

lemma decide_run_facts:
  assumes "decide_run kv te s upd plan run g = (Inr (rf, run'), g')"
  shows "pr_final_task_ids run' = pr_final_task_ids run"
    and "t' \<noteq> ts_task_id upd \<Longrightarrow> map_of (pr_tasks run') t' = map_of (pr_tasks run) t'"
    and "rf \<noteq> None \<Longrightarrow> s = TsFailed \<and> given plan"
    and "pr_status run' = (if s = TsFailed then (if rf = None then PsFailed else pr_status run)
      else if finals (te_cfg te) run \<noteq> [] \<and> all_finals_done (finals (te_cfg te) run) run then PsCompleted
      else pr_status run)"
proof -
  have c: "pr_final_task_ids run' = pr_final_task_ids run \<and>
    (t' \<noteq> ts_task_id upd \<longrightarrow> map_of (pr_tasks run') t' = map_of (pr_tasks run) t') \<and>
    (rf \<noteq> None \<longrightarrow> s = TsFailed \<and> given plan) \<and>
    pr_status run' = (if s = TsFailed then (if rf = None then PsFailed else pr_status run)
      else if finals (te_cfg te) run \<noteq> [] \<and> all_finals_done (finals (te_cfg te) run) run then PsCompleted
      else pr_status run)"
  proof (cases "s = TsFailed")
    case True
    obtain x g1 where t: "try_reforward kv te (ts_username upd) (ts_pipeline_id upd) (ts_run_id upd) (ts_task_id upd) plan run g = (x, g1)"
      by fastforce
    with assms True obtain rf1 run1 where x: "x = Inr (rf1, run1)" "rf = rf1"
      "run' = (if rf1 = None then run1\<lparr>pr_status := PsFailed, pr_finished_at := Some (te_wall te)\<rparr> else run1)"
      by (auto simp: decide_run_def split: sum.splits option.splits)
    show ?thesis using try_reforward_facts[OF t[unfolded x(1)]] x(2,3) True by auto
  next
    case False
    then show ?thesis using assms by (auto simp: decide_run_def Let_def split: if_splits)
  qed
  then show "pr_final_task_ids run' = pr_final_task_ids run"
    "t' \<noteq> ts_task_id upd \<Longrightarrow> map_of (pr_tasks run') t' = map_of (pr_tasks run) t'"
    "rf \<noteq> None \<Longrightarrow> s = TsFailed \<and> given plan"
    "pr_status run' = (if s = TsFailed then (if rf = None then PsFailed else pr_status run)
      else if finals (te_cfg te) run \<noteq> [] \<and> all_finals_done (finals (te_cfg te) run) run then PsCompleted
      else pr_status run)" by auto
qed

text \<open>The document an accepted event leaves behind.\<close>

lemma process_event_facts:
  assumes ops: "doc_collection ops"
    and run: "process_event ops kv te s upd prev run plan st = (Inr (rf, ss), st')"
    and doc: "event_doc ops upd (tr_runs st) = Inr (StoredRun run plan)"
    and upd: "ts_status upd = SEnum s"
  obtains run' where "event_doc ops upd (tr_runs st') = Inr (StoredRun run' None)"
    and "\<And>u p r. run_key u p r \<noteq> run_key (ts_username upd) (ts_pipeline_id upd) (ts_run_id upd) \<Longrightarrow>
      read_run ops u p r (tr_runs st') = read_run ops u p r (tr_runs st)"
    and "map_of (pr_tasks run') (ts_task_id upd) = Some (merge_final prev upd)"
    and "\<And>t. t \<noteq> ts_task_id upd \<Longrightarrow> map_of (pr_tasks run') t = map_of (pr_tasks run) t"
    and "pr_final_task_ids run' = pr_final_task_ids run"
    and "rf \<noteq> None \<Longrightarrow> s = TsFailed \<and> given plan"
    and "pr_status run' = (if s = TsFailed then (if rf = None then PsFailed else pr_status run)
      else if finals (te_cfg te) (run\<lparr>pr_tasks := dict_set (ts_task_id upd) upd (pr_tasks run)\<rparr>) \<noteq> [] \<and>
        all_finals_done (finals (te_cfg te) (run\<lparr>pr_tasks := dict_set (ts_task_id upd) upd (pr_tasks run)\<rparr>))
          (run\<lparr>pr_tasks := dict_set (ts_task_id upd) upd (pr_tasks run)\<rparr>) then PsCompleted
      else pr_status run)"
    and "ss \<noteq> [] \<Longrightarrow> pr_status run = PsRunning \<and> pr_status run' \<in> {PsCompleted, PsFailed}"
    and "tr_dedupe st' = dict_set (ts_run_id upd) (lru_add (te_clock te) (event_key upd)
      (dict_get (tr_dedupe st) (ts_run_id upd) new_lru)) (tr_dedupe st)"
proof -
  let ?run1 = "run\<lparr>pr_tasks := dict_set (ts_task_id upd) upd (pr_tasks run)\<rparr>"
  obtain x g where d: "decide_run kv te s upd plan ?run1 (tr_graph st) = (x, g)" by fastforce
  with run obtain run2 where x: "x = Inr (rf, run2)"
    by (auto simp: process_event_def Let_def split: sum.splits)
  note f = decide_run_facts[OF d[unfolded x]]
  define run3 where "run3 = run2\<lparr>pr_tasks := dict_set (ts_task_id upd) (merge_final prev upd) (pr_tasks run2)\<rparr>"
  obtain c' where c': "update_run ops (ts_username upd) (ts_pipeline_id upd) (ts_run_id upd) (StoredRun run3 None) (tr_runs st) = Inr c'"
    and ss: "ss = (if pr_status run = PsRunning \<and> pr_status run3 \<in> {PsCompleted, PsFailed} then stop_services te run3 else [])"
    and st': "st' = st\<lparr>tr_graph := g, tr_runs := c', tr_dedupe := dict_set (ts_run_id upd) (lru_add (te_clock te) (event_key upd)
      (dict_get (tr_dedupe st) (ts_run_id upd) new_lru)) (tr_dedupe st)\<rparr>"
    using run d x unfolding run3_def by (auto simp: process_event_def Let_def split: sum.splits)
  note ru = doc_collection.read_update[OF ops c']
  have ss': "ss \<noteq> [] \<Longrightarrow> pr_status run = PsRunning \<and> pr_status run3 \<in> {PsCompleted, PsFailed}"
    using ss by (auto split: if_splits)
  have 1: "event_doc ops upd (tr_runs st') = Inr (StoredRun run3 None)" using ru(1) st' by simp
  have 2: "read_run ops u p r (tr_runs st') = read_run ops u p r (tr_runs st)"
    if "run_key u p r \<noteq> run_key (ts_username upd) (ts_pipeline_id upd) (ts_run_id upd)" for u p r
    using ru(2)[OF that] st' by simp
  have 3: "map_of (pr_tasks run3) (ts_task_id upd) = Some (merge_final prev upd)" by (simp add: run3_def update_conv')
  have 4: "map_of (pr_tasks run3) t = map_of (pr_tasks run) t" if "t \<noteq> ts_task_id upd" for t
    using f(2)[OF that] that by (simp add: run3_def update_conv')
  have 5: "pr_final_task_ids run3 = pr_final_task_ids run" using f(1) by (simp add: run3_def)
  have 7: "pr_status run3 = (if s = TsFailed then (if rf = None then PsFailed else pr_status run)
      else if finals (te_cfg te) ?run1 \<noteq> [] \<and> all_finals_done (finals (te_cfg te) ?run1) ?run1 then PsCompleted
      else pr_status run)" using f(4) by (simp add: run3_def)
  have 9: "tr_dedupe st' = dict_set (ts_run_id upd) (lru_add (te_clock te) (event_key upd)
      (dict_get (tr_dedupe st) (ts_run_id upd) new_lru)) (tr_dedupe st)" by (simp add: st')
  show thesis by (rule that[OF 1 2 3 4 5 f(3) 7 ss' 9])
qed

lemma process_event_Inl:
  assumes "process_event ops kv te s upd prev run plan st = (Inl e, st')"
  shows "tr_runs st' = tr_runs st"
  using assms by (auto simp: process_event_def Let_def split: sum.splits prod.splits)

definition decided :: "doc option \<Rightarrow> task_status \<Rightarrow> reforward_info option \<Rightarrow> pipeline_run \<Rightarrow> pipeline_status" where
  "decided cfg s rf run1 = (if s = TsFailed then (if rf = None then PsFailed else pr_status run1)
     else if finals cfg run1 \<noteq> [] \<and> all_finals_done (finals cfg run1) run1 then PsCompleted else pr_status run1)"

definition applied :: "task_state \<Rightarrow> pipeline_run \<Rightarrow> pipeline_run" where
  "applied upd run = run\<lparr>pr_tasks := dict_set (ts_task_id upd) upd (pr_tasks run)\<rparr>"

lemma event_cases:
  assumes ops: "doc_collection ops" and run: "on_task_done ops kv te ev st = (r, st')"
  obtains (same) "tr_runs st' = tr_runs st" "quiet r"
  | (accepted) s rf ss run0 plan prev run' l where "r = Inr (rf, ss)" "to_enum (ts_status ev) = Some s"
      "event_doc ops ev (tr_runs st) = Inr (StoredRun run0 plan)"
      "map_of (pr_tasks run0) (ts_task_id ev) = Some prev" "rank prev \<le> order_of s"
      "event_doc ops ev (tr_runs st') = Inr (StoredRun run' None)"
      "\<And>u p q. run_key u p q \<noteq> run_key (ts_username ev) (ts_pipeline_id ev) (ts_run_id ev) \<Longrightarrow>
        read_run ops u p q (tr_runs st') = read_run ops u p q (tr_runs st)"
      "map_of (pr_tasks run') (ts_task_id ev) = Some (merge_final prev (ev\<lparr>ts_status := SEnum s\<rparr>))"
      "\<And>t. t \<noteq> ts_task_id ev \<Longrightarrow> map_of (pr_tasks run') t = map_of (pr_tasks run0) t"
      "pr_final_task_ids run' = pr_final_task_ids run0"
      "rf \<noteq> None \<Longrightarrow> s = TsFailed \<and> given plan"
      "pr_status run' = decided (te_cfg te) s rf (applied (ev\<lparr>ts_status := SEnum s\<rparr>) run0)"
      "ss \<noteq> [] \<Longrightarrow> pr_status run0 = PsRunning \<and> pr_status run' \<in> {PsCompleted, PsFailed}"
      "dict_get (tr_dedupe st') (ts_run_id ev) new_lru = lru_add (te_clock te) (event_key (ev\<lparr>ts_status := SEnum s\<rparr>)) l"
      "lru_ttl l = lru_ttl (dict_get (tr_dedupe st) (ts_run_id ev) new_lru)"
      "lru_max l = lru_max (dict_get (tr_dedupe st) (ts_run_id ev) new_lru)"
  using run
proof (cases rule: on_task_done_cases)
  case dropped
  then show ?thesis using same by blast
next
  case (processed s prev run0 plan l)
  let ?ev = "ev\<lparr>ts_status := SEnum s\<rparr>" and ?st = "st\<lparr>tr_dedupe := dict_set (ts_run_id ev) l (tr_dedupe st)\<rparr>"
  show ?thesis
  proof (cases r)
    case (Inl e)
    with process_event_Inl[of ops kv te s ?ev prev run0 plan ?st e st'] processed(7) show ?thesis
      by (intro same) simp_all
  next
    case (Inr x)
    obtain rf ss where x: "x = (rf, ss)" by fastforce
    have d: "event_doc ops ?ev (tr_runs ?st) = Inr (StoredRun run0 plan)" using processed(2) by simp
    show ?thesis
    proof (rule process_event_facts[OF ops processed(7)[unfolded Inr x] d])
      fix run'
      assume f: "event_doc ops ?ev (tr_runs st') = Inr (StoredRun run' None)"
        "\<And>u p r. run_key u p r \<noteq> run_key (ts_username ?ev) (ts_pipeline_id ?ev) (ts_run_id ?ev) \<Longrightarrow>
          read_run ops u p r (tr_runs st') = read_run ops u p r (tr_runs ?st)"
        "map_of (pr_tasks run') (ts_task_id ?ev) = Some (merge_final prev ?ev)"
        "\<And>t. t \<noteq> ts_task_id ?ev \<Longrightarrow> map_of (pr_tasks run') t = map_of (pr_tasks run0) t"
        "pr_final_task_ids run' = pr_final_task_ids run0" "rf \<noteq> None \<Longrightarrow> s = TsFailed \<and> given plan"
        "pr_status run' = (if s = TsFailed then (if rf = None then PsFailed else pr_status run0)
          else if finals (te_cfg te) (run0\<lparr>pr_tasks := dict_set (ts_task_id ?ev) ?ev (pr_tasks run0)\<rparr>) \<noteq> [] \<and>
            all_finals_done (finals (te_cfg te) (run0\<lparr>pr_tasks := dict_set (ts_task_id ?ev) ?ev (pr_tasks run0)\<rparr>))
              (run0\<lparr>pr_tasks := dict_set (ts_task_id ?ev) ?ev (pr_tasks run0)\<rparr>) then PsCompleted else pr_status run0)"
        "ss \<noteq> [] \<Longrightarrow> pr_status run0 = PsRunning \<and> pr_status run' \<in> {PsCompleted, PsFailed}"
        "tr_dedupe st' = dict_set (ts_run_id ?ev) (lru_add (te_clock te) (event_key ?ev)
          (dict_get (tr_dedupe ?st) (ts_run_id ?ev) new_lru)) (tr_dedupe ?st)"
      have s: "pr_status run' = decided (te_cfg te) s rf (applied ?ev run0)"
        using f(7) by (simp add: decided_def applied_def)
      have l: "dict_get (tr_dedupe st') (ts_run_id ev) new_lru = lru_add (te_clock te) (event_key ?ev) l"
        using f(9) by simp
      show ?thesis
        by (rule accepted[OF Inr[unfolded x] processed(1-4) _ _ _ _ f(5,6) s f(8) l processed(5,6)]) (use f(1-4) in simp_all)
    qed simp
  qed
qed

lemma merge_final_status [simp]: "ts_status (merge_final prev upd) = ts_status upd"
  by (simp add: merge_final_def)

lemma read_run_key:
  "run_key u p r = run_key u' p' r' \<Longrightarrow> read_run ops u p r c = read_run ops u' p' r' c"
  by (simp add: read_run_def)

text \<open>C31. The stored status of a task never moves backwards in the order pending, running, completed, failed:
  whatever event arrives, every task of every stored run is still there afterwards with a status at
  least as far.\<close>

theorem status_forward_only:
  assumes "doc_collection ops" and "on_task_done ops kv te ev st = (r, st')"
    and "read_run ops u p q (tr_runs st) = Inr (StoredRun run plan)" and "map_of (pr_tasks run) t = Some a"
  shows "\<exists>run' plan' b. read_run ops u p q (tr_runs st') = Inr (StoredRun run' plan') \<and>
    map_of (pr_tasks run') t = Some b \<and> rank a \<le> rank b"
  using assms(1,2)
proof (cases rule: event_cases)
  case same
  with assms(3,4) show ?thesis by auto
next
  case (accepted s rf ss run0 plan0 prev run' l)
  show ?thesis
  proof (cases "run_key u p q = run_key (ts_username ev) (ts_pipeline_id ev) (ts_run_id ev)")
    case True
    then have "run0 = run" using accepted(3) assms(3) read_run_key[OF True, of ops "tr_runs st"] by simp
    moreover have "read_run ops u p q (tr_runs st') = Inr (StoredRun run' None)"
      using accepted(6) read_run_key[OF True, of ops "tr_runs st'"] by simp
    moreover have "\<exists>b. map_of (pr_tasks run') t = Some b \<and> rank a \<le> rank b"
      using accepted(4,5,8,9) assms(4) \<open>run0 = run\<close>
      by (cases "t = ts_task_id ev") (auto simp: rank_def)
    ultimately show ?thesis by blast
  next
    case False
    with accepted(7) assms(3,4) show ?thesis by auto
  qed
qed

subsection \<open>Sequences of events\<close>

fun run_events :: "('c, stored_run) doc_ops \<Rightarrow> 'g kv_ops \<Rightarrow> (tracker_env \<times> task_state) list
    \<Rightarrow> ('c, 'g) tracker_state \<Rightarrow> (store_error + reforward_info option \<times> string list) list \<times> ('c, 'g) tracker_state" where
  "run_events ops kv [] st = ([], st)"
| "run_events ops kv ((te, ev) # es) st =
     (let (r, st1) = on_task_done ops kv te ev st; (rs, st2) = run_events ops kv es st1 in (r # rs, st2))"

definition stops :: "(store_error + reforward_info option \<times> string list) \<Rightarrow> bool" where
  "stops r = (case r of Inl _ \<Rightarrow> False | Inr (rf, ss) \<Rightarrow> ss \<noteq> [])"

definition running :: "('c, stored_run) doc_ops \<Rightarrow> string \<Rightarrow> string \<Rightarrow> string \<Rightarrow> 'c \<Rightarrow> bool" where
  "running ops u p q c = (case read_run ops u p q c of Inr (StoredRun run plan) \<Rightarrow> pr_status run = PsRunning | _ \<Rightarrow> False)"

lemma quiet_stops: "quiet r \<Longrightarrow> \<not> stops r"
  by (auto simp: quiet_def stops_def split: sum.splits prod.splits)

lemma decided_running: "decided cfg s rf run1 = PsRunning \<Longrightarrow> pr_status run1 = PsRunning"
  by (auto simp: decided_def split: if_splits)

lemma event_running:
  assumes "doc_collection ops" and "on_task_done ops kv te ev st = (r, st')"
    and u: "u = ts_username ev" and p: "p = ts_pipeline_id ev" and q: "q = ts_run_id ev"
  shows "running ops u p q (tr_runs st') \<Longrightarrow> running ops u p q (tr_runs st)"
    and "stops r \<Longrightarrow> running ops u p q (tr_runs st) \<and> \<not> running ops u p q (tr_runs st')"
proof -
  have "(running ops u p q (tr_runs st') \<longrightarrow> running ops u p q (tr_runs st)) \<and>
      (stops r \<longrightarrow> running ops u p q (tr_runs st) \<and> \<not> running ops u p q (tr_runs st'))"
    using assms(1,2)
  proof (cases rule: event_cases)
    case same
    then show ?thesis using quiet_stops by simp
  next
    case (accepted s rf ss run0 plan0 prev run' l)
    have "pr_status (applied (ev\<lparr>ts_status := SEnum s\<rparr>) run0) = pr_status run0" by (simp add: applied_def)
    then have "pr_status run' = PsRunning \<Longrightarrow> pr_status run0 = PsRunning"
      using decided_running accepted(12) by metis
    then show ?thesis
      using accepted(1,3,6,13) by (auto simp: running_def stops_def u p q)
  qed
  then show "running ops u p q (tr_runs st') \<Longrightarrow> running ops u p q (tr_runs st)"
    "stops r \<Longrightarrow> running ops u p q (tr_runs st) \<and> \<not> running ops u p q (tr_runs st')" by blast+
qed

lemma no_more_stops:
  assumes "doc_collection ops"
  shows "\<lbrakk>\<forall>x \<in> set es. ts_username (snd x) = u \<and> ts_pipeline_id (snd x) = p \<and> ts_run_id (snd x) = q;
    \<not> running ops u p q (tr_runs st)\<rbrakk> \<Longrightarrow> filter stops (fst (run_events ops kv es st)) = []"
proof (induction es arbitrary: st)
  case (Cons x es)
  obtain te ev where x: "x = (te, ev)" by fastforce
  obtain r st1 where r: "on_task_done ops kv te ev st = (r, st1)" by fastforce
  have k: "u = ts_username ev" "p = ts_pipeline_id ev" "q = ts_run_id ev" using Cons.prems(1) x by auto
  have "\<not> stops r" "\<not> running ops u p q (tr_runs st1)"
    using event_running[OF assms r k] Cons.prems(2) by blast+
  then show ?case using Cons.IH[of st1] Cons.prems(1) by (simp add: x r Let_def case_prod_unfold)
qed simp

text \<open>C32. The services of a run are stopped at most once: in every sequence of events of one run, whatever
  their order and their repetitions, at most one of them sends stop commands.\<close>

theorem stops_at_most_once:
  assumes "doc_collection ops"
    and "\<forall>x \<in> set es. ts_username (snd x) = u \<and> ts_pipeline_id (snd x) = p \<and> ts_run_id (snd x) = q"
  shows "length (filter stops (fst (run_events ops kv es st))) \<le> 1"
  using assms(2)
proof (induction es arbitrary: st)
  case (Cons x es)
  obtain te ev where x: "x = (te, ev)" by fastforce
  obtain r st1 where r: "on_task_done ops kv te ev st = (r, st1)" by fastforce
  have k: "u = ts_username ev" "p = ts_pipeline_id ev" "q = ts_run_id ev" using Cons.prems x by auto
  show ?case
  proof (cases "stops r")
    case True
    then have "\<not> running ops u p q (tr_runs st1)" using event_running(2)[OF assms(1) r k] by blast
    then have "filter stops (fst (run_events ops kv es st1)) = []"
      using no_more_stops[OF assms(1), of es u p q st1 kv] Cons.prems by simp
    then show ?thesis by (simp add: x r Let_def case_prod_unfold)
  next
    case False
    then show ?thesis using Cons.IH[of st1] Cons.prems by (simp add: x r Let_def case_prod_unfold)
  qed
qed simp

text \<open>C33. A run completes with its final tasks: when the final tasks of a run are recorded and an event that is
  not a failure is accepted, the stored run is completed afterwards exactly when it was before or every
  final task is stored as completed.\<close>

theorem run_completes_with_finals:
  assumes "doc_collection ops" and "on_task_done ops kv te ev st = (r, st')"
    and "event_doc ops ev (tr_runs st) = Inr (StoredRun run plan)"
    and "event_doc ops ev (tr_runs st') = Inr (StoredRun run' None)"
    and "tr_runs st' \<noteq> tr_runs st" and "to_enum (ts_status ev) \<noteq> Some TsFailed" and "pr_final_task_ids run \<noteq> []"
  shows "pr_status run' = PsCompleted \<longleftrightarrow> pr_status run = PsCompleted \<or>
    (\<forall>f \<in> set (pr_final_task_ids run). \<exists>t. map_of (pr_tasks run') f = Some t \<and> to_enum (ts_status t) = Some TsCompleted)"
  using assms(1,2)
proof (cases rule: event_cases)
  case same
  then show ?thesis using assms(5) by simp
next
  case (accepted s rf ss run0 plan0 prev run1 l)
  let ?a = "applied (ev\<lparr>ts_status := SEnum s\<rparr>) run"
  have eq: "run0 = run" "run1 = run'" "s \<noteq> TsFailed" using accepted(2,3,6) assms(3,4,6) by auto
  have fin: "finals (te_cfg te) ?a = pr_final_task_ids run" using assms(7) by (simp add: finals_def applied_def)
  have same: "map_option (\<lambda>t. to_enum (ts_status t)) (map_of (pr_tasks ?a) f) =
      map_option (\<lambda>t. to_enum (ts_status t)) (map_of (pr_tasks run') f)" for f
    using accepted(8,9) eq by (cases "f = ts_task_id ev") (auto simp: applied_def update_conv')
  have "(case map_of (pr_tasks ?a) f of None \<Rightarrow> False | Some t \<Rightarrow> to_enum (ts_status t) = Some TsCompleted) \<longleftrightarrow>
      (\<exists>t. map_of (pr_tasks run') f = Some t \<and> to_enum (ts_status t) = Some TsCompleted)" for f
    using same[of f] by (cases "map_of (pr_tasks ?a) f"; cases "map_of (pr_tasks run') f") simp_all
  then have "all_finals_done (pr_final_task_ids run) ?a \<longleftrightarrow>
      (\<forall>f \<in> set (pr_final_task_ids run). \<exists>t. map_of (pr_tasks run') f = Some t \<and> to_enum (ts_status t) = Some TsCompleted)"
    by (simp add: all_finals_done_def list_all_iff)
  moreover have "pr_status run' = (if all_finals_done (pr_final_task_ids run) ?a then PsCompleted else pr_status run)"
    using accepted(12) assms(7) eq by (simp add: decided_def fin) (simp add: applied_def)
  ultimately show ?thesis by auto
qed

lemma fresh_contained:
  assumes "(k, ts) \<in> set (lru_data l)" and "now - ts \<le> lru_ttl l"
  shows "fst (lru_contains now k l)"
proof -
  have "(k, ts) \<in> set (dropWhile P xs)" if "(k, ts) \<in> set xs" "\<not> P (k, ts)" for P xs
    using that by (induction xs) auto
  then have "(k, ts) \<in> set (lru_data (purge_expired now l))"
    using assms by (simp add: purge_expired_def)
  then show ?thesis by (force simp: lru_contains_def Let_def)
qed

text \<open>An event that was accepted is not processed again: if the same event comes back within an hour, the
  handler returns nothing, sends no stop command and leaves every run as it is.\<close>

theorem repeated_event_dropped:
  assumes "doc_collection ops" and "on_task_done ops kv te ev st = (r, st1)" and "tr_runs st1 \<noteq> tr_runs st"
    and "lru_ttl (dict_get (tr_dedupe st) (ts_run_id ev) new_lru) = 3600"
    and "0 < lru_max (dict_get (tr_dedupe st) (ts_run_id ev) new_lru)"
    and "te_clock te' - te_clock te \<le> 3600"
  shows "fst (on_task_done ops kv te' ev st1) = Inr (None, []) \<and> tr_runs (snd (on_task_done ops kv te' ev st1)) = tr_runs st1"
  using assms(1,2)
proof (cases rule: event_cases)
  case same
  then show ?thesis using assms(3) by simp
next
  case (accepted s rf ss run0 plan0 prev run1 l)
  let ?ev = "ev\<lparr>ts_status := SEnum s\<rparr>"
  have "(event_key ?ev, te_clock te) \<in> set (lru_data (lru_add (te_clock te) (event_key ?ev) l))"
    using add_recent[of l] accepted(16) assms(5) by simp
  moreover have "te_clock te' - te_clock te \<le> lru_ttl (lru_add (te_clock te) (event_key ?ev) l)"
    using accepted(15) assms(4,6) by (simp add: lru_params)
  ultimately have "fst (lru_contains (te_clock te') (event_key ?ev) (dict_get (tr_dedupe st1) (ts_run_id ev) new_lru))"
    using fresh_contained accepted(14) by simp
  then show ?thesis using accepted(2) by (auto simp: on_task_done_def Let_def split: prod.splits)
qed

text \<open>The tracker forgets the plan of a run: every accepted event writes the run document back without the
  plan identifier, so as soon as one event of a run has been accepted, no later failure of a task
  is re-forwarded, although candidates may be left.\<close>

theorem plan_forgotten_after_event:
  assumes "doc_collection ops" and "on_task_done ops kv te ev st = (r, st1)" and "tr_runs st1 \<noteq> tr_runs st"
    and "ts_username ev' = ts_username ev" and "ts_pipeline_id ev' = ts_pipeline_id ev" and "ts_run_id ev' = ts_run_id ev"
    and "on_task_done ops kv te' ev' st1 = (Inr (rf, ss), st2)"
  shows "rf = None"
  using assms(1,2)
proof (cases rule: event_cases)
  case same
  then show ?thesis using assms(3) by simp
next
  case (accepted s rf1 ss1 run0 plan0 prev run1 l)
  note doc = accepted(6)
  show ?thesis
    using assms(1,7)
  proof (cases rule: event_cases)
    case same
    then show ?thesis by (simp add: quiet_def)
  next
    case (accepted s2 rf2 ss2 run2 plan2 prev2 run3 l2)
    have "plan2 = None" using accepted(3) doc assms(4-6) by simp
    then show ?thesis using accepted(1,11) by (cases rf2) (simp_all add: given_def)
  qed
qed

text \<open>A re-forwarded task cannot report: the handler hands the failed task to the next bidder but stores it
  as failed, so no later event that reports the task as pending, running or completed is
  accepted.\<close>

theorem reforwarded_task_stays_failed:
  assumes "doc_collection ops" and "on_task_done ops kv te ev st = (Inr (Some rf, ss), st1)"
    and "ts_username ev' = ts_username ev" and "ts_pipeline_id ev' = ts_pipeline_id ev" and "ts_run_id ev' = ts_run_id ev"
    and "ts_task_id ev' = ts_task_id ev" and "to_enum (ts_status ev') \<noteq> Some TsFailed"
    and "on_task_done ops kv te' ev' st1 = (r, st2)"
  shows "tr_runs st2 = tr_runs st1 \<and> quiet r"
  using assms(1,2)
proof (cases rule: event_cases)
  case same
  then show ?thesis by (simp add: quiet_def)
next
  case (accepted s rf1 ss1 run0 plan0 prev run1 l)
  then have "s = TsFailed" by auto
  note doc = accepted(6) and task = accepted(8)[unfolded this]
  show ?thesis
    using assms(1,8)
  proof (cases rule: event_cases)
    case same
    then show ?thesis by simp
  next
    case (accepted s2 rf2 ss2 run2 plan2 prev2 run3 l2)
    have "run2 = run1" using accepted(3) doc assms(3-5) by simp
    then have "rank prev2 = 3" using accepted(4) task assms(6) by (auto simp: rank_def)
    then have "s2 = TsFailed" using accepted(5) by (cases s2) simp_all
    then show ?thesis using accepted(2) assms(7) by simp
  qed
qed

subsection \<open>A run\<close>

definition demo_task :: "string \<Rightarrow> task_status \<Rightarrow> task_state" where
  "demo_task t s = \<lparr>ts_status = SEnum s, ts_attempts = 0, ts_error = None, ts_is_final = Some (t = ''b''),
     ts_run_id = ''r'', ts_task_id = t, ts_username = ''ann'', ts_pipeline_id = ''p'', ts_service = ''svc'', ts_data = []\<rparr>"

definition demo_run :: pipeline_run where
  "demo_run = \<lparr>pr_run_id = ''r'', pr_pipeline_id = ''p'', pr_status = PsRunning,
     pr_tasks = [(''a'', demo_task ''a'' TsPending), (''b'', demo_task ''b'' TsPending)], pr_finished_at = None,
     pr_triggered_by = ''ann'', pr_final_task_ids = [''b''], pr_paused = False\<rparr>"

definition demo_te :: tracker_env where
  "demo_te = \<lparr>te_clock = 0, te_wall = 0, te_reforward_on = True, te_has_store = True, te_cfg = None,
     te_store_env = demo_env, te_it = remdups\<rparr>"

definition demo_seq :: doc where
  "demo_seq = [(''task_id'', JStr ''a''), (''plan_id'', JStr ''plan''), (''current_index'', JInt 0),
     (''candidates'', JList [JDict [(''bidder_id'', JStr ''x'')], JDict [(''bidder_id'', JStr ''y'')]])]"

definition demo_state :: "(string \<Rightarrow> stored_run option, (string \<times> doc) list) tracker_state" where
  "demo_state = \<lparr>tr_dedupe = [], tr_runs = [run_key ''ann'' ''p'' ''r'' \<mapsto> StoredRun demo_run (Some ''plan'')],
     tr_graph = snd (save_evaluation_sequence mem_kv demo_env ''ann'' demo_seq [])\<rparr>"

abbreviation demo_step :: "task_state \<Rightarrow> (string \<Rightarrow> stored_run option, (string \<times> doc) list) tracker_state
    \<Rightarrow> (store_error + reforward_info option \<times> string list) \<times> (string \<Rightarrow> stored_run option, (string \<times> doc) list) tracker_state" where
  "demo_step ev st \<equiv> on_task_done mem_docs mem_kv demo_te ev st"

definition demo_status :: "(string \<Rightarrow> stored_run option, 'g) tracker_state \<Rightarrow> pipeline_status option" where
  "demo_status st = (case tr_runs st (run_key ''ann'' ''p'' ''r'') of Some (StoredRun run plan) \<Rightarrow> Some (pr_status run) | _ \<Rightarrow> None)"

text \<open>A failed run can still become completed: the run of two tasks fails with its first task and is completed
  by a later event of its final task.\<close>

theorem failed_run_completes:
  "demo_status (snd (demo_step (demo_task ''a'' TsFailed) (demo_state\<lparr>tr_graph := []\<rparr>))) = Some PsFailed \<and>
   demo_status (snd (demo_step (demo_task ''b'' TsCompleted)
     (snd (demo_step (demo_task ''a'' TsFailed) (demo_state\<lparr>tr_graph := []\<rparr>))))) = Some PsCompleted"
proof -
  have "demo_status (snd (demo_step (demo_task ''a'' TsFailed) (demo_state\<lparr>tr_graph := []\<rparr>))) = Some PsFailed"
    by code_simp
  moreover have "demo_status (snd (demo_step (demo_task ''b'' TsCompleted)
     (snd (demo_step (demo_task ''a'' TsFailed) (demo_state\<lparr>tr_graph := []\<rparr>))))) = Some PsCompleted"
    by code_simp
  ultimately show ?thesis by blast
qed

subsection \<open>Witnesses\<close>

lemma demo_step_split: "demo_step ev st = (fst (demo_step ev st), snd (demo_step ev st))"
  by simp

lemma demo_state_doc: "event_doc mem_docs (demo_task t s) (tr_runs demo_state) = Inr (StoredRun demo_run (Some ''plan''))"
  by (simp add: read_run_def mem_docs_def demo_state_def demo_task_def)

theorem status_forward_only_witness:
  "\<exists>run' plan' b. read_run mem_docs ''ann'' ''p'' ''r'' (tr_runs (snd (demo_step (demo_task ''a'' TsRunning) demo_state))) =
     Inr (StoredRun run' plan') \<and> map_of (pr_tasks run') ''a'' = Some b \<and> rank (demo_task ''a'' TsPending) \<le> rank b"
proof (rule status_forward_only[OF mem_docs.doc_collection_axioms demo_step_split])
  show "read_run mem_docs ''ann'' ''p'' ''r'' (tr_runs demo_state) = Inr (StoredRun demo_run (Some ''plan''))"
    by (simp add: read_run_def mem_docs_def demo_state_def)
  show "map_of (pr_tasks demo_run) ''a'' = Some (demo_task ''a'' TsPending)" by (simp add: demo_run_def)
qed

theorem stops_at_most_once_witness:
  "length (filter stops (fst (run_events mem_docs mem_kv
     [(demo_te, demo_task ''a'' TsCompleted), (demo_te, demo_task ''b'' TsCompleted)] demo_state))) \<le> 1"
  by (rule stops_at_most_once[OF mem_docs.doc_collection_axioms, of _ "''ann''" "''p''" "''r''"]) (simp add: demo_task_def)

lemma demo_running_changes: "tr_runs (snd (demo_step (demo_task ''b'' TsCompleted) demo_state)) \<noteq> tr_runs demo_state"
proof
  assume eq: "tr_runs (snd (demo_step (demo_task ''b'' TsCompleted) demo_state)) = tr_runs demo_state"
  have "demo_status (snd (demo_step (demo_task ''b'' TsCompleted) demo_state)) = Some PsCompleted" by code_simp
  moreover have "demo_status demo_state = Some PsRunning" by code_simp
  ultimately show False using eq by (simp add: demo_status_def)
qed

theorem run_completes_with_finals_witness:
  "\<exists>run' t. event_doc mem_docs (demo_task ''b'' TsCompleted) (tr_runs (snd (demo_step (demo_task ''b'' TsCompleted) demo_state))) =
     Inr (StoredRun run' None) \<and> pr_status run' = PsCompleted \<and>
     map_of (pr_tasks run') ''b'' = Some t \<and> to_enum (ts_status t) = Some TsCompleted"
proof -
  let ?st = "snd (demo_step (demo_task ''b'' TsCompleted) demo_state)"
  have d: "demo_status ?st = Some PsCompleted" by code_simp
  obtain run' plan' where r: "event_doc mem_docs (demo_task ''b'' TsCompleted) (tr_runs ?st) = Inr (StoredRun run' plan')"
    "pr_status run' = PsCompleted"
    using d by (auto simp: demo_status_def read_run_def mem_docs_def demo_task_def split: option.splits stored_run.splits)
  have "(case tr_runs ?st (run_key ''ann'' ''p'' ''r'') of Some (StoredRun run plan) \<Rightarrow> plan = None | _ \<Rightarrow> False)" by code_simp
  then have "plan' = None" using r(1) by (simp add: read_run_def mem_docs_def demo_task_def split: option.splits)
  with r have r': "event_doc mem_docs (demo_task ''b'' TsCompleted) (tr_runs ?st) = Inr (StoredRun run' None)" by simp
  have "pr_status run' = PsCompleted \<longleftrightarrow> pr_status demo_run = PsCompleted \<or>
    (\<forall>f \<in> set (pr_final_task_ids demo_run). \<exists>t. map_of (pr_tasks run') f = Some t \<and> to_enum (ts_status t) = Some TsCompleted)"
    by (rule run_completes_with_finals[OF mem_docs.doc_collection_axioms demo_step_split demo_state_doc r' demo_running_changes])
      (simp_all add: demo_task_def demo_run_def)
  then show ?thesis using r r' by (auto simp: demo_run_def)
qed

theorem repeated_event_dropped_witness:
  "fst (demo_step (demo_task ''b'' TsCompleted) (snd (demo_step (demo_task ''b'' TsCompleted) demo_state))) = Inr (None, [])"
  using repeated_event_dropped[OF mem_docs.doc_collection_axioms demo_step_split demo_running_changes, of demo_te]
  by (simp add: demo_state_def new_lru_def)

theorem plan_forgotten_after_event_witness:
  "\<exists>rf ss st2. demo_step (demo_task ''a'' TsFailed) (snd (demo_step (demo_task ''b'' TsCompleted) demo_state)) =
     (Inr (rf, ss), st2) \<and> rf = None"
proof -
  let ?st = "snd (demo_step (demo_task ''b'' TsCompleted) demo_state)"
  have "\<not> isl (fst (demo_step (demo_task ''a'' TsFailed) ?st))" by code_simp
  then obtain rf ss st2 where r: "demo_step (demo_task ''a'' TsFailed) ?st = (Inr (rf, ss), st2)"
    by (cases "demo_step (demo_task ''a'' TsFailed) ?st"; cases "fst (demo_step (demo_task ''a'' TsFailed) ?st)") auto
  have "rf = None"
    by (rule plan_forgotten_after_event[OF mem_docs.doc_collection_axioms demo_step_split demo_running_changes _ _ _ r])
      (simp_all add: demo_task_def)
  with r show ?thesis by blast
qed

theorem reforwarded_task_stays_failed_witness:
  "\<exists>rf ss st1. demo_step (demo_task ''a'' TsFailed) demo_state = (Inr (Some rf, ss), st1) \<and>
     tr_runs (snd (demo_step (demo_task ''a'' TsCompleted) st1)) = tr_runs st1"
proof -
  have "(case fst (demo_step (demo_task ''a'' TsFailed) demo_state) of Inr (Some rf, ss) \<Rightarrow> True | _ \<Rightarrow> False)" by code_simp
  then obtain rf ss st1 where r: "demo_step (demo_task ''a'' TsFailed) demo_state = (Inr (Some rf, ss), st1)"
    by (cases "demo_step (demo_task ''a'' TsFailed) demo_state") (auto split: sum.splits option.splits)
  have "tr_runs (snd (demo_step (demo_task ''a'' TsCompleted) st1)) = tr_runs st1 \<and>
      quiet (fst (demo_step (demo_task ''a'' TsCompleted) st1))"
    by (rule reforwarded_task_stays_failed[OF mem_docs.doc_collection_axioms r _ _ _ _ _ demo_step_split])
      (simp_all add: demo_task_def)
  with r show ?thesis by blast
qed

end
