(* ===== verification/Competing_Properties.thy ===== *)
theory Competing_Properties
  imports Competing_Service Contract_Net_Properties Tracker_Properties
begin

section \<open>Properties of the routing\<close>

subsection \<open>Round robin\<close>

primrec turns_of :: "string \<Rightarrow> string \<Rightarrow> string list \<Rightarrow> nat \<Rightarrow> turns \<Rightarrow> string option list" where
  "turns_of u cap svcs 0 turns = []"
| "turns_of u cap svcs (Suc n) turns =
     (let (s, turns') = select_round_robin u cap svcs turns in s # turns_of u cap svcs n turns')"

definition first_turn :: "string \<Rightarrow> string \<Rightarrow> string list \<Rightarrow> turns \<Rightarrow> nat" where
  "first_turn u cap svcs turns = (case map_of turns (u, cap) of None \<Rightarrow> 0 | Some k \<Rightarrow> Suc k mod length svcs)"

lemma turns_of_nth:
  assumes "svcs \<noteq> []"
  shows "turns_of u cap svcs n turns = map (\<lambda>k. Some (svcs ! ((first_turn u cap svcs turns + k) mod length svcs))) [0..<n]"
proof (induction n arbitrary: turns)
  case (Suc n)
  let ?i = "first_turn u cap svcs turns"
  have i: "?i mod length svcs = ?i" using assms by (simp add: first_turn_def split: option.split)
  have s: "select_round_robin u cap svcs turns = (Some (svcs ! ?i), dict_set (u, cap) ?i turns)"
    using assms by (simp add: select_round_robin_def first_turn_def Let_def)
  have "first_turn u cap svcs (dict_set (u, cap) ?i turns) = Suc ?i mod length svcs"
    by (simp add: first_turn_def update_conv')
  then show ?case
    by (simp add: s Suc.IH i mod_add_left_eq mod_Suc_eq upt_conv_Cons map_Suc_upt[symmetric] del: upt_Suc)
qed simp

lemma mset_rotated: "mset (rotate n xs) = mset xs"
proof (induction n)
  case (Suc n)
  have "mset (rotate1 ys) = mset ys" for ys :: "'a list" by (cases ys) simp_all
  then show ?case using Suc by simp
qed simp

lemma window_rotate:
  assumes "svcs \<noteq> []"
  shows "take (length svcs) (drop m (turns_of u cap svcs (m + length svcs) turns)) =
    map Some (rotate (first_turn u cap svcs turns + m) svcs)"
  by (rule nth_equalityI) (simp_all add: turns_of_nth[OF assms] nth_rotate add.assoc)

text \<open>Round robin (\<^verbatim>\<open>_select_round_robin_service\<close>) is fair at every moment: from any point of the sequence of
  choices on, the next as many choices as there are services go to every service exactly once.\<close>

theorem round_robin_fair:
  assumes "svcs \<noteq> []"
  shows "mset (take (length svcs) (drop m (turns_of u cap svcs (m + length svcs) turns))) = mset (map Some svcs)"
  by (simp add: window_rotate[OF assms] mset_rotated)

theorem round_robin_fair_witness:
  "mset (take 3 (drop 2 (turns_of ''u'' ''match'' [''a'', ''b'', ''c''] 5 [((''u'', ''match''), 1)]))) = mset [Some ''a'', Some ''b'', Some ''c'']"
proof -
  have len: "length [''a'', ''b'', ''c''] = 3" by simp
  then show ?thesis using round_robin_fair[of "[''a'', ''b'', ''c'']" 2 "''u''" "''match''" "[((''u'', ''match''), 1)]", unfolded len] by simp
qed

subsection \<open>Shared capabilities\<close>

lemma service_names_set: "s \<in> set (service_names repr agents) \<longleftrightarrow>
    (\<exists>a \<in> set agents. truthy (jget a ''service_name'') \<and> s = py_str repr (jget a ''service_name''))"
  by (auto simp: service_names_def)

lemma service_names_sorted: "sorted (service_names repr agents)" "distinct (service_names repr agents)"
  by (simp_all add: service_names_def)

lemma first_shared_found:
  "first_shared g kv repr u c caps = Some (cap, svcs) \<Longrightarrow>
     \<exists>j \<in> set caps. \<exists>agents. cap = py_str repr j \<and> list_agents g kv u None (Some (jstr j)) None [] c = Inr agents \<and>
       svcs = service_names repr agents \<and> 1 < length svcs"
  by (induction caps) (auto split: sum.splits if_splits)

subsection \<open>The metadata of a task in its description\<close>

lemma until_close_found:
  "CHR 0x0A \<notin> set b \<Longrightarrow> \<not> substr_of ''}]'' b \<Longrightarrow> until_close (b @ ''}]'' @ r) = Some (b @ ''}'', r)"
proof (induction b)
  case (Cons c b)
  have IH: "until_close (b @ ''}]'' @ r) = Some (b @ ''}'', r)" using Cons by simp
  show ?case
  proof (cases b)
    case Nil
    then show ?thesis using IH Cons.prems by simp
  next
    case (Cons d b')
    have "\<not> (c = CHR ''}'' \<and> d = CHR '']'')" using Cons.prems(2) unfolding Cons by simp
    moreover have "c \<noteq> CHR 0x0A" using Cons.prems(1) by auto
    ultimately show ?thesis using IH unfolding Cons by simp
  qed
qed simp

lemma metadata_read:
  assumes "CHR 0x0A \<notin> set b" and "\<not> substr_of ''}]'' b"
  shows "parse (''{'' @ b @ ''}'') = Some d \<Longrightarrow>
      split_metadata parse (''[CNP:{'' @ b @ ''}] '' @ desc) = (d, dropWhile is_space desc)"
    and "parse (''{'' @ b @ ''}'') = None \<Longrightarrow>
      split_metadata parse (''[CNP:{'' @ b @ ''}]'' @ rest @ ''}] '' @ desc) = ([], ''[CNP:{'' @ b @ ''}]'' @ rest @ ''}] '' @ desc)"
proof -
  have p: "cnp_prefix (''[CNP:{'' @ b @ ''}]'' @ r) = Some (''{'' @ b @ ''}'', dropWhile is_space r)" for r
    using until_close_found[OF assms, of r] by (simp add: cnp_prefix_def)
  show "split_metadata parse (''[CNP:{'' @ b @ ''}] '' @ desc) = (d, dropWhile is_space desc)" if "parse (''{'' @ b @ ''}'') = Some d"
    using that p[of "'' '' @ desc"] by (simp add: split_metadata_def is_space_def)
  show "split_metadata parse (''[CNP:{'' @ b @ ''}]'' @ rest @ ''}] '' @ desc) = ([], ''[CNP:{'' @ b @ ''}]'' @ rest @ ''}] '' @ desc)"
    if "parse (''{'' @ b @ ''}'') = None"
    using that p[of "rest @ ''}] '' @ desc"] by (simp add: split_metadata_def)
qed

text \<open>The forwarder puts the metadata of a task as \<^verbatim>\<open>[CNP:<json>] \<close> before its description and the router
  takes it off again: when the text is an object on one line with no \<^verbatim>\<open>}]\<close> inside, exactly the object and the
  description, less its leading blanks, come back. When \<^verbatim>\<open>}]\<close> ends a list of objects inside the text, the pattern stops
  there: the text handed to the parser is cut, and if that is no object the whole prefix stays in the description.\<close>

theorem route_metadata_roundtrip:
  assumes "CHR 0x0A \<notin> set b" and "\<not> substr_of ''}]'' b"
  shows "(parse (''{'' @ b @ ''}'') = Some d \<longrightarrow>
       split_metadata parse (''[CNP:{'' @ b @ ''}] '' @ desc) = (d, dropWhile is_space desc)) \<and>
     (parse (''{'' @ b @ ''}'') = None \<longrightarrow>
       split_metadata parse (''[CNP:{'' @ b @ ''}]'' @ rest @ ''}] '' @ desc) = ([], ''[CNP:{'' @ b @ ''}]'' @ rest @ ''}] '' @ desc))"
  by (intro conjI impI) (rule metadata_read[OF assms]; assumption)+

theorem route_metadata_roundtrip_witness:
  "split_metadata (map_of [(''{a}'', [(''k'', JNull)])]) ''[CNP:{a}] do'' = ([(''k'', JNull)], ''do'') \<and>
   split_metadata (\<lambda>_. None) ''[CNP:{a}]b}] do'' = ([], ''[CNP:{a}]b}] do'')"
  using route_metadata_roundtrip[where b = "''a''" and parse = "map_of [(''{a}'', [(''k'', JNull)])]" and d = "[(''k'', JNull)]" and desc = "''do''", THEN conjunct1]
    route_metadata_roundtrip[where b = "''a''" and parse = "\<lambda>_. None" and rest = "''b''" and desc = "''do''", THEN conjunct2]
  by (simp add: is_space_def)

subsection \<open>The auction\<close>

definition route_demo :: route_env where
  "route_demo = \<lparr>rt_reg = net_env, rt_cnp = net_cnp, rt_ids = (\<lambda>n. replicate (Suc n) CHR ''i''), rt_draw = 1, rt_pick = (\<lambda>_. 1),
     rt_json = (\<lambda>_. None)\<rparr>"

definition route_demo_query :: route_query where
  "route_demo_query = \<lparr>rq_task = ''t'', rq_capability = ''match'', rq_username = ''u'', rq_pipeline = ''p'', rq_run = ''r'', rq_data = []\<rparr>"

definition demo_agent :: "string \<Rightarrow> string \<Rightarrow> doc" where
  "demo_agent a status = [(''agent_id'', JStr a), (''service_name'', JStr (''svc-'' @ a)), (''capabilities'', str_json [''match'']),
     (''status'', JStr status)]"

definition demo_agents :: "doc list" where
  "demo_agents = [demo_agent ''a'' ''busy'', demo_agent ''b'' ''idle'']"

abbreviation (input) demo_auction :: "(route_error + string \<times> doc option) \<times> (string \<times> doc) list route_state" where
  "demo_auction \<equiv> run_auction mem_kv route_demo route_demo_query demo_agents \<lparr>rs_graph = Some [], rs_next = 0\<rparr>"

lemma demo_auction_runs:
  obtains s where "demo_auction = (Inr (''svc-b'', Some s), snd demo_auction)" and "length (jlist (jget s ''candidates'')) = 2"
    and "is_list (jget s ''candidates'')"
proof -
  have "(case fst demo_auction of Inr (svc, Some s) \<Rightarrow> svc = ''svc-b'' \<and> length (jlist (jget s ''candidates'')) = 2 \<and>
      is_list (jget s ''candidates'') | _ \<Rightarrow> False)" by code_simp
  then show thesis using that by (cases demo_auction) (auto split: sum.splits option.splits)
qed

lemma mset_swap_first: "mset (swap_first i xs) = mset xs"
  using mset_swap[of i xs 0] by (cases xs) (simp_all add: swap_first_def)

lemma ranked_rivals_mset:
  "mset (ranked_rivals rt pw cw eps rivals) = mset (map (\<lambda>r. (r, blended_score (rt_cnp rt) pw cw rivals r)) rivals)"
  by (simp add: ranked_rivals_def Let_def mset_swap_first)

lemma ranked_rivals_sorted: "eps \<le> rt_draw rt \<Longrightarrow> sorted_wrt (\<lambda>x y. snd y \<le> snd x) (ranked_rivals rt pw cw eps rivals)"
  using py_sort_sorted[of True snd] by (simp add: ranked_rivals_def Let_def)

lemma blended_score_perm: "mset rs = mset rivals \<Longrightarrow> blended_score ce pw cw rs r = blended_score ce pw cw rivals r"
proof -
  assume m: "mset rs = mset rivals"
  have s: "set (map f rs) = set (map f rivals)" for f :: "rival \<Rightarrow> 'b" using mset_eq_setD[OF m] by simp
  show ?thesis unfolding blended_score_def s ..
qed

lemma run_auction_ranking:
  assumes "run_auction kv rt q agents st = (Inr (svc, x), st')"
  obtains spec pw cw eps ttl es where "route_spec rt q = Inr spec" and "route_weights (rt_reg rt) = Inr (pw, cw)"
    and "env_float_strict (rt_reg rt) ''CNP_EPSILON_GREEDY'' (1 / 20) = Inr eps"
    and "es = ranked_rivals rt pw cw eps (map (rival_of kv rt q spec (rs_graph st)) agents)"
    and "store_auction kv rt q (task_params (rt_cnp rt) spec) ttl es st = (the x, st')" and "x \<noteq> None"
    and "svc = jstr (jget (rv_agent (fst (hd es))) ''service_name'')"
  using assms by (auto simp: run_auction_def Let_def split: sum.splits prod.splits elim!: bindR_Inr_iff[THEN iffD1, elim_format])

text \<open>What the auction writes: bids, the sequence of the pipeline and an award; no other sequence changes.\<close>

definition other_sequence :: "string \<Rightarrow> string \<Rightarrow> string \<Rightarrow> string \<Rightarrow> bool" where
  "other_sequence u t p k \<longleftrightarrow> take 10 k = ''eval_seq::'' \<and> k \<noteq> eval_seq_key u t p"

context kv_collection
begin

lemma persist_bid_other:
  "persist_bid kv rt q tp ttl e (ids, c, n) = (ids', c', n') \<Longrightarrow> untouched kv (\<lambda>k. take 10 k = ''eval_seq::'') c c'"
  by (auto simp: persist_bid_def add_bid_def Let_def key3_key2 key2_def untouched_refl split: if_splits intro: save_expiring_untouched)

lemma persist_bids_other:
  "fold (persist_bid kv rt q tp ttl) es (ids, c, n) = (ids', c', n') \<Longrightarrow> untouched kv (\<lambda>k. take 10 k = ''eval_seq::'') c c'"
proof (induction es arbitrary: ids c n)
  case (Cons e es)
  obtain ids1 c1 n1 where p: "persist_bid kv rt q tp ttl e (ids, c, n) = (ids1, c1, n1)" by (metis prod_cases3)
  show ?case using untouched_trans[OF persist_bid_other[OF p]] Cons.IH[of ids1 c1 n1] Cons.prems by (simp add: p)
qed (simp add: untouched_refl)

lemma store_auction_writes:
  assumes "store_auction kv rt q tp ttl es st = (s, st')" and "rs_graph st = Some c"
  obtains c' ids n where "rs_graph st' = Some c'" and "s = inline_sequence rt q ids es"
    and "untouched kv (other_sequence (rq_username q) (rq_task q) (rq_pipeline q)) c c'"
    and "kv_get kv c' (eval_seq_key (rq_username q) (rq_task q) (rq_pipeline q)) = Some (with_meta (rt_store rt n) ''evaluation_sequence'' s)"
    and "kv_get kv c' (key3 ''award'' (rq_username q) (rq_task q) (rt_ids rt n)) = Some (with_meta (rt_store rt n) ''contract_award''
      (inline_award rt q n ids (hd es)))"
proof -
  obtain ids c1 n where f: "fold (persist_bid kv rt q tp ttl) es ([], c, rs_next st) = (ids, c1, n)" by (metis prod_cases3)
  let ?s = "inline_sequence rt q ids es" and ?a = "inline_award rt q n ids (hd es)" and ?e = "rt_store rt n" and ?u = "rq_username q"
  let ?c2 = "snd (save_evaluation_sequence kv ?e ?u ?s c1)"
  let ?c3 = "snd (add_contract_award kv ?e ?u ?a ?c2)"
  have st: "rs_graph st' = Some ?c3" "s = ?s" using assms by (auto simp: store_auction_def f Let_def)
  have k: "sfield ?s ''task_id'' = rq_task q" "sfield ?s ''plan_id'' = rq_pipeline q" "sfield ?a ''task_id'' = rq_task q"
    "sfield ?a ''award_id'' = rt_ids rt n"
    by (simp_all add: sfield_def inline_sequence_def inline_award_def)
  have ne: "eval_seq_key ?u (rq_task q) (rq_pipeline q) \<noteq> key3 ''award'' ?u (rq_task q) (rt_ids rt n)"
    by (simp add: eval_seq_key_def key3_key2 key2_def)
  have seq: "kv_get kv ?c3 (eval_seq_key ?u (rq_task q) (rq_pipeline q)) = Some (with_meta ?e ''evaluation_sequence'' ?s)"
    using ne by (simp add: add_contract_award_def save_evaluation_sequence_def save_doc_get k)
  have award: "kv_get kv ?c3 (key3 ''award'' ?u (rq_task q) (rt_ids rt n)) = Some (with_meta ?e ''contract_award'' ?a)"
    by (simp add: add_contract_award_def save_doc_get k)
  have "untouched kv (other_sequence ?u (rq_task q) (rq_pipeline q)) c c1"
    using persist_bids_other[OF f] by (simp add: untouched_def other_sequence_def)
  also have "untouched kv (other_sequence ?u (rq_task q) (rq_pipeline q)) c1 ?c2"
    unfolding save_evaluation_sequence_def k by (rule save_doc_untouched) (simp add: other_sequence_def)
  also have "untouched kv (other_sequence ?u (rq_task q) (rq_pipeline q)) ?c2 ?c3"
    unfolding add_contract_award_def k by (rule save_doc_untouched) (simp add: other_sequence_def key3_key2 key2_def)
  finally have other: "untouched kv (other_sequence ?u (rq_task q) (rq_pipeline q)) c ?c3" .
  have "kv_get kv ?c3 (eval_seq_key ?u (rq_task q) (rq_pipeline q)) = Some (with_meta ?e ''evaluation_sequence'' s)"
    using seq by (simp only: st(2))
  then show thesis by (rule that[OF st other _ award])
qed

end

text \<open>C12. The inline contract net (\<^verbatim>\<open>_resolve_competing_service\<close>) is an auction among the registered agents: the stored
  ranking is a permutation of them with the score each gets from the whole field, in falling order unless a random
  exploration is drawn; the task goes to the service of the first, who holds the award; and the ranking is stored at index 0
  under the id of the pipeline.\<close>

theorem auction_awards_best:
  assumes "kv_collection kv" and "run_auction kv rt q agents st = (Inr (svc, Some s), st')" and "rs_graph st = Some c"
  shows "\<exists>es c' pw cw ids n sd ad. rs_graph st' = Some c' \<and> route_weights (rt_reg rt) = Inr (pw, cw) \<and>
     mset (map (rv_agent \<circ> fst) es) = mset (map (normalize_agent (ce_repr (rt_cnp rt))) agents) \<and>
     (\<forall>e \<in> set es. snd e = blended_score (rt_cnp rt) pw cw (map fst es) (fst e)) \<and>
     (\<forall>eps. env_float_strict (rt_reg rt) ''CNP_EPSILON_GREEDY'' (1 / 20) = Inr eps \<longrightarrow> eps \<le> rt_draw rt \<longrightarrow>
        sorted_wrt (\<lambda>x y. snd y \<le> snd x) es) \<and>
     svc = jstr (jget (rv_agent (fst (hd es))) ''service_name'') \<and>
     kv_get kv c' (eval_seq_key (rq_username q) (rq_task q) (rq_pipeline q)) = Some sd \<and> jget sd ''current_index'' = JInt 0 \<and>
     jget sd ''candidates'' = JList (map (candidate_doc rt ids) es) \<and>
     kv_get kv c' (key3 ''award'' (rq_username q) (rq_task q) (rt_ids rt n)) = Some ad \<and> jget ad ''bidder_id'' = JStr (rival_id rt (hd es))"
proof -
  obtain spec pw cw eps ttl es where a: "route_weights (rt_reg rt) = Inr (pw, cw)"
    "env_float_strict (rt_reg rt) ''CNP_EPSILON_GREEDY'' (1 / 20) = Inr eps"
    "es = ranked_rivals rt pw cw eps (map (rival_of kv rt q spec (rs_graph st)) agents)"
    "store_auction kv rt q (task_params (rt_cnp rt) spec) ttl es st = (s, st')"
    "svc = jstr (jget (rv_agent (fst (hd es))) ''service_name'')"
    by (rule run_auction_ranking[OF assms(2)]) (simp only: option.sel)
  obtain c' ids n where w: "rs_graph st' = Some c'" "s = inline_sequence rt q ids es"
    "kv_get kv c' (eval_seq_key (rq_username q) (rq_task q) (rq_pipeline q)) = Some (with_meta (rt_store rt n) ''evaluation_sequence'' s)"
    "kv_get kv c' (key3 ''award'' (rq_username q) (rq_task q) (rt_ids rt n)) = Some (with_meta (rt_store rt n) ''contract_award''
      (inline_award rt q n ids (hd es)))"
    by (rule kv_collection.store_auction_writes[OF assms(1) a(4) assms(3)]) blast
  let ?rs = "map (rival_of kv rt q spec (rs_graph st)) agents"
  have m: "mset es = mset (map (\<lambda>r. (r, blended_score (rt_cnp rt) pw cw ?rs r)) ?rs)" unfolding a(3) by (rule ranked_rivals_mset)
  have fst_es: "mset (map fst es) = mset ?rs" using arg_cong[OF m, of "image_mset fst"] by (simp add: multiset.map_comp comp_def)
  have agents: "mset (map (rv_agent \<circ> fst) es) = mset (map (normalize_agent (ce_repr (rt_cnp rt))) agents)"
    using arg_cong[OF fst_es, of "image_mset rv_agent"] by (simp add: multiset.map_comp comp_def rival_of_def Let_def)
  have scores: "snd e = blended_score (rt_cnp rt) pw cw (map fst es) (fst e)" if "e \<in> set es" for e
  proof -
    have "e \<in> set (map (\<lambda>r. (r, blended_score (rt_cnp rt) pw cw ?rs r)) ?rs)" using that mset_eq_setD[OF m] by blast
    then have "snd e = blended_score (rt_cnp rt) pw cw ?rs (fst e)" by auto
    then show ?thesis unfolding blended_score_perm[OF fst_es] .
  qed
  have sorted: "sorted_wrt (\<lambda>x y. snd y \<le> snd x) es" if "eps \<le> rt_draw rt" using ranked_rivals_sorted[OF that] unfolding a(3) .
  have seq: "jget (with_meta e ty s) ''current_index'' = JInt 0" "jget (with_meta e ty s) ''candidates'' = JList (map (candidate_doc rt ids) es)" for e ty
    by (simp_all add: w(2) inline_sequence_def with_meta_def)
  have award: "jget (with_meta e ty (inline_award rt q n ids (hd es))) ''bidder_id'' = JStr (rival_id rt (hd es))" for e ty
    by (simp add: inline_award_def with_meta_def)
  show ?thesis
    using w a(1,2,5) agents scores sorted seq award
    by (intro exI[of _ es] exI[of _ c'] exI[of _ pw] exI[of _ cw] exI[of _ ids] exI[of _ n] exI conjI) auto
qed

theorem auction_awards_best_witness:
  "\<exists>es :: (rival \<times> real) list. \<exists>c' n ad. rs_graph (snd demo_auction) = Some c' \<and>
     mset (map (rv_agent \<circ> fst) es) = mset (map (normalize_agent (ce_repr net_cnp)) demo_agents) \<and>
     jstr (jget (rv_agent (fst (hd es))) ''service_name'') = ''svc-b'' \<and> kv_get mem_kv c' (key3 ''award'' ''u'' ''t'' n) = Some ad \<and>
     jget ad ''bidder_id'' = JStr (rival_id route_demo (hd es))"
proof -
  obtain s where d: "demo_auction = (Inr (''svc-b'', Some s), snd demo_auction)" by (rule demo_auction_runs)
  have q: "rq_username route_demo_query = ''u''" "rq_task route_demo_query = ''t''" "rt_cnp route_demo = net_cnp"
    by (simp_all add: route_demo_query_def route_demo_def)
  show ?thesis
    using auction_awards_best[OF mem.kv_collection_axioms d route_state.select_convs(1)] unfolding q by metis
qed

lemma advance_missing: "kv_get kv c (eval_seq_key u t p) = None \<Longrightarrow> advance_evaluation_sequence kv e u t p c = (Inr None, c)"
  by (simp add: advance_evaluation_sequence_def get_raw_def)

lemma inline_ranking_use:
  assumes "kv_collection kv" and "run_auction kv rt q agents st = (Inr (svc, Some s), st')" and "rs_graph st = Some c"
    and "te_reforward_on te" and "te_has_store te" and "map_of (pr_tasks run) (rq_task q) = Some ts"
  shows "plan = None \<or> (\<exists>p. plan = Some p \<and> p \<noteq> rq_pipeline q \<and> kv_get kv c (eval_seq_key (rq_username q) (rq_task q) p) = None) \<Longrightarrow>
      try_reforward kv te (rq_username q) pid rid (rq_task q) plan run (the (rs_graph st')) = (Inr (None, run), the (rs_graph st'))"
    and "plan = Some (rq_pipeline q) \<Longrightarrow> rq_pipeline q \<noteq> [] \<Longrightarrow> jget s ''candidates'' = JList cs \<Longrightarrow> 1 < length cs \<Longrightarrow>
      \<exists>rf run' c''. try_reforward kv te (rq_username q) pid rid (rq_task q) plan run (the (rs_graph st')) = (Inr (Some rf, run'), c'') \<and>
        rf_sequence_index rf = 1 \<and> rf_new_agent_id rf = jstr (jget (jdict (cs ! 1)) ''bidder_id'')"
proof -
  obtain spec pw cw eps ttl es where a: "store_auction kv rt q (task_params (rt_cnp rt) spec) ttl es st = (s, st')"
    by (rule run_auction_ranking[OF assms(2)]) (simp only: option.sel)
  let ?u = "rq_username q" and ?t = "rq_task q"
  obtain c' ids n where w: "rs_graph st' = Some c'" "s = inline_sequence rt q ids es"
    "untouched kv (other_sequence ?u ?t (rq_pipeline q)) c c'"
    "kv_get kv c' (eval_seq_key ?u ?t (rq_pipeline q)) = Some (with_meta (rt_store rt n) ''evaluation_sequence'' s)"
    by (rule kv_collection.store_auction_writes[OF assms(1) a assms(3)]) blast
  show "try_reforward kv te ?u pid rid ?t plan run (the (rs_graph st')) = (Inr (None, run), the (rs_graph st'))"
    if p: "plan = None \<or> (\<exists>p. plan = Some p \<and> p \<noteq> rq_pipeline q \<and> kv_get kv c (eval_seq_key ?u ?t p) = None)"
  proof (cases "given plan")
    case True
    then obtain p where plan: "plan = Some p" "p \<noteq> rq_pipeline q" "kv_get kv c (eval_seq_key ?u ?t p) = None"
      using p by (auto simp: given_def)
    have "other_sequence ?u ?t (rq_pipeline q) (eval_seq_key ?u ?t p)"
      using plan(2) by (simp add: other_sequence_def eval_seq_key_def key3_key2 key2_def)
    then have "kv_get kv c' (eval_seq_key ?u ?t p) = None" using w(3) plan(3) by (simp add: untouched_def)
    then show ?thesis using assms(4-6) True by (simp add: try_reforward_def plan(1) w(1) advance_missing)
  qed (simp add: try_reforward_def)
  assume p: "plan = Some (rq_pipeline q)" "rq_pipeline q \<noteq> []" and cs: "jget s ''candidates'' = JList cs" "1 < length cs"
  let ?d = "with_meta (rt_store rt n) ''evaluation_sequence'' s"
  have d: "jget ?d ''candidates'' = JList cs" "jget ?d ''current_index'' = JInt (int 0)"
    using cs(1) by (simp_all add: w(2) inline_sequence_def with_meta_def)
  obtain c'' where adv: "advance_evaluation_sequence kv (te_store_env te) ?u ?t (rq_pipeline q) c' =
      (Inr (Some (dict_set ''sequence_index'' (JInt 1) (jdict (cs ! 1)))), c'')"
    using kv_collection.advance_step(1)[OF assms(1) w(4) d, of "te_store_env te"] cs(2) by auto
  have "cs ! 1 = candidate_doc rt ids (es ! 1)" and "1 < length es"
    using cs by (auto simp: w(2) inline_sequence_def)
  then obtain r where b: "jdict (cs ! 1) = (''bidder_id'', JStr (rival_id rt (es ! 1))) # r"
    by (simp add: candidate_doc_def)
  have m: "map_of (jdict (cs ! 1)) ''bidder_id'' = Some (jget (jdict (cs ! 1)) ''bidder_id'')"
    by (simp add: b[unfolded One_nat_def] jget_def dict_get_Cons)
  show "\<exists>rf run' c''. try_reforward kv te ?u pid rid ?t plan run (the (rs_graph st')) = (Inr (Some rf, run'), c'') \<and>
      rf_sequence_index rf = 1 \<and> rf_new_agent_id rf = jstr (jget (jdict (cs ! 1)) ''bidder_id'')"
    using assms(4-6) p by (simp add: try_reforward_def w(1) adv given_def m[unfolded One_nat_def] update_conv' Let_def)
qed

text \<open>C22. The ranking of an inline auction is filed under the pipeline's id, and the tracker looks for it under the id of
  the run's plan. A run without a plan, or with a plan of another id, gets nothing from it when the task fails: no
  re-forward, and no state changes. Only where the two ids are the same does the second of the ranking get the task.\<close>

theorem inline_ranking_reforward:
  assumes "kv_collection kv" and "run_auction kv rt q agents st = (Inr (svc, Some s), st')" and "rs_graph st = Some c"
    and "te_reforward_on te" and "te_has_store te" and "map_of (pr_tasks run) (rq_task q) = Some ts"
  shows "(plan = None \<or> (\<exists>p. plan = Some p \<and> p \<noteq> rq_pipeline q \<and> kv_get kv c (eval_seq_key (rq_username q) (rq_task q) p) = None) \<longrightarrow>
       try_reforward kv te (rq_username q) pid rid (rq_task q) plan run (the (rs_graph st')) = (Inr (None, run), the (rs_graph st'))) \<and>
     (plan = Some (rq_pipeline q) \<and> rq_pipeline q \<noteq> [] \<and> jget s ''candidates'' = JList cs \<and> 1 < length cs \<longrightarrow>
       (\<exists>rf run' c''. try_reforward kv te (rq_username q) pid rid (rq_task q) plan run (the (rs_graph st')) = (Inr (Some rf, run'), c'') \<and>
         rf_sequence_index rf = 1 \<and> rf_new_agent_id rf = jstr (jget (jdict (cs ! 1)) ''bidder_id'')))"
  by (intro conjI impI; (elim conjE)?) (rule inline_ranking_use[OF assms]; assumption)+

definition route_tracker :: tracker_env where
  "route_tracker = \<lparr>te_clock = 0, te_wall = 0, te_reforward_on = True, te_has_store = True, te_cfg = None,
     te_store_env = store_env.truncate net_env, te_it = remdups\<rparr>"

definition route_run :: pipeline_run where
  "route_run = \<lparr>pr_run_id = ''r'', pr_pipeline_id = ''p'', pr_status = PsRunning,
     pr_tasks = [(''t'', \<lparr>ts_status = SEnum TsFailed, ts_attempts = 0, ts_error = None, ts_is_final = Some True, ts_run_id = ''r'', ts_task_id = ''t'',
       ts_username = ''u'', ts_pipeline_id = ''p'', ts_service = ''svc-b'', ts_data = []\<rparr>)],
     pr_finished_at = None, pr_triggered_by = ''u'', pr_final_task_ids = [''t''], pr_paused = False\<rparr>"

theorem inline_ranking_reforward_witness:
  "try_reforward mem_kv route_tracker ''u'' ''p'' ''r'' ''t'' (Some ''plan'') route_run (the (rs_graph (snd demo_auction))) =
     (Inr (None, route_run), the (rs_graph (snd demo_auction))) \<and>
   (\<exists>rf run' c. try_reforward mem_kv route_tracker ''u'' ''p'' ''r'' ''t'' (Some ''p'') route_run (the (rs_graph (snd demo_auction))) =
     (Inr (Some rf, run'), c) \<and> rf_sequence_index rf = 1)"
proof -
  obtain s where d: "demo_auction = (Inr (''svc-b'', Some s), snd demo_auction)" "length (jlist (jget s ''candidates'')) = 2"
    "is_list (jget s ''candidates'')" by (rule demo_auction_runs)
  have q: "rq_username route_demo_query = ''u''" "rq_task route_demo_query = ''t''" "rq_pipeline route_demo_query = ''p''"
    by (simp_all add: route_demo_query_def)
  have te: "te_reforward_on route_tracker" "te_has_store route_tracker" by (simp_all add: route_tracker_def)
  obtain ts where ts: "map_of (pr_tasks route_run) ''t'' = Some ts" by (simp add: route_run_def)
  obtain cs where cs: "jget s ''candidates'' = JList cs" "1 < length cs" using d(2,3) by (cases "jget s ''candidates''") simp_all
  note r = inline_ranking_reforward[OF mem.kv_collection_axioms d(1) route_state.select_convs(1) te, unfolded q, OF ts]
  have "Some ''plan'' = None \<or> (\<exists>p. Some ''plan'' = Some p \<and> p \<noteq> ''p'' \<and> kv_get mem_kv [] (eval_seq_key ''u'' ''t'' p) = None)"
    by (simp add: mem_kv_def)
  from r[where pid = "''p''" and rid = "''r''", THEN conjunct1, THEN mp, OF this] r[where pid = "''p''" and rid = "''r''" and plan = "Some ''p''" and cs = cs, THEN conjunct2, THEN mp] cs show ?thesis by blast
qed

end
