(* ===== verification/Forwarder_Properties.thy ===== *)
theory Forwarder_Properties
  imports Forwarder Competing_Properties Workflow_Properties
begin

section \<open>What forwarding a task does\<close>

text \<open>
  Who is called and how often, what is stored and published, and that nothing but the conditions named stops a
  forward. \<open>ran\<close> relates the states before and after a part of a forward by the calls it makes.
\<close>

subsection \<open>Attempts\<close>

lemma attempts_next: "attempts ans n i = (r, j) \<Longrightarrow> i \<le> j \<and> j \<le> i + n \<and> (r \<noteq> Raised \<longrightarrow> i < j \<and> ans (j - 1) = r)"
  by (induction n arbitrary: i) (force split: answer.splits)+

definition ran :: "agent \<Rightarrow> forward_task \<Rightarrow> nat \<Rightarrow> ('r, 'o, 'g, 's) forward_state \<Rightarrow> ('r, 'o, 'g, 's) forward_state \<Rightarrow> bool" where
  "ran ag task n st st' \<longleftrightarrow> (\<exists>ls. fo_calls st' = fo_calls st @ map (\<lambda>l. \<lparr>ac_agent = ag, ac_long = l, ac_task = task\<rparr>) ls \<and> length ls \<le> n)"

lemma ran_same: "fo_calls st' = fo_calls st \<Longrightarrow> ran ag task n st st'"
  by (auto simp: ran_def)

lemma ran_trans:
  assumes "ran ag task n st st'" and "ran ag task m st' st''"
  shows "ran ag task (n + m) st st''"
proof -
  let ?c = "\<lambda>l. \<lparr>ac_agent = ag, ac_long = l, ac_task = task\<rparr>"
  obtain ls ls' where "fo_calls st' = fo_calls st @ map ?c ls" "length ls \<le> n" "fo_calls st'' = fo_calls st' @ map ?c ls'" "length ls' \<le> m"
    using assms unfolding ran_def by blast
  then show ?thesis unfolding ran_def by (intro exI[of _ "ls @ ls'"]) simp
qed

lemma ran_mono: "ran ag task n st st' \<Longrightarrow> n \<le> m \<Longrightarrow> ran ag task m st st'"
  unfolding ran_def by (blast intro: order_trans)

lemma call_logic_ran:
  assumes "call_logic fe ag task st = (res, st')"
  shows "ran ag task 6 st st'" and "fo_outputs st' = fo_outputs st"
    and "res = Some d \<Longrightarrow> fo_calls st' \<noteq> [] \<and> fe_answer fe (length (fo_calls st') - 1) = Answer d"
proof -
  let ?i = "length (fo_calls st)"
  obtain r j where a: "attempts (fe_answer fe) 3 ?i = (r, j)" by fastforce
  obtain r' k where b: "(if r = TypeErr then attempts (fe_answer fe) 3 j else (r, j)) = (r', k)" by fastforce
  note a' = attempts_next[OF a]
  have k: "j \<le> k \<and> k \<le> j + 3 \<and> (r' \<noteq> Raised \<longrightarrow> ?i < k \<and> fe_answer fe (k - 1) = r')"
    using a' b attempts_next[of "fe_answer fe" 3 j r' k] by (auto split: if_splits)
  have st': "st' = st\<lparr>fo_calls := fo_calls st @ replicate (j - ?i) \<lparr>ac_agent = ag, ac_long = True, ac_task = task\<rparr>
      @ replicate (k - j) \<lparr>ac_agent = ag, ac_long = False, ac_task = task\<rparr>\<rparr>"
    and res: "res = (case r' of Answer d \<Rightarrow> Some d | _ \<Rightarrow> None)"
    using assms by (simp_all add: call_logic_def a b[simplified])
  have len: "length (fo_calls st') = k" using a' k by (simp add: st')
  have "j - ?i + (k - j) \<le> 6" using a' k by linarith
  then show "ran ag task 6 st st'" unfolding ran_def
    by (intro exI[of _ "replicate (j - ?i) True @ replicate (k - j) False"]) (simp add: st')
  show "fo_outputs st' = fo_outputs st" by (simp add: st')
  assume "res = Some d"
  then have "r' = Answer d" by (simp add: res split: answer.splits)
  then show "fo_calls st' \<noteq> [] \<and> fe_answer fe (length (fo_calls st') - 1) = Answer d"
    using k len by (metis answer.distinct(1) length_0_conv not_less_zero)
qed

subsection \<open>What does not call an agent\<close>

lemma quiet_parts [simp]:
  "fo_calls (keep_input fe t task st) = fo_calls st"
  "fo_calls (flow_jobs fe triggered t task st) = fo_calls st"
  "fo_calls (notify_started fe nt st) = fo_calls st" "fo_outputs (notify_started fe nt st) = fo_outputs st"
  "fo_calls (notify_finished fe nt ok st) = fo_calls st" "fo_outputs (notify_finished fe nt ok st) = fo_outputs st"
  "fo_calls (deposit_affordance fe t seq task st) = fo_calls st" "fo_outputs (deposit_affordance fe t seq task st) = fo_outputs st"
  by (simp_all add: keep_input_def flow_jobs_def notify_started_def notify_finished_def deposit_affordance_def Let_def case_prod_unfold
      split: option.splits sum.splits)

lemma learn_job_quiet: "learn_job fe k final st = (x, st') \<Longrightarrow> fo_calls st' = fo_calls st \<and> fo_outputs st' = fo_outputs st"
  by (auto simp: learn_job_def split: if_splits)

lemma track_quiet: "track fe k final st = (x, st') \<Longrightarrow> fo_calls st' = fo_calls st \<and> fo_outputs st' = fo_outputs st"
  by (auto simp: track_def Let_def case_prod_unfold split: option.splits sum.splits)

lemma route_task_quiet: "route_task fe t task st = (x, st') \<Longrightarrow> fo_calls st' = fo_calls st \<and> fo_outputs st' = fo_outputs st"
  by (auto simp: route_task_def route_by_auction_def Let_def case_prod_unfold split: option.splits sum.splits if_splits)

subsection \<open>Rounds\<close>

definition caller :: "routed \<Rightarrow> agent" where
  "caller r = (case ro_entry r of None \<Rightarrow> OwnLogic | Some ag \<Rightarrow> ag)"

lemma attempt_ran:
  assumes "attempt fe k t r st = (res, st')"
  shows "ran (caller r) (ro_task r) 6 st st'" and "fo_outputs st' = fo_outputs st"
    and "res = Some d \<Longrightarrow> fo_calls st' \<noteq> [] \<and> fe_answer fe (length (fo_calls st') - 1) = Answer d"
proof -
  have "st' = st \<and> res = None \<or> call_logic fe (caller r) (ro_task r) st = (res, st')"
    using assms by (auto simp: attempt_def caller_def split: if_splits option.splits bool.splits)
  then show "ran (caller r) (ro_task r) 6 st st'" and "fo_outputs st' = fo_outputs st"
    and "res = Some d \<Longrightarrow> fo_calls st' \<noteq> [] \<and> fe_answer fe (length (fo_calls st') - 1) = Answer d"
    using call_logic_ran(1,2)[of fe "caller r" "ro_task r" st res st'] call_logic_ran(3)[of fe "caller r" "ro_task r" st res st' d]
      ran_same[of st' st] by auto
qed

text \<open>A round is an attempt, whose result is settled, then a job and the tracker.\<close>

lemma one_round_parts:
  assumes "one_round fe k t r base st = (x, st')"
  obtains res st1 st2 outs final where "attempt fe k t r (notify_started fe (note_of t (ro_task r)) st) = (res, st1)"
    and "settle fe r base res (fo_outputs st1) = (final, outs)" and "fo_calls st2 = fo_calls st1" and "fo_outputs st2 = outs"
    and "bindS (learn_job fe k final) (\<lambda>_ st. case track fe k final st of (rf, st') \<Rightarrow> (Inr (final, rf), st')) st2 = (x, st')"
    and "fo_calls st' = fo_calls st1" and "fo_outputs st' = outs"
proof -
  obtain res st1 where a: "attempt fe k t r (notify_started fe (note_of t (ro_task r)) st) = (res, st1)" by fastforce
  define sd where "sd = (case res of None \<Rightarrow> st1 | Some _ \<Rightarrow>
      (case ro_seq r of None \<Rightarrow> st1 | Some seq \<Rightarrow> deposit_affordance fe t seq (ro_task r) st1))"
  define sn where "sn = notify_finished fe (note_of t (ro_task r)) (res \<noteq> None) sd"
  have o: "fo_outputs sn = fo_outputs st1" and c: "fo_calls sn = fo_calls st1"
    by (simp_all add: sn_def sd_def split: option.splits)
  obtain final outs where f: "settle fe r base res (fo_outputs st1) = (final, outs)" by fastforce
  have b: "bindS (learn_job fe k final) (\<lambda>_ st. case track fe k final st of (rf, st') \<Rightarrow> (Inr (final, rf), st')) (sn\<lparr>fo_outputs := outs\<rparr>) = (x, st')"
    using assms unfolding one_round_def a Let_def case_prod_conv sd_def[symmetric] sn_def[symmetric] o f .
  obtain y s where l: "learn_job fe k final (sn\<lparr>fo_outputs := outs\<rparr>) = (y, s)" by fastforce
  obtain rf s' where tr: "track fe k final s = (rf, s')" by fastforce
  have "st' = s \<or> st' = s'" using b by (auto simp: bindS_def l tr split: sum.splits)
  then have q: "fo_calls st' = fo_calls st1" "fo_outputs st' = outs"
    using learn_job_quiet[OF l] track_quiet[OF tr] c by auto
  show thesis by (rule that[OF a f _ _ b q]) (simp_all add: c)
qed

lemma one_round_ran: "one_round fe k t r base st = (x, st') \<Longrightarrow> ran (caller r) (ro_task r) 6 st st'"
  by (erule one_round_parts) (use attempt_ran(1) in \<open>fastforce simp: ran_def\<close>)

lemma rounds_ran: "rounds fe n k t r base st = (x, st') \<Longrightarrow> ran (caller r) (ro_task r) (6 * Suc n) st st'"
proof (induction n arbitrary: k base st)
  case 0
  obtain y s where o: "one_round fe k t r base st = (y, s)" by fastforce
  then have "st' = s" using 0 by (auto simp: bindS_def split: sum.splits)
  then show ?case using one_round_ran[OF o] by simp
next
  case (Suc n)
  obtain y s where o: "one_round fe k t r base st = (y, s)" by fastforce
  note r = one_round_ran[OF o]
  let ?again = "\<lambda>i :: reforward_info. (ro_task r)\<lparr>ts_status := SEnum TsRunning, ts_error := None, ts_service := rf_new_service i\<rparr>"
  have "st' = s \<or> (\<exists>i. rounds fe n (Suc k) t r (?again i) s = (x, st'))"
    using Suc.prems by (cases y) (auto simp: bindS_def o split: option.splits)
  then consider "st' = s" | i where "rounds fe n (Suc k) t r (?again i) s = (x, st')" by blast
  then show ?case
  proof cases
    case 1
    then show ?thesis using ran_mono[OF r] by simp
  next
    case (2 i)
    from ran_trans[OF r Suc.IH[OF 2]] show ?thesis by simp
  qed
qed

subsection \<open>Who is called, and how often\<close>

lemma redirect_entry: "ro_entry (redirect fe cur svc r) = Some ag \<Longrightarrow> ro_entry r = None \<Longrightarrow> ag \<in> Entry ` snd ` set agent_entry_map"
  by (auto simp: redirect_def load_agent_entry_def split: if_splits option.splits dest!: map_of_SomeD intro!: image_eqI)

lemma route_task_entry: "route_task fe t task st = (Inr r, st') \<Longrightarrow> caller r \<in> {OwnLogic} \<union> Entry ` snd ` set agent_entry_map"
  using redirect_entry[of fe "current_service t task"] 
  by (auto simp: route_task_def route_by_auction_def unrouted_def caller_def Let_def case_prod_unfold current_service_def
      split: option.splits sum.splits if_splits intro!: redirect_entry)

text \<open>C5. A forward ends after at most six calls of an agent for each of its rounds, one more than
  \<^verbatim>\<open>CNP_MAX_REFORWARDS\<close>, whatever the message, the answers and the stores. All of these calls go to one agent with one
  task: the service's own logic or the entry of one of the five services of the table. So when the tracker re-forwards a
  failed task to the next agent of the ranking, the agent that failed is run again.\<close>

theorem forward_calls_one_agent:
  "\<exists>ag p ls. fo_calls (snd (forward fe m triggered t st)) = fo_calls st @ map (\<lambda>l. \<lparr>ac_agent = ag, ac_long = l, ac_task = p\<rparr>) ls \<and>
     length ls \<le> (case max_reforwards fe of Inl _ \<Rightarrow> 0 | Inr n \<Rightarrow> 6 * Suc n) \<and>
     ag \<in> {OwnLogic} \<union> Entry ` snd ` set agent_entry_map"
proof -
  define N where "N = (case max_reforwards fe of Inl _ \<Rightarrow> 0 | Inr n \<Rightarrow> 6 * Suc n)"
  let ?A = "{OwnLogic} \<union> Entry ` snd ` set agent_entry_map"
  have run: "\<exists>ag p. ran ag p N st (snd (forward_task_state fe triggered t task st)) \<and> ag \<in> ?A" for task
  proof -
    define s0 where "s0 = flow_jobs fe triggered t task (keep_input fe t task (st\<lparr>fo_bound := False\<rparr>))"
    have s0: "fo_calls s0 = fo_calls st" by (simp add: s0_def)
    obtain y s1 where r: "route_task fe t task s0 = (y, s1)" by fastforce
    have s1: "fo_calls s1 = fo_calls st" using route_task_quiet[OF r] s0 by simp
    show ?thesis
    proof (cases "\<exists>r n. y = Inr r \<and> max_reforwards fe = Inr n")
      case False
      then have "snd (forward_task_state fe triggered t task st) = s1"
        by (auto simp: forward_task_state_def s0_def[symmetric] bindS_def r split: sum.splits)
      then show ?thesis using ran_same[OF s1, of OwnLogic] by auto
    next
      case True
      then obtain r n where y: "y = Inr r" "max_reforwards fe = Inr n" by blast
      obtain z s2 where o: "rounds fe n 0 t r (ro_base r) s1 = (z, s2)" by fastforce
      have "snd (forward_task_state fe triggered t task st) = s2"
        by (auto simp: forward_task_state_def s0_def[symmetric] bindS_def r y o split: sum.splits)
      moreover have "ran (caller r) (ro_task r) N st s2" using rounds_ran[OF o] s1 by (simp add: N_def y ran_def)
      ultimately show ?thesis using route_task_entry r y by blast
    qed
  qed
  have "\<exists>ag p. ran ag p N st (snd (forward fe m triggered t st)) \<and> ag \<in> ?A"
  proof (cases "\<exists>task. prepare fe m triggered t (fo_outputs st) = Inr (Some task)")
    case True
    then show ?thesis using run by (auto simp only: forward_def sum.case option.case)
  next
    case False
    then have "snd (forward fe m triggered t st) = st" by (auto simp: forward_def split: sum.splits option.splits)
    then show ?thesis using ran_same[of st st OwnLogic] by fastforce
  qed
  then show ?thesis unfolding ran_def N_def by blast
qed

subsection \<open>What is published\<close>

definition same_task :: "forward_task \<Rightarrow> forward_task \<Rightarrow> bool" where
  "same_task a b \<longleftrightarrow> ts_run_id a = ts_run_id b \<and> ts_task_id a = ts_task_id b \<and> ts_username a = ts_username b \<and>
     ts_pipeline_id a = ts_pipeline_id b"

definition stored_as :: "('o, doc) doc_ops \<Rightarrow> forward_task \<Rightarrow> doc \<Rightarrow> 'o \<Rightarrow> bool" where
  "stored_as ops t raw c \<longleftrightarrow> read_task_output ops (ts_username t) (ts_task_id t) (ts_run_id t) c = raw \<and>
     ft_output_ref t = Some (output_key (ts_username t) (ts_task_id t) (ts_run_id t))"

locale output_store = doc_collection ops for ops :: "('o, doc) doc_ops"
begin

lemma output_stored: "\<exists>c'. store_task_output ops u t run d c = Inr c' \<and> read_task_output ops u t run c' = d"
  using insert_new[of c "output_key u t run" d] insert_old[of c "output_key u t run"] replace_old[of c "output_key u t run" _ d]
  by (cases "d_get ops c (output_key u t run)") (auto simp: store_task_output_def read_task_output_def)

lemma persisted: "\<exists>t' c'. call_persistence ops 3 t raw (Some c) = Some (t', Some c') \<and> same_task t' t \<and> ts_status t' = ts_status t \<and>
    stored_as ops t' raw c'"
  using output_stored[of "ts_username t" "ts_task_id t" "ts_run_id t" raw c]
  by (auto simp: numeral_3_eq_3 persist_output_def save_output_def same_task_def stored_as_def)

end

interpretation mem_outputs: output_store mem_docs
  by unfold_locales

lemma settled:
  assumes "output_store (fe_docs fe)" and "settle fe r base res (Some c) = (final, outs)"
  shows "\<exists>c'. outs = Some c' \<and> same_task final base \<and>
    stored_as (fe_docs fe) final (case res of None \<Rightarrow> [(''raw_output'', JStr ''error'')] | Some d \<Rightarrow> d) c' \<and>
    ts_status final = SEnum (if res = None then TsFailed else TsCompleted)"
proof -
  define t where "t = (case res of None \<Rightarrow> base\<lparr>ts_status := SEnum TsFailed\<rparr> | Some _ \<Rightarrow> base\<lparr>ts_status := SEnum TsCompleted,
      ts_service := (if ro_entry r = None then ts_service base else ts_service (ro_task r))\<rparr>)"
  define raw where "raw = (case res of None \<Rightarrow> [(''raw_output'', JStr ''error'')] | Some d \<Rightarrow> d)"
  obtain t' c' where p: "call_persistence (fe_docs fe) 3 t raw (Some c) = Some (t', Some c')"
    and q: "same_task t' t" "ts_status t' = ts_status t" "stored_as (fe_docs fe) t' raw c'"
    using output_store.persisted[OF assms(1)] by blast
  have "final = t'" "outs = Some c'"
    using assms(2) p unfolding settle_def Let_def t_def[symmetric] raw_def[symmetric] by simp_all
  moreover have "same_task t base" "ts_status t = SEnum (if res = None then TsFailed else TsCompleted)"
    by (cases res; simp add: t_def same_task_def)+
  ultimately show ?thesis using q unfolding raw_def[symmetric] by (simp add: same_task_def)
qed

lemma round_outcome:
  assumes "output_store (fe_docs fe)" and "one_round fe k t r base st = (Inr (final, rf), st')" and "fo_outputs st = Some c"
  shows "\<exists>c' raw. fo_outputs st' = Some c' \<and> same_task final base \<and> stored_as (fe_docs fe) final raw c' \<and>
    (ts_status final = SEnum TsCompleted \<and> fe_answer fe (length (fo_calls st') - 1) = Answer raw \<or>
     ts_status final = SEnum TsFailed \<and> raw = [(''raw_output'', JStr ''error'')])"
proof -
  obtain res st1 st2 outs f where a: "attempt fe k t r (notify_started fe (note_of t (ro_task r)) st) = (res, st1)"
    and s: "settle fe r base res (fo_outputs st1) = (f, outs)"
    and b: "bindS (learn_job fe k f) (\<lambda>_ st. case track fe k f st of (rf, st') \<Rightarrow> (Inr (f, rf), st')) st2 = (Inr (final, rf), st')"
    and c: "fo_calls st' = fo_calls st1" "fo_outputs st' = outs"
    using assms(2) by (rule one_round_parts)
  have "f = final" using b by (auto simp: bindS_def split: sum.splits prod.splits)
  moreover have "fo_outputs st1 = Some c" using attempt_ran(2)[OF a] assms(3) by simp
  moreover have "fe_answer fe (length (fo_calls st') - 1) = Answer d" if "res = Some d" for d
    using attempt_ran(3)[OF a that] c by simp
  ultimately show ?thesis using settled[OF assms(1), of r base res c f outs] s c by (cases res) auto
qed

definition ends_as :: "('r, 'o, 'g, 's) forward_env \<Rightarrow> forward_task \<Rightarrow> forward_task \<Rightarrow> ('r, 'o, 'g, 's) forward_state \<Rightarrow> bool" where
  "ends_as fe task final st \<longleftrightarrow> same_task final task \<and> (\<exists>c raw. fo_outputs st = Some c \<and> stored_as (fe_docs fe) final raw c \<and>
     (ts_status final = SEnum TsCompleted \<and> fe_answer fe (length (fo_calls st) - 1) = Answer raw \<or>
      ts_status final = SEnum TsFailed \<and> raw = [(''raw_output'', JStr ''error'')]))"

lemma same_task_trans: "same_task a b \<Longrightarrow> same_task b c \<Longrightarrow> same_task a c"
  by (simp add: same_task_def)

lemma round_ends: "output_store (fe_docs fe) \<Longrightarrow> one_round fe k t r base st = (Inr (final, rf), st') \<Longrightarrow> fo_outputs st \<noteq> None \<Longrightarrow>
    same_task base (ro_task r) \<Longrightarrow> ends_as fe (ro_task r) final st' \<and> fo_outputs st' \<noteq> None"
  using round_outcome[of fe k t r base st final rf st'] same_task_trans unfolding ends_as_def by blast

subsection \<open>That a forward returns\<close>

lemma round_returns:
  assumes "\<not> bandit_enabled (fe_env fe) \<or> fo_bound st"
  shows "\<exists>final rf st'. one_round fe k t r base st = (Inr (final, rf), st') \<and> (fo_bound st \<longrightarrow> fo_bound st')"
proof -
  obtain res st1 where a: "attempt fe k t r (notify_started fe (note_of t (ro_task r)) st) = (res, st1)" by fastforce
  have b: "fo_bound st \<longrightarrow> fo_bound st1"
    using a by (auto simp: attempt_def call_logic_def notify_started_def Let_def case_prod_unfold split: if_splits option.splits bool.splits)
  obtain x st' where o: "one_round fe k t r base st = (x, st')" by fastforce
  define sd where "sd = (case res of None \<Rightarrow> st1 | Some _ \<Rightarrow>
      (case ro_seq r of None \<Rightarrow> st1 | Some seq \<Rightarrow> deposit_affordance fe t seq (ro_task r) st1))"
  define sn where "sn = notify_finished fe (note_of t (ro_task r)) (res \<noteq> None) sd"
  obtain final outs where f: "settle fe r base res (fo_outputs sn) = (final, outs)" by fastforce
  have s: "bindS (learn_job fe k final) (\<lambda>_ st. case track fe k final st of (rf, st') \<Rightarrow> (Inr (final, rf), st')) (sn\<lparr>fo_outputs := outs\<rparr>) = (x, st')"
    using o unfolding one_round_def a Let_def case_prod_conv sd_def[symmetric] sn_def[symmetric] f .
  have n: "fo_bound st \<longrightarrow> fo_bound sn"
    using b by (auto simp: sn_def sd_def notify_finished_def deposit_affordance_def Let_def case_prod_unfold split: option.splits sum.splits)
  define s1 where "s1 = snd (learn_job fe k final (sn\<lparr>fo_outputs := outs\<rparr>))"
  have l: "learn_job fe k final (sn\<lparr>fo_outputs := outs\<rparr>) = (Inr (), s1)" "fo_bound s1 = fo_bound sn"
    using assms n by (auto simp: s1_def learn_job_def)
  obtain rf s2 where t: "track fe k final s1 = (rf, s2)" by fastforce
  then have "fo_bound s2 = fo_bound s1" by (auto simp: track_def Let_def case_prod_unfold split: option.splits)
  then show ?thesis using s o n l t by (auto simp: bindS_def)
qed

lemma rounds_return:
  assumes "output_store (fe_docs fe)" and "same_task base (ro_task r)" and "fo_outputs st \<noteq> None"
    and "\<not> bandit_enabled (fe_env fe) \<or> fo_bound st"
  shows "\<exists>final st'. rounds fe n k t r base st = (Inr final, st') \<and> ends_as fe (ro_task r) final st'"
  using assms
proof (induction n arbitrary: k base st)
  case 0
  obtain final rf st' where "one_round fe k t r base st = (Inr (final, rf), st')" using round_returns[OF 0(4)] by blast
  then show ?case using round_ends[OF 0(1) _ 0(3,2)] by (simp add: bindS_def)
next
  case (Suc n)
  obtain final rf st' where o: "one_round fe k t r base st = (Inr (final, rf), st')" "fo_bound st \<longrightarrow> fo_bound st'"
    using round_returns[OF Suc.prems(4)] by blast
  note e = round_ends[OF Suc.prems(1) o(1) Suc.prems(3,2)]
  show ?case
  proof (cases rf)
    case None
    then show ?thesis using o e by (simp add: bindS_def)
  next
    case (Some i)
    let ?b = "(ro_task r)\<lparr>ts_status := SEnum TsRunning, ts_error := None, ts_service := rf_new_service i\<rparr>"
    have "same_task ?b (ro_task r)" by (simp add: same_task_def)
    then show ?thesis
      using Suc.IH[of ?b st' "Suc k"] Suc.prems(1,4) o e Some by (auto simp: bindS_def)
  qed
qed

lemma route_returns:
  assumes "cnp_task_data fe t (ts_data task) = Inr dd"
  obtains r st' where "route_task fe t task st = (Inr r, st')" and "same_task (ro_base r) (ro_task r)" and "same_task (ro_task r) task"
    and "fo_bound st' = fo_bound st"
proof -
  obtain x st' where x: "route_task fe t task st = (x, st')" by fastforce
  have d: "same_task (ro_base (redirect fe s svc r)) (ro_task (redirect fe s svc r)) = same_task (ro_base r) (ro_task r)"
    "same_task (ro_task (redirect fe s svc r)) u = same_task (ro_task r) u" for s svc r u
    by (simp_all add: redirect_def same_task_def)
  have "(\<exists>r. x = Inr r \<and> same_task (ro_base r) (ro_task r) \<and> same_task (ro_task r) task) \<and> fo_bound st' = fo_bound st"
    using x assms
    by (auto simp: route_task_def route_by_auction_def d unrouted_def Let_def case_prod_unfold same_task_def[of "_\<lparr>ts_data := _\<rparr>"]
        same_task_def[of task] split: option.splits sum.splits if_splits)
  then show thesis using that x by blast
qed


definition forward_demo :: "(nat \<Rightarrow> answer) \<Rightarrow> (string \<Rightarrow> stored_run option, string \<Rightarrow> doc option, (string \<times> doc) list, unit) forward_env" where
  "forward_demo ans = \<lparr>fe_kv = mem_kv, fe_runs = mem_docs, fe_docs = mem_docs, fe_route = route_demo, fe_registry = None, fe_has_graph = True,
     fe_config = Some (projr (parse_graph remdups ''p'' diamond)), fe_name = [], fe_dag = [], fe_templates = None, fe_json = (\<lambda>_. []),
     fe_dump = (\<lambda>_. []), fe_run_config = None, fe_imports = (\<lambda>_. True), fe_has_logic = True, fe_answer = ans, fe_draw = (\<lambda>_. 1),
     fe_tracker = None, fe_client = None, fe_suffix = False, fe_has_bus = True, fe_retry_text = []\<rparr>"

definition forward_start :: "(string \<Rightarrow> stored_run option, string \<Rightarrow> doc option, (string \<times> doc) list, unit) forward_state" where
  "forward_start = \<lparr>fo_tracker = \<lparr>tr_dedupe = [], tr_runs = Map.empty, tr_graph = []\<rparr>, fo_next = 0, fo_turns = [], fo_outputs = Some Map.empty,
     fo_client = new_client, fo_server = (), fo_calls = [], fo_jobs = [], fo_bound = False\<rparr>"

abbreviation (input) demo_entry :: forward_task where
  "demo_entry \<equiv> new_task ''a'' ''u'' ''p'' ''r'' None ''svc'' False []"


subsection \<open>The reference of an output\<close>

lemma first_colons_join: "first_colons s = Some (x, r) \<Longrightarrow> s = x @ ''::'' @ r"
  by (induction s arbitrary: x r rule: first_colons.induct) (auto split: if_splits)

lemma first_colons_found: "\<exists>x v. first_colons (u @ ''::'' @ w) = Some (x, v @ w)"
proof (induction u)
  case (Cons a u)
  then obtain x v where i: "first_colons (u @ ''::'' @ w) = Some (x, v @ w)" by blast
  obtain b s where b: "u @ ''::'' @ w = b # s" by (cases u) auto
  show ?case
  proof (cases "a = CHR '':'' \<and> b = CHR '':''")
    case True
    have "\<exists>v. s = v @ w" using b by (cases u) auto
    then show ?thesis using True b by auto
  next
    case False
    then show ?thesis using i b by auto
  qed
qed simp

text \<open>What \<^verbatim>\<open>CouchbaseDocStore\<close> saves comes back by the reference it returned, whatever the names of the user, the task
  and the run: a name with \<^verbatim>\<open>::\<close> makes \<^verbatim>\<open>load\<close> split the reference at other places, but the parts it finds
  make up the same key.\<close>

theorem output_roundtrip:
  assumes "output_store ops" and "save_output ops u run t raw (Some c) = Some (ref, c')"
  shows "load_output ops ref (Some c') = Some raw"
proof -
  have ref: "ref = output_key u t run" and s: "store_task_output ops u t run raw c = Inr c'"
    using assms(2) by (auto simp: save_output_def split: sum.splits)
  have get: "read_task_output ops u t run c' = raw"
    using output_store.output_stored[OF assms(1), of u t run raw c] s by auto
  obtain x v where x: "first_colons (u @ ''::'' @ t @ ''::'' @ run) = Some (x, v @ t @ ''::'' @ run)"
    using first_colons_found[of u "t @ ''::'' @ run"] by auto
  obtain y w where y: "first_colons (v @ t @ ''::'' @ run) = Some (y, w @ run)"
    using first_colons_found[of "v @ t" run] by auto
  have k: "output_key x y (w @ run) = output_key u t run"
    unfolding output_key_def first_colons_join[OF y, symmetric] first_colons_join[OF x, symmetric] ..
  have "split_colons 3 ref = [''task_output'', x, y, w @ run]"
    using x y by (simp add: ref output_key_def numeral_3_eq_3)
  then show ?thesis using get k by (simp add: load_output_def read_task_output_def)
qed

theorem output_roundtrip_witness:
  "\<exists>ref c'. save_output mem_docs ''a::b'' ''r'' ''t'' [(''raw_output'', JNull)] (Some Map.empty) = Some (ref, c') \<and>
     load_output mem_docs ref (Some c') = Some [(''raw_output'', JNull)]"
proof -
  obtain ref c' where "save_output mem_docs ''a::b'' ''r'' ''t'' [(''raw_output'', JNull)] (Some Map.empty) = Some (ref, c')"
    by (auto simp: save_output_def store_task_output_def mem_docs_def)
  from output_roundtrip[OF mem_outputs.output_store_axioms this] this show ?thesis by blast
qed

end
