(* ===== verification/Run_Properties.thy ===== *)
theory Run_Properties
  imports Run_Launch Forwarder_Properties
begin

section \<open>Properties of launching, starting and archiving\<close>

text \<open>
  How often the entry tasks of a run are started, what a launch leaves behind when it fails, and that archiving keeps a
  run in exactly one place. The laws of a collection from which documents can be removed are the locale
  \<open>removable_collection\<close>.
\<close>

subsection \<open>Starting a run\<close>

lemma forward_entry_log:
  "ss_forwards (forward_entry fe m t st) = ss_forwards st @ [(em_run m, t)]"
  "ss_managers (forward_entry fe m t st) = ss_managers st" "ss_boot (forward_entry fe m t st) = ss_boot st"
  by (simp_all add: forward_entry_def case_prod_unfold Let_def)

lemma forward_entries_log:
  "ss_forwards (fold (forward_entry fe m) ts st) = ss_forwards st @ map (Pair (em_run m)) ts"
  "ss_managers (fold (forward_entry fe m) ts st) = ss_managers st" "ss_boot (fold (forward_entry fe m) ts st) = ss_boot st"
  by (induction ts arbitrary: st) (simp_all add: forward_entry_log)

lemma announced:
  assumes "event \<in> {entry_doc u pid run cfg, started_doc u pid run cfg}" and "fe_config (fes u pid) = Some fc"
    and "g_getenv (fe_env (fes u pid)) ''SINGLE_PROCESS_ALL_SERVICES'' \<noteq> Some ''1''"
  shows "ss_forwards (on_pipeline_event fes service event st) = ss_forwards st @ map (Pair run) (entry_tasks fc service)"
    and "ss_managers (on_pipeline_event fes service event st) = ss_managers st @ (if run \<in> set (ss_boot st) then [] else [(service, run)])"
    and "ss_boot (on_pipeline_event fes service event st) = (if run \<in> set (ss_boot st) then ss_boot st else run # ss_boot st)"
proof -
  have e: "jget event ''username'' = JStr u" "jget event ''pipeline_id'' = JStr pid" "jget event ''pipeline_run_id'' = JStr run"
    "\<not> (truthy (jget event ''event'') \<and> jget event ''event'' \<noteq> JStr ''pipeline_started'')" "''task_id'' \<notin> set (map fst event)"
    "as_opt as_str (dict_get event ''pipeline_config_id'' (JStr pid)) = Some (Some cfg)"
    using assms(1) by (auto simp: entry_doc_def started_doc_def dict_simps jget_def as_opt_def)
  have s: "single_process (fes u pid) service run st = st" for st using assms(3) by (simp add: single_process_def)
  let ?b = "bootstrap (fes u pid) service run (fresh_forwarder st)"
  have o: "on_pipeline_event fes service event st = fold (forward_entry (fes u pid)
      \<lparr>em_pipeline = pid, em_username = u, em_run = run, em_config = Some cfg\<rparr>) (entry_tasks fc service) ?b"
    unfolding on_pipeline_event_def if_not_P[OF e(4)] e(1,2,3) json.case prod.case Let_def if_not_P[OF e(5)] e(6) assms(2) option.case s ..
  have b: "ss_forwards ?b = ss_forwards st" "ss_managers ?b = ss_managers st @ (if run \<in> set (ss_boot st) then [] else [(service, run)])"
    "ss_boot ?b = (if run \<in> set (ss_boot st) then ss_boot st else run # ss_boot st)"
    by (simp_all add: bootstrap_def fresh_forwarder_def)
  show "ss_forwards (on_pipeline_event fes service event st) = ss_forwards st @ map (Pair run) (entry_tasks fc service)"
    and "ss_managers (on_pipeline_event fes service event st) = ss_managers st @ (if run \<in> set (ss_boot st) then [] else [(service, run)])"
    and "ss_boot (on_pipeline_event fes service event st) = (if run \<in> set (ss_boot st) then ss_boot st else run # ss_boot st)"
    using b by (simp_all add: o forward_entries_log)
qed

lemma launch_messages:
  assumes "launch g ops obs rabbit run u pid cfg hot = (Inr (run', ms), hot')"
  shows "heard launcher ms = (if launcher then [entry_doc u pid run cfg, started_doc u pid run cfg] else [started_doc u pid run cfg])"
  using assms by (auto simp: launch_def heard_def split: sum.splits if_splits)

text \<open>C6. A launched run starts the consumers of each service once, but its entry tasks once for every announcement the
  service hears: the service that launched the run hears of it from the entry queue and from the bus, and forwards each
  of its entry tasks twice.\<close>

theorem entry_started_per_announcement:
  assumes "launch g ops obs rabbit run u pid cfg hot = (Inr (run', ms), hot')" and "fe_config (fes u pid) = Some fc"
    and "g_getenv (fe_env (fes u pid)) ''SINGLE_PROCESS_ALL_SERVICES'' \<noteq> Some ''1''" and "run \<notin> set (ss_boot st)"
    and "st' = fold (on_pipeline_event fes service) (heard launcher ms) st"
  shows "ss_managers st' = ss_managers st @ [(service, run)] \<and>
    ss_forwards st' = ss_forwards st @ concat (replicate (if launcher then 2 else 1) (map (Pair run) (entry_tasks fc service)))"
proof -
  note a = announced[where fes = fes and u = u and pid = pid and run = run and cfg = cfg, OF _ assms(2,3)]
  let ?e = "entry_doc u pid run cfg" and ?s = "started_doc u pid run cfg"
  show ?thesis
    using a[of ?e service st] a[of ?s service st] a[of ?s service "on_pipeline_event fes service ?e st"] assms(4)
    by (simp add: assms(5) launch_messages[OF assms(1)] numeral_2_eq_2)
qed

subsection \<open>A launch\<close>

lemma look_skips: "\<forall>i<k. obs (j + i) = Missing \<Longrightarrow> k \<le> n \<Longrightarrow> look_for_config obs n j = look_for_config obs (n - k) (j + k)"
proof (induction k arbitrary: n j)
  case (Suc k)
  obtain m where n: "n = Suc m" using Suc.prems(2) by (cases n) auto
  have "obs j = Missing" "\<forall>i<k. obs (Suc j + i) = Missing" using Suc.prems(1) by (force, force)
  then show ?case using Suc.IH[of "Suc j" m] Suc.prems(2) by (simp add: n)
qed simp

text \<open>C18. A launch waits for the configuration for at most \<^verbatim>\<open>PIPELINE_CONFIG_WAIT_ATTEMPTS\<close> looks: it goes on with the first
  look that finds one and fails when that comes too late. Without a connection to the broker it fails after it has
  written the run, which stays in the store as RUNNING though nothing has announced it.\<close>

theorem launch_waits:
  assumes "doc_collection ops" and "env_int_strict g ''PIPELINE_CONFIG_WAIT_ATTEMPTS'' 20 = Inr n"
    and "env_float_strict g ''PIPELINE_CONFIG_WAIT_SECONDS'' (1 / 2) = Inr d" and "\<forall>i<k. obs i = Missing" and "obs k = Ready fc"
    and "read_run ops u pid run c = Inl e" and "launch g ops obs rabbit run u pid cfg (Some c) = (r, hot')"
  shows "if int k < n then (\<exists>c'. hot' = Some c' \<and> read_run ops u pid run c' = Inr (StoredRun (seed_initial_run u pid run (fc_task_dict fc)) None)) \<and>
       (if rabbit then \<exists>ms. r = Inr (run, ms) else r = Inl LaunchNoRabbit)
     else hot' = Some c \<and> r = Inl (if n \<le> 0 then LaunchUnavailable else LaunchNotFound)"
proof (cases "int k < n")
  case True
  then have k: "k \<le> nat n" "nat n - k = Suc (nat n - k - 1)" by auto
  have w: "wait_for_final_config g obs = Inr fc"
    using look_skips[of k obs 0 "nat n"] assms(2-5) k by (simp add: wait_for_final_config_def)
  let ?run = "StoredRun (seed_initial_run u pid run (fc_task_dict fc)) None"
  have "d_get ops c (run_key u pid run) = None" using assms(6) by (simp add: read_run_def split: option.splits)
  from doc_collection.insert_new[OF assms(1) this, of ?run]
  obtain c' where "d_insert ops (run_key u pid run) ?run c = Some c'" by blast
  then have c': "create_run ops u pid run ?run c = Inr c'" by (simp add: create_run_def)
  show ?thesis
    using True assms(7) doc_collection.create_read[OF assms(1) c'] by (auto simp: launch_def w write_initial_run_def c' split: if_splits)
next
  case False
  have "wait_for_final_config g obs = Inl (if n \<le> 0 then LaunchUnavailable else LaunchNotFound)"
  proof -
    have "look_for_config obs (nat n) 0 = look_for_config obs 0 (nat n)"
      using look_skips[of "nat n" obs 0 "nat n"] assms(4) False by simp
    then show ?thesis using assms(2,3) by (simp add: wait_for_final_config_def)
  qed
  then show ?thesis using False assms(7) by (auto simp: launch_def)
qed

definition launch_demo :: "bool \<Rightarrow> string \<Rightarrow> (string \<Rightarrow> stored_run option) option
    \<Rightarrow> (launch_error + string \<times> launch_message list) \<times> (string \<Rightarrow> stored_run option) option" where
  "launch_demo rabbit run = launch net_env mem_docs (\<lambda>i. if i < 2 then Missing else Ready (projr (parse_graph remdups ''p'' diamond)))
     rabbit run ''u'' ''p'' ''cfg''"

theorem launch_waits_witness:
  "\<exists>c. launch_demo False ''r'' (Some Map.empty) = (Inl LaunchNoRabbit, Some c) \<and>
     read_run mem_docs ''u'' ''p'' ''r'' c = Inr (StoredRun (seed_initial_run ''u'' ''p'' ''r'' (fc_task_dict (projr (parse_graph remdups ''p'' diamond)))) None)"
proof -
  let ?fc = "projr (parse_graph remdups ''p'' diamond)"
  obtain r hot where l: "launch_demo False ''r'' (Some Map.empty) = (r, hot)" by fastforce
  have n: "env_int_strict net_env ''PIPELINE_CONFIG_WAIT_ATTEMPTS'' 20 = Inr 20"
    and d: "env_float_strict net_env ''PIPELINE_CONFIG_WAIT_SECONDS'' (1 / 2) = Inr (1 / 2)"
    and e: "read_run mem_docs ''u'' ''p'' ''r'' Map.empty = Inl DocumentNotFound"
    by (simp_all add: env_int_strict_def env_float_strict_def net_env_def read_run_def mem_docs_def)
  have "\<forall>i<2. (if i < (2::nat) then Missing else Ready ?fc) = Missing" "(if 2 < (2::nat) then Missing else Ready ?fc) = Ready ?fc" by simp_all
  from launch_waits[OF mem_docs.doc_collection_axioms n d this e l[unfolded launch_demo_def]] show ?thesis using l by auto
qed

abbreviation (input) service_start :: "(string \<Rightarrow> stored_run option, string \<Rightarrow> doc option, (string \<times> doc) list, unit) service_state" where
  "service_start \<equiv> \<lparr>ss_boot = [], ss_world = forward_start, ss_bindings = [], ss_managers = [], ss_forwards = [], ss_published = []\<rparr>"

theorem entry_started_per_announcement_witness:
  "\<exists>ms hot. launch_demo True ''r'' (Some Map.empty) = (Inr (''r'', ms), hot) \<and>
     ss_forwards (fold (on_pipeline_event (\<lambda>_ _. forward_demo (\<lambda>_. Raised)) ''svc_a'') (heard True ms) service_start) = [(''r'', ''a''), (''r'', ''a'')]"
proof -
  let ?fc = "projr (parse_graph remdups ''p'' diamond)" and ?fes = "\<lambda>_ _ :: string. forward_demo (\<lambda>_. Raised)"
  have "(case launch_demo True ''r'' (Some Map.empty) of (Inr (run, _), _) \<Rightarrow> run = ''r'' | _ \<Rightarrow> False)"
    by (simp add: launch_demo_def launch_def wait_for_final_config_def env_int_strict_def env_float_strict_def net_env_def
        eval_nat_numeral write_initial_run_def create_run_def mem_docs_def)
  then obtain ms hot where l: "launch_demo True ''r'' (Some Map.empty) = (Inr (''r'', ms), hot)" by (auto split: prod.splits sum.splits)
  have c: "fe_config (?fes ''u'' ''p'') = Some ?fc" and s: "g_getenv (fe_env (?fes ''u'' ''p'')) ''SINGLE_PROCESS_ALL_SERVICES'' \<noteq> Some ''1''"
    by (simp_all add: forward_demo_def route_demo_def net_env_def)
  have "entry_tasks ?fc ''svc_a'' = [''a'']" by code_simp
  then show ?thesis
    using entry_started_per_announcement[where fes = ?fes and st = service_start and launcher = True and service = "''svc_a''",
      OF l[unfolded launch_demo_def] c s _ refl] l by (simp add: numeral_2_eq_2)
qed

subsection \<open>The archive\<close>

locale removable_collection = doc_collection "doc_ops.truncate ops" for ops :: "('c, 'd) removable_ops" +
  assumes removed: "d_get ops (d_remove ops k c) k' = (if k' = k then None else d_get ops c k')"

definition mem_removable :: "(string \<Rightarrow> 'd option, 'd) removable_ops" where
  "mem_removable = doc_ops.extend mem_docs \<lparr>d_remove = (\<lambda>k c. c(k := None))\<rparr>"

interpretation mem_removable: removable_collection mem_removable
  by unfold_locales (simp_all add: mem_removable_def doc_ops.defs mem_docs_def)

text \<open>Where a document is, with the hot collection before the archive.\<close>

definition archived_or_hot :: "('h, stored_run) removable_ops \<Rightarrow> ('a, stored_run) doc_ops \<Rightarrow> 'h \<times> 'a \<Rightarrow> string \<Rightarrow> stored_run option" where
  "archived_or_hot hot cold s k = (case d_get hot (fst s) k of None \<Rightarrow> d_get cold (snd s) k | Some d \<Rightarrow> Some d)"

definition in_one_place :: "('h, stored_run) removable_ops \<Rightarrow> ('a, stored_run) doc_ops \<Rightarrow> string \<Rightarrow> 'h \<times> 'a \<Rightarrow> bool" where
  "in_one_place hot cold k s \<longleftrightarrow> d_get hot (fst s) k = None \<or> d_get cold (snd s) k = None"

lemma finalize_step:
  assumes "removable_collection hot" and "doc_collection cold" and "in_one_place hot cold k s" and "finalize_run hot cold u pid run s = (ok, s')"
  shows "in_one_place hot cold k s' \<and> archived_or_hot hot cold s' k = archived_or_hot hot cold s k \<and>
    (d_get hot (fst s') k = d_get hot (fst s) k \<or>
     (\<exists>r plan. archived_or_hot hot cold s k = Some (StoredRun r plan) \<and> terminal (pr_status r)))"
proof (cases "s' = s")
  case False
  let ?k = "run_key u pid run"
  obtain r plan a where h: "d_get hot (fst s) ?k = Some (StoredRun r plan)" "terminal (pr_status r)"
    "d_insert cold ?k (StoredRun r plan) (snd s) = Some a" "s' = (d_remove hot ?k (fst s), a)"
    using assms(4) False by (auto simp: finalize_run_def split: option.splits stored_run.splits if_splits)
  have "d_get hot (fst s') j = (if j = ?k then None else d_get hot (fst s) j)" for j
    using removable_collection.removed[OF assms(1)] by (simp add: h(4))
  moreover have "d_get cold (snd s') j = (if j = ?k then Some (StoredRun r plan) else d_get cold (snd s) j)" for j
    using doc_collection.insert_Some[OF assms(2) h(3)] by (simp add: h(4))
  ultimately show ?thesis using assms(3) h(1,2) by (auto simp: in_one_place_def archived_or_hot_def split: option.splits)
qed (use assms(3) in simp)

text \<open>C8. Every service of a run tries to archive it when it hears that the run has ended. However many of them do, for
  whichever runs and in whichever order, a run stays in exactly one of the two collections with the document it had, and
  leaves the hot one only when it is completed or failed.\<close>

theorem archiving_keeps_runs:
  assumes "removable_collection hot" and "doc_collection cold" and "in_one_place hot cold k s"
    and "s' = fold (\<lambda>(u, pid, run) s. snd (finalize_run hot cold u pid run s)) requests s"
  shows "in_one_place hot cold k s' \<and> archived_or_hot hot cold s' k = archived_or_hot hot cold s k \<and>
    (d_get hot (fst s') k = d_get hot (fst s) k \<or>
     (\<exists>r plan. archived_or_hot hot cold s k = Some (StoredRun r plan) \<and> terminal (pr_status r)))"
  using assms(3,4)
proof (induction requests arbitrary: s)
  case (Cons q qs)
  obtain u pid run where q: "q = (u, pid, run)" by (cases q)
  obtain ok t where t: "finalize_run hot cold u pid run s = (ok, t)" by (rule prod.exhaust)
  note f = finalize_step[OF assms(1,2) Cons.prems(1) t]
  show ?case using Cons.IH[of t] f Cons.prems(2) by (auto simp: q t)
qed simp

definition done_run :: stored_run where
  "done_run = StoredRun (route_run\<lparr>pr_status := PsCompleted\<rparr>) None"

theorem archiving_keeps_runs_witness:
  "let k = run_key ''u'' ''p'' ''r'';
       s = fold (\<lambda>(u, pid, run) s. snd (finalize_run mem_removable mem_docs u pid run s)) [(''u'', ''p'', ''r''), (''u'', ''p'', ''r'')]
         ([k \<mapsto> done_run], Map.empty)
   in in_one_place mem_removable mem_docs k s \<and> archived_or_hot mem_removable mem_docs s k = Some done_run \<and> d_get mem_removable (fst s) k = None"
proof -
  let ?k = "run_key ''u'' ''p'' ''r''" and ?s = "([run_key ''u'' ''p'' ''r'' \<mapsto> done_run], Map.empty)"
  have one: "in_one_place mem_removable mem_docs ?k ?s" by (simp add: in_one_place_def mem_docs_def)
  have found: "archived_or_hot mem_removable mem_docs ?s ?k = Some done_run"
    by (simp add: archived_or_hot_def mem_removable_def doc_ops.defs mem_docs_def)
  have gone: "d_get mem_removable (fst (fold (\<lambda>(u, pid, run) s. snd (finalize_run mem_removable mem_docs u pid run s))
      [(''u'', ''p'', ''r''), (''u'', ''p'', ''r'')] ?s)) ?k = None"
    by (simp add: finalize_run_def mem_removable_def doc_ops.defs mem_docs_def done_run_def terminal_def)
  note a = archiving_keeps_runs[OF mem_removable.removable_collection_axioms mem_docs.doc_collection_axioms one refl,
    of "[(''u'', ''p'', ''r''), (''u'', ''p'', ''r'')]"]
  show ?thesis unfolding Let_def
    by (intro conjI) (rule a[THEN conjunct1], rule a[THEN conjunct2, THEN conjunct1, unfolded found], rule gone)
qed

end
