(* ===== verification/Registry_Properties.thy ===== *)
theory Registry_Properties
  imports Agent_Registry
begin

section \<open>Correctness of the agent registry\<close>

text \<open>
  The reference notion is \<open>agent_live\<close>: an agent is live while its document has not expired and its last
  heartbeat is younger than the stale limit. A listing is proved to return exactly the live
  agents, and a heartbeat to keep an agent listed for exactly the shorter of the stale limit and its time to live.
\<close>

definition last_seen :: "registry_env \<Rightarrow> doc \<Rightarrow> real option" where
  "last_seen g d = (case parse_dt g (jget d ''last_heartbeat'') of
     None \<Rightarrow> parse_dt g (jget d ''registered_at'') | Some t \<Rightarrow> Some t)"

definition stale_limit :: "registry_config \<Rightarrow> int" where
  "stale_limit rc = (if rc_stale rc \<noteq> 0 then rc_stale rc else rc_offline rc)"

definition agent_live :: "registry_env \<Rightarrow> registry_config \<Rightarrow> doc \<Rightarrow> bool" where
  "agent_live g rc d \<longleftrightarrow>
     (case parse_dt g (jget d ''expires_at'') of None \<Rightarrow> True | Some t \<Rightarrow> e_now g < t) \<and>
     (case last_seen g d of None \<Rightarrow> True | Some t \<Rightarrow> stale_limit rc = 0 \<or> e_now g - t < of_int (stale_limit rc))"

abbreviation body :: "doc \<Rightarrow> doc" where
  "body d \<equiv> AList.delete ''policy'' d"

lemma config_normal:
  assumes "rc = load_registry_policy_config g"
  shows "0 \<le> rc_warn rc" and "rc_warn rc \<le> rc_stale rc" and "rc_stale rc \<le> rc_offline rc"
    and "0 \<le> rc_min_factor rc" and "rc_min_factor rc \<le> 1" and "1 \<le> rc_target_per_cap rc" and "1 \<le> rc_target_per_tag rc"
  using assms by (simp_all add: load_registry_policy_config_def Let_def)

lemma freshness_stale_iff:
  assumes "rc = load_registry_policy_config g" and "0 \<le> age"
  shows "fst (snd (freshness_state age rc)) \<longleftrightarrow> stale_limit rc \<noteq> 0 \<and> of_int (stale_limit rc) \<le> age"
proof -
  have a: "0 \<le> rc_warn rc" "rc_warn rc \<le> rc_stale rc" "rc_stale rc \<le> rc_offline rc"
    using config_normal[OF assms(1)] by auto
  then have "of_int (rc_stale rc) \<le> (of_int (rc_offline rc) :: real)" by simp
  then show ?thesis using a by (auto simp: freshness_state_def stale_limit_def)
qed

lemma evaluate_entry_spec:
  assumes "evaluate_entry g rc d = Inr d'" and rc: "rc = load_registry_policy_config g"
  shows "is_stale d' \<longleftrightarrow> \<not> agent_live g rc d" and "body d' = body d" and "is_dict (jget d' ''policy'')"
proof -
  define age where "age = (case last_seen g d of None \<Rightarrow> 0 | Some t \<Rightarrow> max 0 (e_now g - t))"
  have age: "0 \<le> age" by (simp add: age_def split: option.split)
  have late: "stale_limit rc \<noteq> 0 \<and> of_int (stale_limit rc) \<le> age \<longleftrightarrow>
      \<not> (case last_seen g d of None \<Rightarrow> True | Some t \<Rightarrow> stale_limit rc = 0 \<or> e_now g - t < of_int (stale_limit rc))"
    using config_normal[OF rc] by (auto simp: age_def max_def stale_limit_def split: option.split)
  obtain st stale off where r: "(case parse_dt g (jget d ''expires_at'') of None \<Rightarrow> freshness_state age rc
      | Some t \<Rightarrow> if t \<le> e_now g then (''expired'', True, True) else freshness_state age rc) = (st, stale, off)"
    by (metis prod_cases3)
  have stale: "stale \<longleftrightarrow> \<not> agent_live g rc d"
    using r late freshness_stale_iff[OF rc age] by (auto simp: agent_live_def split: option.splits if_splits)
  from assms(1) show "is_stale d' \<longleftrightarrow> \<not> agent_live g rc d" and "body d' = body d" and "is_dict (jget d' ''policy'')"
    unfolding stale[symmetric] evaluate_entry_def Let_def last_seen_def[symmetric] age_def[symmetric] r
    by (auto simp: is_stale_def policy_of_def delete_update_same split: if_splits)
qed

lemma add_coverage_spec:
  "is_dict (jget d ''policy'') \<Longrightarrow> is_stale (add_coverage g rc caps tags d) = is_stale d"
  "body (add_coverage g rc caps tags d) = body d"
  by (auto simp: add_coverage_def Let_def is_stale_def policy_of_def delete_update_same)

lemma apply_policies_spec:
  assumes "apply_policies g cov cx ds = Inr es" and rc: "rc = load_registry_policy_config g" and "rc_enable rc"
  shows "list_all2 (\<lambda>d e. body e = body d \<and> (is_stale e \<longleftrightarrow> \<not> agent_live g rc d)) ds es"
proof -
  obtain vs where vs: "list_all2 (\<lambda>d v. evaluate_entry g rc d = Inr v) ds vs"
    and es: "es = vs \<or> (\<exists>caps tags. es = map (add_coverage g rc caps tags) vs)"
    using assms by (fastforce simp: apply_policies_def apply_registry_policies_def evaluate_entries_def mapR_Inr_iff
        bindR_iffs Let_def split: if_splits)
  have "list_all2 (\<lambda>d v. body v = body d \<and> (is_stale v \<longleftrightarrow> \<not> agent_live g rc d) \<and> is_dict (jget v ''policy'')) ds vs"
    using vs by (rule list_all2_mono) (use evaluate_entry_spec[OF _ rc] in blast)
  then show ?thesis
    using es by (auto simp: list_all2_conv_all_nth add_coverage_spec)
qed

lemma listed_bodies:
  assumes "list_agents g kv u None None None [] c = Inr es" and rc: "rc = load_registry_policy_config g"
    and "rc_enable rc" and "rc_filter_stale rc"
  shows "map (\<lambda>d. body d) es = map (\<lambda>d. body d) (filter (agent_live g rc) (fetch_all kv u c))"
proof -
  obtain ps where ps: "apply_policies g True (Some (fetch_all kv u c)) (fetch_all kv u c) = Inr ps"
    and es: "filterR (agent_matches g rc None None None []) ps = Inr es"
    using assms by (auto simp: list_agents_def Let_def bindR_iffs)
  have "es = filter (\<lambda>d. \<not> is_stale d) ps"
    using filterR_Inr[OF es] assms(3,4) by (auto simp: agent_matches_def given_def intro!: filter_cong)
  moreover have "list_all2 (\<lambda>d e. body e = body d \<and> (is_stale e \<longleftrightarrow> \<not> agent_live g rc d)) (fetch_all kv u c) ps"
    by (rule apply_policies_spec[OF ps rc assms(3)])
  then have "map (\<lambda>d. body d) (filter (\<lambda>d. \<not> is_stale d) ps) = map (\<lambda>d. body d) (filter (agent_live g rc) (fetch_all kv u c))"
    by (induction rule: list_all2_induct) auto
  ultimately show ?thesis by simp
qed
subsection \<open>A listing returns\<close>

definition readable_policy :: "doc \<Rightarrow> bool" where
  "readable_policy d = is_dict (jor (jget d ''policy'') (JDict []))"

lemma evaluate_entry_total: "readable_policy d \<Longrightarrow> \<exists>e. evaluate_entry g rc d = Inr e \<and> readable_policy e"
  by (fastforce simp: evaluate_entry_def Let_def readable_policy_def jor_def split: prod.split)

lemma evaluate_entries_total:
  "list_all readable_policy ds \<Longrightarrow> \<exists>es. evaluate_entries g rc ds = Inr es \<and> list_all readable_policy es"
proof (induction ds)
  case (Cons d ds)
  then obtain e es where "evaluate_entry g rc d = Inr e" "readable_policy e"
      "evaluate_entries g rc ds = Inr es" "list_all readable_policy es"
    using evaluate_entry_total[of d g rc] by auto
  then show ?case by (simp add: evaluate_entries_def)
qed (simp add: evaluate_entries_def)

lemma coverage_counts_total: "list_all readable_policy ds \<Longrightarrow> \<exists>r. coverage_counts g rc caps tags ds = Inr r"
  by (induction ds arbitrary: caps tags) (simp_all add: readable_policy_def Let_def)

lemma filterR_total: "(\<And>x. \<exists>b. f x = Inr b) \<Longrightarrow> \<exists>ys. filterR f xs = Inr ys"
proof -
  assume f: "\<And>x. \<exists>b. f x = Inr b"
  have "\<exists>bs. mapR f xs = Inr bs"
  proof (induction xs)
    case (Cons x xs)
    then show ?case using f[of x] by auto
  qed simp
  then show ?thesis by (auto simp: filterR_def)
qed

lemma list_agents_total:
  assumes "list_all readable_policy (fetch_all kv u c)"
  shows "\<exists>es. list_agents g kv u None None None [] c = Inr es"
proof -
  define rc where "rc = load_registry_policy_config g"
  obtain es where es: "evaluate_entries g rc (fetch_all kv u c) = Inr es" "list_all readable_policy es"
    using evaluate_entries_total[OF assms] by blast
  then obtain caps tags where "coverage_counts g rc [] [] es = Inr (caps, tags)"
    using coverage_counts_total by fastforce
  with es have "\<exists>ps. apply_policies g True (Some (fetch_all kv u c)) (fetch_all kv u c) = Inr ps"
    by (simp add: apply_policies_def apply_registry_policies_def rc_def Let_def)
  moreover have "\<exists>ys. filterR (agent_matches g rc None None None []) xs = Inr ys" for xs
    by (rule filterR_total) (auto simp: agent_matches_def given_def)
  ultimately show ?thesis
    by (fastforce simp: list_agents_def rc_def Let_def)
qed

subsection \<open>A heartbeat\<close>

lemma jget_delete: "jget (AList.delete k d) k' = (if k' = k then JNull else jget d k')"
  by (simp add: jget_def dict_get_def delete_conv')

lemma merge_metadata_jget: "merge_metadata md d = Inr d' \<Longrightarrow> k \<noteq> ''metadata'' \<Longrightarrow> jget d' k = jget d k"
  by (auto simp: merge_metadata_def Let_def split: if_splits)

lemma heartbeat_doc:
  assumes "heartbeat g kv dttl u a status ttl md c = Inr (d, c')" and "0 < effective_ttl dttl ttl"
  shows "jget d ''last_heartbeat'' = JStr (e_iso g (e_now g))"
    and "jget d ''expires_at'' = JStr (e_iso g (e_now g + of_int (effective_ttl dttl ttl)))"
    and "\<exists>raw. kv_get kv c (registry_key u a) = Some raw \<and> jget d ''policy'' = jget raw ''policy''"
    and "\<exists>ex. c' = kv_upsert kv (registry_key u a) d ex c"
  using assms
  by (auto simp: heartbeat_def get_raw_agent_def Let_def bindR_iffs registry_expiry_def merge_metadata_jget
      split: option.splits if_splits)

lemma fetch_all_jget_policy:
  assumes "kv_collection kv" and "x \<in> set (fetch_all kv u c)"
  shows "\<exists>k y. kv_get kv c k = Some y \<and> jget x ''policy'' = jget y ''policy''"
proof -
  obtain k y where "(k, y) \<in> set (kv_rows kv c (registry_key u [] @ ''%'') None None)"
    and "jget x ''policy'' = jget y ''policy''"
    using assms(2) by (auto simp: fetch_all_def Let_def jget_delete split: if_splits)
  then show ?thesis using kv_collection.rows_sub[OF assms(1)] by blast
qed

lemma fetch_all_mem:
  assumes "kv_collection kv" and "kv_get kv c (registry_key u a) = Some d" and "CHR ''%'' \<notin> set u"
    and "map_of d ''id'' = None" and "map_of d ''agent_id'' \<noteq> None"
  shows "d \<in> set (fetch_all kv u c)"
proof -
  have "like (registry_key u [] @ ''%'') (registry_key u a)"
    using like_prefix_self[of "registry_key u []" a] assms(3) by (simp add: registry_key_def)
  then have m: "(registry_key u a, d) \<in> set (kv_rows kv c (registry_key u [] @ ''%'') None None)"
    using assms(1,2) by (simp add: kv_collection.rows_set)
  have "AList.delete ''id'' d = d"
    using assms(4) by (simp add: delete_id map_of_eq_None_iff)
  with assms(5) show ?thesis
    unfolding fetch_all_def Let_def set_map by (intro image_eqI[OF _ m]) auto
qed
lemma heartbeat_live_iff:
  assumes "heartbeat g kv dttl u a status ttl md c = Inr (d, c')" and "0 < effective_ttl dttl ttl"
    and "g_parse g (e_iso g (e_now g)) = Some (e_now g)"
    and "g_parse g (e_iso g (e_now g + of_int (effective_ttl dttl ttl))) = Some (e_now g + of_int (effective_ttl dttl ttl))"
    and "0 < stale_limit rc"
  shows "agent_live (g\<lparr>e_now := t\<rparr>) rc d \<longleftrightarrow> t < e_now g + of_int (min (stale_limit rc) (effective_ttl dttl ttl))"
  using heartbeat_doc[OF assms(1,2)] assms(3-5)
  by (auto simp: agent_live_def last_seen_def parse_dt_def min_def not_le intro: less_le_trans)

lemma config_time: "load_registry_policy_config (g\<lparr>e_now := t\<rparr>) = load_registry_policy_config g"
proof -
  have "env_bool (g\<lparr>e_now := t\<rparr>) n b = env_bool g n b" "env_int (g\<lparr>e_now := t\<rparr>) n i = env_int g n i"
    "env_float (g\<lparr>e_now := t\<rparr>) n r = env_float g n r" "env_csv (g\<lparr>e_now := t\<rparr>) n s = env_csv g n s" for n b i r s
    by (simp_all add: env_bool_def env_int_def env_float_def env_csv_def split: option.split)
  then show ?thesis by (simp add: load_registry_policy_config_def)
qed

lemma live_body: "body d = body d' \<Longrightarrow> agent_live g rc d = agent_live g rc d'"
proof -
  assume "body d = body d'"
  then have "jget (body d) k = jget (body d') k" for k by simp
  then have "k \<noteq> ''policy'' \<Longrightarrow> jget d k = jget d' k" for k
    by (metis jget_delete)
  then show ?thesis by (simp add: agent_live_def last_seen_def split: option.split)
qed

text \<open>A heartbeat keeps an agent listed: with the policies on and the documents readable, listing the
  agents of the user at any time \<open>t\<close> after a heartbeat returns, and the list has the document the heartbeat
  wrote (up to the computed policy) exactly while \<open>t\<close> is before the heartbeat plus the shorter of the stale
  limit and the time to live.\<close>

theorem heartbeat_keeps_listed:
  assumes kv: "kv_collection kv"
    and hb: "heartbeat g kv dttl u a status ttl md c = Inr (d, c')" and ttl: "0 < effective_ttl dttl ttl"
    and "g_parse g (e_iso g (e_now g)) = Some (e_now g)"
    and "g_parse g (e_iso g (e_now g + of_int (effective_ttl dttl ttl))) = Some (e_now g + of_int (effective_ttl dttl ttl))"
    and "rc = load_registry_policy_config g" and "rc_enable rc" and "rc_filter_stale rc" and "0 < stale_limit rc"
    and u: "CHR ''%'' \<notin> set u" and id: "map_of d ''id'' = None" "map_of d ''agent_id'' \<noteq> None"
    and pol: "\<And>k x. kv_get kv c k = Some x \<Longrightarrow> readable_policy x"
  shows "\<exists>es. list_agents (g\<lparr>e_now := t\<rparr>) kv u None None None [] c' = Inr es \<and>
    ((\<exists>e\<in>set es. AList.delete ''policy'' e = AList.delete ''policy'' d) \<longleftrightarrow>
      t < e_now g + of_int (min (stale_limit rc) (effective_ttl dttl ttl)))"
proof -
  let ?g = "g\<lparr>e_now := t\<rparr>"
  have rc: "rc = load_registry_policy_config ?g" using assms(6) by (simp add: config_time)
  have get: "kv_get kv c' k = (if k = registry_key u a then Some d else kv_get kv c k)" for k
    using heartbeat_doc(4)[OF hb ttl] kv_collection.get_upsert[OF kv] by fastforce
  have "readable_policy x" if "kv_get kv c' k = Some x" for k x
    using that heartbeat_doc(3)[OF hb ttl] pol by (fastforce simp: get readable_policy_def split: if_splits)
  then have "list_all readable_policy (fetch_all kv u c')"
    using fetch_all_jget_policy[OF kv, of _ u c'] by (fastforce simp: list_all_iff readable_policy_def)
  then obtain es where es: "list_agents ?g kv u None None None [] c' = Inr es"
    using list_agents_total[of kv u c' ?g] by auto
  have bodies: "(\<lambda>d. body d) ` set es = (\<lambda>d. body d) ` {x \<in> set (fetch_all kv u c'). agent_live ?g rc x}"
    using listed_bodies[OF es rc assms(7,8)] by (metis set_filter set_map)
  have "d \<in> set (fetch_all kv u c')" using fetch_all_mem[OF kv _ u id, of c' a] get by simp
  then have "(\<exists>e\<in>set es. body e = body d) \<longleftrightarrow> agent_live ?g rc d"
    using bodies live_body[of _ d ?g rc] by (smt (verit) image_iff mem_Collect_eq)
  then show ?thesis
    using es heartbeat_live_iff[OF hb ttl assms(4,5,9)] by auto
qed

definition beat_env :: registry_env where
  "beat_env = \<lparr>e_now = 0, e_iso = (\<lambda>t. if t = 0 then ''a'' else ''b''), e_uuid = ''id-1'', e_timestamp = (\<lambda>j. 0),
     g_getenv = (\<lambda>v. None), g_float = (\<lambda>s. None), g_parse = (\<lambda>s. if s = ''a'' then Some 0 else Some 120),
     g_dump = (\<lambda>t. ''a''), g_repr = (\<lambda>j. [])\<rparr>"

definition beat_doc :: doc where
  "beat_doc = [(''agent_id'', JStr ''a1''), (''last_heartbeat'', JStr ''a''), (''expires_at'', JStr ''b'')]"

theorem heartbeat_keeps_listed_witness:
  "\<exists>es. list_agents (beat_env\<lparr>e_now := 119\<rparr>) mem_kv ''ann'' None None None []
        [(''agent_registry::ann::a1'', beat_doc)] = Inr es \<and>
     (\<exists>e\<in>set es. AList.delete ''policy'' e = AList.delete ''policy'' beat_doc)"
proof -
  have h: "heartbeat beat_env mem_kv 300 ''ann'' ''a1'' None (Some 120) []
      [(''agent_registry::ann::a1'', [(''agent_id'', JStr ''a1'')])] =
      Inr (beat_doc, [(''agent_registry::ann::a1'', beat_doc)])"
    by (simp add: heartbeat_def get_raw_agent_def mem_kv_def registry_key_def merge_metadata_def registry_expiry_def
        effective_ttl_def beat_env_def beat_doc_def Let_def)
  have rc: "rc_enable (load_registry_policy_config beat_env)" "rc_filter_stale (load_registry_policy_config beat_env)"
      "stale_limit (load_registry_policy_config beat_env) = 300"
    by (simp_all add: load_registry_policy_config_def beat_env_def env_bool_def env_int_def stale_limit_def Let_def)
  have env: "0 < effective_ttl 300 (Some 120)" "g_parse beat_env (e_iso beat_env (e_now beat_env)) = Some (e_now beat_env)"
      "g_parse beat_env (e_iso beat_env (e_now beat_env + of_int (effective_ttl 300 (Some 120)))) =
        Some (e_now beat_env + of_int (effective_ttl 300 (Some 120)))"
    by (simp_all add: effective_ttl_def beat_env_def)
  have pol: "readable_policy x"
    if "kv_get mem_kv [(''agent_registry::ann::a1'', [(''agent_id'', JStr ''a1'')])] k = Some x" for k x
    using that by (auto simp: mem_kv_def readable_policy_def jor_def split: if_splits)
  have t: "119 < e_now beat_env + of_int (min (stale_limit (load_registry_policy_config beat_env)) (effective_ttl 300 (Some 120)))"
    by (simp add: rc(3) effective_ttl_def) (simp add: beat_env_def)
  have side: "0 < stale_limit (load_registry_policy_config beat_env)" "CHR ''%'' \<notin> set ''ann''"
      "map_of beat_doc ''id'' = None" "map_of beat_doc ''agent_id'' \<noteq> None"
    by (simp_all add: beat_doc_def rc(3))
  show ?thesis
    using heartbeat_keeps_listed[OF mem.kv_collection_axioms h env refl rc(1,2) side, where t = 119] pol t by blast
qed

end
