(* ===== verification/Client_Properties.thy ===== *)
theory Client_Properties
  imports Registry_Client Registry_Properties
begin

section \<open>Properties of the registry client\<close>

text \<open>
  The life of a client is a list of \<open>client_event\<close>s. Its counters do not depend on what the registry answers; the
  status it reports is a function of the outcomes so far. With the end points as the server, what the registry holds of
  the agent is what the client reported last.
\<close>

datatype client_event = Started task_note | Finished task_note "bool option"

fun client_step :: "'s server \<Rightarrow> client_config \<Rightarrow> client_event \<Rightarrow> client_state \<times> 's \<Rightarrow> client_state \<times> 's" where
  "client_step sv cf (Started nt) (cl, s) = mark_task_started sv cf nt cl s"
| "client_step sv cf (Finished nt ok) (cl, s) = mark_task_finished sv cf nt ok cl s"

definition client_after :: "'s server \<Rightarrow> client_config \<Rightarrow> client_event list \<Rightarrow> 's \<Rightarrow> client_state" where
  "client_after sv cf es s = fst (fold (client_step sv cf) es (new_client, s))"

fun outcome_of :: "client_event \<Rightarrow> bool list" where
  "outcome_of (Finished nt (Some ok)) = [ok]"
| "outcome_of _ = []"

definition failing_streak :: "client_event list \<Rightarrow> nat" where
  "failing_streak es = length (takeWhile Not (rev (concat (map outcome_of es))))"

fun change :: "client_event \<Rightarrow> int" where
  "change (Started nt) = 1"
| "change (Finished nt ok) = -1"

lemma heartbeat_counters:
  assumes "client_heartbeat sv cf status md ttl cl s = (ok, cl', s')"
  shows "cl_busy cl' = cl_busy cl" and "cl_failures cl' = cl_failures cl"
    and "cl_status cl' = (case status of None \<Rightarrow> cl_status cl | Some x \<Rightarrow> x)"
  using assms by (auto simp: client_heartbeat_def client_register_def Let_def split: prod.splits option.splits if_splits)

lemma heartbeat_state:
  "cl_busy (fst (snd (client_heartbeat sv cf status md ttl cl s))) = cl_busy cl"
  "cl_failures (fst (snd (client_heartbeat sv cf status md ttl cl s))) = cl_failures cl"
  "cl_status (fst (snd (client_heartbeat sv cf (Some x) md ttl cl s))) = x"
  using heartbeat_counters[of sv cf status md ttl cl s] heartbeat_counters(3)[of sv cf "Some x" md ttl cl s]
  by (metis prod.collapse, metis prod.collapse, metis option.simps(5) prod.collapse)

definition busy_after :: "int \<Rightarrow> client_event \<Rightarrow> int" where
  "busy_after n e = (case e of Started nt \<Rightarrow> n + 1 | Finished nt ok \<Rightarrow> max 0 (n - 1))"

definition failures_after :: "int \<Rightarrow> client_event \<Rightarrow> int" where
  "failures_after n e = (case outcome_of e of [] \<Rightarrow> n | ok # _ \<Rightarrow> if ok then 0 else n + 1)"

lemma step_counters:
  "cl_busy (fst (client_step sv cf e (cl, s))) = busy_after (cl_busy cl) e"
  "cl_failures (fst (client_step sv cf e (cl, s))) = failures_after (cl_failures cl) e"
  "cl_status (fst (client_step sv cf e (cl, s))) =
     (if max 1 (ca_threshold cf) \<le> failures_after (cl_failures cl) e then ''unhealthy''
      else case e of Started nt \<Rightarrow> ''busy'' | Finished nt ok \<Rightarrow> if busy_after (cl_busy cl) e = 0 then ''idle'' else ''busy'')"
  by (cases e; auto simp: mark_task_started_def mark_task_finished_def Let_def heartbeat_state busy_after_def failures_after_def
      split: option.splits bool.splits)+

lemma fold_counters_both:
  "cl_busy (fst (fold (client_step sv cf) es (cl, s))) = fold (\<lambda>e n. busy_after n e) es (cl_busy cl) \<and>
   cl_failures (fst (fold (client_step sv cf) es (cl, s))) = fold (\<lambda>e n. failures_after n e) es (cl_failures cl)"
proof (induction es arbitrary: cl s)
  case (Cons e es)
  obtain cl1 s1 where c: "client_step sv cf e (cl, s) = (cl1, s1)" by fastforce
  show ?case using Cons.IH[of cl1 s1] step_counters(1,2)[of sv cf e cl s] by (simp add: c)
qed simp

lemmas fold_counters = conjunct1[OF fold_counters_both] conjunct2[OF fold_counters_both]

lemma failures_streak: "fold (\<lambda>e n. failures_after n e) es 0 = int (failing_streak es)"
proof (induction es rule: rev_induct)
  case (snoc e es)
  have "outcome_of e = [] \<or> outcome_of e = [True] \<or> outcome_of e = [False]"
    by (cases e) (auto, metis (full_types) not_None_eq outcome_of.simps(1,3))
  then show ?case using snoc by (auto simp: failures_after_def failing_streak_def)
qed (simp add: failing_streak_def)

lemma busy_balance:
  assumes "\<And>n. n \<le> length es \<Longrightarrow> 0 \<le> (\<Sum>e\<leftarrow>take n es. change e)"
  shows "fold (\<lambda>e n. busy_after n e) es 0 = (\<Sum>e\<leftarrow>es. change e)"
  using assms
proof (induction es rule: rev_induct)
  case (snoc e es)
  have IH: "fold (\<lambda>e n. busy_after n e) es 0 = (\<Sum>e\<leftarrow>es. change e)"
  proof (rule snoc.IH)
    fix n assume n: "n \<le> length es"
    then have "n \<le> length (es @ [e])" by simp
    from snoc.prems[OF this] n show "0 \<le> (\<Sum>e\<leftarrow>take n es. change e)" by simp
  qed
  moreover have "0 \<le> (\<Sum>e\<leftarrow>es. change e) + change e" using snoc.prems[of "Suc (length es)"] by simp
  ultimately show ?case by (cases e) (simp_all add: busy_after_def)
qed simp

lemma client_reports:
  assumes "\<And>n. n \<le> length (es @ [e]) \<Longrightarrow> 0 \<le> (\<Sum>e\<leftarrow>take n (es @ [e]). change e)"
  shows "cl_status (client_after sv cf (es @ [e]) s) =
     (if max 1 (ca_threshold cf) \<le> int (failing_streak (es @ [e])) then ''unhealthy''
      else case e of Started nt \<Rightarrow> ''busy'' | Finished nt ok \<Rightarrow> if (\<Sum>e\<leftarrow>es @ [e]. change e) = 0 then ''idle'' else ''busy'')"
    and "cl_busy (client_after sv cf (es @ [e]) s) = (\<Sum>e\<leftarrow>es @ [e]. change e)"
proof -
  obtain cl s1 where c: "fold (client_step sv cf) es (new_client, s) = (cl, s1)" by fastforce
  have "cl_busy new_client = 0" "cl_failures new_client = 0" by (simp_all add: new_client_def)
  note f = fold_counters[of sv cf es new_client s, unfolded c this fst_conv] fold_counters[of sv cf "es @ [e]" new_client s, unfolded this]
  have fail: "failures_after (cl_failures cl) e = int (failing_streak (es @ [e]))"
    using failures_streak[of "es @ [e]"] by (simp add: f(2))
  have busy: "busy_after (cl_busy cl) e = (\<Sum>e\<leftarrow>es @ [e]. change e)"
    using busy_balance[OF assms] by (simp add: f(1))
  show "cl_status (client_after sv cf (es @ [e]) s) =
     (if max 1 (ca_threshold cf) \<le> int (failing_streak (es @ [e])) then ''unhealthy''
      else case e of Started nt \<Rightarrow> ''busy'' | Finished nt ok \<Rightarrow> if (\<Sum>e\<leftarrow>es @ [e]. change e) = 0 then ''idle'' else ''busy'')"
    using step_counters(3)[of sv cf e cl s1] by (simp only: client_after_def fold_append fold_simps comp_def c fail busy)
  show "cl_busy (client_after sv cf (es @ [e]) s) = (\<Sum>e\<leftarrow>es @ [e]. change e)"
    using step_counters(1)[of sv cf e cl s1] by (simp only: client_after_def fold_append fold_simps comp_def c busy)
qed

text \<open>The health an agent reports (\<^verbatim>\<open>AgentRegistryClient\<close>), whatever the registry answers: after any sequence of
  started and finished tasks it is unhealthy exactly when the last outcomes, as many as the threshold, were all failures; else
  it is busy after a start, and after a finish idle exactly when every started task has finished, provided no task finishes
  before it starts. Finishes without an outcome change neither count of outcomes.\<close>

theorem client_health:
  assumes "\<And>n. n \<le> length (es @ [e]) \<Longrightarrow> 0 \<le> (\<Sum>e\<leftarrow>take n (es @ [e]). change e)"
  shows "cl_status (client_after sv cf (es @ [e]) s) =
       (if max 1 (ca_threshold cf) \<le> int (failing_streak (es @ [e])) then ''unhealthy''
        else case e of Started nt \<Rightarrow> ''busy'' | Finished nt ok \<Rightarrow> if (\<Sum>e\<leftarrow>es @ [e]. change e) = 0 then ''idle'' else ''busy'') \<and>
     cl_busy (client_after sv cf (es @ [e]) s) = (\<Sum>e\<leftarrow>es @ [e]. change e)"
  by (intro conjI) (rule client_reports[OF assms]; assumption)+

definition quiet_server :: "unit server" where
  "quiet_server = \<lparr>sv_register = (\<lambda>_ _ _ s. (None, s)), sv_heartbeat = (\<lambda>_ _ _ s. (None, s)), sv_delete = (\<lambda>_ _ s. (None, s))\<rparr>"

definition demo_client :: client_config where
  "demo_client = \<lparr>ca_username = ''u'', ca_agent_id = ''a'', ca_service = ''svc'', ca_description = None, ca_capabilities = [], ca_tags = [],
     ca_host = ''h'', ca_pid = 1, ca_ttl = 30, ca_threshold = 2\<rparr>"

definition demo_note :: task_note where
  "demo_note = \<lparr>nt_task = ''t'', nt_run = None, nt_service = None\<rparr>"

theorem client_health_witness:
  "cl_status (client_after quiet_server demo_client
     ([Started demo_note, Finished demo_note (Some False), Started demo_note] @ [Finished demo_note (Some False)]) ()) = ''unhealthy''"
proof -
  let ?es = "[Started demo_note, Finished demo_note (Some False), Started demo_note]" and ?e = "Finished demo_note (Some False)"
  have b: "0 \<le> (\<Sum>e\<leftarrow>take n (?es @ [?e]). change e)" if "n \<le> length (?es @ [?e])" for n
  proof -
    have "n \<in> {0, 1, 2, 3, 4}" using that by auto
    then show ?thesis by (auto simp: numeral_eq_Suc)
  qed
  have "failing_streak (?es @ [?e]) = 2" "ca_threshold demo_client = 2" by (simp_all add: failing_streak_def demo_client_def)
  then show ?thesis using client_health[OF b, where cf = demo_client and sv = quiet_server and s = "()", THEN conjunct1] by simp
qed

subsection \<open>What the registry holds\<close>

definition mergeable :: "'c kv_ops \<Rightarrow> string \<Rightarrow> string \<Rightarrow> 'c \<Rightarrow> bool" where
  "mergeable kv u a c \<longleftrightarrow> (\<forall>d. kv_get kv c (registry_key u a) = Some d \<longrightarrow> is_dict (jor (jget d ''metadata'') (JDict [])))"

definition shows_status :: "'c kv_ops \<Rightarrow> string \<Rightarrow> string \<Rightarrow> 'c \<Rightarrow> string \<Rightarrow> int \<Rightarrow> bool" where
  "shows_status kv u a c status busy \<longleftrightarrow> (\<exists>d. kv_get kv c (registry_key u a) = Some d \<and> jget d ''status'' = JStr status \<and>
     jget (jdict (jget d ''metadata'')) ''busy_count'' = JInt busy)"

definition beat_payload :: "string \<Rightarrow> doc \<Rightarrow> int \<Rightarrow> doc" where
  "beat_payload status md ttl = [(''status'', JStr status), (''ttl_seconds'', JInt ttl), (''metadata'', JDict md)]"

lemma api_heartbeat_fields:
  "status \<in> set agent_statuses \<Longrightarrow> 0 \<le> ttl \<Longrightarrow> api_heartbeat g kv dttl u a (beat_payload status md ttl) (Some c) =
     (case heartbeat g kv dttl u a (Some status) (Some ttl) md c of
        Inl AgentNotFound \<Rightarrow> (Some 404, Some c) | Inl _ \<Rightarrow> (Some 500, Some c) | Inr (_, c') \<Rightarrow> (Some 200, Some c'))"
  by (simp add: api_heartbeat_def beat_payload_def field_def as_opt_def)

lemma fold_busy: "jget (fold (\<lambda>(k, v). dict_set k v) ((''busy_count'', v) # rest) d) ''busy_count'' =
    (case map_of (rev rest) ''busy_count'' of None \<Rightarrow> v | Some w \<Rightarrow> w)"
proof -
  have "map_of (fold (\<lambda>(k, v). dict_set k v) xs d) k = (case map_of (rev xs) k of None \<Rightarrow> map_of d k | Some w \<Rightarrow> Some w)"
    for xs :: doc and k and d :: doc
    by (induction xs arbitrary: d) (auto simp: update_conv' map_add_def split: option.splits prod.splits)
  then show ?thesis by (simp add: jget_def dict_get_def update_conv' split: option.splits)
qed

context kv_collection
begin

lemma heartbeat_known:
  assumes "kv_get kv c (registry_key u a) = Some raw" and "raw \<noteq> []" and "is_dict (jor (jget raw ''metadata'') (JDict []))"
    and "map_of (rev rest) ''busy_count'' = None"
  shows "\<exists>d c'. heartbeat g kv dttl u a (Some status) (Some ttl) ((''busy_count'', JInt n) # rest) c = Inr (d, c') \<and>
      shows_status kv u a c' status n"
proof -
  let ?d = "dict_set ''status'' (JStr status) (dict_set ''last_heartbeat'' (JStr (e_iso g (e_now g))) raw)"
  obtain m where m: "jor (jget raw ''metadata'') (JDict []) = JDict m" using assms(3) by (cases "jor (jget raw ''metadata'') (JDict [])") auto
  then have m': "jor (jget ?d ''metadata'') (JDict []) = JDict m" by (simp add: jget_def)
  let ?m = "fold (\<lambda>(k, v). dict_set k v) ((''busy_count'', JInt n) # rest) m"
  have mm: "merge_metadata ((''busy_count'', JInt n) # rest) ?d = Inr (dict_set ''metadata'' (JDict ?m) ?d)"
    unfolding merge_metadata_def m' by simp
  have b: "jget ?m ''busy_count'' = JInt n" unfolding fold_busy assms(4) by simp
  have s: "shows_status kv u a (kv_upsert kv (registry_key u a) d ex c) status n"
    if "jget d ''status'' = JStr status" and "jget d ''metadata'' = JDict ?m" for d ex
    using that b by (simp add: shows_status_def get_upsert)
  show ?thesis
    using assms(1,2) mm by (auto simp: heartbeat_def get_raw_agent_def Let_def jget_def dict_get_def update_conv' delete_conv' registry_expiry_def
        effective_ttl_def intro!: s[unfolded jget_def dict_get_def] split: if_splits)
qed

lemma unknown_agent:
  "kv_get kv c (registry_key u a) = None \<or> kv_get kv c (registry_key u a) = Some [] \<Longrightarrow>
     heartbeat g kv dttl u a status ttl md c = Inl AgentNotFound"
  by (auto simp: heartbeat_def get_raw_agent_def)

lemma get_agent_stored: "kv_get kv c (registry_key u a) = Some d \<Longrightarrow> get_agent g kv u a c \<noteq> None"
  by (simp add: get_agent_def get_raw_agent_def Let_def split: sum.splits)

lemma register_stores:
  assumes "0 \<le> ca_ttl cf"
  shows "\<exists>c' d. client_register (registry_api g kv dttl) cf cl (Some c) = (True, cl\<lparr>cl_registered := True\<rparr>, Some c') \<and>
    kv_get kv c' (registry_key (ca_username cf) (ca_agent_id cf)) = Some d \<and> d \<noteq> [] \<and> is_dict (jor (jget d ''metadata'') (JDict []))"
proof -
  let ?c = "snd (upsert_agent g kv dttl (ca_username cf) (client_entry cf cl) (Some (ca_ttl cf)) c)"
  have a: "jstr (jget (client_entry cf cl) ''agent_id'') = ca_agent_id cf" by (simp add: client_entry_def)
  have md: "jget (client_entry cf cl) ''metadata'' = JDict [(''hostname'', JStr (ca_host cf)), (''pid'', JInt (ca_pid cf))]"
    by (simp add: client_entry_def)
  obtain d where d: "kv_get kv ?c (registry_key (ca_username cf) (ca_agent_id cf)) = Some d"
    "jget d ''metadata'' = jget (client_entry cf cl) ''metadata''"
    by (cases "registry_expiry dttl (Some (ca_ttl cf))") (simp_all add: upsert_agent_def Let_def a[unfolded jget_def] get_upsert jget_def)
  have "is_dict (jor (jget d ''metadata'') (JDict []))" and "d \<noteq> []" using d(2) md by (auto simp: jor_def jget_def)
  moreover have "client_register (registry_api g kv dttl) cf cl (Some c) = (True, cl\<lparr>cl_registered := True\<rparr>, Some ?c)"
    using assms get_agent_stored[OF d(1), of g] by (simp add: client_register_def registry_api_def api_register_def Let_def a)
  ultimately show ?thesis using d(1) by blast
qed

lemma client_heartbeat_shows:
  assumes "mergeable kv (ca_username cf) (ca_agent_id cf) c" and "0 \<le> ca_ttl cf" and "status \<in> set agent_statuses"
    and "map_of (rev rest) ''busy_count'' = None"
  shows "\<exists>cl' c'. client_heartbeat (registry_api g kv dttl) cf (Some status) ((''busy_count'', JInt n) # rest) None cl (Some c) = (True, cl', Some c') \<and>
    cl_registered cl' \<and> shows_status kv (ca_username cf) (ca_agent_id cf) c' status n"
proof -
  let ?u = "ca_username cf" and ?a = "ca_agent_id cf" and ?md = "(''busy_count'', JInt n) # rest"
  let ?post = "api_heartbeat g kv dttl ?u ?a (beat_payload status ?md (ca_ttl cf))"
  have known: "\<exists>c'. ?post (Some c1) = (Some 200, Some c') \<and> shows_status kv ?u ?a c' status n"
    if "kv_get kv c1 (registry_key ?u ?a) = Some raw" "raw \<noteq> []" "is_dict (jor (jget raw ''metadata'') (JDict []))" for c1 raw
    using heartbeat_known[OF that assms(4), of g dttl status "ca_ttl cf" n] by (auto simp: api_heartbeat_fields[OF assms(3,2)])
  have beat: "client_heartbeat (registry_api g kv dttl) cf (Some status) ?md None cl (Some c) =
     (let cl1 = cl\<lparr>cl_status := status\<rparr>;
          settle = (\<lambda>r cl s. case r of None \<Rightarrow> (False, cl, s) | Some code \<Rightarrow> (code < 400, cl\<lparr>cl_registered := code < 400\<rparr>, s))
      in case ?post (Some c) of
           (Some code, s1) \<Rightarrow>
             if code = 404 then
               (let (ok, cl2, s2) = client_register (registry_api g kv dttl) cf (cl1\<lparr>cl_registered := False\<rparr>) s1
                in if ok then (let (r, s3) = ?post s2 in settle r cl2 s3) else settle (Some 404) cl2 s2)
             else settle (Some code) cl1 s1
         | (None, s1) \<Rightarrow> (False, cl1, s1))"
  proof -
    have sv: "sv_heartbeat (registry_api g kv dttl) = api_heartbeat g kv dttl" by (simp add: registry_api_def)
    have up: "cl_status (cl\<lparr>cl_status := status\<rparr>) = status" by simp
    show ?thesis unfolding client_heartbeat_def beat_payload_def Let_def sv option.case by (simp only: list.simps if_False up)
  qed
  show ?thesis
  proof (cases "kv_get kv c (registry_key ?u ?a) = None \<or> kv_get kv c (registry_key ?u ?a) = Some []")
    case True
    have p: "?post (Some c) = (Some 404, Some c)" by (simp add: api_heartbeat_fields[OF assms(3,2)] unknown_agent[OF True])
    obtain c1 d where r: "client_register (registry_api g kv dttl) cf (cl\<lparr>cl_status := status, cl_registered := False\<rparr>) (Some c) =
        (True, cl\<lparr>cl_status := status, cl_registered := True\<rparr>, Some c1)"
      "kv_get kv c1 (registry_key ?u ?a) = Some d" "d \<noteq> []" "is_dict (jor (jget d ''metadata'') (JDict []))"
      using register_stores[OF assms(2), of g dttl "cl\<lparr>cl_status := status, cl_registered := False\<rparr>" c] by auto
    obtain c2 where "?post (Some c1) = (Some 200, Some c2)" "shows_status kv ?u ?a c2 status n" using known[OF r(2-4)] by blast
    then show ?thesis by (simp add: beat p r(1) Let_def)
  next
    case False
    then obtain raw where raw: "kv_get kv c (registry_key ?u ?a) = Some raw" "raw \<noteq> []" by auto
    then have "is_dict (jor (jget raw ''metadata'') (JDict []))" using assms(1) by (simp add: mergeable_def)
    from known[OF raw this] show ?thesis by (auto simp: beat Let_def)
  qed
qed

end

text \<open>C14. The registry follows the agents (\<^verbatim>\<open>AgentRegistryClient\<close> with the end points of \<^verbatim>\<open>agent_registry.py\<close> over
  the registry store): after every start and every finish of a task the registry has an entry of the agent with the status
  and the number of busy tasks the client has computed, also when the entry had expired or was never there, for then the
  client registers again; and the client knows that it is registered.\<close>

theorem registry_follows_client:
  assumes "kv_collection kv" and "mergeable kv (ca_username cf) (ca_agent_id cf) c" and "0 \<le> ca_ttl cf"
  shows "\<exists>cl' c'. client_step (registry_api g kv dttl) cf e (cl, Some c) = (cl', Some c') \<and> cl_registered cl' \<and>
    shows_status kv (ca_username cf) (ca_agent_id cf) c' (cl_status cl') (cl_busy cl')"
proof -
  note beat = kv_collection.client_heartbeat_shows[OF assms]
  have st: "cl_status cl' = x \<and> cl_busy cl' = cl_busy cl1"
    if "client_heartbeat sv cf (Some x) md None cl1 s = (ok, cl', s')" for sv x md cl1 s ok cl' s'
    using heartbeat_counters(1,3)[OF that] by simp
  show ?thesis
  proof (cases e)
    case (Started nt)
    let ?cl = "cl\<lparr>cl_busy := cl_busy cl + 1\<rparr>"
    let ?st = "if max 1 (ca_threshold cf) \<le> cl_failures cl then ''unhealthy'' else ''busy''"
    let ?rest = "(''failure_count'', JInt (cl_failures cl)) # note_doc nt"
    have r: "map_of (rev ?rest) ''busy_count'' = None" "?st \<in> set agent_statuses" by (simp_all add: note_doc_def agent_statuses_def)
    obtain cl' c' where b: "client_heartbeat (registry_api g kv dttl) cf (Some ?st) ((''busy_count'', JInt (cl_busy ?cl)) # ?rest) None ?cl (Some c) =
        (True, cl', Some c')" "cl_registered cl'" "shows_status kv (ca_username cf) (ca_agent_id cf) c' ?st (cl_busy ?cl)"
      using beat[OF r(2,1), of g dttl "cl_busy ?cl" ?cl] by blast
    have "client_step (registry_api g kv dttl) cf e (cl, Some c) = (cl', Some c')"
      using b(1) by (simp add: Started mark_task_started_def Let_def counters_def)
    then show ?thesis using b(2,3) unfolding conjunct1[OF st[OF b(1)], symmetric] conjunct2[OF st[OF b(1)], symmetric] by blast
  next
    case (Finished nt ok)
    let ?b = "busy_after (cl_busy cl) e" and ?f = "failures_after (cl_failures cl) e"
    let ?cl = "cl\<lparr>cl_busy := ?b, cl_failures := ?f\<rparr>"
    let ?st = "if max 1 (ca_threshold cf) \<le> ?f then ''unhealthy'' else if ?b = 0 then ''idle'' else ''busy''"
    let ?rest = "(''failure_count'', JInt ?f) # note_doc nt @ [(''last_task_success'', jopt JBool ok)]"
    have r: "map_of (rev ?rest) ''busy_count'' = None" "?st \<in> set agent_statuses" by (simp_all add: note_doc_def agent_statuses_def)
    obtain cl' c' where b: "client_heartbeat (registry_api g kv dttl) cf (Some ?st) ((''busy_count'', JInt ?b) # ?rest) None ?cl (Some c) =
        (True, cl', Some c')" "cl_registered cl'" "shows_status kv (ca_username cf) (ca_agent_id cf) c' ?st ?b"
      using beat[OF r(2,1), of g dttl ?b ?cl] by blast
    have sel: "cl_busy ?cl = ?b" "cl_failures ?cl = ?f" by simp_all
    have "client_step (registry_api g kv dttl) cf e (cl, Some c) =
        snd (client_heartbeat (registry_api g kv dttl) cf (Some ?st) ((''busy_count'', JInt ?b) # ?rest) None ?cl (Some c))"
    proof -
      have f: "(case ok of None \<Rightarrow> cl_failures cl | Some True \<Rightarrow> 0 | Some False \<Rightarrow> cl_failures cl + 1) = ?f"
        by (simp add: Finished failures_after_def split: option.split bool.split)
      have n: "max 0 (cl_busy cl - 1) = ?b" by (simp add: Finished busy_after_def)
      have c: "client_step sv cf e (cl, s) = mark_task_finished sv cf nt ok cl s" for sv :: "'a option server" and s by (simp add: Finished)
      show ?thesis unfolding c mark_task_finished_def Let_def counters_def f n sel by (simp only: append.simps)
    qed
    then have "client_step (registry_api g kv dttl) cf e (cl, Some c) = (cl', Some c')" unfolding b(1) by simp
    moreover have "shows_status kv (ca_username cf) (ca_agent_id cf) c' (cl_status cl') (cl_busy cl')"
      using b(3) by (simp only: conjunct1[OF st[OF b(1)]] conjunct2[OF st[OF b(1)]] sel)
    ultimately show ?thesis using b(2) by blast
  qed
qed

theorem registry_follows_client_witness:
  "\<exists>cl' c'. client_step (registry_api beat_env mem_kv 60) demo_client (Started demo_note) (new_client, Some []) = (cl', Some c') \<and>
    cl_registered cl' \<and> shows_status mem_kv ''u'' ''a'' c' (cl_status cl') (cl_busy cl')"
proof -
  have c: "ca_username demo_client = ''u''" "ca_agent_id demo_client = ''a''" "0 \<le> ca_ttl demo_client" by (simp_all add: demo_client_def)
  have "mergeable mem_kv ''u'' ''a'' []" by (simp add: mergeable_def mem_kv_def)
  from registry_follows_client[OF mem.kv_collection_axioms, where cf = demo_client, unfolded c(1,2), OF this c(3)] show ?thesis .
qed

end
