(* ===== verification/Strategist_Loop.thy ===== *)
theory Strategist_Loop
  imports Plan_Revision
begin

section \<open>The strategist loop\<close>

text \<open>
  \<^verbatim>\<open>agent_runtime/services/llm_strategist_loop.py\<close>: after a task has completed or failed, a language
  model (or a rule-based stub) proposes a delta of the plan; the candidate is validated, recorded, and
  applied at once or kept for a human decision while the run is paused. The module's dictionaries (the
  time of the last suggestion, the suggestion counts and the rejection streaks of the runs) are part of
  the state, as are the commands published. A call is one step; \<open>busy\<close> says whether the lock of the
  run is held by another call, which is suspended at an await. The configured stores and the bus are
  present. The task identifier of an event is a string.
\<close>

datatype strategist_error = RunMissing | DeltaShape | SuggestionInvalid

record strategist_env =
  se_ve :: validator_env
  se_it :: "string list \<Rightarrow> string list"
  se_enabled :: bool
  se_auto_apply :: bool
  se_require_human :: bool
  se_min_interval :: real
  se_max_suggestions :: int
  se_rejection_window :: int
  se_stub_mode :: bool
  se_provider :: bool
  se_connector :: "(string \<Rightarrow> doc \<Rightarrow> doc \<Rightarrow> doc \<Rightarrow> string option) option"
  se_monotonic :: real

record ('c, 'r) strategist_state =
  ss_store :: 'c
  ss_runs :: 'r
  ss_last :: "(string \<times> real) list"
  ss_counts :: "(string \<times> int) list"
  ss_streak :: "(string \<times> int) list"
  ss_commands :: "revise_command list"

abbreviation se_env :: "strategist_env \<Rightarrow> store_env" where
  "se_env se \<equiv> ve_store (se_ve se)"

abbreviation se_repr :: "strategist_env \<Rightarrow> json \<Rightarrow> string" where
  "se_repr se \<equiv> ve_repr (se_ve se)"

subsection \<open>Suggestions\<close>

record suggestion =
  sg_id :: string
  sg_plan_id :: string
  sg_username :: string
  sg_pipeline_id :: string
  sg_run_id :: "string option"
  sg_base_revision :: int
  sg_candidate_revision :: int
  sg_delta :: doc
  sg_graph_spec :: doc
  sg_status :: string
  sg_created_by :: "string option"
  sg_reason :: "string option"
  sg_validation :: "doc option"
  sg_created_at :: string

definition suggestion_doc :: "suggestion \<Rightarrow> doc" where
  "suggestion_doc s =
     [(''suggestion_id'', JStr (sg_id s)), (''plan_id'', JStr (sg_plan_id s)), (''username'', JStr (sg_username s)),
      (''pipeline_id'', JStr (sg_pipeline_id s)), (''pipeline_run_id'', jopt JStr (sg_run_id s)),
      (''base_revision'', JInt (sg_base_revision s)), (''candidate_revision'', JInt (sg_candidate_revision s)),
      (''delta'', JDict (sg_delta s)), (''graph_spec'', JDict (sg_graph_spec s)), (''status'', JStr (sg_status s)),
      (''created_by'', jopt JStr (sg_created_by s)), (''reason'', jopt JStr (sg_reason s)),
      (''validation'', jopt JDict (sg_validation s)), (''created_at'', JStr (sg_created_at s))]"

definition suggestion_of_doc :: "store_env \<Rightarrow> doc \<Rightarrow> suggestion option" where
  "suggestion_of_doc e d = do {
     sid \<leftarrow> field as_str (Some (e_uuid e)) d ''suggestion_id'';
     plan \<leftarrow> field as_str None d ''plan_id'';
     user \<leftarrow> field as_str None d ''username'';
     pid \<leftarrow> field as_str None d ''pipeline_id'';
     rid \<leftarrow> field (as_opt as_str) (Some None) d ''pipeline_run_id'';
     base \<leftarrow> field as_int (Some 1) d ''base_revision'';
     cand \<leftarrow> field as_int (Some 1) d ''candidate_revision'';
     delta \<leftarrow> field as_dict (Some []) d ''delta'';
     gs \<leftarrow> field as_dict (Some []) d ''graph_spec'';
     status \<leftarrow> field as_str (Some ''PENDING_REVIEW'') d ''status'';
     cb \<leftarrow> field (as_opt as_str) (Some None) d ''created_by'';
     reason \<leftarrow> field (as_opt as_str) (Some None) d ''reason'';
     val \<leftarrow> field (as_opt as_dict) (Some None) d ''validation'';
     crea \<leftarrow> field as_str (Some (now_iso e)) d ''created_at'';
     Some \<lparr>sg_id = sid, sg_plan_id = plan, sg_username = user, sg_pipeline_id = pid, sg_run_id = rid, sg_base_revision = base,
       sg_candidate_revision = cand, sg_delta = delta, sg_graph_spec = gs, sg_status = status, sg_created_by = cb,
       sg_reason = reason, sg_validation = val, sg_created_at = crea\<rparr> }"

definition save_suggestion :: "'c kv_ops \<Rightarrow> store_env \<Rightarrow> string \<Rightarrow> suggestion \<Rightarrow> 'c \<Rightarrow> 'c" where
  "save_suggestion kv e u s c = snd (save_plan_suggestion kv e u (suggestion_doc s) c)"

subsection \<open>Deltas of the model and of the stub\<close>

definition parse_delta :: "(string \<Rightarrow> json option) \<Rightarrow> string option \<Rightarrow> doc option" where
  "parse_delta loads text =
     (if text = None \<or> text = Some [] \<or> text = Some ''Error'' then None
      else case Option.bind (extract_json text) loads of Some (JDict d) \<Rightarrow> Some d | _ \<Rightarrow> None)"

definition delta_has_changes :: "doc \<Rightarrow> bool" where
  "delta_has_changes delta = list_ex (\<lambda>k. (is_dict (jget delta k) \<or> is_list (jget delta k)) \<and> truthy (jget delta k))
     [''task_overrides'', ''add_tasks'', ''remove_tasks'', ''add_edges'', ''remove_edges'']"

definition status_text :: "(json \<Rightarrow> string) \<Rightarrow> doc \<Rightarrow> string" where
  "status_text repr d = upper_str (py_str repr (dict_get d ''status'' (JStr [])))"

definition event_is_relevant :: "(json \<Rightarrow> string) \<Rightarrow> doc \<Rightarrow> bool" where
  "event_is_relevant repr event = (status_text repr event \<in> {''COMPLETED'', ''FAILED''})"

definition run_state_snapshot :: "doc \<Rightarrow> doc" where
  "run_state_snapshot run_doc =
     (case jor (jget run_doc ''tasks'') (JDict []) of
        JDict ts \<Rightarrow> [(''tasks'', JDict (map (\<lambda>(t, e). (t, JDict [(''status'', jget (jdict e) ''status'')]))
          (filter (\<lambda>(t, e). is_dict e) ts)))]
      | _ \<Rightarrow> [(''tasks'', JDict [])])"

definition quoted :: "string \<Rightarrow> string" where
  "quoted s = CHR 0x27 # s @ [CHR 0x27]"

definition tags_override :: "string list \<Rightarrow> json" where
  "tags_override tags = JDict [(''tags'', str_list tags)]"

definition entries_with :: "(json \<Rightarrow> string) \<Rightarrow> string \<Rightarrow> doc \<Rightarrow> string list" where
  "entries_with repr s run_state =
     map fst (filter (\<lambda>(t, e). is_dict e \<and> status_text repr (jdict e) = s) (jdict (jget run_state ''tasks'')))"

definition stub_generate_delta :: "(json \<Rightarrow> string) \<Rightarrow> doc \<Rightarrow> doc \<Rightarrow> doc \<Rightarrow> shape_error + doc option" where
  "stub_generate_delta repr graph run_state event =
     (let task = jget event ''task_id''; name = quoted (py_str repr task); status = status_text repr event
      in if status = ''FAILED'' \<and> truthy task then
           bindR (docs_of (jget graph ''edges'')) (\<lambda>es.
             let down = filter (\<lambda>e. hkey (edge_from e) = hkey task) es
             in if down \<noteq> [] then
                  Inr (Some [(''rationale'', JStr (''Task '' @ name @ '' failed; removing '' @ str_nat (length down) @
                      '' downstream edge(s) to unblock successors'')), (''remove_edges'', json_docs down)])
                else Inr (Some [(''rationale'', JStr (''Task '' @ name @ '' failed; tagging for retry'')),
                      (''task_overrides'', JDict [(jstr task, tags_override [''retry_candidate'', ''failed''])])]))
         else if status = ''COMPLETED'' \<and> truthy task then
           (let pending = entries_with repr ''PENDING'' run_state; running = entries_with repr ''RUNNING'' run_state
            in if 1 < length pending \<and> length running = 0 then
                 Inr (Some [(''rationale'', JStr (''Task '' @ name @ '' completed; '' @ str_nat (length pending) @
                     '' tasks pending, none running. Tagging for parallelism.'')),
                   (''task_overrides'', JDict (map (\<lambda>p. (p, tags_override [''parallel_candidate''])) (take 3 pending)))])
               else Inr None)
         else Inr None)"

definition build_delta :: "strategist_env \<Rightarrow> doc \<Rightarrow> doc \<Rightarrow> doc \<Rightarrow> string \<Rightarrow> shape_error + doc option" where
  "build_delta se graph run_state event req =
     (let stub = (if se_stub_mode se then stub_generate_delta (se_repr se) graph run_state event else Inr None)
      in if \<not> se_provider se then stub
         else case se_connector se of
                None \<Rightarrow> stub
              | Some conn \<Rightarrow>
                  (case parse_delta (ve_loads (se_ve se)) (conn req graph run_state event) of
                     None \<Rightarrow> stub
                   | Some d \<Rightarrow> Inr (Some d)))"

subsection \<open>Convergence and pausing\<close>

datatype skip_reason = MaxSuggestionsReached | ConsecutiveRejections

definition check_convergence :: "strategist_env \<Rightarrow> string \<Rightarrow> ('c, 'r) strategist_state \<Rightarrow> skip_reason option" where
  "check_convergence se rid st =
     (if dict_get (ss_counts st) rid 0 \<ge> se_max_suggestions se then Some MaxSuggestionsReached
      else if dict_get (ss_streak st) rid 0 \<ge> se_rejection_window se then Some ConsecutiveRejections
      else None)"

definition pause_doc :: "store_env \<Rightarrow> bool \<Rightarrow> string option \<Rightarrow> string option \<Rightarrow> doc \<Rightarrow> doc" where
  "pause_doc e paused reason sid d =
     dict_set (if paused then ''paused_at'' else ''resumed_at'') (JStr (now_iso e))
      (dict_set ''pause_context'' (JDict (if paused then [(''suggestion_id'', jopt JStr sid)] else []))
        (dict_set ''pause_reason'' (if paused then jopt JStr reason else JNull)
          (dict_set ''paused'' (JBool paused) d)))"

definition set_run_pause_state :: "('r, doc) doc_ops \<Rightarrow> store_env \<Rightarrow> string \<Rightarrow> string \<Rightarrow> string \<Rightarrow> bool \<Rightarrow> string option \<Rightarrow> string option
    \<Rightarrow> 'r \<Rightarrow> strategist_error + 'r" where
  "set_run_pause_state ops e u pid rid paused reason sid r =
     (case read_run ops u pid rid r of
        Inl _ \<Rightarrow> Inl RunMissing
      | Inr d \<Rightarrow>
          (case update_run ops u pid rid (pause_doc e paused reason sid d) r of Inl _ \<Rightarrow> Inl RunMissing | Inr r' \<Rightarrow> Inr r'))"
subsection \<open>handle\_task\_event\<close>

record proposal =
  pp_draft :: plan_draft
  pp_delta :: doc
  pp_graph :: doc
  pp_conforms :: bool
  pp_validation :: doc

text \<open>\<open>propose\<close> is the part up to the validation; it only reads.\<close>

definition propose :: "'c kv_ops \<Rightarrow> ('r, doc) doc_ops \<Rightarrow> strategist_env \<Rightarrow> doc \<Rightarrow> string \<Rightarrow> string \<Rightarrow> string \<Rightarrow> ('c, 'r) strategist_state
    \<Rightarrow> strategist_error + proposal option" where
  "propose kv ops se event u pid rid st =
     (if (case map_of (ss_last st) rid of None \<Rightarrow> False | Some t \<Rightarrow> se_monotonic se - t < se_min_interval se) then Inr None
      else case read_run ops u pid rid (ss_runs st) of
        Inl _ \<Rightarrow> Inl RunMissing
      | Inr run_doc \<Rightarrow>
          if truthy (jget run_doc ''paused'') then Inr None
          else if jget run_doc ''status'' \<notin> {JNull, JStr ''RUNNING''} then Inr None
          else if check_convergence se rid st \<noteq> None then Inr None
          else case load_plan_draft kv (se_env se) u (Some pid) (Some rid) None (ss_store st) of
                 Inl _ \<Rightarrow> Inr None
               | Inr draft \<Rightarrow>
                   (case build_delta se (pd_graph_spec draft) (run_state_snapshot run_doc) event
                           (pd_plan_id draft @ '':'' @ rid @ '':delta'') of
                      Inl _ \<Rightarrow> Inl DeltaShape
                    | Inr None \<Rightarrow> Inr None
                    | Inr (Some delta) \<Rightarrow>
                        if delta = [] \<or> \<not> delta_has_changes delta then Inr None
                        else case apply_delta (se_repr se) (pd_graph_spec draft) delta of
                               Inl _ \<Rightarrow> Inl DeltaShape
                             | Inr (graph, applied) \<Rightarrow>
                                 if applied = 0 then Inr None
                                 else case validate_candidate_graph (se_ve se) (se_it se) graph (pd_graph_spec draft) run_doc
                                             (pd_plan_id draft) (Some pid) u of
                                        Inl _ \<Rightarrow> Inl DeltaShape
                                      | Inr (ok, validation) \<Rightarrow>
                                          Inr (Some \<lparr>pp_draft = draft, pp_delta = delta, pp_graph = graph,
                                            pp_conforms = ok, pp_validation = validation\<rparr>)))"

definition loop_revision :: "store_env \<Rightarrow> string \<Rightarrow> suggestion \<Rightarrow> string \<Rightarrow> string option \<Rightarrow> string option \<Rightarrow> doc" where
  "loop_revision e u s status created_by reason =
     revision_doc e (sg_plan_id s) u (sg_pipeline_id s) (sg_run_id s) (sg_candidate_revision s) (Some (sg_base_revision s))
       (sg_graph_spec s) (Some (sg_delta s)) status created_by reason (sg_validation s)"

definition save_loop_revision :: "'c kv_ops \<Rightarrow> store_env \<Rightarrow> string \<Rightarrow> suggestion \<Rightarrow> string \<Rightarrow> string option \<Rightarrow> string option \<Rightarrow> 'c \<Rightarrow> 'c" where
  "save_loop_revision kv e u s status created_by reason c =
     snd (save_plan_revision kv e u (loop_revision e u s status created_by reason) c)"

text \<open>\<open>suggest\<close> records the suggestion and applies, rejects or submits it.\<close>

definition suggest :: "'c kv_ops \<Rightarrow> ('r, doc) doc_ops \<Rightarrow> strategist_env \<Rightarrow> string \<Rightarrow> string \<Rightarrow> string \<Rightarrow> proposal \<Rightarrow> ('c, 'r) strategist_state
    \<Rightarrow> (strategist_error + suggestion option) \<times> ('c, 'r) strategist_state" where
  "suggest kv ops se u pid rid pp st =
     (case as_opt as_str (jget (pp_delta pp) ''rationale'') of
        None \<Rightarrow> (Inl SuggestionInvalid, st)
      | Some reason \<Rightarrow>
          (let e = se_env se; base = draft_revision (pp_draft pp); author = Some ''llm_strategist_loop'';
               s = \<lparr>sg_id = e_uuid e, sg_plan_id = pd_plan_id (pp_draft pp), sg_username = u, sg_pipeline_id = pid, sg_run_id = Some rid,
                    sg_base_revision = base, sg_candidate_revision = base + 1, sg_delta = pp_delta pp, sg_graph_spec = pp_graph pp,
                    sg_status = ''PENDING_REVIEW'', sg_created_by = author, sg_reason = reason,
                    sg_validation = Some (pp_validation pp), sg_created_at = now_iso e\<rparr>;
               c1 = save_loop_revision kv e u s ''PENDING_REVIEW'' author reason (ss_store st);
               st1 = st\<lparr>ss_store := c1, ss_counts := dict_set rid (dict_get (ss_counts st) rid 0 + 1) (ss_counts st)\<rparr>;
               done = dict_set rid (se_monotonic se) (ss_last st)
           in if \<not> pp_conforms pp then
                (let s' = s\<lparr>sg_status := ''REJECTED''\<rparr>;
                     c2 = save_suggestion kv e u s' c1
                 in (Inr (Some s'), st1\<lparr>ss_store := save_loop_revision kv e u s' ''REJECTED'' author (Some ''validation_failed'') c2\<rparr>))
              else if se_auto_apply se \<or> \<not> se_require_human se then
                (let c2 = save_suggestion kv e u (s\<lparr>sg_status := ''APPLIED''\<rparr>) c1;
                     (cmd, c3) = apply_revision kv e (pp_draft pp) (pp_graph pp) (pp_delta pp) (pp_validation pp)
                       ''llm_auto_apply'' (Some (sg_id s)) ''llm_strategist_loop'' c2
                 in (Inr (Some s), st1\<lparr>ss_store := c3, ss_commands := ss_commands st @ [cmd], ss_last := done\<rparr>))
              else
                (let c2 = save_suggestion kv e u s c1
                 in case set_run_pause_state ops e u pid rid True (Some ''llm_suggestion_pending'') (Some (sg_id s)) (ss_runs st) of
                      Inl err \<Rightarrow> (Inl err, st1\<lparr>ss_store := c2\<rparr>)
                    | Inr r' \<Rightarrow> (Inr (Some s), st1\<lparr>ss_store := c2, ss_runs := r', ss_last := done\<rparr>))))"

definition handle_task_event :: "'c kv_ops \<Rightarrow> ('r, doc) doc_ops \<Rightarrow> strategist_env \<Rightarrow> bool \<Rightarrow> doc \<Rightarrow> ('c, 'r) strategist_state
    \<Rightarrow> (strategist_error + suggestion option) \<times> ('c, 'r) strategist_state" where
  "handle_task_event kv ops se busy event st =
     (if \<not> se_enabled se \<or> \<not> event_is_relevant (se_repr se) event then (Inr None, st)
      else case (jget event ''username'', jget event ''pipeline_id'', jget event ''pipeline_run_id'') of
             (JStr u, JStr pid, JStr rid) \<Rightarrow>
               if busy then (Inr None, st)
               else (case propose kv ops se event u pid rid st of
                       Inl err \<Rightarrow> (Inl err, st)
                     | Inr None \<Rightarrow> (Inr None, st)
                     | Inr (Some pp) \<Rightarrow> suggest kv ops se u pid rid pp st)
           | _ \<Rightarrow> (Inr None, st))"

subsection \<open>apply\_suggestion\_decision\<close>

definition author_of :: "string option \<Rightarrow> string" where
  "author_of approver = (if given approver then the approver else ''human'')"

definition resume_run :: "('r, doc) doc_ops \<Rightarrow> store_env \<Rightarrow> string \<Rightarrow> suggestion \<Rightarrow> 'a \<Rightarrow> ('c, 'r) strategist_state
    \<Rightarrow> (strategist_error + 'a) \<times> ('c, 'r) strategist_state" where
  "resume_run ops e u s res st =
     (if \<not> given (sg_run_id s) then (Inr res, st)
      else case set_run_pause_state ops e u (sg_pipeline_id s) (the (sg_run_id s)) False None None (ss_runs st) of
             Inl err \<Rightarrow> (Inl err, st)
           | Inr r' \<Rightarrow> (Inr res, st\<lparr>ss_runs := r'\<rparr>))"

definition reject_suggestion :: "'c kv_ops \<Rightarrow> ('r, doc) doc_ops \<Rightarrow> strategist_env \<Rightarrow> string \<Rightarrow> string \<Rightarrow> string \<Rightarrow> suggestion \<Rightarrow> ('c, 'r) strategist_state
    \<Rightarrow> (strategist_error + plan_draft option) \<times> ('c, 'r) strategist_state" where
  "reject_suggestion kv ops se u author reason s st =
     (let e = se_env se; s' = s\<lparr>sg_status := ''REJECTED''\<rparr>;
          c1 = save_suggestion kv e u s' (ss_store st);
          c2 = save_loop_revision kv e u s' ''REJECTED'' (Some author) (Some reason) c1
      in resume_run ops e u s None (st\<lparr>ss_store := c2\<rparr>))"

text \<open>\<open>settle\<close> is the end of an approval: the candidate is rejected by the validation or published.\<close>

definition settle :: "'c kv_ops \<Rightarrow> ('r, doc) doc_ops \<Rightarrow> store_env \<Rightarrow> string \<Rightarrow> string \<Rightarrow> suggestion \<Rightarrow> plan_draft \<Rightarrow> doc \<Rightarrow> bool \<Rightarrow> doc
    \<Rightarrow> ('c, 'r) strategist_state \<Rightarrow> (strategist_error + plan_draft option) \<times> ('c, 'r) strategist_state" where
  "settle kv ops e u author s draft graph ok v st =
     (let validation = (if draft_revision draft \<noteq> sg_base_revision s
            then v @ [(''merge_policy'', JDict [(''from'', JInt (sg_base_revision s)),
                   (''to'', JInt (draft_revision draft)), (''policy'', JStr ''rebase_on_latest'')])]
            else v);
          s1 = s\<lparr>sg_validation := Some validation\<rparr>
      in if \<not> ok then
           (let s' = s1\<lparr>sg_status := ''REJECTED''\<rparr>;
                c1 = save_suggestion kv e u s' (ss_store st);
                c2 = save_loop_revision kv e u (s'\<lparr>sg_graph_spec := graph\<rparr>) ''REJECTED'' (Some author) (Some ''validation_failed'') c1
            in resume_run ops e u s None (st\<lparr>ss_store := c2\<rparr>))
         else
           (let (cmd, c1) = apply_revision kv e draft graph (sg_delta s) validation ''human_approved'' (Some (sg_id s)) author (ss_store st);
                c2 = save_suggestion kv e u (s1\<lparr>sg_status := ''APPLIED''\<rparr>) c1
            in resume_run ops e u s (Some draft) (st\<lparr>ss_store := c2, ss_commands := ss_commands st @ [cmd]\<rparr>)))"

definition approve_suggestion :: "'c kv_ops \<Rightarrow> ('r, doc) doc_ops \<Rightarrow> strategist_env \<Rightarrow> string \<Rightarrow> string \<Rightarrow> suggestion \<Rightarrow> ('c, 'r) strategist_state
    \<Rightarrow> (strategist_error + plan_draft option) \<times> ('c, 'r) strategist_state" where
  "approve_suggestion kv ops se u author s st =
     (case load_plan_draft kv (se_env se) u (Some (sg_pipeline_id s)) (sg_run_id s) (Some (sg_plan_id s)) (ss_store st) of
        Inl _ \<Rightarrow> (Inr None, st)
      | Inr draft \<Rightarrow>
          (case apply_delta (se_repr se) (pd_graph_spec draft) (sg_delta s) of
             Inl _ \<Rightarrow> (Inl DeltaShape, st)
           | Inr (graph, _) \<Rightarrow>
               (case (if given (sg_run_id s) then read_run ops u (sg_pipeline_id s) (the (sg_run_id s)) (ss_runs st) else Inr []) of
                  Inl _ \<Rightarrow> (Inl RunMissing, st)
                | Inr run_doc \<Rightarrow>
                    (case validate_candidate_graph (se_ve se) (se_it se) graph (pd_graph_spec draft) run_doc
                            (pd_plan_id draft) (Some (sg_pipeline_id s)) u of
                       Inl _ \<Rightarrow> (Inl DeltaShape, st)
                     | Inr (ok, v) \<Rightarrow> settle kv ops (se_env se) u author s draft graph ok v st))))"

definition apply_suggestion_decision :: "'c kv_ops \<Rightarrow> ('r, doc) doc_ops \<Rightarrow> strategist_env \<Rightarrow> string \<Rightarrow> string \<Rightarrow> bool \<Rightarrow> string option
    \<Rightarrow> ('c, 'r) strategist_state \<Rightarrow> (strategist_error + plan_draft option) \<times> ('c, 'r) strategist_state" where
  "apply_suggestion_decision kv ops se u sid approved approver st =
     (case get_plan_suggestion kv u sid (ss_store st) of
        None \<Rightarrow> (Inr None, st)
      | Some [] \<Rightarrow> (Inr None, st)
      | Some (x # xs) \<Rightarrow>
          (case suggestion_of_doc (se_env se) (x # xs) of
             None \<Rightarrow> (Inl SuggestionInvalid, st)
           | Some s \<Rightarrow>
               if sg_status s \<in> {''APPLIED'', ''REJECTED''} then (Inr None, st)
               else if \<not> approved then
                 reject_suggestion kv ops se u (author_of approver) ''human_rejected'' s
                   (if given (sg_run_id s) then st\<lparr>ss_streak := dict_set (the (sg_run_id s))
                      (dict_get (ss_streak st) (the (sg_run_id s)) 0 + 1) (ss_streak st)\<rparr> else st)
               else
                 approve_suggestion kv ops se u (author_of approver) s
                   (if given (sg_run_id s) then st\<lparr>ss_streak := dict_set (the (sg_run_id s)) 0 (ss_streak st)\<rparr> else st)))"

end
