(* ===== verification/Revision_Safety.thy ===== *)
theory Revision_Safety
  imports Plan_Revision Plan_Validity
begin

section \<open>What plan revision promises\<close>

text \<open>
  A candidate conforms exactly when it is well formed and compatible with the state of the run, a delta
  changes the graph as it says and nothing else, and a published revision is installed under its
  number.
\<close>

subsection \<open>Runtime constraints\<close>

definition run_entries :: "doc \<Rightarrow> (string \<times> json) list" where
  "run_entries run = jdict (jget run ''tasks'')"

definition task_in :: "(json \<Rightarrow> string) \<Rightarrow> string \<Rightarrow> doc \<Rightarrow> string \<Rightarrow> bool" where
  "task_in repr s run t \<longleftrightarrow> (\<exists>e. (t, e) \<in> set (run_entries run) \<and> task_status_text repr (jget (jdict e) ''status'') = Some s)"

definition named_task :: "(json \<Rightarrow> string) \<Rightarrow> doc list \<Rightarrow> string \<Rightarrow> doc option" where
  "named_task repr ts t = find (\<lambda>d. truthy (jget d ''task_id'') \<and> py_str repr (jget d ''task_id'') = t) (rev ts)"

definition agent_of :: "(json \<Rightarrow> string) \<Rightarrow> doc list \<Rightarrow> string \<Rightarrow> json" where
  "agent_of repr ts t = (case named_task repr ts t of None \<Rightarrow> JNull | Some d \<Rightarrow> jget d ''assigned_agent'')"

definition runtime_safe :: "(json \<Rightarrow> string) \<Rightarrow> doc list \<Rightarrow> doc list \<Rightarrow> doc list \<Rightarrow> doc \<Rightarrow> bool" where
  "runtime_safe repr base cand es run \<longleftrightarrow>
     (\<forall>t. task_in repr ''COMPLETED'' run t \<or> task_in repr ''RUNNING'' run t \<or> task_in repr ''FAILED'' run t
        \<longrightarrow> named_task repr cand t \<noteq> None) \<and>
     (\<forall>t. task_in repr ''RUNNING'' run t \<and> truthy (agent_of repr base t) \<and> truthy (agent_of repr cand t)
        \<longrightarrow> hkey (agent_of repr base t) = hkey (agent_of repr cand t)) \<and>
     (\<forall>e\<in>set es. truthy (edge_from e) \<and> truthy (edge_to e) \<and>
        (task_in repr ''COMPLETED'' run (py_str repr (edge_to e)) \<or> task_in repr ''RUNNING'' run (py_str repr (edge_to e)))
        \<longrightarrow> task_in repr ''COMPLETED'' run (py_str repr (edge_from e)))"

lemma set_with_status:
  "set (with_status repr s (run_entries run)) = {t. task_in repr s run t}"
  by (force simp: with_status_def task_in_def)

lemma map_of_task_map: "map_of (task_map repr ts) t = named_task repr ts t"
proof (induction ts rule: rev_induct)
  case (snoc d ts)
  then show ?case by (auto simp: task_map_def named_task_def update_conv')
qed (simp add: task_map_def named_task_def)

lemma agent_task_map: "jget (dict_get (task_map repr ts) t []) ''assigned_agent'' = agent_of repr ts t"
  by (simp add: dict_get_def map_of_task_map agent_of_def split: option.splits)

lemma set_predecessors:
  "set (dict_get (predecessors repr es) t []) =
     {py_str repr (edge_from e) |e. e \<in> set es \<and> truthy (edge_from e) \<and> truthy (edge_to e) \<and> py_str repr (edge_to e) = t}"
proof (induction es rule: rev_induct)
  case (snoc e es)
  then show ?case by (auto simp: predecessors_def Let_def)
qed (simp add: predecessors_def)

lemma map_filter_Nil_iff: "List.map_filter f xs = [] \<longleftrightarrow> (\<forall>x\<in>set xs. f x = None)"
  by (auto simp: List.map_filter_def filter_empty_conv)

lemma runtime_constraints_clean:
  assumes it: "set_iteration it" and run: "list_all (\<lambda>(t, e). is_dict e) (run_entries run)"
    and tasks: "jget run ''tasks'' = JNull \<or> is_dict (jget run ''tasks'')"
    and docs: "docs_of (jget base_graph ''tasks'') = Inr base" "docs_of (jget cand_graph ''tasks'') = Inr cand"
      "docs_of (jget cand_graph ''edges'') = Inr es"
  shows "validate_runtime_constraints it repr base_graph cand_graph run = Inr [] \<longleftrightarrow> runtime_safe repr base cand es run"
proof -
  have jor: "jor (jget run ''tasks'') (JDict []) = JDict (run_entries run)"
    using tasks by (cases "jget run ''tasks''") (auto simp: jor_def run_entries_def)
  have keys: "t \<in> set (dict_keys (task_map repr cand)) \<longleftrightarrow> named_task repr cand t \<noteq> None" for t
    by (simp flip: map_of_task_map add: map_of_eq_None_iff)
  have change: "assignment_change (task_map repr base) (task_map repr cand) t = None \<longleftrightarrow>
      (truthy (agent_of repr base t) \<and> truthy (agent_of repr cand t) \<longrightarrow>
         hkey (agent_of repr base t) = hkey (agent_of repr cand t))" for t
    by (auto simp: assignment_change_def agent_task_map Let_def)
  have dep: "filter (\<lambda>p. p \<notin> set (with_status repr ''COMPLETED'' (run_entries run))) (it (dict_get (predecessors repr es) t [])) = [] \<longleftrightarrow>
      (\<forall>e\<in>set es. truthy (edge_from e) \<and> truthy (edge_to e) \<and> py_str repr (edge_to e) = t
        \<longrightarrow> task_in repr ''COMPLETED'' run (py_str repr (edge_from e)))" for t
    using it by (auto simp: filter_empty_conv set_with_status set_predecessors)
  let ?w = "\<lambda>s. with_status repr s (run_entries run)"
  have 1: "filter (\<lambda>t. t \<notin> set (dict_keys (task_map repr cand))) (sorted_set (?w ''COMPLETED'' @ ?w ''RUNNING'' @ ?w ''FAILED'')) = [] \<longleftrightarrow>
      (\<forall>t. task_in repr ''COMPLETED'' run t \<or> task_in repr ''RUNNING'' run t \<or> task_in repr ''FAILED'' run t
        \<longrightarrow> named_task repr cand t \<noteq> None)"
    unfolding filter_empty_conv keys sorted_set_def by (simp add: set_with_status) blast
  have 2: "List.map_filter (assignment_change (task_map repr base) (task_map repr cand)) (sorted_set (?w ''RUNNING'')) = [] \<longleftrightarrow>
      (\<forall>t. task_in repr ''RUNNING'' run t \<and> truthy (agent_of repr base t) \<and> truthy (agent_of repr cand t)
        \<longrightarrow> hkey (agent_of repr base t) = hkey (agent_of repr cand t))"
    unfolding map_filter_Nil_iff change sorted_set_def by (simp add: set_with_status) blast
  have 3: "List.map_filter (\<lambda>t. let invalid = filter (\<lambda>p. p \<notin> set (?w ''COMPLETED'')) (it (dict_get (predecessors repr es) t []))
        in if invalid \<noteq> [] then Some (InvalidRuntimeDependency t invalid) else None) (sorted_set (?w ''COMPLETED'' @ ?w ''RUNNING'')) = [] \<longleftrightarrow>
      (\<forall>e\<in>set es. truthy (edge_from e) \<and> truthy (edge_to e) \<and>
        (task_in repr ''COMPLETED'' run (py_str repr (edge_to e)) \<or> task_in repr ''RUNNING'' run (py_str repr (edge_to e)))
        \<longrightarrow> task_in repr ''COMPLETED'' run (py_str repr (edge_from e)))"
    unfolding map_filter_Nil_iff Let_def sorted_set_def if_not_P dep by (simp add: dep set_with_status) blast
  show ?thesis
    unfolding validate_runtime_constraints_def jor json.case
    by (simp only: run docs bindR.simps Let_def[of "with_status _ _ _"] Let_def[of "task_map _ _"] Let_def[of "predecessors _ _"]
        if_False not_True_eq_False sum.inject append_is_Nil_conv map_is_Nil_conv 1 2 3 runtime_safe_def)
qed
definition shacl_ok :: "validator_env \<Rightarrow> doc \<Rightarrow> string \<Rightarrow> string option \<Rightarrow> string \<Rightarrow> bool" where
  "shacl_ok ve gs plan pid u \<longleftrightarrow> (case ve_shacl ve gs plan pid u of None \<Rightarrow> True | Some r \<Rightarrow> truthy (jget r ''conforms''))"

lemma shacl_always_ok: "snd (shacl_always ve gs plan pid u) \<longleftrightarrow> shacl_ok ve gs plan pid u"
  by (simp add: shacl_always_def shacl_gate_def shacl_ok_def split: option.splits)

text \<open>C35. A candidate revision conforms exactly when it is a well-formed plan, the SHACL engine has no
  objection, and it respects the run: every task that has started is still in the plan, a running task
  keeps its agent, and a completed or running task depends on completed tasks only.\<close>

theorem candidate_conforms_iff:
  assumes "set_iteration it" and "list_all (\<lambda>(t, e). is_dict e) (run_entries run)"
    and "jget run ''tasks'' = JNull \<or> is_dict (jget run ''tasks'')"
    and "docs_of (jget base_graph ''tasks'') = Inr base" and "docs_of (jget cand_graph ''tasks'') = Inr cand"
    and "docs_of (jget cand_graph ''edges'') = Inr es"
  shows "(\<exists>rep. validate_candidate_graph ve it cand_graph base_graph run plan pid u = Inr (True, rep)) \<longleftrightarrow>
    well_formed_plan cand_graph \<and> shacl_ok ve cand_graph plan pid u \<and> runtime_safe (ve_repr ve) base cand es run"
proof -
  have "(\<exists>rep. validate_candidate_graph ve it cand_graph base_graph run plan pid u = Inr (True, rep)) \<longleftrightarrow>
      (\<exists>r. validate_graph_spec cand_graph = Inr r \<and> rp_conforms r) \<and> shacl_ok ve cand_graph plan pid u \<and>
      validate_runtime_constraints it (ve_repr ve) base_graph cand_graph run = Inr []"
    by (auto simp: validate_candidate_graph_def bindR_iffs Let_def case_prod_beta shacl_always_ok)
  then show ?thesis by (simp add: report_conforms_iff runtime_constraints_clean[OF assms])
qed

subsection \<open>Deltas\<close>

definition overridden :: "doc \<Rightarrow> doc \<Rightarrow> doc" where
  "overridden delta t = (case jget t ''task_id'' of
       JStr s \<Rightarrow> if s \<noteq> [] \<and> is_dict (jget (jdict (jget delta ''task_overrides'')) s)
                then dict_update t (jdict (jget (jdict (jget delta ''task_overrides'')) s)) else t
     | _ \<Rightarrow> t)"

definition removed_ids :: "(json \<Rightarrow> string) \<Rightarrow> doc \<Rightarrow> string set" where
  "removed_ids repr delta = py_str repr ` set (jlist (jget delta ''remove_tasks''))"

definition added_tasks :: "doc \<Rightarrow> doc list" where
  "added_tasks delta = map jdict (filter (\<lambda>j. is_dict j \<and> truthy (jget (jdict j) ''task_id'')) (jlist (jget delta ''add_tasks'')))"

definition added_edges :: "doc \<Rightarrow> doc list" where
  "added_edges delta = map jdict (filter (\<lambda>j. is_dict j \<and> truthy (edge_from (jdict j)) \<and> truthy (edge_to (jdict j)))
     (jlist (jget delta ''add_edges'')))"

definition ends :: "doc \<Rightarrow> json \<times> json" where
  "ends e = (hkey (edge_from e), hkey (edge_to e))"

definition removed_pairs :: "doc \<Rightarrow> (json \<times> json) set" where
  "removed_pairs delta = ends ` jdict ` {j \<in> set (jlist (jget delta ''remove_edges'')). is_dict j}"

definition touches :: "string set \<Rightarrow> doc \<Rightarrow> bool" where
  "touches R e \<longleftrightarrow> (\<exists>s\<in>R. edge_from e = JStr s \<or> edge_to e = JStr s)"

lemma patch_task_fst: "patch_task ov t = Inr (t', n) \<Longrightarrow> jget delta ''task_overrides'' = JDict ov \<Longrightarrow> t' = overridden delta t"
  by (cases "jget t ''task_id''") (auto simp: patch_task_def overridden_def Let_def split: if_splits)

lemma overrides_result:
  assumes "delta_overrides delta (ts, es, n) = Inr (ts', es', n')"
  shows "ts' = map (overridden delta) ts \<and> es' = es"
proof (cases "jget delta ''task_overrides''")
  case (JDict ov)
  have "list_all2 (\<lambda>x y. patch_task ov x = Inr y) ts ps \<Longrightarrow> map fst ps = map (overridden delta) ts" for ps
    by (induction rule: list_all2_induct) (auto dest: patch_task_fst[OF _ JDict])
  with JDict assms show ?thesis by (auto simp: delta_overrides_def bindR_iffs mapR_Inr_iff)
next
  case (JStr s)
  have "overridden delta t = t" for t by (cases "jget t ''task_id''") (auto simp: overridden_def JStr)
  with JStr assms show ?thesis by (simp add: delta_overrides_def map_idI)
qed (use assms in \<open>auto simp: delta_overrides_def overridden_def map_idI split: json.splits\<close>)

lemma edge_kept_True: "edge_kept rs e = Inr b \<Longrightarrow> b \<longleftrightarrow> \<not> touches (set rs) e"
  by (cases "edge_from e"; cases "edge_to e") (auto simp: edge_kept_def names_def touches_def split: if_splits)

lemma filterR_pred:
  assumes "filterR f xs = Inr ys" and "\<And>x b. x \<in> set xs \<Longrightarrow> f x = Inr b \<Longrightarrow> b = P x"
  shows "ys = filter P xs"
proof -
  have "\<exists>b. f x = Inr b" if "x \<in> set xs" for x
    using assms(1) that by (auto simp: filterR_def bindR_iffs mapR_Inr_iff in_set_conv_nth list_all2_conv_all_nth)
  then have "filter (\<lambda>x. f x = Inr True) xs = filter P xs" using assms(2) by (intro filter_cong) metis+
  then show ?thesis using filterR_Inr[OF assms(1)] by simp
qed

lemma remove_tasks_result:
  assumes "delta_remove_tasks repr delta (ts, es, n) = Inr (ts', es', n')"
  shows "ts' = filter (\<lambda>t. py_str repr (jget t ''task_id'') \<notin> removed_ids repr delta) ts \<and>
    es' = filter (\<lambda>e. \<not> touches (removed_ids repr delta) e) es"
proof (cases "jget delta ''remove_tasks''")
  case (JList ids)
  let ?rs = "remdups (map (py_str repr) ids)"
  have rs: "set ?rs = removed_ids repr delta" by (simp add: removed_ids_def JList)
  show ?thesis
  proof (cases "?rs = []")
    case True
    then have "removed_ids repr delta = {}" using rs by (metis list.set(1))
    with True assms JList show ?thesis by (simp add: delta_remove_tasks_def touches_def)
  next
    case False
    then obtain es1 where f: "filterR (edge_kept ?rs) es = Inr es1"
      and e: "es' = es1" "ts' = filter (\<lambda>t. py_str repr (jget t ''task_id'') \<notin> set ?rs) ts"
      using assms JList by (auto simp: delta_remove_tasks_def Let_def bindR_iffs)
    have "es1 = filter (\<lambda>e. \<not> touches (set ?rs) e) es"
      by (rule filterR_pred[OF f]) (simp only: edge_kept_True)
    with e show ?thesis by (simp only: rs)
  qed
qed (use assms in \<open>auto simp: delta_remove_tasks_def removed_ids_def touches_def\<close>)

lemma edge_pair_Inr: "edge_pair e = Inr p \<Longrightarrow> p = ends e"
  by (auto simp: edge_pair_def ends_def split: if_splits)

lemma remove_edges_result:
  assumes "delta_remove_edges delta (ts, es, n) = Inr (ts', es', n')"
  shows "ts' = ts \<and> es' = filter (\<lambda>e. ends e \<notin> removed_pairs delta) es"
proof -
  let ?ds = "map jdict (filter is_dict (jlist (jget delta ''remove_edges'')))"
  obtain ps where ps: "mapR edge_pair ?ds = Inr ps"
    using assms by (auto simp: delta_remove_edges_def bindR_iffs)
  have "list_all2 (\<lambda>x y. edge_pair x = Inr y) ds qs \<Longrightarrow> qs = map ends ds" for ds qs
    by (induction rule: list_all2_induct) (auto dest: edge_pair_Inr)
  then have "ps = map ends ?ds" using ps unfolding mapR_Inr_iff by blast
  then have set: "set ps = removed_pairs delta" by (auto simp: removed_pairs_def image_image)
  show ?thesis
  proof (cases "remdups ps = []")
    case True
    then have "removed_pairs delta = {}" using set by simp
    with True assms ps show ?thesis by (simp add: delta_remove_edges_def)
  next
    case False
    then obtain es1 where f: "filterR (\<lambda>e. bindR (edge_pair e) (\<lambda>p. Inr (p \<notin> set (remdups ps)))) es = Inr es1"
      and e: "es' = es1" "ts' = ts"
      using assms ps by (auto simp: delta_remove_edges_def Let_def bindR_iffs)
    have "es1 = filter (\<lambda>e. ends e \<notin> removed_pairs delta) es"
      by (rule filterR_pred[OF f]) (auto simp: bindR_iffs set dest: edge_pair_Inr)
    with e show ?thesis by simp
  qed
qed

lemma docs_of_json_docs: "docs_of (json_docs ds) = Inr ds"
  by (auto simp: docs_of_def json_docs_def list_all_iff comp_def)

text \<open>C36. A delta does what it says and nothing else: the tasks of the new graph are the old ones with their
  overrides, less the removed ones, followed by the added ones; its edges are the old ones that touch no
  removed task, followed by the added ones, less the removed pairs; every other key keeps its value.\<close>

theorem apply_delta_exact:
  assumes "apply_delta repr spec delta = Inr (g, n)"
    and "docs_of (jget spec ''tasks'') = Inr ts" and "docs_of (jget spec ''edges'') = Inr es"
  shows "docs_of (jget g ''tasks'') = Inr (filter (\<lambda>t. py_str repr (jget t ''task_id'') \<notin> removed_ids repr delta)
        (map (overridden delta) ts) @ added_tasks delta) \<and>
    docs_of (jget g ''edges'') = Inr (filter (\<lambda>e. ends e \<notin> removed_pairs delta)
        (filter (\<lambda>e. \<not> touches (removed_ids repr delta) e) es @ added_edges delta)) \<and>
    (\<forall>k. k \<noteq> ''tasks'' \<and> k \<noteq> ''edges'' \<longrightarrow> jget g k = jget spec k)"
proof -
  obtain ts1 es1 n1 ts2 es2 n2 ts3 es3 n3 where s: "delta_overrides delta (ts, es, 0) = Inr (ts1, es1, n1)"
      "delta_remove_tasks repr delta (ts1, es1, n1) = Inr (ts2, es2, n2)"
      "delta_remove_edges delta (delta_add_edges delta (delta_add_tasks delta (ts2, es2, n2))) = Inr (ts3, es3, n3)"
    and g: "g = dict_set ''edges'' (json_docs es3) (dict_set ''tasks'' (json_docs ts3) spec)"
    using assms unfolding apply_delta_def bindR_iffs assms(2,3) by (auto simp: bindR_iffs)
  obtain n4 where "delta_add_edges delta (delta_add_tasks delta (ts2, es2, n2)) = (ts2 @ added_tasks delta, es2 @ added_edges delta, n4)"
    by (simp add: delta_add_edges_def delta_add_tasks_def Let_def added_tasks_def added_edges_def)
  with s(3) have "delta_remove_edges delta (ts2 @ added_tasks delta, es2 @ added_edges delta, n4) = Inr (ts3, es3, n3)" by simp
  from remove_edges_result[OF this] overrides_result[OF s(1)] remove_tasks_result[OF s(2)]
  show ?thesis by (simp add: g docs_of_json_docs)
qed
subsection \<open>Installing a revision\<close>

lemma plan_keys_differ:
  "candidate_key u p n \<noteq> key2 ''plan_draft'' v q" "plan_revision_key u p n \<noteq> key2 ''plan_draft'' v q"
  by (simp_all add: candidate_key_def plan_revision_key_def key2_def key3_def)

context kv_collection
begin

lemma save_plan_draft_get:
  "kv_get kv (snd (save_plan_draft kv e u (draft_doc p) c)) k =
     (if k = key2 ''plan_draft'' u (pd_plan_id p) then Some (with_meta e ''plan_draft'' (draft_doc (p\<lparr>pd_username := u\<rparr>))) else kv_get kv c k)"
  by (simp add: save_plan_draft_def save_doc_def get_upsert sfield_def) (simp add: draft_doc_def)

lemma save_plan_revision_get:
  "kv_get kv (snd (save_plan_revision kv e u (revision_doc e' plan u pid rid rv parent gs delta st cb rs va) c)) k =
     (if k = plan_revision_key u plan rv then Some (with_meta e ''plan_revision'' (revision_doc e' plan u pid rid rv parent gs delta st cb rs va))
      else kv_get kv c k)"
  by (simp add: save_plan_revision_def save_doc_def get_upsert sfield_def) (simp add: revision_doc_def)

lemma candidate_stored:
  assumes "apply_revision kv e p graph delta validation reason sid by' c = (cmd, c1)"
  obtains cand where "get_raw kv (rc_payload_ref cmd) c1 = Some cand" and "cand \<noteq> []"
    and "jget cand ''candidate_graph'' = JDict graph" and "jget cand ''delta'' = JDict delta"
    and "jget cand ''validation'' = JDict validation"
    and "dict_get cand ''base_revision'' (JInt 1) = JInt (draft_revision p)"
    and "\<And>x. dict_get cand ''next_revision'' x = JInt (draft_revision p + 1)"
    and "\<And>v q. kv_get kv c1 (key2 ''plan_draft'' v q) = kv_get kv c (key2 ''plan_draft'' v q)"
  using assms
  by (auto simp: apply_revision_def Let_def upsert_raw_def get_raw_def get_upsert touch_meta_def dict_get_Cons
      plan_keys_differ plan_keys_differ[symmetric])

end

lemma set_run_plan_read:
  assumes "doc_collection ops" and "read_run ops u pid rid r = Inr d"
  shows "read_run ops u pid rid (set_run_plan ops u pid rid plan rv r) =
    Inr (dict_set ''plan_revision'' (JInt rv) (dict_set ''plan_id'' (JStr plan) d))"
proof -
  obtain r' where "update_run ops u pid rid (dict_set ''plan_revision'' (JInt rv) (dict_set ''plan_id'' (JStr plan) d)) r = Inr r'"
    using doc_collection.update_ok[OF assms] by blast
  then show ?thesis using assms(2) doc_collection.read_update(1)[OF assms(1)] by (simp add: set_run_plan_def)
qed

text \<open>A published revision is installed: when the command that \<^verbatim>\<open>_apply_revision\<close> publishes for a stored
  draft is handled, the draft read back is the old one with the candidate graph (and its RDF text), the
  next revision number and the verdict of the validation; the revision is recorded as applied under that
  number with its parent; the run document names the plan and the revision and keeps its other fields; and
  the event carries the number.\<close>

theorem revision_installed:
  assumes "kv_collection kv" and "doc_collection ops"
    and "get_plan_draft kv (pd_username p) (pd_plan_id p) c = Some d" and "draft_of_doc (now_iso e) d = Some p"
    and "apply_revision kv e p graph delta validation reason sid by' c = (cmd, c1)"
    and "handle_revise_plan kv ops e turtle True cmd (c1, r) = (res, c2, r2)"
  shows "(\<exists>ev. res = Inr (Some ev) \<and> re_plan_id ev = pd_plan_id p \<and> re_revision ev = draft_revision p + 1) \<and>
    (\<exists>d'. get_plan_draft kv (pd_username p) (pd_plan_id p) c2 = Some d' \<and>
      draft_of_doc (now_iso e) d' = Some (p\<lparr>pd_graph_spec := with_semantic_graph turtle graph, pd_revision := draft_revision p + 1,
        pd_is_valid := truthy (jget validation ''conforms''), pd_shacl_report := Some validation\<rparr>)) \<and>
    (\<exists>rd. get_plan_revision kv (pd_username p) (pd_plan_id p) (draft_revision p + 1) c2 = Some rd \<and>
      jget rd ''graph_spec'' = JDict (with_semantic_graph turtle graph) \<and> jget rd ''delta'' = JDict delta \<and>
      jget rd ''parent_revision'' = JInt (draft_revision p) \<and> jget rd ''status'' = JStr ''APPLIED'') \<and>
    (\<forall>rid run. pd_run_id p = Some rid \<and> rid \<noteq> [] \<and> read_run ops (pd_username p) (pd_pipeline_id p) rid r = Inr run \<longrightarrow>
      (\<exists>run'. read_run ops (pd_username p) (pd_pipeline_id p) rid r2 = Inr run' \<and> jget run' ''plan_id'' = JStr (pd_plan_id p) \<and>
        jget run' ''plan_revision'' = JInt (draft_revision p + 1) \<and>
        (\<forall>k. k \<noteq> ''plan_id'' \<and> k \<noteq> ''plan_revision'' \<longrightarrow> jget run' k = jget run k)))"
proof -
  obtain cand where cand: "get_raw kv (rc_payload_ref cmd) c1 = Some cand" "cand \<noteq> []"
    "jget cand ''candidate_graph'' = JDict graph" "jget cand ''delta'' = JDict delta" "jget cand ''validation'' = JDict validation"
    "dict_get cand ''base_revision'' (JInt 1) = JInt (draft_revision p)"
    "\<And>x. dict_get cand ''next_revision'' x = JInt (draft_revision p + 1)"
    "\<And>v q. kv_get kv c1 (key2 ''plan_draft'' v q) = kv_get kv c (key2 ''plan_draft'' v q)"
    using kv_collection.candidate_stored[OF assms(1,5)] by blast
  have cmd: "rc_username cmd = pd_username p" "rc_pipeline_id cmd = pd_pipeline_id p" "rc_plan_id cmd = pd_plan_id p"
      "rc_run_id cmd = pd_run_id p"
    using assms(5) by (auto simp: apply_revision_def Let_def)
  have d: "get_plan_draft kv (pd_username p) (pd_plan_id p) c1 = Some d"
    using assms(3) cand(8) by (simp add: get_plan_draft_def)
  let ?p = "p\<lparr>pd_graph_spec := with_semantic_graph turtle graph, pd_revision := draft_revision p + 1,
        pd_is_valid := truthy (jget validation ''conforms''), pd_shacl_report := Some validation\<rparr>"
  let ?rd = "revision_doc e (pd_plan_id p) (pd_username p) (pd_pipeline_id p) (pd_run_id p) (draft_revision p + 1)
      (Some (draft_revision p)) (with_semantic_graph turtle graph) (Some delta) ''APPLIED'' (Some (rc_created_by cmd)) (Some (rc_reason cmd)) (Some validation)"
  obtain x xs where "cand = x # xs" using cand(2) by (cases cand) auto
  then have res: "\<exists>ev. res = Inr (Some ev) \<and> re_plan_id ev = pd_plan_id p \<and> re_revision ev = draft_revision p + 1"
    and c2: "c2 = snd (save_plan_revision kv e (pd_username p) ?rd (snd (save_plan_draft kv e (pd_username p) (draft_doc ?p) c1)))"
    and r2: "r2 = (if given (pd_run_id p) then set_run_plan ops (pd_username p) (pd_pipeline_id p) (the (pd_run_id p)) (pd_plan_id p) (draft_revision p + 1) r else r)"
    using assms(4,6) cand d by (auto simp: handle_revise_plan_def Let_def cmd)
  have "get_plan_draft kv (pd_username p) (pd_plan_id p) c2 = Some (with_meta e ''plan_draft'' (draft_doc ?p))"
    by (simp add: c2 get_plan_draft_def kv_collection.save_plan_revision_get[OF assms(1)] kv_collection.save_plan_draft_get[OF assms(1)]
        plan_keys_differ[symmetric])
  moreover have "get_plan_revision kv (pd_username p) (pd_plan_id p) (draft_revision p + 1) c2 = Some (with_meta e ''plan_revision'' ?rd)"
    by (simp add: c2 get_plan_revision_def kv_collection.save_plan_revision_get[OF assms(1)])
  moreover have "jget (with_meta e ''plan_revision'' ?rd) ''graph_spec'' = JDict (with_semantic_graph turtle graph)"
    "jget (with_meta e ''plan_revision'' ?rd) ''delta'' = JDict delta"
    "jget (with_meta e ''plan_revision'' ?rd) ''parent_revision'' = JInt (draft_revision p)"
    "jget (with_meta e ''plan_revision'' ?rd) ''status'' = JStr ''APPLIED''"
    by (simp_all add: with_meta_def) (simp_all add: revision_doc_def jopt_def)
  ultimately show ?thesis
    using res draft_roundtrip set_run_plan_read[OF assms(2)] by (auto simp: r2 given_def)
qed
subsection \<open>Witnesses\<close>

definition demo_run_doc :: doc where
  "demo_run_doc = [(''status'', JStr ''RUNNING''),
     (''tasks'', JDict [(''a'', JDict [(''status'', JStr ''COMPLETED'')]), (''b'', JDict [(''status'', JStr ''PENDING'')])])]"

theorem candidate_conforms_iff_witness:
  "(\<exists>rep. validate_candidate_graph demo_ve remdups (demo_spec [(''a'', ''b'')]) (demo_spec []) demo_run_doc ''plan'' None ''ann'' = Inr (True, rep)) \<longleftrightarrow>
    well_formed_plan (demo_spec [(''a'', ''b'')]) \<and> shacl_ok demo_ve (demo_spec [(''a'', ''b'')]) ''plan'' None ''ann'' \<and>
    runtime_safe (ve_repr demo_ve) [demo_plan_task ''a'', demo_plan_task ''b''] [demo_plan_task ''a'', demo_plan_task ''b'']
      [[(''from'', JStr ''a''), (''to'', JStr ''b'')]] demo_run_doc"
  by (rule candidate_conforms_iff[OF set_iteration_remdups])
    (simp_all add: demo_run_doc_def run_entries_def demo_spec_def docs_of_def)

definition demo_delta :: doc where
  "demo_delta = [(''remove_tasks'', JList [JStr ''a'']), (''add_tasks'', JList [JDict (demo_plan_task ''c'')]),
     (''add_edges'', JList [JDict [(''from'', JStr ''c''), (''to'', JStr ''b'')]])]"

definition demo_graph :: doc where
  "demo_graph = fst (projr (apply_delta (\<lambda>_. []) (demo_spec [(''a'', ''b'')]) demo_delta))"

theorem apply_delta_exact_witness:
  "docs_of (jget demo_graph ''tasks'') =
      Inr (filter (\<lambda>t. py_str (\<lambda>_. []) (jget t ''task_id'') \<notin> removed_ids (\<lambda>_. []) demo_delta)
        (map (overridden demo_delta) [demo_plan_task ''a'', demo_plan_task ''b'']) @ added_tasks demo_delta) \<and>
    docs_of (jget demo_graph ''edges'') = Inr (filter (\<lambda>e. ends e \<notin> removed_pairs demo_delta)
        (filter (\<lambda>e. \<not> touches (removed_ids (\<lambda>_. []) demo_delta) e) [[(''from'', JStr ''a''), (''to'', JStr ''b'')]] @ added_edges demo_delta)) \<and>
    jget demo_graph ''ontology'' = jget (demo_spec [(''a'', ''b'')]) ''ontology''"
proof -
  have "\<not> isl (apply_delta (\<lambda>_. []) (demo_spec [(''a'', ''b'')]) demo_delta)" by code_simp
  then have "apply_delta (\<lambda>_. []) (demo_spec [(''a'', ''b'')]) demo_delta =
      Inr (demo_graph, snd (projr (apply_delta (\<lambda>_. []) (demo_spec [(''a'', ''b'')]) demo_delta)))"
    by (simp add: demo_graph_def)
  from apply_delta_exact[OF this] show ?thesis by (simp add: demo_spec_def docs_of_def)
qed

definition demo_command :: "revise_command \<times> (string \<times> doc) list" where
  "demo_command = apply_revision mem_kv demo_env (demo_draft\<lparr>pd_run_id := Some ''r''\<rparr>) demo_graph demo_delta
     [(''conforms'', JBool True)] ''llm_auto_apply'' None ''loop''
     (snd (save_plan_draft mem_kv demo_env ''ann'' (draft_doc (demo_draft\<lparr>pd_run_id := Some ''r''\<rparr>)) []))"

definition demo_runs :: "string \<Rightarrow> doc option" where
  "demo_runs = [run_key ''ann'' ''p'' ''r'' \<mapsto> demo_run_doc]"

definition demo_handled :: "(plan_error + revised_event option) \<times> (string \<times> doc) list \<times> (string \<Rightarrow> doc option)" where
  "demo_handled = handle_revise_plan mem_kv mem_docs demo_env (\<lambda>_. None) True (fst demo_command) (snd demo_command, demo_runs)"

theorem revision_installed_witness:
  "\<exists>rd. get_plan_revision mem_kv ''ann'' ''plan'' 2 (fst (snd demo_handled)) = Some rd \<and> jget rd ''graph_spec'' = JDict demo_graph"
proof -
  let ?p = "demo_draft\<lparr>pd_run_id := Some ''r''\<rparr>"
  let ?c = "snd (save_plan_draft mem_kv demo_env ''ann'' (draft_doc ?p) [])"
  have p: "pd_username ?p = ''ann''" "pd_plan_id ?p = ''plan''" "draft_revision ?p = 1"
    by (simp_all add: demo_draft_def draft_revision_def)
  have 1: "get_plan_draft mem_kv (pd_username ?p) (pd_plan_id ?p) ?c = Some (with_meta demo_env ''plan_draft'' (draft_doc ?p))"
    using mem.save_plan_draft_get[of demo_env "''ann''" ?p "[]" "key2 ''plan_draft'' ''ann'' ''plan''"]
    by (simp add: get_plan_draft_def) (simp add: demo_draft_def)
  have 2: "apply_revision mem_kv demo_env ?p demo_graph demo_delta [(''conforms'', JBool True)] ''llm_auto_apply'' None ''loop'' ?c =
      (fst demo_command, snd demo_command)" by (simp add: demo_command_def)
  have 3: "handle_revise_plan mem_kv mem_docs demo_env (\<lambda>_. None) True (fst demo_command) (snd demo_command, demo_runs) =
      (fst demo_handled, fst (snd demo_handled), snd (snd demo_handled))" by (simp add: demo_handled_def)
  have "\<exists>rd. get_plan_revision mem_kv (pd_username ?p) (pd_plan_id ?p) (draft_revision ?p + 1) (fst (snd demo_handled)) = Some rd \<and>
      jget rd ''graph_spec'' = JDict (with_semantic_graph (\<lambda>_. None) demo_graph)"
    using revision_installed[OF mem.kv_collection_axioms mem_docs.doc_collection_axioms 1 draft_roundtrip 2 3] by blast
  then show ?thesis by (simp add: p with_semantic_graph_def)
qed

end
