(* ===== verification/Strategist_Properties.thy ===== *)
theory Strategist_Properties
  imports Strategist_Loop Revision_Safety
begin

section \<open>What the strategist loop promises\<close>

text \<open>
  The loop converges: a bounded number of suggestions per run. It only publishes candidates that are well
  formed, only with the approval of a human unless configured otherwise, waits while a suggestion is
  pending, and decides a suggestion once.
\<close>

subsection \<open>Steps of the loop\<close>

datatype loop_input =
    TaskEvent strategist_env bool doc
  | Decision strategist_env string string bool "string option"

fun loop_env :: "loop_input \<Rightarrow> strategist_env" where
  "loop_env (TaskEvent se b ev) = se"
| "loop_env (Decision se u sid ok a) = se"

fun loop_step :: "'c kv_ops \<Rightarrow> ('r, doc) doc_ops \<Rightarrow> loop_input \<Rightarrow> ('c, 'r) strategist_state \<Rightarrow> suggestion list \<times> ('c, 'r) strategist_state" where
  "loop_step kv ops (TaskEvent se b ev) st =
     (case handle_task_event kv ops se b ev st of (Inr (Some s), st') \<Rightarrow> ([s], st') | (_, st') \<Rightarrow> ([], st'))"
| "loop_step kv ops (Decision se u sid ok a) st = ([], snd (apply_suggestion_decision kv ops se u sid ok a st))"

fun loop_run :: "'c kv_ops \<Rightarrow> ('r, doc) doc_ops \<Rightarrow> loop_input list \<Rightarrow> ('c, 'r) strategist_state \<Rightarrow> suggestion list \<times> ('c, 'r) strategist_state" where
  "loop_run kv ops [] st = ([], st)"
| "loop_run kv ops (i # is) st =
     (let (xs, st1) = loop_step kv ops i st; (ys, st2) = loop_run kv ops is st1 in (xs @ ys, st2))"

lemma propose_convergence: "propose kv ops se ev u pid rid st = Inr (Some pp) \<Longrightarrow> check_convergence se rid st = None"
  by (auto simp: propose_def split: if_splits sum.splits)

lemma pause_error: "set_run_pause_state ops e u pid rid b x y z = Inl err \<Longrightarrow> err = RunMissing"
  by (auto simp: set_run_pause_state_def split: sum.splits)

lemma suggest_counts:
  assumes "suggest kv ops se u pid rid pp st = (res, st')"
  shows "dict_get (ss_counts st') r 0 = dict_get (ss_counts st) r 0 + (if r = rid \<and> res \<noteq> Inl SuggestionInvalid then 1 else 0)"
    and "res = Inr (Some s) \<Longrightarrow> sg_run_id s = Some rid"
proof -
  show "dict_get (ss_counts st') r 0 = dict_get (ss_counts st) r 0 + (if r = rid \<and> res \<noteq> Inl SuggestionInvalid then 1 else 0)"
    using assms by (auto simp: suggest_def Let_def dest: pause_error split: option.splits sum.splits if_splits prod.splits)
  show "res = Inr (Some s) \<Longrightarrow> sg_run_id s = Some rid"
    using assms by (auto simp: suggest_def Let_def split: option.splits sum.splits if_splits prod.splits)
qed

lemma handle_cases:
  assumes "handle_task_event kv ops se b ev st = (res, st')"
  obtains (quiet) "st' = st" and "\<forall>s. res \<noteq> Inr (Some s)"
    | (made) u pid rid pp where "propose kv ops se ev u pid rid st = Inr (Some pp)" "suggest kv ops se u pid rid pp st = (res, st')"
        "se_enabled se" "\<not> b" "jget ev ''username'' = JStr u" "jget ev ''pipeline_id'' = JStr pid" "jget ev ''pipeline_run_id'' = JStr rid"
  using assms unfolding handle_task_event_def
  by (auto split: if_splits json.splits sum.splits option.splits)

lemma resume_run_frame [simp]:
  "ss_counts (snd (resume_run ops e u s r st)) = ss_counts st" "ss_store (snd (resume_run ops e u s r st)) = ss_store st"
  "ss_commands (snd (resume_run ops e u s r st)) = ss_commands st"
  by (auto simp: resume_run_def split: sum.splits)

lemma reject_frame [simp]:
  "ss_counts (snd (reject_suggestion kv ops se u a rs s st)) = ss_counts st"
  "ss_commands (snd (reject_suggestion kv ops se u a rs s st)) = ss_commands st"
  by (simp_all add: reject_suggestion_def Let_def)

lemma settle_counts [simp]: "ss_counts (snd (settle kv ops e u a s d g ok v st)) = ss_counts st"
  by (simp add: settle_def Let_def case_prod_beta)

lemma approve_counts [simp]: "ss_counts (snd (approve_suggestion kv ops se u a s st)) = ss_counts st"
  by (auto simp: approve_suggestion_def split: sum.splits)

lemma decision_counts: "ss_counts (snd (apply_suggestion_decision kv ops se u sid ok a st)) = ss_counts st"
  by (auto simp: apply_suggestion_decision_def split: option.splits list.splits)

lemma loop_step_counts:
  assumes "loop_step kv ops i st = (xs, st')" and "se_max_suggestions (loop_env i) \<le> m"
  shows "int (length (filter (\<lambda>s. sg_run_id s = Some rid) xs)) \<le>
    (if dict_get (ss_counts st) rid 0 < m then 1 else 0) \<and>
    dict_get (ss_counts st) rid 0 + int (length (filter (\<lambda>s. sg_run_id s = Some rid) xs)) \<le> dict_get (ss_counts st') rid 0"
proof (cases i)
  case (TaskEvent se b ev)
  obtain res st1 where h: "handle_task_event kv ops se b ev st = (res, st1)" by fastforce
  with assms(1) TaskEvent have st1: "st1 = st'" and xs: "xs = (case res of Inr (Some s) \<Rightarrow> [s] | _ \<Rightarrow> [])"
    by (auto split: sum.splits option.splits)
  from h show ?thesis
  proof (cases rule: handle_cases)
    case quiet
    with st1 xs show ?thesis by (auto split: sum.splits option.splits)
  next
    case (made u pid rid' pp)
    have "dict_get (ss_counts st) rid' 0 < m"
      using propose_convergence[OF made(1)] assms(2) TaskEvent by (auto simp: check_convergence_def split: if_splits)
    with suggest_counts[OF made(2)] st1 xs show ?thesis by (auto split: sum.splits option.splits if_splits)
  qed
next
  case (Decision se u sid ok a)
  then have "xs = []" and "ss_counts st' = ss_counts st" using assms(1) decision_counts by auto
  then show ?thesis by simp
qed

text \<open>The loop converges: over any sequence of task events and decisions, in any configuration whose limit
  is at most \<open>m\<close>, at most \<open>m\<close> suggestions are made for a run.\<close>

theorem suggestions_bounded:
  assumes "ss_counts st = []" and "\<forall>i\<in>set is. se_max_suggestions (loop_env i) \<le> int m"
  shows "length (filter (\<lambda>s. sg_run_id s = Some rid) (fst (loop_run kv ops is st))) \<le> m"
proof -
  have "int (length (filter (\<lambda>s. sg_run_id s = Some rid) (fst (loop_run kv ops is st)))) \<le> max 0 (int m - dict_get (ss_counts st) rid 0)"
    using assms(2)
  proof (induction "is" arbitrary: st)
    case (Cons i "is")
    obtain xs st1 where s: "loop_step kv ops i st = (xs, st1)" by fastforce
    have "se_max_suggestions (loop_env i) \<le> int m" using Cons.prems by simp
    from loop_step_counts[OF s this, of rid] Cons.IH[of st1] Cons.prems
    show ?case by (auto simp: s case_prod_beta Let_def split: if_splits)
  qed simp
  then show ?thesis using assms(1) by simp
qed
subsection \<open>What is published\<close>

definition carries :: "'c kv_ops \<Rightarrow> 'c \<Rightarrow> revise_command \<Rightarrow> doc \<Rightarrow> bool" where
  "carries kv c cmd g \<longleftrightarrow> (\<exists>cand. get_raw kv (rc_payload_ref cmd) c = Some cand \<and> jget cand ''candidate_graph'' = JDict g \<and>
     (\<exists>v. jget cand ''validation'' = JDict v \<and> jget v ''conforms'' = JBool True))"

lemma candidate_key_differs: "candidate_key u p n \<noteq> key2 ''plan_suggestion'' v q"
  by (simp add: candidate_key_def key2_def)

lemma candidate_report: "validate_candidate_graph ve it g b run plan pid u = Inr (ok, v) \<Longrightarrow> jget v ''conforms'' = JBool ok"
  by (auto simp: validate_candidate_graph_def bindR_iffs Let_def case_prod_beta)

lemma candidate_well_formed: "validate_candidate_graph ve it g b run plan pid u = Inr (True, v) \<Longrightarrow> well_formed_plan g"
  using report_conforms_iff[of g]
  by (auto simp: validate_candidate_graph_def bindR_iffs Let_def case_prod_beta)

context kv_collection
begin

lemma apply_revision_carries:
  assumes "apply_revision kv e p g delta v reason sid by' c = (cmd, c1)" and "jget v ''conforms'' = JBool True"
  shows "carries kv c1 cmd g"
  using candidate_stored[OF assms(1)] assms(2) unfolding carries_def by metis

lemma save_suggestion_carries:
  assumes "carries kv c cmd g" and "rc_payload_ref cmd = candidate_key a p n"
  shows "carries kv (save_suggestion kv e u s c) cmd g"
  using assms candidate_key_differs
  by (auto simp: carries_def save_suggestion_def save_plan_suggestion_def save_doc_def get_raw_def get_upsert)

end

lemma payload_ref_key: "apply_revision kv e p g delta v reason sid by' c = (cmd, c1) \<Longrightarrow>
    rc_payload_ref cmd = candidate_key (pd_username p) (pd_plan_id p) (draft_revision p + 1)"
  by (auto simp: apply_revision_def Let_def)

lemma propose_conforms:
  assumes "propose kv ops se ev u pid rid st = Inr (Some pp)" and "pp_conforms pp"
  shows "well_formed_plan (pp_graph pp) \<and> jget (pp_validation pp) ''conforms'' = JBool True"
proof -
  obtain b run plan where "validate_candidate_graph (se_ve se) (se_it se) (pp_graph pp) b run plan (Some pid) u = Inr (True, pp_validation pp)"
    using assms by (auto simp: propose_def split: if_splits sum.splits option.splits)
  then show ?thesis using candidate_well_formed candidate_report by blast
qed

lemma suggest_publishes:
  assumes kv: "kv_collection kv" and s: "suggest kv ops se u pid rid pp st = (res, st')"
    and ok: "pp_conforms pp \<Longrightarrow> jget (pp_validation pp) ''conforms'' = JBool True"
  shows "ss_commands st' = ss_commands st \<or> (pp_conforms pp \<and> (se_auto_apply se \<or> \<not> se_require_human se) \<and>
    (\<exists>cmd. ss_commands st' = ss_commands st @ [cmd] \<and> carries kv (ss_store st') cmd (pp_graph pp)))"
proof (cases "pp_conforms pp \<and> (se_auto_apply se \<or> \<not> se_require_human se) \<and> as_opt as_str (jget (pp_delta pp) ''rationale'') \<noteq> None")
  case True
  then obtain cmd c2 c3 r sid au where "apply_revision kv (se_env se) (pp_draft pp) (pp_graph pp) (pp_delta pp) (pp_validation pp) r sid au c2 = (cmd, c3)"
    and "ss_commands st' = ss_commands st @ [cmd]" "ss_store st' = c3"
    using s by (auto simp: suggest_def Let_def split: prod.splits)
  then show ?thesis using True kv_collection.apply_revision_carries[OF kv] ok by blast
next
  case False
  then show ?thesis using s by (auto simp: suggest_def Let_def split: option.splits sum.splits if_splits prod.splits)
qed

lemma settle_publishes:
  assumes kv: "kv_collection kv" and s: "settle kv ops e u a s d g ok v st = (res, st')"
    and v: "jget v ''conforms'' = JBool ok"
  shows "ss_commands st' = ss_commands st \<or> (ok \<and> (\<exists>cmd. ss_commands st' = ss_commands st @ [cmd] \<and> carries kv (ss_store st') cmd g))"
proof (cases ok)
  case True
  define v' where "v' = (if draft_revision d \<noteq> sg_base_revision s then v @ [(''merge_policy'', JDict [(''from'', JInt (sg_base_revision s)),
      (''to'', JInt (draft_revision d)), (''policy'', JStr ''rebase_on_latest'')])] else v)"
  obtain cmd c1 where r: "apply_revision kv e d g (sg_delta s) v' ''human_approved'' (Some (sg_id s)) a (ss_store st) = (cmd, c1)" by fastforce
  have "jget v' ''conforms'' = JBool True"
    using v True by (auto simp: v'_def jget_def dict_get_def map_add_def split: option.splits)
  from kv_collection.apply_revision_carries[OF kv r this] payload_ref_key[OF r]
  have "carries kv (save_suggestion kv e u (s\<lparr>sg_validation := Some v', sg_status := ''APPLIED''\<rparr>) c1) cmd g"
    by (rule kv_collection.save_suggestion_carries[OF kv])
  moreover have "st' = snd (resume_run ops e u s (Some d) (st\<lparr>ss_store := save_suggestion kv e u (s\<lparr>sg_validation := Some v', sg_status := ''APPLIED''\<rparr>) c1,
      ss_commands := ss_commands st @ [cmd]\<rparr>))"
    using s True r by (simp add: settle_def Let_def flip: v'_def)
  ultimately show ?thesis using True by simp
next
  case False
  then have "st' = snd (settle kv ops e u a s d g ok v st)" using s by simp
  with False show ?thesis by (simp add: settle_def Let_def)
qed

lemma approve_cases:
  assumes "approve_suggestion kv ops se u a s st = (res, st')"
  obtains (quiet) "st' = st" "\<forall>d. res \<noteq> Inr (Some d)"
    | (settled) d g b run ok v where "validate_candidate_graph (se_ve se) (se_it se) g b run (pd_plan_id d) (Some (sg_pipeline_id s)) u = Inr (ok, v)"
        "settle kv ops (se_env se) u a s d g ok v st = (res, st')"
  using assms unfolding approve_suggestion_def by (auto split: sum.splits)

lemma approve_publishes:
  assumes kv: "kv_collection kv" and "approve_suggestion kv ops se u a s st = (res, st')"
  shows "ss_commands st' = ss_commands st \<or> (\<exists>cmd g. ss_commands st' = ss_commands st @ [cmd] \<and>
      carries kv (ss_store st') cmd g \<and> well_formed_plan g)"
  using assms(2)
proof (cases rule: approve_cases)
  case (settled d g b run ok v)
  have "well_formed_plan g" if ok using settled(1) that candidate_well_formed by simp
  then show ?thesis using settle_publishes[OF kv settled(2) candidate_report[OF settled(1)]] by blast
qed simp

lemma decision_publishes:
  assumes kv: "kv_collection kv" and d: "apply_suggestion_decision kv ops se u sid ok a st = (res, st')"
  shows "ss_commands st' = ss_commands st \<or> (ok \<and> (\<exists>cmd g. ss_commands st' = ss_commands st @ [cmd] \<and>
    carries kv (ss_store st') cmd g \<and> well_formed_plan g))"
proof -
  note app = approve_publishes[OF kv]
  have rej: "ss_commands st2 = ss_commands st1" if "reject_suggestion kv ops se u au rs s st1 = (r, st2)" for au rs s st1 r st2
    using reject_frame(2)[of kv ops se u au rs s st1] that by simp
  have "ss_commands (if given r then st\<lparr>ss_streak := x\<rparr> else st) = ss_commands st" for r x by simp
  with d show ?thesis
    unfolding apply_suggestion_decision_def by (fastforce split: option.splits list.splits if_splits dest: app rej)
qed

text \<open>C37. Whatever is published is a well-formed plan: in every step at most one command is published, its
  payload is stored and holds a well-formed graph with a conforming report, and it comes from an approved
  decision, or from an event when the configuration applies suggestions without a human.\<close>

theorem published_plan_well_formed:
  assumes "kv_collection kv" and "loop_step kv ops i st = (xs, st')" and "ss_commands st' \<noteq> ss_commands st"
  shows "\<exists>cmd g. ss_commands st' = ss_commands st @ [cmd] \<and> carries kv (ss_store st') cmd g \<and> well_formed_plan g \<and>
    (case i of TaskEvent se b ev \<Rightarrow> se_auto_apply se \<or> \<not> se_require_human se | Decision se u sid ok a \<Rightarrow> ok)"
proof (cases i)
  case (TaskEvent se b ev)
  obtain res where h: "handle_task_event kv ops se b ev st = (res, st')"
    using assms(2) TaskEvent by (auto split: prod.splits sum.splits option.splits)
  then show ?thesis
  proof (cases rule: handle_cases)
    case quiet
    then show ?thesis using assms(3) by simp
  next
    case (made u pid rid pp)
    then show ?thesis
      using suggest_publishes[OF assms(1) made(2)] propose_conforms[OF made(1)] assms(3) TaskEvent by auto
  qed
next
  case (Decision se u sid ok a)
  then have "apply_suggestion_decision kv ops se u sid ok a st = (fst (apply_suggestion_decision kv ops se u sid ok a st), st')"
    using assms(2) by auto
  from decision_publishes[OF assms(1) this] assms(3) Decision show ?thesis by auto
qed
subsection \<open>Waiting for a decision\<close>

lemma pause_read:
  assumes "doc_collection ops" and "set_run_pause_state ops e u pid rid b reason sid r = Inr r'"
  shows "\<exists>d. read_run ops u pid rid r' = Inr d \<and> jget d ''paused'' = JBool b"
proof -
  obtain d where "update_run ops u pid rid (pause_doc e b reason sid d) r = Inr r'"
    using assms(2) by (auto simp: set_run_pause_state_def split: sum.splits)
  from doc_collection.read_update(1)[OF assms(1) this] show ?thesis by (auto simp: pause_doc_def)
qed

lemma suggest_pauses:
  assumes "doc_collection ops" and "suggest kv ops se u pid rid pp st = (Inr (Some s), st')"
    and "se_require_human se" and "\<not> se_auto_apply se" and "sg_status s = ''PENDING_REVIEW''"
  shows "\<exists>d. read_run ops u pid rid (ss_runs st') = Inr d \<and> jget d ''paused'' = JBool True"
proof -
  obtain e reason sid where "set_run_pause_state ops e u pid rid True reason sid (ss_runs st) = Inr (ss_runs st')"
    using assms(2-5) by (auto simp: suggest_def Let_def split: option.splits sum.splits if_splits)
  then show ?thesis by (rule pause_read[OF assms(1)])
qed

lemma propose_paused:
  assumes "read_run ops u pid rid (ss_runs st) = Inr d" and "truthy (jget d ''paused'')"
  shows "propose kv ops se ev u pid rid st = Inr None"
  using assms by (simp add: propose_def)

text \<open>A suggestion that waits for a human stops the loop: with human review on, after a suggestion has been
  submitted no event of the run, under any later configuration, makes another suggestion or changes
  anything, as long as the run has not been resumed.\<close>

theorem pending_suggestion_blocks:
  assumes "doc_collection ops" and "handle_task_event kv ops se b ev st = (Inr (Some s), st')"
    and "se_require_human se" and "\<not> se_auto_apply se" and "sg_status s = ''PENDING_REVIEW''"
    and "jget ev' ''username'' = jget ev ''username''" and "jget ev' ''pipeline_id'' = jget ev ''pipeline_id''"
    and "jget ev' ''pipeline_run_id'' = jget ev ''pipeline_run_id''"
  shows "handle_task_event kv ops se' b' ev' st' = (Inr None, st')"
  using assms(2)
proof (cases rule: handle_cases)
  case (made u pid rid pp)
  obtain d where "read_run ops u pid rid (ss_runs st') = Inr d" "jget d ''paused'' = JBool True"
    using suggest_pauses[OF assms(1) made(2) assms(3-5)] by blast
  then have "propose kv ops se' ev' u pid rid st' = Inr None" by (simp add: propose_paused)
  then show ?thesis using made assms(6-8) by (simp add: handle_task_event_def)
qed simp

subsection \<open>Deciding once\<close>

lemma suggestion_roundtrip: "suggestion_of_doc e (with_meta e' ty (suggestion_doc s)) = Some s"
  by (simp add: suggestion_of_doc_def suggestion_doc_def with_meta_def field_def as_opt_def jopt_def split: option.splits)

lemma revision_key_differs: "plan_revision_key u p n \<noteq> key2 ''plan_suggestion'' v q"
  by (simp add: plan_revision_key_def key3_def key2_def)

context kv_collection
begin

lemma save_suggestion_get:
  "kv_get kv (save_suggestion kv e u s c) k =
     (if k = key2 ''plan_suggestion'' u (sg_id s) then Some (with_meta e ''plan_suggestion'' (suggestion_doc (s\<lparr>sg_username := u\<rparr>))) else kv_get kv c k)"
  by (simp add: save_suggestion_def save_plan_suggestion_def save_doc_def get_upsert sfield_def) (simp add: suggestion_doc_def)

lemma save_loop_revision_get:
  "kv_get kv (save_loop_revision kv e u s st cb rs c) (key2 ''plan_suggestion'' v q) = kv_get kv c (key2 ''plan_suggestion'' v q)"
  using revision_key_differs[symmetric]
  by (simp add: save_loop_revision_def loop_revision_def save_plan_revision_get)

lemma decided_final:
  assumes "kv_get kv (ss_store st) (key2 ''plan_suggestion'' u sid) = Some (with_meta e' ty (suggestion_doc s))"
    and "sg_status s \<in> {''APPLIED'', ''REJECTED''}"
  shows "apply_suggestion_decision kv ops se u sid ok a st = (Inr None, st)"
proof -
  have "with_meta e' ty (suggestion_doc s) \<noteq> []" by (simp add: with_meta_def suggestion_doc_def)
  then obtain x xs where x: "with_meta e' ty (suggestion_doc s) = x # xs" by (cases "with_meta e' ty (suggestion_doc s)") auto
  have "suggestion_of_doc (se_env se) (x # xs) = Some s" by (simp flip: x add: suggestion_roundtrip)
  then show ?thesis using assms x by (auto simp: apply_suggestion_decision_def get_plan_suggestion_def)
qed

lemma settle_final:
  assumes "settle kv ops e u a s d g ok v st = (res, st')" and "sg_id s = sid"
  shows "\<exists>s'. kv_get kv (ss_store st') (key2 ''plan_suggestion'' u sid) = Some (with_meta e ''plan_suggestion'' (suggestion_doc s')) \<and>
    sg_status s' \<in> {''APPLIED'', ''REJECTED''}"
proof -
  have "st' = snd (settle kv ops e u a s d g ok v st)" using assms(1) by simp
  then show ?thesis using assms(2)
    by (auto simp: settle_def Let_def case_prod_beta save_loop_revision_get save_suggestion_get intro!: exI)
qed

lemma reject_final:
  assumes "reject_suggestion kv ops se u a rs s st = (res, st')" and "sg_id s = sid"
  shows "\<exists>s'. kv_get kv (ss_store st') (key2 ''plan_suggestion'' u sid) = Some (with_meta (se_env se) ''plan_suggestion'' (suggestion_doc s')) \<and>
    sg_status s' \<in> {''APPLIED'', ''REJECTED''}"
proof -
  have "st' = snd (reject_suggestion kv ops se u a rs s st)" using assms(1) by simp
  then show ?thesis using assms(2)
    by (auto simp: reject_suggestion_def Let_def save_loop_revision_get save_suggestion_get intro!: exI)
qed

end

text \<open>A suggestion is decided once: after a rejection, or after an approval that returned the draft, the
  stored suggestion has a final status, and every later decision on it, either way, returns nothing and
  changes nothing.\<close>

theorem decision_once:
  assumes kv: "kv_collection kv"
    and "get_plan_suggestion kv u sid (ss_store st) = Some (with_meta e' ty (suggestion_doc s))" and "sg_id s = sid"
    and "sg_status s = ''PENDING_REVIEW''"
    and "apply_suggestion_decision kv ops se u sid ok a st = (res, st')" and "\<not> ok \<or> (\<exists>d. res = Inr (Some d))"
  shows "apply_suggestion_decision kv ops se' u sid ok' a' st' = (Inr None, st')"
proof -
  have "with_meta e' ty (suggestion_doc s) \<noteq> []" by (simp add: with_meta_def suggestion_doc_def)
  then obtain x xs where x: "with_meta e' ty (suggestion_doc s) = x # xs" by (cases "with_meta e' ty (suggestion_doc s)") auto
  have s: "suggestion_of_doc (se_env se) (x # xs) = Some s" by (simp flip: x add: suggestion_roundtrip)
  let ?final = "\<exists>s' e. kv_get kv (ss_store st') (key2 ''plan_suggestion'' u sid) = Some (with_meta e ''plan_suggestion'' (suggestion_doc s')) \<and>
    sg_status s' \<in> {''APPLIED'', ''REJECTED''}"
  have ?final
  proof (cases ok)
    case True
    then obtain st1 where "approve_suggestion kv ops se u (author_of a) s st1 = (res, st')"
      using assms(2,4,5) x s by (auto simp: apply_suggestion_decision_def)
    then show ?thesis
    proof (cases rule: approve_cases)
      case quiet
      with assms(6) True show ?thesis by blast
    next
      case (settled d g b run k v)
      with kv_collection.settle_final[OF kv settled(2) assms(3)] show ?thesis by blast
    qed
  next
    case False
    then obtain st1 where "reject_suggestion kv ops se u (author_of a) ''human_rejected'' s st1 = (res, st')"
      using assms(2,4,5) x s by (auto simp: apply_suggestion_decision_def)
    from kv_collection.reject_final[OF kv this assms(3)] show ?thesis by blast
  qed
  then show ?thesis using kv_collection.decided_final[OF kv] by blast
qed

text \<open>An approval whose plan cannot be loaded loses the decision: the caller gets nothing, the suggestion
  stays pending and the run is not resumed; only the streak of rejections is reset.\<close>

theorem approval_without_plan:
  assumes "get_plan_suggestion kv u sid (ss_store st) = Some (with_meta e' ty (suggestion_doc s))"
    and "sg_status s = ''PENDING_REVIEW''" and "get_plan_draft kv u (sg_plan_id s) (ss_store st) = None" and "sg_plan_id s \<noteq> []"
    and "apply_suggestion_decision kv ops se u sid True a st = (res, st')"
  shows "res = Inr None \<and> ss_store st' = ss_store st \<and> ss_runs st' = ss_runs st"
proof -
  have "with_meta e' ty (suggestion_doc s) \<noteq> []" by (simp add: with_meta_def suggestion_doc_def)
  then obtain x xs where x: "with_meta e' ty (suggestion_doc s) = x # xs" by (cases "with_meta e' ty (suggestion_doc s)") auto
  have s: "suggestion_of_doc (se_env se) (x # xs) = Some s" by (simp flip: x add: suggestion_roundtrip)
  have "load_plan_draft kv e u p r (Some (sg_plan_id s)) (ss_store st) = Inl PlanNotFound" for e p r
    using assms(3,4) by (simp add: load_plan_draft_def given_def)
  then show ?thesis using assms(1,2,5) x s
    by (auto simp: apply_suggestion_decision_def approve_suggestion_def split: if_splits)
qed
subsection \<open>Witnesses\<close>

definition demo_se :: strategist_env where
  "demo_se = \<lparr>se_ve = demo_ve, se_it = remdups, se_enabled = True, se_auto_apply = False, se_require_human = True,
     se_min_interval = 5, se_max_suggestions = 10, se_rejection_window = 3, se_stub_mode = True, se_provider = False,
     se_connector = None, se_monotonic = 100\<rparr>"

definition demo_event :: doc where
  "demo_event = [(''status'', JStr ''FAILED''), (''username'', JStr ''ann''), (''pipeline_id'', JStr ''p''),
     (''pipeline_run_id'', JStr ''r''), (''task_id'', JStr ''a'')]"

definition demo_loop :: "((string \<times> doc) list, string \<Rightarrow> doc option) strategist_state" where
  "demo_loop = \<lparr>ss_store = snd (save_plan_draft mem_kv demo_env ''ann'' (draft_doc (demo_draft\<lparr>pd_run_id := Some ''r''\<rparr>)) []),
     ss_runs = [run_key ''ann'' ''p'' ''r'' \<mapsto> [(''status'', JStr ''RUNNING''),
       (''tasks'', JDict [(''a'', JDict [(''status'', JStr ''FAILED'')]), (''b'', JDict [(''status'', JStr ''PENDING'')])])]],
     ss_last = [], ss_counts = [], ss_streak = [], ss_commands = []\<rparr>"

definition demo_handle :: "strategist_env \<Rightarrow> (strategist_error + suggestion option) \<times> ((string \<times> doc) list, string \<Rightarrow> doc option) strategist_state" where
  "demo_handle se = handle_task_event mem_kv mem_docs se False demo_event demo_loop"

definition demo_suggestion :: suggestion where
  "demo_suggestion = the (projr (fst (demo_handle demo_se)))"

lemma demo_handle_made: "demo_handle demo_se = (Inr (Some demo_suggestion), snd (demo_handle demo_se))"
proof -
  have "\<not> isl (fst (demo_handle demo_se)) \<and> projr (fst (demo_handle demo_se)) \<noteq> None" by code_simp
  then show ?thesis by (auto simp: demo_suggestion_def prod_eq_iff sum.expand)
qed

theorem suggestions_bounded_witness:
  "length (filter (\<lambda>s. sg_run_id s = Some ''r'') (fst (loop_run mem_kv mem_docs
     [TaskEvent demo_se False demo_event, Decision demo_se ''ann'' ''uuid'' False None, TaskEvent demo_se False demo_event] demo_loop))) \<le> 10"
  by (rule suggestions_bounded) (simp_all add: demo_loop_def demo_se_def)

theorem published_plan_well_formed_witness:
  "\<exists>cmd g. ss_commands (snd (loop_step mem_kv mem_docs (TaskEvent (demo_se\<lparr>se_auto_apply := True\<rparr>) False demo_event) demo_loop)) =
      ss_commands demo_loop @ [cmd] \<and>
    carries mem_kv (ss_store (snd (loop_step mem_kv mem_docs (TaskEvent (demo_se\<lparr>se_auto_apply := True\<rparr>) False demo_event) demo_loop))) cmd g \<and>
    well_formed_plan g \<and> (se_auto_apply (demo_se\<lparr>se_auto_apply := True\<rparr>) \<or> \<not> se_require_human (demo_se\<lparr>se_auto_apply := True\<rparr>))"
proof -
  have "length (ss_commands (snd (loop_step mem_kv mem_docs (TaskEvent (demo_se\<lparr>se_auto_apply := True\<rparr>) False demo_event) demo_loop))) \<noteq>
      length (ss_commands demo_loop)" by code_simp
  then have "ss_commands (snd (loop_step mem_kv mem_docs (TaskEvent (demo_se\<lparr>se_auto_apply := True\<rparr>) False demo_event) demo_loop)) \<noteq>
      ss_commands demo_loop" by metis
  from published_plan_well_formed[OF mem.kv_collection_axioms prod.collapse[symmetric] this] show ?thesis by simp
qed

theorem pending_suggestion_blocks_witness:
  "handle_task_event mem_kv mem_docs (demo_se\<lparr>se_monotonic := 1000\<rparr>) False demo_event (snd (demo_handle demo_se)) =
     (Inr None, snd (demo_handle demo_se))"
proof (rule pending_suggestion_blocks[OF mem_docs.doc_collection_axioms demo_handle_made[unfolded demo_handle_def[of demo_se]],
      folded demo_handle_def])
  show "sg_status demo_suggestion = ''PENDING_REVIEW''" by code_simp
qed (simp_all add: demo_se_def)

definition demo_pending :: suggestion where
  "demo_pending = \<lparr>sg_id = ''s1'', sg_plan_id = ''plan'', sg_username = ''ann'', sg_pipeline_id = ''p'', sg_run_id = Some ''r'',
     sg_base_revision = 1, sg_candidate_revision = 2, sg_delta = [(''remove_tasks'', JList [JStr ''b''])], sg_graph_spec = [],
     sg_status = ''PENDING_REVIEW'', sg_created_by = None, sg_reason = None, sg_validation = None, sg_created_at = ''t''\<rparr>"

definition demo_waiting :: "(string \<times> doc) list \<Rightarrow> ((string \<times> doc) list, string \<Rightarrow> doc option) strategist_state" where
  "demo_waiting c = demo_loop\<lparr>ss_store := save_suggestion mem_kv demo_env ''ann'' demo_pending c\<rparr>"

lemma demo_waiting_get:
  "get_plan_suggestion mem_kv ''ann'' ''s1'' (ss_store (demo_waiting c)) =
     Some (with_meta demo_env ''plan_suggestion'' (suggestion_doc demo_pending))"
  by (simp add: demo_waiting_def get_plan_suggestion_def mem.save_suggestion_get) (simp add: demo_pending_def)

definition demo_decide :: "bool \<Rightarrow> (string \<times> doc) list \<Rightarrow> (strategist_error + plan_draft option) \<times> ((string \<times> doc) list, string \<Rightarrow> doc option) strategist_state" where
  "demo_decide ok c = apply_suggestion_decision mem_kv mem_docs demo_se ''ann'' ''s1'' ok None (demo_waiting c)"

theorem decision_once_witness:
  "\<not> isl (fst (demo_decide True (ss_store demo_loop))) \<and>
   apply_suggestion_decision mem_kv mem_docs demo_se ''ann'' ''s1'' False (Some ''bob'') (snd (demo_decide True (ss_store demo_loop))) =
     (Inr None, snd (demo_decide True (ss_store demo_loop)))"
proof
  have d: "\<not> isl (fst (demo_decide True (ss_store demo_loop))) \<and> projr (fst (demo_decide True (ss_store demo_loop))) \<noteq> None" by code_simp
  then show "\<not> isl (fst (demo_decide True (ss_store demo_loop)))" ..
  show "apply_suggestion_decision mem_kv mem_docs demo_se ''ann'' ''s1'' False (Some ''bob'') (snd (demo_decide True (ss_store demo_loop))) =
     (Inr None, snd (demo_decide True (ss_store demo_loop)))"
  proof (rule decision_once[OF mem.kv_collection_axioms demo_waiting_get])
    show "apply_suggestion_decision mem_kv mem_docs demo_se ''ann'' ''s1'' True None (demo_waiting (ss_store demo_loop)) =
      (fst (demo_decide True (ss_store demo_loop)), snd (demo_decide True (ss_store demo_loop)))" by (simp add: demo_decide_def)
    show "\<not> True \<or> (\<exists>d. fst (demo_decide True (ss_store demo_loop)) = Inr (Some d))"
      using d by (cases "fst (demo_decide True (ss_store demo_loop))") auto
  qed (simp_all add: demo_pending_def)
qed

theorem approval_without_plan_witness:
  "fst (demo_decide True []) = Inr None \<and> ss_store (snd (demo_decide True [])) = ss_store (demo_waiting []) \<and>
   ss_runs (snd (demo_decide True [])) = ss_runs (demo_waiting [])"
proof (rule approval_without_plan[OF demo_waiting_get])
  show "apply_suggestion_decision mem_kv mem_docs demo_se ''ann'' ''s1'' True None (demo_waiting []) =
    (fst (demo_decide True []), snd (demo_decide True []))" by (simp add: demo_decide_def)
  show "get_plan_draft mem_kv ''ann'' (sg_plan_id demo_pending) (ss_store (demo_waiting [])) = None" by code_simp
qed (simp_all add: demo_pending_def)

end
