(* ===== verification/Cnp_Properties.thy ===== *)
theory Cnp_Properties
  imports Cnp_Scoring
begin

section \<open>What the scores promise\<close>

text \<open>
  Ranges of the parameters and scores, monotonicity of the bid score, and the effect of an outcome on the
  counters and the trust of an agent.
\<close>

subsection \<open>Ranges\<close>

lemma clamp_range: "lo \<le> hi \<Longrightarrow> lo \<le> clamp v lo hi \<and> clamp v lo hi \<le> hi"
  by (auto simp: clamp_def)

lemma clamp_mono: "v \<le> w \<Longrightarrow> clamp v lo hi \<le> clamp w lo hi"
  unfolding clamp_def by (intro max.mono min.mono order_refl)

lemma clamp_id: "lo \<le> v \<Longrightarrow> v \<le> hi \<Longrightarrow> clamp v lo hi = v"
  by (auto simp: clamp_def)

lemma unit_factor_range: "0 \<le> unit_factor j \<and> unit_factor j \<le> 1"
  by (auto simp: unit_factor_def split: option.splits)

lemma policy_factor_range: "0 \<le> policy_factor ce a \<and> policy_factor ce a \<le> 1"
proof -
  let ?f = "unit_factor (jget (jdict (jget (jdict (jget a ''policy'')) ''freshness'')) ''score'') *
      unit_factor (jget (jdict (jget (jdict (jget a ''policy'')) ''decay'')) ''factor'')"
  let ?w = "max 0 (min 1 (ce_policy_weight ce))"
  have "0 \<le> ?f" "?f \<le> 1" using unit_factor_range by (simp_all add: mult_le_one)
  moreover have "0 \<le> ?w" "?w \<le> 1" by auto
  ultimately have "0 \<le> ?w * ?f" "?w * ?f \<le> ?w" by (simp_all add: mult_left_le)
  then show ?thesis using \<open>?w \<le> 1\<close> by (simp add: policy_factor_def Let_def)
qed

lemma failure_penalty_range: "failure_surface_penalty ce ms = Inr r \<Longrightarrow> 0 \<le> r \<and> r \<le> 1"
  by (auto simp: failure_surface_penalty_def bindR_iffs Let_def clamp_range split: if_splits)

text \<open>Every score and parameter of the contract net stays in its range, whatever the documents, the
  metadata and the tuning constants are: trust, thresholds, agent scores, bid scores and failure
  penalties in the unit interval, the priority between 1 and 5, the reward and the capability value in
  \<open>[0.1, 6]\<close>, and the estimated cost of a task is positive when the load is not negative.\<close>

theorem scores_bounded:
  "0 \<le> trust_score ce st \<and> trust_score ce st \<le> 1 \<and>
   0 \<le> response_threshold ce ty st dflt \<and> response_threshold ce ty st dflt \<le> 1 \<and>
   0 \<le> score_agent_for_task ce agent spec \<and> score_agent_for_task ce agent spec \<le> 1 \<and>
   0 \<le> score_bid ce trust cost load tmin tmax lmin lmax h \<and> score_bid ce trust cost load tmin tmax lmin lmax h \<le> 1 \<and>
   0 \<le> update_threshold sti trust al be ok \<and> update_threshold sti trust al be ok \<le> 1 \<and>
   1 \<le> tp_priority (task_params ce spec) \<and> tp_priority (task_params ce spec) \<le> 5 \<and>
   0 \<le> tp_stimulus (task_params ce spec) \<and> tp_stimulus (task_params ce spec) \<le> 1 \<and>
   1 / 10 \<le> tp_reward (task_params ce spec) \<and> tp_reward (task_params ce spec) \<le> 6 \<and>
   1 / 10 \<le> capability_value ce agent spec \<and> capability_value ce agent spec \<le> 6 \<and>
   0 < estimate_cost (tp_reward (task_params ce spec)) (capability_value ce agent spec) (max 0 load) max_load"
proof -
  have r: "1 / 10 \<le> tp_reward (task_params ce spec) \<and> tp_reward (task_params ce spec) \<le> 6"
    unfolding task_params_def Let_def task_parameters.simps by (rule clamp_range) simp
  have c: "1 / 10 \<le> capability_value ce agent spec \<and> capability_value ce agent spec \<le> 6"
    using clamp_range[of "1 / 10 :: real" 6] by (auto simp only: capability_value_def Let_def split: if_split)
  have "0 \<le> of_int (max 0 load) / (of_int (max max_load 1) :: real)" by (simp add: of_int_max)
  then have "0 < estimate_cost (tp_reward (task_params ce spec)) (capability_value ce agent spec) (max 0 load) max_load"
    using r c unfolding estimate_cost_def by (intro mult_pos_pos divide_pos_pos) linarith+
  with r c show ?thesis
    by (simp add: trust_score_def response_threshold_def score_agent_for_task_def score_bid_def update_threshold_def
        task_params_def Let_def clamp_range split: option.splits)
qed

subsection \<open>Comparing bids\<close>

lemma norm_between_mono: "v \<le> w \<Longrightarrow> norm_between v lo hi \<le> norm_between w lo hi"
  by (simp add: norm_between_def divide_right_mono)

definition good_weights :: "cnp_env \<Rightarrow> bool" where
  "good_weights ce \<longleftrightarrow> 0 \<le> ce_lambda3 ce \<and> 0 \<le> ce_lambda4 ce \<and> ce_lambda4 ce \<le> 1 \<and> 0 \<le> ce_lambda7 ce"

definition penalty_of :: "bid_history \<Rightarrow> real" where
  "penalty_of h = (case bh_failure_penalty h of None \<Rightarrow> 0 | Some f \<Rightarrow> max 0 f)"

lemma penalty_term: "(case bh_failure_penalty h of None \<Rightarrow> 0 | Some f \<Rightarrow> if 0 < f then w * f else 0) = w * penalty_of h"
  by (auto simp: penalty_of_def split: option.splits)

text \<open>The bid score is monotone: with nonnegative weights a bidder with at least the trust, at most the cost,
  the load and the failure penalty of another, and otherwise the same history, scores at least as much.\<close>

theorem score_bid_monotone:
  assumes "good_weights ce" and "trust \<le> trust'" and "cost' \<le> cost" and "load' \<le> load"
    and "penalty_of h' \<le> penalty_of h" and "h' = h\<lparr>bh_failure_penalty := bh_failure_penalty h'\<rparr>"
  shows "score_bid ce trust cost load tmin tmax lmin lmax h \<le> score_bid ce trust' cost' load' tmin tmax lmin lmax h'"
proof -
  have h: "bh_success_rate h' = bh_success_rate h" "bh_avg_duration h' = bh_avg_duration h"
      "bh_baseline h' = bh_baseline h" "bh_context_bias h' = bh_context_bias h"
    by (subst assms(6), simp)+
  have "ce_lambda3 ce * trust \<le> ce_lambda3 ce * trust'"
    using assms(1,2) by (simp add: good_weights_def mult_left_mono)
  moreover have "ce_lambda4 ce * norm_between cost' tmin tmax \<le> ce_lambda4 ce * norm_between cost tmin tmax"
    using assms(1,3) by (simp add: good_weights_def mult_left_mono norm_between_mono)
  moreover have "(1 - ce_lambda4 ce) * norm_between (of_int load') (of_int lmin) (of_int lmax) \<le>
      (1 - ce_lambda4 ce) * norm_between (of_int load) (of_int lmin) (of_int lmax)"
    using assms(1,4) by (simp add: good_weights_def mult_left_mono norm_between_mono)
  moreover have "ce_lambda7 ce * penalty_of h' \<le> ce_lambda7 ce * penalty_of h"
    using assms(1,5) by (simp add: good_weights_def mult_left_mono)
  ultimately show ?thesis
    unfolding score_bid_def Let_def h penalty_term by (intro clamp_mono add_mono divide_right_mono order_refl) linarith+
qed

subsection \<open>Outcomes\<close>

definition after_outcome :: "cnp_env \<Rightarrow> doc \<Rightarrow> string \<Rightarrow> real \<Rightarrow> int \<Rightarrow> real \<Rightarrow> bool \<Rightarrow> doc" where
  "after_outcome ce agent ty sti pri rew ok = dict_set ''metadata'' (JDict (update_cnp_metadata ce agent ty sti pri rew ok)) agent"

definition agent_ok :: "cnp_env \<Rightarrow> doc \<Rightarrow> bool" where
  "agent_ok ce agent \<longleftrightarrow> (let st = agent_cnp_state ce agent
     in 0 \<le> cs_tasks_completed st \<and> cs_tasks_completed st \<le> cs_tasks_acquired st \<and> 0 \<le> cs_load st \<and>
        (\<forall>ty j. map_of (cs_thresholds st) ty = Some j \<longrightarrow> (\<exists>r. j = JReal r \<and> 0 \<le> r \<and> r \<le> 1)))"

lemma after_outcome_state:
  "agent_cnp_state ce (after_outcome ce agent ty sti pri rew ok) =
     (let st = agent_cnp_state ce agent; (al, be) = alpha_beta pri rew
      in st\<lparr>cs_tasks_acquired := cs_tasks_acquired st + 1,
            cs_tasks_completed := cs_tasks_completed st + (if ok then 1 else 0),
            cs_load := max (cs_load st - 1) 0,
            cs_thresholds := dict_set ty (JReal (update_threshold sti (trust_score ce st) al be ok)) (cs_thresholds st),
            cs_metadata := update_cnp_metadata ce agent ty sti pri rew ok\<rparr>)"
  by (simp add: agent_cnp_state_def after_outcome_def Let_def case_prod_beta)
    (simp add: update_cnp_metadata_def agent_cnp_state_def Let_def case_prod_beta coerce_int_def)

lemma trust_formula:
  assumes "0 < cs_tasks_received st"
  shows "trust_score ce st = clamp ((ce_lambda1 ce * (of_int (cs_tasks_acquired st) / of_int (cs_tasks_received st)) +
     ce_lambda2 ce * (of_int (cs_tasks_completed st) / of_int (cs_tasks_acquired st))) / max (ce_lambda1 ce + ce_lambda2 ce) (1 / 1000000)) 0 1"
  using assms by (simp add: trust_score_def Let_def add_divide_distrib)

text \<open>An outcome keeps the state of an agent consistent: completed tasks never exceed acquired ones, the load
  is not negative, the learned thresholds are in the unit interval; and a success does not lower the
  trust of the agent when the two trust weights are not negative.\<close>

theorem outcome_keeps_agent_ok:
  assumes "agent_ok ce agent"
  shows "agent_ok ce (after_outcome ce agent ty sti pri rew ok) \<and>
    (ok \<and> 0 \<le> ce_lambda1 ce \<and> 0 \<le> ce_lambda2 ce \<longrightarrow>
       trust_score ce (agent_cnp_state ce agent) \<le> trust_score ce (agent_cnp_state ce (after_outcome ce agent ty sti pri rew ok)))"
proof (intro conjI impI)
  show "agent_ok ce (after_outcome ce agent ty sti pri rew ok)"
    using assms unfolding agent_ok_def after_outcome_state
    by (auto simp: Let_def case_prod_beta update_conv' update_threshold_def clamp_range split: if_splits)
next
  assume w: "ok \<and> 0 \<le> ce_lambda1 ce \<and> 0 \<le> ce_lambda2 ce"
  let ?st = "agent_cnp_state ce agent" and ?st' = "agent_cnp_state ce (after_outcome ce agent ty sti pri rew ok)"
  let ?c = "cs_tasks_received ?st" and ?a = "cs_tasks_acquired ?st" and ?t = "cs_tasks_completed ?st"
  have s: "cs_tasks_received ?st' = ?c" "cs_tasks_acquired ?st' = ?a + 1" "cs_tasks_completed ?st' = ?t + 1"
    using w by (simp_all add: after_outcome_state Let_def case_prod_beta)
  have ok: "0 \<le> ?t" "?t \<le> ?a" using assms by (simp_all add: agent_ok_def Let_def)
  show "trust_score ce ?st \<le> trust_score ce ?st'"
  proof (cases "0 < ?c")
    case True
    have "real_of_int ?t / real_of_int ?a \<le> real_of_int (?t + 1) / real_of_int (?a + 1)"
    proof (cases "?a = 0")
      case False
      then have "real_of_int ?t * real_of_int (?a + 1) \<le> real_of_int (?t + 1) * real_of_int ?a"
        using ok by (simp add: algebra_simps)
      then show ?thesis using False ok by (simp add: frac_le_eq divide_simps mult.commute)
    qed (use ok in simp)
    moreover have "real_of_int ?a / real_of_int ?c \<le> real_of_int (?a + 1) / real_of_int ?c"
      using True by (simp add: divide_right_mono)
    ultimately show ?thesis
      using w True unfolding trust_formula[OF True] trust_formula[of ?st', unfolded s, OF True]
      by (intro clamp_mono divide_right_mono add_mono mult_left_mono) (auto simp: max_def)
  qed (simp add: trust_score_def s Let_def)
qed

text \<open>A failure can raise the trust: an agent that has completed nothing and has outcomes for fewer tasks than
  it received is trusted strictly more after it fails one more.\<close>

theorem failure_raises_trust:
  assumes "cs_tasks_completed (agent_cnp_state ce agent) = 0" and "0 \<le> cs_tasks_acquired (agent_cnp_state ce agent)"
    and "cs_tasks_acquired (agent_cnp_state ce agent) < cs_tasks_received (agent_cnp_state ce agent)"
    and "1 / 1000000 \<le> ce_lambda1 ce" and "0 \<le> ce_lambda2 ce"
  shows "trust_score ce (agent_cnp_state ce agent) <
    trust_score ce (agent_cnp_state ce (after_outcome ce agent ty sti pri rew False))"
proof -
  let ?st = "agent_cnp_state ce agent" and ?st' = "agent_cnp_state ce (after_outcome ce agent ty sti pri rew False)"
  let ?c = "cs_tasks_received ?st" and ?a = "cs_tasks_acquired ?st" and ?w = "ce_lambda1 ce / (ce_lambda1 ce + ce_lambda2 ce)"
  have s: "cs_tasks_received ?st' = ?c" "cs_tasks_acquired ?st' = ?a + 1" "cs_tasks_completed ?st' = 0"
    using assms(1) by (simp_all add: after_outcome_state Let_def case_prod_beta)
  have c: "0 < ?c" using assms(2,3) by linarith
  have t: "max (ce_lambda1 ce + ce_lambda2 ce) (1 / 1000000) = ce_lambda1 ce + ce_lambda2 ce" using assms(4,5) by linarith
  have w: "0 < ?w" "?w \<le> 1" using assms(4,5) by (simp_all add: divide_simps)
  have r: "0 \<le> real_of_int b / real_of_int ?c" "real_of_int b / real_of_int ?c \<le> 1" if "0 \<le> b" "b \<le> ?c" for b
    using that c by (simp_all add: divide_simps)
  have f: "trust_score ce x = ?w * (real_of_int b / real_of_int ?c)"
    if "cs_tasks_received x = ?c" "cs_tasks_acquired x = b" "cs_tasks_completed x = 0" "0 \<le> b" "b \<le> ?c" for x b
  proof -
    have "trust_score ce x = clamp (?w * (real_of_int b / real_of_int ?c)) 0 1"
      using that c trust_formula[of x ce] by (simp add: t mult.commute)
    moreover have "0 \<le> ?w * (real_of_int b / real_of_int ?c)" "?w * (real_of_int b / real_of_int ?c) \<le> 1"
      using r[OF that(4,5)] w by (rule_tac mult_nonneg_nonneg, simp_all only: less_imp_le mult_le_one)
    ultimately show ?thesis by (simp only: clamp_id)
  qed
  have "trust_score ce ?st = ?w * (real_of_int ?a / real_of_int ?c)"
    using f[of ?st ?a] assms(1-3) by simp
  moreover have "trust_score ce ?st' = ?w * (real_of_int (?a + 1) / real_of_int ?c)"
    using f[of ?st' "?a + 1"] s assms(2,3) by simp
  moreover have "real_of_int ?a / real_of_int ?c < real_of_int (?a + 1) / real_of_int ?c"
    using c by (simp add: divide_strict_right_mono)
  ultimately show ?thesis using w(1) by (simp only: mult_strict_left_mono)
qed
subsection \<open>Witnesses\<close>

definition demo_ce :: cnp_env where
  "demo_ce = \<lparr>ce_float = (\<lambda>_. None), ce_int = (\<lambda>_. None), ce_repr = (\<lambda>_. []), ce_hierarchy = [(''file_read'', ''data_read'')],
     ce_policy_weight = 1 / 4, ce_lmax_default = 3, ce_threshold_default = 1 / 2, ce_lambda1 = 1 / 2, ce_lambda2 = 1 / 2,
     ce_lambda3 = 3 / 5, ce_lambda4 = 3 / 5, ce_lambda5 = 3 / 20, ce_lambda6 = 1 / 10, ce_lambda7 = 1 / 4,
     ce_lambda_bandit = 1 / 5, ce_failure_max_penalty = 4 / 5, ce_failure_decay = 7 / 20\<rparr>"

definition demo_agent :: doc where
  "demo_agent = [(''agent_id'', JStr ''x''), (''metadata'', JDict [(''cnp'', JDict [(''tasks_received'', JInt 2)])])]"

definition no_history :: bid_history where
  "no_history = \<lparr>bh_success_rate = None, bh_avg_duration = None, bh_baseline = None, bh_failure_penalty = None, bh_context_bias = None\<rparr>"

lemma demo_agent_state:
  "cs_tasks_received (agent_cnp_state demo_ce demo_agent) = 2" "cs_tasks_acquired (agent_cnp_state demo_ce demo_agent) = 0"
  "cs_tasks_completed (agent_cnp_state demo_ce demo_agent) = 0" "cs_load (agent_cnp_state demo_ce demo_agent) = 0"
  "cs_thresholds (agent_cnp_state demo_ce demo_agent) = []"
  by (simp_all add: agent_cnp_state_def demo_agent_def Let_def coerce_int_def)

theorem score_bid_monotone_witness:
  "score_bid demo_ce (1 / 5) 2 1 1 3 0 2 (no_history\<lparr>bh_failure_penalty := Some 1\<rparr>) \<le> score_bid demo_ce (1 / 2) 1 0 1 3 0 2 no_history"
  by (rule score_bid_monotone) (simp_all add: good_weights_def demo_ce_def no_history_def penalty_of_def)

theorem outcome_keeps_agent_ok_witness:
  "agent_ok demo_ce (after_outcome demo_ce demo_agent ''plan'' (1 / 2) 3 1 True) \<and>
   trust_score demo_ce (agent_cnp_state demo_ce demo_agent) \<le>
     trust_score demo_ce (agent_cnp_state demo_ce (after_outcome demo_ce demo_agent ''plan'' (1 / 2) 3 1 True))"
proof -
  have "agent_ok demo_ce demo_agent" by (simp add: agent_ok_def demo_agent_state Let_def)
  from outcome_keeps_agent_ok[OF this, of "''plan''" "1 / 2" 3 1 True] show ?thesis by (simp add: demo_ce_def)
qed

theorem failure_raises_trust_witness:
  "trust_score demo_ce (agent_cnp_state demo_ce demo_agent) <
     trust_score demo_ce (agent_cnp_state demo_ce (after_outcome demo_ce demo_agent ''plan'' (1 / 2) 3 1 False))"
  by (rule failure_raises_trust) (simp_all add: demo_agent_state, simp_all add: demo_ce_def)

end
