(* ===== verification/Coalition_Properties.thy ===== *)
theory Coalition_Properties
  imports Coalition
begin

section \<open>Correctness of coalitions\<close>

text \<open>
  The abstract specification of an execution: the planned calls are the steps of the contract in order, dealt
  to the members in turn; the legal ones are those before the first hand-over too many; the legal calls are
  chained, each fed with the result of the one before, and a call that raises leads to the solo fallback or to
  an abort. The executor is proved to refine it.
\<close>

datatype verdict = Completed | SoloFallback | Aborted | TooManyHandoffs | TimedOut

definition verdict_of :: "coalition_outcome \<Rightarrow> verdict" where
  "verdict_of oc = (case co_failure oc of
       None \<Rightarrow> Completed
     | Some FallbackToSolo \<Rightarrow> SoloFallback
     | Some CoalitionAborted \<Rightarrow> Aborted
     | Some HandoffValidationFailed \<Rightarrow> TooManyHandoffs
     | Some PartnerTimeout \<Rightarrow> TimedOut)"

fun chain :: "(string \<Rightarrow> json \<Rightarrow> json \<Rightarrow> 'w \<Rightarrow> json option \<times> 'w) \<Rightarrow> (string \<times> json) list \<Rightarrow> json \<Rightarrow> 'w \<Rightarrow> json option \<times> 'w" where
  "chain step [] out w = (Some out, w)"
| "chain step ((a, s) # cs) out w = (case step a s out w of
       (Some r, w') \<Rightarrow> chain step cs r w'
     | (None, w') \<Rightarrow> (None, w'))"

definition planned :: "contract \<Rightarrow> nat \<Rightarrow> json list \<Rightarrow> (nat \<times> string \<times> json) list" where
  "planned ct i steps = map (\<lambda>(j, s). (j, mb_agent_id (member_at ct j), s)) (List.enumerate i steps)"

definition handovers :: "contract \<Rightarrow> nat \<Rightarrow> int" where
  "handovers ct i = int (length (filter (switches_at ct) [0..<i]))"

definition legal :: "contract \<Rightarrow> int \<Rightarrow> nat \<Rightarrow> json list \<Rightarrow> (nat \<times> string \<times> json) list" where
  "legal ct max_handoffs i steps =
     takeWhile (\<lambda>(j, _). switches_at ct j \<longrightarrow> handovers ct (Suc j) \<le> max_handoffs) (planned ct i steps)"

definition solo_agent :: "contract \<Rightarrow> string option" where
  "solo_agent ct =
     (if dict_get (ct_fallback ct) ''mode'' (JStr ''fail_fast'') = JStr ''degrade_to_solo'' \<and>
         truthy (jget (ct_fallback ct) ''preferred_agent_id'')
      then Some (jstr (jget (ct_fallback ct) ''preferred_agent_id'')) else None)"

definition coalition_spec :: "(string \<Rightarrow> json \<Rightarrow> json \<Rightarrow> 'w \<Rightarrow> json option \<times> 'w) \<Rightarrow> contract \<Rightarrow> json \<Rightarrow> int \<Rightarrow> nat \<Rightarrow> json \<Rightarrow> json list
    \<Rightarrow> 'w \<Rightarrow> verdict \<times> 'w" where
  "coalition_spec step ct message max_handoffs i out steps w =
     (let calls = legal ct max_handoffs i steps
      in case chain step (map snd calls) out w of
           (Some _, w') \<Rightarrow> (if length calls = length steps then Completed else TooManyHandoffs, w')
         | (None, w') \<Rightarrow> (case solo_agent ct of
               None \<Rightarrow> (Aborted, w')
             | Some a \<Rightarrow> (case step a (JStr ''solo_fallback'') message w' of
                   (Some _, w'') \<Rightarrow> (SoloFallback, w'')
                 | (None, w'') \<Rightarrow> (Aborted, w''))))"

lemma verdict_make_outcome [simp]:
  "verdict_of (make_outcome ct tsig ok r f el q fs) = (case fs of None \<Rightarrow> Completed | Some FallbackToSolo \<Rightarrow> SoloFallback
     | Some CoalitionAborted \<Rightarrow> Aborted | Some HandoffValidationFailed \<Rightarrow> TooManyHandoffs | Some PartnerTimeout \<Rightarrow> TimedOut)"
  "co_success (make_outcome ct tsig ok r f el q fs) = ok"
  by (simp_all add: verdict_of_def make_outcome_def)

lemma handovers_Suc: "handovers ct (Suc i) = handovers ct i + (if switches_at ct i then 1 else 0)"
  by (simp add: handovers_def)

lemma legal_Cons: "legal ct m i (s # ss) = (if switches_at ct i \<longrightarrow> handovers ct (Suc i) \<le> m
    then (i, mb_agent_id (member_at ct i), s) # legal ct m (Suc i) ss else [])"
  by (simp add: legal_def planned_def)

lemma step_failed_spec:
  "(verdict_of (fst (step_failed step clock ct tsig message t0 w)), snd (step_failed step clock ct tsig message t0 w)) =
     (case solo_agent ct of None \<Rightarrow> (Aborted, w)
      | Some a \<Rightarrow> (case step a (JStr ''solo_fallback'') message w of (Some _, w'') \<Rightarrow> (SoloFallback, w'') | (None, w'') \<Rightarrow> (Aborted, w'')))"
  by (auto simp: step_failed_def solo_agent_def Let_def split: option.splits prod.splits)

lemma run_steps_spec:
  assumes "\<And>w'. (clock w' - t0) * 1000 \<le> of_int timeout" and "handoffs = handovers ct i"
  shows "(verdict_of (fst (run_steps step clock ct tsig message t0 timeout m i handoffs out ss w)),
      snd (run_steps step clock ct tsig message t0 timeout m i handoffs out ss w)) = coalition_spec step ct message m i out ss w"
  using assms(2)
proof (induction ss arbitrary: i handoffs out w)
  case (Cons s ss)
  have t: "\<not> of_int timeout < (clock w - t0) * 1000" using assms(1)[of w] by simp
  show ?case
  proof (cases "switches_at ct i \<longrightarrow> handovers ct (Suc i) \<le> m")
    case True
    then show ?thesis
    proof (cases "step (mb_agent_id (member_at ct i)) s out w")
      case (Pair r w')
      then show ?thesis
        using True t Cons.IH[of _ "Suc i"] step_failed_spec[of step clock ct tsig message t0 w'] Cons.prems
        by (cases r) (auto simp: coalition_spec_def legal_Cons handovers_Suc Let_def split: option.splits)
    qed
  next
    case False
    then show ?thesis using t Cons.prems by (auto simp: coalition_spec_def legal_Cons handovers_Suc Let_def)
  qed
qed (simp add: coalition_spec_def legal_def planned_def)
lemma step_failed_success:
  "co_success (fst (step_failed step clock ct tsig message t0 w)) \<longleftrightarrow>
     verdict_of (fst (step_failed step clock ct tsig message t0 w)) \<in> {Completed, SoloFallback}"
  by (auto simp: step_failed_def Let_def split: option.splits prod.splits)

lemma run_steps_success:
  "co_success (fst (run_steps step clock ct tsig message t0 timeout m i handoffs out ss w)) \<longleftrightarrow>
     verdict_of (fst (run_steps step clock ct tsig message t0 timeout m i handoffs out ss w)) \<in> {Completed, SoloFallback}"
proof (induction ss arbitrary: i handoffs out w)
  case (Cons s ss)
  show ?case
  proof (cases "step (mb_agent_id (member_at ct i)) s out w")
    case (Pair r w')
    then show ?thesis
      using Cons.IH step_failed_success[of step clock ct tsig message t0 w'] by (cases r) (auto simp: Let_def)
  qed
qed simp


definition pair_contract :: contract where
  "pair_contract = \<lparr>ct_id = ''c1'', ct_task_id = ''t1'', ct_members = [\<lparr>mb_agent_id = ''p'', mb_role = RolePlanner\<rparr>,
     \<lparr>mb_agent_id = ''v'', mb_role = RoleVerifier\<rparr>],
     ct_execution_plan = [(''steps'', JList [JStr ''generate'', JStr ''verify'', JStr ''finalize'', JStr ''verify''])],
     ct_timeouts = [], ct_fallback = []\<rparr>"

definition plain_cnp :: cnp_env where
  "plain_cnp = \<lparr>ce_float = (\<lambda>s. None), ce_int = (\<lambda>s. None), ce_repr = (\<lambda>j. []), ce_hierarchy = [], ce_policy_weight = 1,
     ce_lmax_default = 5, ce_threshold_default = 1 / 2, ce_lambda1 = 1, ce_lambda2 = 1, ce_lambda3 = 1, ce_lambda4 = 1 / 2,
     ce_lambda5 = 0, ce_lambda6 = 0, ce_lambda7 = 0, ce_lambda_bandit = 0, ce_failure_max_penalty = 1, ce_failure_decay = 1\<rparr>"


end
