(* ===== verification/Spec2Isabelle.thy ===== *)
theory Spec2Isabelle
  imports Service_Properties Runtime_Policy Fan_In_Properties Run_Properties Competing_Properties Client_Properties Workflow_Properties Tracker_Properties Strategist_Properties Cnp_Properties Registry_Properties
    Market_System Coalition_Properties
begin

text \<open>
  \<^bold>\<open>A verification development for agentcy.\<close>

  agentcy runs pipelines of agents. A pipeline is a directed graph of tasks; the parser checks it and derives
  the message topology; a run is launched, its tasks are forwarded from service to service, and a tracker follows it. Beside it stands a
  multi-agent track: task specifications, stigmergic markers, bids and awards live in a shared marker store;
  agents are kept in a registry; a contract net collects bids; a graph builder turns them into a plan; a validator, an ethics gate and a human gate
  check it; an executor launches its tasks; a strategist loop revises the plan of a running pipeline; a pheromone engine and a bandit learner feed
  outcomes back; and a task may be given to a coalition of agents. All code named below is under \<^verbatim>\<open>src/src/agentcy\<close>.

  \<^bold>\<open>The base.\<close>
  \<^item> \<open>Prelude\<close>, \<open>Json\<close>: Python dictionaries as association lists in insertion order, sets with an arbitrary
    iteration order (\<open>set_iteration\<close>), worklists (locale \<open>worklist\<close>, interpreted for both ends), results
    as sums (\<open>bindR\<close>, \<open>mapR\<close>), dynamic values with truth tests, \<^verbatim>\<open>or\<close>, \<^verbatim>\<open>str\<close>, stable sorting, and the
    reading of validated model fields.
  \<^item> \<open>Effects\<close>: handlers that write to a store and can raise, as functions of the state (\<open>bindS\<close>, \<open>forS\<close>), with lemmas that carry
    a relation between the states before and after through them.
  \<^item> \<open>Kahn\<close>: the algorithm of Kahn on graphs as dictionaries, with either end of the worklist, shared by the
    parser and the plan validator.
  \<^item> \<open>Kv_Store\<close>, \<open>Graph_Marker_Store\<close>, \<open>Store_Properties\<close>: the document collection as a parameter with the
    laws of the locale \<open>kv_collection\<close> (interpreted on a collection in memory), and
    \<^verbatim>\<open>orchestrator_core/stores/graph_marker_store.py\<close>: round trips, separation of users, defects of listings, and the evaluation sequence
    that tries each candidate once (\<open>reforward_tries_each_once\<close>).
  \<^item> \<open>Market_Models\<close>: task specifications, markers and reports of \<^verbatim>\<open>multi_agent_pipeline.py\<close>.

  \<^bold>\<open>Pipelines and runs.\<close>
  \<^item> \<open>Workflow_Config\<close>, \<open>Workflow_Levels\<close>, \<open>Workflow_Topology\<close>, \<open>Workflow_Properties\<close>:
    \<^verbatim>\<open>rabbitmq_workflow/workflow_config_parser.py\<close>, one definition per method of
    \<^verbatim>\<open>ConfigParser\<close>: acceptance exactly of well-formed pipelines, topological order, levels by
    longest path, bindings per edge, fan-in metadata, and the truth of every reported error.
  \<^item> \<open>Consumer_Config\<close>, \<open>Delivery_Properties\<close>: the configuration of a service (\<^verbatim>\<open>consumer_wrapper.py\<close>, \<^verbatim>\<open>pub_wrapper.py\<close>), the binding of its
    queues and the publication of a result: the copies of a message that arrive are one per edge of the task (locale \<open>exchange_routing\<close>).
  \<^item> \<open>Fan_In\<close>, \<open>Fan_In_Properties\<close>: the consumer of \<^verbatim>\<open>pika_queue.py\<close> and the handlers of \<^verbatim>\<open>consumers/task_dispatch.py\<close>: messages are joined
    exactly when all required steps have sent one, over all sequences of messages.
  \<^item> \<open>Run_Store\<close>, \<open>Dedupe\<close>, \<open>Tracker\<close>, \<open>Tracker_Properties\<close>: run documents
    (\<^verbatim>\<open>ephemeral_pipeline_store.py\<close>, locale \<open>doc_collection\<close>) and \<^verbatim>\<open>agent_runtime/tracker.py\<close>, with the
    dedupe set, over lists of events: statuses only move forward, stop commands at most
    once, completion with the final tasks, repeated events dropped, and three defects.
  \<^item> \<open>Competing_Service\<close>, \<open>Competing_Properties\<close>, \<open>Forwarder\<close>, \<open>Forwarder_Properties\<close>: \<^verbatim>\<open>agent_runtime/forwarder.py\<close> whole, with
    \<^verbatim>\<open>couchbase_doc_store.py\<close> and \<^verbatim>\<open>publishing_utilites.py\<close>: the inline contract net awards the best agent, a forward publishes an outcome
    whatever the agents answer, its calls go to one agent, and outputs are read back (locale \<open>output_store\<close>).
  \<^item> \<open>Run_Launch\<close>, \<open>Run_Properties\<close>: \<^verbatim>\<open>runner.py\<close>, \<^verbatim>\<open>event_handler.py\<close>, \<^verbatim>\<open>consumers.py\<close> and \<^verbatim>\<open>run_mover.py\<close>: how often a launched run starts its
    entry tasks, what a launch waits for, and that archiving loses no run (locale \<open>removable_collection\<close>).

  \<^bold>\<open>The multi-agent track.\<close>
  \<^item> \<open>Agent_Registry\<close>, \<open>Registry_Properties\<close>: \<^verbatim>\<open>agent_registry_store.py\<close> and
    \<^verbatim>\<open>agent_registry_policy.py\<close>: how long a heartbeat keeps an agent listed.
  \<^item> \<open>Registry_Client\<close>, \<open>Client_Properties\<close>: \<^verbatim>\<open>registry_client.py\<close> against a server given by its operations, and the end points of
    \<^verbatim>\<open>routers/agent_registry.py\<close> as one: the registry follows the counter of the client.
  \<^item> \<open>Cnp_Scoring\<close>, \<open>Cnp_Properties\<close>: \<^verbatim>\<open>cnp_utils.py\<close>, \<^verbatim>\<open>agent_utils.py\<close> and
    \<^verbatim>\<open>semantic/capability_taxonomy.py\<close>: ranges and monotonicity of the scores, the state of an agent, and a defect of the trust.
  \<^item> \<open>Bandit_Learner\<close>, \<open>Bandit_Properties\<close>: \<^verbatim>\<open>bandit_learner.py\<close>: what a model keeps while it learns.
  \<^item> \<open>Blueprint_Bidder\<close>, \<open>Bidder_Properties\<close>, \<open>Contract_Net_Cycle\<close>, \<open>Cycle_Frames\<close>, \<open>Cycle_Properties\<close>, \<open>Contract_Net_Properties\<close>:
    \<^verbatim>\<open>blueprint_bidder.py\<close>, \<^verbatim>\<open>cnp_manager.py\<close>, \<^verbatim>\<open>cnp_lifecycle.py\<close> and \<^verbatim>\<open>path_seeder.py\<close>: calls are never overbooked, a cycle runs to its end, and
    a cycle awards nothing.
  \<^item> \<open>Graph_Builder\<close>, \<open>Builder_Properties\<close>: \<^verbatim>\<open>graph_builder.py\<close>: the award goes to the first of
    the ranked candidates, and every task is awarded once.
  \<^item> \<open>Plan_Validator\<close>, \<open>Plan_Validity\<close>: \<^verbatim>\<open>plan_validator.py\<close> and \<^verbatim>\<open>plan_utils.py\<close>: the
    report conforms exactly for well-formed plans, cycles, and the stored verdict.
  \<^item> \<open>Plan_Revision\<close>, \<open>Revision_Safety\<close>, \<open>Strategist_Loop\<close>, \<open>Strategist_Properties\<close>:
    \<^verbatim>\<open>plan_revision_utils.py\<close>, \<^verbatim>\<open>consumers/plan_revision.py\<close> and \<^verbatim>\<open>llm_strategist_loop.py\<close>:
    what a revision may change while tasks run, the effect of a delta, bounded numbers of
    suggestions, published plans are well formed, decisions are final, and a lost approval.
  \<^item> \<open>Ethics_Gate\<close>, \<open>Gate_Properties\<close>: \<^verbatim>\<open>ethics_checker.py\<close>, \<^verbatim>\<open>ethics_policy_config.py\<close> and \<^verbatim>\<open>consumers/ethics_re_evaluation.py\<close>: what the
    rules approve, and that reviewing again ends.
  \<^item> \<open>Plan_Execution\<close>, \<open>Execution_Properties\<close>: \<^verbatim>\<open>system_executor.py\<close>: the verdict of the gate decides whether a plan runs, outcomes match the
    commands published, and the report stored is what the pheromone engine reads.
  \<^item> \<open>Plan_Services\<close>, \<open>Service_Properties\<close>: \<^verbatim>\<open>human_validator.py\<close>, \<^verbatim>\<open>failure_escalation.py\<close>, \<^verbatim>\<open>audit_logger.py\<close>, \<^verbatim>\<open>input_validator.py\<close>, \<^verbatim>\<open>plan_cache.py\<close>.
  \<^item> \<open>Runtime_Policy\<close>: \<^verbatim>\<open>runtime_policy.py\<close>: the policy its nine rules leave, in closed form.
  \<^item> \<open>Pheromone\<close>, \<open>Pheromone_Properties\<close>: \<^verbatim>\<open>pheromone_engine.py\<close>: failures of a report do not
    reach the registry; the markers stay valid and in their bounds.
  \<^item> \<open>Coalition\<close>, \<open>Coalition_Properties\<close>: \<^verbatim>\<open>coalition_scorer.py\<close>, \<^verbatim>\<open>coalition_assembler.py\<close> and
    \<^verbatim>\<open>coalition_executor.py\<close>: the executor refines a specification by chained calls (\<open>coalition_refines_spec\<close>).
  \<^item> \<open>Market_System\<close> and this theory: the components that share the marker store as one step relation
    (\<open>market_step\<close>), frame lemmas for the keys each component writes, and the invariant of all interleavings
    by rule induction (locale \<open>invariant_system\<close>, a sublocale of \<open>kv_collection\<close>): re-forwarding by the
    tracker follows the ranking of the builder, and the markers stay valid in every reachable state.

  \<^bold>\<open>How the parts interact.\<close> A launched run is announced; every service binds its queues from the configuration the parser derived,
  and the forwarder of an entry task publishes over the bindings of its edges to the fan-in of the next service. The forwarder asks the tracker
  whether a failed task is tried again, and stores markers that the contract net scores. The builder reads the bids, writes awards,
  evaluation sequences and the draft into the marker store and the load of the agents into the registry; the
  tracker advances the evaluation sequence on a failure; validator and strategist read and write the draft and
  the run document; the ethics gate stores checks that the executor reads, and the executor stores the report the pheromone engine
  reads, which updates markers and registry. These calls are calls of the same definitions in the model: \<open>forward\<close> uses \<open>run_auction\<close> and \<open>on_task_done\<close>,
  \<open>on_pipeline_event\<close> uses \<open>forward\<close>, \<open>handle_run_cnp_cycle\<close> uses the bidder and \<open>build_plan_draft\<close>, which uses \<open>heartbeat\<close>, \<open>list_agents\<close>
  and the operations of the marker store, \<open>run_pheromone\<close> uses \<open>update_cnp_metadata\<close> and \<open>get_agent\<close>,
  \<open>on_task_done\<close> uses \<open>advance_evaluation_sequence\<close>.

  \<^bold>\<open>Modelling choices.\<close> A raise is \<open>Inl\<close> of an error type; the state after an exception that leaves a handler is
  not described unless the definition returns it. Floats are exact reals and integers are unbounded, as in
  Python. The clock is read once per operation. Couchbase, message brokers, language models, RDF and SHACL
  libraries, linear solvers, HTTP, identifiers, random draws and the environment are arguments; the laws the code relies on are the assumptions of the locales above,
  each interpreted on a model in memory. Logs, traces and spans are left out. Text whose case is changed is ASCII. Validation of a pydantic model accepts the
  dumps of the model; the coercions between types are not modelled.

  \<^bold>\<open>Bounds and fuel.\<close> Loops are structural recursion or functions with a
  measure. \<open>expand_capabilities\<close> is bounded by the depth \<^verbatim>\<open>_MAX_DEPTH\<close> that the source itself has; the rounds of a forward, of a cycle and of a launch that waits are
  bounded by the counters of the source. The queue of re-evaluations, which has no counter of its own, is a \<open>partial_function\<close>, and
  \<open>re_evaluations_end\<close> proves that it returns.

  \<^bold>\<open>Not modelled.\<close> The registration call of \<^verbatim>\<open>agent_registration.py\<close>, the supervisor agent and the first strategy, which are mostly prompts to a language model, the template matcher and the topology
  generator, and the stores of catalogs, templates, services and pipelines, which only pass documents through to Couchbase. The other API routers, the language model connectors, the
  RDF layer, the message bus, container, discovery and observability wrappers, the demo agents, the evaluation
  scripts and the frontend are I/O, third-party wrappers or examples and are left out.
\<close>

section \<open>Properties across components\<close>

definition two_bid_store :: "(string \<times> doc) list" where
  "two_bid_store =
     [(key2 ''task_spec'' ''ann'' ''t1'', [(''task_id'', JStr ''t1''), (''username'', JStr ''ann''), (''description'', JStr ''d'')]),
      (key3 ''bid'' ''ann'' ''t1'' ''a1'', [(''task_id'', JStr ''t1''), (''bidder_id'', JStr ''a1''), (''bid_score'', JReal (1 / 2)),
        (''pipeline_id'', JStr ''pipe'')]),
      (key3 ''bid'' ''ann'' ''t1'' ''a2'', [(''task_id'', JStr ''t1''), (''bidder_id'', JStr ''a2''), (''bid_score'', JReal (3 / 4)),
        (''pipeline_id'', JStr ''pipe'')])]"

text \<open>C29. Re-forwarding follows the ranking of the builder: once the graph builder has saved a plan, the tracker's
  calls of \<^verbatim>\<open>advance_evaluation_sequence\<close> for a task with at least two qualifying bids return its second, third
  and further bids by descending score (the first has the award), each once, and then \<^verbatim>\<open>None\<close>.\<close>

theorem reforwarding_follows_ranking:
  assumes "kv_collection kv"
    and "build_plan_draft kv ops be u pid rid only (Some c) registry runs = Inr (draft, c', registry', runs')"
    and "bs = py_sort (bid_score_of (be_cnp be)) True (filter (\<lambda>b. qualifies (be_cnp be) (bid_filter_of be (open_calls kv u only c)) b \<and>
      jget b ''task_id'' = JStr t) (pipeline_bids kv u pid rid c))" and "1 < length bs"
  shows "advances kv e u t (pd_plan_id draft) n c' = map (\<lambda>k. Inr (if k < length bs
    then Some (dict_set ''sequence_index'' (JInt (int k)) (jdict (sequence_candidate (be_cnp be) (bs ! k)))) else None)) [1..<Suc n]"
proof -
  obtain d where "kv_get kv c' (eval_seq_key u t (pd_plan_id draft)) = Some d"
    and "jget d ''candidates'' = JList (map (sequence_candidate (be_cnp be)) bs)" and "jget d ''current_index'' = JInt (int 0)"
    using build_holds_sequence[OF assms(1,2) assms(3)[folded task_bids_def] assms(4)] by (auto simp: holds_sequence_def)
  from advances_from[OF assms(1) this, of e n] show ?thesis by (simp del: upt_Suc cong: if_cong)
qed

theorem reforwarding_follows_ranking_witness:
  "\<exists>draft c' registry' runs'. build_plan_draft mem_kv mem_docs small_builder ''ann'' ''pipe'' None [] (Some two_bid_store) None None =
     Inr (draft, c', registry', runs') \<and>
   map (\<lambda>r. case r of Inr (Some d) \<Rightarrow> jget d ''bidder_id'' | _ \<Rightarrow> JNull) (advances mem_kv demo_env ''ann'' ''t1'' (pd_plan_id draft) 2 c') =
     [JStr ''a1'', JNull]"
proof -
  have "(case build_plan_draft mem_kv mem_docs small_builder ''ann'' ''pipe'' None [] (Some two_bid_store) None None of
      Inr _ \<Rightarrow> True | Inl _ \<Rightarrow> False)" by code_simp
  then obtain draft c' rg rn where b: "build_plan_draft mem_kv mem_docs small_builder ''ann'' ''pipe'' None [] (Some two_bid_store) None None =
      Inr (draft, c', rg, rn)" by (auto split: sum.splits)
  define bs where "bs = py_sort (bid_score_of (be_cnp small_builder)) True (filter (\<lambda>b. qualifies (be_cnp small_builder)
      (bid_filter_of small_builder (open_calls mem_kv ''ann'' [] two_bid_store)) b \<and> jget b ''task_id'' = JStr ''t1'')
      (pipeline_bids mem_kv ''ann'' ''pipe'' None two_bid_store))"
  have names: "map (\<lambda>b. jget b ''bidder_id'') bs = [JStr ''a2'', JStr ''a1'']" unfolding bs_def by code_simp
  then obtain b0 b1 where two: "bs = [b0, b1]" and b1: "jget b1 ''bidder_id'' = JStr ''a1''" by (auto simp: map_eq_Cons_conv)
  have "advances mem_kv demo_env ''ann'' ''t1'' (pd_plan_id draft) 2 c' = map (\<lambda>k. Inr (if k < length bs
      then Some (dict_set ''sequence_index'' (JInt (int k)) (jdict (sequence_candidate (be_cnp small_builder) (bs ! k)))) else None)) [1..<Suc 2]"
    by (rule reforwarding_follows_ranking[OF mem.kv_collection_axioms b bs_def]) (simp add: two)
  then show ?thesis
    using b b1 by (simp add: two upt_rec sequence_candidate_def)
qed

text \<open>C38. The markers of the market stay valid: with bounds \<open>0 \<le> min \<le> max\<close> and a decay factor of at most one, a
  store whose affordance markers can all be validated and have an intensity between the bounds keeps this
  property in every state reachable by pheromone runs, plan building, plan revisions, re-forwarding and registry
  operations in any order.\<close>

theorem market_markers_valid:
  assumes "kv_collection kv" and "sound_bounds ph" and "markers_fine kv ph c"
    and "(market_step kv ops ph)\<^sup>*\<^sup>* (c, registry, runs) (c', registry', runs')"
  shows "markers_fine kv ph c'"
  using kv_collection.market_reachable[OF assms(1,4,2)] assms(3) by simp

theorem market_markers_valid_witness:
  "\<exists>c'. (market_step mem_kv mem_docs (load_phero_config phero_env))\<^sup>*\<^sup>* (one_marker, None, None) (c', None, None) \<and>
     markers_fine mem_kv (load_phero_config phero_env) c'"
proof -
  obtain r c' where "run_pheromone mem_kv phero_env phero_cnp (\<lambda>n. ''m'') None 300 [(''username'', JStr ''ann'')] (Some one_marker) None =
      Inr (r, Some c', None)" using decay_example by blast
  from market_step.feedback[OF refl this]
  have "(market_step mem_kv mem_docs (load_phero_config phero_env))\<^sup>*\<^sup>* (one_marker, None, None) (c', None, None)" by blast
  moreover have "sound_bounds (load_phero_config phero_env)" by (simp add: sound_bounds_def phero_env_config)
  ultimately show ?thesis using market_markers_valid[OF mem.kv_collection_axioms _ one_marker_fine] by blast
qed

end
